(* ===== verification/Prelude.thy ===== *)
theory Prelude
  imports Main "HOL-Library.Word"
begin

unbundle bit_operations_syntax

section \<open>Prelude: machine types, byte order, decimal text, shared lemmas\<close>

text \<open>
  What every component of the development shares: the names of the C++ integer types, the byte
  layout of multi-byte fields (the packets of the Moonlight protocol mix little- and big-endian
  fields), \<open>std::to_string\<close> and \<open>std::stoul\<close> on decimal text, the collections of
  rewrite rules, and generic facts on lists that several components use.

  A \<open>std::string\<close> is a \<open>string\<close> (a list of bytes, as in C++), a memory buffer is a
  \<open>u8 list\<close>. Unsigned fixed-width integers are words, so that \<open>+\<close> and \<open>*\<close> wrap
  around as they do in C++.
\<close>

type_synonym u8 = "8 word"
type_synonym u16 = "16 word"
type_synonym u32 = "32 word"
type_synonym u64 = "64 word"
type_synonym bytes = "u8 list"

named_theorems wire \<open>layout of structs in memory: encoders, decoders and their lengths\<close>
named_theorems frame \<open>which state components an operation leaves alone\<close>

subsection \<open>Lists\<close>

definition oget :: "'a list \<Rightarrow> nat \<Rightarrow> 'a option" where
  "oget xs i = (if i < length xs then Some (xs ! i) else None)"

lemma oget_Some_iff: "oget xs i = Some x \<longleftrightarrow> i < length xs \<and> xs ! i = x"
  by (auto simp: oget_def)

lemma oget_None_iff: "oget xs i = None \<longleftrightarrow> length xs \<le> i"
  by (auto simp: oget_def)

lemma map_sum_eq_Inr [simp]: "map_sum f g x = Inr y \<longleftrightarrow> (\<exists>z. x = Inr z \<and> y = g z)"
  by (cases x) auto

lemma map_sum_eq_Inl [simp]: "map_sum f g x = Inl y \<longleftrightarrow> (\<exists>z. x = Inl z \<and> y = f z)"
  by (cases x) auto

text \<open>A list of results that all succeeded.\<close>

lemma those_map_Some_in: "\<lbrakk>those (map f xs) = Some ys; y \<in> set ys\<rbrakk> \<Longrightarrow> \<exists>x \<in> set xs. f x = Some y"
  by (induction xs arbitrary: ys) (auto split: option.splits)

lemma those_map_inverse:
  assumes "those (map f ts) = Some xs" "\<And>t x. f t = Some x \<Longrightarrow> f (g x) = Some (h x)"
  shows "those (map f (map g xs)) = Some (map h xs)"
  using assms(1)
proof (induction ts arbitrary: xs)
  case (Cons t ts)
  then obtain y ys where "f t = Some y" "those (map f ts) = Some ys" "xs = y # ys"
    by (auto split: option.splits)
  with Cons.IH assms(2) show ?case by simp
qed simp

lemma find_append:
  "List.find P (xs @ ys) = (case List.find P xs of None \<Rightarrow> List.find P ys | Some x \<Rightarrow> Some x)"
  by (induction xs) auto

lemma find_Some_in: "List.find P xs = Some x \<Longrightarrow> x \<in> set xs \<and> P x"
  by (induction xs) (auto split: if_splits)

lemma find_None_all: "List.find P xs = None \<longleftrightarrow> (\<forall>x \<in> set xs. \<not> P x)"
  by (induction xs) auto

lemma find_code:
  assumes "inj f" "\<And>x. x \<in> set xs"
  shows "List.find (\<lambda>x. f x = w) xs = Some p \<longleftrightarrow> w = f p"
proof
  assume "List.find (\<lambda>x. f x = w) xs = Some p"
  then show "w = f p" by (auto dest: find_Some_in)
next
  assume w: "w = f p"
  then have "List.find (\<lambda>x. f x = w) xs \<noteq> None"
    using assms(2) by (auto simp: find_None_all)
  then obtain q where q: "List.find (\<lambda>x. f x = w) xs = Some q" by auto
  then have "f q = f p" using w by (auto dest: find_Some_in)
  with assms(1) q show "List.find (\<lambda>x. f x = w) xs = Some p" by (simp add: inj_eq)
qed

lemma inj_of_distinct: "\<lbrakk>distinct (map f xs); \<And>x. x \<in> set xs\<rbrakk> \<Longrightarrow> inj f"
  by (metis UNIV_I distinct_map inj_onI inj_on_def)

lemma find_filter_neg:
  "(\<And>x. Q x \<Longrightarrow> \<not> P x) \<Longrightarrow> List.find Q (filter (\<lambda>x. \<not> P x) xs) = List.find Q xs"
  by (induction xs) auto

lemma filter_id_conv_all: "(\<And>x. x \<in> set xs \<Longrightarrow> P x) \<Longrightarrow> filter P xs = xs"
  by (induction xs) auto

lemma map_upt_shift: "map f [n..<n + m] = map (\<lambda>i. f (n + i)) [0..<m]"
  by (rule nth_equalityI) auto

subsection \<open>Byte order\<close>

text \<open>
  The target is little-endian: a struct field is its bytes from the least significant one,
  \<open>boost::endian::native_to_little\<close> is the identity and \<open>native_to_big\<close> reverses the
  bytes of its argument.
\<close>

definition le16 :: "u16 \<Rightarrow> bytes" where
  "le16 w = [ucast w, ucast (drop_bit 8 w)]"

definition le32 :: "u32 \<Rightarrow> bytes" where
  "le32 w = [ucast w, ucast (drop_bit 8 w), ucast (drop_bit 16 w), ucast (drop_bit 24 w)]"

definition get16 :: "u8 \<Rightarrow> u8 \<Rightarrow> u16" where
  "get16 a b = ucast a OR push_bit 8 (ucast b)"

definition get32 :: "u8 \<Rightarrow> u8 \<Rightarrow> u8 \<Rightarrow> u8 \<Rightarrow> u32" where
  "get32 a b c d =
     ucast a OR push_bit 8 (ucast b) OR push_bit 16 (ucast c) OR push_bit 24 (ucast d)"

definition swap16 :: "u16 \<Rightarrow> u16" where
  "swap16 w = get16 (ucast (drop_bit 8 w)) (ucast w)"

definition swap32 :: "u32 \<Rightarrow> u32" where
  "swap32 w = get32 (ucast (drop_bit 24 w)) (ucast (drop_bit 16 w)) (ucast (drop_bit 8 w)) (ucast w)"

lemma length_le16 [wire, simp]: "length (le16 w) = 2"
  by (simp add: le16_def)

lemma length_le32 [wire, simp]: "length (le32 w) = 4"
  by (simp add: le32_def)

lemma bit_u8_ge: "8 \<le> n \<Longrightarrow> \<not> bit (a :: u8) n"
  using bit_imp_le_length [of a n] by auto

lemma get16_le16 [wire, simp]: "get16 (ucast w) (ucast (drop_bit 8 w)) = (w :: u16)"
  by (rule bit_word_eqI) (auto simp: get16_def bit_simps)

lemma get32_le32 [wire, simp]:
  "get32 (ucast w) (ucast (drop_bit 8 w)) (ucast (drop_bit 16 w)) (ucast (drop_bit 24 w)) = (w :: u32)"
proof (rule bit_word_eqI)
  fix n assume "n < LENGTH(32)"
  then consider "n < 8" | "8 \<le> n" "n < 16" | "16 \<le> n" "n < 24" | "24 \<le> n" "n < 32"
    by fastforce
  then show "bit (get32 (ucast w) (ucast (drop_bit 8 w)) (ucast (drop_bit 16 w)) (ucast (drop_bit 24 w))) n =
      bit w n"
    by cases (auto simp: get32_def bit_simps)
qed

lemma le16_get16 [wire]: "le16 (get16 a b) = [a, b]"
  by (auto simp: le16_def get16_def bit_simps bit_u8_ge intro!: bit_word_eqI)

lemma le32_get32 [wire]: "le32 (get32 a b c d) = [a, b, c, d]"
  by (auto simp: le32_def get32_def bit_simps bit_u8_ge intro!: bit_word_eqI)

lemma le16_inject [wire, simp]: "le16 v = le16 w \<longleftrightarrow> v = w"
proof
  assume "le16 v = le16 w"
  then have "get16 (ucast v) (ucast (drop_bit 8 v)) = get16 (ucast w) (ucast (drop_bit 8 w))"
    by (simp add: le16_def)
  then show "v = w" by simp
qed simp

lemma le32_inject [wire, simp]: "le32 v = le32 w \<longleftrightarrow> v = w"
proof
  assume "le32 v = le32 w"
  then have "get32 (ucast v) (ucast (drop_bit 8 v)) (ucast (drop_bit 16 v)) (ucast (drop_bit 24 v)) =
      get32 (ucast w) (ucast (drop_bit 8 w)) (ucast (drop_bit 16 w)) (ucast (drop_bit 24 w))"
    by (simp add: le32_def)
  then show "v = w" by simp
qed simp

lemma le16_nth [wire]: "ucast (get16 a b) = a" "ucast (drop_bit 8 (get16 a b)) = b"
  using le16_get16 [of a b] by (simp_all add: le16_def)

lemma le32_nth [wire]:
  "ucast (get32 a b c d) = a" "ucast (drop_bit 8 (get32 a b c d)) = b"
  "ucast (drop_bit 16 (get32 a b c d)) = c" "ucast (drop_bit 24 (get32 a b c d)) = d"
  using le32_get32 [of a b c d] by (simp_all add: le32_def)

lemma swap16_swap16 [simp]: "swap16 (swap16 w) = w"
  by (simp add: swap16_def le16_nth)

lemma swap32_swap32 [simp]: "swap32 (swap32 w) = w"
  by (simp add: swap32_def le32_nth)

lemma swap16_inject [simp]: "swap16 v = swap16 w \<longleftrightarrow> v = w"
proof
  assume "swap16 v = swap16 w"
  then have "swap16 (swap16 v) = swap16 (swap16 w)" by simp
  then show "v = w" by simp
qed simp

lemma swap32_inject [simp]: "swap32 v = swap32 w \<longleftrightarrow> v = w"
proof
  assume "swap32 v = swap32 w"
  then have "swap32 (swap32 v) = swap32 (swap32 w)" by simp
  then show "v = w" by simp
qed simp

text \<open>
  Reading a field at an offset of a received buffer, as the code does through a pointer cast to
  a packed struct: a read past the end of the buffer is \<open>None\<close>.
\<close>

definition rd16 :: "bytes \<Rightarrow> nat \<Rightarrow> u16 option" where
  "rd16 m i = (if i + 2 \<le> length m then Some (get16 (m ! i) (m ! (i + 1))) else None)"

definition rd32 :: "bytes \<Rightarrow> nat \<Rightarrow> u32 option" where
  "rd32 m i = (if i + 4 \<le> length m
     then Some (get32 (m ! i) (m ! (i + 1)) (m ! (i + 2)) (m ! (i + 3))) else None)"

definition rdn :: "bytes \<Rightarrow> nat \<Rightarrow> nat \<Rightarrow> bytes option" where
  "rdn m i n = (if i + n \<le> length m then Some (take n (drop i m)) else None)"

lemma rd16_here [wire]: "rd16 (le16 w @ r) 0 = Some w"
  by (simp add: rd16_def le16_def)

lemma rd32_here [wire]: "rd32 (le32 w @ r) 0 = Some w"
  by (simp add: rd32_def le32_def)

lemma rdn_here [wire]: "length b = n \<Longrightarrow> rdn (b @ r) 0 n = Some b"
  by (simp add: rdn_def)

lemma rd16_skip [wire]: "length a \<le> i \<Longrightarrow> rd16 (a @ r) i = rd16 r (i - length a)"
  by (auto simp: rd16_def nth_append Suc_diff_le)

lemma rd32_skip [wire]: "length a \<le> i \<Longrightarrow> rd32 (a @ r) i = rd32 r (i - length a)"
  by (auto simp: rd32_def nth_append Suc_diff_le)

lemma rdn_skip [wire]: "length a \<le> i \<Longrightarrow> rdn (a @ r) i n = rdn r (i - length a) n"
  by (auto simp: rdn_def)

text \<open>
  A fixed-size message: its encoder, its decoder and its size. What a client of the format may
  rely on is proved once here and holds for every header of the protocol.
\<close>

locale wire_format =
  fixes encode :: "'a \<Rightarrow> bytes" and decode :: "bytes \<Rightarrow> 'a option" and width :: nat and ok :: "'a \<Rightarrow> bool"
  assumes decode_encode: "ok x \<Longrightarrow> decode (encode x @ rest) = Some x"
    and length_encode: "ok x \<Longrightarrow> length (encode x) = width"
begin

lemma encode_inject: "\<lbrakk>ok x; ok y; encode x = encode y\<rbrakk> \<Longrightarrow> x = y"
  using decode_encode [of x "[]"] decode_encode [of y "[]"] by simp

lemma encode_prefix_inject: "\<lbrakk>ok x; ok y; encode x @ r = encode y @ s\<rbrakk> \<Longrightarrow> x = y \<and> r = s"
proof -
  assume ok: "ok x" "ok y" and eq: "encode x @ r = encode y @ s"
  have "Some x = Some y" using decode_encode [OF ok(1), of r] decode_encode [OF ok(2), of s] eq by metis
  with eq show ?thesis by simp
qed

lemma payload_after: "ok x \<Longrightarrow> drop width (encode x @ rest) = rest"
  by (simp add: length_encode)

lemma stream_inject:
  "\<lbrakk>\<forall>x \<in> set xs. ok x; \<forall>y \<in> set ys. ok y; 0 < width;
    concat (map encode xs) = concat (map encode ys)\<rbrakk> \<Longrightarrow> xs = ys"
proof (induction xs arbitrary: ys)
  case Nil
  show ?case
  proof (cases ys)
    case (Cons y ys')
    with Nil have "encode y = []" "ok y" by auto
    with length_encode [of y] Nil(3) show ?thesis by simp
  qed simp
next
  case (Cons x xs)
  then obtain y ys' where ys: "ys = y # ys'"
    using length_encode [of x] by (cases ys) auto
  with Cons.prems have "x = y \<and> concat (map encode xs) = concat (map encode ys')"
    by (intro encode_prefix_inject) auto
  with ys Cons.IH [of ys'] Cons.prems show ?case by simp
qed

end

subsection \<open>Characters and bytes\<close>

definition byte_of :: "char \<Rightarrow> u8" where
  "byte_of c = of_nat (of_char c)"

definition char_of_byte :: "u8 \<Rightarrow> char" where
  "char_of_byte b = char_of (unat b)"

lemma char_of_byte_of [simp]: "char_of_byte (byte_of c) = c"
  by (simp add: char_of_byte_def byte_of_def unat_of_nat)

lemma byte_of_char_of_byte [simp]: "byte_of (char_of_byte b) = b"
proof -
  have "unat b < 256" using unsigned_less [of b] by simp
  then show ?thesis by (simp add: char_of_byte_def byte_of_def)
qed

lemma byte_of_inject [simp]: "byte_of c = byte_of d \<longleftrightarrow> c = d"
  by (metis char_of_byte_of)

definition str_bytes :: "string \<Rightarrow> bytes" where
  "str_bytes s = map byte_of s"

definition bytes_str :: "bytes \<Rightarrow> string" where
  "bytes_str b = map char_of_byte b"

lemma bytes_str_str_bytes [simp]: "bytes_str (str_bytes s) = s"
  by (simp add: str_bytes_def bytes_str_def comp_def)

lemma str_bytes_bytes_str [simp]: "str_bytes (bytes_str b) = b"
  by (simp add: str_bytes_def bytes_str_def comp_def)

lemma length_str_bytes [simp]: "length (str_bytes s) = length s"
  by (simp add: str_bytes_def)

lemma length_bytes_str [simp]: "length (bytes_str b) = length b"
  by (simp add: bytes_str_def)

subsection \<open>Decimal text\<close>

text \<open>\<open>std::to_string\<close> on unsigned and on signed integers.\<close>

definition digit :: "nat \<Rightarrow> char" where
  "digit d = char_of (48 + d)"

fun dec :: "nat \<Rightarrow> string" where
  "dec n = (if n < 10 then [digit n] else dec (n div 10) @ [digit (n mod 10)])"

declare dec.simps [simp del]

definition dec_int :: "int \<Rightarrow> string" where
  "dec_int i = (if i < 0 then CHR ''-'' # dec (nat (- i)) else dec (nat i))"

definition is_digit :: "char \<Rightarrow> bool" where
  "is_digit c \<longleftrightarrow> 48 \<le> (of_char c :: nat) \<and> (of_char c :: nat) \<le> 57"

definition digit_val :: "char \<Rightarrow> nat" where
  "digit_val c = of_char c - 48"

definition undec :: "string \<Rightarrow> nat" where
  "undec s = foldl (\<lambda>n c. 10 * n + digit_val c) 0 s"

lemma of_char_digit [simp]: "d < 10 \<Longrightarrow> (of_char (digit d) :: nat) = 48 + d"
  by (simp add: digit_def)

lemma is_digit_digit [simp]: "d < 10 \<Longrightarrow> is_digit (digit d)"
  by (simp add: is_digit_def)

lemma digit_val_digit [simp]: "d < 10 \<Longrightarrow> digit_val (digit d) = d"
  by (simp add: digit_val_def)

lemma dec_nonempty [simp]: "dec n \<noteq> []"
  by (subst dec.simps) simp

lemma dec_digits: "c \<in> set (dec n) \<Longrightarrow> is_digit c"
proof (induction n rule: dec.induct)
  case (1 n)
  then show ?case by (subst (asm) (2) dec.simps) (auto split: if_splits)
qed

lemma undec_dec [simp]: "undec (dec n) = n"
proof (induction n rule: dec.induct)
  case (1 n)
  show ?case
  proof (cases "n < 10")
    case True
    then show ?thesis by (subst dec.simps) (simp add: undec_def)
  next
    case False
    with 1 have "undec (dec (n div 10)) = n div 10" by simp
    with False show ?thesis by (subst dec.simps) (simp add: undec_def)
  qed
qed

lemma dec_inject [simp]: "dec m = dec n \<longleftrightarrow> m = n"
proof
  assume "dec m = dec n"
  then have "undec (dec m) = undec (dec n)" by simp
  then show "m = n" by simp
qed simp

text \<open>
  \<open>std::stoi\<close> and \<open>std::stoul\<close>: skip white space, read an optional sign and the longest
  run of digits, ignore what follows; \<open>std::invalid_argument\<close> when there is no digit,
  \<open>std::out_of_range\<close> when the value does not fit. \<open>stoul\<close> negates in the unsigned
  type, as \<open>strtoul\<close> does.
\<close>

datatype num_error = Invalid_argument | Out_of_range

definition is_space :: "char \<Rightarrow> bool" where
  "is_space c \<longleftrightarrow> (of_char c :: nat) \<in> {32, 9, 10, 11, 12, 13}"

definition read_number :: "string \<Rightarrow> (bool \<times> nat) option" where
  "read_number s =
     (let s1 = dropWhile is_space s;
          neg = (case s1 of c # _ \<Rightarrow> c = CHR ''-'' | [] \<Rightarrow> False);
          s2 = (case s1 of c # r \<Rightarrow> if c = CHR ''-'' \<or> c = CHR ''+'' then r else s1 | [] \<Rightarrow> []);
          ds = takeWhile is_digit s2
      in if ds = [] then None else Some (neg, undec ds))"

definition stoi :: "string \<Rightarrow> num_error + int" where
  "stoi s = (case read_number s of
       None \<Rightarrow> Inl Invalid_argument
     | Some (neg, n) \<Rightarrow>
         let v = (if neg then - int n else int n)
         in if - (2 ^ 31) \<le> v \<and> v < 2 ^ 31 then Inr v else Inl Out_of_range)"

definition stoul :: "string \<Rightarrow> num_error + nat" where
  "stoul s = (case read_number s of
       None \<Rightarrow> Inl Invalid_argument
     | Some (neg, n) \<Rightarrow>
         if n < 2 ^ 64 then Inr (if neg then (2 ^ 64 - n) mod 2 ^ 64 else n) else Inl Out_of_range)"

lemma digit_not_space: "is_digit c \<Longrightarrow> \<not> is_space c"
  by (auto simp: is_digit_def is_space_def)

lemma digit_not_sign: "is_digit c \<Longrightarrow> c \<noteq> CHR ''-'' \<and> c \<noteq> CHR ''+''"
  by (auto simp: is_digit_def)

lemma read_number_dec [simp]: "read_number (dec n) = Some (False, n)"
proof -
  obtain c r where cr: "dec n = c # r" by (cases "dec n") auto
  then have "is_digit c" using dec_digits [of c n] by simp
  then have "\<not> is_space c" "c \<noteq> CHR ''-''" "c \<noteq> CHR ''+''"
    by (auto simp: digit_not_space dest: digit_not_sign)
  moreover have "takeWhile is_digit (dec n) = dec n"
    using dec_digits by (simp add: takeWhile_eq_all_conv)
  ultimately show ?thesis
    using cr undec_dec [of n] by (simp add: read_number_def Let_def)
qed

lemma stoul_dec [simp]: "n < 2 ^ 64 \<Longrightarrow> stoul (dec n) = Inr n"
  by (simp add: stoul_def)

lemma stoi_dec [simp]: "n < 2 ^ 31 \<Longrightarrow> stoi (dec n) = Inr (int n)"
  by (simp add: stoi_def)

end
