(* ===== verification/Helpers.thy ===== *)
theory Helpers
  imports Prelude
begin

section \<open>Helpers: src/src/core/src/platforms/all/helpers/helpers\<close>

text \<open>
  The string and container helpers of \<open>utils.hpp\<close> and the thread-safe queue of
  \<open>tsqueue.hpp\<close>. The two path guards (\<open>sanitize_path_component\<close> and
  \<open>is_safe_state_folder\<close>) decide which client-supplied names reach the file system and
  docker, \<open>hash\<close> is the dispatch of every \<open>switch\<close> on a string, and
  \<open>base64_encode\<close> is compared with the grouping of RFC 4648.
\<close>

subsection \<open>String hash used to switch on strings\<close>

text \<open>
  \<open>e\<close> is a \<open>char\<close>, signed on the targets of the code: it is sign-extended before
  the 32-bit addition.
\<close>

definition hash_step :: "u32 \<Rightarrow> char \<Rightarrow> u32" where
  "hash_step h e = (push_bit 5 h + h) + scast (byte_of e)"

definition hash :: "string \<Rightarrow> u32" where
  "hash data = foldl hash_step 5385 data"

lemma hash_step_33: "hash_step h e = 33 * h + scast (byte_of e)"
  by (simp add: hash_step_def push_bit_eq_mult)

lemma hash_append: "hash (xs @ ys) = foldl hash_step (hash xs) ys"
  by (simp add: hash_def)

subsection \<open>Searching and cutting strings\<close>

text \<open>
  \<open>std::string_view::find(c, pos)\<close> as an option (\<open>None\<close> is \<open>npos\<close>);
  \<open>substr\<close> throws when the position is past the end.
\<close>

definition find_char :: "string \<Rightarrow> char \<Rightarrow> nat \<Rightarrow> nat option" where
  "find_char s c p = List.find (\<lambda>i. s ! i = c) [p..<length s]"

lemma find_char_SomeD:
  assumes "find_char s c p = Some e"
  shows "p \<le> e \<and> e < length s \<and> s ! e = c \<and> (\<forall>i. p \<le> i \<and> i < e \<longrightarrow> s ! i \<noteq> c)"
proof -
  from assms have "\<exists>k < length s - p. [p..<length s] ! k = e \<and> s ! e = c \<and>
      (\<forall>j < k. s ! ([p..<length s] ! j) \<noteq> c)"
    by (auto simp: find_char_def find_Some_iff)
  then obtain k where k: "k < length s - p" "e = p + k" "s ! e = c" "\<forall>j < k. s ! (p + j) \<noteq> c"
    by auto
  have "s ! i \<noteq> c" if "p \<le> i" "i < e" for i
    using k(2,4) that by (metis le_add_diff_inverse nat_add_left_cancel_less)
  with k show ?thesis by auto
qed

lemma find_char_None: "find_char s c p = None \<longleftrightarrow> (\<forall>i. p \<le> i \<and> i < length s \<longrightarrow> s ! i \<noteq> c)"
  by (auto simp: find_char_def find_None_iff)

text \<open>
  The arithmetic on the two positions is on \<open>std::size_t\<close>: it wraps modulo \<open>2^64\<close>
  when a delimiter is missing.
\<close>

definition npos :: int where
  "npos = 2 ^ 64 - 1"

definition sub_string :: "string \<Rightarrow> char \<Rightarrow> char \<Rightarrow> num_error + string" where
  "sub_string str b e =
     (let s = (case find_char str b 0 of None \<Rightarrow> npos | Some i \<Rightarrow> int i);
          e' = (if s > int (length str) then npos
                else case find_char str e (nat s) of None \<Rightarrow> npos | Some i \<Rightarrow> int i);
          pos = (s + 1) mod 2 ^ 64;
          n = (e' - s - 1) mod 2 ^ 64
      in if pos > int (length str) then Inl Out_of_range
         else Inr (if n > int (length str) then drop (nat pos) str
                   else take (nat n) (drop (nat pos) str)))"

subsection \<open>Path guards\<close>

definition illegal_path_char :: "char \<Rightarrow> bool" where
  "illegal_path_char c \<longleftrightarrow>
     c = CHR ''/'' \<or> c = CHR 0x5C \<or> c = CHR '':'' \<or> (of_char c :: nat) < 0x20 \<or> (of_char c :: nat) = 0x7f"

definition sanitize_path_component :: "string \<Rightarrow> string" where
  "sanitize_path_component name =
     (let result = map (\<lambda>c. if illegal_path_char c then CHR ''_'' else c) name
      in if result = [] \<or> result = ''.'' \<or> result = ''..'' then CHR ''_'' # result else result)"

text \<open>The loop of \<open>is_safe_state_folder\<close>, on the index \<open>start\<close> it advances.\<close>

function safe_segments :: "string \<Rightarrow> nat \<Rightarrow> bool" where
  "safe_segments path start =
     (if start \<le> length path then
        (case find_char path (CHR ''/'') start of
           None \<Rightarrow> drop start path \<noteq> ''..''
         | Some e \<Rightarrow>
             if take (e - start) (drop start path) = ''..'' then False
             else safe_segments path (e + 1))
      else True)"
  by pat_completeness auto
termination
  by (relation "measure (\<lambda>(path, start). Suc (length path) - start)")
    (auto dest: find_char_SomeD)

declare safe_segments.simps [simp del]

definition is_safe_state_folder :: "string \<Rightarrow> bool" where
  "is_safe_state_folder path =
     (if path = [] \<or> hd path = CHR ''/'' \<or> find_char path (CHR '':'') 0 \<noteq> None then False
      else safe_segments path 0)"

text \<open>
  What the guard is for: the segments of a path, and the walk of a path from a base
  directory, where \<open>..\<close> goes up (the file system's reading).
\<close>

fun segments :: "string \<Rightarrow> string list" where
  "segments [] = [[]]"
| "segments (c # s) =
     (if c = CHR ''/'' then [] # segments s
      else (case segments s of [] \<Rightarrow> [[c]] | g # gs \<Rightarrow> (c # g) # gs))"

fun walk :: "string list \<Rightarrow> string list \<Rightarrow> string list" where
  "walk dir [] = dir"
| "walk dir (g # gs) =
     (if g = [] \<or> g = ''.'' then walk dir gs
      else if g = ''..'' then walk (butlast dir) gs
      else walk (dir @ [g]) gs)"

lemma segments_nonempty [simp]: "segments s \<noteq> []"
  by (induction s) (auto split: list.splits)

lemma segments_no_slash: "CHR ''/'' \<notin> set s \<Longrightarrow> segments s = [s]"
  by (induction s) auto

lemma segments_split: "CHR ''/'' \<notin> set a \<Longrightarrow> segments (a @ CHR ''/'' # b) = a # segments b"
  by (induction a) auto

lemma not_in_set_take_drop:
  assumes "\<forall>i. p \<le> i \<and> i < e \<longrightarrow> s ! i \<noteq> c" "e \<le> length s"
  shows "c \<notin> set (take (e - p) (drop p s))"
  using assms by (auto simp: in_set_conv_nth)

lemma safe_segments_iff:
  "start \<le> length path \<Longrightarrow> safe_segments path start \<longleftrightarrow> ''..'' \<notin> set (segments (drop start path))"
proof (induction path start rule: safe_segments.induct)
  case (1 path start)
  show ?case
  proof (cases "find_char path (CHR ''/'') start")
    case None
    then have "CHR ''/'' \<notin> set (drop start path)"
      using not_in_set_take_drop [of start "length path" path "CHR ''/''"] by (simp add: find_char_None)
    then have "segments (drop start path) = [drop start path]" by (rule segments_no_slash)
    with None "1.prems" show ?thesis by (subst safe_segments.simps) auto
  next
    case (Some e)
    let ?seg = "take (e - start) (drop start path)"
    from find_char_SomeD [OF Some] have e: "start \<le> e" "e < length path" "path ! e = CHR ''/''"
      and before: "\<forall>i. start \<le> i \<and> i < e \<longrightarrow> path ! i \<noteq> CHR ''/''"
      by auto
    have no: "CHR ''/'' \<notin> set ?seg"
      using not_in_set_take_drop [OF before] e by simp
    have "drop start path = ?seg @ drop e path"
      using e by (metis append_take_drop_id drop_drop le_add_diff_inverse2)
    also have "drop e path = CHR ''/'' # drop (e + 1) path"
      using e by (metis Cons_nth_drop_Suc Suc_eq_plus1)
    finally have seg: "segments (drop start path) = ?seg # segments (drop (e + 1) path)"
      by (metis segments_split [OF no])
    show ?thesis
    proof (cases "?seg = ''..''")
      case True
      with Some "1.prems" seg show ?thesis by (subst safe_segments.simps) simp
    next
      case False
      with "1.IH" [OF "1.prems" Some] e have "safe_segments path (e + 1) \<longleftrightarrow>
          ''..'' \<notin> set (segments (drop (e + 1) path))" by simp
      with Some False "1.prems" seg show ?thesis by (subst safe_segments.simps) auto
    qed
  qed
qed

lemma walk_no_dotdot: "''..'' \<notin> set gs \<Longrightarrow> \<exists>ds. walk dir gs = dir @ ds"
  by (induction gs arbitrary: dir) (auto, metis append_assoc)

lemma is_safe_iff:
  "is_safe_state_folder p \<longleftrightarrow>
     p \<noteq> [] \<and> hd p \<noteq> CHR ''/'' \<and> CHR '':'' \<notin> set p \<and> ''..'' \<notin> set (segments p)"
proof -
  have "find_char p (CHR '':'') 0 \<noteq> None \<longleftrightarrow> CHR '':'' \<in> set p"
    by (auto simp: find_char_None in_set_conv_nth)
  then show ?thesis
    using safe_segments_iff [of 0 p] by (auto simp: is_safe_state_folder_def)
qed

lemma sanitize_chars:
  "c \<in> set (sanitize_path_component name) \<Longrightarrow> \<not> illegal_path_char c"
  by (auto simp: sanitize_path_component_def Let_def illegal_path_char_def split: if_splits)

lemma sanitize_not_special:
  "sanitize_path_component name \<notin> {[], ''.'', ''..''}"
  by (auto simp: sanitize_path_component_def Let_def)

subsection \<open>Base64\<close>

text \<open>
  \<open>val\<close> is an \<open>int\<close> that the loop shifts left without ever clearing it: its high
  bits run over (C++20 defines the shift modulo \<open>2^32\<close>), only the low bits are read.
\<close>

definition b64_table :: string where
  "b64_table = ''ABCDEFGHIJKLMNOPQRSTUVWXYZabcdefghijklmnopqrstuvwxyz0123456789+/''"

definition b64_char :: "u32 \<Rightarrow> char" where
  "b64_char w = b64_table ! unat (w AND 0x3F)"

function b64_emit :: "u32 \<Rightarrow> int \<Rightarrow> string \<Rightarrow> int \<times> string" where
  "b64_emit val valb out =
     (if valb \<ge> 0
      then b64_emit val (valb - 6) (out @ [b64_char (signed_drop_bit (nat valb) val)])
      else (valb, out))"
  by pat_completeness auto
termination
  by (relation "measure (\<lambda>(val, valb, out). nat (valb + 6))") auto

declare b64_emit.simps [simp del]

fun b64_loop :: "bytes \<Rightarrow> u32 \<Rightarrow> int \<Rightarrow> string \<Rightarrow> u32 \<times> int \<times> string" where
  "b64_loop [] val valb out = (val, valb, out)"
| "b64_loop (c # cs) val valb out =
     (let val' = push_bit 8 val + ucast c; (valb', out') = b64_emit val' (valb + 8) out
      in b64_loop cs val' valb' out')"

definition b64_pad :: "string \<Rightarrow> string" where
  "b64_pad out = out @ replicate ((4 - length out mod 4) mod 4) (CHR ''='')"

definition base64_encode :: "string \<Rightarrow> string" where
  "base64_encode s =
     (let (val, valb, out) = b64_loop (str_bytes s) 0 (-6) [];
          out' = (if valb > -6
                  then out @ [b64_char (signed_drop_bit (nat (valb + 8)) (push_bit 8 val))] else out)
      in b64_pad out')"

text \<open>The encoding of RFC 4648: groups of three bytes give four characters.\<close>

definition b64_sym :: "nat \<Rightarrow> char" where
  "b64_sym n = b64_table ! (n mod 64)"

fun base64_ref :: "nat list \<Rightarrow> string" where
  "base64_ref [] = []"
| "base64_ref [a] = [b64_sym (a div 4), b64_sym (a * 16), CHR ''='', CHR ''='']"
| "base64_ref [a, b] = [b64_sym (a div 4), b64_sym (a * 16 + b div 16), b64_sym (b * 4), CHR ''='']"
| "base64_ref (a # b # c # r) =
     [b64_sym (a div 4), b64_sym (a * 16 + b div 16), b64_sym (b * 4 + c div 64), b64_sym c] @
     base64_ref r"

lemma b64_char_sym:
  assumes "k \<le> 26" and n: "unat w = n mod 2 ^ 32"
  shows "b64_char (signed_drop_bit k w) = b64_sym (n div 2 ^ k)"
proof -
  have "signed_drop_bit k w AND 0x3F = drop_bit k w AND (0x3F :: u32)"
  proof -
    have m: "(0x3F :: u32) = mask 6" by (simp add: mask_eq_exp_minus_1)
    show ?thesis
      unfolding m using \<open>k \<le> 26\<close> by (intro bit_word_eqI) (auto simp: bit_simps)
  qed
  moreover have "unat (drop_bit k w AND (0x3F :: u32)) = (n div 2 ^ k) mod 64"
  proof -
    have k6: "min 6 (32 - k) = 6" using \<open>k \<le> 26\<close> by simp
    have "drop_bit k w AND (0x3F :: u32) = take_bit 6 (drop_bit k w)"
      by (simp add: take_bit_eq_mask mask_eq_exp_minus_1)
    moreover have "unat (take_bit 6 (drop_bit k w)) = take_bit 6 (drop_bit k (unat w))"
      using k6 by (simp add: unsigned_take_bit_eq unsigned_drop_bit_eq drop_bit_take_bit)
    moreover have "unat w = take_bit 32 n"
      using n by (simp add: take_bit_eq_mod)
    ultimately have "unat (drop_bit k w AND (0x3F :: u32)) = take_bit 6 (drop_bit k (take_bit 32 n))"
      by metis
    also have "\<dots> = take_bit 6 (drop_bit k n)"
      using k6 by (simp add: drop_bit_take_bit)
    finally show ?thesis by (simp add: take_bit_eq_mod drop_bit_eq_div)
  qed
  ultimately show ?thesis by (simp add: b64_char_def b64_sym_def)
qed

lemma b64_shift_in:
  assumes "unat (w :: u32) = n mod 2 ^ 32"
  shows "unat (push_bit 8 w + ucast (c :: u8)) = (n * 256 + unat c) mod 2 ^ 32"
proof -
  have "unat c < 256" using unsigned_less [of c] by simp
  then show ?thesis
    using assms by (simp add: unat_word_ariths push_bit_eq_mult unsigned_ucast_eq take_bit_eq_mod mod_simps mult.commute)
qed

lemma b64_emit_neg: "valb < 0 \<Longrightarrow> b64_emit v valb out = (valb, out)"
  by (subst b64_emit.simps) simp

lemma b64_emit_once:
  "\<lbrakk>0 \<le> valb; valb < 6\<rbrakk> \<Longrightarrow>
     b64_emit v valb out = (valb - 6, out @ [b64_char (signed_drop_bit (nat valb) v)])"
  by (subst b64_emit.simps) (simp add: b64_emit_neg)

lemma b64_emit_twice:
  "\<lbrakk>6 \<le> valb; valb < 12\<rbrakk> \<Longrightarrow>
     b64_emit v valb out =
       (valb - 12, out @ [b64_char (signed_drop_bit (nat valb) v), b64_char (signed_drop_bit (nat (valb - 6)) v)])"
  by (subst b64_emit.simps) (simp add: b64_emit_once)

lemma b64_sym_add: "b64_sym (m * 64 + x) = b64_sym x"
  by (simp add: b64_sym_def)

text \<open>The six bits each character shows, once the running value has \<open>n\<close> above them.\<close>

lemma b64_sextets:
  "b64_sym ((n * 256 + a) div 4) = b64_sym (a div 4)"
  "b64_sym ((n * 256 + a) * 256 div 16) = b64_sym (a * 16)"
  "b64_sym (((n * 256 + a) * 256 + b) div 16) = b64_sym (a * 16 + b div 16)"
  "b64_sym (((n * 256 + a) * 256 + b) * 256 div 64) = b64_sym (b * 4)"
  "b64_sym ((((n * 256 + a) * 256 + b) * 256 + c) div 64) = b64_sym (b * 4 + c div 64)"
  "b64_sym (((n * 256 + a) * 256 + b) * 256 + c) = b64_sym c"
proof -
  have "(n * 256 + a) div 4 = n * 64 + a div 4"
    and "(n * 256 + a) * 256 div 16 = (n * 64) * 64 + a * 16"
    and "((n * 256 + a) * 256 + b) div 16 = (n * 64) * 64 + (a * 16 + b div 16)"
    and "((n * 256 + a) * 256 + b) * 256 div 64 = (n * 4096 + a * 16) * 64 + b * 4"
    and "(((n * 256 + a) * 256 + b) * 256 + c) div 64 = (n * 4096 + a * 16) * 64 + (b * 4 + c div 64)"
    and "((n * 256 + a) * 256 + b) * 256 + c = (n * 262144 + a * 1024 + b * 4) * 64 + c"
    by arith+
  then show "b64_sym ((n * 256 + a) div 4) = b64_sym (a div 4)"
    and "b64_sym ((n * 256 + a) * 256 div 16) = b64_sym (a * 16)"
    and "b64_sym (((n * 256 + a) * 256 + b) div 16) = b64_sym (a * 16 + b div 16)"
    and "b64_sym (((n * 256 + a) * 256 + b) * 256 div 64) = b64_sym (b * 4)"
    and "b64_sym ((((n * 256 + a) * 256 + b) * 256 + c) div 64) = b64_sym (b * 4 + c div 64)"
    and "b64_sym (((n * 256 + a) * 256 + b) * 256 + c) = b64_sym c"
    by (simp_all only: b64_sym_add)
qed

lemma b64_pad_append: "length xs mod 4 = 0 \<Longrightarrow> b64_pad (xs @ ys) = xs @ b64_pad ys"
  by (simp add: b64_pad_def mod_add_left_eq [symmetric] del: mod_add_left_eq)

definition b64_finish :: "u32 \<times> int \<times> string \<Rightarrow> string" where
  "b64_finish r = (case r of (val, valb, out) \<Rightarrow>
     b64_pad (if valb > -6
              then out @ [b64_char (signed_drop_bit (nat (valb + 8)) (push_bit 8 val))] else out))"

lemma b64_loop_ref:
  "\<lbrakk>unat w = n mod 2 ^ 32; length out mod 4 = 0\<rbrakk> \<Longrightarrow>
     b64_finish (b64_loop cs w (-6) out) = out @ base64_ref (map unat cs)"
proof (induction "map unat cs" arbitrary: cs w n out rule: base64_ref.induct)
  case 1
  then show ?case by (simp add: b64_finish_def b64_pad_def)
next
  case (2 a)
  then obtain a' where cs: "cs = [a']" "a = unat a'" by auto
  let ?w1 = "push_bit 8 w + ucast a' :: u32"
  have w1: "unat ?w1 = (n * 256 + a) mod 2 ^ 32"
    using b64_shift_in [OF 2(2)] cs by simp
  have w1': "unat (push_bit 8 ?w1) = ((n * 256 + a) * 256) mod 2 ^ 32"
    using b64_shift_in [OF w1, of 0] by simp
  have "b64_char (signed_drop_bit 2 ?w1) = b64_sym (a div 4)"
    using b64_char_sym [OF _ w1, of 2] b64_sextets (1) [of n a] by simp
  moreover have "b64_char (signed_drop_bit 4 (push_bit 8 ?w1)) = b64_sym (a * 16)"
    using b64_char_sym [OF _ w1', of 4] b64_sextets (2) [of n a] by simp
  ultimately show ?case
    using 2(3) cs by (simp add: b64_finish_def b64_emit_once b64_pad_append) (simp add: b64_pad_def numeral_2_eq_2)
next
  case (3 a b)
  then obtain a' b' where cs: "cs = [a', b']" "a = unat a'" "b = unat b'" by auto
  let ?w1 = "push_bit 8 w + ucast a' :: u32"
  let ?w2 = "push_bit 8 ?w1 + ucast b' :: u32"
  have w1: "unat ?w1 = (n * 256 + a) mod 2 ^ 32"
    using b64_shift_in [OF 3(2)] cs by simp
  have w2: "unat ?w2 = ((n * 256 + a) * 256 + b) mod 2 ^ 32"
    using b64_shift_in [OF w1] cs by simp
  have w2': "unat (push_bit 8 ?w2) = (((n * 256 + a) * 256 + b) * 256) mod 2 ^ 32"
    using b64_shift_in [OF w2, of 0] by simp
  have "b64_char (signed_drop_bit 2 ?w1) = b64_sym (a div 4)"
    using b64_char_sym [OF _ w1, of 2] b64_sextets (1) [of n a] by simp
  moreover have "b64_char (signed_drop_bit 4 ?w2) = b64_sym (a * 16 + b div 16)"
    using b64_char_sym [OF _ w2, of 4] b64_sextets (3) [of n a b] by simp
  moreover have "b64_char (signed_drop_bit 6 (push_bit 8 ?w2)) = b64_sym (b * 4)"
    using b64_char_sym [OF _ w2', of 6] b64_sextets (4) [of n a b] by simp
  ultimately show ?case
    using 3(3) cs by (simp add: b64_finish_def b64_emit_once b64_pad_append) (simp add: b64_pad_def numeral_2_eq_2)
next
  case (4 a b c r)
  then obtain a' b' c' cs' where cs: "cs = a' # b' # c' # cs'"
    "a = unat a'" "b = unat b'" "c = unat c'" "r = map unat cs'"
    by (auto simp: map_eq_Cons_conv Cons_eq_map_conv)
  let ?w1 = "push_bit 8 w + ucast a' :: u32"
  let ?w2 = "push_bit 8 ?w1 + ucast b' :: u32"
  let ?w3 = "push_bit 8 ?w2 + ucast c' :: u32"
  have w1: "unat ?w1 = (n * 256 + a) mod 2 ^ 32"
    using b64_shift_in [OF 4(3)] cs by simp
  have w2: "unat ?w2 = ((n * 256 + a) * 256 + b) mod 2 ^ 32"
    using b64_shift_in [OF w1] cs by simp
  have w3: "unat ?w3 = (((n * 256 + a) * 256 + b) * 256 + c) mod 2 ^ 32"
    using b64_shift_in [OF w2] cs by simp
  have s1: "b64_char (signed_drop_bit 2 ?w1) = b64_sym (a div 4)"
    using b64_char_sym [OF _ w1, of 2] b64_sextets (1) [of n a] by simp
  have s2: "b64_char (signed_drop_bit 4 ?w2) = b64_sym (a * 16 + b div 16)"
    using b64_char_sym [OF _ w2, of 4] b64_sextets (3) [of n a b] by simp
  have s3: "b64_char (signed_drop_bit 6 ?w3) = b64_sym (b * 4 + c div 64)"
    using b64_char_sym [OF _ w3, of 6] b64_sextets (5) [of n a b c] by simp
  have s4: "b64_char (signed_drop_bit 0 ?w3) = b64_sym c"
    using b64_char_sym [OF _ w3, of 0] b64_sextets (6) [of n a b c] by simp
  let ?out = "out @ [b64_sym (a div 4), b64_sym (a * 16 + b div 16), b64_sym (b * 4 + c div 64), b64_sym c]"
  have "b64_loop cs w (-6) out = b64_loop cs' ?w3 (-6) ?out"
    using cs(1) s1 s2 s3 s4 by (simp add: b64_emit_once b64_emit_twice)
  moreover have "b64_finish (b64_loop cs' ?w3 (-6) ?out) = ?out @ base64_ref r"
    using 4(1) [OF cs(5) w3, of ?out] 4(4) cs(5) by simp
  ultimately show ?case using cs by simp
qed

subsection \<open>Maps and optional values\<close>

text \<open>A \<open>std::map\<close> with string keys, as its rows in iteration order.\<close>

definition map_to_string :: "(string \<times> string) list \<Rightarrow> char \<Rightarrow> char \<Rightarrow> string" where
  "map_to_string m val_sep row_sep = concat (map (\<lambda>(k, v). k @ [val_sep] @ v @ [row_sep]) m)"

definition lazy_value_or :: "'a option \<Rightarrow> (unit \<Rightarrow> 'a) \<Rightarrow> 'a" where
  "lazy_value_or opt fn = (case opt of Some v \<Rightarrow> v | None \<Rightarrow> fn ())"

text \<open>\<open>split\<close>: the pieces between separators. The callers read a piece through \<open>data()\<close>, which
  is not terminated where the piece ends: \<open>split_data\<close> gives, for each piece, the text from its
  first character to the end. The empty text has no piece.\<close>

function split_tails :: "char \<Rightarrow> string \<Rightarrow> string list" where
  "split_tails sep s =
     s # (case dropWhile (\<lambda>c. c \<noteq> sep) s of [] \<Rightarrow> [] | _ # r \<Rightarrow> split_tails sep r)"
  by pat_completeness auto

termination
proof (relation "measure (length \<circ> snd)")
  fix sep and s r :: string and c
  assume "dropWhile (\<lambda>c. c \<noteq> sep) s = c # r"
  then have "Suc (length r) = length (dropWhile (\<lambda>c. c \<noteq> sep) s)" by simp
  also have "\<dots> \<le> length s" by (rule length_dropWhile_le)
  finally show "((sep, r), sep, s) \<in> measure (length \<circ> snd)" by simp
qed simp

declare split_tails.simps [simp del]

definition split_data :: "string \<Rightarrow> char \<Rightarrow> string list" where
  "split_data str separator = (if str = [] then [] else split_tails separator str)"

definition split_str :: "string \<Rightarrow> char \<Rightarrow> string list" where
  "split_str str separator = map (takeWhile (\<lambda>c. c \<noteq> separator)) (split_data str separator)"

text \<open>The pieces do not hold the separator, and joining them gives the text back.\<close>

lemma split_tails_pieces:
  "concat (map (\<lambda>t. sep # takeWhile (\<lambda>c. c \<noteq> sep) t) (split_tails sep s)) = sep # s"
proof (induction sep s rule: split_tails.induct)
  case (1 sep s)
  show ?case
  proof (cases "dropWhile (\<lambda>c. c \<noteq> sep) s")
    case Nil
    then have all: "takeWhile (\<lambda>c. c \<noteq> sep) s = s"
      by (simp only: dropWhile_eq_Nil_conv takeWhile_eq_all_conv)
    have "split_tails sep s = [s]" by (subst split_tails.simps) (simp only: Nil list.case)
    with all show ?thesis by simp
  next
    case (Cons c r)
    then have "c = sep" using hd_dropWhile [of "\<lambda>c. c \<noteq> sep" s] by simp
    moreover have "takeWhile (\<lambda>c. c \<noteq> sep) s @ c # r = s"
      using takeWhile_dropWhile_id [of "\<lambda>c. c \<noteq> sep" s] Cons by simp
    ultimately show ?thesis using 1 [OF Cons] Cons by (subst split_tails.simps) simp
  qed
qed

lemma split_str_join:
  "s \<noteq> [] \<Longrightarrow> concat (map (\<lambda>p. sep # p) (split_str s sep)) = sep # s"
  using split_tails_pieces [of sep s] by (simp add: split_str_def split_data_def comp_def)

lemma split_str_pieces: "p \<in> set (split_str s sep) \<Longrightarrow> sep \<notin> set p"
  by (auto simp: split_str_def dest: set_takeWhileD)

fun join :: "string list \<Rightarrow> string \<Rightarrow> string" where
  "join [] sep = []"
| "join [s] sep = s"
| "join (s # t # ss) sep = s @ sep @ join (t # ss) sep"

subsection \<open>The thread-safe queue\<close>

text \<open>
  The critical sections of \<open>TSQueue\<close>, on the content of \<open>m_queue\<close>. \<open>pop\<close> is
  given the content at the moment its wait is over: the predicate of \<open>wait_for\<close> holds
  exactly when the queue is not empty, so an empty queue then is the time-out.
\<close>

type_synonym 'a tsqueue = "'a list"

definition tsq_empty :: "'a tsqueue" where
  "tsq_empty = []"

definition tsq_push :: "'a tsqueue \<Rightarrow> 'a \<Rightarrow> 'a tsqueue" where
  "tsq_push q item = q @ [item]"

definition tsq_pop :: "'a tsqueue \<Rightarrow> 'a option \<times> 'a tsqueue" where
  "tsq_pop q = (case q of [] \<Rightarrow> (None, q) | item # rest \<Rightarrow> (Some item, rest))"

text \<open>The contract the runners and the lobbies rely on.\<close>

locale fifo =
  fixes empty :: "'q" and push :: "'q \<Rightarrow> 'a \<Rightarrow> 'q" and pop :: "'q \<Rightarrow> 'a option \<times> 'q"
    and view :: "'q \<Rightarrow> 'a list"
  assumes view_empty: "view empty = []"
    and view_push: "view (push q x) = view q @ [x]"
    and pop_nil: "view q = [] \<Longrightarrow> pop q = (None, q)"
    and pop_cons: "view q = x # xs \<Longrightarrow> fst (pop q) = Some x \<and> view (snd (pop q)) = xs"
begin

fun pop_n :: "nat \<Rightarrow> 'q \<Rightarrow> 'a list \<times> 'q" where
  "pop_n 0 q = ([], q)"
| "pop_n (Suc n) q =
     (case pop q of (None, q') \<Rightarrow> ([], q')
      | (Some x, q') \<Rightarrow> (case pop_n n q' of (xs, q'') \<Rightarrow> (x # xs, q'')))"

lemma view_pushes: "view (foldl push q xs) = view q @ xs"
  by (induction xs arbitrary: q) (auto simp: view_push)

lemma pop_n_take: "fst (pop_n n q) = take n (view q)"
proof (induction n arbitrary: q)
  case (Suc n)
  show ?case
  proof (cases "view q")
    case Nil
    then show ?thesis by (simp add: pop_nil)
  next
    case (Cons x xs)
    then show ?thesis
      using pop_cons [OF Cons] Suc.IH [of "snd (pop q)"]
      by (cases "pop q") (auto split: prod.splits)
  qed
qed simp

lemma pushed_then_popped: "fst (pop_n (length xs) (foldl push empty xs)) = xs"
  by (simp add: pop_n_take view_pushes view_empty)

end

interpretation tsq: fifo tsq_empty tsq_push tsq_pop "\<lambda>q. q"
  by unfold_locales (auto simp: tsq_empty_def tsq_push_def tsq_pop_def)

subsection \<open>Properties\<close>

text \<open>a state folder the guard accepts never leaves the directory it is resolved in:
  whatever directory the walk starts from, it ends in a descendant of it (or in itself). The
  guard is what stands between a client-supplied folder and the host's file system.\<close>
theorem safe_state_folder_confined:
  assumes "is_safe_state_folder p"
  shows "\<exists>ds. walk base (segments p) = base @ ds"
  using assms walk_no_dotdot by (auto simp: is_safe_iff)

theorem safe_state_folder_confined_witness:
  "\<exists>ds. walk [''etc'', ''wolf''] (segments ''profiles//alice/.'') = [''etc'', ''wolf''] @ ds"
  by (rule safe_state_folder_confined) (simp add: is_safe_iff)

text \<open>the guard on state folders accepts exactly the non-empty relative paths with no colon
  (docker would read it as a mount separator) and no parent segment: the index loop of the
  code, which cuts the path at each slash, misses no segment.\<close>
theorem is_safe_state_folder_spec:
  "is_safe_state_folder p \<longleftrightarrow>
     p \<noteq> [] \<and> hd p \<noteq> CHR ''/'' \<and> CHR '':'' \<notin> set p \<and> ''..'' \<notin> set (segments p)"
  by (rule is_safe_iff)

text \<open>whatever name a client sends, the sanitized name is one single path component: walking
  it from a directory goes exactly one level down, to an entry that is neither the directory
  itself nor its parent, and the name has no separator, colon or control character.\<close>
theorem sanitize_one_level:
  "walk base (segments (sanitize_path_component name)) = base @ [sanitize_path_component name] \<and>
   (\<forall>c. c \<in> set (sanitize_path_component name) \<longrightarrow> \<not> illegal_path_char c)"
proof -
  let ?r = "sanitize_path_component name"
  have "CHR ''/'' \<notin> set ?r"
    using sanitize_chars [of "CHR ''/''" name] by (auto simp: illegal_path_char_def)
  then have "segments ?r = [?r]" by (rule segments_no_slash)
  with sanitize_not_special [of name] sanitize_chars show ?thesis by auto
qed

theorem sanitize_one_level_witness:
  "walk [''run''] (segments (sanitize_path_component ''../x'')) = [''run'', ''.._x'']"
  using sanitize_one_level [of "[''run'']" "''../x''"]
  by (simp add: sanitize_path_component_def illegal_path_char_def Let_def)

text \<open>the shift-register encoder computes the encoding of RFC 4648 on every input, although
  its 32-bit register overflows from the fifth byte on: groups of three bytes become four
  characters, the last group is padded to four.\<close>
theorem base64_encode_rfc: "base64_encode s = base64_ref (map of_char s)"
proof -
  have "b64_finish (b64_loop (str_bytes s) 0 (-6) []) = base64_ref (map unat (str_bytes s))"
    using b64_loop_ref [of 0 0 "[]" "str_bytes s"] by simp
  moreover have "map unat (str_bytes s) = map of_char s"
    by (simp add: str_bytes_def byte_of_def unat_of_nat)
  ultimately show ?thesis
    by (simp add: base64_encode_def b64_finish_def split: prod.splits)
qed

end
