(* ===== verification/Crypto.thy ===== *)
theory Crypto
  imports Prelude
begin

section \<open>Crypto: src/src/moonlight-protocol/crypto\<close>

text \<open>
  The wrappers around OpenSSL and the two hexadecimal routines. OpenSSL is not part of the
  repository: each call the wrappers make is a field of the record \<open>openssl\<close>, with the
  status it returns next to its output. \<open>handle_openssl_error\<close> prints its message and
  returns, so a failed call is an entry of the log and the wrapper goes on with what it has.
  Keys and certificates are their PEM text.
\<close>

subsection \<open>Hexadecimal text\<close>

definition hex_digit :: "nat \<Rightarrow> char" where
  "hex_digit n = ''0123456789ABCDEF'' ! n"

definition str_to_hex :: "bytes \<Rightarrow> string" where
  "str_to_hex input =
     concat (map (\<lambda>c. [hex_digit (unat (drop_bit 4 c)), hex_digit (unat (c AND 15))]) input)"

text \<open>\<open>ch |= 'a' - 'A'\<close>; a byte above 127 is a negative \<open>char\<close>, below \<open>'a'\<close>.\<close>

definition lower_bit :: "char \<Rightarrow> nat" where
  "lower_bit c = (of_char c :: nat) OR 32"

definition is_convertable :: "char \<Rightarrow> bool" where
  "is_convertable c \<longleftrightarrow> is_digit c \<or>
     (of_char c :: nat) < 128 \<and> 97 \<le> lower_bit c \<and> lower_bit c \<le> 122"

definition convert :: "char \<Rightarrow> u8" where
  "convert c = (if 48 \<le> (of_char c :: nat) \<and> (of_char c :: nat) \<le> 57 then of_char c - 48
                else of_nat (lower_bit c) - 97 + 10)"

text \<open>
  The pointer \<open>data\<close> walks backwards over the text: \<open>n\<close> is the number of characters
  up to and including the one it points to, and dereferencing it with \<open>n = 0\<close> (before the
  first character) is \<open>None\<close>.
\<close>

primrec prev_digit :: "string \<Rightarrow> nat \<Rightarrow> (char \<times> nat) option" where
  "prev_digit hex 0 = None"
| "prev_digit hex (Suc n) =
     (if is_convertable (hex ! n) then Some (hex ! n, n) else prev_digit hex n)"

primrec hex_fill :: "string \<Rightarrow> nat \<Rightarrow> nat \<Rightarrow> bytes option" where
  "hex_fill hex 0 n = Some []"
| "hex_fill hex (Suc k) n =
     (case prev_digit hex n of
        None \<Rightarrow> None
      | Some (r, n1) \<Rightarrow>
          (case prev_digit hex n1 of
             None \<Rightarrow> None
           | Some (l, n2) \<Rightarrow>
               map_option ((#) (push_bit 4 (convert l) OR convert r)) (hex_fill hex k n2)))"

definition hex_to_str :: "string \<Rightarrow> bool \<Rightarrow> bytes option" where
  "hex_to_str hex reverse =
     map_option (if reverse then rev else (\<lambda>b. b))
       (hex_fill hex (length (filter is_convertable hex) div 2) (length hex))"

text \<open>Reference: the convertible characters from the last one, two by two.\<close>

fun pair_up :: "string \<Rightarrow> bytes" where
  "pair_up (r # l # cs) = (push_bit 4 (convert l) OR convert r) # pair_up cs"
| "pair_up _ = []"

lemma prev_digit_spec:
  "n \<le> length hex \<Longrightarrow>
     (case rev (filter is_convertable (take n hex)) of
        [] \<Rightarrow> prev_digit hex n = None
      | c # cs \<Rightarrow> \<exists>m \<le> n. prev_digit hex n = Some (c, m) \<and> rev (filter is_convertable (take m hex)) = cs)"
proof (induction n)
  case (Suc n)
  then have take_Suc: "take (Suc n) hex = take n hex @ [hex ! n]"
    by (simp add: take_Suc_conv_app_nth)
  show ?case
  proof (cases "is_convertable (hex ! n)")
    case True
    then show ?thesis by (auto simp: take_Suc)
  next
    case False
    then show ?thesis
      using Suc by (auto simp: take_Suc split: list.splits intro: le_SucI)
  qed
qed simp

lemma hex_fill_spec:
  "\<lbrakk>n \<le> length hex; 2 * k \<le> length (filter is_convertable (take n hex))\<rbrakk> \<Longrightarrow>
     hex_fill hex k n = Some (take k (pair_up (rev (filter is_convertable (take n hex)))))"
proof (induction k arbitrary: n)
  case (Suc k)
  then obtain c d cs where ds: "rev (filter is_convertable (take n hex)) = c # d # cs"
    by (cases "rev (filter is_convertable (take n hex))"; cases "tl (rev (filter is_convertable (take n hex)))")
      auto
  obtain m where m: "m \<le> n" "prev_digit hex n = Some (c, m)"
    "rev (filter is_convertable (take m hex)) = d # cs"
    using prev_digit_spec [of n hex] Suc.prems ds by auto
  obtain m' where m': "m' \<le> m" "prev_digit hex m = Some (d, m')"
    "rev (filter is_convertable (take m' hex)) = cs"
    using prev_digit_spec [of m hex] Suc.prems m by auto
  have "length (filter is_convertable (take n hex)) = Suc (Suc (length cs))"
    using ds by (metis length_Cons length_rev)
  moreover have "length (filter is_convertable (take m' hex)) = length cs"
    using m'(3) by (metis length_rev)
  ultimately have "hex_fill hex k m' = Some (take k (pair_up cs))"
    using Suc.IH [of m'] Suc.prems m m' by simp
  with m m' ds show ?case by simp
qed simp

lemma length_pair_up: "length (pair_up cs) = length cs div 2"
  by (induction cs rule: pair_up.induct) auto

lemma hex_to_str_eq:
  "hex_to_str hex True = Some (rev (pair_up (rev (filter is_convertable hex))))"
proof -
  have "hex_fill hex (length (filter is_convertable hex) div 2) (length hex) =
      Some (pair_up (rev (filter is_convertable hex)))"
    using hex_fill_spec [of "length hex" hex "length (filter is_convertable hex) div 2"]
    by (simp add: length_pair_up)
  then show ?thesis by (simp add: hex_to_str_def)
qed

lemma hex_nibble: "n < 16 \<Longrightarrow> is_convertable (hex_digit n) \<and> convert (hex_digit n) = of_nat n"
proof -
  have "\<forall>n \<in> set [0..<16]. is_convertable (hex_digit n) \<and> convert (hex_digit n) = of_nat n"
    by code_simp
  moreover assume "n < 16"
  ultimately show ?thesis by simp
qed

lemma nibbles: "push_bit 4 (drop_bit 4 b) OR (b AND 15) = (b :: u8)"
proof -
  have m: "(15 :: u8) = mask 4" by (simp add: mask_eq_exp_minus_1)
  show ?thesis unfolding m by (rule bit_word_eqI) (auto simp: bit_simps)
qed

lemma nibble_bounds: "unat (drop_bit 4 (b :: u8)) < 16" "unat (b AND 15 :: u8) < 16"
proof -
  have "unat b < 256" using unsigned_less [of b] by simp
  then have "unat b div 16 < 16" by (simp add: less_mult_imp_div_less)
  then show "unat (drop_bit 4 b) < 16" by (simp add: unsigned_drop_bit_eq drop_bit_eq_div unat_div)
  have "unat (b AND 15) = unat (take_bit 4 b)"
    by (simp add: take_bit_eq_mask mask_eq_exp_minus_1)
  also have "\<dots> < 16" using take_bit_nat_less_exp [of 4 "unat b"] by (simp add: unsigned_take_bit_eq)
  finally show "unat (b AND 15) < 16" .
qed

lemma str_to_hex_convertable: "filter is_convertable (str_to_hex b) = str_to_hex b"
  using nibble_bounds hex_nibble by (induction b) (auto simp: str_to_hex_def)

lemma pair_up_append: "even (length xs) \<Longrightarrow> pair_up (xs @ ys) = pair_up xs @ pair_up ys"
  by (induction xs rule: pair_up.induct) auto

lemma length_str_to_hex: "length (str_to_hex b) = 2 * length b"
  by (induction b) (auto simp: str_to_hex_def)

lemma pair_up_str_to_hex: "pair_up (rev (str_to_hex b)) = rev b"
proof (induction b)
  case (Cons c b)
  let ?l = "hex_digit (unat (drop_bit 4 c))" and ?r = "hex_digit (unat (c AND 15))"
  have "rev (str_to_hex (c # b)) = rev (str_to_hex b) @ [?r, ?l]"
    by (simp add: str_to_hex_def)
  then have "pair_up (rev (str_to_hex (c # b))) = rev b @ pair_up [?r, ?l]"
    using Cons by (simp add: pair_up_append length_str_to_hex)
  then show ?case
    using nibble_bounds [of c] hex_nibble by (simp add: nibbles)
qed (simp add: str_to_hex_def)

subsection \<open>OpenSSL as a parameter\<close>

datatype cipher = Aes_128_ecb | Aes_128_cbc | Aes_128_gcm

record evp_ctx =
  ctx_cipher :: cipher
  ctx_key :: bytes
  ctx_iv :: bytes
  ctx_ivlen :: "nat option"
  ctx_enc :: bool
  ctx_padding :: bool
  ctx_tag :: "bytes option"

record openssl =
  ssl_sha256 :: "bytes \<Rightarrow> bytes"
  ssl_init_ok :: "evp_ctx \<Rightarrow> bool"
  ssl_ctrl_ok :: "evp_ctx \<Rightarrow> bool"
  ssl_update :: "evp_ctx \<Rightarrow> bytes \<Rightarrow> bool \<times> bytes"
  ssl_final :: "evp_ctx \<Rightarrow> bytes \<Rightarrow> bool \<times> bytes"
  ssl_get_tag :: "evp_ctx \<Rightarrow> bytes \<Rightarrow> bool \<times> bytes"
  ssl_key_ok :: "bool \<Rightarrow> bytes \<Rightarrow> bool"
  ssl_sign :: "bytes \<Rightarrow> bytes \<Rightarrow> bool \<times> bytes"
  ssl_verify :: "bytes \<Rightarrow> bytes \<Rightarrow> bytes \<Rightarrow> bool"

type_synonym 'a logged = "'a \<times> string list"

definition handle_openssl_error :: "bool \<Rightarrow> string \<Rightarrow> string list" where
  "handle_openssl_error ok msg = (if ok then [] else [msg])"

subsection \<open>Digest\<close>

definition hex_lower :: "nat \<Rightarrow> char" where
  "hex_lower n = ''0123456789abcdef'' ! n"

definition sha256 :: "openssl \<Rightarrow> bytes \<Rightarrow> string" where
  "sha256 ssl str =
     concat (map (\<lambda>c. [hex_lower (unat (drop_bit 4 c)), hex_lower (unat (c AND 15))]) (ssl_sha256 ssl str))"

subsection \<open>Ciphers (aes.hpp)\<close>

definition aes_init :: "openssl \<Rightarrow> cipher \<Rightarrow> bytes \<Rightarrow> bytes \<Rightarrow> bool \<Rightarrow> bool \<Rightarrow> evp_ctx logged" where
  "aes_init ssl c key iv is_encryption padding =
     (let ctx = \<lparr>ctx_cipher = c, ctx_key = key, ctx_iv = iv, ctx_ivlen = None,
                 ctx_enc = is_encryption, ctx_padding = padding, ctx_tag = None\<rparr>
      in (ctx,
          handle_openssl_error (ssl_init_ok ssl ctx)
            (if is_encryption then ''EVP_EncryptInit_ex failed'' else ''EVP_DecryptInit_ex failed'') @
          handle_openssl_error (ssl_ctrl_ok ssl ctx) ''EVP_CIPHER_CTX_set_padding failed''))"

definition encrypt_symmetric :: "openssl \<Rightarrow> evp_ctx \<Rightarrow> bytes \<Rightarrow> bytes logged" where
  "encrypt_symmetric ssl ctx0 plaintext =
     (let ctx = ctx0\<lparr>ctx_enc := True\<rparr>;
          (ok, c) = ssl_update ssl ctx plaintext;
          (ok', f) = ssl_final ssl ctx plaintext
      in (c @ f,
          handle_openssl_error (ssl_init_ok ssl ctx) ''EVP_EncryptInit_ex failed'' @
          handle_openssl_error ok ''EVP_EncryptUpdate failed'' @
          handle_openssl_error ok' ''EVP_EncryptFinal_ex failed''))"

definition decrypt_symmetric :: "openssl \<Rightarrow> evp_ctx \<Rightarrow> bytes \<Rightarrow> bytes logged" where
  "decrypt_symmetric ssl ctx0 ciphertext =
     (let ctx = ctx0\<lparr>ctx_enc := False\<rparr>;
          (ok, p) = ssl_update ssl ctx ciphertext;
          (ok', f) = ssl_final ssl ctx ciphertext
      in (p @ f,
          handle_openssl_error (ssl_init_ok ssl ctx) ''EVP_DecryptInit_ex failed'' @
          handle_openssl_error ok ''EVP_DecryptUpdate failed'' @
          handle_openssl_error ok' ''EVP_DecryptFinal_ex failed''))"

definition encrypt_authenticated :: "openssl \<Rightarrow> evp_ctx \<Rightarrow> bytes \<Rightarrow> (bytes \<times> bytes) logged" where
  "encrypt_authenticated ssl ctx0 plaintext =
     (let ctx = ctx0\<lparr>ctx_enc := True\<rparr>;
          (ok, c) = ssl_update ssl ctx plaintext;
          (ok', f) = ssl_final ssl ctx plaintext;
          (ok'', tag) = ssl_get_tag ssl ctx plaintext
      in ((c @ f, tag),
          handle_openssl_error (ssl_init_ok ssl ctx) ''EVP_EncryptInit_ex failed'' @
          handle_openssl_error ok ''EVP_EncryptUpdate failed'' @
          handle_openssl_error ok' ''EVP_EncryptFinal_ex failed'' @
          handle_openssl_error ok'' ''EVP_CTRL_GCM_GET_TAG failed''))"

definition decrypt_authenticated :: "openssl \<Rightarrow> evp_ctx \<Rightarrow> bytes \<Rightarrow> bytes \<Rightarrow> bytes logged" where
  "decrypt_authenticated ssl ctx0 ciphertext tag =
     (let ctx = ctx0\<lparr>ctx_enc := False\<rparr>;
          (ok, p) = ssl_update ssl ctx ciphertext;
          ctx' = ctx\<lparr>ctx_tag := Some tag\<rparr>;
          (ok', f) = ssl_final ssl ctx' ciphertext
      in (p @ f,
          handle_openssl_error (ssl_init_ok ssl ctx) ''EVP_DecryptInit_ex failed'' @
          handle_openssl_error ok ''EVP_DecryptUpdate failed'' @
          handle_openssl_error (ssl_ctrl_ok ssl ctx') ''EVP_CTRL_GCM_SET_TAG failed'' @
          handle_openssl_error ok' ''EVP_DecryptFinal_ex failed''))"

subsection \<open>The ciphers of crypto.cpp\<close>

definition aes_encrypt_ecb :: "openssl \<Rightarrow> bytes \<Rightarrow> bytes \<Rightarrow> bytes \<Rightarrow> bool \<Rightarrow> bytes logged" where
  "aes_encrypt_ecb ssl msg enc_key iv padding =
     (let (ctx, l) = aes_init ssl Aes_128_ecb enc_key iv True padding;
          (c, l') = encrypt_symmetric ssl ctx msg in (c, l @ l'))"

definition aes_decrypt_ecb :: "openssl \<Rightarrow> bytes \<Rightarrow> bytes \<Rightarrow> bytes \<Rightarrow> bool \<Rightarrow> bytes logged" where
  "aes_decrypt_ecb ssl msg enc_key iv padding =
     (let (ctx, l) = aes_init ssl Aes_128_ecb enc_key iv False padding;
          (p, l') = decrypt_symmetric ssl ctx msg in (p, l @ l'))"

definition aes_encrypt_cbc :: "openssl \<Rightarrow> bytes \<Rightarrow> bytes \<Rightarrow> bytes \<Rightarrow> bool \<Rightarrow> bytes logged" where
  "aes_encrypt_cbc ssl msg enc_key iv padding =
     (let (ctx, l) = aes_init ssl Aes_128_cbc enc_key iv True padding;
          (c, l') = encrypt_symmetric ssl ctx msg in (c, l @ l'))"

definition aes_decrypt_cbc :: "openssl \<Rightarrow> bytes \<Rightarrow> bytes \<Rightarrow> bytes \<Rightarrow> bool \<Rightarrow> bytes logged" where
  "aes_decrypt_cbc ssl msg enc_key iv padding =
     (let (ctx, l) = aes_init ssl Aes_128_cbc enc_key iv False padding;
          (p, l') = decrypt_symmetric ssl ctx msg in (p, l @ l'))"

text \<open>The context both GCM routines set up; \<open>iv_size = None\<close> is the default \<open>-1\<close>.\<close>

definition gcm_init :: "openssl \<Rightarrow> bytes \<Rightarrow> bytes \<Rightarrow> nat option \<Rightarrow> bool \<Rightarrow> evp_ctx logged" where
  "gcm_init ssl enc_key iv iv_size padding =
     (let (ctx, l) = aes_init ssl Aes_128_gcm enc_key iv False padding
      in case iv_size of
           None \<Rightarrow> (ctx, l)
         | Some n \<Rightarrow>
             let ctx' = ctx\<lparr>ctx_ivlen := Some n\<rparr>
             in (ctx', l @ handle_openssl_error (ssl_ctrl_ok ssl ctx') ''EVP_CTRL_GCM_SET_IVLEN failed'' @
                 handle_openssl_error (ssl_init_ok ssl ctx') ''EVP_DecryptInit_ex (2) failed''))"

definition aes_encrypt_gcm ::
    "openssl \<Rightarrow> bytes \<Rightarrow> bytes \<Rightarrow> bytes \<Rightarrow> nat option \<Rightarrow> bool \<Rightarrow> (bytes \<times> bytes) logged" where
  "aes_encrypt_gcm ssl msg enc_key iv iv_size padding =
     (let (ctx, l) = gcm_init ssl enc_key iv iv_size padding;
          (r, l') = encrypt_authenticated ssl ctx msg in (r, l @ l'))"

definition aes_decrypt_gcm ::
    "openssl \<Rightarrow> bytes \<Rightarrow> bytes \<Rightarrow> bytes \<Rightarrow> bytes \<Rightarrow> nat option \<Rightarrow> bool \<Rightarrow> bytes logged" where
  "aes_decrypt_gcm ssl msg enc_key tag iv iv_size padding =
     (let (ctx, l) = gcm_init ssl enc_key iv iv_size padding;
          (r, l') = decrypt_authenticated ssl ctx msg tag in (r, l @ l'))"

subsection \<open>Signatures (sign.hpp)\<close>

definition create_key :: "openssl \<Rightarrow> bytes \<Rightarrow> bool \<Rightarrow> bytes option" where
  "create_key ssl k is_private = (if ssl_key_ok ssl is_private k then Some k else None)"

text \<open>A private key that does not parse is passed on as a null pointer; its signature is
  whatever OpenSSL leaves in the buffer.\<close>

definition sign :: "openssl \<Rightarrow> bytes \<Rightarrow> bytes \<Rightarrow> bytes" where
  "sign ssl msg private_key = snd (ssl_sign ssl (case create_key ssl private_key True of None \<Rightarrow> [] | Some k \<Rightarrow> k) msg)"

definition verify :: "openssl \<Rightarrow> bytes \<Rightarrow> bytes \<Rightarrow> bytes \<Rightarrow> bool" where
  "verify ssl msg sig public_key =
     (case create_key ssl public_key False of None \<Rightarrow> False | Some k \<Rightarrow> ssl_verify ssl k msg sig)"

subsection \<open>Certificate verification (x509.cpp)\<close>

datatype x509_err = Unable_to_get_issuer_cert_locally | Cert_not_yet_valid | Cert_has_expired | Other_err nat

text \<open>
  \<open>run\<close> is \<open>X509_verify_cert\<close> on a store with the first certificate, partial chains
  allowed: given the callback, the error it ends with, if any. Its documentation
  (\<open>verify_run\<close>): it hands each problem it finds in the chain to the callback, and stops
  with the first one the callback does not answer with 1.
\<close>

type_synonym 'cert verifier = "(nat \<Rightarrow> x509_err \<Rightarrow> nat) \<Rightarrow> 'cert \<Rightarrow> 'cert \<Rightarrow> x509_err option"

definition openssl_verify_cb :: "nat \<Rightarrow> x509_err \<Rightarrow> nat" where
  "openssl_verify_cb ok err_code =
     (case err_code of
        Unable_to_get_issuer_cert_locally \<Rightarrow> 1
      | Cert_not_yet_valid \<Rightarrow> 1
      | Cert_has_expired \<Rightarrow> 1
      | _ \<Rightarrow> ok)"

definition verification_error :: "'cert verifier \<Rightarrow> 'cert \<Rightarrow> 'cert \<Rightarrow> x509_err option" where
  "verification_error run paired_cert untrusted_cert = run openssl_verify_cb paired_cert untrusted_cert"

definition verify_run :: "'cert verifier \<Rightarrow> ('cert \<Rightarrow> 'cert \<Rightarrow> x509_err list) \<Rightarrow> bool" where
  "verify_run run problems \<longleftrightarrow>
     (\<forall>cb p u. run cb p u = List.find (\<lambda>e. cb 0 e \<noteq> 1) (problems p u))"

lemma verification_error_None:
  "verify_run run problems \<Longrightarrow> verification_error run p u = None \<longleftrightarrow>
     set (problems p u) \<subseteq> {Unable_to_get_issuer_cert_locally, Cert_not_yet_valid, Cert_has_expired}"
  by (auto simp: verify_run_def verification_error_def find_None_all openssl_verify_cb_def subset_iff
      split: x509_err.splits) (metis x509_err.exhaust)

lemma verification_error_Some:
  "\<lbrakk>verify_run run problems; verification_error run p u = Some e\<rbrakk> \<Longrightarrow> e \<in> set (problems p u)"
  using find_Some_in by (fastforce simp: verify_run_def verification_error_def)

subsection \<open>Properties\<close>

text \<open>reading hexadecimal text never runs past the start of the text, whatever it holds:
  the pointer that walks backwards finds the two characters of every byte it fills, and the
  result is the convertible characters taken two by two from the end (a leading odd one is
  dropped, everything that is not a letter or a digit is skipped).\<close>
theorem hex_to_str_total:
  "hex_to_str hex True = Some (rev (pair_up (rev (filter is_convertable hex))))"
  by (rule hex_to_str_eq)

text \<open>hexadecimal encoding and decoding are inverse: every byte string is read back from
  its text, also when other characters (spaces, colons, new lines) stand between the digits.\<close>
theorem hex_roundtrip:
  assumes "filter is_convertable s = str_to_hex b"
  shows "hex_to_str s True = Some b"
  using assms by (simp add: hex_to_str_eq pair_up_str_to_hex)

theorem hex_roundtrip_witness: "hex_to_str ''0A:FF 7C'' True = Some [0x0A, 0xFF, 0x7C]"
proof (rule hex_roundtrip)
  show "filter is_convertable ''0A:FF 7C'' = str_to_hex [0x0A, 0xFF, 0x7C]" by code_simp
qed

end
