(* ===== verification/Control_Proto.thy ===== *)
theory Control_Proto
  imports Crypto "HOL-Library.Monad_Syntax"
begin

section \<open>The control stream: src/src/moonlight-protocol/moonlight/control.hpp\<close>

text \<open>
  Packet and input types with their codes, the packed structs of the input packets read from a
  received buffer, the packets the host sends, and the encrypted envelope both directions use.
  A packet is cast to a struct without checking its size first: a field past the end of the
  buffer reads as \<open>None\<close>.
\<close>

subsection \<open>Packet types\<close>

datatype PACKET_TYPE =
    START_A | START_B | INVALIDATE_REF_FRAMES | LOSS_STATS | FRAME_STATS | INPUT_DATA
  | TERMINATION | PERIODIC_PING | IDR_FRAME | ENCRYPTED | HDR_MODE | RUMBLE_DATA
  | RUMBLE_TRIGGERS | MOTION_EVENT | RGB_LED_EVENT | ADAPTIVE_TRIGGER_EVENT

fun packet_code :: "PACKET_TYPE \<Rightarrow> u16" where
  "packet_code START_A = 0x0305"
| "packet_code START_B = 0x0307"
| "packet_code INVALIDATE_REF_FRAMES = 0x0301"
| "packet_code LOSS_STATS = 0x0201"
| "packet_code FRAME_STATS = 0x0204"
| "packet_code INPUT_DATA = 0x0206"
| "packet_code TERMINATION = 0x0109"
| "packet_code PERIODIC_PING = 0x0200"
| "packet_code IDR_FRAME = 0x0302"
| "packet_code ENCRYPTED = 0x0001"
| "packet_code HDR_MODE = 0x010e"
| "packet_code RUMBLE_DATA = 0x010b"
| "packet_code RUMBLE_TRIGGERS = 0x5500"
| "packet_code MOTION_EVENT = 0x5501"
| "packet_code RGB_LED_EVENT = 0x5502"
| "packet_code ADAPTIVE_TRIGGER_EVENT = 0x5503"

definition packet_types :: "PACKET_TYPE list" where
  "packet_types =
     [START_A, START_B, INVALIDATE_REF_FRAMES, LOSS_STATS, FRAME_STATS, INPUT_DATA, TERMINATION,
      PERIODIC_PING, IDR_FRAME, ENCRYPTED, HDR_MODE, RUMBLE_DATA, RUMBLE_TRIGGERS, MOTION_EVENT,
      RGB_LED_EVENT, ADAPTIVE_TRIGGER_EVENT]"

text \<open>The enumerator a raw field stands for: the \<open>switch\<close> on the enum.\<close>

definition packet_of_code :: "u16 \<Rightarrow> PACKET_TYPE option" where
  "packet_of_code w = List.find (\<lambda>p. packet_code p = w) packet_types"

fun packet_name :: "PACKET_TYPE \<Rightarrow> string" where
  "packet_name START_A = ''START_A''"
| "packet_name START_B = ''START_B''"
| "packet_name INVALIDATE_REF_FRAMES = ''INVALIDATE_REF_FRAMES''"
| "packet_name LOSS_STATS = ''LOSS_STATS''"
| "packet_name FRAME_STATS = ''FRAME_STATS''"
| "packet_name INPUT_DATA = ''INPUT_DATA''"
| "packet_name RUMBLE_DATA = ''RUMBLE_DATA''"
| "packet_name TERMINATION = ''TERMINATION''"
| "packet_name PERIODIC_PING = ''PERIODIC_PING''"
| "packet_name IDR_FRAME = ''IDR_FRAME''"
| "packet_name ENCRYPTED = ''ENCRYPTED''"
| "packet_name HDR_MODE = ''HDR_MODE''"
| "packet_name RUMBLE_TRIGGERS = ''RUMBLE_TRIGGERS''"
| "packet_name MOTION_EVENT = ''MOTION_EVENT''"
| "packet_name RGB_LED_EVENT = ''RGB_LED_EVENT''"
| "packet_name ADAPTIVE_TRIGGER_EVENT = ''ADAPTIVE_TRIGGER_EVENT''"

definition packet_type_to_str :: "u16 \<Rightarrow> string" where
  "packet_type_to_str w = (case packet_of_code w of Some p \<Rightarrow> packet_name p | None \<Rightarrow> ''Unrecognised'')"

lemma packet_types_all: "p \<in> set packet_types"
  by (cases p) (simp_all add: packet_types_def)

lemma packet_codes_distinct: "distinct (map packet_code packet_types)"
  by code_simp

lemma inj_packet_code: "inj packet_code"
  using inj_of_distinct [OF packet_codes_distinct packet_types_all] .

lemma packet_code_inject [simp]: "packet_code p = packet_code q \<longleftrightarrow> p = q"
  by (rule inj_eq [OF inj_packet_code])

lemma packet_of_code_Some: "packet_of_code w = Some p \<longleftrightarrow> w = packet_code p"
  unfolding packet_of_code_def by (rule find_code [OF inj_packet_code packet_types_all])

lemma packet_of_code_code [simp]: "packet_of_code (packet_code p) = Some p"
  by (simp add: packet_of_code_Some)

subsection \<open>Input types\<close>

datatype INPUT_TYPE =
    MOUSE_MOVE_REL | MOUSE_MOVE_ABS | MOUSE_BUTTON_PRESS | MOUSE_BUTTON_RELEASE | KEY_PRESS
  | KEY_RELEASE | MOUSE_SCROLL | MOUSE_HSCROLL | TOUCH | PEN | CONTROLLER_MULTI
  | CONTROLLER_ARRIVAL | CONTROLLER_TOUCH | CONTROLLER_MOTION | CONTROLLER_BATTERY | HAPTICS
  | UTF8_TEXT

fun input_code :: "INPUT_TYPE \<Rightarrow> u32" where
  "input_code MOUSE_MOVE_REL = 0x00000007"
| "input_code MOUSE_MOVE_ABS = 0x00000005"
| "input_code MOUSE_BUTTON_PRESS = 0x00000008"
| "input_code MOUSE_BUTTON_RELEASE = 0x00000009"
| "input_code KEY_PRESS = 0x00000003"
| "input_code KEY_RELEASE = 0x00000004"
| "input_code MOUSE_SCROLL = 0x0000000A"
| "input_code MOUSE_HSCROLL = 0x55000001"
| "input_code TOUCH = 0x55000002"
| "input_code PEN = 0x55000003"
| "input_code CONTROLLER_MULTI = 0x0000000C"
| "input_code CONTROLLER_ARRIVAL = 0x55000004"
| "input_code CONTROLLER_TOUCH = 0x55000005"
| "input_code CONTROLLER_MOTION = 0x55000006"
| "input_code CONTROLLER_BATTERY = 0x55000007"
| "input_code HAPTICS = 0x0000000D"
| "input_code UTF8_TEXT = 0x00000017"

definition input_types :: "INPUT_TYPE list" where
  "input_types =
     [MOUSE_MOVE_REL, MOUSE_MOVE_ABS, MOUSE_BUTTON_PRESS, MOUSE_BUTTON_RELEASE, KEY_PRESS,
      KEY_RELEASE, MOUSE_SCROLL, MOUSE_HSCROLL, TOUCH, PEN, CONTROLLER_MULTI, CONTROLLER_ARRIVAL,
      CONTROLLER_TOUCH, CONTROLLER_MOTION, CONTROLLER_BATTERY, HAPTICS, UTF8_TEXT]"

definition input_of_code :: "u32 \<Rightarrow> INPUT_TYPE option" where
  "input_of_code w = List.find (\<lambda>p. input_code p = w) input_types"

lemma input_types_all: "p \<in> set input_types"
  by (cases p) (simp_all add: input_types_def)

lemma input_codes_distinct: "distinct (map input_code input_types)"
  by code_simp

lemma inj_input_code: "inj input_code"
  using inj_of_distinct [OF input_codes_distinct input_types_all] .

lemma input_code_inject [simp]: "input_code p = input_code q \<longleftrightarrow> p = q"
  by (rule inj_eq [OF inj_input_code])

lemma input_of_code_Some: "input_of_code w = Some p \<longleftrightarrow> w = input_code p"
  unfolding input_of_code_def by (rule find_code [OF inj_input_code input_types_all])

lemma input_of_code_code [simp]: "input_of_code (input_code p) = Some p"
  by (simp add: input_of_code_Some)

subsection \<open>Bit constants\<close>

datatype CONTROLLER_TYPE = UNKNOWN | XBOX | PS | NINTENDO | OTHER_TYPE u8

definition controller_type_of :: "u8 \<Rightarrow> CONTROLLER_TYPE" where
  "controller_type_of b =
     (if b = 0x00 then UNKNOWN else if b = 0x01 then XBOX else if b = 0x02 then PS
      else if b = 0x03 then NINTENDO else OTHER_TYPE b)"

definition ANALOG_TRIGGERS :: u8 where "ANALOG_TRIGGERS = 0x01"
definition RUMBLE :: u8 where "RUMBLE = 0x02"
definition ACCELEROMETER :: u8 where "ACCELEROMETER = 0x10"
definition GYRO :: u8 where "GYRO = 0x20"

definition SHIFT :: u8 where "SHIFT = 0x01"
definition CTRL :: u8 where "CTRL = 0x02"
definition ALT :: u8 where "ALT = 0x04"
definition META :: u8 where "META = 0x08"

definition M_SHIFT :: u16 where "M_SHIFT = 0x10"
definition M_CTRL :: u16 where "M_CTRL = 0x11"
definition M_ALT :: u16 where "M_ALT = 0xA4"
definition M_META :: u16 where "M_META = 0x5B"

datatype TOUCH_EVENT_TYPE =
    TOUCH_EVENT_HOVER | TOUCH_EVENT_DOWN | TOUCH_EVENT_UP | TOUCH_EVENT_MOVE | TOUCH_EVENT_CANCEL
  | TOUCH_EVENT_BUTTON_ONLY | TOUCH_EVENT_HOVER_LEAVE | TOUCH_EVENT_CANCEL_ALL
  | OTHER_TOUCH_EVENT u8

definition touch_event_of :: "u8 \<Rightarrow> TOUCH_EVENT_TYPE" where
  "touch_event_of b =
     (if b = 0x00 then TOUCH_EVENT_HOVER else if b = 0x01 then TOUCH_EVENT_DOWN
      else if b = 0x02 then TOUCH_EVENT_UP else if b = 0x03 then TOUCH_EVENT_MOVE
      else if b = 0x04 then TOUCH_EVENT_CANCEL else if b = 0x05 then TOUCH_EVENT_BUTTON_ONLY
      else if b = 0x06 then TOUCH_EVENT_HOVER_LEAVE else if b = 0x07 then TOUCH_EVENT_CANCEL_ALL
      else OTHER_TOUCH_EVENT b)"

definition TOOL_TYPE_PEN :: u8 where "TOOL_TYPE_PEN = 0x01"
definition TOOL_TYPE_ERASER :: u8 where "TOOL_TYPE_ERASER = 0x02"
definition PEN_BUTTON_TYPE_PRIMARY :: u8 where "PEN_BUTTON_TYPE_PRIMARY = 0x01"
definition PEN_BUTTON_TYPE_SECONDARY :: u8 where "PEN_BUTTON_TYPE_SECONDARY = 0x02"
definition PEN_BUTTON_TYPE_TERTIARY :: u8 where "PEN_BUTTON_TYPE_TERTIARY = 0x04"
definition PEN_TILT_UNKNOWN :: u8 where "PEN_TILT_UNKNOWN = 0xFF"
definition PEN_ROTATION_UNKNOWN :: u16 where "PEN_ROTATION_UNKNOWN = 0xFFFF"

definition ACCELERATION :: u8 where "ACCELERATION = 0x01"
definition GYROSCOPE :: u8 where "GYROSCOPE = 0x02"

definition BATTERY_PERCENTAGE_UNKNOWN :: u8 where "BATTERY_PERCENTAGE_UNKNOWN = 0xFF"

datatype BATTERY_STATE =
    BATTERY_STATE_UNKNOWN | BATTERY_NOT_PRESENT | BATTERY_DISCHARGHING | BATTERY_CHARGING
  | BATTERY_NOT_CHARGING | BATTERY_FULL | OTHER_BATTERY u8

definition battery_state_of :: "u8 \<Rightarrow> BATTERY_STATE" where
  "battery_state_of b =
     (if b = 0x0 then BATTERY_STATE_UNKNOWN else if b = 0x1 then BATTERY_NOT_PRESENT
      else if b = 0x2 then BATTERY_DISCHARGHING else if b = 0x3 then BATTERY_CHARGING
      else if b = 0x4 then BATTERY_NOT_CHARGING else if b = 0x05 then BATTERY_FULL
      else OTHER_BATTERY b)"

subsection \<open>Input packets\<close>

text \<open>
  Every input packet starts with \<open>packet_type\<close>, \<open>packet_len\<close>, \<open>data_size\<close> and
  \<open>type\<close> (12 bytes); the fields the handlers use follow at their offsets in the packed
  struct, multi-byte ones still as loaded on a little-endian machine. A \<open>netfloat\<close> is its
  four bytes.
\<close>

record INPUT_PKT =
  ip_packet_type :: u16
  ip_packet_len :: u16
  ip_data_size :: u32
  ip_type :: u32

definition parse_input :: "bytes \<Rightarrow> INPUT_PKT option" where
  "parse_input m = do {
     t \<leftarrow> rd16 m 0; l \<leftarrow> rd16 m 2; d \<leftarrow> rd32 m 4; i \<leftarrow> rd32 m 8;
     Some \<lparr>ip_packet_type = t, ip_packet_len = l, ip_data_size = d, ip_type = i\<rparr> }"

record MOUSE_MOVE_REL_PACKET =
  mr_delta_x :: u16
  mr_delta_y :: u16

definition parse_mouse_move_rel :: "bytes \<Rightarrow> MOUSE_MOVE_REL_PACKET option" where
  "parse_mouse_move_rel m = do {
     x \<leftarrow> rd16 m 12; y \<leftarrow> rd16 m 14; Some \<lparr>mr_delta_x = x, mr_delta_y = y\<rparr> }"

record MOUSE_MOVE_ABS_PACKET =
  ma_x :: u16
  ma_y :: u16
  ma_width :: u16
  ma_height :: u16

definition parse_mouse_move_abs :: "bytes \<Rightarrow> MOUSE_MOVE_ABS_PACKET option" where
  "parse_mouse_move_abs m = do {
     x \<leftarrow> rd16 m 12; y \<leftarrow> rd16 m 14; w \<leftarrow> rd16 m 18; h \<leftarrow> rd16 m 20;
     Some \<lparr>ma_x = x, ma_y = y, ma_width = w, ma_height = h\<rparr> }"

record KEYBOARD_PACKET =
  kb_type :: u32
  kb_key_code :: u16
  kb_modifiers :: u8

definition parse_keyboard :: "bytes \<Rightarrow> KEYBOARD_PACKET option" where
  "parse_keyboard m = do {
     t \<leftarrow> rd32 m 8; k \<leftarrow> rd16 m 13; d \<leftarrow> oget m 15;
     Some \<lparr>kb_type = t, kb_key_code = k, kb_modifiers = d\<rparr> }"

record CONTROLLER_MULTI_PACKET =
  cm_controller_number :: u16
  cm_active_gamepad_mask :: u16
  cm_button_flags :: u16
  cm_left_trigger :: u8
  cm_right_trigger :: u8
  cm_left_stick_x :: u16
  cm_left_stick_y :: u16
  cm_right_stick_x :: u16
  cm_right_stick_y :: u16
  cm_buttonFlags2 :: u16

text \<open>Nobody looks at the last field, but the handler copies the whole struct (\<open>[pkt, session]\<close>) to set the
  state of the pad, and with it these two bytes.\<close>

definition parse_controller_multi :: "bytes \<Rightarrow> CONTROLLER_MULTI_PACKET option" where
  "parse_controller_multi m = do {
     n \<leftarrow> rd16 m 14; a \<leftarrow> rd16 m 16; b \<leftarrow> rd16 m 20; lt \<leftarrow> oget m 22; rt \<leftarrow> oget m 23;
     lx \<leftarrow> rd16 m 24; ly \<leftarrow> rd16 m 26; rx \<leftarrow> rd16 m 28; ry \<leftarrow> rd16 m 30; b2 \<leftarrow> rd16 m 34;
     tailB \<leftarrow> rd16 m 36;
     Some \<lparr>cm_controller_number = n, cm_active_gamepad_mask = a, cm_button_flags = b,
       cm_left_trigger = lt, cm_right_trigger = rt, cm_left_stick_x = lx, cm_left_stick_y = ly,
       cm_right_stick_x = rx, cm_right_stick_y = ry, cm_buttonFlags2 = b2\<rparr> }"

record TOUCH_PACKET =
  to_event_type :: TOUCH_EVENT_TYPE
  to_rotation :: u16
  to_pointer_id :: u32
  to_x :: bytes
  to_y :: bytes
  to_pressure_or_distance :: bytes

definition parse_touch :: "bytes \<Rightarrow> TOUCH_PACKET option" where
  "parse_touch m = do {
     e \<leftarrow> oget m 12; r \<leftarrow> rd16 m 14; i \<leftarrow> rd32 m 16; x \<leftarrow> rdn m 20 4; y \<leftarrow> rdn m 24 4; p \<leftarrow> rdn m 28 4;
     Some \<lparr>to_event_type = touch_event_of e, to_rotation = r, to_pointer_id = i, to_x = x, to_y = y,
       to_pressure_or_distance = p\<rparr> }"

record PEN_PACKET =
  pe_event_type :: TOUCH_EVENT_TYPE
  pe_tool_type :: u8
  pe_pen_buttons :: u8
  pe_x :: bytes
  pe_y :: bytes
  pe_pressure_or_distance :: bytes
  pe_rotation :: u16
  pe_tilt :: u8

definition parse_pen :: "bytes \<Rightarrow> PEN_PACKET option" where
  "parse_pen m = do {
     e \<leftarrow> oget m 12; t \<leftarrow> oget m 13; b \<leftarrow> oget m 14; x \<leftarrow> rdn m 16 4; y \<leftarrow> rdn m 20 4; p \<leftarrow> rdn m 24 4;
     r \<leftarrow> rd16 m 28; ti \<leftarrow> oget m 30;
     Some \<lparr>pe_event_type = touch_event_of e, pe_tool_type = t, pe_pen_buttons = b, pe_x = x, pe_y = y,
       pe_pressure_or_distance = p, pe_rotation = r, pe_tilt = ti\<rparr> }"

record CONTROLLER_ARRIVAL_PACKET =
  ca_controller_number :: u8
  ca_controller_type :: CONTROLLER_TYPE
  ca_capabilities :: u8

definition parse_controller_arrival :: "bytes \<Rightarrow> CONTROLLER_ARRIVAL_PACKET option" where
  "parse_controller_arrival m = do {
     n \<leftarrow> oget m 12; t \<leftarrow> oget m 13; c \<leftarrow> oget m 14;
     Some \<lparr>ca_controller_number = n, ca_controller_type = controller_type_of t, ca_capabilities = c\<rparr> }"

record CONTROLLER_TOUCH_PACKET =
  ct_controller_number :: u8
  ct_event_type :: TOUCH_EVENT_TYPE
  ct_pointer_id :: u32
  ct_x :: bytes
  ct_y :: bytes

definition parse_controller_touch :: "bytes \<Rightarrow> CONTROLLER_TOUCH_PACKET option" where
  "parse_controller_touch m = do {
     n \<leftarrow> oget m 12; e \<leftarrow> oget m 13; i \<leftarrow> rd32 m 16; x \<leftarrow> rdn m 20 4; y \<leftarrow> rdn m 24 4;
     Some \<lparr>ct_controller_number = n, ct_event_type = touch_event_of e, ct_pointer_id = i, ct_x = x,
       ct_y = y\<rparr> }"

record CONTROLLER_MOTION_PACKET =
  cn_controller_number :: u8
  cn_motion_type :: u8
  cn_x :: bytes
  cn_y :: bytes
  cn_z :: bytes

definition parse_controller_motion :: "bytes \<Rightarrow> CONTROLLER_MOTION_PACKET option" where
  "parse_controller_motion m = do {
     n \<leftarrow> oget m 12; t \<leftarrow> oget m 13; x \<leftarrow> rdn m 16 4; y \<leftarrow> rdn m 20 4; z \<leftarrow> rdn m 24 4;
     Some \<lparr>cn_controller_number = n, cn_motion_type = t, cn_x = x, cn_y = y, cn_z = z\<rparr> }"

record CONTROLLER_BATTERY_PACKET =
  cb_controller_number :: u8
  cb_battery_state :: BATTERY_STATE
  cb_battery_percentage :: u8

definition parse_controller_battery :: "bytes \<Rightarrow> CONTROLLER_BATTERY_PACKET option" where
  "parse_controller_battery m = do {
     n \<leftarrow> oget m 12; b \<leftarrow> oget m 13; p \<leftarrow> oget m 14;
     Some \<lparr>cb_controller_number = n, cb_battery_state = battery_state_of b, cb_battery_percentage = p\<rparr> }"

subsection \<open>Packets the host sends\<close>

text \<open>
  These structs are not packed: the compiler pads them to their alignment, and the padding
  (\<open>pad\<close>, one or two bytes of unspecified value) is sent with the rest.
\<close>

definition control_header :: "u16 \<times> u16 \<Rightarrow> bytes" where
  "control_header h = le16 (fst h) @ le16 (snd h)"

definition parse_control_header :: "bytes \<Rightarrow> (u16 \<times> u16) option" where
  "parse_control_header m = do { t \<leftarrow> rd16 m 0; l \<leftarrow> rd16 m 2; Some (t, l) }"

definition TERMINATE_REASON_GRACEFULL :: u32 where
  "TERMINATE_REASON_GRACEFULL = swap32 0x80030023"

definition terminate_packet :: bytes where
  "terminate_packet = control_header (packet_code TERMINATION, 4) @ le32 TERMINATE_REASON_GRACEFULL"

definition rumble_packet :: "u8 \<times> u8 \<Rightarrow> u16 \<Rightarrow> u16 \<Rightarrow> u16 \<Rightarrow> bytes" where
  "rumble_packet pad controller_number low_freq high_freq =
     control_header (packet_code RUMBLE_DATA, 12) @ le32 0 @
     le16 controller_number @ le16 low_freq @ le16 high_freq @ [fst pad, snd pad]"

definition motion_event_packet :: "u8 \<Rightarrow> u16 \<Rightarrow> u16 \<Rightarrow> u8 \<Rightarrow> bytes" where
  "motion_event_packet pad controller_number reportrate motion =
     control_header (packet_code MOTION_EVENT, 6) @ le16 controller_number @ le16 reportrate @
     [motion, pad]"

definition rgb_led_packet :: "u8 \<Rightarrow> u16 \<Rightarrow> u8 \<Rightarrow> u8 \<Rightarrow> u8 \<Rightarrow> bytes" where
  "rgb_led_packet pad controller_number r g b =
     control_header (packet_code RGB_LED_EVENT, 6) @ le16 controller_number @ [r, g, b, pad]"

text \<open>\<open>effect\<close> is inputtino's struct, as its bytes.\<close>

definition adaptive_trigger_packet :: "u16 \<Rightarrow> bytes \<Rightarrow> bytes" where
  "adaptive_trigger_packet controller_number effect =
     control_header (packet_code ADAPTIVE_TRIGGER_EVENT, of_nat (2 + length effect)) @
     le16 controller_number @ effect"

interpretation ctl_header: wire_format control_header parse_control_header 4 "\<lambda>_. True"
  by unfold_locales
    (auto simp: control_header_def parse_control_header_def wire)

subsection \<open>The encrypted envelope\<close>

definition GCM_TAG_SIZE :: nat where "GCM_TAG_SIZE = 16"
definition MAX_PAYLOAD_SIZE :: nat where "MAX_PAYLOAD_SIZE = 128"

text \<open>\<open>ep_payload\<close> is the memory from the \<open>payload\<close> field on: the whole array in a packet
  the host builds, the rest of the datagram in one it has received.\<close>

record ControlEncryptedPacket =
  ep_type :: u16
  ep_length :: u16
  ep_seq :: u32
  ep_gcm_tag :: bytes
  ep_payload :: bytes

definition encrypted_len :: "u16 \<Rightarrow> int" where
  "encrypted_len len = (uint len - int GCM_TAG_SIZE - 4) mod 2 ^ 64"

definition encrypted_msg :: "ControlEncryptedPacket \<Rightarrow> bytes option" where
  "encrypted_msg p =
     (let n = encrypted_len (ep_length p)
      in if n \<le> int (length (ep_payload p)) then Some (take (nat n) (ep_payload p)) else None)"

definition full_size :: "ControlEncryptedPacket \<Rightarrow> nat" where
  "full_size p = unat (ep_length p) + 4"

definition iv_data :: "u32 \<Rightarrow> bytes" where
  "iv_data seq = (ucast seq :: u8) # replicate (GCM_TAG_SIZE - 1) 0"

text \<open>The tag goes to the decryption as a view of the array without a length: the view ends at the first zero
  byte, wherever that is, but only its beginning is used, of which the decryption takes
  \<open>AES_GCM_TAG_SIZE\<close> bytes, the whole array. The search for the zero byte is not modelled.\<close>

definition decrypt_packet :: "openssl \<Rightarrow> ControlEncryptedPacket \<Rightarrow> string \<Rightarrow> bytes logged option" where
  "decrypt_packet ssl p gcm_key = do {
     msg \<leftarrow> encrypted_msg p;
     key \<leftarrow> hex_to_str gcm_key True;
     Some (aes_decrypt_gcm ssl msg key (ep_gcm_tag p) (iv_data (ep_seq p)) (Some GCM_TAG_SIZE) False) }"

text \<open>\<open>std::copy\<close> into the two arrays of the struct: \<open>None\<close> when it writes past one.\<close>

definition encrypt_packet ::
    "openssl \<Rightarrow> string \<Rightarrow> u32 \<Rightarrow> bytes \<Rightarrow> ControlEncryptedPacket logged option" where
  "encrypt_packet ssl gcm_key seq payload = do {
     key \<leftarrow> hex_to_str gcm_key True;
     let ((encrypted_str, gcm_tag), log) =
       aes_encrypt_gcm ssl payload key (iv_data seq) (Some GCM_TAG_SIZE) False;
     let size = of_nat (4 + GCM_TAG_SIZE + length encrypted_str);
     if GCM_TAG_SIZE < length gcm_tag \<or> MAX_PAYLOAD_SIZE < length encrypted_str then None
     else Some (\<lparr>ep_type = packet_code ENCRYPTED, ep_length = size, ep_seq = seq,
       ep_gcm_tag = gcm_tag @ replicate (GCM_TAG_SIZE - length gcm_tag) 0,
       ep_payload = encrypted_str @ replicate (MAX_PAYLOAD_SIZE - length encrypted_str) 0\<rparr>, log) }"

definition enc_header_bytes :: "ControlEncryptedPacket \<Rightarrow> bytes" where
  "enc_header_bytes p = le16 (ep_type p) @ le16 (ep_length p) @ le32 (ep_seq p) @ ep_gcm_tag p"

definition enc_packet_bytes :: "ControlEncryptedPacket \<Rightarrow> bytes" where
  "enc_packet_bytes p = enc_header_bytes p @ ep_payload p"

text \<open>The cast of a received datagram.\<close>

definition load_enc_packet :: "bytes \<Rightarrow> ControlEncryptedPacket option" where
  "load_enc_packet m = do {
     t \<leftarrow> rd16 m 0; l \<leftarrow> rd16 m 2; s \<leftarrow> rd32 m 4; g \<leftarrow> rdn m 8 GCM_TAG_SIZE;
     Some \<lparr>ep_type = t, ep_length = l, ep_seq = s, ep_gcm_tag = g, ep_payload = drop 24 m\<rparr> }"

lemma load_enc_header:
  "length (ep_gcm_tag p) = GCM_TAG_SIZE \<Longrightarrow>
     load_enc_packet (enc_header_bytes p @ rest) = Some (p\<lparr>ep_payload := rest\<rparr>)"
  by (simp add: load_enc_packet_def enc_header_bytes_def wire GCM_TAG_SIZE_def)

text \<open>
  What the documentation of AES-GCM promises of the calls the wrappers make: the cipher is a
  stream cipher (decrypting with the parameters used for encrypting gives the text back, lengths
  are kept), the final call produces no bytes, the tag has 16 bytes.
\<close>

definition gcm_stream :: "openssl \<Rightarrow> bool" where
  "gcm_stream ssl \<longleftrightarrow>
     (\<forall>ctx m. ctx_cipher ctx = Aes_128_gcm \<longrightarrow>
        (let c = snd (ssl_update ssl (ctx\<lparr>ctx_enc := True\<rparr>) m)
         in length c = length m \<and> snd (ssl_update ssl (ctx\<lparr>ctx_enc := False\<rparr>) c) = m) \<and>
        snd (ssl_final ssl ctx m) = [] \<and>
        length (snd (ssl_get_tag ssl ctx m)) = GCM_TAG_SIZE)"

text \<open>A cipher that adds the first byte of the key and of the IV to every byte; its tag is always
  accepted when it repeats the last byte of the text.\<close>

definition toy_ssl :: openssl where
  "toy_ssl = \<lparr>
     ssl_sha256 = (\<lambda>b. b),
     ssl_init_ok = (\<lambda>_. True),
     ssl_ctrl_ok = (\<lambda>_. True),
     ssl_update = (\<lambda>ctx m. (True,
        let k = hd (ctx_key ctx @ [0]) + hd (ctx_iv ctx @ [0])
        in map (\<lambda>b. if ctx_enc ctx then b + k else b - k) m)),
     ssl_final = (\<lambda>ctx m. (ctx_tag ctx = None \<or> ctx_tag ctx = Some (replicate 16 (last (0 # m))), [])),
     ssl_get_tag = (\<lambda>ctx m. (True, replicate 16 (last (0 # m)))),
     ssl_key_ok = (\<lambda>_ _. True),
     ssl_sign = (\<lambda>k m. (True, k @ m)),
     ssl_verify = (\<lambda>k m s. s = k @ m)\<rparr>"

lemma gcm_stream_toy: "gcm_stream toy_ssl"
  by (simp add: gcm_stream_def toy_ssl_def Let_def comp_def GCM_TAG_SIZE_def)

lemma gcm_update:
  assumes "gcm_stream ssl" "ctx_cipher ctx = Aes_128_gcm"
  shows "length (snd (ssl_update ssl (ctx\<lparr>ctx_enc := True\<rparr>) m)) = length m"
    and "snd (ssl_update ssl (ctx\<lparr>ctx_enc := False\<rparr>) (snd (ssl_update ssl (ctx\<lparr>ctx_enc := True\<rparr>) m))) = m"
    and "snd (ssl_final ssl ctx m) = []"
    and "length (snd (ssl_get_tag ssl ctx m)) = GCM_TAG_SIZE"
  using assms by (simp_all add: gcm_stream_def Let_def)

lemma gcm_init_cipher: "ctx_cipher (fst (gcm_init ssl key iv n pad)) = Aes_128_gcm"
  by (simp add: gcm_init_def aes_init_def Let_def split: option.split)

lemma aes_encrypt_gcm_out:
  assumes "gcm_stream ssl"
    and ctx_def: "ctx = fst (gcm_init ssl key iv n pad)"
  shows "fst (fst (aes_encrypt_gcm ssl m key iv n pad)) = snd (ssl_update ssl (ctx\<lparr>ctx_enc := True\<rparr>) m)"
    and "length (snd (fst (aes_encrypt_gcm ssl m key iv n pad))) = GCM_TAG_SIZE"
  using gcm_update [OF assms(1), of "ctx\<lparr>ctx_enc := True\<rparr>" m] gcm_init_cipher [of ssl key iv n pad]
  by (simp_all add: aes_encrypt_gcm_def encrypt_authenticated_def ctx_def split_def Let_def)

lemma aes_decrypt_gcm_out:
  assumes "gcm_stream ssl"
    and ctx_def: "ctx = fst (gcm_init ssl key iv n pad)"
  shows "fst (aes_decrypt_gcm ssl c key tag iv n pad) = snd (ssl_update ssl (ctx\<lparr>ctx_enc := False\<rparr>) c)"
  using gcm_update (3) [OF assms(1), of "ctx\<lparr>ctx_enc := False, ctx_tag := Some tag\<rparr>" c]
    gcm_init_cipher [of ssl key iv n pad]
  by (simp add: aes_decrypt_gcm_def decrypt_authenticated_def ctx_def Let_def split_def)

lemma gcm_roundtrip:
  "gcm_stream ssl \<Longrightarrow>
     fst (aes_decrypt_gcm ssl (fst (fst (aes_encrypt_gcm ssl m key iv n pad))) key tag iv n pad) = m \<and>
     length (fst (fst (aes_encrypt_gcm ssl m key iv n pad))) = length m"
  by (simp add: aes_decrypt_gcm_out aes_encrypt_gcm_out gcm_update gcm_init_cipher)

lemma hex_to_str_Some: "\<exists>k. hex_to_str s True = Some k"
  by (simp add: hex_to_str_eq)

text \<open>The packet the host builds, when the payload fits.\<close>

lemma encrypt_packet_Some:
  assumes ssl: "gcm_stream ssl" and len: "length payload \<le> MAX_PAYLOAD_SIZE" and key: "hex_to_str gcm_key True = Some k"
    and e_def: "e = aes_encrypt_gcm ssl payload k (iv_data seq) (Some GCM_TAG_SIZE) False"
  shows "encrypt_packet ssl gcm_key seq payload =
    Some (\<lparr>ep_type = packet_code ENCRYPTED, ep_length = of_nat (20 + length payload), ep_seq = seq,
      ep_gcm_tag = snd (fst e),
      ep_payload = fst (fst e) @ replicate (MAX_PAYLOAD_SIZE - length payload) 0\<rparr>, snd e)"
proof -
  have "length (fst (fst e)) = length payload" "length (snd (fst e)) = GCM_TAG_SIZE"
    using gcm_roundtrip [OF ssl] aes_encrypt_gcm_out (2) [OF ssl] by (auto simp: e_def)
  with len key show ?thesis
    by (simp add: encrypt_packet_def split_def Let_def e_def [symmetric]) (simp add: GCM_TAG_SIZE_def)
qed

lemma encrypted_len_eq:
  assumes "unat w = n"
  shows "encrypted_len w = (if 20 \<le> n then int n - 20 else int n - 20 + 18446744073709551616)"
proof -
  have b: "n < 65536" using assms unsigned_less [of w] by auto
  have "uint w = int n" using assms by (simp flip: of_nat_unat [where 'a = int] uint_nat)
  then have e: "encrypted_len w = (int n - 20) mod 18446744073709551616"
    by (simp add: encrypted_len_def GCM_TAG_SIZE_def)
  show ?thesis
  proof (cases "20 \<le> n")
    case True
    with b e show ?thesis by (simp add: mod_pos_pos_trivial)
  next
    case False
    have "encrypted_len w = (int n - 20 + 18446744073709551616) mod 18446744073709551616"
      unfolding e by (simp only: mod_add_self2)
    also have "\<dots> = int n - 20 + 18446744073709551616"
      using b False by (intro mod_pos_pos_trivial) auto
    finally show ?thesis using False by simp
  qed
qed

lemma encrypted_len_of_nat:
  assumes "n \<le> MAX_PAYLOAD_SIZE"
  shows "encrypted_len (of_nat (20 + n)) = int n"
proof -
  have "unat (of_nat (20 + n) :: u16) = 20 + n"
    using assms by (simp add: MAX_PAYLOAD_SIZE_def unat_of_nat del: of_nat_add)
  from encrypted_len_eq [OF this] show ?thesis by simp
qed

lemma wire_roundtrip:
  assumes ssl: "gcm_stream ssl" and len: "length payload \<le> MAX_PAYLOAD_SIZE"
  shows "\<exists>p l q l'. encrypt_packet ssl gcm_key seq payload = Some (p, l) \<and>
     load_enc_packet (take (full_size p) (enc_packet_bytes p)) = Some q \<and>
     decrypt_packet ssl q gcm_key = Some (payload, l')"
proof -
  obtain k where k: "hex_to_str gcm_key True = Some k" using hex_to_str_Some by blast
  let ?iv = "iv_data seq"
  let ?e = "aes_encrypt_gcm ssl payload k ?iv (Some GCM_TAG_SIZE) False"
  let ?c = "fst (fst ?e)"
  let ?p = "\<lparr>ep_type = packet_code ENCRYPTED, ep_length = of_nat (20 + length payload), ep_seq = seq,
      ep_gcm_tag = snd (fst ?e), ep_payload = ?c @ replicate (MAX_PAYLOAD_SIZE - length payload) 0\<rparr>"
  have c: "length ?c = length payload" using gcm_roundtrip [OF ssl] by blast
  have tag: "length (ep_gcm_tag ?p) = GCM_TAG_SIZE"
    using aes_encrypt_gcm_out (2) [OF ssl refl] by simp
  have size: "full_size ?p = 24 + length payload"
    using len by (simp add: full_size_def MAX_PAYLOAD_SIZE_def unat_of_nat unat_word_ariths del: of_nat_add)
  have hdr: "length (enc_header_bytes ?p) = 24"
    using tag by (simp add: enc_header_bytes_def GCM_TAG_SIZE_def)
  have "take (full_size ?p) (enc_packet_bytes ?p) = enc_header_bytes ?p @ ?c"
    using hdr size c by (simp add: enc_packet_bytes_def)
  then have "load_enc_packet (take (full_size ?p) (enc_packet_bytes ?p)) = Some (?p\<lparr>ep_payload := ?c\<rparr>)"
    using load_enc_header [OF tag, of ?c] by simp
  moreover have "encrypted_msg (?p\<lparr>ep_payload := ?c\<rparr>) = Some ?c"
    using encrypted_len_of_nat [OF len] c by (simp add: encrypted_msg_def Let_def)
  then have "map_option fst (decrypt_packet ssl (?p\<lparr>ep_payload := ?c\<rparr>) gcm_key) = Some payload"
    using k gcm_roundtrip [OF ssl, of payload k ?iv "Some GCM_TAG_SIZE" False]
    by (simp add: decrypt_packet_def aes_decrypt_gcm_out [OF ssl refl])
  then obtain l' where "decrypt_packet ssl (?p\<lparr>ep_payload := ?c\<rparr>) gcm_key = Some (payload, l')"
    by auto
  ultimately show ?thesis using encrypt_packet_Some [OF ssl len k refl] by blast
qed

subsection \<open>Properties\<close>

text \<open>C1: a control packet the host encrypts is read back by the peer: the bytes that go on the wire
  (the first \<open>full_size\<close> of the struct) are cast to a packet whose decryption under the same
  key is the payload, for every payload that fits the struct, key text and sequence number.\<close>
theorem control_roundtrip:
  assumes ssl: "gcm_stream ssl" and len: "length payload \<le> MAX_PAYLOAD_SIZE"
  shows "\<exists>p l q l'. encrypt_packet ssl gcm_key seq payload = Some (p, l) \<and>
     load_enc_packet (take (full_size p) (enc_packet_bytes p)) = Some q \<and>
     decrypt_packet ssl q gcm_key = Some (payload, l')"
  by (rule wire_roundtrip [OF ssl len])

theorem control_roundtrip_witness:
  "\<exists>p l q l'. encrypt_packet toy_ssl ''0F1E'' 7 [1, 2, 3] = Some (p, l) \<and>
     load_enc_packet (take (full_size p) (enc_packet_bytes p)) = Some q \<and>
     decrypt_packet toy_ssl q ''0F1E'' = Some ([1, 2, 3], l')"
  by (rule control_roundtrip [OF gcm_stream_toy]) (simp add: MAX_PAYLOAD_SIZE_def)

text \<open>the authentication tag of a received control packet has no effect on what the host
  decrypts: replacing it by any other bytes gives the same plaintext (only the log differs),
  although the routine is documented to check that the tag is valid. A failed
  \<open>EVP_DecryptFinal_ex\<close> is printed and execution continues.\<close>
theorem decrypt_ignores_tag:
  assumes "gcm_stream ssl"
  shows "map_option fst (decrypt_packet ssl (p\<lparr>ep_gcm_tag := forged\<rparr>) gcm_key) =
    map_option fst (decrypt_packet ssl p gcm_key)"
proof -
  have "encrypted_msg (p\<lparr>ep_gcm_tag := forged\<rparr>) = encrypted_msg p"
    by (cases p) (simp add: encrypted_msg_def Let_def)
  then show ?thesis
    by (cases "encrypted_msg p"; cases "hex_to_str gcm_key True")
      (simp_all add: decrypt_packet_def aes_decrypt_gcm_out [OF assms refl])
qed

theorem decrypt_ignores_tag_witness:
  "map_option fst (decrypt_packet toy_ssl \<lparr>ep_type = 1, ep_length = 22, ep_seq = 0,
      ep_gcm_tag = [], ep_payload = [9, 9]\<rparr> ''00'') = Some [9, 9]"
proof -
  have "map_option fst (decrypt_packet toy_ssl
      (\<lparr>ep_type = 1, ep_length = 22, ep_seq = 0, ep_gcm_tag = replicate 16 9, ep_payload = [9, 9]\<rparr>
        \<lparr>ep_gcm_tag := []\<rparr>) ''00'') = Some [9, 9]"
    unfolding decrypt_ignores_tag [OF gcm_stream_toy] by code_simp
  then show ?thesis by simp
qed

text \<open>the sequence number reaches the GCM nonce only through its low byte: two packets whose
  sequence numbers agree modulo 256 are encrypted under the same nonce, so equal payloads give
  equal ciphertexts and tags, although the field is documented as the IV of AES-GCM.\<close>
theorem nonce_repeats:
  assumes "gcm_stream ssl" "length payload \<le> MAX_PAYLOAD_SIZE"
    and "seq mod 256 = seq' mod (256 :: u32)"
  shows "map_option (\<lambda>r. (ep_payload (fst r), ep_gcm_tag (fst r))) (encrypt_packet ssl gcm_key seq payload) =
    map_option (\<lambda>r. (ep_payload (fst r), ep_gcm_tag (fst r))) (encrypt_packet ssl gcm_key seq' payload)"
proof -
  obtain k where k: "hex_to_str gcm_key True = Some k" using hex_to_str_Some by blast
  have low: "ucast s = (ucast (s mod 256) :: u8)" for s :: u32
  proof -
    have "s mod 256 = take_bit 8 s" by (simp add: take_bit_eq_mod)
    then show ?thesis by (intro bit_word_eqI) (simp add: bit_simps)
  qed
  have "iv_data seq = iv_data seq'"
    unfolding iv_data_def using low [of seq] low [of seq'] assms(3) by simp
  then show ?thesis
    using encrypt_packet_Some [OF assms(1,2) k refl] by simp
qed

theorem nonce_repeats_witness:
  "map_option (\<lambda>r. (ep_payload (fst r), ep_gcm_tag (fst r))) (encrypt_packet toy_ssl ''00'' 1 [5, 6]) =
    map_option (\<lambda>r. (ep_payload (fst r), ep_gcm_tag (fst r))) (encrypt_packet toy_ssl ''00'' 257 [5, 6])"
  by (rule nonce_repeats [OF gcm_stream_toy]) (simp_all add: MAX_PAYLOAD_SIZE_def)

text \<open>a received packet is decrypted without reading past its datagram exactly when its
  length field is at least 20 and covers no more than the datagram: nothing else bounds the read,
  and a length below 20 wraps around to a huge size.\<close>
theorem encrypted_msg_bounds:
  assumes "length (ep_payload p) < 2 ^ 32"
  shows "encrypted_msg p \<noteq> None \<longleftrightarrow>
    20 \<le> unat (ep_length p) \<and> unat (ep_length p) \<le> 20 + length (ep_payload p)"
proof -
  define m n where "m = length (ep_payload p)" and "n = unat (ep_length p)"
  have "encrypted_msg p \<noteq> None \<longleftrightarrow> encrypted_len (ep_length p) \<le> int m"
    by (simp add: encrypted_msg_def Let_def m_def)
  moreover have "m < 4294967296" using assms by (simp add: m_def)
  ultimately show ?thesis
    unfolding encrypted_len_eq [OF n_def [symmetric]] m_def [symmetric] n_def [symmetric] by auto
qed

theorem encrypted_msg_bounds_witness:
  "encrypted_msg \<lparr>ep_type = 1, ep_length = 19, ep_seq = 0, ep_gcm_tag = [], ep_payload = [1, 2, 3]\<rparr> = None"
  using encrypted_msg_bounds [of "\<lparr>ep_type = 1, ep_length = 19, ep_seq = 0, ep_gcm_tag = [],
      ep_payload = [1, 2, 3]\<rparr>"] by simp

end
