(* ===== verification/Runner_Config.thy ===== *)
theory Runner_Config
  imports Helpers "HOL-Library.Monad_Syntax"
begin

section \<open>Runners and containers: runners/docker.hpp, runners/process.hpp, core/docker.hpp\<close>

text \<open>
  What an application runs: a command or a Docker container, as the configuration has it
  (\<open>AppCMD\<close>, \<open>AppDocker\<close>) and as the object made from it. \<open>get_runner\<close> reads the colon separated
  texts of a container and throws on one that has too few pieces or a port that is no number;
  \<open>serialize\<close> writes the object back to a configuration. The handles of an object (the bus, the
  socket of the daemon) are left out.
\<close>

subsection \<open>Data\<close>

datatype Runner_config =
    AppCMD string
  | AppDocker string string "string list" "string list" "string list" "string list" "string option"

datatype ContainerStatus = CREATED | RUNNING | PAUSED | RESTARTING | REMOVING | EXITED | DEAD

datatype PortType = TCP | UDP

record Port =
  po_private_port :: int
  po_public_port :: int
  po_type :: PortType

record MountPoint =
  mp_source :: string
  mp_destination :: string
  mp_mode :: string

record Device =
  de_path_on_host :: string
  de_path_in_container :: string
  de_cgroup_permission :: string

record Container =
  ct_id :: string
  ct_name :: string
  ct_hostname :: string
  ct_image :: string
  ct_status :: ContainerStatus
  ct_ports :: "Port list"
  ct_mounts :: "MountPoint list"
  ct_devices :: "Device list"
  ct_env :: "string list"

datatype Runner =
    RunProcess string
  | RunDocker Container string

subsection \<open>Formatters (docker/formatters.hpp)\<close>

definition colon :: string where
  "colon = '':''"

definition port_type_text :: "PortType \<Rightarrow> string" where
  "port_type_text t = (if t = TCP then ''tcp'' else ''udp'')"

definition port_text :: "Port \<Rightarrow> string" where
  "port_text p = dec_int (po_private_port p) @ colon @ dec_int (po_public_port p) @ ''/'' @ port_type_text (po_type p)"

definition mount_text :: "MountPoint \<Rightarrow> string" where
  "mount_text m = mp_source m @ colon @ mp_destination m @ colon @ mp_mode m"

definition device_text :: "Device \<Rightarrow> string" where
  "device_text d = de_path_on_host d @ colon @ de_path_in_container d @ colon @ de_cgroup_permission d"

subsection \<open>From the configuration and back (runners/docker.hpp)\<close>

definition mount_of_text :: "string \<Rightarrow> MountPoint option" where
  "mount_of_text mount =
     (case split_str mount (CHR '':'') of
        a # b # rest \<Rightarrow> Some \<lparr>mp_source = a, mp_destination = b, mp_mode = (case rest of [] \<Rightarrow> ''rw'' | c # _ \<Rightarrow> c)\<rparr>
      | _ \<Rightarrow> None)"

definition port_of_text :: "string \<Rightarrow> Port option" where
  "port_of_text port =
     (case split_str port (CHR '':'') of
        a # b # rest \<Rightarrow>
          (case (stoi a, stoi b) of
             (Inr private_port, Inr public_port) \<Rightarrow>
               Some \<lparr>po_private_port = private_port, po_public_port = public_port,
                 po_type = (case rest of [] \<Rightarrow> TCP | c # _ \<Rightarrow> if c = ''udp'' then UDP else TCP)\<rparr>
           | _ \<Rightarrow> None)
      | _ \<Rightarrow> None)"

definition device_of_text :: "string \<Rightarrow> Device option" where
  "device_of_text mount =
     (case split_str mount (CHR '':'') of
        a # b # rest \<Rightarrow> Some \<lparr>de_path_on_host = a, de_path_in_container = b,
          de_cgroup_permission = (case rest of [] \<Rightarrow> ''mrw'' | c # _ \<Rightarrow> c)\<rparr>
      | _ \<Rightarrow> None)"

text \<open>The options of a container whose configuration has none.\<close>

definition default_create_json :: string where
  "default_create_json =
     (let q = [CHR 0x22]; nl = [CHR 0x0A]
      in ''{'' @ nl @ q @ ''HostConfig'' @ q @ '': {'' @ nl @ ''  '' @ q @ ''IpcMode'' @ q @ '': '' @ q @ ''host'' @ q @ nl @ ''}'' @ nl @ ''}'')"

definition from_cfg :: "string \<Rightarrow> string \<Rightarrow> string list \<Rightarrow> string list \<Rightarrow> string list \<Rightarrow> string list \<Rightarrow> string option \<Rightarrow> Runner option" where
  "from_cfg name img mounts env devices ports base_create_json = do {
     ms \<leftarrow> those (map mount_of_text mounts);
     ps \<leftarrow> those (map port_of_text ports);
     ds \<leftarrow> those (map device_of_text devices);
     Some (RunDocker \<lparr>ct_id = [], ct_name = name, ct_hostname = [], ct_image = img, ct_status = CREATED,
         ct_ports = ps, ct_mounts = ms, ct_devices = ds, ct_env = env\<rparr>
       (case base_create_json of None \<Rightarrow> default_create_json | Some j \<Rightarrow> j)) }"

fun get_runner :: "Runner_config \<Rightarrow> Runner option" where
  "get_runner (AppCMD run_cmd) = Some (RunProcess run_cmd)"
| "get_runner (AppDocker name img mounts env devices ports json) = from_cfg name img mounts env devices ports json"

fun serialize :: "Runner \<Rightarrow> Runner_config" where
  "serialize (RunProcess run_cmd) = AppCMD run_cmd"
| "serialize (RunDocker c json) = AppDocker (ct_name c) (ct_image c) (map mount_text (ct_mounts c)) (ct_env c)
     (map device_text (ct_devices c)) (map port_text (ct_ports c)) (Some json)"

subsection \<open>Reading back what was written\<close>

lemma split_tails_one: "sep \<notin> set a \<Longrightarrow> split_tails sep a = [a]"
proof -
  assume "sep \<notin> set a"
  then have "dropWhile (\<lambda>c. c \<noteq> sep) a = []" by auto
  then show ?thesis by (subst split_tails.simps) (simp only: list.case)
qed

lemma split_tails_more:
  assumes "sep \<notin> set a"
  shows "split_tails sep (a @ sep # b) = (a @ sep # b) # split_tails sep b"
proof -
  have "dropWhile (\<lambda>c. c \<noteq> sep) (a @ sep # b) = sep # b"
    using assms by (induction a) auto
  then show ?thesis by (subst split_tails.simps) simp
qed

lemma takeWhile_sep: "sep \<notin> set a \<Longrightarrow> takeWhile (\<lambda>c. c \<noteq> sep) (a @ sep # b) = a"
  by (induction a) auto

lemma takeWhile_none: "sep \<notin> set a \<Longrightarrow> takeWhile (\<lambda>c. c \<noteq> sep) a = a"
  by (induction a) auto

lemma split_two: "\<lbrakk>sep \<notin> set a; sep \<notin> set b\<rbrakk> \<Longrightarrow> split_str (a @ sep # b) sep = [a, b]"
  by (simp add: split_str_def split_data_def split_tails_more split_tails_one takeWhile_sep takeWhile_none)

lemma split_three:
  "\<lbrakk>sep \<notin> set a; sep \<notin> set b; sep \<notin> set c\<rbrakk> \<Longrightarrow> split_str (a @ sep # b @ sep # c) sep = [a, b, c]"
  by (simp add: split_str_def split_data_def split_tails_more split_tails_one takeWhile_sep takeWhile_none)

lemma split_str_no_sep: "p \<in> set (split_str s sep) \<Longrightarrow> sep \<notin> set p"
  by (rule split_str_pieces)

text \<open>\<open>stoi\<close> reads back what \<open>std::to_string\<close> wrote, whatever follows it but a digit.\<close>

lemma dec_int_not_colon: "CHR '':'' \<notin> set (dec_int i)"
proof -
  have "\<not> is_digit (CHR '':'')" by (simp add: is_digit_def)
  then show ?thesis using dec_digits [of "CHR '':''"] by (auto simp: dec_int_def)
qed

lemma read_number_dec_then:
  assumes "rest = [] \<or> \<not> is_digit (hd rest)"
  shows "read_number (dec n @ rest) = Some (False, n)" and "read_number (CHR ''-'' # dec n @ rest) = Some (True, n)"
proof -
  obtain c r where cr: "dec n = c # r" by (cases "dec n") auto
  then have c: "is_digit c" using dec_digits [of c n] by simp
  then have nc: "\<not> is_space c" "c \<noteq> CHR ''-''" "c \<noteq> CHR ''+''"
    by (auto simp: digit_not_space dest: digit_not_sign)
  have "takeWhile is_digit (dec n @ rest) = dec n @ takeWhile is_digit rest"
    using dec_digits by (simp add: takeWhile_append2)
  moreover have "takeWhile is_digit rest = []" using assms by (cases rest) auto
  ultimately have tw: "takeWhile is_digit (dec n @ rest) = dec n" by simp
  show "read_number (dec n @ rest) = Some (False, n)"
    using nc tw undec_dec [of n] cr by (simp add: read_number_def Let_def)
  have "\<not> is_space (CHR ''-'')" by (simp add: is_space_def)
  then show "read_number (CHR ''-'' # dec n @ rest) = Some (True, n)"
    using tw undec_dec [of n] by (simp add: read_number_def Let_def)
qed

lemma stoi_dec_int:
  assumes "- (2 ^ 31) \<le> i" "i < 2 ^ 31" "rest = [] \<or> \<not> is_digit (hd rest)"
  shows "stoi (dec_int i @ rest) = Inr i"
  using assms read_number_dec_then [OF assms(3), of "nat i"] read_number_dec_then [OF assms(3), of "nat (- i)"]
  by (auto simp: stoi_def dec_int_def)

lemma stoi_range: "stoi s = Inr i \<Longrightarrow> - (2 ^ 31) \<le> i \<and> i < 2 ^ 31"
  by (auto simp: stoi_def Let_def split: option.splits prod.splits if_splits)

lemma mount_text_inverse:
  assumes "mount_of_text t = Some m"
  shows "mount_of_text (mount_text m) = Some m"
proof -
  have "CHR '':'' \<notin> set (mp_source m)" "CHR '':'' \<notin> set (mp_destination m)" "CHR '':'' \<notin> set (mp_mode m)"
    using assms split_str_no_sep [of _ t "CHR '':''"] by (auto simp: mount_of_text_def split: list.splits)
  then show ?thesis by (simp add: mount_of_text_def mount_text_def colon_def split_three)
qed

lemma device_text_inverse:
  assumes "device_of_text t = Some d"
  shows "device_of_text (device_text d) = Some d"
proof -
  have "CHR '':'' \<notin> set (de_path_on_host d)" "CHR '':'' \<notin> set (de_path_in_container d)" "CHR '':'' \<notin> set (de_cgroup_permission d)"
    using assms split_str_no_sep [of _ t "CHR '':''"] by (auto simp: device_of_text_def split: list.splits)
  then show ?thesis by (simp add: device_of_text_def device_text_def colon_def split_three)
qed

lemma port_text_is_tcp:
  assumes "port_of_text t = Some p"
  shows "port_of_text (port_text p) = Some (p\<lparr>po_type := TCP\<rparr>)"
proof -
  have range: "- (2 ^ 31) \<le> po_private_port p" "po_private_port p < 2 ^ 31" "- (2 ^ 31) \<le> po_public_port p" "po_public_port p < 2 ^ 31"
    using assms by (auto simp: port_of_text_def split: list.splits sum.splits dest!: stoi_range)
  let ?b = "dec_int (po_public_port p) @ ''/'' @ port_type_text (po_type p)"
  have nd: "\<not> is_digit (CHR ''/'')" by (simp add: is_digit_def)
  have "split_str (port_text p) (CHR '':'') = [dec_int (po_private_port p), ?b]"
    using split_two [of "CHR '':''" "dec_int (po_private_port p)" ?b] dec_int_not_colon
    by (simp add: port_text_def colon_def port_type_text_def)
  moreover have "stoi (dec_int (po_private_port p)) = Inr (po_private_port p)" "stoi ?b = Inr (po_public_port p)"
    using stoi_dec_int [of _ "[]"] stoi_dec_int [of _ "''/'' @ port_type_text (po_type p)"] range nd by simp_all
  ultimately show ?thesis by (simp add: port_of_text_def)
qed

definition tcp_only :: "Runner \<Rightarrow> Runner" where
  "tcp_only r = (case r of RunProcess c \<Rightarrow> RunProcess c
     | RunDocker c json \<Rightarrow> RunDocker (c\<lparr>ct_ports := map (\<lambda>p. p\<lparr>po_type := TCP\<rparr>) (ct_ports c)\<rparr>) json)"

text \<open>C36: A runner that is written to a configuration and read again is the same runner, but for its
  UDP ports: the writer prints \<open>private:public/udp\<close>, which the reader takes for a TCP port.\<close>

theorem runner_roundtrip:
  assumes "get_runner cfg = Some r"
  shows "get_runner (serialize r) = Some (tcp_only r)"
proof (cases cfg)
  case (AppCMD c)
  with assms show ?thesis by (auto simp: tcp_only_def)
next
  case (AppDocker name img mounts env devices ports json)
  then obtain ms ps ds where parts: "those (map mount_of_text mounts) = Some ms" "those (map port_of_text ports) = Some ps"
      "those (map device_of_text devices) = Some ds"
    and r: "r = RunDocker \<lparr>ct_id = [], ct_name = name, ct_hostname = [], ct_image = img, ct_status = CREATED,
      ct_ports = ps, ct_mounts = ms, ct_devices = ds, ct_env = env\<rparr> (case json of None \<Rightarrow> default_create_json | Some j \<Rightarrow> j)"
    using assms by (auto simp: from_cfg_def split: bind_splits)
  have "those (map mount_of_text (map mount_text ms)) = Some ms" "those (map device_of_text (map device_text ds)) = Some ds"
      "those (map port_of_text (map port_text ps)) = Some (map (\<lambda>p. p\<lparr>po_type := TCP\<rparr>) ps)"
    using those_map_inverse [OF parts(1), of mount_text "\<lambda>x. x"] those_map_inverse [OF parts(3), of device_text "\<lambda>x. x"]
      those_map_inverse [OF parts(2), of port_text "\<lambda>p. p\<lparr>po_type := TCP\<rparr>"]
      mount_text_inverse device_text_inverse port_text_is_tcp by simp_all
  then show ?thesis by (simp add: r from_cfg_def tcp_only_def)
qed

theorem runner_roundtrip_witness:
  "\<exists>r. get_runner (AppDocker ''Game'' ''image'' [''/a:/b''] [''A=1''] [''/dev/x:/dev/y:r''] [''1234:1235:udp''] None) = Some r \<and>
     get_runner (serialize r) = Some (tcp_only r) \<and> tcp_only r \<noteq> r"
proof -
  let ?cfg = "AppDocker ''Game'' ''image'' [''/a:/b''] [''A=1''] [''/dev/x:/dev/y:r''] [''1234:1235:udp''] None"
  have split: "split_str ''/a:/b'' (CHR '':'') = [''/a'', ''/b'']" "split_str ''/dev/x:/dev/y:r'' (CHR '':'') = [''/dev/x'', ''/dev/y'', ''r'']"
      "split_str ''1234:1235:udp'' (CHR '':'') = [''1234'', ''1235'', ''udp'']"
    using split_two [of "CHR '':''" "''/a''" "''/b''"] split_three [of "CHR '':''" "''/dev/x''" "''/dev/y''" "''r''"]
      split_three [of "CHR '':''" "''1234''" "''1235''" "''udp''"] by simp_all
  have num: "stoi ''1234'' = Inr 1234" "stoi ''1235'' = Inr 1235" by code_simp+
  obtain r where r: "get_runner ?cfg = Some r" and udp: "tcp_only r \<noteq> r"
    using split num by (simp add: from_cfg_def mount_of_text_def device_of_text_def port_of_text_def tcp_only_def)
  then show ?thesis using runner_roundtrip [OF r] by blast
qed

end
