(* ===== verification/Events.thy ===== *)
theory Events
  imports Control_Proto Runner_Config
begin

section \<open>Sessions and events: moonlight-server/events, state/serialised_config.hpp\<close>

text \<open>
  The data the components share: client settings, applications, stream sessions and the messages
  of the event bus. A \<open>float\<close> is its 32-bit pattern and a \<open>double\<close> its 64-bit pattern;
  arithmetic on them is a parameter where it is used. Fields the modelled code never reads
  (promises, GStreamer and PulseAudio handles) are left out.
\<close>

type_synonym f32 = u32
type_synonym f64 = u64

record DisplayMode =
  dm_width :: int
  dm_height :: int
  dm_refreshRate :: int
  dm_hevc_supported :: bool
  dm_av1_supported :: bool

subsection \<open>Configuration data\<close>

datatype ControllerType = CT_XBOX | CT_PS | CT_NINTENDO | CT_AUTO

record ClientSettings =
  cs_run_uid :: nat
  cs_run_gid :: nat
  cs_controllers_override :: "ControllerType list"
  cs_mouse_acceleration :: f32
  cs_v_scroll_acceleration :: f32
  cs_h_scroll_acceleration :: f32
  cs_motion_controller_override :: ControllerType

text \<open>The default of the three accelerations: 1.0 in IEEE 754 single precision. \<open>uid\<close> and
  \<open>gid\<close> are the texts of the two environment variables, \<open>1000\<close> when unset; a text that
  is no number throws.\<close>

definition client_settings_default :: "string option \<Rightarrow> string option \<Rightarrow> num_error + ClientSettings" where
  "client_settings_default uid gid =
     (let text = (\<lambda>v. case v of None \<Rightarrow> ''1000'' | Some s \<Rightarrow> s)
      in case stoul (text uid) of
           Inl e \<Rightarrow> Inl e
         | Inr u \<Rightarrow>
             (case stoul (text gid) of
                Inl e \<Rightarrow> Inl e
              | Inr g \<Rightarrow> Inr \<lparr>cs_run_uid = u mod 2 ^ 32, cs_run_gid = g mod 2 ^ 32, cs_controllers_override = [],
                  cs_mouse_acceleration = 0x3F800000, cs_v_scroll_acceleration = 0x3F800000,
                  cs_h_scroll_acceleration = 0x3F800000, cs_motion_controller_override = CT_AUTO\<rparr>))"

record PairedClient =
  pc_client_cert :: string
  pc_app_state_folder :: string
  pc_settings :: ClientSettings

subsection \<open>Applications and sessions\<close>

record App =
  app_title :: string
  app_id :: string
  app_support_hdr :: bool
  app_icon_png_path :: "string option"
  app_h264_gst_pipeline :: string
  app_hevc_gst_pipeline :: string
  app_av1_gst_pipeline :: string
  app_render_node :: string
  app_opus_gst_pipeline :: string
  app_start_virtual_compositor :: bool
  app_start_audio_server :: bool
  app_video_producer_buffer_caps :: string
  app_controller_override :: ControllerType
  app_runner :: Runner

record StreamSession =
  ss_display_mode :: DisplayMode
  ss_audio_channel_count :: int
  ss_client_settings :: ClientSettings
  ss_app :: "App option"
  ss_app_local_state_folder :: string
  ss_app_host_state_folder :: string
  ss_aes_key :: string
  ss_aes_iv :: string
  ss_rtp_secret_payload :: bytes
  ss_enet_secret_payload :: u32
  ss_rtsp_fake_ip :: string
  ss_session_id :: nat
  ss_ip :: string
  ss_video_stream_port :: u16
  ss_audio_stream_port :: u16
  ss_control_stream_port :: u16

subsection \<open>Messages of the event bus\<close>

datatype ColorRange = JPEG | MPEG

text \<open>A cast of another number gives a value that is none of the enumerators.\<close>

datatype ColorSpace = BT601 | BT709 | BT2020 | Other_space int

record VideoSession =
  vs_display_mode :: "int \<times> int \<times> int"
  vs_gst_pipeline :: string
  vs_render_node :: string
  vs_session_id :: nat
  vs_port :: u16
  vs_timeout_ms :: int
  vs_wait_for_ping :: bool
  vs_packet_size :: int
  vs_frames_with_invalid_ref_threshold :: int
  vs_fec_percentage :: int
  vs_min_required_fec_packets :: int
  vs_bitrate_kbps :: int
  vs_slices_per_frame :: int
  vs_color_range :: ColorRange
  vs_color_space :: ColorSpace
  vs_client_ip :: string
  vs_rtp_secret_payload :: bytes

datatype Speakers =
    FRONT_LEFT | FRONT_RIGHT | FRONT_CENTER | LOW_FREQUENCY | BACK_LEFT | BACK_RIGHT | SIDE_LEFT
  | SIDE_RIGHT

record AudioMode =
  am_channels :: int
  am_streams :: int
  am_coupled_streams :: int
  am_speakers :: "Speakers list"
  am_bitrate :: int
  am_sample_rate :: int

record AudioSession =
  as_gst_pipeline :: string
  as_session_id :: nat
  as_encrypt_audio :: bool
  as_aes_key :: string
  as_aes_iv :: string
  as_port :: u16
  as_wait_for_ping :: bool
  as_client_ip :: string
  as_rtp_secret_payload :: bytes
  as_packet_duration :: int
  as_audio_mode :: AudioMode

type_synonym udev_events = "(string \<times> string) list list"
type_synonym udev_hw_db = "(string \<times> string list) list"

record VideoSettings =
  vset_width :: int
  vset_height :: int
  vset_refresh_rate :: int
  vset_wayland_render_node :: string
  vset_runner_render_node :: string
  vset_video_producer_buffer_caps :: string

type_synonym lobby_pin = "int list option"

record CreateLobby =
  cl_id :: string
  cl_profile_id :: string
  cl_name :: string
  cl_icon_png_path :: "string option"
  cl_pin :: lobby_pin
  cl_multi_user :: bool
  cl_stop_when_everyone_leaves :: bool
  cl_video_settings :: VideoSettings
  cl_channel_count :: int
  cl_client_settings :: ClientSettings
  cl_runner_state_folder :: string
  cl_runner :: Runner

datatype bus_event =
    PlugDeviceEvent string udev_events udev_hw_db
  | PairSignal string string string
  | UnplugDeviceEvent string udev_events udev_hw_db
  | StreamSessionEvent StreamSession
  | VideoSessionEvent VideoSession
  | AudioSessionEvent AudioSession
  | IDRRequestEvent nat
  | PauseStreamEvent nat
  | ResumeStreamEvent nat
  | StopStreamEvent nat
  | ClientWolfUIComboEvent nat
  | RTPVideoPingEvent string u16 "bytes option"
  | RTPAudioPingEvent string u16 "bytes option"
  | StartRunner bool Runner StreamSession
  | JoinLobbyEvent string nat lobby_pin
  | LeaveLobbyEvent string nat
  | CreateLobbyEvent CreateLobby
  | StopLobbyEvent string lobby_pin
  | SwitchStreamProducerEvents nat string
  | DockerContainerCreated string string string
  | DockerContainerStopped string string string

text \<open>The session an event speaks of.\<close>

fun event_session :: "bus_event \<Rightarrow> string option" where
  "event_session (PlugDeviceEvent s _ _) = Some s"
| "event_session (UnplugDeviceEvent s _ _) = Some s"
| "event_session (VideoSessionEvent v) = Some (dec (vs_session_id v))"
| "event_session (AudioSessionEvent a) = Some (dec (as_session_id a))"
| "event_session (StreamSessionEvent s) = Some (dec (ss_session_id s))"
| "event_session (IDRRequestEvent i) = Some (dec i)"
| "event_session (PauseStreamEvent i) = Some (dec i)"
| "event_session (ResumeStreamEvent i) = Some (dec i)"
| "event_session (StopStreamEvent i) = Some (dec i)"
| "event_session (ClientWolfUIComboEvent i) = Some (dec i)"
| "event_session (StartRunner _ _ s) = Some (dec (ss_session_id s))"
| "event_session (JoinLobbyEvent _ i _) = Some (dec i)"
| "event_session (LeaveLobbyEvent _ i) = Some (dec i)"
| "event_session (SwitchStreamProducerEvents i _) = Some (dec i)"
| "event_session (DockerContainerCreated _ _ s) = Some s"
| "event_session (DockerContainerStopped _ _ s) = Some s"
| "event_session (RTPVideoPingEvent _ _ _) = None"
| "event_session (RTPAudioPingEvent _ _ _) = None"
| "event_session (PairSignal _ _ _) = None"
| "event_session (CreateLobbyEvent _) = None"
| "event_session (StopLobbyEvent _ _) = None"

text \<open>The events about the devices of a session.\<close>

fun device_event :: "bus_event \<Rightarrow> bool" where
  "device_event (PlugDeviceEvent _ _ _) = True"
| "device_event (UnplugDeviceEvent _ _ _) = True"
| "device_event (ClientWolfUIComboEvent _) = True"
| "device_event _ = False"

subsection \<open>A concrete session\<close>

definition demo_settings :: ClientSettings where
  "demo_settings = \<lparr>cs_run_uid = 1000, cs_run_gid = 1000, cs_controllers_override = [],
     cs_mouse_acceleration = 1, cs_v_scroll_acceleration = 1, cs_h_scroll_acceleration = 1,
     cs_motion_controller_override = CT_AUTO\<rparr>"

definition demo_session :: StreamSession where
  "demo_session = \<lparr>
     ss_display_mode = \<lparr>dm_width = 1920, dm_height = 1080, dm_refreshRate = 60, dm_hevc_supported = True,
       dm_av1_supported = False\<rparr>,
     ss_audio_channel_count = 2, ss_client_settings = demo_settings, ss_app = None,
     ss_app_local_state_folder = ''/etc/wolf/1/game'', ss_app_host_state_folder = ''/etc/wolf/1/game'',
     ss_aes_key = ''00112233445566778899AABBCCDDEEFF'', ss_aes_iv = ''1234'',
     ss_rtp_secret_payload = replicate 16 65, ss_enet_secret_payload = 77,
     ss_rtsp_fake_ip = ''1.2.3.4'', ss_session_id = 42, ss_ip = ''192.168.1.9'',
     ss_video_stream_port = 48100, ss_audio_stream_port = 48200, ss_control_stream_port = 47999\<rparr>"

end
