(* ===== verification/Input_Handler.thy ===== *)
theory Input_Handler
  imports Events
begin

section \<open>Input handling: moonlight-server/control/input_handler.cpp\<close>

text \<open>
  Every handler takes the session's virtual devices and returns them updated; what it does to a
  device, to the event bus or to the network is an action appended to \<open>sd_out\<close>. The
  devices belong to inputtino and to the Wayland plugin: whether one can be created, and what
  udev says of it, comes from the record \<open>input_env\<close>, like the floating-point operations.
\<close>

subsection \<open>Environment, devices and actions\<close>

record fops =
  f_of_int :: "int \<Rightarrow> f32"
  f_lt :: "f32 \<Rightarrow> f32 \<Rightarrow> bool"
  f_neg :: "f32 \<Rightarrow> f32"
  f_mul :: "f32 \<Rightarrow> f32 \<Rightarrow> f32"
  f_div :: "f32 \<Rightarrow> f32 \<Rightarrow> f32"
  f_sin :: "f32 \<Rightarrow> f32"
  f_cos :: "f32 \<Rightarrow> f32"
  f_atan2 :: "f32 \<Rightarrow> f32 \<Rightarrow> f32"
  f_to_d :: "f32 \<Rightarrow> f64"
  d_to_f :: "f64 \<Rightarrow> f32"
  d_mul :: "f64 \<Rightarrow> f64 \<Rightarrow> f64"
  d_div :: "f64 \<Rightarrow> f64 \<Rightarrow> f64"
  d_pi :: f64

datatype MouseTypes = Mouse | WaylandMouse
datatype KeyboardTypes = Keyboard | WaylandKeyboard
datatype TouchScreenTypes = TouchScreen | WaylandTouchScreen
datatype JoypadTypes = XboxOneJoypad | SwitchJoypad | PS5Joypad

datatype device = Dev_pen_tablet | Dev_touch_screen | Dev_joypad int JoypadTypes

record input_env =
  ie_fl :: fops
  ie_can_create :: "device \<Rightarrow> bool"
  ie_udev_events :: "device \<Rightarrow> udev_events"
  ie_udev_hw_db :: "device \<Rightarrow> udev_hw_db"
  ie_nodes :: "device \<Rightarrow> string list"
  ie_btn_start :: u32
  ie_btn_dpad_up :: u32
  ie_btn_right_button :: u32
  ie_touchpad_width :: u16
  ie_touchpad_height :: u16
  ie_pad_byte :: u8
  ie_to_utf32 :: "bytes \<Rightarrow> u32 list"
  ie_event_code :: "string \<Rightarrow> string option"

datatype mouse_button_kind = LEFT | MIDDLE | RIGHT | SIDE | EXTRA
datatype pen_btn = PRIMARY | SECONDARY | TERTIARY
datatype pen_tool = PEN_TOOL | ERASER | SAME_AS_BEFORE
datatype stick = LS | RS
datatype motion_kind = PAD_ACCELERATION | PAD_GYROSCOPE
datatype pad_battery = PAD_DISCHARGING | PAD_CHARGHING | PAD_CHARGHING_ERROR | PAD_BATTERY_FULL

datatype action =
    Fire bus_event
  | Encrypt_and_send bytes string
  | Add_input_device string
  | Mouse_move f32 f32
  | Mouse_move_abs f32 f32 int int
  | Mouse_press mouse_button_kind
  | Mouse_release mouse_button_kind
  | Wl_press u8
  | Wl_release u8
  | Vertical_scroll f32
  | Horizontal_scroll f32
  | Key_press u16
  | Key_release u16
  | Place_finger u32 f32 f32 f32 int
  | Release_finger u32
  | Wl_down u32 f32 f32
  | Wl_motion u32 f32 f32
  | Wl_up u32
  | Wl_cancel
  | Wl_frame
  | Pen_set_btn pen_btn bool
  | Pen_place_tool pen_tool f32 f32 f32 f32 f32 f32
  | Pad_buttons int u32
  | Pad_stick int stick int int
  | Pad_triggers int u8 u8
  | Pad_place_finger int u32 f32 f32
  | Pad_release_finger int u32
  | Pad_motion int motion_kind f32 f32 f32
  | Pad_battery int pad_battery u8
  | Log_warning string

record devices =
  sd_wayland :: bool
  sd_mouse :: "MouseTypes option"
  sd_keyboard :: "KeyboardTypes option"
  sd_touch_screen :: "TouchScreenTypes option"
  sd_pen_tablet :: bool
  sd_joypads :: "int \<Rightarrow> JoypadTypes option"
  sd_out :: "action list"

definition emits :: "action list \<Rightarrow> devices \<Rightarrow> devices" where
  "emits as dv = dv\<lparr>sd_out := sd_out dv @ as\<rparr>"

lemma emits_frame [frame, simp]:
  "sd_wayland (emits as dv) = sd_wayland dv"
  "sd_mouse (emits as dv) = sd_mouse dv"
  "sd_keyboard (emits as dv) = sd_keyboard dv"
  "sd_touch_screen (emits as dv) = sd_touch_screen dv"
  "sd_pen_tablet (emits as dv) = sd_pen_tablet dv"
  "sd_joypads (emits as dv) = sd_joypads dv"
  "sd_out (emits as dv) = sd_out dv @ as"
  by (simp_all add: emits_def)

text \<open>What stops a handler: a field past the end of the packet, or \<open>std::map::at\<close> on a
  missing key.\<close>

datatype crash = Read_past_end | Std_out_of_range

subsection \<open>Floats of the protocol\<close>

definition from_netfloat :: "bytes \<Rightarrow> f32" where
  "from_netfloat b = get32 (b ! 0) (b ! 1) (b ! 2) (b ! 3)"

definition netfloat_to_0_1 :: "fops \<Rightarrow> bytes \<Rightarrow> f32" where
  "netfloat_to_0_1 fl b =
     (let v = from_netfloat b
      in if f_lt fl v (f_of_int fl 0) then f_of_int fl 0
         else if f_lt fl (f_of_int fl 1) v then f_of_int fl 1 else v)"

definition deg2rad :: "fops \<Rightarrow> f32 \<Rightarrow> f32" where
  "deg2rad fl degree =
     d_to_f fl (d_mul fl (f_to_d fl degree) (d_div fl (d_pi fl) (f_to_d fl (f_of_int fl 180))))"

text \<open>A big-endian \<open>short\<close> of the wire.\<close>

definition be_short :: "u16 \<Rightarrow> int" where
  "be_short w = sint (swap16 w)"

subsection \<open>Creating devices\<close>

definition on_rumble_fn :: "input_env \<Rightarrow> StreamSession \<Rightarrow> int \<Rightarrow> int \<Rightarrow> int \<Rightarrow> action" where
  "on_rumble_fn env ss controller_number low_freq high_freq =
     Encrypt_and_send
       (rumble_packet (ie_pad_byte env, ie_pad_byte env) (of_int controller_number)
          (of_int low_freq) (of_int high_freq)) (ss_aes_key ss)"

definition on_led_fn :: "input_env \<Rightarrow> StreamSession \<Rightarrow> int \<Rightarrow> int \<Rightarrow> int \<Rightarrow> int \<Rightarrow> action" where
  "on_led_fn env ss controller_number r g b =
     Encrypt_and_send
       (rgb_led_packet (ie_pad_byte env) (of_int controller_number) (of_int r) (of_int g) (of_int b))
       (ss_aes_key ss)"

definition on_adaptive_trigger_fn :: "StreamSession \<Rightarrow> int \<Rightarrow> bytes \<Rightarrow> action" where
  "on_adaptive_trigger_fn ss controller_number effect =
     Encrypt_and_send (adaptive_trigger_packet (of_int controller_number) effect) (ss_aes_key ss)"

definition has_motion :: "u8 \<Rightarrow> bool" where
  "has_motion capabilities \<longleftrightarrow> capabilities AND (ACCELEROMETER OR GYRO) \<noteq> 0"

definition final_controller_type ::
    "StreamSession \<Rightarrow> int \<Rightarrow> CONTROLLER_TYPE \<Rightarrow> u8 \<Rightarrow> ControllerType" where
  "final_controller_type ss controller_number requested_type capabilities =
     (let ovr = cs_controllers_override (ss_client_settings ss);
          t0 = (if 0 \<le> controller_number \<and> controller_number < int (length ovr)
                then ovr ! nat controller_number else CT_AUTO);
          t1 = (case ss_app ss of
                  Some a \<Rightarrow> if app_controller_override a \<noteq> CT_AUTO then app_controller_override a else t0
                | None \<Rightarrow> t0)
      in if t1 = CT_AUTO then
           (if has_motion capabilities \<and>
               cs_motion_controller_override (ss_client_settings ss) \<noteq> CT_AUTO
            then cs_motion_controller_override (ss_client_settings ss)
            else (case requested_type of
                    XBOX \<Rightarrow> CT_XBOX
                  | PS \<Rightarrow> CT_PS
                  | NINTENDO \<Rightarrow> CT_NINTENDO
                  | _ \<Rightarrow> if has_motion capabilities then CT_PS else CT_AUTO))
         else t1)"

fun joypad_of :: "ControllerType \<Rightarrow> JoypadTypes" where
  "joypad_of CT_AUTO = XboxOneJoypad"
| "joypad_of CT_XBOX = XboxOneJoypad"
| "joypad_of CT_PS = PS5Joypad"
| "joypad_of CT_NINTENDO = SwitchJoypad"

text \<open>The nodes of a DualSense that are a touchpad; \<open>node.at("DEVNAME")\<close> may throw.\<close>

fun touchpad_nodes :: "udev_events \<Rightarrow> crash + string list" where
  "touchpad_nodes [] = Inr []"
| "touchpad_nodes (node # nodes) =
     (if map_of node ''ID_INPUT_TOUCHPAD'' \<noteq> None then
        (case map_of node ''DEVNAME'' of
           None \<Rightarrow> Inl Std_out_of_range
         | Some d \<Rightarrow> map_sum id ((#) d) (touchpad_nodes nodes))
      else touchpad_nodes nodes)"

definition motion_requests :: "input_env \<Rightarrow> StreamSession \<Rightarrow> int \<Rightarrow> u8 \<Rightarrow> ControllerType \<Rightarrow> action list" where
  "motion_requests env ss controller_number capabilities final_type =
     (if capabilities AND ACCELEROMETER \<noteq> 0 \<and> final_type = CT_PS
      then [Encrypt_and_send
              (motion_event_packet (ie_pad_byte env) (of_int controller_number) 100 ACCELERATION)
              (ss_aes_key ss)] else []) @
     (if capabilities AND GYRO \<noteq> 0 \<and> final_type = CT_PS
      then [Encrypt_and_send
              (motion_event_packet (ie_pad_byte env) (of_int controller_number) 100 GYROSCOPE)
              (ss_aes_key ss)] else [])"

definition plug_event :: "input_env \<Rightarrow> StreamSession \<Rightarrow> device \<Rightarrow> action" where
  "plug_event env ss d = Fire (PlugDeviceEvent (dec (ss_session_id ss)) (ie_udev_events env d) (ie_udev_hw_db env d))"

definition create_new_joypad ::
    "input_env \<Rightarrow> StreamSession \<Rightarrow> int \<Rightarrow> CONTROLLER_TYPE \<Rightarrow> u8 \<Rightarrow> devices \<Rightarrow>
     crash + devices \<times> JoypadTypes option" where
  "create_new_joypad env ss controller_number requested_type capabilities dv =
     (let final_type = final_controller_type ss controller_number requested_type capabilities;
          pad = joypad_of final_type;
          dev = Dev_joypad controller_number pad
      in if \<not> ie_can_create env dev then Inr (dv, None)
         else (case (if final_type = CT_PS \<and> sd_wayland dv then touchpad_nodes (ie_udev_events env dev) else Inr []) of
                 Inl e \<Rightarrow> Inl e
               | Inr nodes \<Rightarrow>
                   Inr ((emits (map Add_input_device nodes @
                                motion_requests env ss controller_number capabilities final_type @
                                [plug_event env ss dev]) dv)
                          \<lparr>sd_joypads := (sd_joypads dv)(controller_number \<mapsto> pad)\<rparr>,
                        Some pad)))"

definition create_pen_tablet :: "input_env \<Rightarrow> StreamSession \<Rightarrow> devices \<Rightarrow> devices \<times> bool" where
  "create_pen_tablet env ss dv =
     (if \<not> ie_can_create env Dev_pen_tablet then (dv, False)
      else ((emits (plug_event env ss Dev_pen_tablet #
               (if sd_wayland dv then map Add_input_device (ie_nodes env Dev_pen_tablet) else [])) dv)
              \<lparr>sd_pen_tablet := True\<rparr>, True))"

definition create_touch_screen :: "input_env \<Rightarrow> StreamSession \<Rightarrow> devices \<Rightarrow> devices \<times> bool" where
  "create_touch_screen env ss dv =
     (if \<not> ie_can_create env Dev_touch_screen then (dv, False)
      else ((emits (plug_event env ss Dev_touch_screen #
               (if sd_wayland dv then map Add_input_device (ie_nodes env Dev_touch_screen) else [])) dv)
              \<lparr>sd_touch_screen := Some TouchScreen\<rparr>, True))"

subsection \<open>Mouse\<close>

definition mouse_move_rel :: "input_env \<Rightarrow> StreamSession \<Rightarrow> MOUSE_MOVE_REL_PACKET \<Rightarrow> devices \<Rightarrow> devices" where
  "mouse_move_rel env ss pkt dv =
     (case sd_mouse dv of
        None \<Rightarrow> emits [Log_warning ''Received MOUSE_MOVE_REL_PACKET but no mouse device is present''] dv
      | Some _ \<Rightarrow>
          let fl = ie_fl env; acc = cs_mouse_acceleration (ss_client_settings ss)
          in emits [Mouse_move (f_mul fl (f_of_int fl (be_short (mr_delta_x pkt))) acc)
                               (f_mul fl (f_of_int fl (be_short (mr_delta_y pkt))) acc)] dv)"

definition mouse_move_abs :: "input_env \<Rightarrow> StreamSession \<Rightarrow> MOUSE_MOVE_ABS_PACKET \<Rightarrow> devices \<Rightarrow> devices" where
  "mouse_move_abs env ss pkt dv =
     (case sd_mouse dv of
        None \<Rightarrow> emits [Log_warning ''Received MOUSE_MOVE_ABS_PACKET but no mouse device is present''] dv
      | Some _ \<Rightarrow>
          let fl = ie_fl env; acc = cs_mouse_acceleration (ss_client_settings ss);
              W = dm_width (ss_display_mode ss); H = dm_height (ss_display_mode ss);
              scale = (\<lambda>v window screen. f_mul fl (f_mul fl (f_div fl v window) (f_of_int fl screen)) acc)
          in emits [Mouse_move_abs
                      (scale (f_of_int fl (be_short (ma_x pkt))) (f_of_int fl (be_short (ma_width pkt))) W)
                      (scale (f_of_int fl (be_short (ma_y pkt))) (f_of_int fl (be_short (ma_height pkt))) H)
                      W H] dv)"

definition btn_type :: "u8 \<Rightarrow> mouse_button_kind" where
  "btn_type button =
     (if button = 1 then LEFT else if button = 2 then MIDDLE else if button = 3 then RIGHT
      else if button = 4 then SIDE else EXTRA)"

definition mouse_button :: "u32 \<Rightarrow> u8 \<Rightarrow> devices \<Rightarrow> devices" where
  "mouse_button typ button dv =
     (case sd_mouse dv of
        None \<Rightarrow> emits [Log_warning ''Received MOUSE_BUTTON_PACKET but no mouse device is present''] dv
      | Some Mouse \<Rightarrow>
          emits [if typ = input_code MOUSE_BUTTON_PRESS then Mouse_press (btn_type button)
                 else Mouse_release (btn_type button)] dv
      | Some WaylandMouse \<Rightarrow>
          emits [if typ = input_code MOUSE_BUTTON_PRESS then Wl_press button else Wl_release button] dv)"

definition mouse_scroll :: "input_env \<Rightarrow> StreamSession \<Rightarrow> u16 \<Rightarrow> devices \<Rightarrow> devices" where
  "mouse_scroll env ss scroll_amt1 dv =
     (case sd_mouse dv of
        None \<Rightarrow> emits [Log_warning ''Received MOUSE_SCROLL_PACKET but no mouse device is present''] dv
      | Some _ \<Rightarrow>
          emits [Vertical_scroll (f_mul (ie_fl env) (f_of_int (ie_fl env) (be_short scroll_amt1))
                   (cs_v_scroll_acceleration (ss_client_settings ss)))] dv)"

definition mouse_h_scroll :: "input_env \<Rightarrow> StreamSession \<Rightarrow> u16 \<Rightarrow> devices \<Rightarrow> devices" where
  "mouse_h_scroll env ss scroll_amount dv =
     (case sd_mouse dv of
        None \<Rightarrow> emits [Log_warning ''Received MOUSE_HSCROLL_PACKET but no mouse device is present''] dv
      | Some _ \<Rightarrow>
          emits [Horizontal_scroll (f_mul (ie_fl env) (f_of_int (ie_fl env) (be_short scroll_amount))
                   (cs_h_scroll_acceleration (ss_client_settings ss)))] dv)"

subsection \<open>Keyboard\<close>

text \<open>A modifier flag of the packet whose own key is not the one being pressed.\<close>

definition virtual_mod :: "u8 \<Rightarrow> u8 \<Rightarrow> u16 \<Rightarrow> u16 \<Rightarrow> bool" where
  "virtual_mod modifiers flag key modkey \<longleftrightarrow> modifiers AND flag \<noteq> 0 \<and> key \<noteq> modkey"

definition mods :: "u8 \<Rightarrow> u16 \<Rightarrow> u16 list" where
  "mods modifiers key =
     (if virtual_mod modifiers SHIFT key M_SHIFT then [M_SHIFT] else []) @
     (if virtual_mod modifiers CTRL key M_CTRL then [M_CTRL] else []) @
     (if virtual_mod modifiers ALT key M_ALT then [M_ALT] else []) @
     (if virtual_mod modifiers META key M_META then [M_META] else [])"

definition wolf_ui_combo :: "u8 \<Rightarrow> u16 \<Rightarrow> bool" where
  "wolf_ui_combo modifiers key \<longleftrightarrow>
     (if virtual_mod modifiers SHIFT key M_SHIFT then 1 else 0) +
     (if virtual_mod modifiers CTRL key M_CTRL then 1 else 0) +
     (if virtual_mod modifiers ALT key M_ALT then 1 else 0) = (3 :: nat) \<and> key = 0x57"

definition keyboard_key :: "StreamSession \<Rightarrow> KEYBOARD_PACKET \<Rightarrow> devices \<Rightarrow> devices" where
  "keyboard_key ss pkt dv =
     (let moonlight_key = kb_key_code pkt AND 0x7fff; modifiers = kb_modifiers pkt
      in case sd_keyboard dv of
           None \<Rightarrow> emits [Log_warning ''Received KEYBOARD_PACKET but no keyboard device is present''] dv
         | Some _ \<Rightarrow>
             if kb_type pkt = input_code KEY_PRESS then
               (if wolf_ui_combo modifiers moonlight_key
                then emits [Key_release M_SHIFT, Key_release M_CTRL, Key_release M_ALT,
                            Fire (ClientWolfUIComboEvent (ss_session_id ss))] dv
                else emits (map Key_press (mods modifiers moonlight_key) @ [Key_press moonlight_key] @
                            map Key_release (mods modifiers moonlight_key)) dv)
             else emits [Key_release moonlight_key] dv)"

text \<open>\<open>paste_utf\<close> of platforms/input_linux.cpp: CTRL+SHIFT+U, then the code point in
  hexadecimal, each digit through its linux key name; a name libevdev does not know is skipped,
  one that has no Moonlight code throws.\<close>

fun hex_upper :: "nat \<Rightarrow> string" where
  "hex_upper n = (if n < 16 then [hex_digit n] else hex_upper (n div 16) @ [hex_digit (n mod 16)])"

declare hex_upper.simps [simp del]

definition to_hex :: "u32 list \<Rightarrow> string" where
  "to_hex str =
     (case str of
        [] \<Rightarrow> []
      | c # cs \<Rightarrow>
          (let h = hex_upper (unat c) in replicate (4 - length h) (CHR ''0'') @ h) @
          concat (map (\<lambda>c. hex_upper (unat c)) cs))"

definition key_mappings :: "(string \<times> u16) list" where
  "key_mappings =
    [(''KEY_BACKSPACE'', 0x08), (''KEY_TAB'', 0x09), (''KEY_ENTER'', 0x0D), (''KEY_LEFTSHIFT'', 0x10),
     (''KEY_LEFTCTRL'', 0x11), (''KEY_CAPSLOCK'', 0x14), (''KEY_ESC'', 0x1B), (''KEY_SPACE'', 0x20),
     (''KEY_PAGEUP'', 0x21), (''KEY_PAGEDOWN'', 0x22), (''KEY_END'', 0x23), (''KEY_HOME'', 0x24),
     (''KEY_LEFT'', 0x25), (''KEY_UP'', 0x26), (''KEY_RIGHT'', 0x27), (''KEY_DOWN'', 0x28),
     (''KEY_SYSRQ'', 0x2C), (''KEY_INSERT'', 0x2D), (''KEY_DELETE'', 0x2E), (''KEY_0'', 0x30),
     (''KEY_1'', 0x31), (''KEY_2'', 0x32), (''KEY_3'', 0x33), (''KEY_4'', 0x34),
     (''KEY_5'', 0x35), (''KEY_6'', 0x36), (''KEY_7'', 0x37), (''KEY_8'', 0x38),
     (''KEY_9'', 0x39), (''KEY_A'', 0x41), (''KEY_B'', 0x42), (''KEY_C'', 0x43),
     (''KEY_D'', 0x44), (''KEY_E'', 0x45), (''KEY_F'', 0x46), (''KEY_G'', 0x47),
     (''KEY_H'', 0x48), (''KEY_I'', 0x49), (''KEY_J'', 0x4A), (''KEY_K'', 0x4B),
     (''KEY_L'', 0x4C), (''KEY_M'', 0x4D), (''KEY_N'', 0x4E), (''KEY_O'', 0x4F),
     (''KEY_P'', 0x50), (''KEY_Q'', 0x51), (''KEY_R'', 0x52), (''KEY_S'', 0x53),
     (''KEY_T'', 0x54), (''KEY_U'', 0x55), (''KEY_V'', 0x56), (''KEY_W'', 0x57),
     (''KEY_X'', 0x58), (''KEY_Y'', 0x59), (''KEY_Z'', 0x5A), (''KEY_LEFTMETA'', 0x5B),
     (''KEY_RIGHTMETA'', 0x5C), (''KEY_KP0'', 0x60), (''KEY_KP1'', 0x61), (''KEY_KP2'', 0x62),
     (''KEY_KP3'', 0x63), (''KEY_KP4'', 0x64), (''KEY_KP5'', 0x65), (''KEY_KP6'', 0x66),
     (''KEY_KP7'', 0x67), (''KEY_KP8'', 0x68), (''KEY_KP9'', 0x69), (''KEY_KPASTERISK'', 0x6A),
     (''KEY_KPPLUS'', 0x6B), (''KEY_KPMINUS'', 0x6D), (''KEY_KPDOT'', 0x6E), (''KEY_KPSLASH'', 0x6F),
     (''KEY_F1'', 0x70), (''KEY_F2'', 0x71), (''KEY_F3'', 0x72), (''KEY_F4'', 0x73),
     (''KEY_F5'', 0x74), (''KEY_F6'', 0x75), (''KEY_F7'', 0x76), (''KEY_F8'', 0x77),
     (''KEY_F9'', 0x78), (''KEY_F10'', 0x79), (''KEY_F11'', 0x7A), (''KEY_F12'', 0x7B),
     (''KEY_NUMLOCK'', 0x90), (''KEY_SCROLLLOCK'', 0x91), (''KEY_LEFTSHIFT'', 0xA0), (''KEY_RIGHTSHIFT'', 0xA1),
     (''KEY_LEFTCTRL'', 0xA2), (''KEY_RIGHTCTRL'', 0xA3), (''KEY_LEFTALT'', 0xA4), (''KEY_RIGHTALT'', 0xA5),
     (''KEY_SEMICOLON'', 0xBA), (''KEY_EQUAL'', 0xBB), (''KEY_COMMA'', 0xBC), (''KEY_MINUS'', 0xBD),
     (''KEY_DOT'', 0xBE), (''KEY_SLASH'', 0xBF), (''KEY_GRAVE'', 0xC0), (''KEY_LEFTBRACE'', 0xDB),
     (''KEY_BACKSLASH'', 0xDC), (''KEY_RIGHTBRACE'', 0xDD), (''KEY_APOSTROPHE'', 0xDE), (''KEY_102ND'', 0xE2)]"

fun type_hex :: "input_env \<Rightarrow> string \<Rightarrow> crash + action list" where
  "type_hex env [] = Inr []"
| "type_hex env (ch # chs) =
     (case ie_event_code env (''KEY_'' @ [ch]) of
        None \<Rightarrow> map_sum id ((#) (Log_warning (''[INPUT] Unable to find keycode for: '' @ [ch]))) (type_hex env chs)
      | Some keycode \<Rightarrow>
          (case map_of key_mappings keycode of
             None \<Rightarrow> Inl Std_out_of_range
           | Some k \<Rightarrow> map_sum id ((@) [Key_press k, Key_release k]) (type_hex env chs)))"

definition paste_utf :: "input_env \<Rightarrow> u32 list \<Rightarrow> crash + action list" where
  "paste_utf env utf32 =
     map_sum id
       (\<lambda>as. [Key_press 0xA2, Key_press 0xA0, Key_press 0x55, Key_release 0x55] @ as @
             [Key_release 0xA0, Key_release 0xA2])
       (type_hex env (to_hex utf32))"

text \<open>\<open>size\<close> is computed on \<open>size_t\<close>; \<open>text\<close> is the packet from its 12th byte on.\<close>

definition utf8_text :: "input_env \<Rightarrow> u32 \<Rightarrow> bytes \<Rightarrow> devices \<Rightarrow> crash + devices" where
  "utf8_text env data_size text dv =
     (case sd_keyboard dv of
        None \<Rightarrow> Inr (emits [Log_warning ''Received UTF8_TEXT_PACKET but no keyboard device is present''] dv)
      | Some _ \<Rightarrow>
          let size = (uint (swap32 data_size) - 2 - 2) mod 2 ^ 64
          in if int (length text) < size then Inl Read_past_end
             else (case paste_utf env (ie_to_utf32 env (take (nat size) text)) of
                     Inl e \<Rightarrow> Inl e
                   | Inr as \<Rightarrow> Inr (emits as dv)))"

subsection \<open>Touch screen and pen\<close>

text \<open>The 0..360 rotation of the packet relative to the Y axis.\<close>

definition adjusted_angle :: "u16 \<Rightarrow> int" where
  "adjusted_angle rotation =
     (let a0 = uint rotation;
          a1 = (if 90 < a0 \<and> a0 < 270 then 180 - a0 else a0)
      in if 90 < a1 then a1 - 360 else if a1 < -90 then a1 + 360 else a1)"

definition touch_unknown :: "TOUCH_EVENT_TYPE \<Rightarrow> action" where
  "touch_unknown e = Log_warning ''[INPUT] Unknown touch event type''"

definition touch_actions :: "input_env \<Rightarrow> TOUCH_PACKET \<Rightarrow> TouchScreenTypes \<Rightarrow> action list" where
  "touch_actions env pkt screen =
     (let fl = ie_fl env; finger = to_pointer_id pkt;
          x = netfloat_to_0_1 fl (to_x pkt); y = netfloat_to_0_1 fl (to_y pkt);
          pressure = netfloat_to_0_1 fl (to_pressure_or_distance pkt); e = to_event_type pkt
      in case screen of
           TouchScreen \<Rightarrow>
             (if e = TOUCH_EVENT_HOVER \<or> e = TOUCH_EVENT_DOWN \<or> e = TOUCH_EVENT_MOVE
              then [Place_finger finger x y pressure (adjusted_angle (to_rotation pkt))]
              else if e = TOUCH_EVENT_UP \<or> e = TOUCH_EVENT_HOVER_LEAVE \<or> e = TOUCH_EVENT_CANCEL
              then [Release_finger finger] else [touch_unknown e])
         | WaylandTouchScreen \<Rightarrow>
             (if e = TOUCH_EVENT_HOVER \<or> e = TOUCH_EVENT_DOWN then [Wl_down finger x y]
              else if e = TOUCH_EVENT_MOVE then [Wl_motion finger x y]
              else if e = TOUCH_EVENT_UP then [Wl_up finger]
              else if e = TOUCH_EVENT_HOVER_LEAVE \<or> e = TOUCH_EVENT_CANCEL then [Wl_cancel]
              else [touch_unknown e]) @ [Wl_frame])"

definition touch :: "input_env \<Rightarrow> StreamSession \<Rightarrow> TOUCH_PACKET \<Rightarrow> devices \<Rightarrow> devices" where
  "touch env ss pkt dv =
     (let dv1 = (if sd_touch_screen dv = None then fst (create_touch_screen env ss dv) else dv)
      in case sd_touch_screen dv1 of
           None \<Rightarrow> dv1
         | Some screen \<Rightarrow> emits (touch_actions env pkt screen) dv1)"

definition pen_actions :: "input_env \<Rightarrow> PEN_PACKET \<Rightarrow> action list" where
  "pen_actions env pkt =
     (let fl = ie_fl env;
          tool = (if pe_tool_type pkt = TOOL_TYPE_PEN then PEN_TOOL
                  else if pe_tool_type pkt = TOOL_TYPE_ERASER then ERASER else SAME_AS_BEFORE);
          pressure = netfloat_to_0_1 fl (pe_pressure_or_distance pkt);
          rotation = (if pe_rotation pkt \<noteq> PEN_ROTATION_UNKNOWN then pe_rotation pkt mod 360
                      else pe_rotation pkt);
          rotation_rads = deg2rad fl (f_of_int fl (uint rotation));
          tilt_rads = deg2rad fl (f_of_int fl (uint (pe_tilt pkt)));
          r = f_sin fl tilt_rads; z = f_cos fl tilt_rads;
          to_deg = (\<lambda>v. d_to_f fl (d_div fl (f_to_d fl (f_mul fl v (f_of_int fl 180))) (d_pi fl)));
          known = (pe_tilt pkt \<noteq> PEN_TILT_UNKNOWN \<and> rotation \<noteq> PEN_ROTATION_UNKNOWN);
          tilt_x = (if known then to_deg (f_atan2 fl (f_mul fl (f_sin fl (f_neg fl rotation_rads)) r) z)
                    else f_of_int fl 0);
          tilt_y = (if known then to_deg (f_atan2 fl (f_mul fl (f_cos fl (f_neg fl rotation_rads)) r) z)
                    else f_of_int fl 0);
          is_touching = (pe_event_type pkt = TOUCH_EVENT_DOWN \<or> pe_event_type pkt = TOUCH_EVENT_MOVE)
      in [Pen_set_btn PRIMARY (pe_pen_buttons pkt AND PEN_BUTTON_TYPE_PRIMARY \<noteq> 0),
          Pen_set_btn SECONDARY (pe_pen_buttons pkt AND PEN_BUTTON_TYPE_SECONDARY \<noteq> 0),
          Pen_set_btn TERTIARY (pe_pen_buttons pkt AND PEN_BUTTON_TYPE_TERTIARY \<noteq> 0),
          Pen_place_tool tool (netfloat_to_0_1 fl (pe_x pkt)) (netfloat_to_0_1 fl (pe_y pkt))
            (if is_touching then pressure else f_of_int fl (-1))
            (if is_touching then f_of_int fl (-1) else pressure) tilt_x tilt_y])"

definition pen :: "input_env \<Rightarrow> StreamSession \<Rightarrow> PEN_PACKET \<Rightarrow> devices \<Rightarrow> devices" where
  "pen env ss pkt dv =
     (let has_pen_device = sd_pen_tablet dv;
          dv1 = (if \<not> has_pen_device then fst (create_pen_tablet env ss dv) else dv)
      in if has_pen_device then emits (pen_actions env pkt) dv1 else dv1)"

subsection \<open>Controllers\<close>

definition controller_arrival ::
    "input_env \<Rightarrow> StreamSession \<Rightarrow> CONTROLLER_ARRIVAL_PACKET \<Rightarrow> devices \<Rightarrow> crash + devices" where
  "controller_arrival env ss pkt dv =
     (let n = uint (ca_controller_number pkt)
      in if sd_joypads dv n \<noteq> None then Inr dv
         else map_sum id fst
                (create_new_joypad env ss n (ca_controller_type pkt) (ca_capabilities pkt) dv))"

text \<open>\<open>active_gamepad_mask & (1 << controller_number)\<close> on \<open>int\<close>: the shift count is taken
  modulo 32, as the processor does where C++ leaves it undefined.\<close>

definition still_active :: "u16 \<Rightarrow> int \<Rightarrow> bool" where
  "still_active gamepads n \<longleftrightarrow> bit (sint gamepads) (nat (n mod 32))"

definition pad_actions :: "input_env \<Rightarrow> StreamSession \<Rightarrow> int \<Rightarrow> CONTROLLER_MULTI_PACKET \<Rightarrow> action list" where
  "pad_actions env ss n pkt =
     (let bf = ucast (cm_button_flags pkt) :: u32; bf2 = scast (cm_buttonFlags2 pkt) :: u32;
          pressed = bf OR push_bit 16 bf2
      in (if pressed AND ie_btn_start env \<noteq> 0 \<and> pressed AND ie_btn_dpad_up env \<noteq> 0 \<and>
             pressed AND ie_btn_right_button env \<noteq> 0
          then [Fire (ClientWolfUIComboEvent (ss_session_id ss))] else []) @
         [Pad_buttons n pressed,
          Pad_stick n LS (sint (cm_left_stick_x pkt)) (sint (cm_left_stick_y pkt)),
          Pad_stick n RS (sint (cm_right_stick_x pkt)) (sint (cm_right_stick_y pkt)),
          Pad_triggers n (cm_left_trigger pkt) (cm_right_trigger pkt)])"

definition unplug_event :: "input_env \<Rightarrow> StreamSession \<Rightarrow> device \<Rightarrow> action" where
  "unplug_event env ss d =
     Fire (UnplugDeviceEvent (dec (ss_session_id ss)) (ie_udev_events env d) (ie_udev_hw_db env d))"

definition remove_joypad :: "input_env \<Rightarrow> StreamSession \<Rightarrow> int \<Rightarrow> JoypadTypes \<Rightarrow> devices \<Rightarrow> devices" where
  "remove_joypad env ss n pad dv =
     (emits [unplug_event env ss (Dev_joypad n pad)] dv)\<lparr>sd_joypads := (sd_joypads dv)(n := None)\<rparr>"

definition controller_multi ::
    "input_env \<Rightarrow> StreamSession \<Rightarrow> CONTROLLER_MULTI_PACKET \<Rightarrow> devices \<Rightarrow> crash + devices" where
  "controller_multi env ss pkt dv =
     (let n = sint (cm_controller_number pkt)
      in case sd_joypads dv n of
           Some pad \<Rightarrow>
             Inr (emits (pad_actions env ss n pkt)
               (if \<not> still_active (cm_active_gamepad_mask pkt) n then remove_joypad env ss n pad dv
                else dv))
         | None \<Rightarrow>
             (case create_new_joypad env ss n XBOX (ANALOG_TRIGGERS OR RUMBLE) dv of
                Inl e \<Rightarrow> Inl e
              | Inr (dv', None) \<Rightarrow> Inr dv'
              | Inr (dv', Some pad) \<Rightarrow> Inr (emits (pad_actions env ss n pkt) dv')))"

definition controller_touch :: "input_env \<Rightarrow> CONTROLLER_TOUCH_PACKET \<Rightarrow> devices \<Rightarrow> devices" where
  "controller_touch env pkt dv =
     (let n = uint (ct_controller_number pkt); fl = ie_fl env; e = ct_event_type pkt
      in case sd_joypads dv n of
           None \<Rightarrow> emits [Log_warning ''Received controller touch for unknown controller''] dv
         | Some pad \<Rightarrow>
             if e = TOUCH_EVENT_DOWN \<or> e = TOUCH_EVENT_HOVER \<or> e = TOUCH_EVENT_MOVE then
               (if pad = PS5Joypad
                then emits [Pad_place_finger n (ct_pointer_id pkt)
                       (f_mul fl (netfloat_to_0_1 fl (ct_x pkt)) (f_of_int fl (uint (ie_touchpad_width env))))
                       (f_mul fl (netfloat_to_0_1 fl (ct_y pkt)) (f_of_int fl (uint (ie_touchpad_height env))))] dv
                else dv)
             else if e = TOUCH_EVENT_UP \<or> e = TOUCH_EVENT_HOVER_LEAVE \<or> e = TOUCH_EVENT_CANCEL then
               (if pad = PS5Joypad then emits [Pad_release_finger n (ct_pointer_id pkt)] dv else dv)
             else if e = TOUCH_EVENT_CANCEL_ALL then
               emits [Log_warning ''Received TOUCH_EVENT_CANCEL_ALL which isn't supported''] dv
             else if e = TOUCH_EVENT_BUTTON_ONLY then
               emits [Log_warning ''Received TOUCH_EVENT_BUTTON_ONLY which isn't supported''] dv
             else dv)"

definition controller_motion :: "input_env \<Rightarrow> CONTROLLER_MOTION_PACKET \<Rightarrow> devices \<Rightarrow> devices" where
  "controller_motion env pkt dv =
     (let n = uint (cn_controller_number pkt); fl = ie_fl env;
          x = from_netfloat (cn_x pkt); y = from_netfloat (cn_y pkt); z = from_netfloat (cn_z pkt)
      in if sd_joypads dv n = Some PS5Joypad then
           (if cn_motion_type pkt = ACCELERATION then emits [Pad_motion n PAD_ACCELERATION x y z] dv
            else if cn_motion_type pkt = GYROSCOPE
            then emits [Pad_motion n PAD_GYROSCOPE (deg2rad fl x) (deg2rad fl y) (deg2rad fl z)] dv
            else dv)
         else dv)"

text \<open>A state outside the enumeration leaves \<open>state\<close> uninitialised in the code: whatever it
  holds then is the argument \<open>junk\<close>.\<close>

definition battery_actions :: "pad_battery \<Rightarrow> int \<Rightarrow> CONTROLLER_BATTERY_PACKET \<Rightarrow> action list" where
  "battery_actions junk n pkt =
     (let give = (\<lambda>s. if cb_battery_percentage pkt \<noteq> BATTERY_PERCENTAGE_UNKNOWN
                     then [Pad_battery n s (cb_battery_percentage pkt)] else [])
      in case cb_battery_state pkt of
           BATTERY_STATE_UNKNOWN \<Rightarrow> []
         | BATTERY_NOT_PRESENT \<Rightarrow> []
         | BATTERY_DISCHARGHING \<Rightarrow> give PAD_DISCHARGING
         | BATTERY_CHARGING \<Rightarrow> give PAD_CHARGHING
         | BATTERY_NOT_CHARGING \<Rightarrow> give PAD_CHARGHING_ERROR
         | BATTERY_FULL \<Rightarrow> give PAD_BATTERY_FULL
         | OTHER_BATTERY _ \<Rightarrow> give junk)"

definition controller_battery :: "pad_battery \<Rightarrow> CONTROLLER_BATTERY_PACKET \<Rightarrow> devices \<Rightarrow> devices" where
  "controller_battery junk pkt dv =
     (let n = uint (cb_controller_number pkt)
      in if sd_joypads dv n = Some PS5Joypad then emits (battery_actions junk n pkt) dv else dv)"

subsection \<open>Dispatch\<close>

definition with_pkt :: "'p option \<Rightarrow> ('p \<Rightarrow> crash + devices) \<Rightarrow> crash + devices" where
  "with_pkt p f = (case p of None \<Rightarrow> Inl Read_past_end | Some pkt \<Rightarrow> f pkt)"

definition handle_input ::
    "input_env \<Rightarrow> pad_battery \<Rightarrow> StreamSession \<Rightarrow> bytes \<Rightarrow> devices \<Rightarrow> crash + devices" where
  "handle_input env junk ss m dv =
     with_pkt (parse_input m) (\<lambda>hdr.
       case input_of_code (ip_type hdr) of
         None \<Rightarrow> Inr dv
       | Some t \<Rightarrow>
           (case t of
              MOUSE_MOVE_REL \<Rightarrow> with_pkt (parse_mouse_move_rel m) (\<lambda>p. Inr (mouse_move_rel env ss p dv))
            | MOUSE_MOVE_ABS \<Rightarrow> with_pkt (parse_mouse_move_abs m) (\<lambda>p. Inr (mouse_move_abs env ss p dv))
            | MOUSE_BUTTON_PRESS \<Rightarrow> with_pkt (oget m 12) (\<lambda>b. Inr (mouse_button (ip_type hdr) b dv))
            | MOUSE_BUTTON_RELEASE \<Rightarrow> with_pkt (oget m 12) (\<lambda>b. Inr (mouse_button (ip_type hdr) b dv))
            | MOUSE_SCROLL \<Rightarrow> with_pkt (rd16 m 12) (\<lambda>a. Inr (mouse_scroll env ss a dv))
            | MOUSE_HSCROLL \<Rightarrow> with_pkt (rd16 m 12) (\<lambda>a. Inr (mouse_h_scroll env ss a dv))
            | KEY_PRESS \<Rightarrow> with_pkt (parse_keyboard m) (\<lambda>p. Inr (keyboard_key ss p dv))
            | KEY_RELEASE \<Rightarrow> with_pkt (parse_keyboard m) (\<lambda>p. Inr (keyboard_key ss p dv))
            | UTF8_TEXT \<Rightarrow> utf8_text env (ip_data_size hdr) (drop 12 m) dv
            | TOUCH \<Rightarrow> with_pkt (parse_touch m) (\<lambda>p. Inr (touch env ss p dv))
            | PEN \<Rightarrow> with_pkt (parse_pen m) (\<lambda>p. Inr (pen env ss p dv))
            | CONTROLLER_ARRIVAL \<Rightarrow> with_pkt (parse_controller_arrival m) (\<lambda>p. controller_arrival env ss p dv)
            | CONTROLLER_MULTI \<Rightarrow> with_pkt (parse_controller_multi m) (\<lambda>p. controller_multi env ss p dv)
            | CONTROLLER_TOUCH \<Rightarrow> with_pkt (parse_controller_touch m) (\<lambda>p. Inr (controller_touch env p dv))
            | CONTROLLER_MOTION \<Rightarrow> with_pkt (parse_controller_motion m) (\<lambda>p. Inr (controller_motion env p dv))
            | CONTROLLER_BATTERY \<Rightarrow> with_pkt (parse_controller_battery m) (\<lambda>p. Inr (controller_battery junk p dv))
            | HAPTICS \<Rightarrow> Inr dv))"

subsection \<open>What a handler may do to the outside\<close>

text \<open>An action of a session's own: events name the session, packets are encrypted with its key.\<close>

fun own_action :: "StreamSession \<Rightarrow> action \<Rightarrow> bool" where
  "own_action ss (Fire e) \<longleftrightarrow> event_session e = Some (dec (ss_session_id ss)) \<and> device_event e"
| "own_action ss (Encrypt_and_send _ key) \<longleftrightarrow> key = ss_aes_key ss"
| "own_action ss _ \<longleftrightarrow> True"

definition extends :: "StreamSession \<Rightarrow> devices \<Rightarrow> devices \<Rightarrow> bool" where
  "extends ss dv dv' \<longleftrightarrow> (\<exists>as. sd_out dv' = sd_out dv @ as \<and> (\<forall>a \<in> set as. own_action ss a))"

lemma extends_refl [frame, simp]: "extends ss dv dv"
  by (simp add: extends_def)

lemma extends_emits [frame]: "\<lbrakk>extends ss dv dv'; \<forall>a \<in> set as. own_action ss a\<rbrakk> \<Longrightarrow> extends ss dv (emits as dv')"
  by (auto simp: extends_def)

lemma extends_upd [frame, simp]:
  "extends ss dv (dv'\<lparr>sd_joypads := j\<rparr>) = extends ss dv dv'"
  "extends ss dv (dv'\<lparr>sd_pen_tablet := b\<rparr>) = extends ss dv dv'"
  "extends ss dv (dv'\<lparr>sd_touch_screen := t\<rparr>) = extends ss dv dv'"
  by (simp_all add: extends_def)

lemma own_plug [simp]: "own_action ss (plug_event env ss d)" "own_action ss (unplug_event env ss d)"
  by (simp_all add: plug_event_def unplug_event_def)

lemma own_motion_requests: "a \<in> set (motion_requests env ss n c t) \<Longrightarrow> own_action ss a"
  by (auto simp: motion_requests_def split: if_splits)

lemma extends_create_new_joypad:
  "create_new_joypad env ss n r c dv = Inr (dv', p) \<Longrightarrow> extends ss dv dv'"
  by (auto simp: create_new_joypad_def Let_def own_motion_requests
      split: if_splits sum.splits intro!: extends_emits)

lemma extends_create_pen_tablet: "extends ss dv (fst (create_pen_tablet env ss dv))"
  by (auto simp: create_pen_tablet_def intro!: extends_emits)

lemma extends_create_touch_screen: "extends ss dv (fst (create_touch_screen env ss dv))"
  by (auto simp: create_touch_screen_def intro!: extends_emits)

lemma own_touch_actions: "a \<in> set (touch_actions env pkt screen) \<Longrightarrow> own_action ss a"
  by (auto simp: touch_actions_def touch_unknown_def Let_def split: TouchScreenTypes.splits if_splits)

lemma own_pen_actions: "a \<in> set (pen_actions env pkt) \<Longrightarrow> own_action ss a"
  by (auto simp: pen_actions_def Let_def)

lemma own_pad_actions: "a \<in> set (pad_actions env ss n pkt) \<Longrightarrow> own_action ss a"
  by (auto simp: pad_actions_def Let_def split: if_splits)

lemma own_type_hex: "\<lbrakk>type_hex env chs = Inr as; a \<in> set as\<rbrakk> \<Longrightarrow> own_action ss a"
  by (induction chs arbitrary: as) (auto split: option.splits sum.splits)

lemma own_battery: "a \<in> set (battery_actions junk n pkt) \<Longrightarrow> own_action ss a"
  by (auto simp: battery_actions_def Let_def split: BATTERY_STATE.splits if_splits)

lemma extends_mouse [frame]:
  "extends ss dv (mouse_move_rel env ss p1 dv)"
  "extends ss dv (mouse_move_abs env ss p2 dv)"
  "extends ss dv (mouse_button t b dv)"
  "extends ss dv (mouse_scroll env ss a dv)"
  "extends ss dv (mouse_h_scroll env ss a dv)"
  by (auto simp: mouse_move_rel_def mouse_move_abs_def mouse_button_def mouse_scroll_def
      mouse_h_scroll_def Let_def split: option.splits MouseTypes.splits intro!: extends_emits)

lemma extends_keyboard_key [frame]: "extends ss dv (keyboard_key ss p dv)"
  by (auto simp: keyboard_key_def Let_def split: option.splits intro!: extends_emits)

lemma extends_touch [frame]: "extends ss dv (touch env ss p dv)"
  using extends_create_touch_screen [of ss dv env]
  by (auto simp: touch_def Let_def split: option.splits intro!: extends_emits own_touch_actions)

lemma extends_pen [frame]: "extends ss dv (pen env ss p dv)"
  using extends_create_pen_tablet [of ss dv env]
  by (auto simp: pen_def Let_def intro!: extends_emits own_pen_actions)

lemma extends_utf8_text: "utf8_text env d t dv = Inr dv' \<Longrightarrow> extends ss dv dv'"
  by (auto simp: utf8_text_def paste_utf_def Let_def own_type_hex
      split: option.splits if_splits sum.splits intro!: extends_emits)

lemma extends_controller_arrival: "controller_arrival env ss p dv = Inr dv' \<Longrightarrow> extends ss dv dv'"
  by (auto simp: controller_arrival_def Let_def split: if_splits dest: extends_create_new_joypad)

lemma extends_remove_joypad: "extends ss dv (remove_joypad env ss n pad dv)"
  by (simp add: remove_joypad_def extends_emits)

lemma extends_controller_multi: "controller_multi env ss p dv = Inr dv' \<Longrightarrow> extends ss dv dv'"
  by (auto simp: controller_multi_def Let_def extends_remove_joypad own_pad_actions
      split: option.splits sum.splits if_splits dest!: extends_create_new_joypad intro!: extends_emits)

lemma extends_controller_touch [frame]: "extends ss dv (controller_touch env p dv)"
  by (auto simp: controller_touch_def Let_def split: option.splits intro!: extends_emits)

lemma extends_controller_motion [frame]: "extends ss dv (controller_motion env p dv)"
  by (auto simp: controller_motion_def Let_def intro!: extends_emits)

lemma extends_controller_battery [frame]: "extends ss dv (controller_battery junk p dv)"
  by (auto simp: controller_battery_def Let_def own_battery intro!: extends_emits)

lemma extends_handle_input: "handle_input env junk ss m dv = Inr dv' \<Longrightarrow> extends ss dv dv'"
  by (auto simp: handle_input_def with_pkt_def frame split: option.splits INPUT_TYPE.splits
      dest: extends_utf8_text extends_controller_arrival extends_controller_multi)

subsection \<open>Keys held down\<close>

definition key_step :: "u16 set \<Rightarrow> action \<Rightarrow> u16 set" where
  "key_step H a = (case a of Key_press k \<Rightarrow> insert k H | Key_release k \<Rightarrow> H - {k} | _ \<Rightarrow> H)"

definition held :: "u16 set \<Rightarrow> action list \<Rightarrow> u16 set" where
  "held H as = foldl key_step H as"

lemma held_Nil [simp]: "held H [] = H"
  by (simp add: held_def)

lemma held_append [simp]: "held H (as @ bs) = held (held H as) bs"
  by (simp add: held_def)

lemma held_Cons: "held H (a # as) = held (key_step H a) as"
  by (simp add: held_def)

lemma held_presses [simp]: "held H (map Key_press ks) = H \<union> set ks"
  by (induction ks arbitrary: H) (auto simp: held_Cons key_step_def)

lemma held_releases [simp]: "held H (map Key_release ks) = H - set ks"
  by (induction ks arbitrary: H) (auto simp: held_Cons key_step_def)

lemma own_key_not_virtual: "key \<notin> set (mods modifiers key)"
  by (auto simp: mods_def virtual_mod_def)

lemma held_type_hex: "type_hex env chs = Inr as \<Longrightarrow> held H as \<subseteq> H"
proof (induction chs arbitrary: as H)
  case (Cons c chs)
  then show ?case
    by (fastforce simp: held_Cons key_step_def split: option.splits sum.splits)
qed simp

subsection \<open>Reading packets in bounds\<close>

lemma parse_in_bounds:
  assumes "36 \<le> length m"
  shows "parse_input m \<noteq> None" "parse_mouse_move_rel m \<noteq> None" "parse_mouse_move_abs m \<noteq> None"
    "parse_keyboard m \<noteq> None" "parse_touch m \<noteq> None" "parse_pen m \<noteq> None"
    "parse_controller_arrival m \<noteq> None" "38 \<le> length m \<Longrightarrow> parse_controller_multi m \<noteq> None"
    "parse_controller_touch m \<noteq> None" "parse_controller_motion m \<noteq> None"
    "parse_controller_battery m \<noteq> None" "oget m 12 \<noteq> None" "rd16 m 12 \<noteq> None"
  using assms
  by (simp_all add: parse_input_def parse_mouse_move_rel_def parse_mouse_move_abs_def
      parse_keyboard_def parse_touch_def parse_pen_def parse_controller_arrival_def
      parse_controller_multi_def parse_controller_touch_def parse_controller_motion_def
      parse_controller_battery_def rd16_def rd32_def rdn_def oget_def)

lemma with_pkt_in_bounds:
  "\<lbrakk>p \<noteq> None; \<And>q. f q \<noteq> Inl Read_past_end\<rbrakk> \<Longrightarrow> with_pkt p f \<noteq> Inl Read_past_end"
  by (auto simp: with_pkt_def)

lemma touchpad_nodes_no_read: "touchpad_nodes ns \<noteq> Inl Read_past_end"
  by (induction ns) (auto split: option.splits)

lemma create_new_joypad_no_read: "create_new_joypad env ss n r c dv \<noteq> Inl Read_past_end"
  using touchpad_nodes_no_read by (auto simp: create_new_joypad_def Let_def split: if_splits sum.splits)

lemma type_hex_no_read: "type_hex env chs \<noteq> Inl Read_past_end"
  by (induction chs) (auto split: option.splits)

lemma utf8_text_no_read:
  assumes "4 \<le> uint (swap32 d)" "uint (swap32 d) - 4 \<le> int (length t)"
  shows "utf8_text env d t dv \<noteq> Inl Read_past_end"
proof -
  have "uint (swap32 d) < 4294967296" using uint_lt2p [of "swap32 d"] by simp
  then have "(uint (swap32 d) - 4) mod 18446744073709551616 = uint (swap32 d) - 4"
    using assms(1) by (intro mod_pos_pos_trivial) auto
  then show ?thesis
    using assms type_hex_no_read by (auto simp: utf8_text_def paste_utf_def Let_def split: option.splits sum.splits)
qed

lemma type_hex_total:
  "\<forall>c \<in> set chs. \<forall>k. ie_event_code env (''KEY_'' @ [c]) = Some k \<longrightarrow> map_of key_mappings k \<noteq> None \<Longrightarrow>
     \<exists>as. type_hex env chs = Inr as"
  by (induction chs) (auto split: option.splits)

subsection \<open>Concrete instances\<close>

definition toy_fops :: fops where
  "toy_fops = \<lparr>f_of_int = of_int, f_lt = (\<lambda>a b. sint a < sint b), f_neg = uminus, f_mul = (*), f_div = (div),
     f_sin = id, f_cos = id, f_atan2 = (+), f_to_d = scast, d_to_f = ucast, d_mul = (*), d_div = (div),
     d_pi = 3\<rparr>"

definition demo_env :: input_env where
  "demo_env = \<lparr>ie_fl = toy_fops, ie_can_create = (\<lambda>_. True),
     ie_udev_events = (\<lambda>_. [[(''ID_INPUT_TOUCHPAD'', ''1''), (''DEVNAME'', ''/dev/input/event9'')]]),
     ie_udev_hw_db = (\<lambda>_. []), ie_nodes = (\<lambda>_. [''/dev/input/event7'']),
     ie_btn_start = 0x10, ie_btn_dpad_up = 1, ie_btn_right_button = 0x200,
     ie_touchpad_width = 1920, ie_touchpad_height = 1080, ie_pad_byte = 0,
     ie_to_utf32 = map ucast, ie_event_code = Some\<rparr>"

definition demo_devices :: devices where
  "demo_devices = \<lparr>sd_wayland = True, sd_mouse = Some Mouse, sd_keyboard = Some Keyboard,
     sd_touch_screen = None, sd_pen_tablet = False, sd_joypads = (\<lambda>_. None), sd_out = []\<rparr>"

text \<open>CTRL+SHIFT+A pressed; the arrival of a DualSense with motion sensors.\<close>

definition demo_key_packet :: bytes where
  "demo_key_packet = le16 0x0206 @ le16 18 @ le32 0 @ le32 (input_code KEY_PRESS) @
     [0] @ le16 0x8041 @ [0x03] @ le16 0"

definition demo_arrival_packet :: bytes where
  "demo_arrival_packet = le16 0x0206 @ le16 19 @ le32 0 @ le32 (input_code CONTROLLER_ARRIVAL) @
     [2, 0x02, 0x32] @ le32 0"

subsection \<open>Properties\<close>

text \<open>C3: whatever packet a client sends, the input handler acts only for that client's session:
  every event it fires names this session and every packet it sends back is encrypted with this
  session's key; nothing already done is undone.\<close>
theorem input_stays_in_session:
  assumes "handle_input env junk ss m dv = Inr dv'"
  shows "\<exists>as. sd_out dv' = sd_out dv @ as \<and>
    (\<forall>e. Fire e \<in> set as \<longrightarrow> event_session e = Some (dec (ss_session_id ss))) \<and>
    (\<forall>b key. Encrypt_and_send b key \<in> set as \<longrightarrow> key = ss_aes_key ss)"
  using extends_handle_input [OF assms] by (force simp: extends_def)

theorem input_stays_in_session_witness:
  "\<exists>dv'. handle_input demo_env PAD_DISCHARGING demo_session demo_arrival_packet demo_devices = Inr dv' \<and>
    (\<exists>as. sd_out dv' = sd_out demo_devices @ as \<and>
      (\<forall>e. Fire e \<in> set as \<longrightarrow> event_session e = Some (dec (ss_session_id demo_session))) \<and>
      (\<forall>b key. Encrypt_and_send b key \<in> set as \<longrightarrow> key = ss_aes_key demo_session))"
proof -
  have "\<not> isl (handle_input demo_env PAD_DISCHARGING demo_session demo_arrival_packet demo_devices)"
    by code_simp
  then obtain dv' where
    dv': "handle_input demo_env PAD_DISCHARGING demo_session demo_arrival_packet demo_devices = Inr dv'"
    by (auto simp: isl_def) (metis obj_sumE)
  from dv' input_stays_in_session [OF dv'] show ?thesis by blast
qed

text \<open>C7: the keys a keyboard packet leaves pressed. A key press leaves the key down and the virtual
  modifiers of the packet up, whatever was held before; the CTRL+ALT+SHIFT+W combination presses
  nothing, releases the three modifiers and fires the overlay event; a release lifts the key.\<close>
theorem keyboard_held:
  assumes "sd_keyboard dv = Some kb"
    and key_def: "key = kb_key_code pkt AND 0x7fff"
  shows "\<exists>as. sd_out (keyboard_key ss pkt dv) = sd_out dv @ as \<and>
    held H as =
      (if kb_type pkt \<noteq> input_code KEY_PRESS then H - {key}
       else if wolf_ui_combo (kb_modifiers pkt) key then H - {M_SHIFT, M_CTRL, M_ALT}
       else insert key (H - set (mods (kb_modifiers pkt) key))) \<and>
    (Fire (ClientWolfUIComboEvent (ss_session_id ss)) \<in> set as \<longleftrightarrow>
       kb_type pkt = input_code KEY_PRESS \<and> wolf_ui_combo (kb_modifiers pkt) key)"
proof -
  have "insert key (H \<union> set (mods (kb_modifiers pkt) key)) - set (mods (kb_modifiers pkt) key) =
      insert key (H - set (mods (kb_modifiers pkt) key))"
    using own_key_not_virtual by auto
  then show ?thesis
    using assms by (auto simp: keyboard_key_def Let_def held_Cons key_step_def key_def)
qed

theorem keyboard_held_witness:
  "\<exists>as. sd_out (keyboard_key demo_session \<lparr>kb_type = 3, kb_key_code = 0x8041, kb_modifiers = 3\<rparr> demo_devices) =
      sd_out demo_devices @ as \<and> held {} as = {0x41}"
proof -
  have "0x41 = kb_key_code \<lparr>kb_type = 3, kb_key_code = 0x8041, kb_modifiers = 3\<rparr> AND (0x7fff :: u16)" by code_simp
  moreover have "\<not> wolf_ui_combo 3 0x41" by code_simp
  moreover have "sd_keyboard demo_devices = Some Keyboard" by (simp add: demo_devices_def)
  ultimately show ?thesis
    using keyboard_held [of demo_devices Keyboard "0x41"
        "\<lparr>kb_type = 3, kb_key_code = 0x8041, kb_modifiers = 3\<rparr>" demo_session "{}"] by auto
qed

text \<open>typing a Unicode character leaves the keyboard as it found it: every key the routine presses
  (CTRL, SHIFT, U and the hexadecimal digits) is released again.\<close>
theorem paste_utf_releases:
  assumes "paste_utf env utf32 = Inr as"
  shows "held {} as = {}"
proof -
  obtain bs where bs: "type_hex env (to_hex utf32) = Inr bs"
    and as: "as = [Key_press 0xA2, Key_press 0xA0, Key_press 0x55, Key_release 0x55] @ bs @
        [Key_release 0xA0, Key_release 0xA2]"
    using assms by (auto simp: paste_utf_def)
  have "held {0xA0, 0xA2} bs \<subseteq> {0xA0, 0xA2}"
    by (rule held_type_hex [OF bs])
  moreover have "insert (0x55 :: u16) {0xA0, 0xA2} - {0x55} = {0xA0, 0xA2}" by auto
  ultimately show ?thesis
    by (auto simp: as held_Cons key_step_def)
qed

theorem paste_utf_releases_witness:
  "\<exists>as. paste_utf demo_env [0x1F4A9] = Inr as \<and> held {} as = {}"
proof -
  have hex: "to_hex [0x1F4A9] = ''1F4A9''"
    by (simp add: to_hex_def hex_upper.simps hex_digit_def)
  have "ie_event_code demo_env = Some" by (simp add: demo_env_def)
  moreover have "map_of key_mappings ''KEY_1'' = Some 0x31" "map_of key_mappings ''KEY_4'' = Some 0x34"
    "map_of key_mappings ''KEY_9'' = Some 0x39" "map_of key_mappings ''KEY_A'' = Some 0x41"
    "map_of key_mappings ''KEY_F'' = Some 0x46"
    by code_simp+
  ultimately have "\<exists>as. type_hex demo_env ''1F4A9'' = Inr as"
    by (intro type_hex_total) simp
  then have "\<exists>as. paste_utf demo_env [0x1F4A9] = Inr as"
    by (auto simp: paste_utf_def hex)
  then obtain as where "paste_utf demo_env [0x1F4A9] = Inr as" by blast
  with paste_utf_releases [OF this] show ?thesis by blast
qed

text \<open>the angle given to the touch screen is within -90..90 exactly for the rotations up to 450
  degrees; in particular for every rotation of the protocol, and not for 65535, the value
  Moonlight sends for an unknown rotation.\<close>
theorem adjusted_angle_bounds:
  "(- 90 \<le> adjusted_angle r \<and> adjusted_angle r \<le> 90) \<longleftrightarrow> uint r \<le> 450"
proof -
  define a where "a = uint r"
  have "0 \<le> a" "a < 65536" using uint_lt2p [of r] by (simp_all add: a_def)
  then show ?thesis unfolding adjusted_angle_def Let_def a_def [symmetric] by auto
qed

text \<open>the pad type a controller gets is the first choice that is not AUTO among: the game's
  override, the client's override for that slot, the client's override for pads with motion
  sensors (when the pad has them), what the client asked for, and a DualSense for an unknown pad
  with motion sensors; otherwise an Xbox pad.\<close>
theorem final_type_precedence:
  "final_controller_type ss n requested caps =
     (case List.find (\<lambda>t. t \<noteq> CT_AUTO)
        [case ss_app ss of Some a \<Rightarrow> app_controller_override a | None \<Rightarrow> CT_AUTO,
         if 0 \<le> n \<and> n < int (length (cs_controllers_override (ss_client_settings ss)))
         then cs_controllers_override (ss_client_settings ss) ! nat n else CT_AUTO,
         if has_motion caps then cs_motion_controller_override (ss_client_settings ss) else CT_AUTO,
         case requested of XBOX \<Rightarrow> CT_XBOX | PS \<Rightarrow> CT_PS | NINTENDO \<Rightarrow> CT_NINTENDO | _ \<Rightarrow> CT_AUTO,
         if has_motion caps then CT_PS else CT_AUTO] of
        Some t \<Rightarrow> t | None \<Rightarrow> CT_AUTO)"
  by (auto simp: final_controller_type_def Let_def split: option.splits CONTROLLER_TYPE.splits)

text \<open>the packet that creates a pen tablet is lost: when no tablet exists yet, the handler creates
  it and does nothing with the packet, even when the creation succeeds (the flag it tested is not
  refreshed), whereas the first touch packet reaches the new touch screen.\<close>
theorem first_pen_packet_lost:
  assumes "\<not> sd_pen_tablet dv" "ie_can_create env Dev_pen_tablet"
    and "sd_touch_screen dv = None" "ie_can_create env Dev_touch_screen"
  shows "pen env ss p dv = fst (create_pen_tablet env ss dv) \<and> sd_pen_tablet (pen env ss p dv) \<and>
    touch env ss t dv = emits (touch_actions env t TouchScreen) (fst (create_touch_screen env ss dv))"
  using assms by (simp add: pen_def touch_def create_pen_tablet_def create_touch_screen_def Let_def)

theorem first_pen_packet_lost_witness:
  "\<exists>p. sd_out (pen demo_env demo_session p demo_devices) =
     [plug_event demo_env demo_session Dev_pen_tablet, Add_input_device ''/dev/input/event7'']"
proof -
  have "pen demo_env demo_session p demo_devices = fst (create_pen_tablet demo_env demo_session demo_devices)" for p
    using first_pen_packet_lost [of demo_devices demo_env demo_session p undefined]
    by (simp add: demo_devices_def demo_env_def)
  then show ?thesis
    by (simp add: create_pen_tablet_def) (simp add: demo_devices_def demo_env_def)
qed

text \<open>C4: the joypads of a session after a controller packet. An arrival never touches a pad that is
  there and otherwise plugs one of the decided type; a state packet removes the pad exactly when
  its bit of the active mask is clear, and creates a missing one; no other pad changes.\<close>
theorem joypads_after:
  assumes "ie_can_create env = (\<lambda>_. True)"
  shows "(controller_arrival env ss pa dv = Inr dv1 \<longrightarrow>
      sd_joypads dv1 = (let n = uint (ca_controller_number pa)
        in if sd_joypads dv n \<noteq> None then sd_joypads dv
           else (sd_joypads dv)(n \<mapsto> joypad_of (final_controller_type ss n (ca_controller_type pa) (ca_capabilities pa))))) \<and>
    (controller_multi env ss pm dv = Inr dv2 \<longrightarrow>
      sd_joypads dv2 = (let n = sint (cm_controller_number pm)
        in if sd_joypads dv n = None
           then (sd_joypads dv)(n \<mapsto> joypad_of (final_controller_type ss n XBOX (ANALOG_TRIGGERS OR RUMBLE)))
           else if still_active (cm_active_gamepad_mask pm) n then sd_joypads dv
           else (sd_joypads dv)(n := None)))"
  using assms
  by (auto simp: controller_arrival_def controller_multi_def create_new_joypad_def remove_joypad_def Let_def
      split: if_splits sum.splits option.splits)

text \<open>Controller 2 arrives as a DualSense, then a state packet with an empty active mask.\<close>

theorem joypads_after_witness:
  "\<exists>dv1 dv2. controller_arrival demo_env demo_session
      \<lparr>ca_controller_number = 2, ca_controller_type = PS, ca_capabilities = 0x32\<rparr> demo_devices = Inr dv1 \<and>
    sd_joypads dv1 = [2 \<mapsto> PS5Joypad] \<and>
    controller_multi demo_env demo_session
      \<lparr>cm_controller_number = 2, cm_active_gamepad_mask = 0, cm_button_flags = 0, cm_left_trigger = 0,
       cm_right_trigger = 0, cm_left_stick_x = 0, cm_left_stick_y = 0, cm_right_stick_x = 0,
       cm_right_stick_y = 0, cm_buttonFlags2 = 0\<rparr> dv1 = Inr dv2 \<and>
    sd_joypads dv2 2 = None"
proof -
  let ?a = "\<lparr>ca_controller_number = 2, ca_controller_type = PS, ca_capabilities = 0x32\<rparr>"
  let ?m = "\<lparr>cm_controller_number = 2, cm_active_gamepad_mask = 0, cm_button_flags = 0, cm_left_trigger = 0,
       cm_right_trigger = 0, cm_left_stick_x = 0, cm_left_stick_y = 0, cm_right_stick_x = 0,
       cm_right_stick_y = 0, cm_buttonFlags2 = 0\<rparr>"
  have all: "ie_can_create demo_env = (\<lambda>_. True)" by (simp add: demo_env_def)
  have "\<not> isl (controller_arrival demo_env demo_session ?a demo_devices)" by code_simp
  then obtain dv1 where dv1: "controller_arrival demo_env demo_session ?a demo_devices = Inr dv1"
    by (cases "controller_arrival demo_env demo_session ?a demo_devices") auto
  have "final_controller_type demo_session 2 PS 0x32 = CT_PS" by code_simp
  then have j1: "sd_joypads dv1 = [2 \<mapsto> PS5Joypad]"
    using joypads_after [OF all, of demo_session ?a demo_devices dv1 undefined demo_devices] dv1
    by (simp add: demo_devices_def)
  then obtain dv2 where dv2: "controller_multi demo_env demo_session ?m dv1 = Inr dv2"
    by (simp add: controller_multi_def Let_def)
  then have "sd_joypads dv2 2 = None"
    using joypads_after [OF all, of demo_session ?a dv1 dv1 ?m dv2] j1
    by (simp add: still_active_def)
  with dv1 j1 dv2 show ?thesis by blast
qed

text \<open>A state packet of a controller is copied as a whole: one of 36 or 37 bytes, enough for every field
  that is used, is read past its end.\<close>

lemma short_multi_past_end:
  assumes "parse_input m = Some hdr" "ip_type hdr = input_code CONTROLLER_MULTI" "length m < 38"
  shows "handle_input env junk ss m dv = Inl Read_past_end"
proof -
  have "input_of_code (ip_type hdr) = Some CONTROLLER_MULTI" unfolding assms(2) by code_simp
  moreover have "parse_controller_multi m = None"
    using assms(3) by (auto simp: parse_controller_multi_def rd16_def oget_def split: bind_splits)
  ultimately show ?thesis using assms(1) by (simp add: handle_input_def with_pkt_def)
qed

text \<open>C40: packets long enough are read in bounds. A controller's state packet needs the 38 bytes of its
  struct, which its handler copies; with at least 36 bytes every other type is handled without reading
  past the packet, a text packet when its \<open>data_size\<close> is at least 4 and does not exceed what the
  packet holds.\<close>
theorem handle_input_in_bounds:
  assumes "36 \<le> length m" "parse_input m = Some hdr"
    and "ip_type hdr = input_code CONTROLLER_MULTI \<Longrightarrow> 38 \<le> length m"
    and "ip_type hdr = input_code UTF8_TEXT \<Longrightarrow>
      4 \<le> uint (swap32 (ip_data_size hdr)) \<and> uint (swap32 (ip_data_size hdr)) + 8 \<le> int (length m)"
  shows "handle_input env junk ss m dv \<noteq> Inl Read_past_end"
proof (cases "input_of_code (ip_type hdr)")
  case None
  with assms(2) show ?thesis by (simp add: handle_input_def with_pkt_def)
next
  case (Some t)
  have utf8: "utf8_text env (ip_data_size hdr) (drop 12 m) dv \<noteq> Inl Read_past_end" if "t = UTF8_TEXT"
    using assms(1) assms(4) Some that by (intro utf8_text_no_read) (auto simp: input_of_code_Some)
  have multi: "controller_multi env ss p dv \<noteq> Inl Read_past_end" for p
    using create_new_joypad_no_read by (auto simp: controller_multi_def Let_def split: option.splits sum.splits)
  have arrival: "controller_arrival env ss p dv \<noteq> Inl Read_past_end" for p
    using create_new_joypad_no_read by (auto simp: controller_arrival_def Let_def)
  have long: "parse_controller_multi m \<noteq> None" if "t = CONTROLLER_MULTI"
    using assms(1) assms(3) Some that by (intro parse_in_bounds) (auto simp: input_of_code_Some)
  show ?thesis
    using assms(2) Some utf8 multi arrival long parse_in_bounds [OF assms(1)]
    by (cases t) (auto simp: handle_input_def with_pkt_def)
qed

text \<open>A state packet for a controller that is not there yet.\<close>

definition demo_multi_packet :: bytes where
  "demo_multi_packet = replicate 8 0 @ [12, 0, 0, 0] @ replicate 26 0"

theorem handle_input_in_bounds_witness:
  "\<exists>hdr. parse_input demo_multi_packet = Some hdr \<and> ip_type hdr = input_code CONTROLLER_MULTI \<and>
     handle_input demo_env PAD_DISCHARGING demo_session demo_multi_packet demo_devices \<noteq> Inl Read_past_end"
proof -
  have len: "length demo_multi_packet = 38" by (simp add: demo_multi_packet_def)
  then obtain hdr where hdr: "parse_input demo_multi_packet = Some hdr"
    using parse_in_bounds (1) [of demo_multi_packet] by auto
  have "map_option ip_type (parse_input demo_multi_packet) = Some (input_code CONTROLLER_MULTI)" by code_simp
  with hdr have code: "ip_type hdr = input_code CONTROLLER_MULTI" by simp
  then have "ip_type hdr \<noteq> input_code UTF8_TEXT" by (simp del: input_code.simps)
  then have "handle_input demo_env PAD_DISCHARGING demo_session demo_multi_packet demo_devices \<noteq> Inl Read_past_end"
    using len by (intro handle_input_in_bounds [OF _ hdr]) simp_all
  with hdr code show ?thesis by blast
qed

end
