(* ===== verification/Control_Server.thy ===== *)
theory Control_Server
  imports Input_Handler "HOL-Library.AList"
begin

section \<open>The control server: moonlight-server/control/control.cpp\<close>

text \<open>
  The loop of \<open>run_control\<close> as a step on the state it keeps: the map of connected clients and
  the devices of the sessions. ENet delivers the events (an argument), the running sessions are
  read from their atom at each step (an argument), what leaves the server is a list of actions.
  The order in which \<open>immer::map\<close> is traversed is the order of the association list.
\<close>

type_synonym peer = nat
type_synonym enet_clients_map = "(peer \<times> StreamSession) list"

datatype ENetEvent =
    ENET_NONE peer
  | ENET_CONNECT peer u32
  | ENET_DISCONNECT peer
  | ENET_RECEIVE peer bytes

fun event_peer :: "ENetEvent \<Rightarrow> peer" where
  "event_peer (ENET_NONE p) = p"
| "event_peer (ENET_CONNECT p _) = p"
| "event_peer (ENET_DISCONNECT p) = p"
| "event_peer (ENET_RECEIVE p _) = p"

datatype net_action =
    Net_send peer bytes bool
  | Net_disconnect_now peer
  | Bus bus_event
  | Device nat action

record server =
  sv_clients :: enet_clients_map
  sv_devices :: "nat \<Rightarrow> devices"
  sv_out :: "net_action list"

record control_env =
  ce_ssl :: openssl
  ce_input :: input_env
  ce_junk :: pad_battery
  ce_send_ok :: "peer \<Rightarrow> bytes \<Rightarrow> bool"
  ce_peer_ip :: "peer \<Rightarrow> string"

definition out :: "net_action list \<Rightarrow> server \<Rightarrow> server" where
  "out as sv = sv\<lparr>sv_out := sv_out sv @ as\<rparr>"

lemma out_frame [frame, simp]:
  "sv_clients (out as sv) = sv_clients sv"
  "sv_devices (out as sv) = sv_devices sv"
  "sv_out (out as sv) = sv_out sv @ as"
  by (simp_all add: out_def)

subsection \<open>Sending\<close>

definition send_packet :: "control_env \<Rightarrow> bytes \<Rightarrow> peer \<Rightarrow> net_action" where
  "send_packet env payload p = Net_send p payload (ce_send_ok env p payload)"

text \<open>The sequence number is always 0. The payload that does not fit the packet overruns it.\<close>

definition encrypt_and_send :: "control_env \<Rightarrow> bytes \<Rightarrow> string \<Rightarrow> peer \<Rightarrow> crash + net_action" where
  "encrypt_and_send env payload aes_key p =
     (case encrypt_packet (ce_ssl env) aes_key 0 payload of
        None \<Rightarrow> Inl Read_past_end
      | Some (encrypted, _) \<Rightarrow>
          Inr (send_packet env (take (full_size encrypted) (enc_packet_bytes encrypted)) p))"

subsection \<open>Which session an event belongs to\<close>

definition get_current_session ::
    "control_env \<Rightarrow> enet_clients_map \<Rightarrow> StreamSession list \<Rightarrow> ENetEvent \<Rightarrow> StreamSession option" where
  "get_current_session env clients running_sessions ev =
     (case ev of
        ENET_CONNECT p data \<Rightarrow>
          (case List.find (\<lambda>s. ss_enet_secret_payload s = data) running_sessions of
             Some s \<Rightarrow> Some s
           | None \<Rightarrow> List.find (\<lambda>s. ss_ip s = ce_peer_ip env p) running_sessions)
      | _ \<Rightarrow> map_of clients (event_peer ev))"

subsection \<open>One iteration of the loop\<close>

text \<open>The actions of the input handler, in order: events go to the bus, packets to the peer.\<close>

fun perform :: "control_env \<Rightarrow> peer \<Rightarrow> nat \<Rightarrow> action list \<Rightarrow> crash + net_action list" where
  "perform env p sid [] = Inr []"
| "perform env p sid (a # as) =
     (case (case a of
              Fire e \<Rightarrow> Inr (Bus e)
            | Encrypt_and_send b key \<Rightarrow> encrypt_and_send env b key p
            | _ \<Rightarrow> Inr (Device sid a)) of
        Inl c \<Rightarrow> Inl c
      | Inr n \<Rightarrow> map_sum id ((#) n) (perform env p sid as))"

definition input_step :: "control_env \<Rightarrow> peer \<Rightarrow> StreamSession \<Rightarrow> bytes \<Rightarrow> server \<Rightarrow> crash + server" where
  "input_step env p s decrypted sv =
     (let sid = ss_session_id s
      in case handle_input (ce_input env) (ce_junk env) s decrypted ((sv_devices sv sid)\<lparr>sd_out := []\<rparr>) of
           Inl c \<Rightarrow> Inl c
         | Inr dv \<Rightarrow>
             (case perform env p sid (sd_out dv) of
                Inl c \<Rightarrow> Inl c
              | Inr as \<Rightarrow> Inr (out as (sv\<lparr>sv_devices := (sv_devices sv)(sid := dv)\<rparr>))))"

definition receive_step :: "control_env \<Rightarrow> peer \<Rightarrow> StreamSession \<Rightarrow> bytes \<Rightarrow> server \<Rightarrow> crash + server" where
  "receive_step env p s data sv =
     (case rd16 data 0 of
        None \<Rightarrow> Inl Read_past_end
      | Some type \<Rightarrow>
          if type \<noteq> packet_code ENCRYPTED then Inr sv
          else (case Option.bind (load_enc_packet data) (\<lambda>pkt. decrypt_packet (ce_ssl env) pkt (ss_aes_key s)) of
                  None \<Rightarrow> Inl Read_past_end
                | Some (decrypted, _) \<Rightarrow>
                    (case rd16 decrypted 0 of
                       None \<Rightarrow> Inl Read_past_end
                     | Some sub_type \<Rightarrow>
                         if sub_type = packet_code TERMINATION
                         then Inr (out [Bus (PauseStreamEvent (ss_session_id s))] sv)
                         else if sub_type = packet_code INPUT_DATA then input_step env p s decrypted sv
                         else if sub_type = packet_code IDR_FRAME
                         then Inr (out [Bus (IDRRequestEvent (ss_session_id s))] sv)
                         else Inr sv)))"

definition control_step ::
    "control_env \<Rightarrow> StreamSession list \<Rightarrow> ENetEvent \<Rightarrow> server \<Rightarrow> crash + server" where
  "control_step env running_sessions ev sv =
     (case get_current_session env (sv_clients sv) running_sessions ev of
        None \<Rightarrow> Inr (out [Net_disconnect_now (event_peer ev)] sv)
      | Some s \<Rightarrow>
          (case ev of
             ENET_NONE p \<Rightarrow> Inr sv
           | ENET_CONNECT p data \<Rightarrow>
               Inr (out [Bus (ResumeStreamEvent (ss_session_id s))]
                 (sv\<lparr>sv_clients := AList.update p s (sv_clients sv)\<rparr>))
           | ENET_DISCONNECT p \<Rightarrow>
               Inr (out [Bus (PauseStreamEvent (ss_session_id s))]
                 (sv\<lparr>sv_clients := AList.delete p (sv_clients sv)\<rparr>))
           | ENET_RECEIVE p data \<Rightarrow> receive_step env p s data sv))"

text \<open>The handler of \<open>StopStreamEvent\<close>.\<close>

definition stop_handler :: "control_env \<Rightarrow> nat \<Rightarrow> server \<Rightarrow> crash + server" where
  "stop_handler env session_id sv =
     (case List.find (\<lambda>(p, s). ss_session_id s = session_id) (sv_clients sv) of
        None \<Rightarrow> Inr sv
      | Some (p, s) \<Rightarrow>
          map_sum id (\<lambda>a. out [a] sv) (encrypt_and_send env terminate_packet (ss_aes_key s) p))"

subsection \<open>Runs of the server\<close>

inductive control_run :: "control_env \<Rightarrow> (StreamSession list \<times> ENetEvent) list \<Rightarrow> server \<Rightarrow> bool" for env where
  start: "\<lbrakk>sv_clients sv = []; sv_out sv = []\<rbrakk> \<Longrightarrow> control_run env [] sv"
| event: "\<lbrakk>control_run env h sv; control_step env ss ev sv = Inr sv'\<rbrakk> \<Longrightarrow> control_run env (h @ [(ss, ev)]) sv'"
| stop: "\<lbrakk>control_run env h sv; stop_handler env i sv = Inr sv'\<rbrakk> \<Longrightarrow> control_run env h sv'"

inductive_cases control_run_NilE: "control_run env [] sv"

lemma input_step_clients: "input_step env p s d sv = Inr sv' \<Longrightarrow> sv_clients sv' = sv_clients sv"
  by (auto simp: input_step_def Let_def split: sum.splits)

lemma receive_step_clients: "receive_step env p s d sv = Inr sv' \<Longrightarrow> sv_clients sv' = sv_clients sv"
  by (auto simp: receive_step_def dest: input_step_clients split: option.splits if_splits)

lemma stop_handler_clients: "stop_handler env i sv = Inr sv' \<Longrightarrow> sv_clients sv' = sv_clients sv"
  by (auto simp: stop_handler_def split: option.splits)

lemma control_step_clients:
  assumes "control_step env rs ev sv = Inr sv'" "map_of (sv_clients sv') p = Some s"
  shows "map_of (sv_clients sv) p = Some s \<or>
    (\<exists>d. ev = ENET_CONNECT p d \<and> s \<in> set rs \<and> (ss_enet_secret_payload s = d \<or> ss_ip s = ce_peer_ip env p))"
  using assms
  by (auto simp: control_step_def get_current_session_def update_conv' delete_conv' restrict_map_def
      split: option.splits ENetEvent.splits if_splits dest!: receive_step_clients find_Some_in)

lemma clients_connected:
  "\<lbrakk>control_run env h sv; map_of (sv_clients sv) p = Some s\<rbrakk> \<Longrightarrow>
     \<exists>rs d. (rs, ENET_CONNECT p d) \<in> set h \<and> s \<in> set rs \<and>
       (ss_enet_secret_payload s = d \<or> ss_ip s = ce_peer_ip env p)"
proof (induction rule: control_run.induct)
  case (event h sv rs ev sv')
  from control_step_clients [OF event(2) event.prems] show ?case
    using event.IH by auto
qed (auto dest: stop_handler_clients)

subsection \<open>What a step may do\<close>

definition own_net :: "StreamSession \<Rightarrow> peer \<Rightarrow> net_action \<Rightarrow> bool" where
  "own_net s p a \<longleftrightarrow>
     (case a of
        Bus e \<Rightarrow> event_session e = Some (dec (ss_session_id s))
      | Net_send q _ _ \<Rightarrow> q = p
      | Device i _ \<Rightarrow> i = ss_session_id s
      | Net_disconnect_now _ \<Rightarrow> False)"

lemma own_net_simps [simp]:
  "own_net s p (Bus e) \<longleftrightarrow> event_session e = Some (dec (ss_session_id s))"
  "own_net s p (Net_send q b r) \<longleftrightarrow> q = p"
  "own_net s p (Device i a) \<longleftrightarrow> i = ss_session_id s"
  "\<not> own_net s p (Net_disconnect_now q)"
  by (simp_all add: own_net_def)

lemma perform_own:
  "\<lbrakk>perform env p (ss_session_id s) as = Inr ns; \<forall>a \<in> set as. own_action s a; n \<in> set ns\<rbrakk> \<Longrightarrow> own_net s p n"
proof (induction as arbitrary: ns)
  case (Cons a as)
  then show ?case
    by (auto simp: encrypt_and_send_def send_packet_def
        split: action.splits option.splits sum.splits)
qed simp

lemma input_step_own:
  assumes "input_step env p s d sv = Inr sv'"
  shows "\<exists>as. sv_out sv' = sv_out sv @ as \<and> (\<forall>a \<in> set as. own_net s p a) \<and>
    (\<forall>i. i \<noteq> ss_session_id s \<longrightarrow> sv_devices sv' i = sv_devices sv i)"
proof -
  obtain dv as where dv: "handle_input (ce_input env) (ce_junk env) s d
        ((sv_devices sv (ss_session_id s))\<lparr>sd_out := []\<rparr>) = Inr dv"
    and as: "perform env p (ss_session_id s) (sd_out dv) = Inr as"
    and sv': "sv' = out as (sv\<lparr>sv_devices := (sv_devices sv)(ss_session_id s := dv)\<rparr>)"
    using assms by (auto simp: input_step_def Let_def split: sum.splits)
  from extends_handle_input [OF dv] have "\<forall>a \<in> set (sd_out dv). own_action s a"
    by (auto simp: extends_def)
  with perform_own [OF as] sv' show ?thesis by auto
qed

lemma receive_step_own:
  assumes "receive_step env p s d sv = Inr sv'"
  shows "\<exists>as. sv_out sv' = sv_out sv @ as \<and> (\<forall>a \<in> set as. own_net s p a) \<and>
    (\<forall>i. i \<noteq> ss_session_id s \<longrightarrow> sv_devices sv' i = sv_devices sv i)"
  using assms
  by (auto simp: receive_step_def dest: input_step_own split: option.splits if_splits)

text \<open>The peer's reading of a packet the host sends.\<close>

definition peer_reads :: "openssl \<Rightarrow> string \<Rightarrow> bytes \<Rightarrow> bytes \<Rightarrow> bool" where
  "peer_reads ssl key wire payload \<longleftrightarrow>
     (\<exists>q l. load_enc_packet wire = Some q \<and> decrypt_packet ssl q key = Some (payload, l))"

lemma encrypt_and_send_reads:
  assumes "gcm_stream (ce_ssl env)" "length payload \<le> MAX_PAYLOAD_SIZE"
  shows "\<exists>wire. encrypt_and_send env payload key p = Inr (Net_send p wire (ce_send_ok env p wire)) \<and>
    peer_reads (ce_ssl env) key wire payload"
  using wire_roundtrip [OF assms, of key 0]
  by (auto simp: encrypt_and_send_def send_packet_def peer_reads_def)

subsection \<open>Concrete instances\<close>

definition demo_control :: control_env where
  "demo_control = \<lparr>ce_ssl = toy_ssl, ce_input = demo_env, ce_junk = PAD_DISCHARGING,
     ce_send_ok = (\<lambda>_ _. True), ce_peer_ip = (\<lambda>_. ''10.0.0.1'')\<rparr>"

definition demo_server :: server where
  "demo_server = \<lparr>sv_clients = [], sv_devices = (\<lambda>_. demo_devices), sv_out = []\<rparr>"

definition demo_connected :: server where
  "demo_connected = out [Bus (ResumeStreamEvent 42)] (demo_server\<lparr>sv_clients := [(5, demo_session)]\<rparr>)"

lemma demo_connects:
  "control_step demo_control [demo_session] (ENET_CONNECT 5 77) demo_server = Inr demo_connected"
  by (simp add: control_step_def get_current_session_def demo_server_def demo_connected_def demo_session_def)

subsection \<open>Properties\<close>

text \<open>C21: in every run of the control server, each connected client stands for a stream session that
  was running when the peer connected and that the peer identified, by its secret or, failing
  that, by its address: no peer is ever served without such a connection.\<close>
theorem clients_are_authorised:
  assumes "control_run env h sv" "map_of (sv_clients sv) p = Some s"
  shows "\<exists>rs d. (rs, ENET_CONNECT p d) \<in> set h \<and> s \<in> set rs \<and>
    (ss_enet_secret_payload s = d \<or> ss_ip s = ce_peer_ip env p)"
  using clients_connected [OF assms] .

theorem clients_are_authorised_witness:
  "\<exists>rs d. (rs, ENET_CONNECT 5 d) \<in> set [([demo_session], ENET_CONNECT 5 77)] \<and> demo_session \<in> set rs \<and>
    (ss_enet_secret_payload demo_session = d \<or> ss_ip demo_session = ce_peer_ip demo_control 5)"
proof (rule clients_are_authorised)
  have "control_run demo_control [] demo_server"
    by (rule control_run.start) (simp_all add: demo_server_def)
  from control_run.event [OF this demo_connects]
  show "control_run demo_control [([demo_session], ENET_CONNECT 5 77)] demo_connected" by simp
  show "map_of (sv_clients demo_connected) 5 = Some demo_session" by (simp add: demo_connected_def)
qed

text \<open>C29: one iteration of the control loop only concerns the peer and the session of its event. An
  event from an unknown peer disconnects that peer and does nothing else. A known peer that connects
  is resumed, one that disconnects is paused, and nothing else happens; what it sends fires bus
  events of its own session only, acts on the devices of that session only, sends only to this peer
  and disconnects nobody. In the map of the clients only the entry of this peer changes: to its session
  when it connects, away when it disconnects.\<close>
theorem control_step_isolated:
  assumes "control_step env rs ev sv = Inr sv'"
  shows "\<exists>as. sv_out sv' = sv_out sv @ as \<and>
    (case get_current_session env (sv_clients sv) rs ev of
       None \<Rightarrow> as = [Net_disconnect_now (event_peer ev)] \<and> sv_clients sv' = sv_clients sv \<and>
         sv_devices sv' = sv_devices sv
     | Some s \<Rightarrow>
         map_of (sv_clients sv') = (map_of (sv_clients sv))(event_peer ev :=
           (case ev of ENET_CONNECT _ _ \<Rightarrow> Some s | ENET_DISCONNECT _ \<Rightarrow> None | _ \<Rightarrow> map_of (sv_clients sv) (event_peer ev))) \<and>
         (case ev of
            ENET_NONE _ \<Rightarrow> as = [] \<and> sv_devices sv' = sv_devices sv
          | ENET_CONNECT _ _ \<Rightarrow> as = [Bus (ResumeStreamEvent (ss_session_id s))] \<and> sv_devices sv' = sv_devices sv
          | ENET_DISCONNECT _ \<Rightarrow> as = [Bus (PauseStreamEvent (ss_session_id s))] \<and> sv_devices sv' = sv_devices sv
          | ENET_RECEIVE _ _ \<Rightarrow>
              (\<forall>e. Bus e \<in> set as \<longrightarrow> event_session e = Some (dec (ss_session_id s))) \<and>
              (\<forall>i a. Device i a \<in> set as \<longrightarrow> i = ss_session_id s) \<and>
              (\<forall>q b r. Net_send q b r \<in> set as \<longrightarrow> q = event_peer ev) \<and>
              (\<forall>q. Net_disconnect_now q \<notin> set as) \<and>
              (\<forall>i. i \<noteq> ss_session_id s \<longrightarrow> sv_devices sv' i = sv_devices sv i)))"
proof (cases "get_current_session env (sv_clients sv) rs ev")
  case None
  with assms show ?thesis by (auto simp: control_step_def)
next
  case (Some s)
  show ?thesis
  proof (cases ev)
    case (ENET_RECEIVE p data)
    then have step: "receive_step env p s data sv = Inr sv'" using assms Some by (simp add: control_step_def)
    from receive_step_own [OF step] obtain as where as: "sv_out sv' = sv_out sv @ as" "\<forall>a \<in> set as. own_net s p a"
      "\<forall>i. i \<noteq> ss_session_id s \<longrightarrow> sv_devices sv' i = sv_devices sv i" by blast
    with Some ENET_RECEIVE receive_step_clients [OF step] show ?thesis by (intro exI [of _ as]) fastforce
  qed (use assms Some in \<open>auto simp: control_step_def update_conv' delete_conv' restrict_map_def fun_eq_iff\<close>)
qed

theorem control_step_isolated_witness:
  "\<exists>as. sv_out demo_connected = sv_out demo_server @ as \<and> as = [Bus (ResumeStreamEvent 42)] \<and>
    map_of (sv_clients demo_connected) = [5 \<mapsto> demo_session]"
proof -
  have "get_current_session demo_control (sv_clients demo_server) [demo_session] (ENET_CONNECT 5 77) =
      Some demo_session"
    by (simp add: get_current_session_def demo_session_def)
  moreover have "ss_session_id demo_session = 42" by (simp add: demo_session_def)
  moreover have "map_of (sv_clients demo_server) = Map.empty" by (simp add: demo_server_def)
  ultimately show ?thesis using control_step_isolated [OF demo_connects] by auto
qed

text \<open>stopping a session reaches its client: when some connected peer belongs to the session,
  the handler of the stop event sends exactly one packet, to a peer of that session, and what
  that peer decrypts with the session's key is the graceful termination message.\<close>
theorem stop_reaches_client:
  assumes "gcm_stream (ce_ssl env)"
    and "(q, s0) \<in> set (sv_clients sv)" "ss_session_id s0 = i"
  shows "\<exists>p s wire r. (p, s) \<in> set (sv_clients sv) \<and> ss_session_id s = i \<and>
    stop_handler env i sv = Inr (out [Net_send p wire r] sv) \<and>
    peer_reads (ce_ssl env) (ss_aes_key s) wire terminate_packet"
proof -
  have "List.find (\<lambda>(p, s). ss_session_id s = i) (sv_clients sv) \<noteq> None"
    using assms(2,3) by (auto simp: find_None_all)
  then obtain p s where ps: "List.find (\<lambda>(p, s). ss_session_id s = i) (sv_clients sv) = Some (p, s)"
    by auto
  then have "(p, s) \<in> set (sv_clients sv)" "ss_session_id s = i"
    by (auto dest: find_Some_in)
  moreover have "length terminate_packet \<le> MAX_PAYLOAD_SIZE"
    by (simp add: terminate_packet_def control_header_def MAX_PAYLOAD_SIZE_def)
  then obtain wire where "encrypt_and_send env terminate_packet (ss_aes_key s) p =
      Inr (Net_send p wire (ce_send_ok env p wire))"
    "peer_reads (ce_ssl env) (ss_aes_key s) wire terminate_packet"
    using encrypt_and_send_reads [OF assms(1)] by blast
  ultimately show ?thesis using ps by (fastforce simp: stop_handler_def)
qed

theorem stop_reaches_client_witness:
  "\<exists>p s wire r. (p, s) \<in> set (sv_clients demo_connected) \<and> ss_session_id s = 42 \<and>
    stop_handler demo_control 42 demo_connected = Inr (out [Net_send p wire r] demo_connected) \<and>
    peer_reads toy_ssl (ss_aes_key s) wire terminate_packet"
  using stop_reaches_client [of demo_control 5 demo_session demo_connected 42] gcm_stream_toy
  by (simp add: demo_control_def) (simp add: demo_connected_def demo_session_def)

end
