(* ===== verification/App_State.thy ===== *)
theory App_State
  imports Helpers Events
begin

section \<open>Application state: moonlight-server/state\<close>

text \<open>
  The running sessions and their lookups (sessions.hpp), the ports, audio and display modes
  (data-structures.hpp), the paired clients and their persistence, and the start-up that merges
  the configuration file with the defaults (config.hpp, configTOML.cpp). An \<open>immer::vector\<close> is a
  list; the configuration file is its text, read and written by the reflection library (a
  parameter), and \<open>std::hash\<close> of a string is a parameter.
\<close>

subsection \<open>A vector of entries with a key\<close>

locale keyed_vector =
  fixes key :: "'a \<Rightarrow> 'k" and lookup :: "'a list \<Rightarrow> 'k \<Rightarrow> 'a option" and remove :: "'a list \<Rightarrow> 'a \<Rightarrow> 'a list"
  assumes lookup_Some: "lookup xs k = Some x \<Longrightarrow> x \<in> set xs \<and> key x = k"
    and lookup_None: "lookup xs k = None \<longleftrightarrow> k \<notin> key ` set xs"
    and remove_keeps: "remove xs x = filter (\<lambda>y. key y \<noteq> key x) xs"
begin

lemma lookup_removed: "lookup (remove xs x) (key x) = None"
  by (auto simp: lookup_None remove_keeps)

lemma lookup_pushed_iff: "lookup (xs @ [x]) k \<noteq> None \<longleftrightarrow> k = key x \<or> lookup xs k \<noteq> None"
  by (auto simp: lookup_None)

text \<open>With distinct keys a lookup determines the entry, so other entries survive a removal.\<close>

lemma lookup_distinct:
  "\<lbrakk>distinct (map key xs); x \<in> set xs\<rbrakk> \<Longrightarrow> lookup xs (key x) = Some x"
proof -
  assume d: "distinct (map key xs)" and x: "x \<in> set xs"
  then have "lookup xs (key x) \<noteq> None" by (auto simp: lookup_None)
  then obtain y where y: "lookup xs (key x) = Some y" by blast
  with lookup_Some [OF y] d x show ?thesis
    by (auto simp: distinct_map inj_on_def)
qed

lemma distinct_remove: "distinct (map key xs) \<Longrightarrow> distinct (map key (remove xs x))"
  by (auto simp: remove_keeps distinct_map inj_on_def)

lemma lookup_remove_other:
  assumes d: "distinct (map key xs)" and k: "k \<noteq> key x"
  shows "lookup (remove xs x) k = lookup xs k"
proof (cases "lookup xs k")
  case None
  then have "lookup (remove xs x) k = None" unfolding lookup_None by (auto simp: remove_keeps)
  with None show ?thesis by simp
next
  case (Some y)
  with lookup_Some [OF Some] k have "y \<in> set (remove xs x)" "key y = k" by (auto simp: remove_keeps)
  with lookup_distinct [OF distinct_remove [OF d], of y x] Some show ?thesis by simp
qed

definition put :: "'a list \<Rightarrow> 'a \<Rightarrow> 'a list" where
  "put xs x = remove xs x @ [x]"

lemma put_distinct: "distinct (map key xs) \<Longrightarrow> distinct (map key (put xs x))"
  using distinct_remove by (auto simp: put_def remove_keeps)

lemma put_lookup: "distinct (map key xs) \<Longrightarrow> lookup (put xs x) (key x) = Some x"
  by (rule lookup_distinct [OF put_distinct]) (simp_all add: put_def)

lemma put_once: "filter (\<lambda>y. key y = key x) (put xs x) = [x]"
  by (simp add: put_def remove_keeps filter_empty_conv)

lemma put_again: "put (put xs x) x = put xs x"
  by (simp add: put_def remove_keeps)

end

subsection \<open>Ports (data-structures.hpp)\<close>

datatype STANDARD_PORTS_MAPPING =
  HTTPS_PORT | HTTP_PORT | CONTROL_PORT | VIDEO_PING_PORT | AUDIO_PING_PORT | RTSP_SETUP_PORT

fun port_default :: "STANDARD_PORTS_MAPPING \<Rightarrow> int" where
  "port_default HTTPS_PORT = 47984"
| "port_default HTTP_PORT = 47989"
| "port_default CONTROL_PORT = 47999"
| "port_default VIDEO_PING_PORT = 48100"
| "port_default AUDIO_PING_PORT = 48200"
| "port_default RTSP_SETUP_PORT = 48010"

fun port_env :: "STANDARD_PORTS_MAPPING \<Rightarrow> string" where
  "port_env HTTPS_PORT = ''WOLF_HTTPS_PORT''"
| "port_env HTTP_PORT = ''WOLF_HTTP_PORT''"
| "port_env CONTROL_PORT = ''WOLF_CONTROL_PORT''"
| "port_env VIDEO_PING_PORT = ''WOLF_VIDEO_PING_PORT''"
| "port_env AUDIO_PING_PORT = ''WOLF_AUDIO_PING_PORT''"
| "port_env RTSP_SETUP_PORT = ''WOLF_RTSP_SETUP_PORT''"

definition get_port :: "(string \<Rightarrow> string option) \<Rightarrow> STANDARD_PORTS_MAPPING \<Rightarrow> num_error + int" where
  "get_port getenv port =
     (case getenv (port_env port) of Some v \<Rightarrow> stoi v | None \<Rightarrow> Inr (port_default port))"

subsection \<open>Running sessions (sessions.hpp)\<close>

definition get_session_by_id :: "StreamSession list \<Rightarrow> nat \<Rightarrow> StreamSession option" where
  "get_session_by_id sessions i =
     (case take 1 (filter (\<lambda>s. ss_session_id s = i) sessions) of
        [s] \<Rightarrow> Some s
      | [] \<Rightarrow> None
      | _ \<Rightarrow> None)"

definition remove_session :: "StreamSession list \<Rightarrow> StreamSession \<Rightarrow> StreamSession list" where
  "remove_session sessions session = filter (\<lambda>s. ss_session_id s \<noteq> ss_session_id session) sessions"

lemma get_session_by_id_find: "get_session_by_id ss i = List.find (\<lambda>s. ss_session_id s = i) ss"
  by (induction ss) (auto simp: get_session_by_id_def)

interpretation sess: keyed_vector ss_session_id get_session_by_id remove_session
  by unfold_locales
    (auto simp: get_session_by_id_find find_None_all remove_session_def dest: find_Some_in)

definition get_client_id :: "(string \<Rightarrow> nat) \<Rightarrow> PairedClient \<Rightarrow> nat" where
  "get_client_id hashf current_client = hashf (pc_client_cert current_client)"

definition get_session_by_client ::
    "(string \<Rightarrow> nat) \<Rightarrow> StreamSession list \<Rightarrow> PairedClient \<Rightarrow> StreamSession option" where
  "get_session_by_client hashf sessions client = get_session_by_id sessions (get_client_id hashf client)"

text \<open>
  A new session for a client and an application. The random draws (the two secrets and the four
  parts of the fake address) are arguments. A port variable of the environment that is no number
  throws; the ports are narrowed to 16 bits.
\<close>

definition path_join :: "string \<Rightarrow> string \<Rightarrow> string" where
  "path_join a b =
     (if b \<noteq> [] \<and> hd b = CHR ''/'' then b
      else if a = [] \<or> last a = CHR ''/'' then a @ b else a @ ''/'' @ b)"

record random_draws =
  rd_rtp_secret :: bytes
  rd_enet_secret :: u32
  rd_ip :: "nat \<times> nat \<times> nat \<times> nat"

definition fake_ip :: "nat \<times> nat \<times> nat \<times> nat \<Rightarrow> string" where
  "fake_ip q = (case q of (a, b, c, d) \<Rightarrow> dec a @ ''.'' @ dec b @ ''.'' @ dec c @ ''.'' @ dec d)"

record host =
  h_display_modes :: "DisplayMode list"
  h_internal_ip :: "string option"
  h_mac_address :: "string option"
  h_host_base_state_folder :: string
  h_local_base_state_folder :: string

definition session_ports :: "(string \<Rightarrow> string option) \<Rightarrow> num_error + u16 \<times> u16 \<times> u16" where
  "session_ports getenv =
     (case get_port getenv VIDEO_PING_PORT of
        Inl e \<Rightarrow> Inl e
      | Inr v \<Rightarrow>
          (case get_port getenv AUDIO_PING_PORT of
             Inl e \<Rightarrow> Inl e
           | Inr a \<Rightarrow> map_sum id (\<lambda>c. (of_int v, of_int a, of_int c)) (get_port getenv CONTROL_PORT)))"

definition create_stream_session ::
    "(string \<Rightarrow> nat) \<Rightarrow> (string \<Rightarrow> string option) \<Rightarrow> random_draws \<Rightarrow> host \<Rightarrow> App \<Rightarrow> PairedClient \<Rightarrow>
     DisplayMode \<Rightarrow> int \<Rightarrow> string \<Rightarrow> string \<Rightarrow> num_error + StreamSession" where
  "create_stream_session hashf getenv rnd host run_app current_client display_mode audio_channel_count aes_key aes_iv =
     map_sum id (\<lambda>(video_port, audio_port, control_port).
        let app_folder_name = sanitize_path_component (app_title run_app);
            folder = (\<lambda>base. path_join (path_join base (pc_app_state_folder current_client)) app_folder_name)
        in \<lparr>ss_display_mode = display_mode, ss_audio_channel_count = audio_channel_count,
            ss_client_settings = pc_settings current_client, ss_app = Some run_app,
            ss_app_local_state_folder = folder (h_local_base_state_folder host),
            ss_app_host_state_folder = folder (h_host_base_state_folder host),
            ss_aes_key = aes_key, ss_aes_iv = aes_iv,
            ss_rtp_secret_payload = rd_rtp_secret rnd, ss_enet_secret_payload = rd_enet_secret rnd,
            ss_rtsp_fake_ip = fake_ip (rd_ip rnd), ss_session_id = get_client_id hashf current_client,
            ss_ip = [], ss_video_stream_port = video_port, ss_audio_stream_port = audio_port,
            ss_control_stream_port = control_port\<rparr>)
       (session_ports getenv)"

subsection \<open>Audio and display modes (data-structures.hpp)\<close>

definition AUDIO_CONFIGURATIONS :: "AudioMode list" where
  "AUDIO_CONFIGURATIONS =
     [\<lparr>am_channels = 2, am_streams = 1, am_coupled_streams = 1, am_speakers = [FRONT_LEFT, FRONT_RIGHT],
       am_bitrate = 96000, am_sample_rate = 48000\<rparr>,
      \<lparr>am_channels = 6, am_streams = 4, am_coupled_streams = 2,
       am_speakers = [FRONT_LEFT, FRONT_RIGHT, FRONT_CENTER, LOW_FREQUENCY, BACK_LEFT, BACK_RIGHT],
       am_bitrate = 256000, am_sample_rate = 48000\<rparr>,
      \<lparr>am_channels = 8, am_streams = 5, am_coupled_streams = 3,
       am_speakers = [FRONT_LEFT, FRONT_RIGHT, FRONT_CENTER, LOW_FREQUENCY, BACK_LEFT, BACK_RIGHT, SIDE_LEFT, SIDE_RIGHT],
       am_bitrate = 450000, am_sample_rate = 48000\<rparr>]"

definition get_audio_mode :: "int \<Rightarrow> AudioMode" where
  "get_audio_mode channels =
     AUDIO_CONFIGURATIONS ! (if channels = 6 then 1 else if channels = 8 then 2 else 0)"

definition lo_res :: "(int \<times> int) list" where
  "lo_res = [(1280, 720), (1600, 900), (1920, 1080), (2560, 1440), (1280, 800), (1440, 900), (1680, 1050),
     (1920, 1200), (2560, 1080), (3440, 1440), (3840, 1080), (5120, 1440), (1024, 768), (1280, 960),
     (1280, 1024), (1600, 1200)]"

definition hi_res :: "(int \<times> int) list" where
  "hi_res = [(3200, 1800), (3840, 2160), (5120, 2880), (7680, 4320), (2560, 1600), (2880, 1800), (3840, 2400),
     (2160, 1440), (2256, 1504), (2560, 1700), (3000, 2000), (3240, 2160), (3840, 1600), (5120, 2160),
     (7680, 2160), (2048, 1536)]"

definition mode :: "int \<times> int \<Rightarrow> int \<Rightarrow> DisplayMode" where
  "mode r rr = \<lparr>dm_width = fst r, dm_height = snd r, dm_refreshRate = rr, dm_hevc_supported = True,
     dm_av1_supported = False\<rparr>"

definition DISPLAY_CONFIGURATIONS :: "DisplayMode list" where
  "DISPLAY_CONFIGURATIONS =
     concat (map (\<lambda>r. map (mode r) [240, 165, 144] @ map (mode r) [120, 90, 60, 30]) lo_res) @
     concat (map (\<lambda>r. map (mode r) [120, 90, 60, 30]) hi_res)"

subsection \<open>The configuration file (serialised_config.hpp)\<close>

record GstEncoderDefault =
  ed_video_params :: string
  ed_video_params_zero_copy :: string

record GstEncoder =
  ge_plugin_name :: string
  ge_check_elements :: "string list"
  ge_video_params :: "string option"
  ge_video_params_zero_copy :: "string option"
  ge_encoder_pipeline :: string

record GstVideoCfg =
  gv_default_source :: string
  gv_default_sink :: string
  gv_defaults :: "(string \<times> GstEncoderDefault) list"
  gv_av1_encoders :: "GstEncoder list"
  gv_hevc_encoders :: "GstEncoder list"
  gv_h264_encoders :: "GstEncoder list"

record GstAudioCfg =
  ga_default_source :: string
  ga_default_audio_params :: string
  ga_default_opus_encoder :: string
  ga_default_sink :: string

record BaseAppVideoOverride =
  bv_source :: "string option"
  bv_sink :: "string option"
  bv_producer_buffer_caps :: "string option"
  bv_video_params :: "string option"
  bv_h264_encoder :: "string option"
  bv_hevc_encoder :: "string option"
  bv_av1_encoder :: "string option"

record BaseAppAudioOverride =
  ba_source :: "string option"
  ba_audio_params :: "string option"
  ba_opus_encoder :: "string option"
  ba_sink :: "string option"

record BaseApp =
  bp_title :: string
  bp_icon_png_path :: "string option"
  bp_render_node :: "string option"
  bp_video :: "BaseAppVideoOverride option"
  bp_audio :: "BaseAppAudioOverride option"
  bp_start_virtual_compositor :: "bool option"
  bp_start_audio_server :: "bool option"
  bp_runner :: Runner_config

record CfgProfile =
  cp_id :: string
  cp_name :: "string option"
  cp_icon_png_path :: "string option"
  cp_pin :: "int list option"
  cp_apps :: "BaseApp list"

record WolfConfig =
  wc_hostname :: string
  wc_uuid :: string
  wc_config_version :: int
  wc_paired_clients :: "PairedClient list"
  wc_profiles :: "CfgProfile list"
  wc_video :: GstVideoCfg
  wc_audio :: GstAudioCfg

text \<open>The profiles in memory, their applications resolved (events.hpp), and the configuration in
  use (data-structures.hpp).\<close>

record Profile =
  pr_id :: string
  pr_name :: string
  pr_icon_png_path :: string
  pr_pin :: "int list option"
  pr_apps :: "App list"

record Config =
  cfg_uuid :: string
  cfg_hostname :: string
  cfg_support_hevc :: bool
  cfg_support_av1 :: bool
  cfg_paired_clients :: "PairedClient list"
  cfg_profiles :: "Profile list"

definition MOONLIGHT_PROFILE_ID :: string where
  "MOONLIGHT_PROFILE_ID = ''moonlight-profile-id''"

subsection \<open>Lookups in the configuration (config.hpp)\<close>

text \<open>\<open>cert_of\<close> is \<open>x509::cert_from_string\<close>.\<close>

definition get_client_via_ssl ::
    "'cert verifier \<Rightarrow> (string \<Rightarrow> 'cert) \<Rightarrow> Config \<Rightarrow> 'cert \<Rightarrow> PairedClient option" where
  "get_client_via_ssl run cert_of cfg client_cert =
     List.find (\<lambda>c. verification_error run (cert_of (pc_client_cert c)) client_cert = None)
       (cfg_paired_clients cfg)"

definition get_client_by_id ::
    "(string \<Rightarrow> nat) \<Rightarrow> Config \<Rightarrow> string \<Rightarrow> num_error + PairedClient option" where
  "get_client_by_id hashf cfg client_id =
     map_sum id (\<lambda>n. List.find (\<lambda>c. get_client_id hashf c = n) (cfg_paired_clients cfg)) (stoul client_id)"

definition get_moonlight_profile :: "Config \<Rightarrow> Profile option" where
  "get_moonlight_profile cfg = List.find (\<lambda>p. pr_id p = MOONLIGHT_PROFILE_ID) (cfg_profiles cfg)"

definition get_moonlight_app_by_id :: "Config \<Rightarrow> string \<Rightarrow> App option" where
  "get_moonlight_app_by_id cfg i =
     (case get_moonlight_profile cfg of
        None \<Rightarrow> None
      | Some p \<Rightarrow> List.find (\<lambda>a. app_id a = i) (pr_apps p))"

fun get_controller_type :: "ControllerType \<Rightarrow> CONTROLLER_TYPE" where
  "get_controller_type CT_XBOX = XBOX"
| "get_controller_type CT_PS = PS"
| "get_controller_type CT_NINTENDO = NINTENDO"
| "get_controller_type CT_AUTO = OTHER_TYPE 0xFF"

subsection \<open>Saving and updating (configTOML.cpp)\<close>

text \<open>
  The reflection library writes a configuration to text and reads it back (\<open>None\<close> when it does
  not parse); the file system may refuse the temporary file or the rename. The file is its text,
  if it exists. An update first changes memory, then loads the file, whose \<open>value()\<close> throws when
  it does not parse.
\<close>

record toml_env =
  te_write :: "WolfConfig \<Rightarrow> string"
  te_read :: "string \<Rightarrow> WolfConfig option"
  te_tmp_ok :: bool
  te_rename_ok :: bool

type_synonym toml_file = "string option"

definition toml_load :: "toml_env \<Rightarrow> toml_file \<Rightarrow> WolfConfig option" where
  "toml_load te f = Option.bind f (te_read te)"

definition save_verified :: "toml_env \<Rightarrow> WolfConfig \<Rightarrow> toml_file \<Rightarrow> bool \<times> toml_file" where
  "save_verified te tml dest =
     (let serialized = te_write te tml
      in case te_read te serialized of
           None \<Rightarrow> (False, dest)
         | Some reparsed \<Rightarrow>
             if te_write te reparsed \<noteq> serialized then (False, dest)
             else if \<not> te_tmp_ok te then (False, dest)
             else if \<not> te_rename_ok te then (False, dest)
             else (True, Some serialized))"

text \<open>Memory, file, and whether the update threw.\<close>

definition update_toml ::
    "toml_env \<Rightarrow> (WolfConfig \<Rightarrow> WolfConfig) \<Rightarrow> Config \<Rightarrow> toml_file \<Rightarrow> Config \<times> toml_file \<times> bool" where
  "update_toml te f cfg disk =
     (case toml_load te disk of
        None \<Rightarrow> (cfg, disk, True)
      | Some tml \<Rightarrow> (cfg, snd (save_verified te (f tml) disk), False))"

definition drop_client :: "PairedClient list \<Rightarrow> PairedClient \<Rightarrow> PairedClient list" where
  "drop_client cs client = filter (\<lambda>c. pc_client_cert c \<noteq> pc_client_cert client) cs"

definition pair_client :: "toml_env \<Rightarrow> PairedClient \<Rightarrow> Config \<times> toml_file \<Rightarrow> Config \<times> toml_file \<times> bool" where
  "pair_client te client st =
     update_toml te (\<lambda>tml. tml\<lparr>wc_paired_clients := wc_paired_clients tml @ [client]\<rparr>)
       ((fst st)\<lparr>cfg_paired_clients := drop_client (cfg_paired_clients (fst st)) client @ [client]\<rparr>) (snd st)"

definition unpair_client :: "toml_env \<Rightarrow> PairedClient \<Rightarrow> Config \<times> toml_file \<Rightarrow> Config \<times> toml_file \<times> bool" where
  "unpair_client te client st =
     update_toml te (\<lambda>tml. tml\<lparr>wc_paired_clients := drop_client (wc_paired_clients tml) client\<rparr>)
       ((fst st)\<lparr>cfg_paired_clients := drop_client (cfg_paired_clients (fst st)) client\<rparr>) (snd st)"

definition update_client_fn ::
    "(string \<Rightarrow> nat) \<Rightarrow> nat \<Rightarrow> PairedClient \<Rightarrow> PairedClient \<Rightarrow> PairedClient" where
  "update_client_fn hashf client_id updated_client client =
     (if get_client_id hashf client = client_id then updated_client else client)"

definition update_client_settings ::
    "toml_env \<Rightarrow> (string \<Rightarrow> nat) \<Rightarrow> nat \<Rightarrow> PairedClient \<Rightarrow> Config \<times> toml_file \<Rightarrow> Config \<times> toml_file \<times> bool" where
  "update_client_settings te hashf client_id updated_client st =
     (let upd = map (update_client_fn hashf client_id updated_client)
      in update_toml te (\<lambda>tml. tml\<lparr>wc_paired_clients := upd (wc_paired_clients tml)\<rparr>)
           ((fst st)\<lparr>cfg_paired_clients := upd (cfg_paired_clients (fst st))\<rparr>) (snd st))"

definition update_profiles_in_memory :: "Profile list \<Rightarrow> Config \<Rightarrow> Config" where
  "update_profiles_in_memory profiles cfg = cfg\<lparr>cfg_profiles := profiles\<rparr>"

text \<open>\<open>raw_apps.emplace\<close> keeps the first application of a profile with a given title.\<close>

definition raw_apps :: "WolfConfig \<Rightarrow> string \<Rightarrow> string \<Rightarrow> BaseApp option" where
  "raw_apps tml profile_id title =
     map_option snd (List.find (\<lambda>(i, a). i = profile_id \<and> bp_title a = title)
       (concat (map (\<lambda>p. map (\<lambda>a. (cp_id p, a)) (cp_apps p)) (wc_profiles tml))))"

definition empty_base_app :: BaseApp where
  "empty_base_app = \<lparr>bp_title = [], bp_icon_png_path = None, bp_render_node = None, bp_video = None,
     bp_audio = None, bp_start_virtual_compositor = None, bp_start_audio_server = None,
     bp_runner = AppCMD []\<rparr>"

definition serialize_app :: "WolfConfig \<Rightarrow> string \<Rightarrow> App \<Rightarrow> BaseApp" where
  "serialize_app tml profile_id app =
     (case raw_apps tml profile_id (app_title app) of None \<Rightarrow> empty_base_app | Some b \<Rightarrow> b)
       \<lparr>bp_title := app_title app, bp_icon_png_path := app_icon_png_path app,
        bp_render_node := Some (app_render_node app),
        bp_start_virtual_compositor := Some (app_start_virtual_compositor app),
        bp_start_audio_server := Some (app_start_audio_server app), bp_runner := serialize (app_runner app)\<rparr>"

definition serialize_profile :: "WolfConfig \<Rightarrow> Profile \<Rightarrow> CfgProfile" where
  "serialize_profile tml p =
     \<lparr>cp_id = pr_id p, cp_name = Some (pr_name p), cp_icon_png_path = Some (pr_icon_png_path p),
      cp_pin = pr_pin p, cp_apps = map (serialize_app tml (pr_id p)) (pr_apps p)\<rparr>"

definition update_profiles :: "toml_env \<Rightarrow> Profile list \<Rightarrow> Config \<times> toml_file \<Rightarrow> Config \<times> toml_file \<times> bool" where
  "update_profiles te profiles st =
     update_toml te (\<lambda>tml. tml\<lparr>wc_profiles := map (serialize_profile tml) profiles\<rparr>)
       ((fst st)\<lparr>cfg_profiles := profiles\<rparr>) (snd st)"

subsection \<open>Encoders (configTOML.cpp)\<close>

datatype Encoder = ENC_NVIDIA | ENC_VAAPI | ENC_QUICKSYNC | ENC_SOFTWARE | ENC_APPLE | ENC_UNKNOWN

datatype GPU_VENDOR = GPU_NVIDIA | GPU_AMD | GPU_INTEL | GPU_UNKNOWN

text \<open>GStreamer's registry, the file system and the environment variables.\<close>

record gst_env =
  gt_has_plugin :: "string \<Rightarrow> bool"
  gt_can_make :: "string \<Rightarrow> bool"
  gt_dma_caps :: "string \<Rightarrow> string list"
  gt_render_node_name :: "string \<Rightarrow> string"
  gt_vendor :: "string \<Rightarrow> GPU_VENDOR"
  gt_getenv :: "string \<Rightarrow> string option"

definition encoder_type :: "GstEncoder \<Rightarrow> Encoder" where
  "encoder_type settings =
     (let h = hash (ge_plugin_name settings)
      in if h = hash ''nvcodec'' then ENC_NVIDIA
         else if h = hash ''vaapi'' \<or> h = hash ''va'' then ENC_VAAPI
         else if h = hash ''qsv'' then ENC_QUICKSYNC
         else if h = hash ''applemedia'' then ENC_APPLE
         else if h = hash ''x264'' \<or> h = hash ''x265'' \<or> h = hash ''aom'' then ENC_SOFTWARE
         else ENC_UNKNOWN)"

definition vendor_fits :: "GPU_VENDOR \<Rightarrow> Encoder \<Rightarrow> bool" where
  "vendor_fits gpu_vendor encoder_vendor \<longleftrightarrow>
     \<not> (encoder_vendor = ENC_NVIDIA \<and> gpu_vendor \<noteq> GPU_NVIDIA) \<and>
     \<not> (encoder_vendor = ENC_VAAPI \<and> gpu_vendor \<noteq> GPU_INTEL \<and> gpu_vendor \<noteq> GPU_AMD) \<and>
     \<not> (encoder_vendor = ENC_QUICKSYNC \<and> gpu_vendor \<noteq> GPU_INTEL)"

definition is_available :: "gst_env \<Rightarrow> GPU_VENDOR \<Rightarrow> GstEncoder \<Rightarrow> bool" where
  "is_available g gpu_vendor settings \<longleftrightarrow>
     gt_has_plugin g (ge_plugin_name settings) \<and>
     list_all (\<lambda>el_name. vendor_fits gpu_vendor (encoder_type settings) \<and> gt_can_make g el_name)
       (ge_check_elements settings)"

fun has_sub :: "string \<Rightarrow> string \<Rightarrow> bool" where
  "has_sub pat [] = (pat = [])"
| "has_sub pat (c # cs) = (take (length pat) (c # cs) = pat \<or> has_sub pat cs)"

text \<open>\<open>std::regex_replace\<close> with a pattern that has no special character.\<close>

fun replace_all :: "string \<Rightarrow> string \<Rightarrow> string \<Rightarrow> string" where
  "replace_all pat rep [] = []"
| "replace_all pat rep (c # cs) =
     (if pat \<noteq> [] \<and> take (length pat) (c # cs) = pat
      then rep @ replace_all pat rep (drop (length pat - 1) cs)
      else c # replace_all pat rep cs)"

definition get_encoder :: "gst_env \<Rightarrow> string \<Rightarrow> string \<Rightarrow> GstEncoder list \<Rightarrow> GPU_VENDOR \<Rightarrow> GstEncoder option" where
  "get_encoder g tech encoder_node encoders vendor =
     (case List.find (is_available g vendor) encoders of
        None \<Rightarrow> None
      | Some encoder \<Rightarrow>
          let encoder_node_name = gt_render_node_name g encoder_node;
              plugin = ''va'' @ encoder_node_name @ tech @ ''enc'';
              possible = \<lparr>ge_plugin_name = ge_plugin_name encoder,
                ge_check_elements = [plugin, ''vapostproc''],
                ge_video_params = ge_video_params encoder,
                ge_video_params_zero_copy = ge_video_params_zero_copy encoder,
                ge_encoder_pipeline = ge_encoder_pipeline encoder\<rparr>
          in if encoder_type encoder = ENC_VAAPI \<and> encoder_node_name \<noteq> ''renderD128'' \<and>
                is_available g vendor possible
             then Some (possible\<lparr>ge_encoder_pipeline :=
                    replace_all (''va'' @ tech @ ''enc'') plugin (ge_encoder_pipeline possible)\<rparr>)
             else Some encoder)"

subsection \<open>Applications of the configuration\<close>

text \<open>\<open>abs\<close> on \<open>int32_t\<close>: the least value has no opposite and stays.\<close>

definition generate_app_id :: "BaseApp \<Rightarrow> string" where
  "generate_app_id app =
     (let h = hash ((case bp_icon_png_path app of Some p \<Rightarrow> p | None \<Rightarrow> []) @ bp_title app)
      in dec_int (if sint h < 0 then sint (- h) else sint h))"

definition pipeline4 :: "string \<Rightarrow> string \<Rightarrow> string \<Rightarrow> string \<Rightarrow> string" where
  "pipeline4 a b c d = a @ '' !'' @ [CHR 0x0A] @ b @ '' !'' @ [CHR 0x0A] @ c @ '' !'' @ [CHR 0x0A] @ d"

definition value_or :: "'a option \<Rightarrow> 'a \<Rightarrow> 'a" where
  "value_or v d = (case v of Some x \<Rightarrow> x | None \<Rightarrow> d)"

text \<open>
  One application merged with the defaults. The defaults \<open>load_or_default\<close> passes always have
  a source, a sink, an H.264 encoder and the audio settings: the record \<open>defaults\<close> holds those
  values, so that no \<open>value()\<close> can throw.
\<close>

record defaults =
  df_app_render_node :: string
  df_source :: string
  df_sink :: string
  df_caps :: string
  df_h264_encoder :: string
  df_hevc_encoder :: "string option"
  df_av1_encoder :: "string option"
  df_h264_params :: string
  df_hevc_params :: string
  df_av1_params :: string
  df_audio_source :: string
  df_audio_params :: string
  df_opus_encoder :: string
  df_audio_sink :: string

definition no_video :: BaseAppVideoOverride where
  "no_video = \<lparr>bv_source = None, bv_sink = None, bv_producer_buffer_caps = None, bv_video_params = None,
     bv_h264_encoder = None, bv_hevc_encoder = None, bv_av1_encoder = None\<rparr>"

definition no_audio :: BaseAppAudioOverride where
  "no_audio = \<lparr>ba_source = None, ba_audio_params = None, ba_opus_encoder = None, ba_sink = None\<rparr>"

text \<open>A runner that \<open>get_runner\<close> does not accept throws.\<close>

definition parse_app :: "defaults \<Rightarrow> BaseApp \<Rightarrow> App option" where
  "parse_app df app =
     (let v = value_or (bp_video app) no_video; a = value_or (bp_audio app) no_audio;
          video = (\<lambda>params encoder default_encoder.
            pipeline4 (value_or (bv_source v) (df_source df)) (value_or (bv_video_params v) params)
              (value_or encoder default_encoder) (value_or (bv_sink v) (df_sink df)))
      in map_option (\<lambda>runner. \<lparr>app_title = bp_title app, app_id = generate_app_id app, app_support_hdr = False,
          app_icon_png_path = bp_icon_png_path app,
          app_h264_gst_pipeline = video (df_h264_params df) (bv_h264_encoder v) (df_h264_encoder df),
          app_hevc_gst_pipeline = (case df_hevc_encoder df of
             Some e \<Rightarrow> video (df_hevc_params df) (bv_hevc_encoder v) e | None \<Rightarrow> []),
          app_av1_gst_pipeline = (case df_av1_encoder df of
             Some e \<Rightarrow> video (df_av1_params df) (bv_av1_encoder v) e | None \<Rightarrow> []),
          app_render_node = value_or (bp_render_node app) (df_app_render_node df),
          app_opus_gst_pipeline =
            pipeline4 (value_or (ba_source a) (df_audio_source df)) (value_or (ba_audio_params a) (df_audio_params df))
              (value_or (ba_opus_encoder a) (df_opus_encoder df)) (value_or (ba_sink a) (df_audio_sink df)),
          app_start_virtual_compositor = value_or (bp_start_virtual_compositor app) True,
          app_start_audio_server = value_or (bp_start_audio_server app) True,
          app_video_producer_buffer_caps = df_caps df,
          app_controller_override = CT_AUTO,
          app_runner = runner\<rparr>) (get_runner (bp_runner app)))"

definition parse_apps :: "defaults \<Rightarrow> BaseApp list \<Rightarrow> App list option" where
  "parse_apps df apps = those (map (parse_app df) apps)"

definition parse_profile :: "defaults \<Rightarrow> CfgProfile \<Rightarrow> Profile option" where
  "parse_profile df p = map_option (\<lambda>apps. \<lparr>pr_id = cp_id p, pr_name = value_or (cp_name p) [],
     pr_icon_png_path = value_or (cp_icon_png_path p) [], pr_pin = cp_pin p, pr_apps = apps\<rparr>) (parse_apps df (cp_apps p))"

subsection \<open>Start-up\<close>

definition named_source :: "string \<Rightarrow> string \<Rightarrow> string" where
  "named_source name default_source =
     (if has_sub ''name=interpipesrc'' default_source then default_source
      else name @ drop 12 default_source)"

definition usable_dma_caps :: "string list \<Rightarrow> string list" where
  "usable_dma_caps caps = filter (\<lambda>c. \<not> (has_sub ''P010'' c \<or> has_sub ''AR30'' c \<or> has_sub '' '' c)) caps"

text \<open>Whether the zero-copy pipeline is used, and the caps its producers must offer.\<close>

definition zero_copy_caps :: "gst_env \<Rightarrow> GPU_VENDOR \<Rightarrow> Encoder \<Rightarrow> bool \<times> string" where
  "zero_copy_caps g vendor video_encoder =
     (let wanted = (gt_getenv g ''WOLF_USE_ZERO_COPY'' \<noteq> Some ''FALSE'' \<and> vendor \<noteq> GPU_UNKNOWN);
          dma = usable_dma_caps (gt_dma_caps g ''vapostproc'')
      in if \<not> wanted then (False, ''video/x-raw'')
         else if video_encoder = ENC_NVIDIA then (True, ''video/x-raw(memory:CUDAMemory)'')
         else if video_encoder = ENC_VAAPI \<or> video_encoder = ENC_QUICKSYNC then
           (if dma = [] then (False, ''video/x-raw'')
            else (True, ''video/x-raw(memory:DMABuf), drm-format={'' @ join dma '','' @ ''}''))
         else (True, ''video/x-raw''))"

definition encoder_params :: "bool \<Rightarrow> (string \<times> GstEncoderDefault) list \<Rightarrow> GstEncoder option \<Rightarrow> string" where
  "encoder_params use_zero_copy dflts enc =
     (case enc of
        None \<Rightarrow> []
      | Some e \<Rightarrow>
          let d = value_or (map_of dflts (ge_plugin_name e)) \<lparr>ed_video_params = [], ed_video_params_zero_copy = []\<rparr>
          in if use_zero_copy then value_or (ge_video_params_zero_copy e) (ed_video_params_zero_copy d)
             else value_or (ge_video_params e) (ed_video_params d))"

text \<open>From the parsed configuration on; without an H.264 encoder, or with a runner that cannot be made, the start-up throws.\<close>

definition load_config :: "gst_env \<Rightarrow> WolfConfig \<Rightarrow> Config option" where
  "load_config g wc =
     (let v = wc_video wc; a = wc_audio wc;
          app_node = value_or (gt_getenv g ''WOLF_RENDER_NODE'') ''/dev/dri/renderD128'';
          gst_node = value_or (gt_getenv g ''WOLF_ENCODER_NODE'') app_node;
          vendor = gt_vendor g gst_node;
          h264 = get_encoder g ''h264'' gst_node (gv_h264_encoders v) vendor;
          hevc = get_encoder g ''h265'' gst_node (gv_hevc_encoders v) vendor;
          av1 = get_encoder g ''av1'' gst_node (gv_av1_encoders v) vendor
      in case h264 of
           None \<Rightarrow> None
         | Some h \<Rightarrow>
             let (use_zero_copy, caps) = zero_copy_caps g vendor (encoder_type h);
                 df = \<lparr>df_app_render_node = app_node,
                   df_source = named_source ''interpipesrc name=interpipesrc_{}_video'' (gv_default_source v),
                   df_sink = gv_default_sink v, df_caps = caps,
                   df_h264_encoder = ge_encoder_pipeline h,
                   df_hevc_encoder = map_option ge_encoder_pipeline hevc,
                   df_av1_encoder = map_option ge_encoder_pipeline av1,
                   df_h264_params = encoder_params use_zero_copy (gv_defaults v) (Some h),
                   df_hevc_params = encoder_params use_zero_copy (gv_defaults v) hevc,
                   df_av1_params = encoder_params use_zero_copy (gv_defaults v) av1,
                   df_audio_source = named_source ''interpipesrc name=interpipesrc_{}_audio'' (ga_default_source a),
                   df_audio_params = ga_default_audio_params a,
                   df_opus_encoder = ga_default_opus_encoder a, df_audio_sink = ga_default_sink a\<rparr>
             in map_option (\<lambda>profiles. \<lparr>cfg_uuid = wc_uuid wc, cfg_hostname = wc_hostname wc,
                  cfg_support_hevc = (hevc \<noteq> None),
                  cfg_support_av1 = (case av1 of None \<Rightarrow> False | Some e \<Rightarrow> encoder_type e \<noteq> ENC_SOFTWARE),
                  cfg_paired_clients = wc_paired_clients wc,
                  cfg_profiles = profiles\<rparr>) (those (map (parse_profile df) (wc_profiles wc))))"

subsection \<open>Where session folders end up\<close>

lemma segments_append: "segments (a @ CHR ''/'' # b) = segments a @ segments b"
proof (induction a)
  case (Cons c a)
  then show ?case
    by (cases "segments a") auto
qed simp

lemma walk_append: "walk dir (gs @ hs) = walk (walk dir gs) hs"
  by (induction gs arbitrary: dir) auto

lemma walk_path_join:
  assumes "b = [] \<or> hd b \<noteq> CHR ''/''"
  shows "walk dir (segments (path_join a b)) = walk (walk dir (segments a)) (segments b)"
proof (cases "a = [] \<or> last a = CHR ''/''")
  case False
  then show ?thesis using assms by (auto simp: path_join_def segments_append walk_append)
next
  case True
  then consider "a = []" | a' where "a = a' @ [CHR ''/'']"
    by (metis append_butlast_last_id)
  then show ?thesis
  proof cases
    case 2
    then have "segments a = segments a' @ [[]]" using segments_append [of a' "[]"] by simp
    with 2 assms show ?thesis by (auto simp: path_join_def segments_append walk_append)
  qed (use assms in \<open>auto simp: path_join_def\<close>)
qed

lemma walk_sanitized: "walk dir (segments (sanitize_path_component t)) = dir @ [sanitize_path_component t]"
proof -
  have "CHR ''/'' \<notin> set (sanitize_path_component t)"
    using sanitize_chars [of "CHR ''/''" t] by (auto simp: illegal_path_char_def)
  then show ?thesis
    using sanitize_not_special [of t] segments_no_slash [of "sanitize_path_component t"] by auto
qed

lemma sanitized_relative: "sanitize_path_component t = [] \<or> hd (sanitize_path_component t) \<noteq> CHR ''/''"
  using sanitize_chars [of "CHR ''/''" t] sanitize_not_special [of t]
  by (auto simp: illegal_path_char_def dest: hd_in_set)

lemma walk_session_folder:
  assumes "is_safe_state_folder folder"
  shows "\<exists>ds. walk dir (segments (path_join (path_join base folder) (sanitize_path_component t))) =
    walk dir (segments base) @ ds @ [sanitize_path_component t]"
proof -
  have f: "folder = [] \<or> hd folder \<noteq> CHR ''/''" "''..'' \<notin> set (segments folder)"
    using assms by (auto simp: is_safe_iff)
  from walk_no_dotdot [OF f(2), of "walk dir (segments base)"]
  obtain ds where "walk (walk dir (segments base)) (segments folder) = walk dir (segments base) @ ds" by blast
  then show ?thesis
    by (simp add: walk_path_join [OF sanitized_relative] walk_path_join [OF f(1)] walk_sanitized)
qed

lemma create_stream_session_Inr:
  "create_stream_session hashf getenv rnd host run_app client dm ch key iv = Inr s \<Longrightarrow>
     ss_app_local_state_folder s =
       path_join (path_join (h_local_base_state_folder host) (pc_app_state_folder client))
         (sanitize_path_component (app_title run_app)) \<and>
     ss_app_host_state_folder s =
       path_join (path_join (h_host_base_state_folder host) (pc_app_state_folder client))
         (sanitize_path_component (app_title run_app)) \<and>
     ss_session_id s = get_client_id hashf client"
  by (auto simp: create_stream_session_def Let_def)

subsection \<open>Saved configurations\<close>

text \<open>The file system accepts writes, and the library reads back the configuration it wrote.\<close>

definition lossless :: "toml_env \<Rightarrow> WolfConfig \<Rightarrow> bool" where
  "lossless te w \<longleftrightarrow> te_tmp_ok te \<and> te_rename_ok te \<and> te_read te (te_write te w) = Some w"

lemma save_verified_lossless: "lossless te w \<Longrightarrow> save_verified te w f = (True, Some (te_write te w))"
  by (simp add: save_verified_def lossless_def)

lemma update_toml_lossless:
  assumes "lossless te w" "lossless te (f w)"
  shows "update_toml te f cfg (Some (te_write te w)) = (cfg, Some (te_write te (f w)), False)"
proof -
  have "toml_load te (Some (te_write te w)) = Some w"
    using assms(1) by (simp add: toml_load_def lossless_def)
  then show ?thesis using save_verified_lossless [OF assms(2)] by (simp add: update_toml_def)
qed

lemma drop_client_once: "filter (\<lambda>c. pc_client_cert c = pc_client_cert x) (drop_client cs x @ [x]) = [x]"
  by (simp add: drop_client_def filter_empty_conv)

lemma get_encoder_first:
  "\<lbrakk>is_available g vendor e; es = [e]\<rbrakk> \<Longrightarrow> \<exists>e'. get_encoder g tech n es vendor = Some e'"
  by (simp add: get_encoder_def Let_def)

subsection \<open>Concrete instances\<close>

definition demo_client :: PairedClient where
  "demo_client = \<lparr>pc_client_cert = ''PEM'', pc_app_state_folder = ''1234'', pc_settings = demo_settings\<rparr>"

definition demo_app :: App where
  "demo_app = \<lparr>app_title = ''../Half: Life'', app_id = ''17'', app_support_hdr = False, app_icon_png_path = None,
     app_h264_gst_pipeline = ''h264'', app_hevc_gst_pipeline = ''hevc'', app_av1_gst_pipeline = [],
     app_render_node = ''/dev/dri/renderD128'', app_opus_gst_pipeline = ''opus'',
     app_start_virtual_compositor = True, app_start_audio_server = True,
     app_video_producer_buffer_caps = ''video/x-raw'', app_controller_override = CT_AUTO,
     app_runner = RunProcess ''game''\<rparr>"

definition demo_host :: host where
  "demo_host = \<lparr>h_display_modes = [], h_internal_ip = None, h_mac_address = None,
     h_host_base_state_folder = ''/etc/wolf'', h_local_base_state_folder = ''/mnt/wolf/''\<rparr>"

definition demo_random :: random_draws where
  "demo_random = \<lparr>rd_rtp_secret = replicate 16 65, rd_enet_secret = 77, rd_ip = (1, 2, 3, 4)\<rparr>"

definition demo_video :: GstVideoCfg where
  "demo_video = \<lparr>gv_default_source = ''interpipesrc listen-to=x'', gv_default_sink = ''appsink'', gv_defaults = [],
     gv_av1_encoders = [], gv_hevc_encoders = [],
     gv_h264_encoders = [\<lparr>ge_plugin_name = ''x264'', ge_check_elements = [''x264enc''], ge_video_params = Some ''raw'',
       ge_video_params_zero_copy = None, ge_encoder_pipeline = ''x264enc''\<rparr>]\<rparr>"

definition demo_wolf_config :: WolfConfig where
  "demo_wolf_config = \<lparr>wc_hostname = ''wolf'', wc_uuid = ''u-1'', wc_config_version = 7, wc_paired_clients = [],
     wc_profiles = [], wc_video = demo_video,
     wc_audio = \<lparr>ga_default_source = ''interpipesrc'', ga_default_audio_params = ''a'', ga_default_opus_encoder = ''o'',
       ga_default_sink = ''s''\<rparr>\<rparr>"

definition demo_config :: Config where
  "demo_config = \<lparr>cfg_uuid = ''u-1'', cfg_hostname = ''wolf'', cfg_support_hevc = True, cfg_support_av1 = False,
     cfg_paired_clients = [], cfg_profiles = []\<rparr>"

text \<open>A library for configurations that differ in the number of (identical) clients only.\<close>

definition demo_clients :: "nat \<Rightarrow> WolfConfig" where
  "demo_clients n = demo_wolf_config\<lparr>wc_paired_clients := replicate n demo_client\<rparr>"

definition demo_toml :: toml_env where
  "demo_toml = \<lparr>te_write = (\<lambda>w. replicate (length (wc_paired_clients w)) (CHR ''c'')),
     te_read = (\<lambda>s. Some (demo_clients (length s))), te_tmp_ok = True, te_rename_ok = True\<rparr>"

lemma demo_lossless: "lossless demo_toml (demo_clients n)"
  by (simp add: lossless_def demo_toml_def) (simp add: demo_clients_def)

subsection \<open>Properties\<close>

text \<open>C39: the title of an application cannot lead a session out of its client's folder. Whatever the
  title, both folders of the session (the local one and the one docker mounts) are exactly one
  component below their base folder joined with the client's folder, walked from any directory; the
  component is the sanitized title, without a separator, a colon or a control character. The client's
  own folder is taken as it is: only if it passes the path guard, which is not asked here, do the
  folders stay below the base folder, too.\<close>
theorem session_folder_confined:
  assumes "create_stream_session hashf getenv rnd host run_app client dm ch key iv = Inr s"
    and "name = sanitize_path_component (app_title run_app)"
    and "(base, folder) \<in> {(h_local_base_state_folder host, ss_app_local_state_folder s),
      (h_host_base_state_folder host, ss_app_host_state_folder s)}"
  shows "walk dir (segments folder) = walk dir (segments (path_join base (pc_app_state_folder client))) @ [name] \<and>
    (\<forall>c. c \<in> set name \<longrightarrow> \<not> illegal_path_char c) \<and>
    (is_safe_state_folder (pc_app_state_folder client) \<longrightarrow>
      (\<exists>ds. walk dir (segments folder) = walk dir (segments base) @ ds @ [name]))"
proof -
  have "folder = path_join (path_join base (pc_app_state_folder client)) name"
    using create_stream_session_Inr [OF assms(1)] assms(2,3) by auto
  then show ?thesis
    using sanitize_chars walk_session_folder [of "pc_app_state_folder client"]
    by (auto simp: assms(2) walk_path_join [OF sanitized_relative] walk_sanitized)
qed

theorem session_folder_confined_witness:
  "\<exists>s. create_stream_session (\<lambda>_. 42) (\<lambda>_. None) demo_random demo_host demo_app demo_client
      (ss_display_mode demo_session) 2 ''00'' ''1'' = Inr s \<and>
    (\<exists>ds. walk [] (segments (ss_app_local_state_folder s)) = [''mnt'', ''wolf''] @ ds @ [''.._Half_ Life''])"
proof -
  obtain s where s: "create_stream_session (\<lambda>_. 42) (\<lambda>_. None) demo_random demo_host demo_app demo_client
      (ss_display_mode demo_session) 2 ''00'' ''1'' = Inr s"
    by (simp add: create_stream_session_def session_ports_def get_port_def Let_def)
  have "is_safe_state_folder (pc_app_state_folder demo_client)"
    by (simp add: is_safe_iff demo_client_def)
  with session_folder_confined [OF s refl, of "h_local_base_state_folder demo_host" "ss_app_local_state_folder s" "[]"]
  have "\<exists>ds. walk [] (segments (ss_app_local_state_folder s)) = walk [] (segments (h_local_base_state_folder demo_host)) @ ds @
      [sanitize_path_component (app_title demo_app)]" by blast
  then have "\<exists>ds. walk [] (segments (ss_app_local_state_folder s)) = [''mnt'', ''wolf''] @ ds @ [''.._Half_ Life'']"
    by (simp add: demo_host_def demo_app_def sanitize_path_component_def illegal_path_char_def Let_def)
  with s show ?thesis by blast
qed

text \<open>A client's folder that does not pass the guard leads out of the base folder.\<close>

lemma session_folder_escapes:
  assumes "create_stream_session hashf getenv rnd host run_app (client\<lparr>pc_app_state_folder := ''../..''\<rparr>) dm ch key iv = Inr s"
    "h_local_base_state_folder host = ''/etc/wolf''"
  shows "walk [] (segments (ss_app_local_state_folder s)) = [sanitize_path_component (app_title run_app)]"
  using create_stream_session_Inr [OF assms(1)] assms(2)
  by (simp add: walk_path_join [OF sanitized_relative] walk_sanitized) (simp add: path_join_def)

text \<open>pairing a client that is already paired leaves one entry for it in memory but adds another
  one to the configuration file: after pairing twice the file lists the client twice more, and a
  restart reads both.\<close>
theorem repairing_duplicates_on_disk:
  assumes "lossless te w" "lossless te (w\<lparr>wc_paired_clients := wc_paired_clients w @ [client]\<rparr>)"
    and "lossless te (w\<lparr>wc_paired_clients := wc_paired_clients w @ [client, client]\<rparr>)"
  shows "case pair_client te client (cfg, Some (te_write te w)) of (cfg1, f1, thrown1) \<Rightarrow>
    case pair_client te client (cfg1, f1) of (cfg2, f2, thrown2) \<Rightarrow>
      filter (\<lambda>c. pc_client_cert c = pc_client_cert client) (cfg_paired_clients cfg2) = [client] \<and>
      map_option wc_paired_clients (toml_load te f2) = Some (wc_paired_clients w @ [client, client]) \<and>
      \<not> thrown1 \<and> \<not> thrown2"
proof -
  let ?w1 = "w\<lparr>wc_paired_clients := wc_paired_clients w @ [client]\<rparr>"
  let ?w2 = "w\<lparr>wc_paired_clients := wc_paired_clients w @ [client, client]\<rparr>"
  let ?f = "\<lambda>tml. tml\<lparr>wc_paired_clients := wc_paired_clients tml @ [client]\<rparr>"
  have f: "?f ?w1 = ?w2" by simp
  have 1: "update_toml te ?f c (Some (te_write te w)) = (c, Some (te_write te ?w1), False)" for c
    using update_toml_lossless [OF assms(1), where f = ?f and cfg = c] assms(2) by simp
  have "lossless te (?f ?w1)" using assms(3) by simp
  then have 2: "update_toml te ?f c (Some (te_write te ?w1)) = (c, Some (te_write te ?w2), False)" for c
    using update_toml_lossless [OF assms(2), where f = ?f and cfg = c] by simp
  have "toml_load te (Some (te_write te ?w2)) = Some ?w2"
    using assms(3) by (simp add: toml_load_def lossless_def)
  then show ?thesis
    unfolding pair_client_def fst_conv snd_conv 1 2 prod.case
    using drop_client_once by simp
qed

theorem repairing_duplicates_on_disk_witness:
  "case pair_client demo_toml demo_client (demo_config, Some (te_write demo_toml (demo_clients 0))) of (cfg1, f1, _) \<Rightarrow>
    case pair_client demo_toml demo_client (cfg1, f1) of (cfg2, f2, _) \<Rightarrow>
      filter (\<lambda>c. pc_client_cert c = pc_client_cert demo_client) (cfg_paired_clients cfg2) = [demo_client] \<and>
      map_option wc_paired_clients (toml_load demo_toml f2) = Some [demo_client, demo_client]"
proof -
  have w: "wc_paired_clients (demo_clients 0) = []"
    "(demo_clients 0)\<lparr>wc_paired_clients := [demo_client]\<rparr> = demo_clients 1"
    "(demo_clients 0)\<lparr>wc_paired_clients := [demo_client, demo_client]\<rparr> = demo_clients 2"
    by (simp_all add: demo_clients_def numeral_2_eq_2)
  show ?thesis
    using repairing_duplicates_on_disk [of demo_toml "demo_clients 0" demo_client demo_config]
      demo_lossless [of 0] demo_lossless [of 1] demo_lossless [of 2]
    by (simp add: w split: prod.splits)
qed

text \<open>saving the configuration is all or nothing: on success the file holds the serialised text,
  which reads back to a configuration that serialises to the same text; on any failure (a text
  that does not parse, that does not round-trip, a failed write or rename) the file is unchanged.\<close>
theorem save_verified_atomic:
  assumes "save_verified te tml dest = (ok, dest')"
  shows "if ok then dest' = Some (te_write te tml) \<and>
      (\<exists>r. toml_load te dest' = Some r \<and> te_write te r = te_write te tml)
    else dest' = dest"
  using assms by (auto simp: save_verified_def toml_load_def Let_def split: option.splits if_splits)

theorem save_verified_atomic_witness:
  "\<exists>r. toml_load demo_toml (Some (te_write demo_toml (demo_clients 1))) = Some r \<and>
     te_write demo_toml r = te_write demo_toml (demo_clients 1)"
  using save_verified_atomic [OF save_verified_lossless [OF demo_lossless [of 1], of None]] by simp

text \<open>a client is let in through its certificate only when it is in the list of paired clients and
  OpenSSL finds nothing wrong with the certificate against that client's stored one, except an
  issuer it cannot find and the dates.\<close>
theorem client_via_ssl_is_paired:
  assumes "verify_run run problems" "get_client_via_ssl run cert_of cfg cert = Some c"
  shows "c \<in> set (cfg_paired_clients cfg) \<and>
    set (problems (cert_of (pc_client_cert c)) cert) \<subseteq>
      {Unable_to_get_issuer_cert_locally, Cert_not_yet_valid, Cert_has_expired}"
  using assms(2) verification_error_None [OF assms(1)]
  by (auto simp: get_client_via_ssl_def dest!: find_Some_in)

theorem client_via_ssl_is_paired_witness:
  "\<exists>c. get_client_via_ssl (\<lambda>cb p u. List.find (\<lambda>e. cb 0 e \<noteq> 1) (if p = u then [Cert_has_expired] else [Other_err 7]))
       id (demo_config\<lparr>cfg_paired_clients := [demo_client]\<rparr>) ''PEM'' = Some c \<and> c \<in> {demo_client}"
proof -
  let ?problems = "\<lambda>p u :: string. if p = u then [Cert_has_expired] else [Other_err 7]"
  let ?run = "\<lambda>cb p u. List.find (\<lambda>e. cb 0 e \<noteq> 1) (?problems p u)"
  let ?cfg = "demo_config\<lparr>cfg_paired_clients := [demo_client]\<rparr>"
  have law: "verify_run ?run ?problems" by (simp add: verify_run_def)
  have "get_client_via_ssl ?run id ?cfg ''PEM'' = Some demo_client"
    by (simp add: get_client_via_ssl_def verification_error_def openssl_verify_cb_def demo_client_def)
  with client_via_ssl_is_paired [OF law this] show ?thesis by simp
qed

text \<open>removing a session from the running ones removes it for good and nothing else: it is not
  found any more under its identifier, and every other session is found as before.\<close>
theorem removed_session_gone:
  assumes "distinct (map ss_session_id sessions)"
  shows "get_session_by_id (remove_session sessions s) (ss_session_id s) = None \<and>
    (\<forall>i. i \<noteq> ss_session_id s \<longrightarrow> get_session_by_id (remove_session sessions s) i = get_session_by_id sessions i) \<and>
    distinct (map ss_session_id (remove_session sessions s))"
  using sess.lookup_removed sess.lookup_remove_other [OF assms] sess.distinct_remove [OF assms] by simp

theorem removed_session_gone_witness:
  "get_session_by_id (remove_session [demo_session, demo_session\<lparr>ss_session_id := 7\<rparr>] demo_session) 7 =
     Some (demo_session\<lparr>ss_session_id := 7\<rparr>)"
proof -
  have d: "distinct (map ss_session_id [demo_session, demo_session\<lparr>ss_session_id := 7\<rparr>])"
    by (simp add: demo_session_def)
  have "get_session_by_id [demo_session, demo_session\<lparr>ss_session_id := 7\<rparr>] 7 = Some (demo_session\<lparr>ss_session_id := 7\<rparr>)"
    by (simp add: get_session_by_id_def demo_session_def)
  with removed_session_gone [OF d, of demo_session] show ?thesis
    by (simp add: demo_session_def)
qed

lemma parse_app_pipelines:
  assumes "parse_app df x = Some a"
  shows "app_h264_gst_pipeline a \<noteq> []" "app_hevc_gst_pipeline a = [] \<longleftrightarrow> df_hevc_encoder df = None"
    "app_av1_gst_pipeline a = [] \<longleftrightarrow> df_av1_encoder df = None"
proof -
  have ne: "pipeline4 p q r u \<noteq> []" for p q r u by (simp add: pipeline4_def)
  have "app_h264_gst_pipeline a \<noteq> [] \<and> (app_hevc_gst_pipeline a = [] \<longleftrightarrow> df_hevc_encoder df = None) \<and>
      (app_av1_gst_pipeline a = [] \<longleftrightarrow> df_av1_encoder df = None)"
    using assms by (cases "df_hevc_encoder df"; cases "df_av1_encoder df") (auto simp: parse_app_def Let_def ne)
  then show "app_h264_gst_pipeline a \<noteq> []" "app_hevc_gst_pipeline a = [] \<longleftrightarrow> df_hevc_encoder df = None"
    "app_av1_gst_pipeline a = [] \<longleftrightarrow> df_av1_encoder df = None" by blast+
qed

text \<open>the codecs the host announces are the ones its applications can stream: HEVC is announced
  exactly when applications have an HEVC pipeline, and AV1 only when they have an AV1 one, for
  every application of every profile.\<close>
theorem announced_codecs_have_pipelines:
  assumes "load_config g wc = Some cfg" "p \<in> set (cfg_profiles cfg)" "a \<in> set (pr_apps p)"
  shows "(cfg_support_hevc cfg \<longleftrightarrow> app_hevc_gst_pipeline a \<noteq> []) \<and>
    (cfg_support_av1 cfg \<longrightarrow> app_av1_gst_pipeline a \<noteq> []) \<and> app_h264_gst_pipeline a \<noteq> []"
proof -
  obtain df where df: "those (map (parse_profile df) (wc_profiles wc)) = Some (cfg_profiles cfg)"
      "df_hevc_encoder df = None \<longleftrightarrow> \<not> cfg_support_hevc cfg" "cfg_support_av1 cfg \<longrightarrow> df_av1_encoder df \<noteq> None"
    using assms(1) by (auto simp: load_config_def Let_def split: option.splits prod.splits)
  from those_map_Some_in [OF df(1) assms(2)] obtain cp where "parse_profile df cp = Some p" by blast
  then have "parse_apps df (cp_apps cp) = Some (pr_apps p)" by (auto simp: parse_profile_def)
  from those_map_Some_in [OF this [unfolded parse_apps_def] assms(3)]
  obtain x where "parse_app df x = Some a" by blast
  from parse_app_pipelines [OF this] df show ?thesis by auto
qed

definition demo_gst :: gst_env where
  "demo_gst = \<lparr>gt_has_plugin = (\<lambda>_. True), gt_can_make = (\<lambda>_. True), gt_dma_caps = (\<lambda>_. []),
     gt_render_node_name = (\<lambda>_. ''renderD128''), gt_vendor = (\<lambda>_. GPU_UNKNOWN), gt_getenv = (\<lambda>_. None)\<rparr>"

theorem announced_codecs_have_pipelines_witness:
  "\<exists>cfg p a. load_config demo_gst (demo_wolf_config\<lparr>wc_profiles :=
      [\<lparr>cp_id = ''p'', cp_name = None, cp_icon_png_path = None, cp_pin = None, cp_apps = [empty_base_app]\<rparr>]\<rparr>) = Some cfg \<and>
    p \<in> set (cfg_profiles cfg) \<and> a \<in> set (pr_apps p) \<and> app_h264_gst_pipeline a \<noteq> []"
proof -
  let ?wc = "demo_wolf_config\<lparr>wc_profiles :=
      [\<lparr>cp_id = ''p'', cp_name = None, cp_icon_png_path = None, cp_pin = None, cp_apps = [empty_base_app]\<rparr>]\<rparr>"
  have "\<exists>e. get_encoder demo_gst ''h264'' n (gv_h264_encoders demo_video) GPU_UNKNOWN = Some e" for n
  proof -
    let ?e = "hd (gv_h264_encoders demo_video)"
    have "encoder_type ?e = ENC_SOFTWARE" by code_simp
    then have "is_available demo_gst GPU_UNKNOWN ?e"
      by (simp add: is_available_def vendor_fits_def list_all_iff) (simp add: demo_gst_def)
    moreover have "gv_h264_encoders demo_video = [?e]" by (simp add: demo_video_def)
    ultimately show ?thesis by (metis (no_types, lifting) get_encoder_first)
  qed
  then have "load_config demo_gst ?wc \<noteq> None"
    by (auto simp: load_config_def demo_wolf_config_def demo_gst_def parse_profile_def parse_apps_def parse_app_def
        empty_base_app_def Let_def split: option.splits prod.splits)
  then obtain cfg where cfg: "load_config demo_gst ?wc = Some cfg" by blast
  then obtain p a where "p \<in> set (cfg_profiles cfg)" "a \<in> set (pr_apps p)"
    by (force simp: load_config_def parse_apps_def parse_profile_def parse_app_def empty_base_app_def Let_def
        split: option.splits prod.splits)
  with cfg announced_codecs_have_pipelines [OF cfg] show ?thesis by blast
qed

text \<open>an application identifier is the decimal text of a number between 0 and 2^31 - 1, as the
  clients require, unless the hash of icon and title is exactly 2^31.\<close>
theorem app_id_in_range:
  assumes "hash ((case bp_icon_png_path app of Some p \<Rightarrow> p | None \<Rightarrow> []) @ bp_title app) \<noteq> 0x80000000"
  shows "\<exists>n < 2 ^ 31. generate_app_id app = dec n \<and> stoi (generate_app_id app) = Inr (int n)"
proof -
  define h where "h = hash ((case bp_icon_png_path app of Some p \<Rightarrow> p | None \<Rightarrow> []) @ bp_title app)"
  define v where "v = (if sint h < 0 then sint (- h) else sint h)"
  have range: "- (2 ^ 31) \<le> sint h" "sint h < 2 ^ 31"
    using sint_range_size [of h] by (simp_all add: size_word.rep_eq)
  have "sint h \<noteq> - (2 ^ 31)"
  proof
    assume "sint h = - (2 ^ 31)"
    then have "h = word_of_int (- (2 ^ 31))" by (metis scast_id scast_eq)
    with assms h_def show False by simp
  qed
  then have "sint (- h) = - sint h" if "sint h < 0"
    using range that by (simp add: sint_word_minus signed_take_bit_int_eq_self)
  then have "0 \<le> v \<and> v < 2 ^ 31"
    using range \<open>sint h \<noteq> - (2 ^ 31)\<close> by (auto simp: v_def)
  then obtain n where n: "v = int n" "n < 2 ^ 31"
    by (metis nonneg_int_cases of_nat_less_iff of_nat_numeral of_nat_power)
  then have "generate_app_id app = dec n"
    by (simp add: generate_app_id_def Let_def dec_int_def v_def [symmetric] h_def [symmetric])
  with n stoi_dec [OF n(2)] show ?thesis by auto
qed

theorem app_id_in_range_witness:
  "\<exists>n < 2 ^ 31. generate_app_id (empty_base_app\<lparr>bp_title := ''Ball''\<rparr>) = dec n"
proof -
  have "hash ''Ball'' \<noteq> 0x80000000" by code_simp
  then show ?thesis using app_id_in_range [of "empty_base_app\<lparr>bp_title := ''Ball''\<rparr>"]
    by (auto simp: empty_base_app_def)
qed

text \<open>the audio mode chosen for a number of channels has that number of channels when the protocol
  knows it and two otherwise; it is never out of range, it lists one speaker per channel, and its
  Opus streams account for every channel.\<close>
theorem audio_mode_consistent:
  "let m = get_audio_mode c
   in am_channels m = (if c = 6 \<or> c = 8 then c else 2) \<and>
      int (length (am_speakers m)) = am_channels m \<and> distinct (am_speakers m) \<and>
      am_streams m + am_coupled_streams m = am_channels m \<and> m \<in> set AUDIO_CONFIGURATIONS"
  by (simp add: get_audio_mode_def AUDIO_CONFIGURATIONS_def Let_def)

text \<open>the catalogue of display modes does not follow its documented rule: heights up to 1440 are said
  to get the 144, 165 and 240 Hz rates, but the 2160x1440 panels are only announced up to 120 Hz; the
  listed modes use exactly the seven rates.\<close>
theorem display_catalogue:
  "set (map dm_refreshRate DISPLAY_CONFIGURATIONS) = {30, 60, 90, 120, 144, 165, 240} \<and>
   (2160, 1440) \<in> set (map (\<lambda>m. (dm_width m, dm_height m)) DISPLAY_CONFIGURATIONS) \<and>
   map dm_refreshRate (filter (\<lambda>m. dm_width m = 2160) DISPLAY_CONFIGURATIONS) = [120, 90, 60, 30]"
  by (intro conjI) code_simp+

end
