(* ===== verification/Moonlight_Http.thy ===== *)
theory Moonlight_Http
  imports Events
begin

section \<open>Moonlight over HTTP: moonlight-protocol/moonlight.cpp and rest/helpers.hpp\<close>

text \<open>
  The XML documents of the protocol and the pieces the endpoints share: query parameters, status
  codes, replies. A \<open>boost::property_tree\<close> is the list of the calls that filled it: the
  documents are only built and printed, apart from one \<open>get<int>\<close>, which reads the last value
  put at its path. Integers are stored as their text, as \<open>put\<close> does.
\<close>

subsection \<open>Documents\<close>

datatype xml_op =
    Put string string
  | Add_child string "xml_op list"
  | Push_back string "xml_op list"

type_synonym XML = "xml_op list"

fun xml_value :: "string \<Rightarrow> xml_op \<Rightarrow> string option" where
  "xml_value path (Put p v) = (if p = path then Some v else None)"
| "xml_value path _ = None"

definition xml_get :: "string \<Rightarrow> XML \<Rightarrow> string option" where
  "xml_get path xml =
     (case List.find (\<lambda>op. xml_value path op \<noteq> None) (rev xml) of
        None \<Rightarrow> None
      | Some op \<Rightarrow> xml_value path op)"

definition xml_get_int :: "string \<Rightarrow> XML \<Rightarrow> int option" where
  "xml_get_int path xml =
     (case xml_get path xml of
        None \<Rightarrow> None
      | Some v \<Rightarrow> (case stoi v of Inl _ \<Rightarrow> None | Inr n \<Rightarrow> Some n))"

definition put_int :: "string \<Rightarrow> int \<Rightarrow> xml_op" where
  "put_int path n = Put path (dec_int n)"

lemma xml_get_simps [simp]:
  "xml_get path [] = None"
  "xml_get path (xs @ [Put p v]) = (if p = path then Some v else xml_get path xs)"
  by (auto simp: xml_get_def)

lemma xml_get_last: "xml_get path (xs @ Put path v # ys) = Some v" if "\<forall>op \<in> set ys. xml_value path op = None"
proof -
  have "List.find (\<lambda>op. xml_value path op \<noteq> None) (rev ys) = None"
    using that by (auto simp: find_None_all)
  then show ?thesis by (auto simp: xml_get_def find_append)
qed

subsection \<open>Requests and replies (rest/helpers.hpp, rest/endpoints.hpp)\<close>

datatype status = Success_ok | Bad_request | Not_found | Unauthorized

text \<open>Replies carry the number of the request they answer.\<close>

datatype reply =
    Xml_reply nat status XML
  | Text_reply nat string
  | Error_text_reply nat

fun reply_to :: "reply \<Rightarrow> nat" where
  "reply_to (Xml_reply n _ _) = n"
| "reply_to (Text_reply n _) = n"
| "reply_to (Error_text_reply n) = n"

type_synonym headers = "(string \<times> string) list"

record http_request =
  rq_no :: nat
  rq_ip :: string
  rq_local_ip :: string
  rq_path :: string
  rq_headers :: headers

definition lower :: "char \<Rightarrow> char" where
  "lower c = (if 65 \<le> (of_char c :: nat) \<and> (of_char c :: nat) \<le> 90 then char_of (of_char c + 32 :: nat) else c)"

text \<open>The first entry of the map, whose keys are compared without case.\<close>

definition get_header :: "headers \<Rightarrow> string \<Rightarrow> string option" where
  "get_header headers key =
     map_option snd (List.find (\<lambda>h. map lower (fst h) = map lower key) headers)"

definition send_xml :: "http_request \<Rightarrow> status \<Rightarrow> XML \<Rightarrow> reply" where
  "send_xml rq st xml = Xml_reply (rq_no rq) st xml"

definition server_error :: "http_request \<Rightarrow> reply" where
  "server_error rq = send_xml rq Bad_request [put_int ''root.<xmlattr>.status_code'' 400]"

definition not_found :: "http_request \<Rightarrow> reply" where
  "not_found rq = send_xml rq Not_found [put_int ''root.<xmlattr>.status_code'' 404]"

definition fail_pair :: "string \<Rightarrow> XML" where
  "fail_pair status_msg =
     [put_int ''root.paired'' 0, put_int ''root.<xmlattr>.status_code'' 400,
      Put ''root.<xmlattr>.status_message'' status_msg]"

subsection \<open>The documents of moonlight.cpp\<close>

definition VIDEO_FORMAT_H264 :: u32 where "VIDEO_FORMAT_H264 = 0x0001"
definition VIDEO_FORMAT_H265 :: u32 where "VIDEO_FORMAT_H265 = 0x0100"
definition VIDEO_FORMAT_AV1_MAIN8 :: u32 where "VIDEO_FORMAT_AV1_MAIN8 = 0x10000"

definition codec_support :: "bool \<Rightarrow> bool \<Rightarrow> u32" where
  "codec_support support_hevc support_av1 =
     VIDEO_FORMAT_H264 OR (if support_hevc then VIDEO_FORMAT_H265 else 0) OR
     (if support_av1 then VIDEO_FORMAT_AV1_MAIN8 else 0)"

definition display_node :: "DisplayMode \<Rightarrow> XML" where
  "display_node m =
     [put_int ''Width'' (dm_width m), put_int ''Height'' (dm_height m),
      put_int ''RefreshRate'' (dm_refreshRate m)]"

definition serverinfo_xml ::
    "bool \<Rightarrow> int \<Rightarrow> int \<Rightarrow> int \<Rightarrow> string \<Rightarrow> string \<Rightarrow> string \<Rightarrow> string \<Rightarrow> DisplayMode list \<Rightarrow> int \<Rightarrow> bool \<Rightarrow>
     bool \<Rightarrow> XML" where
  "serverinfo_xml isServerBusy current_appid https_port http_port uuid hostname mac_address local_ip
     display_modes pair_status support_hevc support_av1 =
     [put_int ''root.<xmlattr>.status_code'' 200,
      Put ''root.hostname'' hostname,
      Put ''root.appversion'' ''7.1.431.-1'',
      Put ''root.GfeVersion'' ''3.23.0.74'',
      Put ''root.uniqueid'' uuid,
      put_int ''root.MaxLumaPixelsHEVC'' (if support_hevc then 1869449984 else 0),
      put_int ''root.ServerCodecModeSupport'' (uint (codec_support support_hevc support_av1)),
      put_int ''root.HttpsPort'' https_port,
      put_int ''root.ExternalPort'' http_port,
      Put ''root.mac'' mac_address,
      Put ''root.LocalIP'' local_ip,
      Add_child ''root.SupportedDisplayMode''
        (map (\<lambda>m. Add_child ''DisplayMode'' (display_node m)) display_modes),
      put_int ''root.PairStatus'' pair_status,
      put_int ''root.currentgame'' current_appid,
      Put ''root.state'' (if isServerBusy then ''SUNSHINE_SERVER_BUSY'' else ''SUNSHINE_SERVER_FREE'')]"

definition app_node :: "App \<Rightarrow> XML" where
  "app_node app =
     [put_int ''IsHdrSupported'' (if app_support_hdr app then 1 else 0), Put ''AppTitle'' (app_title app),
      Put ''ID'' (app_id app)]"

definition applist_xml :: "App list \<Rightarrow> XML" where
  "applist_xml apps =
     [Add_child ''root''
        (put_int ''<xmlattr>.status_code'' 200 # map (\<lambda>app. Push_back ''App'' (app_node app)) apps)]"

definition session_url :: "string \<Rightarrow> string \<Rightarrow> string" where
  "session_url local_ip rtsp_port = ''rtsp://'' @ local_ip @ '':'' @ rtsp_port"

definition launch_success :: "string \<Rightarrow> string \<Rightarrow> XML" where
  "launch_success local_ip rtsp_port =
     [put_int ''root.<xmlattr>.status_code'' 200, Put ''root.sessionUrl0'' (session_url local_ip rtsp_port),
      put_int ''root.gamesession'' 1]"

definition launch_resume :: "string \<Rightarrow> string \<Rightarrow> XML" where
  "launch_resume local_ip rtsp_port =
     [put_int ''root.<xmlattr>.status_code'' 200, Put ''root.sessionUrl0'' (session_url local_ip rtsp_port),
      put_int ''root.resume'' 1]"

end
