(* ===== verification/Pairing.thy ===== *)
theory Pairing
  imports Control_Proto App_State Moonlight_Http
begin

section \<open>Pairing: moonlight.cpp (namespace pair), rest/endpoints.hpp, rest/servers.cpp\<close>

text \<open>
  The four phases a Moonlight client goes through to be trusted, the PIN page that completes the
  first of them, and \<open>/unpair\<close>. State: the pairing cache, the requests that wait for a PIN
  (\<open>pairing_atom\<close> of servers.cpp), the configuration and its file. Random draws are part of the
  event; OpenSSL's certificate routines are a parameter. The text of a certificate is a
  \<open>string\<close> in the configuration and \<open>bytes\<close> where it goes through OpenSSL. The
  continuation that runs when the PIN arrives is part of the step that delivers it. Pending
  requests on the other consumer of \<open>PairSignal\<close> (the unix socket) are not part of this state.
\<close>

subsection \<open>The messages (moonlight.cpp)\<close>

definition resize :: "nat \<Rightarrow> bytes \<Rightarrow> bytes" where
  "resize n b = take n b @ replicate (n - length b) 0"

definition gen_aes_key :: "openssl \<Rightarrow> string \<Rightarrow> string \<Rightarrow> bytes option" where
  "gen_aes_key ssl salt pin =
     do { salt_parsed \<leftarrow> hex_to_str salt True;
          aes_key \<leftarrow> hex_to_str (sha256 ssl (salt_parsed @ str_bytes pin)) True;
          Some (resize 16 aes_key) }"

definition get_server_cert :: "openssl \<Rightarrow> string \<Rightarrow> string \<Rightarrow> bytes \<Rightarrow> (XML \<times> bytes) option" where
  "get_server_cert ssl user_pin salt server_cert_pem =
     do { key \<leftarrow> gen_aes_key ssl salt user_pin;
          Some ([put_int ''root.paired'' 1, Put ''root.plaincert'' (str_to_hex server_cert_pem),
                 put_int ''root.<xmlattr>.status_code'' 200], key) }"

text \<open>\<open>iv_dec\<close> and \<open>iv_enc\<close> are the two IVs drawn for ECB, which has none.\<close>

definition send_server_challenge ::
    "openssl \<Rightarrow> bytes \<Rightarrow> bytes \<Rightarrow> bytes \<Rightarrow> string \<Rightarrow> bytes \<Rightarrow> bytes \<Rightarrow> bytes \<Rightarrow> XML option" where
  "send_server_challenge ssl iv_dec iv_enc aes_key client_challenge server_cert_signature
     server_secret server_challenge =
     do { client_challenge_hex \<leftarrow> hex_to_str client_challenge True;
          let decrypted_challenge = fst (aes_decrypt_ecb ssl client_challenge_hex aes_key iv_dec False);
          hash \<leftarrow> hex_to_str (sha256 ssl (decrypted_challenge @ server_cert_signature @ server_secret)) True;
          let encrypted = fst (aes_encrypt_ecb ssl (hash @ server_challenge) aes_key iv_enc False);
          Some [put_int ''root.paired'' 1, Put ''root.challengeresponse'' (str_to_hex encrypted),
                put_int ''root.<xmlattr>.status_code'' 200] }"

definition get_client_hash ::
    "openssl \<Rightarrow> bytes \<Rightarrow> bytes \<Rightarrow> bytes \<Rightarrow> string \<Rightarrow> bytes \<Rightarrow> (XML \<times> bytes) option" where
  "get_client_hash ssl iv_dec aes_key server_secret server_challenge_resp server_cert_private_key =
     do { server_challenge_hex \<leftarrow> hex_to_str server_challenge_resp True;
          let decrypted_challenge = fst (aes_decrypt_ecb ssl server_challenge_hex aes_key iv_dec False);
          let signature = sign ssl server_secret server_cert_private_key;
          Some ([Put ''root.pairingsecret'' (str_to_hex (server_secret @ signature)),
                 put_int ''root.paired'' 1, put_int ''root.<xmlattr>.status_code'' 200],
                decrypted_challenge) }"

definition client_pair ::
    "openssl \<Rightarrow> bytes \<Rightarrow> bytes \<Rightarrow> bytes \<Rightarrow> string \<Rightarrow> bytes \<Rightarrow> bytes \<Rightarrow> XML option" where
  "client_pair ssl aes_key server_challenge client_hash client_pairing_secret
     client_public_cert_signature client_cert_public_key =
     do { pairing_secret \<leftarrow> hex_to_str client_pairing_secret True;
          if length pairing_secret < 256 then Some (fail_pair ''Invalid pairing secret'')
          else do {
            let client_secret = take 16 pairing_secret;
            let client_signature = take 256 (drop 16 pairing_secret);
            hash \<leftarrow> hex_to_str
              (sha256 ssl (server_challenge @ client_public_cert_signature @ client_secret)) True;
            if hash \<noteq> client_hash then Some (fail_pair ''Invalid client hash'')
            else if verify ssl client_secret client_signature client_cert_public_key
            then Some [put_int ''root.paired'' 1, put_int ''root.<xmlattr>.status_code'' 200]
            else Some (fail_pair ''Invalid client signature'') } }"

subsection \<open>State and environment\<close>

datatype PAIR_PHASE = NONE | GETSERVERCERT | CLIENTCHALLENGE | SERVERCHALLENGERESP | CLIENTPAIRINGSECRET

text \<open>The values of the enumeration, which order the phases.\<close>

primrec phase_value :: "PAIR_PHASE \<Rightarrow> nat" where
  "phase_value NONE = 0"
| "phase_value GETSERVERCERT = 1"
| "phase_value CLIENTCHALLENGE = 2"
| "phase_value SERVERCHALLENGERESP = 3"
| "phase_value CLIENTPAIRINGSECRET = 4"

instantiation PAIR_PHASE :: linorder
begin

definition less_eq_PAIR_PHASE :: "PAIR_PHASE \<Rightarrow> PAIR_PHASE \<Rightarrow> bool" where
  "less_eq_PAIR_PHASE p q \<longleftrightarrow> phase_value p \<le> phase_value q"

definition less_PAIR_PHASE :: "PAIR_PHASE \<Rightarrow> PAIR_PHASE \<Rightarrow> bool" where
  "less_PAIR_PHASE p q \<longleftrightarrow> phase_value p < phase_value q"

instance
proof
  fix p q :: PAIR_PHASE
  show "p \<le> q \<Longrightarrow> q \<le> p \<Longrightarrow> p = q"
    by (cases p; cases q) (simp_all add: less_eq_PAIR_PHASE_def)
qed (auto simp: less_eq_PAIR_PHASE_def less_PAIR_PHASE_def)

end

record PairCache =
  pa_client_cert :: bytes
  pa_aes_key :: bytes
  pa_server_secret :: "bytes option"
  pa_server_challenge :: "bytes option"
  pa_client_hash :: "bytes option"
  pa_last_phase :: PAIR_PHASE

record 'cert pair_env =
  pe_ssl :: openssl
  pe_cert_from_string :: "bytes \<Rightarrow> 'cert option"
  pe_cert_signature :: "'cert \<Rightarrow> bytes"
  pe_cert_public_key :: "'cert \<Rightarrow> bytes"
  pe_cert_pem :: "'cert \<Rightarrow> bytes"
  pe_server_cert :: 'cert
  pe_server_pkey :: bytes
  pe_host :: host
  pe_hash :: "string \<Rightarrow> nat"
  pe_toml :: toml_env
  pe_run_uid :: "string option"
  pe_run_gid :: "string option"

text \<open>A request of phase 1 that waits for its PIN: the signal and what its continuation captured.\<close>

record pin_wait =
  pw_client_ip :: string
  pw_host_ip :: string
  pw_client_cert :: bytes
  pw_salt :: string
  pw_cache_key :: string
  pw_request :: http_request

record pair_state =
  ps_cache :: "string \<Rightarrow> PairCache option"
  ps_pins :: "string \<Rightarrow> pin_wait option"
  ps_config :: Config
  ps_disk :: toml_file

record pair_random =
  px_pin_secret :: bytes
  px_server_secret :: bytes
  px_server_challenge :: bytes
  px_iv_dec :: bytes
  px_iv_enc :: bytes

text \<open>What a handler leaves: the state, the replies it sent, and whether it threw.\<close>

type_synonym 's outcome = "'s \<times> reply list \<times> bool"

definition get_host_ip :: "host \<Rightarrow> http_request \<Rightarrow> string" where
  "get_host_ip h rq = value_or (h_internal_ip h) (rq_local_ip rq)"

definition remove_pair_session :: "string \<Rightarrow> pair_state \<Rightarrow> pair_state" where
  "remove_pair_session cache_key st = st\<lparr>ps_cache := (ps_cache st)(cache_key := None)\<rparr>"

definition cache_set :: "string \<Rightarrow> PairCache \<Rightarrow> pair_state \<Rightarrow> pair_state" where
  "cache_set cache_key c st = st\<lparr>ps_cache := (ps_cache st)(cache_key \<mapsto> c)\<rparr>"

subsection \<open>Phase 1 and the PIN page\<close>

text \<open>The handler of \<open>PairSignal\<close> in servers.cpp: other requests of the same address are dropped.\<close>

definition pair_handler :: "bytes \<Rightarrow> pin_wait \<Rightarrow> pair_state \<Rightarrow> pair_state" where
  "pair_handler rnd w st =
     st\<lparr>ps_pins := (\<lambda>k. case ps_pins st k of
          None \<Rightarrow> None
        | Some v \<Rightarrow> if pw_client_ip v = pw_client_ip w then None else Some v)
      (str_to_hex rnd \<mapsto> w)\<rparr>"

definition pair_phase1 ::
    "'cert pair_env \<Rightarrow> pair_random \<Rightarrow> http_request \<Rightarrow> string \<Rightarrow> string \<Rightarrow> string \<Rightarrow> pair_state \<Rightarrow>
     pair_state outcome" where
  "pair_phase1 env rnd rq client_cert_str salt cache_key st =
     (if ps_cache st cache_key \<noteq> None
      then (remove_pair_session cache_key st,
            [send_xml rq Bad_request (fail_pair ''Out of order pair request (phase 1)'')], False)
      else (case hex_to_str client_cert_str True of
              None \<Rightarrow> (st, [], True)
            | Some cert \<Rightarrow>
                (pair_handler (px_pin_secret rnd)
                   \<lparr>pw_client_ip = rq_ip rq, pw_host_ip = get_host_ip (pe_host env) rq,
                    pw_client_cert = cert, pw_salt = salt, pw_cache_key = cache_key, pw_request = rq\<rparr> st,
                 [], False)))"

text \<open>The continuation of phase 1 once the promise of the PIN is fulfilled.\<close>

definition pair_phase1_then ::
    "'cert pair_env \<Rightarrow> string \<Rightarrow> pin_wait \<Rightarrow> pair_state \<Rightarrow> pair_state outcome" where
  "pair_phase1_then env pin w st =
     (case get_server_cert (pe_ssl env) pin (pw_salt w) (pe_cert_pem env (pe_server_cert env)) of
        None \<Rightarrow> (st, [], True)
      | Some (xml, key) \<Rightarrow>
          (cache_set (pw_cache_key w)
             \<lparr>pa_client_cert = pw_client_cert w, pa_aes_key = key, pa_server_secret = None,
              pa_server_challenge = None, pa_client_hash = None, pa_last_phase = GETSERVERCERT\<rparr> st,
           [send_xml (pw_request w) Success_ok xml], False))"

text \<open>\<open>POST /pin/\<close>: \<open>form\<close> is the PIN and the secret of the JSON body, when it has both.\<close>

definition pin_post ::
    "'cert pair_env \<Rightarrow> nat \<Rightarrow> (string \<times> string) option \<Rightarrow> pair_state \<Rightarrow> pair_state outcome" where
  "pin_post env no form st =
     (case form of
        None \<Rightarrow> (st, [Error_text_reply no], False)
      | Some (pin, secret) \<Rightarrow>
          (case ps_pins st secret of
             None \<Rightarrow> (st, [Error_text_reply no], False)
           | Some w \<Rightarrow>
               (case pair_phase1_then env pin w st of
                  (st', replies, _) \<Rightarrow>
                    (st'\<lparr>ps_pins := (ps_pins st')(secret := None)\<rparr>, replies @ [Text_reply no ''OK''], False))))"

subsection \<open>Phases 2 to 4\<close>

definition pair_phase2 ::
    "'cert pair_env \<Rightarrow> pair_random \<Rightarrow> PairCache \<Rightarrow> string \<Rightarrow> string \<Rightarrow> pair_state \<Rightarrow>
     (status \<times> XML \<times> pair_state) option" where
  "pair_phase2 env rnd client_cache client_challenge cache_key st =
     (if pa_last_phase client_cache \<noteq> GETSERVERCERT
      then Some (Bad_request, fail_pair ''Out of order pair request (phase 2)'', st)
      else do {
        xml \<leftarrow> send_server_challenge (pe_ssl env) (px_iv_dec rnd) (px_iv_enc rnd) (pa_aes_key client_cache)
          client_challenge (pe_cert_signature env (pe_server_cert env))
          (px_server_secret rnd) (px_server_challenge rnd);
        Some (Success_ok, xml,
          cache_set cache_key (client_cache\<lparr>pa_last_phase := CLIENTCHALLENGE,
            pa_server_secret := Some (px_server_secret rnd),
            pa_server_challenge := Some (px_server_challenge rnd)\<rparr>) st) })"

definition pair_phase3 ::
    "'cert pair_env \<Rightarrow> pair_random \<Rightarrow> PairCache \<Rightarrow> bytes \<Rightarrow> string \<Rightarrow> string \<Rightarrow> pair_state \<Rightarrow>
     (status \<times> XML \<times> pair_state) option" where
  "pair_phase3 env rnd client_cache server_secret server_challenge cache_key st =
     (if pa_last_phase client_cache \<noteq> CLIENTCHALLENGE
      then Some (Bad_request, fail_pair ''Out of order pair request (phase 3)'', st)
      else do {
        (xml, client_hash) \<leftarrow> get_client_hash (pe_ssl env) (px_iv_dec rnd) (pa_aes_key client_cache)
          server_secret server_challenge (pe_server_pkey env);
        Some (Success_ok, xml,
          cache_set cache_key (client_cache\<lparr>pa_last_phase := SERVERCHALLENGERESP,
            pa_client_hash := Some client_hash\<rparr>) st) })"

definition pair_phase4 ::
    "'cert pair_env \<Rightarrow> PairCache \<Rightarrow> bytes \<Rightarrow> bytes \<Rightarrow> string \<Rightarrow> (status \<times> XML) option" where
  "pair_phase4 env client_cache server_challenge client_hash client_secret =
     (if pa_last_phase client_cache \<noteq> SERVERCHALLENGERESP
      then Some (Bad_request, fail_pair ''Out of order pair request (phase 4)'')
      else (case pe_cert_from_string env (pa_client_cert client_cache) of
              None \<Rightarrow> Some (Bad_request, fail_pair ''Unable to parse client certificate'')
            | Some client_cert \<Rightarrow> do {
                xml \<leftarrow> client_pair (pe_ssl env) (pa_aes_key client_cache) server_challenge client_hash
                  client_secret (pe_cert_signature env client_cert) (pe_cert_public_key env client_cert);
                is_paired \<leftarrow> map_option (\<lambda>n. n = 1) (xml_get_int ''root.paired'' xml);
                Some (if is_paired then Success_ok else Bad_request, xml) }))"

text \<open>
  The end of phases 2 and 3: reply, and forget the client when the phase failed. The end of phase
  4: reply, store the client, forget the pairing either way; an exception while the client is
  stored (its default settings or the file do not parse) leaves the cache as it is.
\<close>

definition answer_phase ::
    "http_request \<Rightarrow> string \<Rightarrow> pair_state \<Rightarrow> (status \<times> XML \<times> pair_state) option \<Rightarrow> pair_state outcome" where
  "answer_phase rq cache_key st r =
     (case r of
        None \<Rightarrow> (st, [], True)
      | Some (status, xml, st') \<Rightarrow>
          (if status = Success_ok then st' else remove_pair_session cache_key st',
           [send_xml rq status xml], False))"

definition new_client :: "'cert pair_env \<Rightarrow> bytes \<Rightarrow> num_error + PairedClient" where
  "new_client env cert =
     map_sum id (\<lambda>settings. \<lparr>pc_client_cert = bytes_str cert,
         pc_app_state_folder = dec (pe_hash env (bytes_str cert)), pc_settings = settings\<rparr>)
       (client_settings_default (pe_run_uid env) (pe_run_gid env))"

definition finish_pairing ::
    "'cert pair_env \<Rightarrow> http_request \<Rightarrow> string \<Rightarrow> PairCache \<Rightarrow> pair_state \<Rightarrow> (status \<times> XML) option \<Rightarrow>
     pair_state outcome" where
  "finish_pairing env rq cache_key client_cache st r =
     (case r of
        None \<Rightarrow> (st, [], True)
      | Some (status, xml) \<Rightarrow>
          if status = Success_ok
          then (case new_client env (pa_client_cert client_cache) of
                  Inl _ \<Rightarrow> (st, [send_xml rq status xml], True)
                | Inr client \<Rightarrow>
                    (case pair_client (pe_toml env) client (ps_config st, ps_disk st) of
                       (cfg, disk, threw) \<Rightarrow>
                         let st' = st\<lparr>ps_config := cfg, ps_disk := disk\<rparr>
                         in (if threw then st' else remove_pair_session cache_key st',
                             [send_xml rq status xml], threw)))
          else (remove_pair_session cache_key st, [send_xml rq status xml], False))"

subsection \<open>The endpoints\<close>

text \<open>The key of the cache, and what \<open>/pair\<close> does when the client is known to it.\<close>

definition cache_key_of :: "string \<Rightarrow> http_request \<Rightarrow> string" where
  "cache_key_of client_id rq = client_id @ ''@'' @ rq_ip rq"

definition pair_later ::
    "'cert pair_env \<Rightarrow> pair_random \<Rightarrow> http_request \<Rightarrow> string \<Rightarrow> PairCache \<Rightarrow> pair_state \<Rightarrow>
     pair_state outcome" where
  "pair_later env rnd rq cache_key client_cache st =
     (case get_header (rq_headers rq) ''clientchallenge'' of
        Some client_challenge \<Rightarrow>
          answer_phase rq cache_key st (pair_phase2 env rnd client_cache client_challenge cache_key st)
      | None \<Rightarrow>
     (case (get_header (rq_headers rq) ''serverchallengeresp'', pa_server_secret client_cache) of
        (Some server_challenge, Some server_secret) \<Rightarrow>
          answer_phase rq cache_key st
            (pair_phase3 env rnd client_cache server_secret server_challenge cache_key st)
      | _ \<Rightarrow>
     (case (get_header (rq_headers rq) ''clientpairingsecret'', pa_server_challenge client_cache,
            pa_client_hash client_cache) of
        (Some client_secret, Some server_challenge, Some client_hash) \<Rightarrow>
          finish_pairing env rq cache_key client_cache st
            (pair_phase4 env client_cache server_challenge client_hash client_secret)
      | _ \<Rightarrow> (st, [], False))))"

definition pair ::
    "'cert pair_env \<Rightarrow> pair_random \<Rightarrow> http_request \<Rightarrow> pair_state \<Rightarrow> pair_state outcome" where
  "pair env rnd rq st =
     (case get_header (rq_headers rq) ''uniqueid'' of
        None \<Rightarrow>
          (st, [send_xml rq Bad_request (fail_pair ''Received pair request without uniqueid, stopping.'')], False)
      | Some client_id \<Rightarrow>
          let cache_key = cache_key_of client_id rq
          in case (get_header (rq_headers rq) ''salt'', get_header (rq_headers rq) ''clientcert'') of
               (Some salt, Some client_cert_str) \<Rightarrow>
                 pair_phase1 env rnd rq client_cert_str salt cache_key st
             | _ \<Rightarrow>
                 (case ps_cache st cache_key of
                    None \<Rightarrow>
                      (st, [send_xml rq Bad_request (fail_pair
                         (''Unable to find '' @ client_id @ '' '' @ rq_ip rq @ '' in the pairing cache''))], False)
                  | Some client_cache \<Rightarrow> pair_later env rnd rq cache_key client_cache st))"

text \<open>\<open>/unpair\<close>: a missing \<open>uniqueid\<close> and a client that is not in the cache throw.\<close>

definition unpair :: "'cert pair_env \<Rightarrow> http_request \<Rightarrow> pair_state \<Rightarrow> pair_state outcome" where
  "unpair env rq st =
     (case get_header (rq_headers rq) ''uniqueid'' of
        None \<Rightarrow> (st, [], True)
      | Some client_id \<Rightarrow>
          (case ps_cache st (cache_key_of client_id rq) of
             None \<Rightarrow> (st, [], True)
           | Some cached \<Rightarrow>
               (case new_client env (pa_client_cert cached) of
                  Inl _ \<Rightarrow> (st, [], True)
                | Inr client \<Rightarrow>
                    (case unpair_client (pe_toml env) client (ps_config st, ps_disk st) of
                       (cfg, disk, threw) \<Rightarrow>
                         (st\<lparr>ps_config := cfg, ps_disk := disk\<rparr>,
                          if threw then []
                          else [send_xml rq Success_ok [put_int ''root.<xmlattr>.status_code'' 200]],
                          threw)))))"

text \<open>Phase 5, over HTTPS.\<close>

definition pair_https :: "http_request \<Rightarrow> reply list" where
  "pair_https rq =
     (if get_header (rq_headers rq) ''phrase'' = Some ''pairchallenge''
      then [send_xml rq Success_ok [put_int ''root.paired'' 1, put_int ''root.<xmlattr>.status_code'' 200]]
      else [])"

datatype pair_event =
    Pair_get pair_random http_request
  | Pin_post nat "(string \<times> string) option"
  | Unpair_get http_request

fun pair_step :: "'cert pair_env \<Rightarrow> pair_event \<Rightarrow> pair_state \<Rightarrow> pair_state outcome" where
  "pair_step env (Pair_get rnd rq) st = pair env rnd rq st"
| "pair_step env (Pin_post no form) st = pin_post env no form st"
| "pair_step env (Unpair_get rq) st = unpair env rq st"

inductive pair_run :: "'cert pair_env \<Rightarrow> pair_state \<Rightarrow> pair_event list \<Rightarrow> pair_state \<Rightarrow> bool"
  for env :: "'cert pair_env" where
  start: "pair_run env st [] st"
| step: "\<lbrakk>pair_run env st0 tr st; pair_step env ev st = (st', replies, threw)\<rbrakk> \<Longrightarrow>
     pair_run env st0 (tr @ [ev]) st'"

subsection \<open>Where what the cache holds comes from\<close>

text \<open>
  What the events up to now account for: a key derived from the salt of a first request and the
  PIN posted for it, the challenge drawn for a second request, the hash read from a third one
  under that key, and the secret of a fourth one that passes both checks.
\<close>

definition first_request :: "pair_event list \<Rightarrow> string \<Rightarrow> bytes \<Rightarrow> string \<Rightarrow> bool" where
  "first_request tr salt cert pin_secret \<longleftrightarrow>
     (\<exists>rnd rq cert_hex. Pair_get rnd rq \<in> set tr \<and> get_header (rq_headers rq) ''salt'' = Some salt \<and>
        get_header (rq_headers rq) ''clientcert'' = Some cert_hex \<and>
        hex_to_str cert_hex True = Some cert \<and> pin_secret = str_to_hex (px_pin_secret rnd))"

definition keyed :: "'cert pair_env \<Rightarrow> pair_event list \<Rightarrow> bytes \<Rightarrow> bytes \<Rightarrow> bool" where
  "keyed env tr cert key \<longleftrightarrow>
     (\<exists>salt pin_secret pin no. first_request tr salt cert pin_secret \<and>
        Pin_post no (Some (pin, pin_secret)) \<in> set tr \<and> gen_aes_key (pe_ssl env) salt pin = Some key)"

definition challenged :: "pair_event list \<Rightarrow> bytes \<Rightarrow> bool" where
  "challenged tr challenge \<longleftrightarrow>
     (\<exists>rnd rq. Pair_get rnd rq \<in> set tr \<and> get_header (rq_headers rq) ''clientchallenge'' \<noteq> None \<and>
        px_server_challenge rnd = challenge)"

definition answered :: "'cert pair_env \<Rightarrow> pair_event list \<Rightarrow> bytes \<Rightarrow> bytes \<Rightarrow> bool" where
  "answered env tr key h \<longleftrightarrow>
     (\<exists>rnd rq resp b. Pair_get rnd rq \<in> set tr \<and>
        get_header (rq_headers rq) ''serverchallengeresp'' = Some resp \<and> hex_to_str resp True = Some b \<and>
        h = fst (aes_decrypt_ecb (pe_ssl env) b key (px_iv_dec rnd) False))"

definition trusted :: "'cert pair_env \<Rightarrow> pair_event list \<Rightarrow> bytes \<Rightarrow> bool" where
  "trusted env tr cert \<longleftrightarrow>
     (\<exists>key challenge hash x rnd rq resp b.
        keyed env tr cert key \<and> challenged tr challenge \<and> answered env tr key hash \<and>
        pe_cert_from_string env cert = Some x \<and> Pair_get rnd rq \<in> set tr \<and>
        get_header (rq_headers rq) ''clientpairingsecret'' = Some resp \<and> hex_to_str resp True = Some b \<and>
        256 \<le> length b \<and>
        hash = ssl_sha256 (pe_ssl env) (challenge @ pe_cert_signature env x @ take 16 b) \<and>
        verify (pe_ssl env) (take 16 b) (take 256 (drop 16 b)) (pe_cert_public_key env x))"

definition cache_ok :: "'cert pair_env \<Rightarrow> pair_event list \<Rightarrow> PairCache \<Rightarrow> bool" where
  "cache_ok env tr c \<longleftrightarrow>
     GETSERVERCERT \<le> pa_last_phase c \<and> pa_last_phase c \<le> SERVERCHALLENGERESP \<and>
     (pa_server_secret c \<noteq> None \<longleftrightarrow> CLIENTCHALLENGE \<le> pa_last_phase c) \<and>
     (pa_server_challenge c \<noteq> None \<longleftrightarrow> CLIENTCHALLENGE \<le> pa_last_phase c) \<and>
     (pa_client_hash c \<noteq> None \<longleftrightarrow> SERVERCHALLENGERESP \<le> pa_last_phase c) \<and>
     keyed env tr (pa_client_cert c) (pa_aes_key c) \<and>
     pred_option (challenged tr) (pa_server_challenge c) \<and>
     pred_option (answered env tr (pa_aes_key c)) (pa_client_hash c)"

definition pair_inv :: "'cert pair_env \<Rightarrow> PairedClient set \<Rightarrow> pair_event list \<Rightarrow> pair_state \<Rightarrow> bool" where
  "pair_inv env known tr st \<longleftrightarrow>
     (\<forall>k c. ps_cache st k = Some c \<longrightarrow> cache_ok env tr c) \<and>
     (\<forall>secret w. ps_pins st secret = Some w \<longrightarrow> first_request tr (pw_salt w) (pw_client_cert w) secret) \<and>
     (\<forall>c \<in> set (cfg_paired_clients (ps_config st)). c \<in> known \<or> trusted env tr (str_bytes (pc_client_cert c)))"

named_theorems later \<open>what happened stays in a longer history\<close>

lemma first_request_later [later]: "first_request tr s c p \<Longrightarrow> first_request (tr @ [ev]) s c p"
  by (auto simp: first_request_def)

lemma keyed_later [later]: "keyed env tr cert key \<Longrightarrow> keyed env (tr @ [ev]) cert key"
  by (fastforce simp: keyed_def intro: later)

lemma challenged_later [later]: "challenged tr c \<Longrightarrow> challenged (tr @ [ev]) c"
  by (auto simp: challenged_def)

lemma answered_later [later]: "answered env tr k h \<Longrightarrow> answered env (tr @ [ev]) k h"
  unfolding answered_def by auto

lemma trusted_later [later]: "trusted env tr c \<Longrightarrow> trusted env (tr @ [ev]) c"
  unfolding trusted_def by (fastforce intro: later)

lemma cache_ok_later [later]: "cache_ok env tr c \<Longrightarrow> cache_ok env (tr @ [ev]) c"
  by (auto simp: cache_ok_def pred_option_def intro: later)

lemma pair_inv_later [later]: "pair_inv env known tr st \<Longrightarrow> pair_inv env known (tr @ [ev]) st"
  by (fastforce simp: pair_inv_def intro: later)

lemma hex_to_str_total_ex: "\<exists>b. hex_to_str s True = Some b"
  by (rule hex_to_str_Some)

lemma hex_to_str_str_to_hex [simp]: "hex_to_str (str_to_hex b) True = Some b"
  by (simp add: hex_to_str_eq str_to_hex_convertable pair_up_str_to_hex)

lemma hex_digit_lower: "n < 16 \<Longrightarrow> is_convertable (hex_lower n) \<and> convert (hex_lower n) = of_nat n"
proof -
  have "\<forall>n \<in> set [0..<16]. is_convertable (hex_lower n) \<and> convert (hex_lower n) = of_nat n"
    by code_simp
  moreover assume "n < 16"
  ultimately show ?thesis by simp
qed

lemma hex_to_str_sha256 [simp]: "hex_to_str (sha256 ssl m) True = Some (ssl_sha256 ssl m)"
proof -
  define f where "f = (\<lambda>c :: u8. [hex_lower (unat (drop_bit 4 c)), hex_lower (unat (c AND 15))])"
  have conv: "filter is_convertable (concat (map f b)) = concat (map f b)" for b
    using nibble_bounds hex_digit_lower by (induction b) (auto simp: f_def)
  have "pair_up (rev (concat (map f b))) = rev b" for b
  proof (induction b)
    case (Cons c b)
    have "even (length (rev (concat (map f b))))"
      by (induction b) (auto simp: f_def)
    then have "pair_up (rev (concat (map f (c # b)))) = rev b @ pair_up (rev (f c))"
      using Cons by (simp add: pair_up_append)
    then show ?case
      using nibble_bounds [of c] hex_digit_lower by (simp add: f_def nibbles)
  qed simp
  then show ?thesis
    by (simp add: hex_to_str_eq sha256_def f_def [symmetric] conv)
qed

text \<open>What a successful fourth phase has checked.\<close>

lemma client_pair_paired:
  assumes "client_pair ssl key ch h resp csig pub = Some xml" "xml_get_int ''root.paired'' xml = Some 1"
  shows "\<exists>b. hex_to_str resp True = Some b \<and> 256 \<le> length b \<and> h = ssl_sha256 ssl (ch @ csig @ take 16 b) \<and>
    verify ssl (take 16 b) (take 256 (drop 16 b)) pub"
proof -
  have no: "xml_get_int ''root.paired'' (fail_pair m) \<noteq> Some 1" for m
  proof -
    have "xml_get ''root.paired'' (fail_pair m) = Some (dec_int 0)"
      by (simp add: fail_pair_def put_int_def xml_get_def)
    then show ?thesis by (simp add: xml_get_int_def dec_int_def)
  qed
  obtain b where "hex_to_str resp True = Some b" using hex_to_str_total_ex by blast
  with assms no show ?thesis
    by (auto simp: client_pair_def Let_def split: if_splits)
qed

lemma pair_phase4_ok:
  assumes "pair_phase4 env c ch h resp = Some (Success_ok, xml)"
  shows "\<exists>x b. pe_cert_from_string env (pa_client_cert c) = Some x \<and> hex_to_str resp True = Some b \<and>
    256 \<le> length b \<and> h = ssl_sha256 (pe_ssl env) (ch @ pe_cert_signature env x @ take 16 b) \<and>
    verify (pe_ssl env) (take 16 b) (take 256 (drop 16 b)) (pe_cert_public_key env x)"
proof -
  from assms obtain x n where x: "pe_cert_from_string env (pa_client_cert c) = Some x"
    and cp: "client_pair (pe_ssl env) (pa_aes_key c) ch h resp (pe_cert_signature env x)
      (pe_cert_public_key env x) = Some xml" "xml_get_int ''root.paired'' xml = Some n" "n = 1"
    by (auto simp: pair_phase4_def bind_eq_Some_conv split: if_splits option.splits)
  from client_pair_paired [OF cp(1)] cp(2,3) x show ?thesis by blast
qed

subsection \<open>The invariant is kept by every step\<close>

lemma pair_client_memory:
  "cfg_paired_clients (fst (pair_client te c st)) = drop_client (cfg_paired_clients (fst st)) c @ [c]"
  "cfg_paired_clients (fst (unpair_client te c st)) = drop_client (cfg_paired_clients (fst st)) c"
  by (simp_all add: pair_client_def unpair_client_def update_toml_def split: option.split)

lemma pair_inv_remove: "pair_inv env known tr st \<Longrightarrow> pair_inv env known tr (remove_pair_session k st)"
  by (auto simp: pair_inv_def remove_pair_session_def)

lemma pair_inv_cache_set:
  "\<lbrakk>pair_inv env known tr st; cache_ok env tr c\<rbrakk> \<Longrightarrow> pair_inv env known tr (cache_set k c st)"
  by (auto simp: pair_inv_def cache_set_def)

lemma pair_inv_config:
  assumes "pair_inv env known tr st"
    and "\<And>c. c \<in> set (cfg_paired_clients cfg) \<Longrightarrow>
      c \<in> set (cfg_paired_clients (ps_config st)) \<or> trusted env tr (str_bytes (pc_client_cert c))"
  shows "pair_inv env known tr (st\<lparr>ps_config := cfg, ps_disk := disk\<rparr>)"
  using assms by (fastforce simp: pair_inv_def)

lemma pair_inv_pins_removed:
  "pair_inv env known tr st \<Longrightarrow> pair_inv env known tr (st\<lparr>ps_pins := (ps_pins st)(secret := None)\<rparr>)"
  by (auto simp: pair_inv_def)

lemma pair_inv_pin_request:
  assumes "pair_inv env known tr st" "first_request tr (pw_salt w) (pw_client_cert w) (str_to_hex rnd)"
  shows "pair_inv env known tr (pair_handler rnd w st)"
  using assms by (fastforce simp: pair_inv_def pair_handler_def split: option.splits if_splits)

lemma pair_phase1_inv:
  assumes inv: "pair_inv env known tr st" and ev: "Pair_get rnd rq \<in> set tr"
    and hdr: "get_header (rq_headers rq) ''salt'' = Some salt" "get_header (rq_headers rq) ''clientcert'' = Some cert_hex"
  shows "pair_inv env known tr (fst (pair_phase1 env rnd rq cert_hex salt k st))"
proof -
  have "first_request tr salt cert (str_to_hex (px_pin_secret rnd))" if "hex_to_str cert_hex True = Some cert" for cert
    using ev hdr that by (auto simp: first_request_def)
  with inv show ?thesis
    by (auto simp: pair_phase1_def intro!: pair_inv_remove pair_inv_pin_request split: option.split)
qed

lemma pin_post_inv:
  assumes inv: "pair_inv env known tr st" and ev: "Pin_post no form \<in> set tr"
  shows "pair_inv env known tr (fst (pin_post env no form st))"
proof (cases "\<exists>pin secret w xml key. form = Some (pin, secret) \<and> ps_pins st secret = Some w \<and>
    get_server_cert (pe_ssl env) pin (pw_salt w) (pe_cert_pem env (pe_server_cert env)) = Some (xml, key)")
  case True
  then obtain pin secret w xml key where f: "form = Some (pin, secret)" "ps_pins st secret = Some w"
    "get_server_cert (pe_ssl env) pin (pw_salt w) (pe_cert_pem env (pe_server_cert env)) = Some (xml, key)"
    by blast
  have "first_request tr (pw_salt w) (pw_client_cert w) secret" using inv f by (auto simp: pair_inv_def)
  moreover have "gen_aes_key (pe_ssl env) (pw_salt w) pin = Some key"
    using f by (auto simp: get_server_cert_def bind_eq_Some_conv)
  ultimately have "keyed env tr (pw_client_cert w) key" using ev f by (auto simp: keyed_def)
  with inv f show ?thesis
    by (auto simp: pin_post_def pair_phase1_then_def cache_ok_def less_eq_PAIR_PHASE_def
        intro!: pair_inv_pins_removed pair_inv_cache_set)
next
  case False
  with inv show ?thesis
    by (auto simp: pin_post_def pair_phase1_then_def intro: pair_inv_pins_removed split: option.split prod.split)
qed

lemma answer_phase_inv:
  assumes "pair_inv env known tr st"
    and "\<And>status xml st'. r = Some (status, xml, st') \<Longrightarrow> pair_inv env known tr st'"
  shows "pair_inv env known tr (fst (answer_phase rq k st r))"
  using assms by (auto simp: answer_phase_def intro: pair_inv_remove split: option.split)

lemma pair_phase2_inv:
  assumes inv: "pair_inv env known tr st" and ok: "cache_ok env tr c" and ev: "Pair_get rnd rq \<in> set tr"
    and hdr: "get_header (rq_headers rq) ''clientchallenge'' = Some challenge"
    and r: "pair_phase2 env rnd c challenge k st = Some (status, xml, st')"
  shows "pair_inv env known tr st'"
proof -
  have "challenged tr (px_server_challenge rnd)" using ev hdr by (auto simp: challenged_def)
  with inv ok r show ?thesis
    by (auto simp: pair_phase2_def cache_ok_def less_eq_PAIR_PHASE_def bind_eq_Some_conv
        split: if_splits intro!: pair_inv_cache_set)
qed

lemma pair_phase3_inv:
  assumes inv: "pair_inv env known tr st" and ok: "cache_ok env tr c" and ev: "Pair_get rnd rq \<in> set tr"
    and hdr: "get_header (rq_headers rq) ''serverchallengeresp'' = Some resp"
    and r: "pair_phase3 env rnd c secret resp k st = Some (status, xml, st')"
  shows "pair_inv env known tr st'"
proof (cases "pa_last_phase c = CLIENTCHALLENGE")
  case True
  with r obtain b where b: "hex_to_str resp True = Some b"
    "st' = cache_set k (c\<lparr>pa_last_phase := SERVERCHALLENGERESP,
       pa_client_hash := Some (fst (aes_decrypt_ecb (pe_ssl env) b (pa_aes_key c) (px_iv_dec rnd) False))\<rparr>) st"
    by (auto simp: pair_phase3_def get_client_hash_def Let_def bind_eq_Some_conv)
  then have "answered env tr (pa_aes_key c)
      (fst (aes_decrypt_ecb (pe_ssl env) b (pa_aes_key c) (px_iv_dec rnd) False))"
    using ev hdr by (auto simp: answered_def)
  with inv ok b True show ?thesis
    by (auto simp: cache_ok_def less_eq_PAIR_PHASE_def intro!: pair_inv_cache_set)
next
  case False
  with inv r show ?thesis by (simp add: pair_phase3_def)
qed

lemma finish_pairing_inv:
  assumes inv: "pair_inv env known tr st" and ok: "cache_ok env tr c" and ev: "Pair_get rnd rq \<in> set tr"
    and hdr: "get_header (rq_headers rq) ''clientpairingsecret'' = Some resp"
    and cc: "pa_server_challenge c = Some ch" "pa_client_hash c = Some h"
  shows "pair_inv env known tr (fst (finish_pairing env rq k c st (pair_phase4 env c ch h resp)))"
proof -
  have tr: "trusted env tr (pa_client_cert c)" if "pair_phase4 env c ch h resp = Some (Success_ok, xml)" for xml
    using pair_phase4_ok [OF that] ok cc ev hdr unfolding trusted_def cache_ok_def by auto blast
  have cfg: "pair_inv env known tr (st\<lparr>ps_config := fst (pair_client te client (ps_config st, ps_disk st)),
      ps_disk := disk\<rparr>)"
    if "pair_phase4 env c ch h resp = Some (Success_ok, xml)" "new_client env (pa_client_cert c) = Inr client"
    for xml client te disk
    using that tr [OF that(1)]
    by (intro pair_inv_config [OF inv]) (auto simp: pair_client_memory drop_client_def new_client_def)
  show ?thesis
    using inv cfg
    by (auto simp: finish_pairing_def Let_def split_def intro!: pair_inv_remove split: option.split sum.split)
qed

lemma pair_later_inv:
  assumes inv: "pair_inv env known tr st" and c: "ps_cache st k = Some c" and ev: "Pair_get rnd rq \<in> set tr"
  shows "pair_inv env known tr (fst (pair_later env rnd rq k c st))"
proof -
  have ok: "cache_ok env tr c" using inv c by (auto simp: pair_inv_def)
  note phases = pair_phase2_inv [OF inv ok ev] pair_phase3_inv [OF inv ok ev] finish_pairing_inv [OF inv ok ev]
  show ?thesis
    using inv phases
    by (auto simp: pair_later_def split: option.split intro!: answer_phase_inv)
qed

lemma pair_step_inv:
  assumes "pair_inv env known tr st"
  shows "pair_inv env known (tr @ [ev]) (fst (pair_step env ev st))"
proof (cases ev)
  case (Pair_get rnd rq)
  have inv: "pair_inv env known (tr @ [ev]) st" using assms by (rule later)
  have mem: "Pair_get rnd rq \<in> set (tr @ [ev])" by (simp add: Pair_get)
  show ?thesis
    using pair_phase1_inv [OF inv mem] pair_later_inv [OF inv _ mem] inv
    by (auto simp: Pair_get pair_def Let_def split: option.split)
next
  case (Pin_post no form)
  moreover have "pair_inv env known (tr @ [ev]) st" using assms by (rule later)
  ultimately show ?thesis using pin_post_inv [of env known "tr @ [ev]" st no form] by simp
next
  case (Unpair_get rq)
  have inv: "pair_inv env known (tr @ [ev]) st" using assms by (rule later)
  then show ?thesis
    by (auto simp: Unpair_get unpair_def split_def pair_client_memory drop_client_def split: option.split sum.split
        intro!: pair_inv_config)
qed

lemma pair_run_inv:
  assumes "pair_run env st0 tr st" "ps_cache st0 = Map.empty" "ps_pins st0 = Map.empty"
  shows "pair_inv env (set (cfg_paired_clients (ps_config st0))) tr st"
  using assms
proof (induction rule: pair_run.induct)
  case (start st)
  then show ?case by (simp add: pair_inv_def)
next
  case (step st0 tr st ev st' replies threw)
  then show ?case using pair_step_inv [of env _ tr st ev] by simp
qed

inductive_simps pair_run_Nil: "pair_run env st0 [] st"

lemma pair_run_snoc:
  "pair_run env st evs st1 \<Longrightarrow> pair_run env st (evs @ [ev]) (fst (pair_step env ev st1))"
  by (cases "pair_step env ev st1") (auto intro: pair_run.step)

lemma pair_run_foldl: "pair_run env st evs (foldl (\<lambda>s ev. fst (pair_step env ev s)) st evs)"
proof (induction evs rule: rev_induct)
  case (snoc ev evs)
  then show ?case using pair_run_snoc by simp
qed (simp add: pair_run_Nil)

subsection \<open>An honest client\<close>

text \<open>
  What AES in ECB mode and SHA-256 promise: decryption inverts encryption on whole blocks, whatever
  the IVs, and a digest has two blocks.
\<close>

definition ecb_sha_laws :: "openssl \<Rightarrow> bool" where
  "ecb_sha_laws ssl \<longleftrightarrow>
     (\<forall>key iv iv' m. length m mod 16 = 0 \<longrightarrow>
        fst (aes_decrypt_ecb ssl (fst (aes_encrypt_ecb ssl m key iv False)) key iv' False) = m) \<and>
     (\<forall>m. length (ssl_sha256 ssl m) = 32)"

text \<open>The parameters of the pairing protocol that a request carries, and no other of them.\<close>

definition pair_params :: "string list" where
  "pair_params = [''uniqueid'', ''salt'', ''clientcert'', ''clientchallenge'', ''serverchallengeresp'',
     ''clientpairingsecret'']"

definition carries :: "http_request \<Rightarrow> (string \<times> string) list \<Rightarrow> bool" where
  "carries rq params \<longleftrightarrow> list_all (\<lambda>k. get_header (rq_headers rq) k = map_of params k) pair_params"

lemma send_server_challenge_ex: "\<exists>xml. send_server_challenge ssl iv iv' key c sig s ch = Some xml"
  using hex_to_str_total_ex [of c] by (auto simp: send_server_challenge_def Let_def)

lemma pair_first:
  assumes "carries rq [(''uniqueid'', u), (''salt'', salt), (''clientcert'', cert_hex)]"
    and "hex_to_str cert_hex True = Some cert" "ps_cache st (cache_key_of u rq) = None"
  shows "pair env rnd rq st = (pair_handler (px_pin_secret rnd)
     \<lparr>pw_client_ip = rq_ip rq, pw_host_ip = get_host_ip (pe_host env) rq, pw_client_cert = cert,
      pw_salt = salt, pw_cache_key = cache_key_of u rq, pw_request = rq\<rparr> st, [], False)"
  using assms by (simp add: carries_def pair_params_def pair_def Let_def pair_phase1_def)

lemma pair_next:
  assumes "carries rq ((''uniqueid'', u) # params)" "map_of params ''salt'' = None"
    and "ps_cache st (cache_key_of u rq) = Some c"
  shows "pair env rnd rq st = pair_later env rnd rq (cache_key_of u rq) c st"
  using assms by (simp add: carries_def pair_params_def pair_def Let_def split: option.split)

lemma remove_absent: "ps_cache st k = None \<Longrightarrow> remove_pair_session k st = st"
  by (simp add: remove_pair_session_def fun_upd_idem)

lemma pair_phase2_frame [frame]:
  "pair_phase2 env rnd c ch k st = Some (status, xml, st') \<Longrightarrow>
     (status = Bad_request \<longrightarrow> st' = st) \<and> ps_config st' = ps_config st"
  by (auto simp: pair_phase2_def cache_set_def bind_eq_Some_conv split: if_splits)

lemma pair_phase3_frame [frame]:
  "pair_phase3 env rnd c s ch k st = Some (status, xml, st') \<Longrightarrow>
     (status = Bad_request \<longrightarrow> st' = st) \<and> ps_config st' = ps_config st"
  by (auto simp: pair_phase3_def cache_set_def bind_eq_Some_conv split: if_splits)

lemma honest_run:
  assumes laws: "ecb_sha_laws (pe_ssl env)"
    and start: "ps_cache st (cache_key_of u q1) = None" "toml_load (pe_toml env) (ps_disk st) \<noteq> None"
    and ip: "rq_ip q2 = rq_ip q1" "rq_ip q3 = rq_ip q1" "rq_ip q4 = rq_ip q1"
    and q1: "carries q1 [(''uniqueid'', u), (''salt'', salt), (''clientcert'', cert_hex)]"
    and q2: "carries q2 [(''uniqueid'', u), (''clientchallenge'', client_challenge)]"
    and q3: "carries q3 [(''uniqueid'', u), (''serverchallengeresp'', str_to_hex (fst (aes_encrypt_ecb (pe_ssl env)
      (ssl_sha256 (pe_ssl env) (px_server_challenge r2 @ pe_cert_signature env x @ secret)) key iv False)))]"
    and q4: "carries q4 [(''uniqueid'', u), (''clientpairingsecret'', str_to_hex (secret @ signature))]"
    and cert: "hex_to_str cert_hex True = Some cert" "pe_cert_from_string env cert = Some x"
    and key: "gen_aes_key (pe_ssl env) salt pin = Some key"
    and secret: "length secret = 16" "length signature = 256"
    and signed: "verify (pe_ssl env) secret signature (pe_cert_public_key env x)"
    and client: "new_client env cert = Inr client"
  shows "\<exists>st'. pair_run env st [Pair_get r1 q1, Pin_post no (Some (pin, str_to_hex (px_pin_secret r1))),
       Pair_get r2 q2, Pair_get r3 q3, Pair_get r4 q4] st' \<and>
     client \<in> set (cfg_paired_clients (ps_config st')) \<and> ps_cache st' (cache_key_of u q1) = None"
proof -
  let ?k = "cache_key_of u q1"
  let ?c1 = "\<lparr>pa_client_cert = cert, pa_aes_key = key, pa_server_secret = None,
    pa_server_challenge = None, pa_client_hash = None, pa_last_phase = GETSERVERCERT\<rparr>"
  let ?c2 = "?c1\<lparr>pa_last_phase := CLIENTCHALLENGE, pa_server_secret := Some (px_server_secret r2),
    pa_server_challenge := Some (px_server_challenge r2)\<rparr>"
  let ?h = "ssl_sha256 (pe_ssl env) (px_server_challenge r2 @ pe_cert_signature env x @ secret)"
  let ?c3 = "?c2\<lparr>pa_last_phase := SERVERCHALLENGERESP, pa_client_hash := Some ?h\<rparr>"
  have k: "cache_key_of u q2 = ?k" "cache_key_of u q3 = ?k" "cache_key_of u q4 = ?k"
    using ip by (simp_all add: cache_key_of_def)
  define s1 where "s1 = fst (pair env r1 q1 st)"
  define s2 where "s2 = fst (pin_post env no (Some (pin, str_to_hex (px_pin_secret r1))) s1)"
  define s3 where "s3 = fst (pair env r2 q2 s2)"
  define s4 where "s4 = fst (pair env r3 q3 s3)"
  define s5 where "s5 = fst (pair env r4 q4 s4)"
  have 1: "ps_cache s2 ?k = Some ?c1" "ps_disk s2 = ps_disk st"
    by (simp_all add: s2_def s1_def pair_first [OF q1 cert(1) start(1)] pair_handler_def pin_post_def
        pair_phase1_then_def get_server_cert_def key cache_set_def)
  have hdr2: "get_header (rq_headers q2) ''clientchallenge'' = Some client_challenge"
    using q2 by (simp add: carries_def pair_params_def)
  obtain xml where "send_server_challenge (pe_ssl env) (px_iv_dec r2) (px_iv_enc r2) key client_challenge
      (pe_cert_signature env (pe_server_cert env)) (px_server_secret r2) (px_server_challenge r2) = Some xml"
    using send_server_challenge_ex by blast
  with 1 have 2: "ps_cache s3 ?k = Some ?c2" "ps_disk s3 = ps_disk st"
    using pair_next [OF q2, of s2 ?c1 env r2] k
    by (simp_all add: s3_def pair_later_def hdr2 pair_phase2_def answer_phase_def cache_set_def)
  have hdr3: "get_header (rq_headers q3) ''clientchallenge'' = None"
    "get_header (rq_headers q3) ''serverchallengeresp'' = Some (str_to_hex (fst (aes_encrypt_ecb (pe_ssl env) ?h key iv False)))"
    using q3 by (simp_all add: carries_def pair_params_def)
  have "fst (aes_decrypt_ecb (pe_ssl env) (fst (aes_encrypt_ecb (pe_ssl env) ?h key iv False)) key (px_iv_dec r3) False) = ?h"
    using laws by (simp add: ecb_sha_laws_def)
  with 2 have 3: "ps_cache s4 ?k = Some ?c3" "ps_disk s4 = ps_disk st"
    using pair_next [OF q3, of s3 ?c2 env r3] k
    by (simp_all add: s4_def pair_later_def hdr3 pair_phase3_def get_client_hash_def answer_phase_def cache_set_def)
  have hdr4: "get_header (rq_headers q4) ''clientchallenge'' = None"
    "get_header (rq_headers q4) ''serverchallengeresp'' = None"
    "get_header (rq_headers q4) ''clientpairingsecret'' = Some (str_to_hex (secret @ signature))"
    using q4 by (simp_all add: carries_def pair_params_def)
  have "pair_phase4 env ?c3 (px_server_challenge r2) ?h (str_to_hex (secret @ signature)) =
      Some (Success_ok, [put_int ''root.paired'' 1, put_int ''root.<xmlattr>.status_code'' 200])"
    using secret signed
    by (simp add: pair_phase4_def cert client_pair_def Let_def put_int_def xml_get_int_def xml_get_def dec_int_def)
  with 3 have "client \<in> set (cfg_paired_clients (ps_config s5)) \<and> ps_cache s5 ?k = None"
    using pair_next [OF q4, of s4 ?c3 env r4] k start(2) pair_client_memory
    by (auto simp: s5_def pair_later_def hdr4 finish_pairing_def client Let_def split_def remove_pair_session_def
        pair_client_def update_toml_def split: option.split)
  moreover have "pair_run env st [Pair_get r1 q1, Pin_post no (Some (pin, str_to_hex (px_pin_secret r1))),
      Pair_get r2 q2, Pair_get r3 q3, Pair_get r4 q4] s5"
    using pair_run_foldl [of env st "[Pair_get r1 q1, Pin_post no (Some (pin, str_to_hex (px_pin_secret r1))),
      Pair_get r2 q2, Pair_get r3 q3, Pair_get r4 q4]"]
    by (simp add: s1_def s2_def s3_def s4_def s5_def)
  ultimately show ?thesis by blast
qed

subsection \<open>A concrete server\<close>

text \<open>A cipher without IV, a digest that pads, and signatures that repeat the message. The
  certificate is its text.\<close>

definition pair_ssl :: openssl where
  "pair_ssl = toy_ssl\<lparr>ssl_sha256 := (\<lambda>b. take 32 (b @ replicate 32 0)),
     ssl_update := (\<lambda>ctx m. (True,
        let k = hd (ctx_key ctx @ [0]) in map (\<lambda>b. if ctx_enc ctx then b + k else b - k) m)),
     ssl_verify := (\<lambda>k m s. take 16 s = m)\<rparr>"

lemma pair_ssl_laws: "ecb_sha_laws pair_ssl"
  by (simp add: ecb_sha_laws_def pair_ssl_def toy_ssl_def aes_decrypt_ecb_def aes_encrypt_ecb_def aes_init_def
      encrypt_symmetric_def decrypt_symmetric_def Let_def comp_def) arith

definition demo_pair_env :: "bytes pair_env" where
  "demo_pair_env = \<lparr>pe_ssl = pair_ssl, pe_cert_from_string = Some, pe_cert_signature = (\<lambda>c. c),
     pe_cert_public_key = (\<lambda>c. c), pe_cert_pem = (\<lambda>c. c), pe_server_cert = [1, 2], pe_server_pkey = [3],
     pe_host = demo_host, pe_hash = length, pe_toml = demo_toml, pe_run_uid = None, pe_run_gid = None\<rparr>"

definition demo_draws :: pair_random where
  "demo_draws = \<lparr>px_pin_secret = [7], px_server_secret = replicate 16 1, px_server_challenge = replicate 16 2,
     px_iv_dec = [], px_iv_enc = []\<rparr>"

definition demo_request :: "(string \<times> string) list \<Rightarrow> http_request" where
  "demo_request params = \<lparr>rq_no = 1, rq_ip = ''10.0.0.2'', rq_local_ip = ''10.0.0.1'', rq_path = ''/pair'',
     rq_headers = params\<rparr>"

definition demo_pair_state :: pair_state where
  "demo_pair_state = \<lparr>ps_cache = Map.empty, ps_pins = Map.empty, ps_config = demo_config,
     ps_disk = Some (te_write demo_toml demo_wolf_config)\<rparr>"

definition demo_key :: bytes where
  "demo_key = [0, 49, 50, 51, 52] @ replicate 11 0"

definition demo_signature :: bytes where
  "demo_signature = replicate 16 9 @ replicate 240 0"

definition demo_hash :: bytes where
  "demo_hash = replicate 16 2 @ [5, 6] @ replicate 14 9"

definition demo_q1 :: http_request where
  "demo_q1 = demo_request [(''UniqueID'', ''u''), (''salt'', ''00''), (''clientcert'', ''0506'')]"

definition demo_q2 :: http_request where
  "demo_q2 = demo_request [(''uniqueid'', ''u''), (''clientchallenge'', ''AA'')]"

definition demo_q3 :: http_request where
  "demo_q3 = demo_request [(''uniqueid'', ''u''), (''serverchallengeresp'',
     str_to_hex (fst (aes_encrypt_ecb pair_ssl demo_hash demo_key [] False)))]"

definition demo_q4 :: http_request where
  "demo_q4 = demo_request [(''uniqueid'', ''u''), (''clientpairingsecret'',
     str_to_hex (replicate 16 9 @ demo_signature))]"

definition demo_pairing :: "pair_event list" where
  "demo_pairing = [Pair_get demo_draws demo_q1, Pin_post 2 (Some (''1234'', ''07'')),
     Pair_get demo_draws demo_q2, Pair_get demo_draws demo_q3, Pair_get demo_draws demo_q4]"

definition demo_paired :: PairedClient where
  "demo_paired = \<lparr>pc_client_cert = bytes_str [5, 6], pc_app_state_folder = ''2'',
     pc_settings = \<lparr>cs_run_uid = 1000, cs_run_gid = 1000, cs_controllers_override = [],
       cs_mouse_acceleration = 0x3F800000, cs_v_scroll_acceleration = 0x3F800000,
       cs_h_scroll_acceleration = 0x3F800000, cs_motion_controller_override = CT_AUTO\<rparr>\<rparr>"

lemma demo_headers:
  "carries demo_q1 [(''uniqueid'', ''u''), (''salt'', ''00''), (''clientcert'', ''0506'')]"
  "carries demo_q2 [(''uniqueid'', ''u''), (''clientchallenge'', ''AA'')]"
  "carries demo_q3 [(''uniqueid'', ''u''), (''serverchallengeresp'',
     str_to_hex (fst (aes_encrypt_ecb pair_ssl demo_hash demo_key [] False)))]"
  "carries demo_q4 [(''uniqueid'', ''u''), (''clientpairingsecret'',
     str_to_hex (replicate 16 9 @ demo_signature))]"
  by code_simp+

lemma demo_keys:
  "gen_aes_key pair_ssl ''00'' ''1234'' = Some demo_key"
  "hex_to_str ''0506'' True = Some [5, 6]"
  "str_to_hex [7] = ''07''"
  "ssl_sha256 pair_ssl (replicate 16 2 @ [5, 6] @ replicate 16 9) = demo_hash"
  "verify pair_ssl (replicate 16 9) demo_signature [5, 6]"
  by code_simp+

lemma demo_client: "new_client demo_pair_env [5, 6] = Inr demo_paired"
proof -
  have "''1000'' = [digit 1, digit 0, digit 0, digit 0]" by code_simp
  then have "''1000'' = dec 1000" by (simp add: dec.simps)
  then have "stoul ''1000'' = Inr 1000" by (simp only: stoul_dec) simp
  moreover have "dec (Suc (Suc 0)) = ''2''" by code_simp
  ultimately show ?thesis
    by (simp add: new_client_def demo_pair_env_def demo_paired_def client_settings_default_def)
qed

lemmas demo_defs = demo_pair_env_def demo_draws_def demo_request_def demo_q1_def demo_q2_def demo_q3_def
  demo_q4_def

lemma demo_start:
  "ecb_sha_laws (pe_ssl demo_pair_env)" "ps_cache demo_pair_state k = None" "ps_pins demo_pair_state = Map.empty"
  "ps_cache demo_pair_state = Map.empty"
  "toml_load (pe_toml demo_pair_env) (ps_disk demo_pair_state) \<noteq> None"
  "cfg_paired_clients (ps_config demo_pair_state) = []"
  "rq_ip demo_q2 = rq_ip demo_q1" "rq_ip demo_q3 = rq_ip demo_q1" "rq_ip demo_q4 = rq_ip demo_q1"
  by (simp_all add: demo_defs pair_ssl_laws demo_pair_state_def toml_load_def demo_toml_def demo_config_def)

lemma demo_answer: "fst (aes_encrypt_ecb pair_ssl demo_hash demo_key [] False) =
    fst (aes_encrypt_ecb (pe_ssl demo_pair_env) (ssl_sha256 (pe_ssl demo_pair_env)
      (px_server_challenge demo_draws @ pe_cert_signature demo_pair_env [5, 6] @ replicate 16 9)) demo_key [] False)"
  by (simp add: demo_pair_env_def demo_draws_def demo_keys(4)[simplified])

lemma demo_run:
  "\<exists>st. pair_run demo_pair_env demo_pair_state demo_pairing st \<and>
     demo_paired \<in> set (cfg_paired_clients (ps_config st)) \<and> ps_cache st (cache_key_of ''u'' demo_q1) = None"
  unfolding demo_pairing_def
    using honest_run [where env = demo_pair_env and st = demo_pair_state and u = "''u''" and key = demo_key and
        iv = "[]" and secret = "replicate 16 9" and signature = demo_signature and cert = "[5, 6]" and x = "[5, 6]" and
        pin = "''1234''" and client = demo_paired and no = 2 and ?r1.0 = demo_draws and ?r2.0 = demo_draws and
        ?r3.0 = demo_draws and ?r4.0 = demo_draws,
        OF demo_start(1,2,5,7-9) demo_headers(1,2) demo_headers(3)[unfolded demo_answer] demo_headers(4)] demo_keys demo_client
  by (simp add: demo_pair_env_def demo_draws_def demo_signature_def)

text \<open>The state before the fourth request.\<close>

definition demo_cached :: PairCache where
  "demo_cached = \<lparr>pa_client_cert = [5, 6], pa_aes_key = demo_key, pa_server_secret = Some (replicate 16 1),
     pa_server_challenge = Some (replicate 16 2), pa_client_hash = Some demo_hash,
     pa_last_phase = SERVERCHALLENGERESP\<rparr>"

definition demo_last :: pair_state where
  "demo_last = demo_pair_state\<lparr>ps_cache := [''u@10.0.0.2'' \<mapsto> demo_cached]\<rparr>"

lemma demo_hdrs:
  "get_header (rq_headers demo_q2) ''uniqueid'' = Some ''u''"
  "get_header (rq_headers demo_q2) ''salt'' = None"
  "get_header (rq_headers demo_q2) ''clientchallenge'' = Some ''AA''"
  "get_header (rq_headers demo_q4) ''salt'' = None"
  "get_header (rq_headers demo_q4) ''uniqueid'' = Some ''u''"
  "get_header (rq_headers demo_q4) ''clientchallenge'' = None"
  "get_header (rq_headers demo_q4) ''serverchallengeresp'' = None"
  "get_header (rq_headers demo_q4) ''clientpairingsecret'' = Some (str_to_hex (replicate 16 9 @ demo_signature))"
  using demo_headers by (simp_all add: carries_def pair_params_def)

lemma demo_key_of: "cache_key_of ''u'' demo_q2 = ''u@10.0.0.2''" "cache_key_of ''u'' demo_q4 = ''u@10.0.0.2''"
  by code_simp+


subsection \<open>Properties\<close>

text \<open>C5: nobody becomes a paired client without the PIN. Whatever requests arrive and in whatever
  order, a client that the server trusts and did not trust before has sent its certificate, a PIN
  was posted for that request, the hash it answered the server's challenge with (decrypted under
  the key derived from its salt and that PIN) is the digest of the challenge, of the signature of
  its certificate and of its secret, and the secret is signed with the key of the certificate.\<close>
theorem paired_only_after_pin:
  assumes "pair_run env st0 tr st" "ps_cache st0 = Map.empty" "ps_pins st0 = Map.empty"
    and "c \<in> set (cfg_paired_clients (ps_config st))"
  shows "c \<in> set (cfg_paired_clients (ps_config st0)) \<or> trusted env tr (str_bytes (pc_client_cert c))"
  using pair_run_inv [OF assms(1-3)] assms(4) by (simp add: pair_inv_def)

theorem paired_only_after_pin_witness:
  "\<exists>st. pair_run demo_pair_env demo_pair_state demo_pairing st \<and>
     demo_paired \<in> set (cfg_paired_clients (ps_config st)) \<and> trusted demo_pair_env demo_pairing [5, 6]"
proof -
  obtain st where st: "pair_run demo_pair_env demo_pair_state demo_pairing st"
    "demo_paired \<in> set (cfg_paired_clients (ps_config st))"
    using demo_run by blast
  have "str_bytes (pc_client_cert demo_paired) = [5, 6]" by (simp add: demo_paired_def)
  with st paired_only_after_pin [OF st(1) demo_start(4,3) st(2)] show ?thesis
    by (auto simp: demo_start)
qed


text \<open>a request that is answered with a failure ends the pairing attempt: the client is no
  longer in the cache and nothing else changed, so that a wrong PIN cannot be tried again on the
  same challenge.\<close>
theorem failed_pairing_forgets:
  assumes "pair env rnd rq st = (st', [Xml_reply n Bad_request xml], False)"
    and "get_header (rq_headers rq) ''uniqueid'' = Some u"
  shows "st' = remove_pair_session (cache_key_of u rq) st"
proof -
  have later: "pair_later env rnd rq k c st = (st', [Xml_reply n Bad_request xml], False) \<Longrightarrow>
      st' = remove_pair_session k st" for k c
    by (auto simp: pair_later_def answer_phase_def finish_pairing_def send_xml_def Let_def split_def
        split: option.splits if_splits sum.splits dest: frame)
  from assms show ?thesis
    using later
    by (auto simp: pair_def pair_phase1_def Let_def remove_absent split: option.splits if_splits)
qed

theorem failed_pairing_forgets_witness:
  "remove_pair_session ''u@10.0.0.2'' demo_last = fst (pair demo_pair_env demo_draws demo_q2 demo_last) \<and>
     ps_cache demo_last ''u@10.0.0.2'' \<noteq> None"
proof -
  have "pair demo_pair_env demo_draws demo_q2 demo_last =
      (remove_pair_session ''u@10.0.0.2'' demo_last,
       [Xml_reply 1 Bad_request (fail_pair ''Out of order pair request (phase 2)'')], False)"
    by (simp add: pair_def demo_last_def demo_hdrs Let_def pair_later_def pair_phase2_def demo_cached_def
        answer_phase_def send_xml_def demo_key_of) (simp add: demo_q2_def demo_request_def)
  from failed_pairing_forgets [OF this demo_hdrs(1)] this show ?thesis
    by (simp add: demo_last_def demo_key_of)
qed


text \<open>\<open>/unpair\<close> cannot undo a pairing: once a request has paired a client (the configuration
  changed), the entry of the cache that \<open>/unpair\<close> looks the client up in is gone, so the handler
  throws and the client stays paired.\<close>
theorem unpair_after_pairing:
  assumes "pair env rnd rq st = (st', replies, False)" "ps_config st' \<noteq> ps_config st"
    and "get_header (rq_headers rq) ''uniqueid'' = Some u"
    and "get_header (rq_headers rq') ''uniqueid'' = Some u" "rq_ip rq' = rq_ip rq"
  shows "unpair env rq' st' = (st', [], True)"
proof -
  have "pair_later env rnd rq k c st = (st', replies, False) \<Longrightarrow> ps_cache st' k = None" for k c
    using assms(2)
    by (auto simp: pair_later_def answer_phase_def finish_pairing_def remove_pair_session_def Let_def split_def
        split: option.splits if_splits sum.splits dest: frame)
  then have "ps_cache st' (cache_key_of u rq) = None"
    using assms(1-3)
    by (auto simp: pair_def pair_phase1_def pair_handler_def remove_pair_session_def Let_def
        split: option.splits if_splits)
  then show ?thesis using assms(4,5) by (simp add: unpair_def cache_key_of_def)
qed

theorem unpair_after_pairing_witness:
  "\<exists>st'. (\<exists>replies. pair demo_pair_env demo_draws demo_q4 demo_last = (st', replies, False)) \<and>
     demo_paired \<in> set (cfg_paired_clients (ps_config st')) \<and> unpair demo_pair_env demo_q4 st' = (st', [], True)"
proof -
  have ph: "pair_phase4 demo_pair_env demo_cached (replicate 16 2) demo_hash (str_to_hex (replicate 16 9 @ demo_signature)) =
      Some (Success_ok, [put_int ''root.paired'' 1, put_int ''root.<xmlattr>.status_code'' 200])"
    using demo_keys(4,5)
    by (simp add: pair_phase4_def demo_cached_def demo_pair_env_def client_pair_def Let_def demo_signature_def
        put_int_def xml_get_int_def xml_get_def dec_int_def)
  obtain st' replies where run: "pair demo_pair_env demo_draws demo_q4 demo_last = (st', replies, False)"
    "demo_paired \<in> set (cfg_paired_clients (ps_config st'))"
    using demo_start(5) demo_client ph
    by (auto simp: pair_def demo_last_def demo_hdrs demo_key_of Let_def pair_later_def finish_pairing_def split_def
        pair_client_def update_toml_def remove_pair_session_def demo_cached_def demo_start split: option.split)
  then have "ps_config st' \<noteq> ps_config demo_last"
    using demo_start(6) by (auto simp: demo_last_def)
  from unpair_after_pairing [OF run(1) this demo_hdrs(5,5) refl] run show ?thesis by blast
qed


text \<open>C22: a client that knows the PIN is paired: when the four requests of an honest client reach the
  server in order, with the PIN posted after the first, the client ends in the configuration and
  the pairing is forgotten.\<close>
theorem honest_client_pairs:
  assumes laws: "ecb_sha_laws (pe_ssl env)"
    and start: "ps_cache st (cache_key_of u q1) = None" "toml_load (pe_toml env) (ps_disk st) \<noteq> None"
    and ip: "rq_ip q2 = rq_ip q1" "rq_ip q3 = rq_ip q1" "rq_ip q4 = rq_ip q1"
    and q1: "carries q1 [(''uniqueid'', u), (''salt'', salt), (''clientcert'', cert_hex)]"
    and q2: "carries q2 [(''uniqueid'', u), (''clientchallenge'', client_challenge)]"
    and q3: "carries q3 [(''uniqueid'', u), (''serverchallengeresp'', str_to_hex (fst (aes_encrypt_ecb (pe_ssl env)
      (ssl_sha256 (pe_ssl env) (px_server_challenge r2 @ pe_cert_signature env x @ secret)) key iv False)))]"
    and q4: "carries q4 [(''uniqueid'', u), (''clientpairingsecret'', str_to_hex (secret @ signature))]"
    and cert: "hex_to_str cert_hex True = Some cert" "pe_cert_from_string env cert = Some x"
    and key: "gen_aes_key (pe_ssl env) salt pin = Some key"
    and secret: "length secret = 16" "length signature = 256"
    and signed: "verify (pe_ssl env) secret signature (pe_cert_public_key env x)"
    and client: "new_client env cert = Inr client"
  shows "\<exists>st'. pair_run env st [Pair_get r1 q1, Pin_post no (Some (pin, str_to_hex (px_pin_secret r1))),
       Pair_get r2 q2, Pair_get r3 q3, Pair_get r4 q4] st' \<and>
     client \<in> set (cfg_paired_clients (ps_config st')) \<and> ps_cache st' (cache_key_of u q1) = None"
  by (rule honest_run [OF assms])

theorem honest_client_pairs_witness:
  "\<exists>st. pair_run demo_pair_env demo_pair_state demo_pairing st \<and>
     demo_paired \<in> set (cfg_paired_clients (ps_config st)) \<and> ps_cache st (cache_key_of ''u'' demo_q1) = None"
  unfolding demo_pairing_def
  using honest_client_pairs [where env = demo_pair_env and st = demo_pair_state and u = "''u''" and key = demo_key and
      iv = "[]" and secret = "replicate 16 9" and signature = demo_signature and cert = "[5, 6]" and x = "[5, 6]" and
      pin = "''1234''" and client = demo_paired and no = 2 and ?r1.0 = demo_draws and ?r2.0 = demo_draws and
      ?r3.0 = demo_draws and ?r4.0 = demo_draws,
      OF demo_start(1,2,5,7-9) demo_headers(1,2) demo_headers(3)[unfolded demo_answer] demo_headers(4)]
    demo_keys demo_client
  by (simp add: demo_pair_env_def demo_draws_def demo_signature_def)

end
