(* ===== verification/Rest.thy ===== *)
theory Rest
  imports Pairing Input_Handler
begin

section \<open>The HTTP and HTTPS endpoints: rest/endpoints.hpp, rest/servers.cpp\<close>

text \<open>
  What a Moonlight client asks over HTTPS: server information, the list of applications, their
  icons, and the launch, resume and cancel of a session; and the dispatch of both servers. State:
  the running sessions, the virtual devices (kept per session identifier, as the control server
  sees them), and the events fired on the bus. A handler returns the state, its replies and whether it threw.
  Icons (files and URLs), the MAC address of an interface and the environment are parameters.
\<close>

subsection \<open>State\<close>

record rest_state =
  rs_sessions :: "StreamSession list"
  rs_devices :: "nat \<Rightarrow> devices"
  rs_events :: "bus_event list"

record 'cert rest_env =
  re_verify :: "'cert verifier"
  re_cert_of :: "string \<Rightarrow> 'cert"
  re_host :: host
  re_hash :: "string \<Rightarrow> nat"
  re_getenv :: "string \<Rightarrow> string option"
  re_mac_address :: "string \<Rightarrow> string"
  re_icon :: "string \<Rightarrow> string \<Rightarrow> string option"
  re_pin_html :: string

definition fire :: "bus_event \<Rightarrow> rest_state \<Rightarrow> rest_state" where
  "fire ev st = st\<lparr>rs_events := rs_events st @ [ev]\<rparr>"

definition fresh_devices :: devices where
  "fresh_devices = \<lparr>sd_wayland = False, sd_mouse = None, sd_keyboard = None, sd_touch_screen = None,
     sd_pen_tablet = False, sd_joypads = Map.empty, sd_out = []\<rparr>"

subsection \<open>Information\<close>

text \<open>What throws: \<open>value()\<close> on an empty option, \<open>std::stoi\<close>; \<open>Past_end\<close> is an index out of range.\<close>

datatype rest_error = Bad_number num_error | No_value | Past_end

definition number :: "num_error + 'a \<Rightarrow> rest_error + 'a" where
  "number r = map_sum Bad_number id r"

definition need :: "'a option \<Rightarrow> rest_error + 'a" where
  "need v = (case v of None \<Rightarrow> Inl No_value | Some x \<Rightarrow> Inr x)"

fun andthen :: "'e + 'a \<Rightarrow> ('a \<Rightarrow> 'e + 'b) \<Rightarrow> 'e + 'b" where
  "andthen (Inl e) f = Inl e"
| "andthen (Inr x) f = f x"

lemma andthen_Inr [simp]: "andthen r f = Inr y \<longleftrightarrow> (\<exists>x. r = Inr x \<and> f x = Inr y)"
  by (cases r) auto

definition running_app_id :: "StreamSession option \<Rightarrow> rest_error + int" where
  "running_app_id s =
     (case s of
        None \<Rightarrow> Inr 0
      | Some session \<Rightarrow> andthen (need (ss_app session)) (\<lambda>app. number (stoi (app_id app))))"

definition serverinfo ::
    "'cert rest_env \<Rightarrow> bool \<Rightarrow> Config \<Rightarrow> StreamSession option \<Rightarrow> http_request \<Rightarrow> rest_error + reply" where
  "serverinfo env is_https cfg stream_session rq =
     (let local_ip = get_host_ip (re_host env) rq
      in andthen (running_app_id stream_session) (\<lambda>app.
         andthen (number (get_port (re_getenv env) HTTPS_PORT)) (\<lambda>https_port.
         andthen (number (get_port (re_getenv env) HTTP_PORT)) (\<lambda>http_port.
           Inr (send_xml rq Success_ok
             (serverinfo_xml (stream_session \<noteq> None) app https_port http_port (cfg_uuid cfg) (cfg_hostname cfg)
               (lazy_value_or (h_mac_address (re_host env)) (\<lambda>_. re_mac_address env local_ip)) local_ip
               (h_display_modes (re_host env)) (if is_https then 1 else 0)
               (cfg_support_hevc cfg) (cfg_support_av1 cfg)))))))"

definition applist :: "Config \<Rightarrow> http_request \<Rightarrow> rest_error + reply" where
  "applist cfg rq =
     andthen (need (get_moonlight_profile cfg)) (\<lambda>p. Inr (send_xml rq Success_ok (applist_xml (pr_apps p))))"

definition appasset :: "'cert rest_env \<Rightarrow> Config \<Rightarrow> http_request \<Rightarrow> reply" where
  "appasset env cfg rq =
     (case get_header (rq_headers rq) ''appid'' of
        None \<Rightarrow> server_error rq
      | Some i \<Rightarrow>
          (case Option.bind (get_moonlight_app_by_id cfg i) app_icon_png_path of
             None \<Rightarrow> server_error rq
           | Some icon_path \<Rightarrow>
               (case re_icon env (h_local_base_state_folder (re_host env)) icon_path of
                  Some icon \<Rightarrow> Text_reply (rq_no rq) icon
                | None \<Rightarrow> Error_text_reply (rq_no rq))))"

subsection \<open>Sessions\<close>

text \<open>The pieces of the mode are views into a temporary that is gone when they are read; the model
  reads what they held.\<close>

definition display_mode_of :: "Config \<Rightarrow> headers \<Rightarrow> rest_error + DisplayMode" where
  "display_mode_of cfg hs =
     (let parts = split_data (value_or (get_header hs ''mode'') ''1920x1080x60'') (CHR ''x'');
          part = (\<lambda>i. case oget parts i of None \<Rightarrow> Inl Past_end | Some t \<Rightarrow> number (stoi t))
      in andthen (part 0) (\<lambda>w. andthen (part 1) (\<lambda>h. andthen (part 2) (\<lambda>r.
           Inr \<lparr>dm_width = w, dm_height = h, dm_refreshRate = r, dm_hevc_supported = cfg_support_hevc cfg,
                dm_av1_supported = cfg_support_av1 cfg\<rparr>))))"

definition create_run_session ::
    "'cert rest_env \<Rightarrow> random_draws \<Rightarrow> Config \<Rightarrow> http_request \<Rightarrow> PairedClient \<Rightarrow> App \<Rightarrow>
     rest_error + StreamSession" where
  "create_run_session env rnd cfg rq current_client run_app =
     andthen (display_mode_of cfg (rq_headers rq)) (\<lambda>display_mode.
     andthen (number (stoi (value_or (get_header (rq_headers rq) ''surroundAudioInfo'') ''196610''))) (\<lambda>surround_info.
     andthen (need (get_header (rq_headers rq) ''rikey'')) (\<lambda>key.
     andthen (need (get_header (rq_headers rq) ''rikeyid'')) (\<lambda>iv.
     andthen (number (create_stream_session (re_hash env) (re_getenv env) rnd (re_host env) run_app current_client
                display_mode (surround_info AND 0xFFFF) key iv)) (\<lambda>base_session.
       Inr (base_session\<lparr>ss_ip := rq_ip rq\<rparr>))))))"

definition get_rtsp_ip_string :: "'cert rest_env \<Rightarrow> string \<Rightarrow> StreamSession \<Rightarrow> string" where
  "get_rtsp_ip_string env local_ip session =
     (if value_or (re_getenv env ''WOLF_USE_RTSP_FAKE_IP'') ''TRUE'' = ''TRUE'' then ss_rtsp_fake_ip session
      else local_ip)"

text \<open>The reply to a launch or a resume, sent when the port of the RTSP server is a number.\<close>

definition session_reply ::
    "'cert rest_env \<Rightarrow> (string \<Rightarrow> string \<Rightarrow> XML) \<Rightarrow> http_request \<Rightarrow> StreamSession \<Rightarrow> rest_error + reply" where
  "session_reply env doc rq session =
     andthen (number (get_port (re_getenv env) RTSP_SETUP_PORT)) (\<lambda>port.
       Inr (send_xml rq Success_ok
         (doc (get_rtsp_ip_string env (get_host_ip (re_host env) rq) session) (dec_int port))))"

definition running_session :: "'cert rest_env \<Rightarrow> PairedClient \<Rightarrow> rest_state \<Rightarrow> StreamSession option" where
  "running_session env client st = get_session_by_client (re_hash env) (rs_sessions st) client"

definition resume ::
    "'cert rest_env \<Rightarrow> random_draws \<Rightarrow> Config \<Rightarrow> PairedClient \<Rightarrow> http_request \<Rightarrow> rest_state \<Rightarrow> rest_state outcome" where
  "resume env rnd cfg current_client rq st =
     (case running_session env current_client st of
        None \<Rightarrow> (st, [server_error rq], False)
      | Some old_session \<Rightarrow>
          (case andthen (need (ss_app old_session)) (create_run_session env rnd cfg rq current_client) of
             Inl _ \<Rightarrow> (st, [], True)
           | Inr new_session \<Rightarrow>
               let st' = st\<lparr>rs_sessions := remove_session (rs_sessions st) old_session @ [new_session],
                   rs_devices := (rs_devices st)(ss_session_id new_session :=
                     rs_devices st (ss_session_id old_session))\<rparr>
               in (case session_reply env launch_resume rq new_session of
                     Inl _ \<Rightarrow> (st', [], True)
                   | Inr reply \<Rightarrow> (st', [reply, server_error rq], False))))"

definition launch ::
    "'cert rest_env \<Rightarrow> random_draws \<Rightarrow> Config \<Rightarrow> PairedClient \<Rightarrow> http_request \<Rightarrow> rest_state \<Rightarrow> rest_state outcome" where
  "launch env rnd cfg current_client rq st =
     (case get_header (rq_headers rq) ''appid'' of
        None \<Rightarrow> (st, [], True)
      | Some appid \<Rightarrow>
     (case get_moonlight_app_by_id cfg appid of
        None \<Rightarrow> (st, [server_error rq], False)
      | Some app \<Rightarrow>
          if running_session env current_client st \<noteq> None then resume env rnd cfg current_client rq st
          else (case create_run_session env rnd cfg rq current_client app of
                  Inl _ \<Rightarrow> (st, [], True)
                | Inr new_session \<Rightarrow>
                    let st' = fire (StreamSessionEvent new_session) st
                          \<lparr>rs_sessions := rs_sessions st @ [new_session],
                           rs_devices := (rs_devices st)(ss_session_id new_session := fresh_devices)\<rparr>
                    in (case session_reply env launch_success rq new_session of
                          Inl _ \<Rightarrow> (st', [], True)
                        | Inr reply \<Rightarrow> (st', [reply], False)))))"

definition cancel :: "'cert rest_env \<Rightarrow> PairedClient \<Rightarrow> http_request \<Rightarrow> rest_state \<Rightarrow> rest_state outcome" where
  "cancel env current_client rq st =
     (let st' = (case running_session env current_client st of
                   None \<Rightarrow> st
                 | Some client_session \<Rightarrow>
                     fire (StopStreamEvent (ss_session_id client_session)) st
                       \<lparr>rs_sessions := remove_session (rs_sessions st) client_session\<rparr>)
      in (st', [send_xml rq Success_ok [put_int ''root.<xmlattr>.status_code'' 200, put_int ''root.cancel'' 1]], False))"

subsection \<open>Dispatch (servers.cpp)\<close>

definition get_client_if_paired :: "'cert rest_env \<Rightarrow> Config \<Rightarrow> 'cert \<Rightarrow> PairedClient option" where
  "get_client_if_paired env cfg cert = get_client_via_ssl (re_verify env) (re_cert_of env) cfg cert"

definition reply_unauthorized :: "http_request \<Rightarrow> reply" where
  "reply_unauthorized rq = send_xml rq Unauthorized
     [put_int ''root.<xmlattr>.status_code'' 401, Put ''root.<xmlattr>.query'' (rq_path rq),
      Put ''root.<xmlattr>.status_message'' ''The client is not authorized. Certificate verification failed.'']"

definition reads :: "rest_error + reply \<Rightarrow> 's \<Rightarrow> 's outcome" where
  "reads r st = (case r of Inl _ \<Rightarrow> (st, [], True) | Inr reply \<Rightarrow> (st, [reply], False))"

datatype https_route = R_serverinfo | R_pair | R_applist | R_launch | R_resume | R_cancel | R_appasset

definition https_routes :: "(string \<times> https_route) list" where
  "https_routes = [(''/serverinfo'', R_serverinfo), (''/pair'', R_pair), (''/applist'', R_applist),
     (''/launch'', R_launch), (''/resume'', R_resume), (''/cancel'', R_cancel), (''/appasset'', R_appasset)]"

fun https_endpoint ::
    "'cert rest_env \<Rightarrow> random_draws \<Rightarrow> Config \<Rightarrow> PairedClient \<Rightarrow> https_route \<Rightarrow> http_request \<Rightarrow> rest_state \<Rightarrow>
     rest_state outcome" where
  "https_endpoint env rnd cfg client R_serverinfo rq st = reads (serverinfo env True cfg (running_session env client st) rq) st"
| "https_endpoint env rnd cfg client R_pair rq st = (st, pair_https rq, False)"
| "https_endpoint env rnd cfg client R_applist rq st = reads (applist cfg rq) st"
| "https_endpoint env rnd cfg client R_launch rq st = launch env rnd cfg client rq st"
| "https_endpoint env rnd cfg client R_resume rq st = resume env rnd cfg client rq st"
| "https_endpoint env rnd cfg client R_cancel rq st = cancel env client rq st"
| "https_endpoint env rnd cfg client R_appasset rq st = (st, [appasset env cfg rq], False)"

definition https_handle ::
    "'cert rest_env \<Rightarrow> random_draws \<Rightarrow> Config \<Rightarrow> 'cert \<Rightarrow> http_request \<Rightarrow> rest_state \<Rightarrow> rest_state outcome" where
  "https_handle env rnd cfg cert rq st =
     (case map_of https_routes (rq_path rq) of
        None \<Rightarrow> (st, [not_found rq], False)
      | Some route \<Rightarrow>
          (case get_client_if_paired env cfg cert of
             None \<Rightarrow> (st, [reply_unauthorized rq], False)
           | Some client \<Rightarrow> https_endpoint env rnd cfg client route rq st))"

text \<open>The HTTP server: \<open>form\<close> is the body of \<open>POST /pin/\<close>, if it is one.\<close>

definition http_handle ::
    "'cert rest_env \<Rightarrow> 'cert pair_env \<Rightarrow> pair_random \<Rightarrow> bool \<Rightarrow> (string \<times> string) option \<Rightarrow> http_request \<Rightarrow>
     pair_state \<Rightarrow> pair_state outcome" where
  "http_handle env penv rnd is_post form rq st =
     (if is_post
      then (if rq_path rq = ''/pin/'' then pin_post penv (rq_no rq) form st else (st, [not_found rq], False))
      else if rq_path rq = ''/serverinfo'' then reads (serverinfo env False (ps_config st) None rq) st
      else if rq_path rq = ''/pair'' then pair penv rnd rq st
      else if rq_path rq = ''/pin/'' then (st, [Text_reply (rq_no rq) (re_pin_html env)], False)
      else if rq_path rq = ''/unpair'' then unpair penv rq st
      else (st, [not_found rq], False))"

text \<open>A run of the HTTPS server, for one configuration.\<close>

inductive https_run :: "'cert rest_env \<Rightarrow> Config \<Rightarrow> rest_state \<Rightarrow> rest_state \<Rightarrow> bool"
  for env :: "'cert rest_env" and cfg :: Config where
  idle: "https_run env cfg st st"
| request: "\<lbrakk>https_run env cfg st0 st; https_handle env rnd cfg cert rq st = (st', replies, threw)\<rbrakk> \<Longrightarrow>
     https_run env cfg st0 st'"

subsection \<open>What requests keep\<close>

definition rest_inv :: "'cert rest_env \<Rightarrow> Config \<Rightarrow> rest_state \<Rightarrow> bool" where
  "rest_inv env cfg st \<longleftrightarrow>
     distinct (map ss_session_id (rs_sessions st)) \<and>
     (\<forall>s \<in> set (rs_sessions st). \<exists>c \<in> set (cfg_paired_clients cfg).
        ss_session_id s = get_client_id (re_hash env) c)"

lemma fire_frame [frame, simp]:
  "rs_sessions (fire ev st) = rs_sessions st" "rs_devices (fire ev st) = rs_devices st"
  "rs_events (fire ev st) = rs_events st @ [ev]"
  by (simp_all add: fire_def)

lemma number_Inr [simp]: "number r = Inr x \<longleftrightarrow> r = Inr x"
  by (cases r) (auto simp: number_def)

lemma need_Inr [simp]: "need v = Inr x \<longleftrightarrow> v = Some x"
  by (cases v) (auto simp: need_def)

lemma create_run_session_Inr:
  "create_run_session env rnd cfg rq client app = Inr s \<Longrightarrow>
     ss_session_id s = get_client_id (re_hash env) client \<and> ss_ip s = rq_ip rq \<and> ss_app s = Some app"
  by (auto simp: create_run_session_def create_stream_session_def Let_def)

lemma running_session_Some:
  "running_session env client st = Some s \<Longrightarrow>
     s \<in> set (rs_sessions st) \<and> ss_session_id s = get_client_id (re_hash env) client"
  unfolding running_session_def get_session_by_client_def by (rule sess.lookup_Some)

lemma running_session_None:
  "running_session env client st = None \<longleftrightarrow>
     get_client_id (re_hash env) client \<notin> ss_session_id ` set (rs_sessions st)"
  by (simp add: running_session_def get_session_by_client_def sess.lookup_None)

text \<open>The two changes of the sessions: a new session of a client takes the place of its old ones.\<close>

lemma rest_inv_put:
  assumes "rest_inv env cfg st" "client \<in> set (cfg_paired_clients cfg)"
    and "ss_session_id s = get_client_id (re_hash env) client" "ss_session_id old = ss_session_id s"
    and "rs_sessions st' = remove_session (rs_sessions st) old @ [s]"
  shows "rest_inv env cfg st'"
  using assms sess.distinct_remove [of "rs_sessions st" old]
  by (auto simp: rest_inv_def sess.remove_keeps)

lemma rest_inv_remove:
  assumes "rest_inv env cfg st" "rs_sessions st' = remove_session (rs_sessions st) old"
  shows "rest_inv env cfg st'"
  using assms sess.distinct_remove [of "rs_sessions st" old] by (auto simp: rest_inv_def sess.remove_keeps)

lemma rest_inv_same: "\<lbrakk>rest_inv env cfg st; rs_sessions st' = rs_sessions st\<rbrakk> \<Longrightarrow> rest_inv env cfg st'"
  by (simp add: rest_inv_def)

lemma remove_session_absent:
  assumes "ss_session_id s \<notin> ss_session_id ` set ss"
  shows "remove_session ss s = ss"
proof -
  have "ss_session_id x \<noteq> ss_session_id s" if "x \<in> set ss" for x
    using assms that by (metis image_eqI)
  then show ?thesis by (simp add: remove_session_def)
qed

text \<open>What each request does to the sessions.\<close>

lemma resume_sessions:
  "rs_sessions (fst (resume env rnd cfg client rq st)) = rs_sessions st \<or>
   (\<exists>old s. running_session env client st = Some old \<and> ss_session_id s = get_client_id (re_hash env) client \<and>
      rs_sessions (fst (resume env rnd cfg client rq st)) = remove_session (rs_sessions st) old @ [s])"
proof (cases "running_session env client st")
  case (Some old)
  show ?thesis
  proof (cases "andthen (need (ss_app old)) (create_run_session env rnd cfg rq client)")
    case (Inr s)
    then have "ss_session_id s = get_client_id (re_hash env) client"
      by (auto dest: create_run_session_Inr)
    with Some Inr show ?thesis
      by (auto simp: resume_def Let_def split: sum.split)
  qed (simp add: resume_def Some)
qed (simp add: resume_def)

lemma launch_sessions:
  "fst (launch env rnd cfg client rq st) = st \<or>
   launch env rnd cfg client rq st = resume env rnd cfg client rq st \<or>
   (\<exists>s. running_session env client st = None \<and> ss_session_id s = get_client_id (re_hash env) client \<and>
      rs_sessions (fst (launch env rnd cfg client rq st)) = rs_sessions st @ [s])"
proof -
  have id: "create_run_session env rnd cfg rq client app = Inr s \<Longrightarrow>
      ss_session_id s = get_client_id (re_hash env) client" for app s
    by (simp add: create_run_session_Inr)
  show ?thesis
    by (cases "running_session env client st")
      (auto simp: launch_def Let_def id split: option.split sum.split)
qed

lemma resume_inv:
  assumes "rest_inv env cfg st" "client \<in> set (cfg_paired_clients cfg)"
  shows "rest_inv env cfg (fst (resume env rnd cfg client rq st))"
  using resume_sessions [of env rnd cfg client rq st]
proof
  assume "\<exists>old s. running_session env client st = Some old \<and> ss_session_id s = get_client_id (re_hash env) client \<and>
      rs_sessions (fst (resume env rnd cfg client rq st)) = remove_session (rs_sessions st) old @ [s]"
  then obtain old s where s: "running_session env client st = Some old" "ss_session_id s = get_client_id (re_hash env) client"
    "rs_sessions (fst (resume env rnd cfg client rq st)) = remove_session (rs_sessions st) old @ [s]" by blast
  show ?thesis
    using running_session_Some [OF s(1)] s(2) by (intro rest_inv_put [OF assms s(2) _ s(3)]) simp
qed (rule rest_inv_same [OF assms(1)])

lemma launch_inv:
  assumes "rest_inv env cfg st" "client \<in> set (cfg_paired_clients cfg)"
  shows "rest_inv env cfg (fst (launch env rnd cfg client rq st))"
  using launch_sessions [of env rnd cfg client rq st]
proof (elim disjE)
  assume "\<exists>s. running_session env client st = None \<and> ss_session_id s = get_client_id (re_hash env) client \<and>
      rs_sessions (fst (launch env rnd cfg client rq st)) = rs_sessions st @ [s]"
  then obtain s where s: "running_session env client st = None" "ss_session_id s = get_client_id (re_hash env) client"
    "rs_sessions (fst (launch env rnd cfg client rq st)) = rs_sessions st @ [s]" by blast
  then have "remove_session (rs_sessions st) s = rs_sessions st"
    by (intro remove_session_absent) (simp add: running_session_None)
  with s show ?thesis by (intro rest_inv_put [OF assms s(2) refl]) simp
qed (use assms resume_inv [OF assms] in auto)

lemma cancel_inv: "rest_inv env cfg st \<Longrightarrow> rest_inv env cfg (fst (cancel env client rq st))"
  by (cases "running_session env client st") (auto simp: cancel_def Let_def intro: rest_inv_remove)

lemma reads_frame [frame, simp]: "fst (reads r st) = st"
  by (simp add: reads_def split: sum.split)

lemma client_if_paired: "get_client_if_paired env cfg cert = Some c \<Longrightarrow>
    c \<in> set (cfg_paired_clients cfg) \<and> verification_error (re_verify env) (re_cert_of env (pc_client_cert c)) cert = None"
  unfolding get_client_if_paired_def get_client_via_ssl_def by (rule find_Some_in)

lemma https_handle_inv:
  assumes "rest_inv env cfg st"
  shows "rest_inv env cfg (fst (https_handle env rnd cfg cert rq st))"
proof -
  have "rest_inv env cfg (fst (https_endpoint env rnd cfg c r rq st))" if "c \<in> set (cfg_paired_clients cfg)" for c r
    using that assms by (cases r) (simp_all add: launch_inv resume_inv cancel_inv)
  with assms show ?thesis
    by (auto simp: https_handle_def dest: client_if_paired split: option.split)
qed

lemma https_run_inv: "\<lbrakk>https_run env cfg st0 st; rest_inv env cfg st0\<rbrakk> \<Longrightarrow> rest_inv env cfg st"
proof (induction rule: https_run.induct)
  case (request st0 st rnd cert rq st' replies threw)
  then show ?case using https_handle_inv [of env cfg st rnd cert rq] by simp
qed

subsection \<open>A concrete server\<close>

definition demo_rest_env :: "string rest_env" where
  "demo_rest_env = \<lparr>re_verify = (\<lambda>cb p u. if p = u then None else Some (Other_err 7)), re_cert_of = (\<lambda>s. s),
     re_host = demo_host, re_hash = length, re_getenv = (\<lambda>_. None), re_mac_address = (\<lambda>_. ''00:00''),
     re_icon = (\<lambda>_ _. None), re_pin_html = ''<html>''\<rparr>"

definition demo_rest_config :: Config where
  "demo_rest_config = demo_config\<lparr>cfg_paired_clients := [demo_client],
     cfg_profiles := [\<lparr>pr_id = MOONLIGHT_PROFILE_ID, pr_name = [], pr_icon_png_path = [], pr_pin = None,
       pr_apps = [demo_app]\<rparr>]\<rparr>"

definition demo_launch :: http_request where
  "demo_launch = \<lparr>rq_no = 5, rq_ip = ''10.0.0.2'', rq_local_ip = ''10.0.0.1'', rq_path = ''/launch'',
     rq_headers = [(''appid'', ''17''), (''rikey'', ''00''), (''rikeyid'', ''1'')]\<rparr>"

definition demo_rest_state :: rest_state where
  "demo_rest_state = \<lparr>rs_sessions = [], rs_devices = (\<lambda>_. fresh_devices), rs_events = []\<rparr>"

lemma demo_launch_headers:
  "get_header (rq_headers demo_launch) ''appid'' = Some ''17''"
  "get_header (rq_headers demo_launch) ''mode'' = None"
  "get_header (rq_headers demo_launch) ''surroundAudioInfo'' = None"
  "get_header (rq_headers demo_launch) ''rikey'' = Some ''00''"
  "get_header (rq_headers demo_launch) ''rikeyid'' = Some ''1''"
  by code_simp+

lemma demo_numbers:
  "split_data ''1920x1080x60'' (CHR ''x'') = [''1920x1080x60'', ''1080x60'', ''60'']"
  "stoi ''1920x1080x60'' = Inr 1920" "stoi ''1080x60'' = Inr 1080" "stoi ''60'' = Inr 60"
  "stoi ''196610'' = Inr 196610" "stoi ''17'' = Inr 17"
  by (simp add: split_data_def split_tails.simps)
    (simp_all add: stoi_def read_number_def is_space_def is_digit_def undec_def digit_val_def)

lemma demo_create: "\<exists>s. create_run_session demo_rest_env demo_random demo_rest_config demo_launch demo_client demo_app = Inr s"
  by (simp add: create_run_session_def display_mode_of_def demo_launch_headers demo_numbers value_or_def
      number_def need_def Let_def oget_def create_stream_session_def session_ports_def get_port_def demo_rest_env_def)

lemma demo_reply: "\<exists>r. session_reply demo_rest_env doc rq s = Inr r"
  by (simp add: session_reply_def get_port_def demo_rest_env_def number_def)

lemma demo_launched:
  "\<exists>s. https_handle demo_rest_env demo_random demo_rest_config ''PEM'' demo_launch demo_rest_state =
       (demo_rest_state\<lparr>rs_sessions := [s], rs_events := [StreamSessionEvent s],
          rs_devices := (\<lambda>_. fresh_devices)\<rparr>,
        [send_xml demo_launch Success_ok (launch_success ''1.2.3.4'' ''48010'')], False) \<and>
     ss_session_id s = 3 \<and> ss_app s = Some demo_app \<and> ss_rtsp_fake_ip s = ''1.2.3.4''"
proof -
  obtain s where s: "create_run_session demo_rest_env demo_random demo_rest_config demo_launch demo_client demo_app = Inr s"
    using demo_create by blast
  have sid: "ss_session_id s = 3" "ss_app s = Some demo_app"
    using create_run_session_Inr [OF s] by (simp_all add: demo_rest_env_def get_client_id_def demo_client_def)
  have ip: "ss_rtsp_fake_ip s = ''1.2.3.4''"
  proof -
    have "fake_ip (1, 2, 3, 4) = ''1.2.3.4''" by code_simp
    with s show ?thesis
      by (auto simp: create_run_session_def create_stream_session_def Let_def demo_random_def)
  qed
  have route: "map_of https_routes (rq_path demo_launch) = Some R_launch" by code_simp
  have client: "get_client_if_paired demo_rest_env demo_rest_config ''PEM'' = Some demo_client"
    by (simp add: get_client_if_paired_def get_client_via_ssl_def demo_rest_config_def demo_rest_env_def
        verification_error_def demo_client_def)
  have app: "get_moonlight_app_by_id demo_rest_config ''17'' = Some demo_app"
    by (simp add: get_moonlight_app_by_id_def get_moonlight_profile_def demo_rest_config_def demo_app_def)
  have "''48010'' = [digit 4, digit 8, digit 0, digit 1, digit 0]" by code_simp
  then have port: "dec_int 48010 = ''48010''" by (simp add: dec_int_def dec.simps)
  have reply: "session_reply demo_rest_env launch_success demo_launch s =
      Inr (send_xml demo_launch Success_ok (launch_success ''1.2.3.4'' ''48010''))"
    by (simp add: session_reply_def get_port_def demo_rest_env_def number_def get_rtsp_ip_string_def value_or_def ip port)
  have none: "running_session demo_rest_env demo_client demo_rest_state = None"
    by (simp add: running_session_None demo_rest_state_def)
  show ?thesis
    using s sid ip
    by (simp add: https_handle_def route client launch_def demo_launch_headers app none reply Let_def)
      (simp add: demo_rest_state_def fire_def fun_upd_idem)
qed

subsection \<open>Properties\<close>

text \<open>C8: at any moment of a run of the HTTPS server the running sessions have distinct identifiers,
  and each belongs to a paired client: no sequence of launches, relaunches, resumes and
  cancellations gives a client two sessions, or a session to nobody.\<close>
theorem one_session_per_client:
  assumes "https_run env cfg st0 st" "rs_sessions st0 = []"
  shows "distinct (map ss_session_id (rs_sessions st)) \<and>
    ss_session_id ` set (rs_sessions st) \<subseteq> get_client_id (re_hash env) ` set (cfg_paired_clients cfg)"
proof -
  have "rest_inv env cfg st"
    using https_run_inv [OF assms(1)] assms(2) by (simp add: rest_inv_def)
  then show ?thesis by (auto simp: rest_inv_def)
qed

theorem one_session_per_client_witness:
  "\<exists>st. https_run demo_rest_env demo_rest_config demo_rest_state st \<and> length (rs_sessions st) = 1 \<and>
     ss_session_id ` set (rs_sessions st) \<subseteq> {3}"
proof -
  obtain s where s: "https_handle demo_rest_env demo_random demo_rest_config ''PEM'' demo_launch demo_rest_state =
       (demo_rest_state\<lparr>rs_sessions := [s], rs_events := [StreamSessionEvent s],
          rs_devices := (\<lambda>_. fresh_devices)\<rparr>,
        [send_xml demo_launch Success_ok (launch_success ''1.2.3.4'' ''48010'')], False)"
    using demo_launched by blast
  then have run: "https_run demo_rest_env demo_rest_config demo_rest_state
      (demo_rest_state\<lparr>rs_sessions := [s], rs_events := [StreamSessionEvent s],
          rs_devices := (\<lambda>_. fresh_devices)\<rparr>)"
    by (rule https_run.request [OF https_run.idle])
  show ?thesis
    by (rule exI, intro conjI, rule run, simp)
      (use one_session_per_client [OF run] in \<open>simp add: demo_rest_state_def demo_rest_config_def demo_rest_env_def
        get_client_id_def demo_client_def\<close>)
qed

text \<open>C30: only paired clients are served over HTTPS. When the certificate presented verifies against
  that of no paired client, a request to any of the seven endpoints gets the 401 answer, the same for
  all, and any other request that it is not found; sessions, devices and bus stay as they are.
  Otherwise the request is served by the endpoint of its path, for a paired client against whose
  stored certificate the presented one verifies.\<close>
theorem https_requires_pairing:
  "if \<forall>c \<in> set (cfg_paired_clients cfg). verification_error (re_verify env) (re_cert_of env (pc_client_cert c)) cert \<noteq> None
   then https_handle env rnd cfg cert rq st =
     (st, [if rq_path rq \<in> {''/serverinfo'', ''/pair'', ''/applist'', ''/launch'', ''/resume'', ''/cancel'', ''/appasset''}
           then reply_unauthorized rq else not_found rq], False)
   else \<exists>c \<in> set (cfg_paired_clients cfg).
     verification_error (re_verify env) (re_cert_of env (pc_client_cert c)) cert = None \<and>
     https_handle env rnd cfg cert rq st =
       (case map_of https_routes (rq_path rq) of
          None \<Rightarrow> (st, [not_found rq], False)
        | Some route \<Rightarrow> https_endpoint env rnd cfg c route rq st)"
proof (cases "get_client_if_paired env cfg cert")
  case None
  then have "\<forall>c \<in> set (cfg_paired_clients cfg). verification_error (re_verify env) (re_cert_of env (pc_client_cert c)) cert \<noteq> None"
    by (auto simp: get_client_if_paired_def get_client_via_ssl_def find_None_iff)
  moreover have "map_of https_routes (rq_path rq) = None \<longleftrightarrow>
      rq_path rq \<notin> {''/serverinfo'', ''/pair'', ''/applist'', ''/launch'', ''/resume'', ''/cancel'', ''/appasset''}"
    unfolding map_of_eq_None_iff by (simp add: https_routes_def)
  ultimately show ?thesis using None by (simp only: if_True https_handle_def split: option.split) auto
next
  case (Some c)
  note c = client_if_paired [OF Some]
  then have paired: "\<not> (\<forall>c \<in> set (cfg_paired_clients cfg).
      verification_error (re_verify env) (re_cert_of env (pc_client_cert c)) cert \<noteq> None)" by blast
  show ?thesis unfolding if_not_P [OF paired] using c Some by (intro bexI [of _ c]) (simp_all add: https_handle_def split: option.split)
qed

theorem https_requires_pairing_witness:
  "https_handle demo_rest_env demo_random (demo_rest_config\<lparr>cfg_paired_clients := []\<rparr>) ''PEM'' demo_launch demo_rest_state =
     (demo_rest_state, [reply_unauthorized demo_launch], False)"
  using https_requires_pairing [where env = demo_rest_env and rnd = demo_random and cfg = "demo_rest_config\<lparr>cfg_paired_clients := []\<rparr>"
      and cert = "''PEM''" and rq = demo_launch and st = demo_rest_state]
  by (simp add: demo_launch_def)

text \<open>a client that asks for an application while its session runs resumes that session: no second
  \<open>StreamSession\<close> event is fired (so that no second runner is started), the virtual devices are
  carried over, and the client still has exactly one session. The request is then answered twice:
  after the success comes the \<open>server_error\<close> meant for clients without a session.\<close>
theorem relaunch_resumes:
  assumes "rest_inv env cfg st" "running_session env client st = Some old"
    and "get_header (rq_headers rq) ''appid'' = Some i" "get_moonlight_app_by_id cfg i \<noteq> None"
    and "launch env rnd cfg client rq st = (st', replies, False)"
  shows "rs_events st' = rs_events st \<and>
    rs_devices st' (ss_session_id old) = rs_devices st (ss_session_id old) \<and>
    length (filter (\<lambda>s. ss_session_id s = ss_session_id old) (rs_sessions st')) = 1 \<and>
    (\<exists>xml. replies = [send_xml rq Success_ok xml, server_error rq])"
proof -
  have res: "resume env rnd cfg client rq st = (st', replies, False)"
    using assms by (auto simp: launch_def)
  note old = running_session_Some [OF assms(2)]
  from res assms(2) obtain app s where s: "ss_app old = Some app"
    "create_run_session env rnd cfg rq client app = Inr s"
    by (auto simp: resume_def split: sum.splits)
  with res assms(2) old show ?thesis
    by (auto simp: resume_def Let_def session_reply_def create_run_session_Inr [OF s(2)] remove_session_def
        filter_empty_conv split: sum.splits)
qed

theorem relaunch_resumes_witness:
  "\<exists>st st' xml. rest_inv demo_rest_env demo_rest_config st \<and>
     launch demo_rest_env demo_random demo_rest_config demo_client demo_launch st =
       (st', [send_xml demo_launch Success_ok xml, server_error demo_launch], False) \<and>
     rs_events st' = rs_events st"
proof -
  obtain s where s: "create_run_session demo_rest_env demo_random demo_rest_config demo_launch demo_client demo_app = Inr s"
    using demo_create by blast
  have sid: "ss_session_id s = 3" "ss_app s = Some demo_app"
    using create_run_session_Inr [OF s] by (simp_all add: demo_rest_env_def get_client_id_def demo_client_def)
  define st where "st = demo_rest_state\<lparr>rs_sessions := [s]\<rparr>"
  have inv: "rest_inv demo_rest_env demo_rest_config st"
    by (simp add: rest_inv_def st_def sid demo_rest_config_def demo_rest_env_def get_client_id_def demo_client_def)
  have run: "running_session demo_rest_env demo_client st = Some s"
    by (simp add: running_session_def get_session_by_client_def get_session_by_id_find st_def sid demo_rest_env_def
        get_client_id_def demo_client_def)
  have app: "get_moonlight_app_by_id demo_rest_config ''17'' = Some demo_app"
    by (simp add: get_moonlight_app_by_id_def get_moonlight_profile_def demo_rest_config_def demo_app_def)
  obtain st' replies where l: "launch demo_rest_env demo_random demo_rest_config demo_client demo_launch st = (st', replies, False)"
    using s demo_reply [of launch_resume demo_launch s]
    by (auto simp: launch_def resume_def demo_launch_headers app run sid need_def Let_def)
  from relaunch_resumes [OF inv run demo_launch_headers(1) _ l] app l inv show ?thesis
    by fastforce
qed

end
