(* ===== verification/Rtsp.thy ===== *)
theory Rtsp
  imports App_State "HOL-Library.Char_ord" "HOL-Library.List_Lexorder"
begin

section \<open>RTSP: moonlight-protocol/rtsp/parser.hpp, moonlight-server/rtsp\<close>

text \<open>
  The negotiation of a stream: the messages and their text, the commands (DESCRIBE, SETUP,
  ANNOUNCE, ...), the choice of the session a request belongs to, and the read loop of a
  connection. A \<open>std::map\<close> of strings is its entries in the order of the keys, the order in which
  they are printed. The parser of a message is a parameter here; Rtsp_Parser has its grammar.
  Commands return their reply and the events they fire, or why they do not: an exception, which the
  server catches, or undefined behaviour, taken as the end of the process.
\<close>

subsection \<open>Messages (parser.hpp)\<close>

datatype PACKET_KIND = REQUEST | RESPONSE
datatype TARGET_TYPE = TARGET_URI | TARGET_STREAM

record URI =
  uri_protocol :: string
  uri_ip :: string
  uri_port :: u16

record STREAM =
  st_type :: string
  st_params :: string

record RTSP_REQUEST =
  rq_cmd :: string
  rq_target :: TARGET_TYPE
  rq_uri :: URI
  rq_stream :: STREAM

record RTSP_RESPONSE =
  rp_status_code :: u16
  rp_msg :: string

type_synonym string_map = "(string \<times> string) list"

record RTSP_PACKET =
  pk_type :: PACKET_KIND
  pk_seq_number :: int
  pk_request :: RTSP_REQUEST
  pk_response :: RTSP_RESPONSE
  pk_options :: string_map
  pk_payloads :: "(string \<times> string) list"

fun map_put :: "string \<Rightarrow> string \<Rightarrow> string_map \<Rightarrow> string_map" where
  "map_put k v [] = [(k, v)]"
| "map_put k v ((k', v') # m) =
     (if k < k' then (k, v) # (k', v') # m else if k = k' then (k, v) # m else (k', v') # map_put k v m)"

definition crlf :: string where
  "crlf = [char_of (13 :: nat), char_of (10 :: nat)]"

definition packet_text :: "RTSP_PACKET \<Rightarrow> string" where
  "packet_text pkt =
     (case pk_type pkt of
        REQUEST \<Rightarrow>
          rq_cmd (pk_request pkt) @ '' '' @
          (case rq_target (pk_request pkt) of
             TARGET_URI \<Rightarrow>
               uri_protocol (rq_uri (pk_request pkt)) @ ''://'' @ uri_ip (rq_uri (pk_request pkt)) @ '':'' @
               dec (unat (uri_port (rq_uri (pk_request pkt))))
           | TARGET_STREAM \<Rightarrow>
               ''streamid='' @ st_type (rq_stream (pk_request pkt)) @ st_params (rq_stream (pk_request pkt))) @
          '' RTSP/1.0''
      | RESPONSE \<Rightarrow>
          ''RTSP/1.0 '' @ dec (unat (rp_status_code (pk_response pkt))) @ '' '' @ rp_msg (pk_response pkt)) @
     crlf @ ''CSeq: '' @ dec_int (pk_seq_number pkt) @
     concat (map (\<lambda>(k, v). crlf @ k @ '': '' @ v) (pk_options pkt)) @ crlf @ crlf @
     concat (map (\<lambda>(k, v). if k = [] then v @ crlf else k @ ''='' @ v @ crlf) (pk_payloads pkt))"

subsection \<open>Replies (commands.hpp)\<close>

definition no_request :: RTSP_REQUEST where
  "no_request = \<lparr>rq_cmd = [], rq_target = TARGET_URI, rq_uri = \<lparr>uri_protocol = [], uri_ip = [], uri_port = 0\<rparr>,
     rq_stream = \<lparr>st_type = [], st_params = []\<rparr>\<rparr>"

definition error_msg :: "u16 \<Rightarrow> string \<Rightarrow> int \<Rightarrow> RTSP_PACKET" where
  "error_msg status_code msg sequence_number =
     \<lparr>pk_type = RESPONSE, pk_seq_number = sequence_number, pk_request = no_request,
      pk_response = \<lparr>rp_status_code = status_code, rp_msg = msg\<rparr>, pk_options = [], pk_payloads = []\<rparr>"

definition ok_msg :: "int \<Rightarrow> string_map \<Rightarrow> (string \<times> string) list \<Rightarrow> RTSP_PACKET" where
  "ok_msg sequence_number options payloads =
     \<lparr>pk_type = RESPONSE, pk_seq_number = sequence_number, pk_request = no_request,
      pk_response = \<lparr>rp_status_code = 200, rp_msg = ''OK''\<rparr>, pk_options = options, pk_payloads = payloads\<rparr>"

subsection \<open>DESCRIBE\<close>

fun speaker_value :: "Speakers \<Rightarrow> nat" where
  "speaker_value FRONT_LEFT = 0"
| "speaker_value FRONT_RIGHT = 1"
| "speaker_value FRONT_CENTER = 2"
| "speaker_value LOW_FREQUENCY = 3"
| "speaker_value BACK_LEFT = 4"
| "speaker_value BACK_RIGHT = 5"
| "speaker_value SIDE_LEFT = 6"
| "speaker_value SIDE_RIGHT = 7"

definition opus_mapping :: "AudioMode \<Rightarrow> Speakers list" where
  "opus_mapping m =
     (if am_channels m = 6
      then [FRONT_LEFT, FRONT_RIGHT, BACK_LEFT, BACK_RIGHT, FRONT_CENTER, LOW_FREQUENCY]
      else if am_channels m = 8
      then [FRONT_LEFT, FRONT_RIGHT, BACK_LEFT, BACK_RIGHT, FRONT_CENTER, LOW_FREQUENCY, SIDE_LEFT, SIDE_RIGHT]
      else am_speakers m)"

definition announced_mapping :: "AudioMode \<Rightarrow> Speakers list" where
  "announced_mapping m =
     (let mapping_p = opus_mapping m
      in if am_channels m > 2 then take 3 mapping_p @ rotate1 (drop 3 mapping_p) else mapping_p)"

definition surround_params :: "AudioMode \<Rightarrow> string" where
  "surround_params m =
     ''fmtp:97 surround-params='' @ dec_int (am_channels m) @ dec_int (am_streams m) @
     dec_int (am_coupled_streams m) @ map (\<lambda>s. char_of (speaker_value s + 48)) (announced_mapping m)"

definition describe :: "RTSP_PACKET \<Rightarrow> StreamSession \<Rightarrow> RTSP_PACKET" where
  "describe req session =
     ok_msg (pk_seq_number req) []
       ((if dm_hevc_supported (ss_display_mode session) then [([], ''sprop-parameter-sets=AAAAAU'')] else []) @
        (if dm_av1_supported (ss_display_mode session) then [(''a'', ''a=rtpmap:98 AV1/90000'')] else []) @
        map (\<lambda>m. (''a'', surround_params m)) AUDIO_CONFIGURATIONS @
        [(''a'', ''x-ss-general.featureFlags: 3'')])"

subsection \<open>SETUP\<close>

definition ping_payload :: "StreamSession \<Rightarrow> string" where
  "ping_payload session = bytes_str (ss_rtp_secret_payload session)"

definition server_port :: "u16 \<Rightarrow> string" where
  "server_port p = ''server_port='' @ dec (unat p)"

definition setup_options :: string_map where
  "setup_options = [(''Session'', ''DEADBEEFCAFE;timeout = 90'')]"

definition setup_stream :: "RTSP_PACKET \<Rightarrow> StreamSession \<Rightarrow> RTSP_PACKET" where
  "setup_stream req session =
     (let type = st_type (rq_stream (pk_request req));
          h = hash type
      in if h = hash ''audio''
         then ok_msg (pk_seq_number req)
           (map_put ''X-SS-Ping-Payload'' (ping_payload session)
             (map_put ''Transport'' (server_port (ss_audio_stream_port session)) setup_options)) []
         else if h = hash ''video''
         then ok_msg (pk_seq_number req)
           (map_put ''X-SS-Ping-Payload'' (ping_payload session)
             (map_put ''Transport'' (server_port (ss_video_stream_port session)) setup_options)) []
         else if h = hash ''control''
         then ok_msg (pk_seq_number req)
           (map_put ''X-SS-Connect-Data'' (dec (unat (ss_enet_secret_payload session)))
             (map_put ''Transport'' (server_port (ss_control_stream_port session)) setup_options)) []
         else error_msg 404 ''NOT FOUND'' (pk_seq_number req))"

subsection \<open>ANNOUNCE\<close>

text \<open>An argument that must be there is an exception (\<open>value\<close> of an empty optional). The first piece of an
  empty line and the application of a session without one are no exceptions: the vector has no first
  element and the pointer is null, and looking at them is undefined.\<close>

datatype rtsp_error = Missing_argument | Undefined_no_piece | Undefined_no_application

text \<open>A line with two pieces has the value of the second one, when it is a number.\<close>

definition parse_arg_line :: "string \<Rightarrow> rtsp_error + string \<times> int option" where
  "parse_arg_line line =
     (case split_str line (CHR '':'') of
        [] \<Rightarrow> Inl Undefined_no_piece
      | k # _ \<Rightarrow>
          Inr (k, (case split_data line (CHR '':'') of
                     [_, v] \<Rightarrow> (case stoi v of Inr n \<Rightarrow> Some n | Inl _ \<Rightarrow> None)
                   | _ \<Rightarrow> None)))"

type_synonym args = "(string \<times> int option) list"

primrec parse_args :: "(string \<times> string) list \<Rightarrow> rtsp_error + args" where
  "parse_args [] = Inr []"
| "parse_args (l # ls) =
     (if fst l \<noteq> ''a'' then parse_args ls
      else (case parse_arg_line (snd l) of
              Inl e \<Rightarrow> Inl e
            | Inr a \<Rightarrow> map_sum id ((#) a) (parse_args ls)))"

text \<open>The first line of a name counts, as inserting into the map does.\<close>

definition arg :: "args \<Rightarrow> string \<Rightarrow> int option" where
  "arg as k = Option.bind (map_of as k) (\<lambda>v. v)"

definition arg_or :: "args \<Rightarrow> string \<Rightarrow> int \<Rightarrow> int" where
  "arg_or as k d = (case arg as k of Some v \<Rightarrow> v | None \<Rightarrow> d)"

definition cdiv :: "int \<Rightarrow> int \<Rightarrow> int" where
  "cdiv a b = sgn a * (\<bar>a\<bar> div b)"

text \<open>The bitrate: \<open>fec_scale b\<close> is \<open>b\<close> divided by \<open>100.f / (100 - fec_percentage)\<close> in
  single precision and truncated; the rest is integer arithmetic on \<open>long\<close>.\<close>

definition fec_percentage :: int where
  "fec_percentage = 20"

definition adjust_bitrate :: "(int \<Rightarrow> int) \<Rightarrow> int \<Rightarrow> int \<Rightarrow> int" where
  "adjust_bitrate fec_scale configured audio_channels =
     (let b1 = (if fec_percentage \<le> 80 then fec_scale configured else configured);
          b2 = b1 - min (96 * audio_channels) (cdiv b1 5)
      in b2 - min 500 (cdiv b2 10))"

definition color_space_of :: "int \<Rightarrow> ColorSpace" where
  "color_space_of csc =
     (let v = drop_bit 1 csc
      in if v = 0 then BT601 else if v = 1 then BT709 else if v = 2 then BT2020 else Other_space v)"

definition video_pipeline :: "args \<Rightarrow> App \<Rightarrow> string" where
  "video_pipeline as app =
     (let fmt = arg_or as ''x-nv-vqos[0].bitStreamFormat'' 0
      in if fmt = 2 then app_av1_gst_pipeline app
         else if fmt = 1 then app_hevc_gst_pipeline app else app_h264_gst_pipeline app)"

definition audio_channels_of :: "args \<Rightarrow> StreamSession \<Rightarrow> int" where
  "audio_channels_of as session = arg_or as ''x-nv-audio.surround.numChannels'' (ss_audio_channel_count session)"

definition bitrate_of :: "(int \<Rightarrow> int) \<Rightarrow> args \<Rightarrow> StreamSession \<Rightarrow> int" where
  "bitrate_of fec_scale as session =
     (case arg as ''x-ml-video.configuredBitrateKbps'' of
        Some configured \<Rightarrow> adjust_bitrate fec_scale configured (audio_channels_of as session)
      | None \<Rightarrow> arg_or as ''x-nv-vqos[0].bw.maximumBitrateKbps'' 15500)"

definition video_session :: "(int \<Rightarrow> int) \<Rightarrow> args \<Rightarrow> StreamSession \<Rightarrow> App \<Rightarrow> int \<times> int \<times> int \<Rightarrow> VideoSession" where
  "video_session fec_scale as session app mode3 =
     (let csc = arg_or as ''x-nv-video[0].encoderCscMode'' 0
      in \<lparr>vs_display_mode = mode3, vs_gst_pipeline = video_pipeline as app, vs_render_node = app_render_node app,
          vs_session_id = ss_session_id session, vs_port = ss_video_stream_port session,
          vs_timeout_ms = arg_or as ''x-nv-video[0].timeoutLengthMs'' 7000, vs_wait_for_ping = True,
          vs_packet_size = arg_or as ''x-nv-video[0].packetSize'' 1392,
          vs_frames_with_invalid_ref_threshold = arg_or as ''x-nv-video[0].framesWithInvalidRefThreshold'' 0,
          vs_fec_percentage = fec_percentage,
          vs_min_required_fec_packets = arg_or as ''x-nv-vqos[0].fec.minRequiredFecPackets'' 2,
          vs_bitrate_kbps = bitrate_of fec_scale as session,
          vs_slices_per_frame = arg_or as ''x-nv-video[0].videoEncoderSlicesPerFrame'' 1,
          vs_color_range = (if csc AND 1 \<noteq> 0 then JPEG else MPEG), vs_color_space = color_space_of csc,
          vs_client_ip = ss_ip session, vs_rtp_secret_payload = ss_rtp_secret_payload session\<rparr>)"

definition audio_session :: "args \<Rightarrow> StreamSession \<Rightarrow> App \<Rightarrow> AudioSession" where
  "audio_session as session app =
     \<lparr>as_gst_pipeline = app_opus_gst_pipeline app, as_session_id = ss_session_id session,
      as_encrypt_audio = (arg_or as ''x-nv-general.featureFlags'' 167 AND 0x20 \<noteq> 0),
      as_aes_key = ss_aes_key session, as_aes_iv = ss_aes_iv session, as_port = ss_audio_stream_port session,
      as_wait_for_ping = True, as_client_ip = ss_ip session, as_rtp_secret_payload = ss_rtp_secret_payload session,
      as_packet_duration = arg_or as ''x-nv-aqos.packetDuration'' 5,
      as_audio_mode = get_audio_mode (audio_channels_of as session)\<rparr>"

definition announce ::
    "(int \<Rightarrow> int) \<Rightarrow> RTSP_PACKET \<Rightarrow> StreamSession \<Rightarrow> rtsp_error + RTSP_PACKET \<times> bus_event list" where
  "announce fec_scale req session =
     (case parse_args (pk_payloads req) of
        Inl e \<Rightarrow> Inl e
      | Inr as \<Rightarrow>
          (case (arg as ''x-nv-video[0].clientViewportWd'', arg as ''x-nv-video[0].clientViewportHt'',
                 arg as ''x-nv-video[0].maxFPS'') of
             (Some w, Some h, Some fps) \<Rightarrow>
               (case ss_app session of
                  None \<Rightarrow> Inl Undefined_no_application
                | Some app \<Rightarrow>
                    Inr (ok_msg (pk_seq_number req) [] [],
                      [VideoSessionEvent (video_session fec_scale as session app (w, h, fps)),
                       AudioSessionEvent (audio_session as session app)]))
           | _ \<Rightarrow> Inl Missing_argument))"

subsection \<open>Dispatch\<close>

definition message_handler ::
    "(int \<Rightarrow> int) \<Rightarrow> RTSP_PACKET \<Rightarrow> StreamSession \<Rightarrow> rtsp_error + RTSP_PACKET \<times> bus_event list" where
  "message_handler fec_scale req session =
     (let h = hash (rq_cmd (pk_request req))
      in if h = hash ''OPTIONS'' then Inr (ok_msg (pk_seq_number req) [] [], [])
         else if h = hash ''DESCRIBE'' then Inr (describe req session, [])
         else if h = hash ''SETUP'' then Inr (setup_stream req session, [])
         else if h = hash ''ANNOUNCE'' then announce fec_scale req session
         else if h = hash ''PLAY'' then Inr (ok_msg (pk_seq_number req) [] [], [])
         else Inr (error_msg 404 ''NOT FOUND'' (pk_seq_number req), []))"

subsection \<open>A connection (net.hpp)\<close>

fun pick_session :: "string \<Rightarrow> string \<Rightarrow> string \<Rightarrow> StreamSession list \<Rightarrow> StreamSession option" where
  "pick_session host_option uri user_ip [] = None"
| "pick_session host_option uri user_ip (session # sessions) =
     (if ss_rtsp_fake_ip session = uri \<or> host_option = ss_rtsp_fake_ip session then Some session
      else if (host_option = ''0.0.0.0'' \<or> host_option = []) \<and> ss_ip session = user_ip then Some session
      else pick_session host_option uri user_ip sessions)"

definition get_session :: "StreamSession list \<Rightarrow> RTSP_PACKET \<Rightarrow> string \<Rightarrow> StreamSession option" where
  "get_session sessions packet user_ip =
     (let host_option = (case map_of (pk_options packet) ''Host'' of Some h \<Rightarrow> h | None \<Rightarrow> [])
      in pick_session host_option (uri_ip (rq_uri (pk_request packet))) user_ip sessions)"

text \<open>\<open>std::string::find\<close> of a text, from a position on.\<close>

fun find_text :: "string \<Rightarrow> string \<Rightarrow> nat option" where
  "find_text pat [] = (if pat = [] then Some 0 else None)"
| "find_text pat (c # cs) =
     (if take (length pat) (c # cs) = pat then Some 0 else map_option Suc (find_text pat cs))"

definition find_from :: "string \<Rightarrow> string \<Rightarrow> nat \<Rightarrow> nat option" where
  "find_from pat s i = map_option ((+) i) (find_text pat (drop i s))"

text \<open>
  Whether the message is still incomplete: the number after \<open>Content-length: \<close>, the position of
  the end of its line and the two characters of the line break are added up as \<open>size_t\<close>;
  \<open>npos\<close> is its largest value.
\<close>

definition content_length :: string where
  "content_length = ''Content-length: ''"

definition needs_more :: "string \<Rightarrow> num_error + bool" where
  "needs_more full_raw_msg =
     (case find_from content_length full_raw_msg 0 of
        None \<Rightarrow> Inr False
      | Some p \<Rightarrow>
          let content_length_pos = p + 16;
              line_end = find_from crlf full_raw_msg content_length_pos;
              total_length_str = (case line_end of
                  None \<Rightarrow> drop content_length_pos full_raw_msg
                | Some e \<Rightarrow> take (e - content_length_pos) (drop content_length_pos full_raw_msg))
          in map_sum id (\<lambda>n. of_nat (length full_raw_msg) <
                 (of_int n + (case line_end of None \<Rightarrow> -1 | Some e \<Rightarrow> of_nat e) + 2 :: u64))
               (stoi total_length_str))"

text \<open>What a read of the socket yields: data, the expiry of the deadline, or an error.\<close>

datatype socket_read = Data string | Expired | Broken

datatype received = Waiting string | Bad_transmission | Bad_length | Message string

fun receive_message :: "string \<Rightarrow> socket_read list \<Rightarrow> received" where
  "receive_message prev_read [] = Waiting prev_read"
| "receive_message prev_read (r # rs) =
     (if r = Broken then Bad_transmission
      else let full_raw_msg = prev_read @ (case r of Data m \<Rightarrow> m | _ \<Rightarrow> [])
           in case needs_more full_raw_msg of
                Inl _ \<Rightarrow> Bad_length
              | Inr True \<Rightarrow> receive_message full_raw_msg rs
              | Inr False \<Rightarrow> Message full_raw_msg)"

text \<open>How a connection ends: the text of the reply and whether the socket is closed after it,
  closed without reply, waiting for more, unwound by an exception, or with the process.\<close>

datatype connection = Replied string bool "bus_event list" | Closed | Open_waiting | Unwound | Crashed

definition failed_with :: "rtsp_error \<Rightarrow> connection" where
  "failed_with e = (if e = Missing_argument then Unwound else Crashed)"

definition bad_request :: string where
  "bad_request = packet_text (error_msg 400 ''BAD REQUEST'' 0)"

definition start_connection ::
    "(int \<Rightarrow> int) \<Rightarrow> (string \<Rightarrow> RTSP_PACKET option) \<Rightarrow> StreamSession list \<Rightarrow> string option \<Rightarrow> socket_read list \<Rightarrow>
     connection" where
  "start_connection fec_scale parse sessions remote reads =
     (case remote of
        None \<Rightarrow> Closed
      | Some user_ip \<Rightarrow>
          (case receive_message [] reads of
             Waiting _ \<Rightarrow> Open_waiting
           | Bad_transmission \<Rightarrow> Replied bad_request False []
           | Bad_length \<Rightarrow> Unwound
           | Message m \<Rightarrow>
               (case parse m of
                  None \<Rightarrow> Replied bad_request True []
                | Some msg \<Rightarrow>
                    (case get_session sessions msg user_ip of
                       None \<Rightarrow> Closed
                     | Some session \<Rightarrow>
                         (case message_handler fec_scale msg session of
                            Inl e \<Rightarrow> failed_with e
                          | Inr (response, evs) \<Rightarrow> Replied (packet_text response) True evs)))))"

subsection \<open>Lemmas\<close>

lemma find_text_fits: "find_text pat s = Some n \<Longrightarrow> n + length pat \<le> length s"
proof (induction s arbitrary: n)
  case (Cons c cs)
  show ?case
  proof (cases "take (length pat) (c # cs) = pat")
    case True
    then have "length pat = min (length (c # cs)) (length pat)" by (metis length_take)
    then have "length pat \<le> length (c # cs)" by linarith
    with True Cons.prems show ?thesis by simp
  next
    case False
    with Cons show ?thesis by auto
  qed
qed (auto split: if_splits)

lemma find_text_append: "find_text pat s = Some n \<Longrightarrow> find_text pat (s @ t) = Some n"
proof (induction s arbitrary: n)
  case Nil
  then show ?case by (cases t) (auto split: if_splits)
next
  case (Cons c cs)
  note fits = find_text_fits [OF Cons.prems]
  show ?case
  proof (cases "take (length pat) (c # cs) = pat")
    case True
    with fits Cons.prems show ?thesis by (cases pat) auto
  next
    case False
    with Cons.prems obtain m where m: "find_text pat cs = Some m" "n = Suc m" by auto
    with fits False have "take (length pat) ((c # cs) @ t) \<noteq> pat" by (cases "length pat") auto
    with Cons.IH [OF m(1)] m(2) show ?thesis by simp
  qed
qed

lemma find_crlf_digits: "(\<And>c. c \<in> set ds \<Longrightarrow> is_digit c) \<Longrightarrow> find_text crlf (ds @ crlf @ r) = Some (length ds)"
proof (induction ds)
  case Nil
  then show ?case by (simp add: crlf_def)
next
  case (Cons d ds)
  then have "is_digit d" by simp
  then have "d \<noteq> char_of (13 :: nat)" by (auto simp: is_digit_def)
  with Cons show ?case by (simp add: crlf_def)
qed

lemma cdiv_nonneg: "0 \<le> a \<Longrightarrow> cdiv a b = a div b"
  by (cases "a = 0") (simp_all add: cdiv_def)

text \<open>Taking off at most a part of a rate.\<close>

lemma reduced_rate:
  fixes a :: int
  assumes "0 \<le> a" "0 \<le> cap" "0 < d"
  shows "0 \<le> a - min cap (a div d)" "a - min cap (a div d) \<le> a" "(d - 1) * a \<le> d * (a - min cap (a div d))"
proof -
  have "0 \<le> a mod d" using assms(3) by simp
  then have q: "0 \<le> a div d" "d * (a div d) \<le> a"
    using assms minus_mod_eq_mult_div [of a d] by (simp add: pos_imp_zdiv_nonneg_iff, linarith)
  then have "a div d \<le> a"
    using assms(3) mult_right_mono [of 1 d "a div d"] by simp
  with q assms(2) show "0 \<le> a - min cap (a div d)" "a - min cap (a div d) \<le> a" by auto
  have "d * min cap (a div d) \<le> d * (a div d)" using assms(3) by simp
  with q show "(d - 1) * a \<le> d * (a - min cap (a div d))" by (simp add: algebra_simps)
qed

lemma adjust_bitrate_bounds:
  assumes "fec_scale configured = 4 * configured div 5" "0 \<le> configured" "0 \<le> audio_channels"
  shows "0 \<le> adjust_bitrate fec_scale configured audio_channels \<and>
    5 * adjust_bitrate fec_scale configured audio_channels \<le> 4 * configured \<and>
    576 * configured - 720 \<le> 1000 * adjust_bitrate fec_scale configured audio_channels"
proof -
  define b1 where "b1 = 4 * configured div 5"
  define b2 where "b2 = b1 - min (96 * audio_channels) (b1 div 5)"
  have b1: "0 \<le> b1" "5 * b1 \<le> 4 * configured" "4 * configured - 4 \<le> 5 * b1"
    using assms(2) by (auto simp: b1_def)
  note b2 = reduced_rate [OF b1(1), of "96 * audio_channels" 5, folded b2_def]
  have "0 \<le> b2" using b2(1) assms(3) by simp
  note b3 = reduced_rate [OF this, of 500 10]
  have r: "adjust_bitrate fec_scale configured audio_channels = b2 - min 500 (b2 div 10)"
    using b1(1) \<open>0 \<le> b2\<close> assms(1)
    by (simp add: adjust_bitrate_def fec_percentage_def b1_def [symmetric] cdiv_nonneg b2_def Let_def)
  show ?thesis unfolding r using b1 b2 b3 assms(3) by simp
qed

text \<open>Which sessions a request names: by a fake address that is in its URI or its \<open>Host\<close> option, or by
  the address of its peer when the option is missing, empty or \<open>0.0.0.0\<close>. A missing option reads as an
  empty one, so that it also names a session whose fake address is empty.\<close>

definition names_session :: "RTSP_PACKET \<Rightarrow> string \<Rightarrow> StreamSession \<Rightarrow> bool" where
  "names_session msg peer_ip s \<longleftrightarrow>
     ss_rtsp_fake_ip s = uri_ip (rq_uri (pk_request msg)) \<or>
     (case map_of (pk_options msg) ''Host'' of
        Some host \<Rightarrow> ss_rtsp_fake_ip s = host \<or> host \<in> {[], ''0.0.0.0''} \<and> ss_ip s = peer_ip
      | None \<Rightarrow> ss_rtsp_fake_ip s = [] \<or> ss_ip s = peer_ip)"

lemma pick_session_first:
  "pick_session h u ip sessions = Some s \<Longrightarrow>
     \<exists>before after. sessions = before @ s # after \<and>
       (\<forall>t \<in> set before. \<not> (ss_rtsp_fake_ip t = u \<or> h = ss_rtsp_fake_ip t \<or> (h = ''0.0.0.0'' \<or> h = []) \<and> ss_ip t = ip)) \<and>
       (ss_rtsp_fake_ip s = u \<or> h = ss_rtsp_fake_ip s \<or> (h = ''0.0.0.0'' \<or> h = []) \<and> ss_ip s = ip)"
proof (induction sessions)
  case (Cons t ts)
  show ?case
  proof (cases "ss_rtsp_fake_ip t = u \<or> h = ss_rtsp_fake_ip t \<or> (h = ''0.0.0.0'' \<or> h = []) \<and> ss_ip t = ip")
    case True
    with Cons.prems have "s = t" by (auto split: if_splits)
    with True show ?thesis by (intro exI [of _ "[]"] exI [of _ ts]) auto
  next
    case False
    with Cons.prems have "pick_session h u ip ts = Some s" by (auto split: if_splits)
    from Cons.IH [OF this] obtain before after where "ts = before @ s # after"
      "\<forall>t \<in> set before. \<not> (ss_rtsp_fake_ip t = u \<or> h = ss_rtsp_fake_ip t \<or> (h = ''0.0.0.0'' \<or> h = []) \<and> ss_ip t = ip)"
      "ss_rtsp_fake_ip s = u \<or> h = ss_rtsp_fake_ip s \<or> (h = ''0.0.0.0'' \<or> h = []) \<and> ss_ip s = ip" by blast
    with False show ?thesis by (intro exI [of _ "t # before"] exI [of _ after]) simp
  qed
qed simp

lemma get_session_first:
  assumes "get_session sessions msg ip = Some s"
  shows "\<exists>before after. sessions = before @ s # after \<and> (\<forall>t \<in> set before. \<not> names_session msg ip t) \<and> names_session msg ip s"
proof -
  let ?h = "case map_of (pk_options msg) ''Host'' of Some h \<Rightarrow> h | None \<Rightarrow> []" and ?u = "uri_ip (rq_uri (pk_request msg))"
  have names: "names_session msg ip t \<longleftrightarrow>
      ss_rtsp_fake_ip t = ?u \<or> ?h = ss_rtsp_fake_ip t \<or> (?h = ''0.0.0.0'' \<or> ?h = []) \<and> ss_ip t = ip" for t
    by (cases "map_of (pk_options msg) ''Host''") (auto simp: names_session_def)
  have "pick_session ?h ?u ip sessions = Some s" using assms by (simp add: get_session_def Let_def)
  from pick_session_first [OF this] show ?thesis unfolding names .
qed

lemma announce_events:
  "announce f req session = Inr (resp, evs) \<Longrightarrow>
     \<exists>as app m. evs = [VideoSessionEvent (video_session f as session app m), AudioSessionEvent (audio_session as session app)] \<and>
       ss_app session = Some app \<and> resp = ok_msg (pk_seq_number req) [] []"
  by (auto simp: announce_def split: sum.splits option.splits)

lemma message_handler_events:
  "\<lbrakk>message_handler f req session = Inr (resp, evs); evs \<noteq> []\<rbrakk> \<Longrightarrow> announce f req session = Inr (resp, evs)"
  by (auto simp: message_handler_def Let_def split: if_splits)

subsection \<open>A concrete negotiation\<close>

definition demo_running :: StreamSession where
  "demo_running = demo_session\<lparr>ss_app := Some demo_app\<rparr>"

definition demo_announce :: RTSP_PACKET where
  "demo_announce = \<lparr>pk_type = REQUEST, pk_seq_number = 6, pk_request = no_request\<lparr>rq_cmd := ''ANNOUNCE''\<rparr>,
     pk_response = \<lparr>rp_status_code = 0, rp_msg = []\<rparr>, pk_options = [(''Host'', ''0.0.0.0'')],
     pk_payloads = [(''v'', ''0''), (''a'', ''x-nv-video[0].clientViewportWd:1920''),
       (''a'', ''x-nv-video[0].clientViewportHt:1080''), (''a'', ''x-nv-video[0].maxFPS:60'')]\<rparr>"

lemma demo_args:
  "parse_args (pk_payloads demo_announce) = Inr [(''x-nv-video[0].clientViewportWd'', Some 1920),
     (''x-nv-video[0].clientViewportHt'', Some 1080), (''x-nv-video[0].maxFPS'', Some 60)]"
  by (simp add: demo_announce_def parse_arg_line_def split_str_def split_data_def split_tails.simps stoi_def
      read_number_def is_space_def is_digit_def undec_def digit_val_def)

lemma demo_announced:
  "\<exists>resp evs. message_handler (\<lambda>b. b) demo_announce demo_running = Inr (resp, evs) \<and> evs \<noteq> []"
proof -
  have "hash ''ANNOUNCE'' \<notin> {hash ''OPTIONS'', hash ''DESCRIBE'', hash ''SETUP''}" by code_simp
  moreover have "rq_cmd (pk_request demo_announce) = ''ANNOUNCE''" by (simp add: demo_announce_def)
  ultimately show ?thesis
    by (simp add: message_handler_def Let_def announce_def demo_args arg_def demo_running_def)
qed

lemma demo_read: "receive_message [] [Data ''ANNOUNCE''] = Message ''ANNOUNCE''"
  by (simp add: needs_more_def find_from_def content_length_def)

lemma demo_found: "get_session [demo_running] demo_announce ''192.168.1.9'' = Some demo_running"
  by (simp add: get_session_def demo_announce_def demo_running_def demo_session_def no_request_def Let_def)

subsection \<open>Properties\<close>

text \<open>C35: what a connection starts belongs to the session that the request names. When a message makes
  the server fire events, they are exactly one video and one audio session, both of the first running
  session that the request names: by a fake address in its URI or its \<open>Host\<close> option, or by the address of
  the peer, which only counts when the option is missing, empty or \<open>0.0.0.0\<close> (\<open>names_session\<close>). Their
  identifier, ports, client address, ping secret and keys are that session's.\<close>
theorem connection_serves_named_session:
  assumes "start_connection f parse sessions (Some ip) reads = Replied reply closed evs" "evs \<noteq> []"
  shows "\<exists>m msg before s after v a. receive_message [] reads = Message m \<and> parse m = Some msg \<and>
    sessions = before @ s # after \<and> names_session msg ip s \<and> (\<forall>t \<in> set before. \<not> names_session msg ip t) \<and>
    evs = [VideoSessionEvent v, AudioSessionEvent a] \<and>
    vs_session_id v = ss_session_id s \<and> as_session_id a = ss_session_id s \<and>
    vs_port v = ss_video_stream_port s \<and> as_port a = ss_audio_stream_port s \<and>
    vs_client_ip v = ss_ip s \<and> as_client_ip a = ss_ip s \<and>
    vs_rtp_secret_payload v = ss_rtp_secret_payload s \<and> as_rtp_secret_payload a = ss_rtp_secret_payload s \<and>
    as_aes_key a = ss_aes_key s \<and> as_aes_iv a = ss_aes_iv s"
proof -
  obtain m msg s resp where c: "receive_message [] reads = Message m" "parse m = Some msg"
    "get_session sessions msg ip = Some s" "message_handler f msg s = Inr (resp, evs)"
    using assms by (auto simp: start_connection_def failed_with_def split: received.splits option.splits sum.splits if_splits)
  from announce_events [OF message_handler_events [OF c(4) assms(2)]]
  obtain as app md where e: "evs = [VideoSessionEvent (video_session f as s app md), AudioSessionEvent (audio_session as s app)]"
    by blast
  obtain before after where "sessions = before @ s # after" "\<forall>t \<in> set before. \<not> names_session msg ip t" "names_session msg ip s"
    using get_session_first [OF c(3)] by blast
  with c e show ?thesis
    by (intro exI [of _ m] exI [of _ msg] exI [of _ before] exI [of _ s] exI [of _ after]
        exI [of _ "video_session f as s app md"] exI [of _ "audio_session as s app"])
      (simp add: video_session_def audio_session_def Let_def)
qed

theorem connection_serves_named_session_witness:
  "\<exists>reply evs v a. start_connection (\<lambda>b. b) (\<lambda>_. Some demo_announce) [demo_running] (Some ''192.168.1.9'')
       [Data ''ANNOUNCE''] = Replied reply True evs \<and> evs = [VideoSessionEvent v, AudioSessionEvent a] \<and>
     vs_session_id v = 42 \<and> as_session_id a = 42"
proof -
  obtain resp evs where h: "message_handler (\<lambda>b. b) demo_announce demo_running = Inr (resp, evs)" "evs \<noteq> []"
    using demo_announced by blast
  have start: "start_connection (\<lambda>b. b) (\<lambda>_. Some demo_announce) [demo_running] (Some ''192.168.1.9'')
      [Data ''ANNOUNCE''] = Replied (packet_text resp) True evs"
    by (simp add: start_connection_def demo_read demo_found h del: receive_message.simps)
  from connection_serves_named_session [OF this h(2)] obtain before s after v a where
    c: "[demo_running] = before @ s # after" "evs = [VideoSessionEvent v, AudioSessionEvent a]"
      "vs_session_id v = ss_session_id s" "as_session_id a = ss_session_id s" by blast
  then have "s = demo_running" by (cases before) auto
  with c start show ?thesis by (auto simp: demo_running_def demo_session_def)
qed

text \<open>a bitrate chosen by the client is respected: for every non-negative number of channels, the
  encoder is given a non-negative rate which, with the 20 percent of error correction on top, does
  not exceed the choice, and never less than 57.6 percent of it (less a rounding).\<close>
theorem bitrate_within_choice:
  assumes "fec_scale configured = 4 * configured div 5" "0 \<le> configured" "0 \<le> audio_channels_of as session"
    and "arg as ''x-ml-video.configuredBitrateKbps'' = Some configured"
  shows "0 \<le> bitrate_of fec_scale as session \<and> 5 * bitrate_of fec_scale as session \<le> 4 * configured \<and>
    576 * configured - 720 \<le> 1000 * bitrate_of fec_scale as session"
  using adjust_bitrate_bounds [where fec_scale = fec_scale, OF assms(1-3)] assms(4) by (simp add: bitrate_of_def)

theorem bitrate_within_choice_witness:
  "bitrate_of (\<lambda>b. 4 * b div 5) [(''x-ml-video.configuredBitrateKbps'', Some 20000)] demo_session = 15308 \<and>
   5 * bitrate_of (\<lambda>b. 4 * b div 5) [(''x-ml-video.configuredBitrateKbps'', Some 20000)] demo_session \<le> 4 * 20000"
proof
  let ?as = "[(''x-ml-video.configuredBitrateKbps'', Some (20000 :: int))]"
  have ch: "audio_channels_of ?as demo_session = 2" by code_simp
  have key: "arg ?as ''x-ml-video.configuredBitrateKbps'' = Some 20000" by code_simp
  show "bitrate_of (\<lambda>b. 4 * b div 5) ?as demo_session = 15308"
    by (simp only: bitrate_of_def key ch option.case) code_simp
  show "5 * bitrate_of (\<lambda>b. 4 * b div 5) ?as demo_session \<le> 4 * 20000"
    using bitrate_within_choice [of "\<lambda>b. 4 * b div 5" 20000 ?as demo_session] ch key by simp
qed

text \<open>the read loop stops too early. Of a message whose last header is \<open>Content-length\<close>, it waits for
  more exactly while three or more characters are missing: the blank line that ends the headers is
  counted as payload, so that a message whose last one or two characters have not arrived is handed
  to the parser without them, although the loop is documented to go on until the payload has the
  announced size.\<close>
theorem payload_cut_by_two:
  assumes "find_text content_length (hdr @ content_length) = Some (length hdr)"
    and full: "full = hdr @ content_length @ dec (length payload) @ crlf @ crlf @ payload"
    and "length full < 2 ^ 31" "k \<le> length payload"
  shows "receive_message [] [Data (take (length full - k) full)] =
    (if k \<le> 2 then Message (take (length full - k) full) else Waiting (take (length full - k) full))"
proof -
  let ?ds = "dec (length payload)"
  define m where "m = take (length full - k) full"
  define p where "p = take (length payload - k) payload"
  define e where "e = length hdr + 16 + length ?ds"
  have m: "m = (hdr @ content_length) @ ?ds @ crlf @ crlf @ p"
    using assms(4) by (simp add: m_def full p_def)
  have len: "length m = e + 4 + length payload - k" "length p = length payload - k"
    using assms(4) by (simp_all add: m e_def p_def crlf_def content_length_def)
  have pos: "find_from content_length m 0 = Some (length hdr)"
    using find_text_append [OF assms(1)] by (simp add: find_from_def m)
  have rest: "drop (length hdr + 16) m = ?ds @ crlf @ crlf @ p"
    by (simp add: m content_length_def)
  have eol: "find_from crlf m (length hdr + 16) = Some e"
    using find_crlf_digits [of ?ds "crlf @ p"] dec_digits by (simp add: find_from_def rest e_def)
  have small: "length payload < 2 ^ 31" "e + 2 + length payload < 2 ^ 31" "length m < 2 ^ 31"
    using assms(3) len by (simp_all add: full e_def crlf_def content_length_def)
  have "needs_more m = Inr ((of_nat (length m) :: u64) < of_nat (length payload) + of_nat e + 2)"
    using small by (simp add: needs_more_def pos eol rest Let_def) (simp add: e_def ac_simps)
  also have "(of_nat (length m) :: u64) < of_nat (length payload) + of_nat e + 2 \<longleftrightarrow>
      (of_nat (length m) :: u64) < of_nat (length payload + e + 2)" by (simp add: ac_simps)
  also have "\<dots> \<longleftrightarrow> length m < length payload + e + 2"
    using small by (simp only: word_less_nat_alt unsigned_of_nat) (simp add: take_bit_nat_eq_self)
  also have "\<dots> \<longleftrightarrow> \<not> k \<le> 2" using len assms(4) by auto
  finally show ?thesis unfolding m_def [symmetric] by simp
qed

theorem payload_cut_by_two_witness:
  "\<exists>full. full = (''CSeq: 6'' @ crlf) @ content_length @ dec (length ''v=0x'') @ crlf @ crlf @ ''v=0x'' \<and>
     receive_message [] [Data (take (length full - 2) full)] = Message (take (length full - 2) full)"
proof (intro exI conjI)
  let ?full = "(''CSeq: 6'' @ crlf) @ content_length @ dec (length ''v=0x'') @ crlf @ crlf @ ''v=0x''"
  have four: "dec (length ''v=0x'') = ''4''" by code_simp
  have "find_text content_length ((''CSeq: 6'' @ crlf) @ content_length) = Some (length (''CSeq: 6'' @ crlf))"
    by code_simp
  moreover have "length ?full < 2 ^ 31" unfolding four by (simp add: crlf_def content_length_def)
  ultimately show "receive_message [] [Data (take (length ?full - 2) ?full)] = Message (take (length ?full - 2) ?full)"
    using payload_cut_by_two [of "''CSeq: 6'' @ crlf" ?full "''v=0x''" 2, OF _ refl] by (simp only: if_True) simp
qed (rule refl)

end
