(* ===== verification/Rtsp_Parser.thy ===== *)
theory Rtsp_Parser
  imports Rtsp
begin

section \<open>Reading RTSP messages: the grammar of moonlight-protocol/rtsp/parser.hpp\<close>

text \<open>
  The grammar of \<open>parse\<close> rule by rule, the handlers that fill the packet, and \<open>parse\<close> itself. The
  interpreter of the grammar, cpp-peglib, is a parameter: it says whether a text matches and which
  handlers it calls, with the token and the values of the parts. What the theorems rely on is its
  documented behaviour for this grammar, which it accepts (\<open>follows_peg\<close>): an ordered choice takes the first
  alternative that matches, repetitions are greedy, blanks are skipped after every literal and token,
  the whole text must match, and a handler is called as soon as its rule matches, even when the
  attempt that needed it fails later.
\<close>

subsection \<open>Grammars\<close>

text \<open>A class of characters has its ranges and whether the case is ignored.\<close>

type_synonym char_class = "bool \<times> (char \<times> char) list"

datatype peg =
    Lit string
  | Cls char_class
  | Dot
  | Seq peg peg
  | Alt peg peg
  | Star peg
  | Opt peg
  | Tok peg
  | Named bool string peg

definition plus_of :: "peg \<Rightarrow> peg" where
  "plus_of p = Seq p (Star p)"

definition one :: "char \<Rightarrow> char \<times> char" where
  "one c = (c, c)"

definition letters :: char_class where "letters = (True, [(CHR ''a'', CHR ''z'')])"
definition digits :: char_class where "digits = (False, [(CHR ''0'', CHR ''9'')])"
definition digits_dot :: char_class where "digits_dot = (False, [(CHR ''0'', CHR ''9''), one CHR ''.''])"
definition digits_slash :: char_class where "digits_slash = (False, [(CHR ''0'', CHR ''9''), one CHR ''/''])"
definition msg_chars :: char_class where
  "msg_chars = (False, [(CHR ''a'', CHR ''z''), (CHR ''A'', CHR ''Z''), one CHR '' ''])"
definition key_chars :: char_class where
  "key_chars = (False, [(CHR ''a'', CHR ''z''), (CHR ''A'', CHR ''Z''), (CHR ''0'', CHR ''9''), one CHR ''-'', one CHR ''_''])"
definition opt_chars :: char_class where
  "opt_chars = (False, [(CHR ''a'', CHR ''z''), (CHR ''A'', CHR ''Z''), (CHR ''0'', CHR ''9'')] @ map one ''-_./;=, :'')"
definition pay_chars :: char_class where
  "pay_chars = (False, [(CHR ''a'', CHR ''z''), (CHR ''A'', CHR ''Z''), (CHR ''0'', CHR ''9'')] @
     map one (''-_./[]'' @ [CHR 0x5C] @ '':  =''))"

subsection \<open>The grammar\<close>

text \<open>\<open>Named False\<close> is a rule that gives its value to the rule it is part of, \<open>Named True\<close> one that is
  marked with a tilde and does not.\<close>

definition CR :: peg where "CR = Named False ''CR'' (Lit [CHR 0x0D])"
definition LF_RULE :: peg where "LF_RULE = Named False ''LF'' (Lit [CHR 0x0A])"
definition ENDLINE :: peg where "ENDLINE = Named True ''ENDLINE'' (Seq (Opt CR) LF_RULE)"
definition RUBBISH :: peg where "RUBBISH = Named False ''RUBBISH'' (Tok (plus_of Dot))"

definition CMD :: peg where "CMD = Named False ''CMD'' (Tok (plus_of (Cls letters)))"

definition RESPONSECODE :: peg where "RESPONSECODE = Named False ''RESPONSECODE'' (Tok (plus_of (Cls digits)))"
definition RESPONSEMSG :: peg where "RESPONSEMSG = Named False ''RESPONSEMSG'' (Tok (plus_of (Cls msg_chars)))"

definition STREAMTYPE :: peg where "STREAMTYPE = Named False ''STREAMTYPE'' (Tok (plus_of (Cls letters)))"
definition STREAMPARAMS :: peg where "STREAMPARAMS = Named False ''STREAMPARAMS'' (Tok (plus_of (Cls digits_slash)))"
definition STREAM_RULE :: peg where
  "STREAM_RULE = Named False ''STREAM'' (Seq (plus_of (Cls letters)) (Seq (Lit ''='') (Seq STREAMTYPE STREAMPARAMS)))"

definition PROTOCOL :: peg where "PROTOCOL = Named False ''PROTOCOL'' (Tok (plus_of (Cls letters)))"
definition IP :: peg where "IP = Named False ''IP'' (Tok (plus_of (Cls digits_dot)))"
definition PORT :: peg where "PORT = Named False ''PORT'' (Tok (plus_of (Cls digits)))"
definition URI_RULE :: peg where
  "URI_RULE = Named False ''URI'' (Seq PROTOCOL (Seq (Lit ''://'') (Seq (Opt IP) (Seq (Lit '':'') PORT))))"
definition TARGET :: peg where "TARGET = Named False ''TARGET'' (Alt URI_RULE (Alt STREAM_RULE (Lit ''/'')))"

definition FPROTOCOL :: peg where "FPROTOCOL = Named False ''FPROTOCOL'' (Tok (plus_of (Cls letters)))"
definition FVERSION :: peg where "FVERSION = Named False ''FVERSION'' (Tok (plus_of (Cls digits_dot)))"
definition FULLPROTOCOL :: peg where
  "FULLPROTOCOL = Named True ''FULLPROTOCOL'' (Seq FPROTOCOL (Seq (Lit ''/'') FVERSION))"

definition CSEQ :: peg where
  "CSEQ = Named False ''CSEQ'' (Seq (Lit ''CSeq:'') (Seq (Tok (plus_of (Cls digits_dot))) (Opt ENDLINE)))"

definition OPTKEY :: peg where "OPTKEY = Named False ''OPTKEY'' (Tok (plus_of (Cls key_chars)))"
definition OPTVAL :: peg where "OPTVAL = Named False ''OPTVAL'' (Alt (Tok (plus_of (Cls opt_chars))) (Lit []))"
definition OPTION :: peg where
  "OPTION = Named False ''OPTION'' (Seq OPTKEY (Seq (Lit '':'') (Seq OPTVAL (Opt ENDLINE))))"

definition PAYLOADKEY :: peg where "PAYLOADKEY = Named False ''PAYLOADKEY'' (Tok (plus_of (Cls key_chars)))"
definition PAYLOADVAL :: peg where "PAYLOADVAL = Named False ''PAYLOADVAL'' (Alt (Tok (plus_of (Cls pay_chars))) (Lit []))"
definition PAYLOAD :: peg where
  "PAYLOAD = Named False ''PAYLOAD'' (Seq PAYLOADKEY (Seq (Lit ''='') (Seq PAYLOADVAL (Opt ENDLINE))))"

definition RTSPREQUEST :: peg where
  "RTSPREQUEST = Named False ''RTSPREQUEST'' (Seq CMD (Seq TARGET FULLPROTOCOL))"
definition RTSPRESPONSE :: peg where
  "RTSPRESPONSE = Named False ''RTSPRESPONSE'' (Seq FULLPROTOCOL (Seq RESPONSECODE RESPONSEMSG))"
definition RTSP :: peg where
  "RTSP = Named False ''RTSP'' (Seq (Alt RTSPREQUEST RTSPRESPONSE) (Seq ENDLINE (Seq CSEQ (Seq (Star OPTION)
     (Seq (Opt ENDLINE) (Seq (Star PAYLOAD) (Opt RUBBISH)))))))"

subsection \<open>Handlers\<close>

text \<open>The call of a handler: the name of its rule, the token, and the values of the parts.\<close>

type_synonym call = "string \<times> string \<times> string option list"

text \<open>\<open>pl_number\<close> is \<open>token_to_number\<close> for a type with the given largest value.\<close>

record peglib =
  pl_parse :: "peg \<Rightarrow> (string \<Rightarrow> string \<Rightarrow> string option) \<Rightarrow> string \<Rightarrow> bool \<times> call list"
  pl_number :: "int \<Rightarrow> string \<Rightarrow> int"

text \<open>What a handler returns, as a value for the rule above.\<close>

definition returned :: "string \<Rightarrow> string \<Rightarrow> string option" where
  "returned name token =
     (if name \<in> set [''OPTKEY'', ''OPTVAL'', ''PAYLOADKEY'', ''PAYLOADVAL''] then Some token else None)"

definition no_packet :: RTSP_PACKET where
  "no_packet = \<lparr>pk_type = REQUEST, pk_seq_number = 0, pk_request = no_request,
     pk_response = \<lparr>rp_status_code = 0, rp_msg = []\<rparr>, pk_options = [], pk_payloads = []\<rparr>"

abbreviation upd_request :: "(RTSP_REQUEST \<Rightarrow> RTSP_REQUEST) \<Rightarrow> RTSP_PACKET \<Rightarrow> RTSP_PACKET" where
  "upd_request f pkt \<equiv> pkt\<lparr>pk_request := f (pk_request pkt)\<rparr>"

abbreviation upd_uri :: "(URI \<Rightarrow> URI) \<Rightarrow> RTSP_PACKET \<Rightarrow> RTSP_PACKET" where
  "upd_uri f pkt \<equiv> upd_request (\<lambda>r. r\<lparr>rq_uri := f (rq_uri r)\<rparr>) pkt"

abbreviation upd_stream :: "(STREAM \<Rightarrow> STREAM) \<Rightarrow> RTSP_PACKET \<Rightarrow> RTSP_PACKET" where
  "upd_stream f pkt \<equiv> upd_request (\<lambda>r. r\<lparr>rq_stream := f (rq_stream r)\<rparr>) pkt"

text \<open>\<open>any_cast\<close> throws when a part has no value of the type.\<close>

definition two_strings :: "string option list \<Rightarrow> (string \<times> string) option" where
  "two_strings vs = (case vs of Some key # Some val # _ \<Rightarrow> Some (key, val) | _ \<Rightarrow> None)"

definition handler :: "peglib \<Rightarrow> call \<Rightarrow> RTSP_PACKET \<Rightarrow> RTSP_PACKET option" where
  "handler lib c pkt =
     (case c of (name, token, vs) \<Rightarrow>
        if name = ''RTSPREQUEST'' then Some (pkt\<lparr>pk_type := REQUEST\<rparr>)
        else if name = ''RTSPRESPONSE'' then Some (pkt\<lparr>pk_type := RESPONSE\<rparr>)
        else if name = ''RESPONSECODE''
        then Some (pkt\<lparr>pk_response := pk_response pkt\<lparr>rp_status_code := of_int (pl_number lib 65535 token)\<rparr>\<rparr>)
        else if name = ''RESPONSEMSG'' then Some (pkt\<lparr>pk_response := pk_response pkt\<lparr>rp_msg := token\<rparr>\<rparr>)
        else if name = ''CMD'' then Some (upd_request (\<lambda>r. r\<lparr>rq_cmd := token\<rparr>) pkt)
        else if name = ''CSEQ'' then Some (pkt\<lparr>pk_seq_number := pl_number lib 2147483647 token\<rparr>)
        else if name = ''STREAM'' then Some (upd_request (\<lambda>r. r\<lparr>rq_target := TARGET_STREAM\<rparr>) pkt)
        else if name = ''STREAMTYPE'' then Some (upd_stream (\<lambda>s. s\<lparr>st_type := token\<rparr>) pkt)
        else if name = ''STREAMPARAMS'' then Some (upd_stream (\<lambda>s. s\<lparr>st_params := token\<rparr>) pkt)
        else if name = ''URI'' then Some (upd_request (\<lambda>r. r\<lparr>rq_target := TARGET_URI\<rparr>) pkt)
        else if name = ''PROTOCOL'' then Some (upd_uri (\<lambda>u. u\<lparr>uri_protocol := token\<rparr>) pkt)
        else if name = ''IP'' then Some (upd_uri (\<lambda>u. u\<lparr>uri_ip := token\<rparr>) pkt)
        else if name = ''PORT'' then Some (upd_uri (\<lambda>u. u\<lparr>uri_port := of_int (pl_number lib 65535 token)\<rparr>) pkt)
        else if name = ''OPTION''
        then map_option (\<lambda>(key, val). pkt\<lparr>pk_options := map_put key val (pk_options pkt)\<rparr>) (two_strings vs)
        else if name = ''PAYLOAD''
        then map_option (\<lambda>(key, val). pkt\<lparr>pk_payloads := pk_payloads pkt @ [(key, val)]\<rparr>) (two_strings vs)
        else Some pkt)"

primrec run_handlers :: "peglib \<Rightarrow> call list \<Rightarrow> RTSP_PACKET \<Rightarrow> RTSP_PACKET option" where
  "run_handlers lib [] pkt = Some pkt"
| "run_handlers lib (c # cs) pkt = Option.bind (handler lib c pkt) (run_handlers lib cs)"

text \<open>\<open>Inl ()\<close> is the exception of a cast, \<open>Inr None\<close> a text that is no message.\<close>

definition parse :: "peglib \<Rightarrow> string \<Rightarrow> unit + RTSP_PACKET option" where
  "parse lib msg =
     (let (matched, calls) = pl_parse lib RTSP returned msg
      in case run_handlers lib calls no_packet of
           None \<Rightarrow> Inl ()
         | Some pkt \<Rightarrow> Inr (if matched then Some pkt else None))"

subsection \<open>What the documentation of cpp-peglib says of such a grammar\<close>

text \<open>The outcome of an attempt: the rest of the text, the tokens and values found, and the handlers
  called on the way, those of an attempt that failed included.\<close>

datatype outcome_of =
    Fails "call list"
  | Reads string "string list" "string option list" "call list"

definition blank :: "char \<Rightarrow> bool" where
  "blank c \<longleftrightarrow> c = CHR '' '' \<or> c = CHR 0x09"

definition skip_ws :: "string \<Rightarrow> string" where
  "skip_ws s = dropWhile blank s"

definition lower_case :: "char \<Rightarrow> char" where
  "lower_case c = (if CHR ''A'' \<le> c \<and> c \<le> CHR ''Z'' then char_of (of_char c + 32 :: nat) else c)"

definition in_ranges :: "(char \<times> char) list \<Rightarrow> char \<Rightarrow> bool" where
  "in_ranges rs c \<longleftrightarrow> list_ex (\<lambda>(a, b). a \<le> c \<and> c \<le> b) rs"

definition in_class :: "char_class \<Rightarrow> char \<Rightarrow> bool" where
  "in_class cl c \<longleftrightarrow> in_ranges (snd cl) (if fst cl then lower_case c else c)"

fun after :: "string list \<Rightarrow> string option list \<Rightarrow> call list \<Rightarrow> outcome_of \<Rightarrow> outcome_of" where
  "after ts vs cs (Fails cs') = Fails (cs @ cs')"
| "after ts vs cs (Reads s ts' vs' cs') = Reads s (ts @ ts') (vs @ vs') (cs @ cs')"

text \<open>A repetition ends where the part does not match or reads nothing; a text has no more parts than
  characters.\<close>

primrec repeat_at_most :: "nat \<Rightarrow> (string \<Rightarrow> outcome_of) \<Rightarrow> string \<Rightarrow> outcome_of" where
  "repeat_at_most 0 p s = Reads s [] [] []"
| "repeat_at_most (Suc n) p s =
     (case p s of
        Fails cs \<Rightarrow> Reads s [] [] cs
      | Reads s' ts vs cs \<Rightarrow>
          if length s' < length s then after ts vs cs (repeat_at_most n p s') else Reads s' ts vs cs)"

text \<open>The token of a rule is the one between angle brackets in it, or all that it matched.\<close>

definition call_of :: "bool \<Rightarrow> string \<Rightarrow> (string \<Rightarrow> string \<Rightarrow> string option) \<Rightarrow> string \<Rightarrow> outcome_of \<Rightarrow> outcome_of" where
  "call_of hidden name ret s res =
     (case res of
        Fails cs \<Rightarrow> Fails cs
      | Reads s' ts vs cs \<Rightarrow>
          let token = (case ts of t # _ \<Rightarrow> t | [] \<Rightarrow> take (length s - length s') s)
          in Reads s' [] (if hidden then [] else [ret name token]) (cs @ [(name, token, vs)]))"

primrec run :: "(string \<Rightarrow> string \<Rightarrow> string option) \<Rightarrow> peg \<Rightarrow> bool \<Rightarrow> string \<Rightarrow> outcome_of" where
  "run ret (Lit l) in_token s =
     (if take (length l) s = l
      then Reads (if in_token then drop (length l) s else skip_ws (drop (length l) s)) [] [] [] else Fails [])"
| "run ret (Cls cl) in_token s =
     (case s of c # s' \<Rightarrow> if in_class cl c then Reads s' [] [] [] else Fails [] | [] \<Rightarrow> Fails [])"
| "run ret Dot in_token s = (case s of c # s' \<Rightarrow> Reads s' [] [] [] | [] \<Rightarrow> Fails [])"
| "run ret (Seq p q) in_token s =
     (case run ret p in_token s of Fails cs \<Rightarrow> Fails cs | Reads s' ts vs cs \<Rightarrow> after ts vs cs (run ret q in_token s'))"
| "run ret (Alt p q) in_token s =
     (case run ret p in_token s of Fails cs \<Rightarrow> after [] [] cs (run ret q in_token s) | Reads s' ts vs cs \<Rightarrow> Reads s' ts vs cs)"
| "run ret (Star p) in_token s = repeat_at_most (Suc (length s)) (run ret p in_token) s"
| "run ret (Opt p) in_token s =
     (case run ret p in_token s of Fails cs \<Rightarrow> Reads s [] [] cs | Reads s' ts vs cs \<Rightarrow> Reads s' ts vs cs)"
| "run ret (Tok p) in_token s =
     (case run ret p True s of
        Fails cs \<Rightarrow> Fails cs
      | Reads s' ts vs cs \<Rightarrow>
          Reads (if in_token then s' else skip_ws s') (ts @ [take (length s - length s') s]) vs cs)"
| "run ret (Named hidden name p) in_token s = call_of hidden name ret s (run ret p in_token s)"

definition peg_parse :: "peg \<Rightarrow> (string \<Rightarrow> string \<Rightarrow> string option) \<Rightarrow> string \<Rightarrow> bool \<times> call list" where
  "peg_parse g ret msg =
     (case run ret g False (skip_ws msg) of Fails cs \<Rightarrow> (False, cs) | Reads s ts vs cs \<Rightarrow> (s = [], cs))"

definition ascii :: "char \<Rightarrow> bool" where
  "ascii c \<longleftrightarrow> (of_char c :: nat) < 128"

text \<open>Texts with other characters are not covered: there a character is several bytes. A token of digits
  is read as its number when that fits.\<close>

definition follows_peg :: "peglib \<Rightarrow> bool" where
  "follows_peg lib \<longleftrightarrow>
     (\<forall>msg. (\<forall>c\<in>set msg. ascii c) \<longrightarrow> pl_parse lib RTSP returned msg = peg_parse RTSP returned msg) \<and>
     (\<forall>n max. int n \<le> max \<longrightarrow> pl_number lib max (dec n) = int n)"

subsection \<open>Reading tokens\<close>

fun stops :: "char_class \<Rightarrow> string \<Rightarrow> bool" where
  "stops cl [] \<longleftrightarrow> True"
| "stops cl (c # cs) \<longleftrightarrow> \<not> in_class cl c"

definition over :: "char_class \<Rightarrow> string \<Rightarrow> bool" where
  "over cl x \<longleftrightarrow> list_all (in_class cl) x"

lemma repeat_class:
  "over cl x \<Longrightarrow> stops cl r \<Longrightarrow> length x < n \<Longrightarrow>
     repeat_at_most n (run ret (Cls cl) b) (x @ r) = Reads r [] [] []"
proof (induction x arbitrary: n)
  case Nil
  then obtain m where "n = Suc m" by (cases n) auto
  with Nil show ?case by (cases r) (auto simp: over_def)
next
  case (Cons c x)
  then obtain m where "n = Suc m" "length x < m" by (cases n) auto
  with Cons show ?case by (simp add: over_def)
qed

lemma run_plus:
  "over cl x \<Longrightarrow> x \<noteq> [] \<Longrightarrow> stops cl r \<Longrightarrow> run ret (plus_of (Cls cl)) b (x @ r) = Reads r [] [] []"
  by (cases x) (auto simp: plus_of_def over_def repeat_class simp del: repeat_at_most.simps)

lemma run_plus_stops: "stops cl r \<Longrightarrow> run ret (plus_of (Cls cl)) b r = Fails []"
  by (cases r) (auto simp: plus_of_def)

lemma run_tok:
  "over cl x \<Longrightarrow> x \<noteq> [] \<Longrightarrow> stops cl r \<Longrightarrow>
     run ret (Tok (plus_of (Cls cl))) False (x @ r) = Reads (skip_ws r) [x] [] []"
  by (simp add: run_plus)

lemma run_tok_stops: "stops cl r \<Longrightarrow> run ret (Tok (plus_of (Cls cl))) False r = Fails []"
  by (simp add: run_plus_stops)

subsection \<open>What an attempt reads, and what its handlers do to the packet\<close>

definition gives ::
    "peglib \<Rightarrow> peg \<Rightarrow> string \<Rightarrow> string \<Rightarrow> string list \<Rightarrow> string option list \<Rightarrow> (RTSP_PACKET \<Rightarrow> RTSP_PACKET) \<Rightarrow> bool" where
  "gives lib p s r ts vs f \<longleftrightarrow>
     (\<exists>cs. run returned p False s = Reads r ts vs cs \<and> (\<forall>pkt. run_handlers lib cs pkt = Some (f pkt)))"

definition refuses :: "peglib \<Rightarrow> peg \<Rightarrow> string \<Rightarrow> (RTSP_PACKET \<Rightarrow> RTSP_PACKET) \<Rightarrow> bool" where
  "refuses lib p s f \<longleftrightarrow>
     (\<exists>cs. run returned p False s = Fails cs \<and> (\<forall>pkt. run_handlers lib cs pkt = Some (f pkt)))"

lemma handlers_append [simp]: "run_handlers lib (cs @ ds) pkt = Option.bind (run_handlers lib cs pkt) (run_handlers lib ds)"
proof (induction cs arbitrary: pkt)
  case (Cons c cs)
  then show ?case by (cases "handler lib c pkt") simp_all
qed simp

lemma givesI: "run returned p False s = Reads r ts vs [] \<Longrightarrow> gives lib p s r ts vs (\<lambda>pkt. pkt)"
  by (simp add: gives_def)

lemma refusesI: "run returned p False s = Fails [] \<Longrightarrow> refuses lib p s (\<lambda>pkt. pkt)"
  by (simp add: refuses_def)

lemma gives_seq:
  "\<lbrakk>gives lib p s s1 ts vs f; gives lib q s1 s2 ts' vs' g\<rbrakk> \<Longrightarrow>
     gives lib (Seq p q) s s2 (ts @ ts') (vs @ vs') (\<lambda>pkt. g (f pkt))"
  by (force simp: gives_def)

lemma refuses_seq1: "refuses lib p s f \<Longrightarrow> refuses lib (Seq p q) s f"
  by (force simp: refuses_def)

lemma refuses_seq2:
  "\<lbrakk>gives lib p s s1 ts vs f; refuses lib q s1 g\<rbrakk> \<Longrightarrow> refuses lib (Seq p q) s (\<lambda>pkt. g (f pkt))"
  by (force simp: gives_def refuses_def)

lemma gives_alt1: "gives lib p s r ts vs f \<Longrightarrow> gives lib (Alt p q) s r ts vs f"
  by (force simp: gives_def)

lemma gives_alt2:
  "\<lbrakk>refuses lib p s f; gives lib q s r ts vs g\<rbrakk> \<Longrightarrow> gives lib (Alt p q) s r ts vs (\<lambda>pkt. g (f pkt))"
  by (force simp: gives_def refuses_def)

lemma refuses_alt:
  "\<lbrakk>refuses lib p s f; refuses lib q s g\<rbrakk> \<Longrightarrow> refuses lib (Alt p q) s (\<lambda>pkt. g (f pkt))"
  by (force simp: refuses_def)

lemma gives_opt: "gives lib p s r ts vs f \<Longrightarrow> gives lib (Opt p) s r ts vs f"
  by (force simp: gives_def)

lemma gives_no_opt: "refuses lib p s f \<Longrightarrow> gives lib (Opt p) s s [] [] f"
  by (force simp: gives_def refuses_def)

lemma gives_star_end: "refuses lib p s f \<Longrightarrow> gives lib (Star p) s s [] [] f"
  by (force simp: gives_def refuses_def)

text \<open>More parts than characters change nothing.\<close>

lemma repeat_enough:
  "\<lbrakk>length s < n; length s < m\<rbrakk> \<Longrightarrow> repeat_at_most n p s = repeat_at_most m p s"
proof (induction n arbitrary: m s)
  case (Suc n)
  then obtain m' where m: "m = Suc m'" "length s \<le> m'" "length s \<le> n" by (cases m) auto
  then have "length s' < length s \<Longrightarrow> repeat_at_most n p s' = repeat_at_most m' p s'" for s'
    by (intro Suc.IH) simp_all
  with m(1) show ?case by (simp split: outcome_of.split)
qed simp

lemma run_star_more:
  assumes "run ret p b s = Reads s' ts vs cs" "length s' < length s"
  shows "run ret (Star p) b s = after ts vs cs (run ret (Star p) b s')"
  using assms repeat_enough [of s' "length s" "Suc (length s')"] by simp

lemma gives_star_more:
  "\<lbrakk>gives lib p s s1 ts vs f; length s1 < length s; gives lib (Star p) s1 s2 ts' vs' g\<rbrakk> \<Longrightarrow>
     gives lib (Star p) s s2 (ts @ ts') (vs @ vs') (\<lambda>pkt. g (f pkt))"
  unfolding gives_def
  by (elim exE conjE) (simp only: run_star_more after.simps, simp)

definition token_of :: "string \<Rightarrow> string \<Rightarrow> string list \<Rightarrow> string" where
  "token_of s s' ts = (case ts of t # _ \<Rightarrow> t | [] \<Rightarrow> take (length s - length s') s)"

lemma token_of_Cons [simp]: "token_of s s' (t # ts) = t"
  by (simp add: token_of_def)

lemma gives_named:
  "\<lbrakk>gives lib p s r ts vs f; \<And>pkt. handler lib (name, token_of s r ts, vs) pkt = Some (g pkt)\<rbrakk> \<Longrightarrow>
     gives lib (Named hidden name p) s r [] (if hidden then [] else [returned name (token_of s r ts)]) (\<lambda>pkt. g (f pkt))"
  unfolding gives_def by (elim exE conjE) (simp add: call_of_def Let_def token_of_def [symmetric])

lemma refuses_named: "refuses lib p s f \<Longrightarrow> refuses lib (Named hidden name p) s f"
  by (force simp: refuses_def call_of_def)

lemma gives_tok:
  "\<lbrakk>over cl x; x \<noteq> []; stops cl r\<rbrakk> \<Longrightarrow> gives lib (Tok (plus_of (Cls cl))) (x @ r) (skip_ws r) [x] [] (\<lambda>pkt. pkt)"
  by (intro givesI run_tok)

lemma refuses_tok: "stops cl r \<Longrightarrow> refuses lib (Tok (plus_of (Cls cl))) r (\<lambda>pkt. pkt)"
  by (intro refusesI run_tok_stops)

lemma gives_lit: "gives lib (Lit l) (l @ r) (skip_ws r) [] [] (\<lambda>pkt. pkt)"
  by (simp add: givesI)

lemma refuses_lit: "take (length l) s \<noteq> l \<Longrightarrow> refuses lib (Lit l) s (\<lambda>pkt. pkt)"
  by (simp add: refusesI)

lemma gives_chars:
  "\<lbrakk>over cl x; x \<noteq> []; stops cl r\<rbrakk> \<Longrightarrow> gives lib (plus_of (Cls cl)) (x @ r) r [] [] (\<lambda>pkt. pkt)"
  by (intro givesI run_plus)

lemma refuses_chars: "stops cl r \<Longrightarrow> refuses lib (plus_of (Cls cl)) r (\<lambda>pkt. pkt)"
  by (intro refusesI run_plus_stops)

lemmas class_defs = in_class_def in_ranges_def lower_case_def one_def less_eq_char_def letters_def digits_def digits_dot_def
  digits_slash_def msg_chars_def key_chars_def opt_chars_def pay_chars_def

lemma skip_ws_simps [simp]: "skip_ws [] = []" "\<not> blank c \<Longrightarrow> skip_ws (c # s) = c # s" "skip_ws (CHR '' '' # s) = skip_ws s"
  by (simp_all add: skip_ws_def blank_def)

definition no_blanks :: "char_class \<Rightarrow> bool" where
  "no_blanks cl \<longleftrightarrow> \<not> in_class cl (CHR '' '') \<and> \<not> in_class cl (CHR 0x09)"

lemma skip_ws_word [simp]:
  "\<lbrakk>over cl x; no_blanks cl; x \<noteq> [] \<or> skip_ws r = r\<rbrakk> \<Longrightarrow> skip_ws (x @ r) = x @ r"
  by (cases x) (auto simp: over_def no_blanks_def skip_ws_def blank_def)

lemma classes_no_blanks [simp]:
  "no_blanks letters" "no_blanks digits" "no_blanks digits_dot" "no_blanks digits_slash" "no_blanks key_chars"
  by (simp_all add: no_blanks_def class_defs)

lemma digit_classes: "is_digit c \<Longrightarrow> in_class digits c" "is_digit c \<Longrightarrow> in_class digits_dot c"
  by (simp_all add: is_digit_def class_defs)

lemma over_dec [simp]: "over digits (dec n)" "over digits_dot (dec n)"
  using dec_digits by (auto simp: over_def list_all_iff digit_classes)

lemma skip_ws_dec [simp]: "skip_ws (dec n @ r) = dec n @ r"
  by (rule skip_ws_word [OF over_dec(1)]) simp_all

subsection \<open>The rules of tokens\<close>

lemma gives_token:
  "\<lbrakk>over cl x; x \<noteq> []; stops cl r; \<And>pkt. handler lib (name, x, []) pkt = Some (g pkt);
     vs = (if hidden then [] else [returned name x])\<rbrakk> \<Longrightarrow>
     gives lib (Named hidden name (Tok (plus_of (Cls cl)))) (x @ r) (skip_ws r) [] vs g"
  using gives_named [OF gives_tok [of cl x r lib], of name g hidden] by (cases hidden) simp_all

lemma refuses_token: "stops cl r \<Longrightarrow> refuses lib (Named hidden name (Tok (plus_of (Cls cl)))) r (\<lambda>pkt. pkt)"
  by (intro refuses_named refuses_tok)

lemma gives_CMD:
  "\<lbrakk>over letters x; x \<noteq> []; stops letters r\<rbrakk> \<Longrightarrow>
     gives lib CMD (x @ r) (skip_ws r) [] [None] (upd_request (\<lambda>r. r\<lparr>rq_cmd := x\<rparr>))"
  unfolding CMD_def by (rule gives_token) (simp_all add: handler_def returned_def)

lemma gives_PROTOCOL:
  "\<lbrakk>over letters x; x \<noteq> []; stops letters r\<rbrakk> \<Longrightarrow>
     gives lib PROTOCOL (x @ r) (skip_ws r) [] [None] (upd_uri (\<lambda>u. u\<lparr>uri_protocol := x\<rparr>))"
  unfolding PROTOCOL_def by (rule gives_token) (simp_all add: handler_def returned_def)

lemma gives_IP:
  "\<lbrakk>over digits_dot x; x \<noteq> []; stops digits_dot r\<rbrakk> \<Longrightarrow>
     gives lib IP (x @ r) (skip_ws r) [] [None] (upd_uri (\<lambda>u. u\<lparr>uri_ip := x\<rparr>))"
  unfolding IP_def by (rule gives_token) (simp_all add: handler_def returned_def)

lemma gives_PORT:
  "\<lbrakk>follows_peg lib; n \<le> 65535; stops digits r\<rbrakk> \<Longrightarrow>
     gives lib PORT (dec n @ r) (skip_ws r) [] [None] (upd_uri (\<lambda>u. u\<lparr>uri_port := of_nat n\<rparr>))"
  unfolding PORT_def by (rule gives_token) (simp_all add: handler_def returned_def follows_peg_def)

lemma gives_STREAMTYPE:
  "\<lbrakk>over letters x; x \<noteq> []; stops letters r\<rbrakk> \<Longrightarrow>
     gives lib STREAMTYPE (x @ r) (skip_ws r) [] [None] (upd_stream (\<lambda>s. s\<lparr>st_type := x\<rparr>))"
  unfolding STREAMTYPE_def by (rule gives_token) (simp_all add: handler_def returned_def)

lemma gives_STREAMPARAMS:
  "\<lbrakk>over digits_slash x; x \<noteq> []; stops digits_slash r\<rbrakk> \<Longrightarrow>
     gives lib STREAMPARAMS (x @ r) (skip_ws r) [] [None] (upd_stream (\<lambda>s. s\<lparr>st_params := x\<rparr>))"
  unfolding STREAMPARAMS_def by (rule gives_token) (simp_all add: handler_def returned_def)

lemma gives_RESPONSECODE:
  "\<lbrakk>follows_peg lib; n \<le> 65535; stops digits r\<rbrakk> \<Longrightarrow>
     gives lib RESPONSECODE (dec n @ r) (skip_ws r) [] [None]
       (\<lambda>pkt. pkt\<lparr>pk_response := pk_response pkt\<lparr>rp_status_code := of_nat n\<rparr>\<rparr>)"
  unfolding RESPONSECODE_def by (rule gives_token) (simp_all add: handler_def returned_def follows_peg_def)

lemma gives_RESPONSEMSG:
  "\<lbrakk>over msg_chars x; x \<noteq> []; stops msg_chars r\<rbrakk> \<Longrightarrow>
     gives lib RESPONSEMSG (x @ r) (skip_ws r) [] [None] (\<lambda>pkt. pkt\<lparr>pk_response := pk_response pkt\<lparr>rp_msg := x\<rparr>\<rparr>)"
  unfolding RESPONSEMSG_def by (rule gives_token) (simp_all add: handler_def returned_def)

lemma gives_OPTKEY:
  "\<lbrakk>over key_chars x; x \<noteq> []; stops key_chars r\<rbrakk> \<Longrightarrow> gives lib OPTKEY (x @ r) (skip_ws r) [] [Some x] (\<lambda>pkt. pkt)"
  unfolding OPTKEY_def by (rule gives_token) (simp_all add: handler_def returned_def)

lemma gives_PAYLOADKEY:
  "\<lbrakk>over key_chars x; x \<noteq> []; stops key_chars r\<rbrakk> \<Longrightarrow>
     gives lib PAYLOADKEY (x @ r) (skip_ws r) [] [Some x] (\<lambda>pkt. pkt)"
  unfolding PAYLOADKEY_def by (rule gives_token) (simp_all add: handler_def returned_def)

text \<open>A value may be empty.\<close>

lemma gives_value:
  assumes "over cl x" "stops cl r" "\<And>t pkt. handler lib (name, t, []) pkt = Some pkt" "skip_ws r = r"
  shows "gives lib (Named False name (Alt (Tok (plus_of (Cls cl))) (Lit []))) (x @ r) r [] [returned name x] (\<lambda>pkt. pkt)"
proof (cases "x = []")
  case False
  with gives_named [OF gives_alt1 [OF gives_tok [OF assms(1) _ assms(2)]],
      where lib = lib and name = name and g = "\<lambda>pkt. pkt" and hidden = False] assms(3,4)
  show ?thesis by simp
next
  case True
  with gives_named [OF gives_alt2 [OF refuses_tok [OF assms(2)] gives_lit [where l = "[]", simplified]], where lib = lib and name = name and g = "\<lambda>pkt. pkt" and hidden = False]
    assms(3,4)
  show ?thesis by (simp add: token_of_def)
qed

lemma gives_OPTVAL:
  "\<lbrakk>over opt_chars x; stops opt_chars r; skip_ws r = r\<rbrakk> \<Longrightarrow> gives lib OPTVAL (x @ r) r [] [Some x] (\<lambda>pkt. pkt)"
  using gives_value [of opt_chars x r lib "''OPTVAL''"] by (simp add: OPTVAL_def handler_def returned_def)

lemma gives_PAYLOADVAL:
  "\<lbrakk>over pay_chars x; stops pay_chars r; skip_ws r = r\<rbrakk> \<Longrightarrow> gives lib PAYLOADVAL (x @ r) r [] [Some x] (\<lambda>pkt. pkt)"
  using gives_value [of pay_chars x r lib "''PAYLOADVAL''"] by (simp add: PAYLOADVAL_def handler_def returned_def)

subsection \<open>The other rules\<close>

lemma crlf_code: "crlf = [CHR 0x0D, CHR 0x0A]"
  by code_simp

lemma skip_ws_crlf [simp]: "skip_ws (crlf @ r) = crlf @ r"
  by (simp add: crlf_code blank_def)

lemma stops_crlf [simp]:
  "stops letters (crlf @ r)" "stops digits (crlf @ r)" "stops digits_dot (crlf @ r)" "stops digits_slash (crlf @ r)"
  "stops msg_chars (crlf @ r)" "stops key_chars (crlf @ r)" "stops opt_chars (crlf @ r)" "stops pay_chars (crlf @ r)"
  by (simp_all add: crlf_code class_defs)

lemma gives_ENDLINE: "gives lib ENDLINE (crlf @ r) (skip_ws r) [] [] (\<lambda>pkt. pkt)"
  by (simp add: gives_def ENDLINE_def CR_def LF_RULE_def call_of_def crlf_code blank_def handler_def Let_def)

fun no_break :: "string \<Rightarrow> bool" where
  "no_break [] \<longleftrightarrow> True"
| "no_break (c # cs) \<longleftrightarrow> c \<noteq> CHR 0x0D \<and> c \<noteq> CHR 0x0A"

lemma refuses_ENDLINE: "no_break r \<Longrightarrow> refuses lib ENDLINE r (\<lambda>pkt. pkt)"
  by (cases r) (simp_all add: refuses_def ENDLINE_def CR_def LF_RULE_def call_of_def)

lemma gives_token':
  "\<lbrakk>over cl x; x \<noteq> []; stops cl r; \<And>pkt. handler lib (name, x, []) pkt = Some (g pkt);
     vs = (if hidden then [] else [returned name x]); s = x @ r; r' = skip_ws r\<rbrakk> \<Longrightarrow>
     gives lib (Named hidden name (Tok (plus_of (Cls cl)))) s r' [] vs g"
  by (simp only:) (rule gives_token, simp_all)

lemma gives_lit': "\<lbrakk>s = l @ r; r' = skip_ws r\<rbrakk> \<Longrightarrow> gives lib (Lit l) s r' [] [] (\<lambda>pkt. pkt)"
  by (simp only: gives_lit)

lemma version_over: "over digits_dot ''1.0''"
  by (simp add: over_def class_defs)

lemma gives_FULLPROTOCOL:
  assumes "stops digits_dot r"
  shows "gives lib FULLPROTOCOL (''RTSP/1.0'' @ r) (skip_ws r) [] [] (\<lambda>pkt. pkt)"
proof -
  have p: "gives lib FPROTOCOL (''RTSP/1.0'' @ r) (''/1.0'' @ r) [] [None] (\<lambda>pkt. pkt)"
    unfolding FPROTOCOL_def
    by (rule gives_token' [where x = "''RTSP''" and r = "''/1.0'' @ r"])
      (simp_all add: handler_def returned_def over_def class_defs blank_def)
  have s: "gives lib (Lit ''/'') (''/1.0'' @ r) (''1.0'' @ r) [] [] (\<lambda>pkt. pkt)"
    by (rule gives_lit' [where r = "''1.0'' @ r"]) (simp_all add: blank_def)
  have v: "gives lib FVERSION (''1.0'' @ r) (skip_ws r) [] [None] (\<lambda>pkt. pkt)"
    unfolding FVERSION_def
    by (rule gives_token' [OF version_over _ assms]) (simp_all add: handler_def returned_def)
  show ?thesis
    using gives_named [OF gives_seq [OF p gives_seq [OF s v]], where name = "''FULLPROTOCOL''" and hidden = True]
    by (simp add: FULLPROTOCOL_def handler_def)
qed

text \<open>The address of a request.\<close>

lemma gives_URI:
  assumes "follows_peg lib" "over letters protocol" "protocol \<noteq> []" "over digits_dot ip" "n \<le> 65535" "stops digits r"
  shows "gives lib URI_RULE (protocol @ ''://'' @ ip @ '':'' @ dec n @ r) (skip_ws r) [] [None]
    (upd_request (\<lambda>rq. rq\<lparr>rq_uri := rq_uri rq\<lparr>uri_protocol := protocol,
       uri_ip := (if ip = [] then uri_ip (rq_uri rq) else ip), uri_port := of_nat n\<rparr>, rq_target := TARGET_URI\<rparr>))"
proof -
  have p: "gives lib PROTOCOL (protocol @ ''://'' @ ip @ '':'' @ dec n @ r) (''://'' @ ip @ '':'' @ dec n @ r) [] [None]
      (upd_uri (\<lambda>u. u\<lparr>uri_protocol := protocol\<rparr>))"
    using gives_PROTOCOL [OF assms(2,3), of "''://'' @ ip @ '':'' @ dec n @ r" lib] by (simp add: class_defs blank_def)
  have l: "gives lib (Lit ''://'') (''://'' @ ip @ '':'' @ dec n @ r) (ip @ '':'' @ dec n @ r) [] [] (\<lambda>pkt. pkt)"
    by (rule gives_lit' [where r = "ip @ '':'' @ dec n @ r"]) (simp_all add: skip_ws_word [OF assms(4)] blank_def)
  have i: "\<exists>vs. gives lib (Opt IP) (ip @ '':'' @ dec n @ r) ('':'' @ dec n @ r) [] vs
      (if ip = [] then (\<lambda>pkt. pkt) else upd_uri (\<lambda>u. u\<lparr>uri_ip := ip\<rparr>))"
  proof (cases "ip = []")
    case True
    have "refuses lib IP ('':'' @ dec n @ r) (\<lambda>pkt. pkt)"
      unfolding IP_def by (rule refuses_token) (simp add: class_defs)
    with True show ?thesis by (auto intro: gives_no_opt)
  next
    case False
    from gives_opt [OF gives_IP [OF assms(4) False, of "'':'' @ dec n @ r" lib]] False
    show ?thesis by (auto simp: class_defs blank_def)
  qed
  then obtain vs where i: "gives lib (Opt IP) (ip @ '':'' @ dec n @ r) ('':'' @ dec n @ r) [] vs
      (if ip = [] then (\<lambda>pkt. pkt) else upd_uri (\<lambda>u. u\<lparr>uri_ip := ip\<rparr>))" by blast
  have c: "gives lib (Lit '':'') ('':'' @ dec n @ r) (dec n @ r) [] [] (\<lambda>pkt. pkt)"
    by (rule gives_lit' [where r = "dec n @ r"]) (simp_all add: skip_ws_word [OF over_dec(1)])
  have h: "handler lib (''URI'', t, vs') pkt = Some (upd_request (\<lambda>rq. rq\<lparr>rq_target := TARGET_URI\<rparr>) pkt)" for t vs' pkt
    by (simp add: handler_def)
  show ?thesis
    using gives_named [OF gives_seq [OF p gives_seq [OF l gives_seq [OF i gives_seq [OF c
      gives_PORT [OF assms(1,5,6)]]]]] h, where hidden = False]
    by (cases "ip = []") (simp_all add: URI_RULE_def returned_def)
qed

text \<open>The stream of a request. The attempt to read it as an address has already called the handler of
  \<open>PROTOCOL\<close>.\<close>

lemma refuses_URI:
  assumes "over letters x" "x \<noteq> []"
  shows "refuses lib URI_RULE (x @ ''='' @ r) (upd_uri (\<lambda>u. u\<lparr>uri_protocol := x\<rparr>))"
proof -
  have p: "gives lib PROTOCOL (x @ ''='' @ r) (''='' @ r) [] [None] (upd_uri (\<lambda>u. u\<lparr>uri_protocol := x\<rparr>))"
    using gives_PROTOCOL [OF assms, of "''='' @ r" lib] by (simp add: class_defs blank_def)
  have "refuses lib (Lit ''://'') (''='' @ r) (\<lambda>pkt. pkt)" by (rule refuses_lit) simp
  from refuses_seq2 [OF p refuses_seq1 [OF this]] show ?thesis unfolding URI_RULE_def by (rule refuses_named)
qed

lemma letter_not_param: "in_class digits_slash c \<Longrightarrow> \<not> in_class letters c"
  by (cases c) (auto simp: class_defs)

lemma gives_STREAM:
  assumes "over letters type" "type \<noteq> []" "over digits_slash params" "params \<noteq> []" "stops digits_slash r"
  shows "gives lib STREAM_RULE (''streamid='' @ type @ params @ r) (skip_ws r) [] [None]
    (upd_request (\<lambda>rq. rq\<lparr>rq_stream := rq_stream rq\<lparr>st_type := type, st_params := params\<rparr>, rq_target := TARGET_STREAM\<rparr>))"
proof -
  have w: "over letters ''streamid''" by (simp add: over_def class_defs)
  have c: "gives lib (plus_of (Cls letters)) (''streamid='' @ type @ params @ r) (''='' @ type @ params @ r) [] [] (\<lambda>pkt. pkt)"
    using gives_chars [OF w, of "''='' @ type @ params @ r" lib] by (simp add: class_defs)
  have e: "gives lib (Lit ''='') (''='' @ type @ params @ r) (type @ params @ r) [] [] (\<lambda>pkt. pkt)"
    by (rule gives_lit' [where r = "type @ params @ r"]) (simp_all add: skip_ws_word [OF assms(1)] assms(2))
  have "stops letters (params @ r)"
    using assms(3,4) by (cases params) (auto simp: over_def letter_not_param)
  then have t: "gives lib STREAMTYPE (type @ params @ r) (params @ r) [] [None] (upd_stream (\<lambda>s. s\<lparr>st_type := type\<rparr>))"
    using gives_STREAMTYPE [OF assms(1,2), of "params @ r" lib] by (simp add: skip_ws_word [OF assms(3)] assms(4))
  have h: "handler lib (''STREAM'', t, vs') pkt = Some (upd_request (\<lambda>rq. rq\<lparr>rq_target := TARGET_STREAM\<rparr>) pkt)" for t vs' pkt
    by (simp add: handler_def)
  show ?thesis
    using gives_named [OF gives_seq [OF c gives_seq [OF e gives_seq [OF t gives_STREAMPARAMS [OF assms(3,4,5)]]]] h,
        where hidden = False]
    by (simp add: STREAM_RULE_def returned_def)
qed

text \<open>The number of a message.\<close>

lemma gives_CSEQ:
  assumes "follows_peg lib" "n \<le> 2147483647"
  shows "gives lib CSEQ (''CSeq: '' @ dec n @ crlf @ r) (skip_ws r) [] [None] (\<lambda>pkt. pkt\<lparr>pk_seq_number := int n\<rparr>)"
proof -
  have l: "gives lib (Lit ''CSeq:'') (''CSeq: '' @ dec n @ crlf @ r) (dec n @ crlf @ r) [] [] (\<lambda>pkt. pkt)"
    by (rule gives_lit' [where r = "'' '' @ dec n @ crlf @ r"]) (simp_all add: skip_ws_word [OF over_dec(1)])
  have t: "gives lib (Tok (plus_of (Cls digits_dot))) (dec n @ crlf @ r) (crlf @ r) [dec n] [] (\<lambda>pkt. pkt)"
    using gives_tok [OF over_dec(2), of n "crlf @ r" lib] by simp
  have h: "handler lib (''CSEQ'', dec n, vs) pkt = Some (pkt\<lparr>pk_seq_number := int n\<rparr>)" for vs pkt
    using assms by (simp add: handler_def follows_peg_def)
  have "gives lib (Seq (Lit ''CSeq:'') (Seq (Tok (plus_of (Cls digits_dot))) (Opt ENDLINE)))
      (''CSeq: '' @ dec n @ crlf @ r) (skip_ws r) [dec n] [] (\<lambda>pkt. pkt)"
    using gives_seq [OF l gives_seq [OF t gives_opt [OF gives_ENDLINE [of lib r]]]] by simp
  from gives_named [OF this, of "''CSEQ''" "\<lambda>pkt. pkt\<lparr>pk_seq_number := int n\<rparr>" False] h show ?thesis
    by (simp add: CSEQ_def returned_def)
qed

subsection \<open>Options and payloads\<close>

definition opt_line :: "string \<times> string \<Rightarrow> string" where
  "opt_line kv = fst kv @ '': '' @ snd kv @ crlf"

definition pay_line :: "string \<times> string \<Rightarrow> string" where
  "pay_line kv = fst kv @ ''='' @ snd kv @ crlf"

definition entry_ok :: "char_class \<Rightarrow> string \<times> string \<Rightarrow> bool" where
  "entry_ok cl kv \<longleftrightarrow> over key_chars (fst kv) \<and> fst kv \<noteq> [] \<and> over cl (snd kv) \<and> skip_ws (snd kv) = snd kv"

lemma skip_ws_value: "\<lbrakk>skip_ws x = x; skip_ws r = r\<rbrakk> \<Longrightarrow> skip_ws (x @ r) = x @ r"
proof (cases x)
  case (Cons c y)
  assume "skip_ws x = x"
  with Cons length_dropWhile_le [of blank y] have "\<not> blank c" by (auto simp: skip_ws_def)
  with Cons show ?thesis by simp
qed simp

lemma gives_OPTION:
  assumes "entry_ok opt_chars kv"
  shows "gives lib OPTION (opt_line kv @ r) (skip_ws r) [] [None]
    (\<lambda>pkt. pkt\<lparr>pk_options := map_put (fst kv) (snd kv) (pk_options pkt)\<rparr>)"
proof -
  note ok = assms [unfolded entry_ok_def]
  have k: "gives lib OPTKEY (opt_line kv @ r) ('': '' @ snd kv @ crlf @ r) [] [Some (fst kv)] (\<lambda>pkt. pkt)"
    using gives_OPTKEY [of "fst kv" "'': '' @ snd kv @ crlf @ r" lib] ok by (simp add: opt_line_def class_defs blank_def)
  have c: "gives lib (Lit '':'') ('': '' @ snd kv @ crlf @ r) (snd kv @ crlf @ r) [] [] (\<lambda>pkt. pkt)"
    by (rule gives_lit' [where r = "'' '' @ snd kv @ crlf @ r"]) (use ok in \<open>simp_all add: skip_ws_value\<close>)
  have v: "gives lib OPTVAL (snd kv @ crlf @ r) (crlf @ r) [] [Some (snd kv)] (\<lambda>pkt. pkt)"
    by (rule gives_OPTVAL) (use ok in simp_all)
  have h: "handler lib (''OPTION'', t, [Some (fst kv), Some (snd kv)]) pkt =
      Some (pkt\<lparr>pk_options := map_put (fst kv) (snd kv) (pk_options pkt)\<rparr>)" for t pkt
    by (simp add: handler_def two_strings_def case_prod_beta)
  have "gives lib (Seq OPTKEY (Seq (Lit '':'') (Seq OPTVAL (Opt ENDLINE)))) (opt_line kv @ r) (skip_ws r) []
      [Some (fst kv), Some (snd kv)] (\<lambda>pkt. pkt)"
    using gives_seq [OF k gives_seq [OF c gives_seq [OF v gives_opt [OF gives_ENDLINE [of lib r]]]]] by simp
  from gives_named [OF this h, where hidden = False] show ?thesis by (simp add: OPTION_def returned_def)
qed

lemma gives_PAYLOAD:
  assumes "entry_ok pay_chars kv"
  shows "gives lib PAYLOAD (pay_line kv @ r) (skip_ws r) [] [None] (\<lambda>pkt. pkt\<lparr>pk_payloads := pk_payloads pkt @ [kv]\<rparr>)"
proof -
  note ok = assms [unfolded entry_ok_def]
  have k: "gives lib PAYLOADKEY (pay_line kv @ r) (''='' @ snd kv @ crlf @ r) [] [Some (fst kv)] (\<lambda>pkt. pkt)"
    using gives_PAYLOADKEY [of "fst kv" "''='' @ snd kv @ crlf @ r" lib] ok by (simp add: pay_line_def class_defs blank_def)
  have c: "gives lib (Lit ''='') (''='' @ snd kv @ crlf @ r) (snd kv @ crlf @ r) [] [] (\<lambda>pkt. pkt)"
    by (rule gives_lit' [where r = "snd kv @ crlf @ r"]) (use ok in \<open>simp_all add: skip_ws_value\<close>)
  have v: "gives lib PAYLOADVAL (snd kv @ crlf @ r) (crlf @ r) [] [Some (snd kv)] (\<lambda>pkt. pkt)"
    by (rule gives_PAYLOADVAL) (use ok in simp_all)
  have h: "handler lib (''PAYLOAD'', t, [Some (fst kv), Some (snd kv)]) pkt =
      Some (pkt\<lparr>pk_payloads := pk_payloads pkt @ [kv]\<rparr>)" for t pkt
    by (simp add: handler_def two_strings_def case_prod_beta)
  have "gives lib (Seq PAYLOADKEY (Seq (Lit ''='') (Seq PAYLOADVAL (Opt ENDLINE)))) (pay_line kv @ r) (skip_ws r) []
      [Some (fst kv), Some (snd kv)] (\<lambda>pkt. pkt)"
    using gives_seq [OF k gives_seq [OF c gives_seq [OF v gives_opt [OF gives_ENDLINE [of lib r]]]]] by simp
  from gives_named [OF this h, where hidden = False] show ?thesis by (simp add: PAYLOAD_def returned_def)
qed

lemma skip_ws_line:
  assumes "entry_ok cl kv"
  shows "skip_ws (opt_line kv @ r) = opt_line kv @ r" "skip_ws (pay_line kv @ r) = pay_line kv @ r"
  using assms skip_ws_word [of key_chars "fst kv"] by (auto simp: entry_ok_def opt_line_def pay_line_def)

lemma skip_ws_lines:
  assumes "list_all (entry_ok cl) kvs" "skip_ws r = r"
  shows "skip_ws (concat (map opt_line kvs) @ r) = concat (map opt_line kvs) @ r"
    "skip_ws (concat (map pay_line kvs) @ r) = concat (map pay_line kvs) @ r"
  using assms skip_ws_line [of cl "hd kvs"] by (cases kvs; simp)+

definition put_options :: "string_map \<Rightarrow> string_map \<Rightarrow> string_map" where
  "put_options opts m = fold (\<lambda>kv. map_put (fst kv) (snd kv)) opts m"

lemma gives_options:
  assumes "skip_ws r = r" "refuses lib OPTION r (\<lambda>pkt. pkt)"
  shows "list_all (entry_ok opt_chars) opts \<Longrightarrow> \<exists>vs. gives lib (Star OPTION) (concat (map opt_line opts) @ r) r [] vs
    (\<lambda>pkt. pkt\<lparr>pk_options := put_options opts (pk_options pkt)\<rparr>)"
proof (induction opts)
  case Nil
  with gives_star_end [OF assms(2)] show ?case by (auto simp: put_options_def)
next
  case (Cons kv opts)
  let ?rest = "concat (map opt_line opts) @ r"
  from Cons obtain vs where star: "gives lib (Star OPTION) ?rest r [] vs
      (\<lambda>pkt. pkt\<lparr>pk_options := put_options opts (pk_options pkt)\<rparr>)" by auto
  have "skip_ws ?rest = ?rest" using Cons.prems assms(1) by (intro skip_ws_lines(1)) auto
  then have "gives lib OPTION (opt_line kv @ ?rest) ?rest [] [None]
      (\<lambda>pkt. pkt\<lparr>pk_options := map_put (fst kv) (snd kv) (pk_options pkt)\<rparr>)"
    using gives_OPTION [of kv lib ?rest] Cons.prems by simp
  moreover have "length ?rest < length (opt_line kv @ ?rest)" by (simp add: opt_line_def crlf_code)
  ultimately show ?case using gives_star_more [OF _ _ star] by (force simp: put_options_def)
qed

lemma gives_payloads:
  assumes "skip_ws r = r" "refuses lib PAYLOAD r (\<lambda>pkt. pkt)"
  shows "list_all (entry_ok pay_chars) pays \<Longrightarrow> \<exists>vs. gives lib (Star PAYLOAD) (concat (map pay_line pays) @ r) r [] vs
    (\<lambda>pkt. pkt\<lparr>pk_payloads := pk_payloads pkt @ pays\<rparr>)"
proof (induction pays)
  case Nil
  with gives_star_end [OF assms(2)] show ?case by auto
next
  case (Cons kv pays)
  let ?rest = "concat (map pay_line pays) @ r"
  from Cons obtain vs where star: "gives lib (Star PAYLOAD) ?rest r [] vs
      (\<lambda>pkt. pkt\<lparr>pk_payloads := pk_payloads pkt @ pays\<rparr>)" by auto
  have "skip_ws ?rest = ?rest" using Cons.prems assms(1) by (intro skip_ws_lines(2)) auto
  then have "gives lib PAYLOAD (pay_line kv @ ?rest) ?rest [] [None] (\<lambda>pkt. pkt\<lparr>pk_payloads := pk_payloads pkt @ [kv]\<rparr>)"
    using gives_PAYLOAD [of kv lib ?rest] Cons.prems by simp
  moreover have "length ?rest < length (pay_line kv @ ?rest)" by (simp add: pay_line_def crlf_code)
  ultimately show ?case using gives_star_more [OF _ _ star] by force
qed

lemma map_put_last: "sorted_wrt (<) (map fst (m @ [(k, v)])) \<Longrightarrow> map_put k v m = m @ [(k, v)]"
  by (induction m) (auto dest: less_not_sym)

lemma put_options_sorted: "sorted_wrt (<) (map fst (m @ opts)) \<Longrightarrow> put_options opts m = m @ opts"
proof (induction opts arbitrary: m)
  case (Cons kv opts)
  then have "sorted_wrt (<) (map fst (m @ [(fst kv, snd kv)]))" by (auto simp: sorted_wrt_append)
  from map_put_last [OF this] Cons.IH [of "m @ [kv]"] Cons.prems show ?case by (simp add: put_options_def)
qed (simp add: put_options_def)

subsection \<open>Requests and responses\<close>

definition target_text :: "RTSP_REQUEST \<Rightarrow> string" where
  "target_text rq =
     (case rq_target rq of
        TARGET_URI \<Rightarrow> uri_protocol (rq_uri rq) @ ''://'' @ uri_ip (rq_uri rq) @ '':'' @ dec (unat (uri_port (rq_uri rq)))
      | TARGET_STREAM \<Rightarrow> ''streamid='' @ st_type (rq_stream rq) @ st_params (rq_stream rq))"

definition target_ok :: "RTSP_REQUEST \<Rightarrow> bool" where
  "target_ok rq =
     (case rq_target rq of
        TARGET_URI \<Rightarrow> over letters (uri_protocol (rq_uri rq)) \<and> uri_protocol (rq_uri rq) \<noteq> [] \<and>
          over digits_dot (uri_ip (rq_uri rq))
      | TARGET_STREAM \<Rightarrow> over letters (st_type (rq_stream rq)) \<and> st_type (rq_stream rq) \<noteq> [] \<and>
          over digits_slash (st_params (rq_stream rq)) \<and> st_params (rq_stream rq) \<noteq> [])"

definition same_target :: "RTSP_REQUEST \<Rightarrow> RTSP_REQUEST \<Rightarrow> bool" where
  "same_target rq rq' \<longleftrightarrow> rq_cmd rq = rq_cmd rq' \<and> rq_target rq = rq_target rq' \<and>
     (case rq_target rq' of TARGET_URI \<Rightarrow> rq_uri rq = rq_uri rq' | TARGET_STREAM \<Rightarrow> rq_stream rq = rq_stream rq')"

lemma over_ne_blank: "\<lbrakk>over cl x; no_blanks cl; x \<noteq> []\<rbrakk> \<Longrightarrow> skip_ws (x @ r) = x @ r"
  by simp

lemma skip_ws_target: "target_ok rq \<Longrightarrow> skip_ws (target_text rq @ r) = target_text rq @ r"
  by (cases "rq_target rq") (auto simp: target_ok_def target_text_def over_ne_blank blank_def)

lemma gives_TARGET:
  assumes "follows_peg lib" "target_ok rq" "stops digits r" "stops digits_slash r"
  shows "\<exists>f. gives lib TARGET (target_text rq @ r) (skip_ws r) [] [None] f \<and>
    (\<forall>pkt. uri_ip (rq_uri (pk_request pkt)) = [] \<longrightarrow> f pkt = pkt\<lparr>pk_request := pk_request (f pkt)\<rparr> \<and>
       same_target (pk_request (f pkt)) (rq\<lparr>rq_cmd := rq_cmd (pk_request pkt)\<rparr>))"
proof (cases "rq_target rq")
  case TARGET_URI
  let ?u = "rq_uri rq"
  let ?f = "upd_request (\<lambda>r. r\<lparr>rq_uri := rq_uri r\<lparr>uri_protocol := uri_protocol ?u,
      uri_ip := (if uri_ip ?u = [] then uri_ip (rq_uri r) else uri_ip ?u), uri_port := of_nat (unat (uri_port ?u))\<rparr>,
      rq_target := TARGET_URI\<rparr>)"
  have "unat (uri_port ?u) \<le> 65535" using unsigned_less [of "uri_port ?u", where 'a = nat] by simp
  then have "gives lib URI_RULE (target_text rq @ r) (skip_ws r) [] [None] ?f"
    using gives_URI [OF assms(1) _ _ _ _ assms(3), of "uri_protocol ?u" "uri_ip ?u" "unat (uri_port ?u)"] assms(2) TARGET_URI
    by (simp add: target_text_def target_ok_def)
  from gives_named [OF gives_alt1 [OF this], where name = "''TARGET''" and g = "\<lambda>pkt. pkt" and hidden = False]
  have "gives lib TARGET (target_text rq @ r) (skip_ws r) [] [None] ?f"
    by (simp add: TARGET_def returned_def handler_def)
  then show ?thesis
    by (intro exI [of _ ?f]) (auto simp: same_target_def TARGET_URI intro!: URI.equality)
next
  case TARGET_STREAM
  let ?s = "rq_stream rq"
  let ?f = "\<lambda>pkt. upd_request (\<lambda>r. r\<lparr>rq_stream := rq_stream r\<lparr>st_type := st_type ?s, st_params := st_params ?s\<rparr>,
      rq_target := TARGET_STREAM\<rparr>) (upd_uri (\<lambda>u. u\<lparr>uri_protocol := ''streamid''\<rparr>) pkt)"
  have "over letters ''streamid''" by (simp add: over_def class_defs)
  from refuses_URI [OF this, of lib "st_type ?s @ st_params ?s @ r"]
  have u: "refuses lib URI_RULE (target_text rq @ r) (upd_uri (\<lambda>u. u\<lparr>uri_protocol := ''streamid''\<rparr>))"
    by (simp add: target_text_def TARGET_STREAM)
  have "gives lib STREAM_RULE (target_text rq @ r) (skip_ws r) [] [None]
      (upd_request (\<lambda>rq. rq\<lparr>rq_stream := rq_stream rq\<lparr>st_type := st_type ?s, st_params := st_params ?s\<rparr>, rq_target := TARGET_STREAM\<rparr>))"
    using gives_STREAM [OF _ _ _ _ assms(4), of "st_type ?s" "st_params ?s" lib] assms(2) TARGET_STREAM
    by (simp add: target_text_def target_ok_def)
  from gives_named [OF gives_alt2 [OF u gives_alt1 [OF this]], where name = "''TARGET''" and g = "\<lambda>pkt. pkt" and hidden = False]
  have "gives lib TARGET (target_text rq @ r) (skip_ws r) [] [None] ?f"
    by (simp add: TARGET_def returned_def handler_def)
  then show ?thesis
    by (intro exI [of _ ?f]) (auto simp: same_target_def TARGET_STREAM intro!: STREAM.equality)
qed

lemma gives_RTSPREQUEST:
  assumes "follows_peg lib" "over letters (rq_cmd rq)" "rq_cmd rq \<noteq> []" "target_ok rq" "stops digits_dot r"
  obtains f where
    "gives lib RTSPREQUEST (rq_cmd rq @ '' '' @ target_text rq @ '' RTSP/1.0'' @ r) (skip_ws r) [] [None] f"
    "pk_type (f no_packet) = REQUEST" "pk_options (f no_packet) = []" "pk_payloads (f no_packet) = []"
    "same_target (pk_request (f no_packet)) rq"
proof -
  let ?full = "'' RTSP/1.0'' @ r"
  have c: "gives lib CMD (rq_cmd rq @ '' '' @ target_text rq @ ?full) (target_text rq @ ?full) [] [None]
      (upd_request (\<lambda>r. r\<lparr>rq_cmd := rq_cmd rq\<rparr>))"
    using gives_CMD [OF assms(2,3), of "'' '' @ target_text rq @ ?full" lib] skip_ws_target [OF assms(4), of ?full]
    by (simp add: class_defs)
  have full: "stops digits ?full" "stops digits_slash ?full" by (simp_all add: class_defs)
  obtain f where t: "gives lib TARGET (target_text rq @ ?full) (skip_ws ?full) [] [None] f"
    "\<forall>pkt. uri_ip (rq_uri (pk_request pkt)) = [] \<longrightarrow> f pkt = pkt\<lparr>pk_request := pk_request (f pkt)\<rparr> \<and>
       same_target (pk_request (f pkt)) (rq\<lparr>rq_cmd := rq_cmd (pk_request pkt)\<rparr>)"
    using gives_TARGET [OF assms(1,4) full] by blast
  have skip: "skip_ws ?full = ''RTSP/1.0'' @ r" by (simp add: blank_def)
  have h: "handler lib (''RTSPREQUEST'', t, vs) pkt = Some (pkt\<lparr>pk_type := REQUEST\<rparr>)" for t vs pkt
    by (simp add: handler_def)
  let ?p = "upd_request (\<lambda>r. r\<lparr>rq_cmd := rq_cmd rq\<rparr>) no_packet"
  let ?f = "\<lambda>pkt. f (upd_request (\<lambda>r. r\<lparr>rq_cmd := rq_cmd rq\<rparr>) pkt)\<lparr>pk_type := REQUEST\<rparr>"
  from gives_named [OF gives_seq [OF c gives_seq [OF t(1) [unfolded skip] gives_FULLPROTOCOL [OF assms(5)]]] h, where hidden = False]
  have g: "gives lib RTSPREQUEST (rq_cmd rq @ '' '' @ target_text rq @ ?full) (skip_ws r) [] [None] ?f"
    by (simp add: RTSPREQUEST_def returned_def)
  have ip: "uri_ip (rq_uri (pk_request ?p)) = []" by (simp add: no_packet_def no_request_def)
  then have e: "f ?p = ?p\<lparr>pk_request := pk_request (f ?p)\<rparr>" using t(2) by blast
  have "pk_options (f ?p) = []" "pk_payloads (f ?p) = []"
    by (subst e, simp add: no_packet_def)+
  then have "pk_type (?f no_packet) = REQUEST" "pk_options (?f no_packet) = []" "pk_payloads (?f no_packet) = []"
    by simp_all
  moreover have "same_target (pk_request (f ?p)) (rq\<lparr>rq_cmd := rq_cmd (pk_request ?p)\<rparr>)" using t(2) ip by blast
  then have "same_target (pk_request (?f no_packet)) rq" by (simp add: same_target_def split: TARGET_TYPE.splits)
  ultimately show thesis by (intro that [OF g])
qed

text \<open>A response is first tried as a request: its protocol is taken for a command, the slash for a target.\<close>

lemma refuses_RTSPREQUEST:
  "refuses lib RTSPREQUEST (''RTSP/1.0'' @ r) (upd_request (\<lambda>rq. rq\<lparr>rq_cmd := ''RTSP''\<rparr>))"
proof -
  have "over letters ''RTSP''" by (simp add: over_def class_defs)
  from gives_CMD [OF this, of "''/1.0'' @ r" lib]
  have c: "gives lib CMD (''RTSP/1.0'' @ r) (''/1.0'' @ r) [] [None] (upd_request (\<lambda>rq. rq\<lparr>rq_cmd := ''RTSP''\<rparr>))"
    by (simp add: class_defs blank_def)
  have u: "refuses lib URI_RULE (''/1.0'' @ r) (\<lambda>pkt. pkt)"
    unfolding URI_RULE_def PROTOCOL_def by (intro refuses_named refuses_seq1 refuses_tok) (simp add: class_defs)
  have s: "refuses lib STREAM_RULE (''/1.0'' @ r) (\<lambda>pkt. pkt)"
    unfolding STREAM_RULE_def by (intro refuses_named refuses_seq1 refuses_chars) (simp add: class_defs)
  have l: "gives lib (Lit ''/'') (''/1.0'' @ r) (''1.0'' @ r) [] [] (\<lambda>pkt. pkt)"
    by (rule gives_lit' [where r = "''1.0'' @ r"]) (simp_all add: blank_def)
  have h: "handler lib (''TARGET'', t, vs) pkt = Some pkt" for t vs pkt by (simp add: handler_def)
  have t: "gives lib TARGET (''/1.0'' @ r) (''1.0'' @ r) [] [None] (\<lambda>pkt. pkt)"
    using gives_named [OF gives_alt2 [OF u gives_alt2 [OF s l]] h, where hidden = False] by (simp add: TARGET_def returned_def)
  have f: "refuses lib FULLPROTOCOL (''1.0'' @ r) (\<lambda>pkt. pkt)"
    unfolding FULLPROTOCOL_def FPROTOCOL_def by (intro refuses_named refuses_seq1 refuses_tok) (simp add: class_defs)
  show ?thesis
    using refuses_named [OF refuses_seq2 [OF c refuses_seq2 [OF t f]]] by (simp add: RTSPREQUEST_def)
qed

definition response_ok :: "RTSP_RESPONSE \<Rightarrow> bool" where
  "response_ok rp \<longleftrightarrow> over msg_chars (rp_msg rp) \<and> rp_msg rp \<noteq> [] \<and> skip_ws (rp_msg rp) = rp_msg rp"

lemma gives_RTSPRESPONSE:
  assumes "follows_peg lib" "response_ok rp" "skip_ws r = r" "stops msg_chars r"
  shows "gives lib RTSPRESPONSE (''RTSP/1.0 '' @ dec (unat (rp_status_code rp)) @ '' '' @ rp_msg rp @ r) r [] [None]
    (\<lambda>pkt. pkt\<lparr>pk_response := pk_response pkt\<lparr>rp_status_code := rp_status_code rp, rp_msg := rp_msg rp\<rparr>, pk_type := RESPONSE\<rparr>)"
proof -
  let ?n = "unat (rp_status_code rp)"
  have n: "?n \<le> 65535" using unsigned_less [of "rp_status_code rp", where 'a = nat] by simp
  have p: "gives lib FULLPROTOCOL (''RTSP/1.0 '' @ dec ?n @ '' '' @ rp_msg rp @ r) (dec ?n @ '' '' @ rp_msg rp @ r) [] [] (\<lambda>pkt. pkt)"
    using gives_FULLPROTOCOL [of "'' '' @ dec ?n @ '' '' @ rp_msg rp @ r" lib]
    by (simp add: class_defs)
  have c: "gives lib RESPONSECODE (dec ?n @ '' '' @ rp_msg rp @ r) (rp_msg rp @ r) [] [None]
      (\<lambda>pkt. pkt\<lparr>pk_response := pk_response pkt\<lparr>rp_status_code := rp_status_code rp\<rparr>\<rparr>)"
    using gives_RESPONSECODE [OF assms(1) n, of "'' '' @ rp_msg rp @ r"] assms(2,3)
    by (simp add: class_defs skip_ws_value response_ok_def)
  have m: "gives lib RESPONSEMSG (rp_msg rp @ r) r [] [None] (\<lambda>pkt. pkt\<lparr>pk_response := pk_response pkt\<lparr>rp_msg := rp_msg rp\<rparr>\<rparr>)"
    using gives_RESPONSEMSG [of "rp_msg rp" r lib] assms(2-4) by (simp add: response_ok_def)
  have h: "handler lib (''RTSPRESPONSE'', t, vs) pkt = Some (pkt\<lparr>pk_type := RESPONSE\<rparr>)" for t vs pkt
    by (simp add: handler_def)
  show ?thesis
    using gives_named [OF gives_seq [OF p gives_seq [OF c m]] h, where hidden = False]
    by (simp add: RTSPRESPONSE_def returned_def)
qed

subsection \<open>Messages\<close>

definition head_text :: "RTSP_PACKET \<Rightarrow> string" where
  "head_text pkt =
     (case pk_type pkt of
        REQUEST \<Rightarrow> rq_cmd (pk_request pkt) @ '' '' @ target_text (pk_request pkt) @ '' RTSP/1.0''
      | RESPONSE \<Rightarrow> ''RTSP/1.0 '' @ dec (unat (rp_status_code (pk_response pkt))) @ '' '' @ rp_msg (pk_response pkt))"

definition head_ok :: "RTSP_PACKET \<Rightarrow> bool" where
  "head_ok pkt =
     (case pk_type pkt of
        REQUEST \<Rightarrow> over letters (rq_cmd (pk_request pkt)) \<and> rq_cmd (pk_request pkt) \<noteq> [] \<and> target_ok (pk_request pkt)
      | RESPONSE \<Rightarrow> response_ok (pk_response pkt))"

definition same_head :: "RTSP_PACKET \<Rightarrow> RTSP_PACKET \<Rightarrow> bool" where
  "same_head p pkt \<longleftrightarrow> pk_type p = pk_type pkt \<and>
     (case pk_type pkt of REQUEST \<Rightarrow> same_target (pk_request p) (pk_request pkt) | RESPONSE \<Rightarrow> pk_response p = pk_response pkt)"

text \<open>A payload without a key is printed as its value alone. The grammar has no such line: it reads the
  value as a key and its value, when it has the form of one.\<close>

definition as_read :: "string \<times> string \<Rightarrow> string \<times> string" where
  "as_read kv = (if fst kv = [] then (takeWhile (\<lambda>c. c \<noteq> CHR ''='') (snd kv), tl (dropWhile (\<lambda>c. c \<noteq> CHR ''='') (snd kv))) else kv)"

definition payload_ok :: "string \<times> string \<Rightarrow> bool" where
  "payload_ok kv \<longleftrightarrow> (fst kv = [] \<longrightarrow> CHR ''='' \<in> set (snd kv)) \<and> entry_ok pay_chars (as_read kv)"

text \<open>The messages that can be told from their text: words, numbers and values of the right characters,
  no value that begins with a blank, a number of the message that is not negative, options in the
  order of their names.\<close>

definition speakable :: "RTSP_PACKET \<Rightarrow> bool" where
  "speakable pkt \<longleftrightarrow> head_ok pkt \<and> 0 \<le> pk_seq_number pkt \<and> pk_seq_number pkt < 2 ^ 31 \<and>
     sorted_wrt (<) (map fst (pk_options pkt)) \<and> list_all (entry_ok opt_chars) (pk_options pkt) \<and>
     list_all payload_ok (pk_payloads pkt)"

lemma payload_printed:
  assumes "payload_ok (k, v)"
  shows "(if k = [] then v @ crlf else k @ ''='' @ v @ crlf) = pay_line (as_read (k, v))"
proof (cases "k = []")
  case True
  with assms have "CHR ''='' \<in> set v" by (simp add: payload_ok_def)
  then have "dropWhile (\<lambda>c. c \<noteq> CHR ''='') v = CHR ''='' # tl (dropWhile (\<lambda>c. c \<noteq> CHR ''='') v)"
    by (induction v) auto
  then have "v = takeWhile (\<lambda>c. c \<noteq> CHR ''='') v @ ''='' @ tl (dropWhile (\<lambda>c. c \<noteq> CHR ''='') v)"
    using takeWhile_dropWhile_id [of "\<lambda>c. c \<noteq> CHR ''=''" v] by simp
  then have "v @ crlf = takeWhile (\<lambda>c. c \<noteq> CHR ''='') v @ ''='' @ tl (dropWhile (\<lambda>c. c \<noteq> CHR ''='') v) @ crlf"
    by (metis append.assoc)
  with True show ?thesis by (simp add: as_read_def pay_line_def)
qed (simp add: as_read_def pay_line_def)

lemma payloads_read: "list_all payload_ok pays \<Longrightarrow> list_all (entry_ok pay_chars) (map as_read pays)"
  by (induction pays) (simp_all add: payload_ok_def)

lemma payloads_printed:
  "list_all payload_ok pays \<Longrightarrow>
     concat (map (\<lambda>(k, v). if k = [] then v @ crlf else k @ ''='' @ v @ crlf) pays) = concat (map pay_line (map as_read pays))"
  by (induction pays) (use payload_printed in auto)

text \<open>What was read has keys, and prints as the same text.\<close>

lemma read_payloads_printed:
  "list_all (entry_ok pay_chars) pays \<Longrightarrow>
     concat (map (\<lambda>(k, v). if k = [] then v @ crlf else k @ ''='' @ v @ crlf) pays) = concat (map pay_line pays)"
  by (induction pays) (auto simp: entry_ok_def pay_line_def)

lemma gives_head:
  assumes "follows_peg lib" "head_ok pkt" "r = crlf @ r'"
  shows "\<exists>f vs. gives lib (Alt RTSPREQUEST RTSPRESPONSE) (head_text pkt @ r) r [] vs f \<and> same_head (f no_packet) pkt \<and>
    pk_options (f no_packet) = [] \<and> pk_payloads (f no_packet) = []"
proof (cases "pk_type pkt")
  case REQUEST
  then have ok: "over letters (rq_cmd (pk_request pkt))" "rq_cmd (pk_request pkt) \<noteq> []" "target_ok (pk_request pkt)"
    "stops digits_dot r" using assms(2,3) by (simp_all add: head_ok_def)
  obtain f where f: "gives lib RTSPREQUEST (head_text pkt @ r) (skip_ws r) [] [None] f"
    "pk_type (f no_packet) = REQUEST" "pk_options (f no_packet) = []" "pk_payloads (f no_packet) = []"
    "same_target (pk_request (f no_packet)) (pk_request pkt)"
    by (rule gives_RTSPREQUEST [OF assms(1) ok]) (simp add: head_text_def REQUEST)
  with gives_alt1 [OF f(1)] f assms(3) REQUEST show ?thesis by (auto simp: same_head_def)
next
  case RESPONSE
  let ?rp = "pk_response pkt"
  have g: "gives lib RTSPRESPONSE (head_text pkt @ r) r [] [None]
    (\<lambda>p. p\<lparr>pk_response := pk_response p\<lparr>rp_status_code := rp_status_code ?rp, rp_msg := rp_msg ?rp\<rparr>, pk_type := RESPONSE\<rparr>)"
    using gives_RTSPRESPONSE [OF assms(1), of ?rp r] assms(2,3) RESPONSE by (simp add: head_text_def head_ok_def)
  have "refuses lib RTSPREQUEST (head_text pkt @ r) (upd_request (\<lambda>rq. rq\<lparr>rq_cmd := ''RTSP''\<rparr>))"
    using refuses_RTSPREQUEST [of lib] RESPONSE by (simp add: head_text_def)
  from gives_alt2 [OF this g] show ?thesis
    by (intro exI conjI) (auto simp: same_head_def no_packet_def RESPONSE intro!: RTSP_RESPONSE.equality)
qed

lemma option_lines:
  "concat (map (\<lambda>(k, v). crlf @ k @ '': '' @ v) opts) @ crlf @ r = crlf @ concat (map opt_line opts) @ r"
  by (induction opts) (auto simp: opt_line_def)

lemma speakable_text:
  assumes "speakable pkt"
  shows "packet_text pkt = head_text pkt @ crlf @ ''CSeq: '' @ dec (nat (pk_seq_number pkt)) @ crlf @
    concat (map opt_line (pk_options pkt)) @ crlf @ concat (map pay_line (map as_read (pk_payloads pkt)))"
  using assms payloads_printed [of "pk_payloads pkt"] option_lines [of "pk_options pkt"]
  by (simp add: packet_text_def head_text_def target_text_def speakable_def dec_int_def split: PACKET_KIND.split TARGET_TYPE.split)

lemma skip_ws_head: "head_ok pkt \<Longrightarrow> skip_ws (head_text pkt @ r) = head_text pkt @ r"
  by (cases "pk_type pkt") (auto simp: head_ok_def head_text_def over_ne_blank blank_def)

lemma gives_RTSP:
  assumes "follows_peg lib" "speakable pkt"
  shows "\<exists>f vs. gives lib RTSP (packet_text pkt) [] [] vs f \<and> same_head (f no_packet) pkt \<and>
    pk_seq_number (f no_packet) = pk_seq_number pkt \<and> pk_options (f no_packet) = pk_options pkt \<and>
    pk_payloads (f no_packet) = map as_read (pk_payloads pkt)"
proof -
  note ok = assms(2) [unfolded speakable_def]
  have pays: "list_all (entry_ok pay_chars) (map as_read (pk_payloads pkt))" using payloads_read ok by blast
  let ?pays = "concat (map pay_line (map as_read (pk_payloads pkt)))"
  let ?opts = "concat (map opt_line (pk_options pkt)) @ crlf @ ?pays"
  let ?cseq = "''CSeq: '' @ dec (nat (pk_seq_number pkt)) @ crlf @ ?opts"
  obtain f vs1 where h: "gives lib (Alt RTSPREQUEST RTSPRESPONSE) (head_text pkt @ crlf @ ?cseq) (crlf @ ?cseq) [] vs1 f"
    "same_head (f no_packet) pkt" "pk_options (f no_packet) = []" "pk_payloads (f no_packet) = []"
    using gives_head [OF assms(1), of pkt "crlf @ ?cseq"] ok by blast
  have e: "gives lib ENDLINE (crlf @ ?cseq) ?cseq [] [] (\<lambda>pkt. pkt)"
    using gives_ENDLINE [of lib ?cseq] by (simp add: blank_def)
  have n31: "nat (pk_seq_number pkt) \<le> 2147483647" using ok by (auto simp: nat_le_iff)
  have "skip_ws ?opts = ?opts" using skip_ws_lines(1) [of opt_chars "pk_options pkt" "crlf @ ?pays"] ok by simp
  then have c: "gives lib CSEQ ?cseq ?opts [] [None] (\<lambda>p. p\<lparr>pk_seq_number := pk_seq_number pkt\<rparr>)"
    using gives_CSEQ [OF assms(1) n31, of ?opts] ok by simp
  have "refuses lib OPTION (crlf @ ?pays) (\<lambda>pkt. pkt)"
    unfolding OPTION_def OPTKEY_def by (intro refuses_named refuses_seq1 refuses_tok) simp
  then obtain vs2 where o: "gives lib (Star OPTION) ?opts (crlf @ ?pays) [] vs2
      (\<lambda>p. p\<lparr>pk_options := put_options (pk_options pkt) (pk_options p)\<rparr>)"
    using gives_options [of "crlf @ ?pays" lib "pk_options pkt"] ok by auto
  have "skip_ws ?pays = ?pays" using skip_ws_lines(2) [OF pays, of "[]"] by simp
  then have b: "gives lib (Opt ENDLINE) (crlf @ ?pays) ?pays [] [] (\<lambda>pkt. pkt)"
    using gives_opt [OF gives_ENDLINE [of lib ?pays]] by simp
  have "refuses lib PAYLOAD [] (\<lambda>pkt. pkt)"
    unfolding PAYLOAD_def PAYLOADKEY_def by (intro refuses_named refuses_seq1 refuses_tok) simp
  then obtain vs3 where p: "gives lib (Star PAYLOAD) ?pays [] [] vs3 (\<lambda>p. p\<lparr>pk_payloads := pk_payloads p @ map as_read (pk_payloads pkt)\<rparr>)"
    using gives_payloads [of "[]" lib "map as_read (pk_payloads pkt)"] pays by auto
  have "refuses lib RUBBISH [] (\<lambda>pkt. pkt)"
    by (rule refusesI) (simp add: RUBBISH_def plus_of_def call_of_def)
  note r = gives_no_opt [OF this]
  have n: "handler lib (''RTSP'', t, vs) pkt = Some pkt" for t vs pkt by (simp add: handler_def)
  have s: "put_options (pk_options pkt) [] = pk_options pkt"
    using put_options_sorted [of "[]" "pk_options pkt"] ok by simp
  note whole = gives_named [OF gives_seq [OF h(1) gives_seq [OF e gives_seq [OF c gives_seq [OF o gives_seq [OF b
    gives_seq [OF p r]]]]]] n, where hidden = False, folded RTSP_def speakable_text [OF assms(2)]]
  show ?thesis
    by (rule exI, rule exI, rule conjI, rule whole) (use h(2-4) s in \<open>simp add: same_head_def split: PACKET_KIND.splits\<close>)
qed

text \<open>Every character of such a message is a byte of its own.\<close>

definition ascii_class :: "char_class \<Rightarrow> bool" where
  "ascii_class cl \<longleftrightarrow> list_all (\<lambda>(a, b). ascii b) (snd cl)"

lemma in_ascii_class: "\<lbrakk>ascii_class cl; in_class cl c\<rbrakk> \<Longrightarrow> ascii c"
  by (fastforce simp: ascii_class_def in_class_def in_ranges_def list_all_iff list_ex_iff ascii_def less_eq_char_def
      lower_case_def split: if_splits)

lemma over_ascii: "\<lbrakk>over cl x; ascii_class cl\<rbrakk> \<Longrightarrow> list_all ascii x"
  by (auto simp: over_def list_all_iff intro: in_ascii_class)

lemma classes_ascii [simp]:
  "ascii_class letters" "ascii_class digits" "ascii_class digits_dot" "ascii_class digits_slash" "ascii_class msg_chars"
  "ascii_class key_chars" "ascii_class opt_chars" "ascii_class pay_chars"
  by (simp_all add: ascii_class_def ascii_def class_defs)

lemma dec_ascii [simp]: "list_all ascii (dec n)"
  by (rule over_ascii [OF over_dec(1)]) simp

lemma head_ascii: "head_ok pkt \<Longrightarrow> list_all ascii (head_text pkt)"
  by (cases "pk_type pkt"; cases "rq_target (pk_request pkt)")
    (auto simp: head_ok_def head_text_def target_ok_def target_text_def response_ok_def over_ascii ascii_def)

lemma lines_ascii:
  assumes "list_all (entry_ok cl) kvs" "ascii_class cl"
  shows "list_all ascii (concat (map opt_line kvs))" "list_all ascii (concat (map pay_line kvs))"
  using assms by (induction kvs) (auto simp: entry_ok_def opt_line_def pay_line_def crlf_code over_ascii ascii_def)

lemma text_ascii: "speakable pkt \<Longrightarrow> list_all ascii (packet_text pkt)"
  using lines_ascii(1) [of opt_chars "pk_options pkt"] lines_ascii(2) [OF payloads_read, of "pk_payloads pkt"]
  by (simp add: speakable_text head_ascii speakable_def crlf_code) (simp add: ascii_def)

lemma printed_is_read:
  assumes "follows_peg lib" and "speakable pkt"
  shows "\<exists>p. parse lib (packet_text pkt) = Inr (Some p) \<and> same_head p pkt \<and> pk_seq_number p = pk_seq_number pkt \<and>
    pk_options p = pk_options pkt \<and> pk_payloads p = map as_read (pk_payloads pkt) \<and> packet_text p = packet_text pkt"
proof -
  obtain f vs where f: "gives lib RTSP (packet_text pkt) [] [] vs f" "same_head (f no_packet) pkt"
    "pk_seq_number (f no_packet) = pk_seq_number pkt" "pk_options (f no_packet) = pk_options pkt"
    "pk_payloads (f no_packet) = map as_read (pk_payloads pkt)"
    using gives_RTSP [OF assms] by blast
  obtain cs where cs: "run returned RTSP False (packet_text pkt) = Reads [] [] vs cs" "run_handlers lib cs no_packet = Some (f no_packet)"
    using f(1) by (auto simp: gives_def)
  have "skip_ws (packet_text pkt) = packet_text pkt"
    using assms(2) by (simp add: speakable_text skip_ws_head speakable_def)
  moreover have "pl_parse lib RTSP returned (packet_text pkt) = peg_parse RTSP returned (packet_text pkt)"
    using assms(1) text_ascii [OF assms(2)] by (simp add: follows_peg_def list_all_iff)
  ultimately have "parse lib (packet_text pkt) = Inr (Some (f no_packet))"
    using cs by (simp add: parse_def peg_parse_def)
  moreover have pays: "list_all payload_ok (pk_payloads pkt)" using assms(2) by (simp add: speakable_def)
  have "packet_text (f no_packet) = packet_text pkt"
    using f(2-5) payloads_printed [OF pays] read_payloads_printed [OF payloads_read [OF pays]]
    by (simp add: packet_text_def same_head_def same_target_def split: PACKET_KIND.splits TARGET_TYPE.splits)
  ultimately show ?thesis using f(2-5) by blast
qed

text \<open>C33: What \<open>to_string\<close> prints of a message that is \<open>speakable\<close>, \<open>parse\<close> reads: with an interpreter that
  follows the documentation, the text of a request or response whose words, numbers and values are made
  of the characters of the grammar (no value begins with a blank, the number is not negative, the
  options are in order) is read as a message with the same command and target or the same status, the
  same number, the same options and the same payloads in their order, and printing that one gives the
  text again. A payload without a key, as the server sends one for HEVC, comes back with the part
  before its first equals sign as the key.\<close>

theorem message_roundtrip:
  assumes "follows_peg lib" and "speakable pkt"
  shows "\<exists>p. parse lib (packet_text pkt) = Inr (Some p) \<and> same_head p pkt \<and> pk_seq_number p = pk_seq_number pkt \<and>
    pk_options p = pk_options pkt \<and>
    pk_payloads p = map (\<lambda>(k, v). if k = [] then (takeWhile (\<lambda>c. c \<noteq> CHR ''='') v, tl (dropWhile (\<lambda>c. c \<noteq> CHR ''='') v)) else (k, v))
      (pk_payloads pkt) \<and>
    packet_text p = packet_text pkt"
proof -
  have "(\<lambda>(k, v). if k = [] then (takeWhile (\<lambda>c. c \<noteq> CHR ''='') v, tl (dropWhile (\<lambda>c. c \<noteq> CHR ''='') v)) else (k, v)) = as_read"
    by (auto simp: as_read_def)
  then show ?thesis using printed_is_read [OF assms] by simp
qed

text \<open>So a connection answers a request that arrives in one read as the handler of its command does.\<close>

lemma request_answered:
  assumes "follows_peg lib" "speakable pkt" "needs_more (packet_text pkt) = Inr False"
  shows "\<exists>p. same_head p pkt \<and> pk_seq_number p = pk_seq_number pkt \<and> pk_options p = pk_options pkt \<and>
    pk_payloads p = map as_read (pk_payloads pkt) \<and>
    start_connection fec_scale (\<lambda>m. case parse lib m of Inl _ \<Rightarrow> None | Inr r \<Rightarrow> r) sessions (Some user_ip)
        [Data (packet_text pkt)] =
      (case get_session sessions p user_ip of
         None \<Rightarrow> Closed
       | Some session \<Rightarrow>
           (case message_handler fec_scale p session of
              Inl e \<Rightarrow> failed_with e
            | Inr (response, evs) \<Rightarrow> Replied (packet_text response) True evs))"
proof -
  obtain p where p: "parse lib (packet_text pkt) = Inr (Some p)" "same_head p pkt" "pk_seq_number p = pk_seq_number pkt"
    "pk_options p = pk_options pkt" "pk_payloads p = map as_read (pk_payloads pkt)"
    using printed_is_read [OF assms(1,2)] by blast
  have "receive_message [] [Data (packet_text pkt)] = Message (packet_text pkt)" using assms(3) by simp
  with p show ?thesis by (intro exI [of _ p]) (simp add: start_connection_def)
qed

subsection \<open>Messages of the tests, and others\<close>

definition number_of :: "string \<Rightarrow> int" where
  "number_of s = foldl (\<lambda>n c. 10 * n + int (digit_val c)) 0 s"

lemma number_of_undec: "number_of s = int (undec s)"
  by (induction s rule: rev_induct) (simp_all add: number_of_def undec_def)

definition demo_peglib :: peglib where
  "demo_peglib = \<lparr>pl_parse = peg_parse, pl_number = (\<lambda>max s. if number_of s \<le> max then number_of s else 0)\<rparr>"

lemma demo_follows: "follows_peg demo_peglib"
  by (simp add: follows_peg_def demo_peglib_def number_of_undec)

definition demo_setup :: RTSP_PACKET where
  "demo_setup = no_packet\<lparr>pk_seq_number := 3,
     pk_request := no_request\<lparr>rq_cmd := ''SETUP'', rq_target := TARGET_STREAM,
       rq_stream := \<lparr>st_type = ''video'', st_params = ''/0/0''\<rparr>\<rparr>,
     pk_options := [(''Host'', ''10.1.2.49''), (''Transport'', ''unicast;X-GS-ClientPort=50000-50001'')],
     pk_payloads := [(''a'', ''x-nv-video[0].clientViewportWd:1920'')]\<rparr>"

lemma demo_speakable: "speakable demo_setup"
  by code_simp

lemma message_roundtrip_witness:
  "\<exists>p. parse demo_peglib (packet_text demo_setup) = Inr (Some p) \<and> same_head p demo_setup \<and>
    pk_seq_number p = pk_seq_number demo_setup \<and> pk_options p = pk_options demo_setup \<and>
    pk_payloads p = pk_payloads demo_setup \<and> packet_text p = packet_text demo_setup"
proof -
  have "pk_payloads demo_setup = [(''a'', ''x-nv-video[0].clientViewportWd:1920'')]" by (simp add: demo_setup_def)
  with message_roundtrip [OF demo_follows demo_speakable] show ?thesis by simp
qed

text \<open>The reply to DESCRIBE, whatever the client supports, is such a message; its payload for HEVC, which
  has no key, is read with one.\<close>

lemma describe_speakable:
  assumes "0 \<le> pk_seq_number req" "pk_seq_number req < 2 ^ 31"
  shows "speakable (describe req session)"
proof -
  have payloads: "payload_ok ([], ''sprop-parameter-sets=AAAAAU'')" "payload_ok (''a'', ''a=rtpmap:98 AV1/90000'')"
    "list_all payload_ok (map (\<lambda>m. (''a'', surround_params m)) AUDIO_CONFIGURATIONS)"
    "payload_ok (''a'', ''x-ss-general.featureFlags: 3'')" by code_simp+
  have "head_ok (describe req session) = head_ok (ok_msg 0 [] [])" by (simp add: describe_def ok_msg_def head_ok_def)
  moreover have "head_ok (ok_msg 0 [] [])" by code_simp
  ultimately show ?thesis using assms payloads by (simp add: speakable_def) (simp add: describe_def ok_msg_def)
qed

lemma hevc_payload_read: "as_read ([], ''sprop-parameter-sets=AAAAAU'') = (''sprop-parameter-sets'', ''AAAAAU'')"
  by code_simp

text \<open>Line breaks without a carriage return and an address without a host are read.\<close>

lemma parse_android_tv:
  "parse demo_peglib (''OPTIONS rtsp://:48010 RTSP/1.0'' @ [CHR 0x0A] @ ''CSeq: 1'' @ [CHR 0x0A] @
      ''X-GS-ClientVersion: 14'' @ [CHR 0x0A] @ ''Host: '' @ [CHR 0x0A, CHR 0x0A]) =
    Inr (Some (no_packet\<lparr>pk_seq_number := 1,
      pk_request := no_request\<lparr>rq_cmd := ''OPTIONS'', rq_uri := \<lparr>uri_protocol = ''rtsp'', uri_ip = [], uri_port = 48010\<rparr>\<rparr>,
      pk_options := [(''Host'', []), (''X-GS-ClientVersion'', ''14'')]\<rparr>))"
  by code_simp

lemma parse_without_cseq: "parse demo_peglib ''OPTIONS rtsp://10.1.2.49:48010 RTSP/1.0'' = Inr None"
  by code_simp

text \<open>One character that the grammar does not have ends the reading: the rest of the message, options
  and payloads included, is rubbish, and the message is accepted without it.\<close>

lemma parse_drops_after_rubbish:
  "parse demo_peglib (''ANNOUNCE streamid=control/1/0 RTSP/1.0'' @ crlf @ ''CSeq: 6'' @ crlf @ ''Agent: Moon(light)'' @ crlf @
      ''Host: 10.1.2.49'' @ crlf @ crlf @ ''a=x-nv-video[0].clientViewportWd:1920'' @ crlf) =
    Inr (Some (no_packet\<lparr>pk_seq_number := 6,
      pk_request := no_request\<lparr>rq_cmd := ''ANNOUNCE'', rq_target := TARGET_STREAM,
        rq_uri := \<lparr>uri_protocol = ''streamid'', uri_ip = [], uri_port = 0\<rparr>,
        rq_stream := \<lparr>st_type = ''control'', st_params = ''/1/0''\<rparr>\<rparr>,
      pk_options := [(''Agent'', ''Moon'')]\<rparr>))"
  by code_simp

end
