(* ===== verification/Rtsp_Server.thy ===== *)
theory Rtsp_Server
  imports Rtsp
begin

section \<open>The RTSP server and its connections: rtsp/net.hpp\<close>

text \<open>
  The loop of the server around the connections of the theory Rtsp: \<open>tcp_server\<close> accepts, every
  connection reads, replies and closes in handlers that one thread runs, and \<open>run_server\<close> catches
  what a handler throws and goes on. Undefined behaviour in a handler is not caught: it is taken as the
  end of the process. The events are what the sockets yield, in the order in which the
  handlers run; the answers of a connection are collected as they are made.
\<close>

subsection \<open>State and events\<close>

text \<open>
  An open connection is the address of its peer and what it has read so far; \<open>rv_accepting\<close> says
  that an accept operation is outstanding, \<open>rv_crashed\<close> that the process has ended. Handlers that threw
  are counted.
\<close>

record rtsp_server =
  rv_accepting :: bool
  rv_sessions :: "StreamSession list"
  rv_open :: "(nat \<times> string \<times> string) list"
  rv_served :: "(nat \<times> connection) list"
  rv_caught :: nat
  rv_crashed :: bool

text \<open>The peer of an accepted connection may be gone already; the sessions change under the server.\<close>

datatype rtsp_event =
    Accepted nat "string option"
  | Accept_failed
  | Read_done nat socket_read
  | Sessions_are "StreamSession list"

definition start_accept :: "rtsp_server \<Rightarrow> rtsp_server" where
  "start_accept sv = sv\<lparr>rv_accepting := True\<rparr>"

text \<open>The constructor listens on the port and starts to accept; a port in use is an exception.\<close>

definition new_rtsp_server :: "bool \<Rightarrow> StreamSession list \<Rightarrow> rtsp_server option" where
  "new_rtsp_server port_free sessions =
     (if port_free
      then Some (start_accept \<lparr>rv_accepting = False, rv_sessions = sessions, rv_open = [], rv_served = [], rv_caught = 0, rv_crashed = False\<rparr>)
      else None)"

subsection \<open>Handlers\<close>

text \<open>What a connection does with a message it has read, or with a read that failed.\<close>

definition on_received ::
    "(int \<Rightarrow> int) \<Rightarrow> (string \<Rightarrow> RTSP_PACKET option) \<Rightarrow> StreamSession list \<Rightarrow> string \<Rightarrow> received \<Rightarrow> connection" where
  "on_received fec_scale parse sessions user_ip rcv =
     (case rcv of
        Waiting _ \<Rightarrow> Open_waiting
      | Bad_transmission \<Rightarrow> Replied bad_request False []
      | Bad_length \<Rightarrow> Unwound
      | Message m \<Rightarrow>
          (case parse m of
             None \<Rightarrow> Replied bad_request True []
           | Some msg \<Rightarrow>
               (case get_session sessions msg user_ip of
                  None \<Rightarrow> Closed
                | Some session \<Rightarrow>
                    (case message_handler fec_scale msg session of
                       Inl e \<Rightarrow> failed_with e
                     | Inr (response, evs) \<Rightarrow> Replied (packet_text response) True evs))))"

definition serve :: "nat \<Rightarrow> connection \<Rightarrow> rtsp_server \<Rightarrow> rtsp_server" where
  "serve cid c sv = sv\<lparr>rv_open := filter (\<lambda>(i, _). i \<noteq> cid) (rv_open sv), rv_served := rv_served sv @ [(cid, c)],
     rv_caught := rv_caught sv + (if c = Unwound then 1 else 0), rv_crashed := rv_crashed sv \<or> c = Crashed\<rparr>"

text \<open>The accept operation is over; the next one is started before anything else is done.\<close>

definition handle_accept :: "nat \<Rightarrow> string option \<Rightarrow> rtsp_server \<Rightarrow> rtsp_server" where
  "handle_accept cid remote sv =
     (let sv1 = start_accept (sv\<lparr>rv_accepting := False\<rparr>)
      in case remote of
           None \<Rightarrow> serve cid Closed sv1
         | Some user_ip \<Rightarrow> sv1\<lparr>rv_open := (cid, user_ip, []) # rv_open sv1\<rparr>)"

definition handle_read ::
    "(int \<Rightarrow> int) \<Rightarrow> (string \<Rightarrow> RTSP_PACKET option) \<Rightarrow> nat \<Rightarrow> socket_read \<Rightarrow> rtsp_server \<Rightarrow> rtsp_server" where
  "handle_read fec_scale parse cid r sv =
     (case map_of (rv_open sv) cid of
        None \<Rightarrow> sv
      | Some (user_ip, prev_read) \<Rightarrow>
          (case receive_message prev_read [r] of
             Waiting prev_read' \<Rightarrow>
               sv\<lparr>rv_open := (cid, user_ip, prev_read') # filter (\<lambda>(i, _). i \<noteq> cid) (rv_open sv)\<rparr>
           | rcv \<Rightarrow> serve cid (on_received fec_scale parse (rv_sessions sv) user_ip rcv) sv))"

fun server_step :: "(int \<Rightarrow> int) \<Rightarrow> (string \<Rightarrow> RTSP_PACKET option) \<Rightarrow> rtsp_event \<Rightarrow> rtsp_server \<Rightarrow> rtsp_server" where
  "server_step fec_scale parse (Accepted cid remote) sv = handle_accept cid remote sv"
| "server_step fec_scale parse Accept_failed sv = start_accept (sv\<lparr>rv_accepting := False\<rparr>)"
| "server_step fec_scale parse (Read_done cid r) sv = handle_read fec_scale parse cid r sv"
| "server_step fec_scale parse (Sessions_are sessions) sv = sv\<lparr>rv_sessions := sessions\<rparr>"

text \<open>The loop goes on while an operation is outstanding: without one \<open>io_context.run\<close> returns for good. In
  a process that has ended nothing happens any more.\<close>

definition has_work :: "rtsp_server \<Rightarrow> bool" where
  "has_work sv \<longleftrightarrow> \<not> rv_crashed sv \<and> (rv_accepting sv \<or> rv_open sv \<noteq> [])"

fun run_server ::
    "(int \<Rightarrow> int) \<Rightarrow> (string \<Rightarrow> RTSP_PACKET option) \<Rightarrow> rtsp_event list \<Rightarrow> rtsp_server \<Rightarrow> rtsp_server" where
  "run_server fec_scale parse [] sv = sv"
| "run_server fec_scale parse (ev # evs) sv =
     (if has_work sv then run_server fec_scale parse evs (server_step fec_scale parse ev sv) else sv)"

subsection \<open>What a connection sees\<close>

declare receive_message.simps [simp del]

definition reads_of :: "nat \<Rightarrow> rtsp_event list \<Rightarrow> socket_read list" where
  "reads_of cid evs = concat (map (\<lambda>ev. case ev of Read_done i r \<Rightarrow> if i = cid then [r] else [] | _ \<Rightarrow> []) evs)"

definition other_event :: "nat \<Rightarrow> rtsp_event \<Rightarrow> bool" where
  "other_event cid ev \<longleftrightarrow> (case ev of Accepted i _ \<Rightarrow> i \<noteq> cid | _ \<Rightarrow> True)"

text \<open>The sessions that run when the message of a connection is complete, or its reading has failed.\<close>

fun sessions_at :: "nat \<Rightarrow> string \<Rightarrow> rtsp_event list \<Rightarrow> StreamSession list \<Rightarrow> StreamSession list" where
  "sessions_at cid prev [] ss = ss"
| "sessions_at cid prev (ev # evs) ss =
     (case ev of
        Sessions_are ss' \<Rightarrow> sessions_at cid prev evs ss'
      | Read_done i r \<Rightarrow>
          if i = cid
          then (case receive_message prev [r] of Waiting prev' \<Rightarrow> sessions_at cid prev' evs ss | _ \<Rightarrow> ss)
          else sessions_at cid prev evs ss
      | _ \<Rightarrow> sessions_at cid prev evs ss)"

lemma start_connection_received:
  "start_connection f parse sessions (Some ip) reads = on_received f parse sessions ip (receive_message [] reads)"
  by (simp add: start_connection_def on_received_def)

lemma accepting_kept: "rv_accepting sv \<Longrightarrow> rv_accepting (server_step f parse ev sv)"
  by (cases ev)
    (auto simp: handle_accept_def handle_read_def start_accept_def serve_def Let_def split: option.split received.split)

lemma accepting_run: "rv_accepting sv \<Longrightarrow> rv_accepting (run_server f parse evs sv)"
  by (induction evs arbitrary: sv) (auto simp: accepting_kept)

text \<open>A process ends with a connection whose handler was undefined.\<close>

lemma crashed_step:
  "rv_crashed (server_step f parse ev sv) \<Longrightarrow> rv_crashed sv \<or> (\<exists>i. (i, Crashed) \<in> set (rv_served (server_step f parse ev sv)))"
  by (cases ev)
    (auto simp: handle_accept_def handle_read_def start_accept_def serve_def Let_def split: option.splits received.splits)

lemma crashed_served_kept:
  "(i, Crashed) \<in> set (rv_served sv) \<Longrightarrow> (i, Crashed) \<in> set (rv_served (server_step f parse ev sv))"
  by (cases ev)
    (auto simp: handle_accept_def handle_read_def start_accept_def serve_def Let_def split: option.splits received.splits)

lemma crashed_run:
  assumes "rv_crashed sv \<longrightarrow> (\<exists>i. (i, Crashed) \<in> set (rv_served sv))"
  shows "rv_crashed (run_server f parse evs sv) \<longrightarrow> (\<exists>i. (i, Crashed) \<in> set (rv_served (run_server f parse evs sv)))"
  using assms
proof (induction evs arbitrary: sv)
  case (Cons ev evs)
  have "rv_crashed (server_step f parse ev sv) \<longrightarrow> (\<exists>i. (i, Crashed) \<in> set (rv_served (server_step f parse ev sv)))"
    using Cons.prems crashed_step crashed_served_kept by blast
  from Cons.IH [OF this] Cons.prems show ?case by simp
qed simp

lemma still_up: "\<lbrakk>\<not> rv_crashed (run_server f parse (ev # evs) sv); rv_accepting sv\<rbrakk> \<Longrightarrow>
    \<not> rv_crashed sv \<and> has_work sv \<and> \<not> rv_crashed (run_server f parse evs (server_step f parse ev sv))"
  by (auto simp: has_work_def split: if_splits)

lemma map_of_filter_other:
  "map_of (filter (\<lambda>(i, _). i \<noteq> j) xs) k = (if k = j then None else map_of xs k)"
  by (induction xs) auto

lemma receive_more:
  "receive_message prev (r # rs) =
     (case receive_message prev [r] of Waiting prev' \<Rightarrow> receive_message prev' rs | rcv \<Rightarrow> rcv)"
  by (simp add: receive_message.simps Let_def split: sum.split bool.split)

text \<open>A connection that is over is not touched again, one that waits only by its own reads.\<close>

lemma over_step:
  assumes "map_of (rv_open sv) cid = None" "other_event cid ev"
  shows "map_of (rv_open (server_step f parse ev sv)) cid = None"
    and "map_of (rv_served (server_step f parse ev sv)) cid = map_of (rv_served sv) cid"
  using assms
  by (cases ev; auto simp: other_event_def handle_accept_def handle_read_def start_accept_def serve_def Let_def
      map_of_filter_other map_add_def split: option.split received.split)+

lemma over_run:
  assumes "map_of (rv_open sv) cid = None" "\<forall>ev \<in> set evs. other_event cid ev"
  shows "map_of (rv_served (run_server f parse evs sv)) cid = map_of (rv_served sv) cid"
  using assms by (induction evs arbitrary: sv) (simp_all add: over_step)

lemma waiting_step:
  assumes "map_of (rv_open sv) cid = Some (ip, prev)" "other_event cid ev" "reads_of cid [ev] = []"
  shows "map_of (rv_open (server_step f parse ev sv)) cid = Some (ip, prev)"
    and "map_of (rv_served (server_step f parse ev sv)) cid = map_of (rv_served sv) cid"
    and "sessions_at cid prev [ev] (rv_sessions sv) = rv_sessions (server_step f parse ev sv)"
    and "sessions_at cid prev (ev # evs) (rv_sessions sv) = sessions_at cid prev evs (rv_sessions (server_step f parse ev sv))"
  using assms
  by (cases ev; auto simp: other_event_def reads_of_def handle_accept_def handle_read_def start_accept_def serve_def Let_def
      map_of_filter_other map_add_def split: option.split received.split if_splits)+

lemma own_read:
  assumes "map_of (rv_open sv) cid = Some (ip, prev)" "map_of (rv_served sv) cid = None"
  shows "case receive_message prev [r] of
      Waiting prev' \<Rightarrow> map_of (rv_open (handle_read f parse cid r sv)) cid = Some (ip, prev') \<and>
        map_of (rv_served (handle_read f parse cid r sv)) cid = None \<and>
        rv_sessions (handle_read f parse cid r sv) = rv_sessions sv
    | rcv \<Rightarrow> map_of (rv_open (handle_read f parse cid r sv)) cid = None \<and>
        map_of (rv_served (handle_read f parse cid r sv)) cid = Some (on_received f parse (rv_sessions sv) ip rcv)"
  using assms
  by (simp add: handle_read_def serve_def map_of_filter_other map_add_def split: received.split)

definition outcome :: "connection \<Rightarrow> connection option" where
  "outcome c = (if c = Open_waiting then None else Some c)"

lemma failed_not_open: "failed_with e \<noteq> Open_waiting"
  by (simp add: failed_with_def)

lemma received_outcome:
  "outcome (on_received f parse sessions ip (Waiting m)) = None"
  "\<forall>m. rcv \<noteq> Waiting m \<Longrightarrow> outcome (on_received f parse sessions ip rcv) = Some (on_received f parse sessions ip rcv)"
  by (simp_all add: outcome_def on_received_def failed_not_open split: received.split option.split sum.split prod.split)

lemma connection_run:
  assumes "map_of (rv_open sv) cid = Some (ip, prev)" "map_of (rv_served sv) cid = None"
    "rv_accepting sv" "\<forall>ev \<in> set evs. other_event cid ev" "\<not> rv_crashed (run_server f parse evs sv)"
  shows "map_of (rv_served (run_server f parse evs sv)) cid =
    outcome (on_received f parse (sessions_at cid prev evs (rv_sessions sv)) ip (receive_message prev (reads_of cid evs)))"
  using assms
proof (induction evs arbitrary: sv prev)
  case Nil
  then show ?case by (simp add: reads_of_def received_outcome receive_message.simps(1))
next
  case (Cons ev evs)
  let ?sv' = "server_step f parse ev sv"
  note up = still_up [OF Cons.prems(5,3)]
  have run: "run_server f parse (ev # evs) sv = run_server f parse evs ?sv'" using up by simp
  have acc: "rv_accepting ?sv'" using Cons.prems(3) by (rule accepting_kept)
  have others: "\<forall>ev \<in> set evs. other_event cid ev" "other_event cid ev" using Cons.prems(4) by simp_all
  show ?case
  proof (cases "reads_of cid [ev] = []")
    case True
    then have same: "reads_of cid (ev # evs) = reads_of cid evs" by (simp add: reads_of_def)
    note w = waiting_step [OF Cons.prems(1) others(2) True]
    have "map_of (rv_served (run_server f parse evs ?sv')) cid =
        outcome (on_received f parse (sessions_at cid prev evs (rv_sessions ?sv')) ip (receive_message prev (reads_of cid evs)))"
      by (rule Cons.IH [OF w(1) _ acc others(1)]) (use w(2) Cons.prems(2) up in simp_all)
    then show ?thesis unfolding run same w(4) [where evs = evs and f = f and parse = parse] .
  next
    case False
    then obtain r where ev: "ev = Read_done cid r" by (auto simp: reads_of_def split: rtsp_event.splits if_splits)
    then have reads: "reads_of cid (ev # evs) = r # reads_of cid evs" by (simp add: reads_of_def)
    have step: "?sv' = handle_read f parse cid r sv" by (simp add: ev)
    note read = own_read [OF Cons.prems(1,2), where r = r and f = f and parse = parse]
    show ?thesis
    proof (cases "\<exists>prev'. receive_message prev [r] = Waiting prev'")
      case True
      then obtain prev' where Waiting: "receive_message prev [r] = Waiting prev'" by blast
      then have "map_of (rv_open ?sv') cid = Some (ip, prev')" "map_of (rv_served ?sv') cid = None"
        "rv_sessions ?sv' = rv_sessions sv" using read by (simp_all add: step)
      from Cons.IH [OF this(1,2) acc others(1)] this(3) up show ?thesis
        unfolding run reads receive_more [of prev r "reads_of cid evs"] Waiting by (simp add: ev Waiting)
    next
      case False
      then have no: "\<forall>m. receive_message prev [r] \<noteq> Waiting m" by blast
      then have "sessions_at cid prev (ev # evs) (rv_sessions sv) = rv_sessions sv" by (simp add: ev split: received.split)
      moreover have "receive_message prev (reads_of cid (ev # evs)) = receive_message prev [r]"
        unfolding reads receive_more [of prev r "reads_of cid evs"] using no by (simp split: received.split)
      moreover have "map_of (rv_open ?sv') cid = None"
        "map_of (rv_served ?sv') cid = Some (on_received f parse (rv_sessions sv) ip (receive_message prev [r]))"
        using read no by (auto simp: step split: received.splits)
      ultimately show ?thesis
        unfolding run using over_run [where sv = ?sv' and cid = cid and evs = evs and f = f and parse = parse] others(1)
          received_outcome(2) [OF no] by simp
    qed
  qed
qed

text \<open>When a handler is defined: no line of an announcement is empty, and the session has an application.\<close>

lemma handler_undefined:
  assumes "message_handler f msg s = Inl e" "e \<noteq> Missing_argument"
  shows "(''a'', []) \<in> set (pk_payloads msg) \<or> ss_app s = None"
proof -
  have line: "v = []" if "parse_arg_line v = Inl e'" for v e'
    using that split_str_join [of v "CHR '':''"] by (cases "v = []") (auto simp: parse_arg_line_def split: list.splits)
  have args: "(''a'', []) \<in> set ls" if "parse_args ls = Inl e'" for ls e'
    using that by (induction ls) (auto dest: line split: if_splits sum.splits)
  have "announce f msg s = Inl e" using assms(1) by (auto simp: message_handler_def Let_def split: if_splits)
  then show ?thesis using assms(2) args by (auto simp: announce_def split: sum.splits option.splits)
qed

lemma no_crash:
  assumes "\<forall>m msg. parse m = Some msg \<longrightarrow> (''a'', []) \<notin> set (pk_payloads msg)"
    and "\<forall>ss. Sessions_are ss \<in> set evs \<longrightarrow> (\<forall>s \<in> set ss. ss_app s \<noteq> None)"
    and "\<forall>s \<in> set (rv_sessions sv). ss_app s \<noteq> None" "\<not> rv_crashed sv"
  shows "\<not> rv_crashed (run_server f parse evs sv)"
  using assms(2-4)
proof (induction evs arbitrary: sv)
  case (Cons ev evs)
  have "on_received f parse (rv_sessions sv) ip rcv \<noteq> Crashed" for ip rcv
  proof
    assume "on_received f parse (rv_sessions sv) ip rcv = Crashed"
    then obtain m msg s e where "parse m = Some msg" "get_session (rv_sessions sv) msg ip = Some s"
      "message_handler f msg s = Inl e" "e \<noteq> Missing_argument"
      by (auto simp: on_received_def failed_with_def split: received.splits option.splits sum.splits if_splits)
    with handler_undefined assms(1) Cons.prems(2) get_session_first show False by (metis in_set_conv_decomp)
  qed
  with Cons.prems have "\<not> rv_crashed (server_step f parse ev sv) \<and> (\<forall>s \<in> set (rv_sessions (server_step f parse ev sv)). ss_app s \<noteq> None)"
    by (cases ev) (auto simp: handle_accept_def handle_read_def start_accept_def serve_def Let_def split: option.split received.split)
  with Cons show ?case by auto
qed simp

subsection \<open>Property\<close>

text \<open>C34: One client does not touch the others, short of a crash. Whatever the sockets yield after a
  connection was accepted, in any order (clients that reset, that send garbage, whose messages make
  a handler throw), and however the running sessions change meanwhile: unless the process has ended
  with a handler of undefined behaviour, the server goes on accepting, and the connection got exactly
  what it would get alone from its own reads and the sessions that ran when its message was complete.
\<close>

theorem connections_independent:
  assumes "rv_accepting sv" and "\<not> rv_crashed sv" and "map_of (rv_served sv) cid = None"
    and "\<forall>ev \<in> set evs. other_event cid ev"
    and "final = run_server f parse (Accepted cid (Some ip) # evs) sv"
  shows "if rv_crashed final then \<exists>i. (i, Crashed) \<in> set (rv_served final)
    else rv_accepting final \<and>
      map_of (rv_served final) cid =
        outcome (start_connection f parse (sessions_at cid [] evs (rv_sessions sv)) (Some ip) (reads_of cid evs))"
proof -
  let ?sv1 = "handle_accept cid (Some ip) sv"
  have run: "final = run_server f parse evs ?sv1" using assms(1,2,5) by (simp add: has_work_def)
  have sv1: "map_of (rv_open ?sv1) cid = Some (ip, [])" "map_of (rv_served ?sv1) cid = None" "rv_accepting ?sv1"
    "rv_sessions ?sv1 = rv_sessions sv" "\<not> rv_crashed ?sv1"
    using assms(2,3) by (simp_all add: handle_accept_def start_accept_def Let_def)
  show ?thesis
  proof (cases "rv_crashed final")
    case True
    with crashed_run [of ?sv1 f parse evs] sv1(5) run show ?thesis by simp
  next
    case False
    then have "\<not> rv_crashed (run_server f parse evs ?sv1)" by (simp add: run)
    from connection_run [OF sv1(1-3) assms(4) this] False sv1(4) accepting_run [OF sv1(3)] show ?thesis
      by (simp add: run start_connection_received)
  qed
qed

definition demo_events_rtsp :: "rtsp_event list" where
  "demo_events_rtsp =
     [Accepted 2 (Some ''10.0.0.66''), Read_done 2 (Data ''Content-length: x''), Accepted 3 (Some ''10.0.0.66''),
      Read_done 3 Broken, Accept_failed, Sessions_are [demo_running], Read_done 1 (Data ''ANNOUNCE''), Sessions_are []]"

lemma demo_served:
  assumes "parse ''ANNOUNCE'' = Some msg" "get_session [demo_running] msg ''192.168.1.9'' = Some s"
    "message_handler (\<lambda>b. b) msg s = r" "new_rtsp_server True [] = Some sv"
  shows "\<exists>n. run_server (\<lambda>b. b) parse (Accepted 1 (Some ''192.168.1.9'') # demo_events_rtsp) sv =
    \<lparr>rv_accepting = True, rv_sessions = (if \<exists>e. r = Inl e \<and> e \<noteq> Missing_argument then [demo_running] else []), rv_open = [],
      rv_served = [(2, Unwound), (3, Replied bad_request False []), (1, case r of Inl e \<Rightarrow> failed_with e
        | Inr (response, evs) \<Rightarrow> Replied (packet_text response) True evs)], rv_caught = n,
      rv_crashed = (\<exists>e. r = Inl e \<and> e \<noteq> Missing_argument)\<rparr>"
proof -
  have bad: "receive_message [] [Data ''Content-length: x''] = Bad_length"
    by (simp add: receive_message.simps) code_simp
  have broken: "receive_message [] [Broken] = Bad_transmission" by (simp add: receive_message.simps)
  show ?thesis
    using assms(4)
    by (cases r) (auto simp: demo_events_rtsp_def new_rtsp_server_def start_accept_def has_work_def handle_accept_def handle_read_def
        Let_def bad broken demo_read serve_def on_received_def assms(1-3) failed_with_def split: rtsp_error.splits)
qed

lemma connections_independent_witness:
  "\<exists>sv final reply evs. new_rtsp_server True [] = Some sv \<and>
     final = run_server (\<lambda>b. b) (\<lambda>_. Some demo_announce) (Accepted 1 (Some ''192.168.1.9'') # demo_events_rtsp) sv \<and>
     \<not> rv_crashed final \<and> rv_accepting final \<and> map_of (rv_served final) 1 = Some (Replied reply True evs) \<and> evs \<noteq> []"
proof -
  let ?parse = "\<lambda>_. Some demo_announce" and ?ip = "''192.168.1.9''"
  obtain sv where sv: "new_rtsp_server True [] = Some sv" "rv_accepting sv" "rv_served sv = []" "rv_sessions sv = []" "\<not> rv_crashed sv"
    by (simp add: new_rtsp_server_def start_accept_def)
  obtain resp evs where h: "message_handler (\<lambda>b. b) demo_announce demo_running = Inr (resp, evs)" "evs \<noteq> []"
    using demo_announced by blast
  define final where "final = run_server (\<lambda>b. b) ?parse (Accepted 1 (Some ?ip) # demo_events_rtsp) sv"
  have up: "\<not> rv_crashed final"
    using demo_served [where parse = ?parse, OF refl demo_found h(1) sv(1)] by (auto simp: final_def)
  have "start_connection (\<lambda>b. b) ?parse [demo_running] (Some ?ip) [Data ''ANNOUNCE''] = Replied (packet_text resp) True evs"
    by (simp add: start_connection_def demo_read demo_found h)
  moreover have "reads_of 1 demo_events_rtsp = [Data ''ANNOUNCE'']" by (simp add: reads_of_def demo_events_rtsp_def)
  moreover have "sessions_at 1 [] demo_events_rtsp [] = [demo_running]" by (simp add: demo_events_rtsp_def demo_read)
  moreover have "\<forall>ev \<in> set demo_events_rtsp. other_event 1 ev" by (simp add: demo_events_rtsp_def other_event_def)
  ultimately have "rv_accepting final \<and> map_of (rv_served final) 1 = Some (Replied (packet_text resp) True evs)"
    using connections_independent [where sv = sv and cid = 1 and evs = demo_events_rtsp and f = "\<lambda>b. b" and parse = ?parse
        and ip = ?ip and final = final] sv up by (simp add: final_def outcome_def)
  with sv(1) h(2) up show ?thesis unfolding final_def by blast
qed

text \<open>And it can crash: an \<open>ANNOUNCE\<close> with an empty line ends the process, for all clients.\<close>

definition empty_announce :: RTSP_PACKET where
  "empty_announce = demo_announce\<lparr>pk_payloads := [(''a'', [])]\<rparr>"

lemma empty_line_ends_server:
  assumes "new_rtsp_server True [] = Some sv"
  shows "rv_crashed (run_server (\<lambda>b. b) (\<lambda>_. Some empty_announce) (Accepted 1 (Some ''192.168.1.9'') # demo_events_rtsp) sv)"
proof -
  have "hash ''ANNOUNCE'' \<notin> {hash ''OPTIONS'', hash ''DESCRIBE'', hash ''SETUP''}" by code_simp
  then have h: "message_handler (\<lambda>b. b) empty_announce demo_running = Inl Undefined_no_piece"
    by (simp add: message_handler_def Let_def announce_def empty_announce_def demo_announce_def parse_arg_line_def split_str_def
        split_data_def)
  have g: "get_session [demo_running] empty_announce ''192.168.1.9'' = Some demo_running"
    using demo_found by (simp add: get_session_def empty_announce_def)
  from demo_served [where parse = "\<lambda>_. Some empty_announce", OF refl g h assms] show ?thesis by (auto simp del: run_server.simps)
qed

end
