(* ===== verification/Gst_Utils.thy ===== *)
theory Gst_Utils
  imports Crypto
begin

section \<open>Buffers of the payloaders: moonlight-server/gst-plugin/utils.hpp\<close>

text \<open>
  What the audio and the video payloader share. A \<open>GstBuffer\<close> is its bytes and a
  \<open>GstBufferList\<close> the list of them; time stamps are not modelled. A packet is written in place at
  the offsets of the packed structs of its header. The Reed-Solomon code of moonlight/fec.hpp is
  the library nanors, a parameter.
\<close>

subsection \<open>Writing fields in place\<close>

definition be16 :: "u16 \<Rightarrow> bytes" where
  "be16 w = le16 (swap16 w)"

definition be32 :: "u32 \<Rightarrow> bytes" where
  "be32 w = le32 (swap32 w)"

definition store :: "nat \<Rightarrow> bytes \<Rightarrow> bytes \<Rightarrow> bytes" where
  "store i b m = take i m @ b @ drop (i + length b) m"

lemma length_be [wire, simp]: "length (be16 w) = 2" "length (be32 v) = 4"
  by (simp_all add: be16_def be32_def)

lemma length_store [wire]: "i + length b \<le> length m \<Longrightarrow> length (store i b m) = length m"
  by (simp add: store_def)

lemma rdn_store_same [wire]: "i + length b \<le> length m \<Longrightarrow> rdn (store i b m) i (length b) = Some b"
  by (simp add: rdn_def store_def)

lemma rdn_store_other [wire]:
  assumes "i + length b \<le> length m" "j + n \<le> i \<or> i + length b \<le> j"
  shows "rdn (store i b m) j n = rdn m j n"
proof -
  have len: "length (store i b m) = length m" using assms(1) by (rule length_store)
  have "take n (drop j (store i b m)) = take n (drop j m)" if "j + n \<le> length m"
  proof (rule nth_equalityI)
    fix k assume "k < length (take n (drop j (store i b m)))"
    then have k: "k < n" "j + k < length m" using len that by auto
    then have "store i b m ! (j + k) = m ! (j + k)"
      using assms by (auto simp: store_def nth_append min_def)
    with k len show "take n (drop j (store i b m)) ! k = take n (drop j m) ! k" by simp
  qed (use len in simp)
  with len show ?thesis by (simp add: rdn_def)
qed

subsection \<open>Buffers\<close>

definition gst_buffer_new_and_fill :: "nat \<Rightarrow> u8 \<Rightarrow> bytes" where
  "gst_buffer_new_and_fill n fill_val = replicate n fill_val"

definition gst_buffer_copy_content :: "bytes \<Rightarrow> nat \<Rightarrow> nat \<Rightarrow> bytes option" where
  "gst_buffer_copy_content buf offset n = rdn buf offset n"

text \<open>\<open>std::copy\<close> into a block of memory: \<open>None\<close> when it would write past the end of the block.\<close>

definition gst_buffer_copy_into :: "bytes \<Rightarrow> bytes \<Rightarrow> bytes option" where
  "gst_buffer_copy_into buf destination =
     (if length buf \<le> length destination then Some (store 0 buf destination) else None)"

definition gst_buffer_list_unfold :: "bytes list \<Rightarrow> bytes" where
  "gst_buffer_list_unfold buffer_list = concat buffer_list"

text \<open>From \<open>start\<close> to \<open>end\<close>, which the callers keep within the list.\<close>

definition gst_buffer_list_sub :: "bytes list \<Rightarrow> nat \<Rightarrow> nat \<Rightarrow> bytes list" where
  "gst_buffer_list_sub buffer_list start end_idx = map (\<lambda>idx. buffer_list ! idx) [start..<end_idx]"

lemma gst_buffer_list_sub_eq:
  "e \<le> length l \<Longrightarrow> gst_buffer_list_sub l s e = drop s (take e l)"
  by (rule nth_equalityI) (auto simp: gst_buffer_list_sub_def)

lemmas gst_buffer_defs [simp] = gst_buffer_new_and_fill_def gst_buffer_list_unfold_def

subsection \<open>Error correction and encryption\<close>

text \<open>\<open>rs data parity shards\<close> is what the encoder writes into the parity shards; its laws are that
  it writes as many shards as asked, of the size of the data shards.\<close>

type_synonym rs_encoder = "nat \<Rightarrow> nat \<Rightarrow> bytes list \<Rightarrow> bytes list"

definition rs_shape :: "rs_encoder \<Rightarrow> bool" where
  "rs_shape rs \<longleftrightarrow> (\<forall>d m b sh. 0 < d \<longrightarrow> length sh = d \<longrightarrow> (\<forall>x \<in> set sh. length x = b) \<longrightarrow>
     length (rs d m sh) = m \<and> (\<forall>x \<in> set (rs d m sh). length x = b))"

lemma rs_shapeD:
  assumes "rs_shape rs" "0 < d" "length sh = d" "\<forall>x \<in> set sh. length x = b"
  shows "length (rs d m sh) = m" "\<forall>x \<in> set (rs d m sh). length x = b"
  using assms unfolding rs_shape_def by blast+

definition zero_rs :: rs_encoder where
  "zero_rs d m sh = replicate m (replicate (length (hd sh)) 0)"

lemma zero_rs_shape: "rs_shape zero_rs"
  unfolding rs_shape_def zero_rs_def by (auto simp: hd_in_set length_greater_0_conv)

text \<open>\<open>std::stoul\<close> gives 64 bits, of which 32 are kept.\<close>

definition derive_iv :: "string \<Rightarrow> int \<Rightarrow> num_error + bytes" where
  "derive_iv aes_iv cur_seq_number =
     map_sum id (\<lambda>input_iv. be32 (of_nat input_iv + of_int cur_seq_number) @ replicate 12 0) (stoul aes_iv)"

definition encrypt_payload :: "openssl \<Rightarrow> bytes \<Rightarrow> bytes \<Rightarrow> bytes \<Rightarrow> bytes" where
  "encrypt_payload ssl aes_key aes_iv inbuf = fst (aes_encrypt_cbc ssl inbuf aes_key aes_iv True)"

end
