(* ===== verification/Video_RTP.thy ===== *)
theory Video_RTP
  imports Gst_Utils "HOL-Library.Monad_Syntax"
begin

section \<open>Video packets: moonlight-server/gst-plugin/video.hpp\<close>

text \<open>
  The payloader: a frame becomes a short header and its bytes, cut into RTP packets of one size,
  grouped in blocks that are completed with Reed-Solomon parity packets. A \<open>GstBuffer\<close> is its
  bytes, a \<open>GstBufferList\<close> the list of them; a header is written and rewritten in place at the
  offsets of the packed structs. The Reed-Solomon encoder and the single-precision quotient rounded
  up (\<open>std::ceil((float)a / b)\<close>) are parameters. \<open>None\<close> is an integer division by zero, which
  stops the process.
\<close>

subsection \<open>State\<close>

record video_pay =
  vp_payload_size :: int
  vp_add_padding :: bool
  vp_fec_percentage :: int
  vp_min_required_fec_packets :: int
  vp_cur_seq_number :: u32
  vp_frame_num :: u32

definition video_pay_init :: video_pay where
  "video_pay_init = \<lparr>vp_payload_size = 1392, vp_add_padding = True, vp_fec_percentage = 20,
     vp_min_required_fec_packets = 2, vp_cur_seq_number = 0, vp_frame_num = 0\<rparr>"

text \<open>The properties of the element; GObject brings a number into the range that the class declares.\<close>

datatype video_property =
    PROP_PAYLOAD_SIZE int
  | PROP_ADD_PADDING bool
  | PROP_FEC_PERCENTAGE int
  | PROP_MIN_REQUIRED_FEC_PACKETS int

definition in_range :: "int \<Rightarrow> int \<Rightarrow> int \<Rightarrow> int" where
  "in_range lo hi v = max lo (min hi v)"

fun set_property :: "video_property \<Rightarrow> video_pay \<Rightarrow> video_pay" where
  "set_property (PROP_PAYLOAD_SIZE v) pay = pay\<lparr>vp_payload_size := in_range 0 10240 v\<rparr>"
| "set_property (PROP_ADD_PADDING v) pay = pay\<lparr>vp_add_padding := v\<rparr>"
| "set_property (PROP_FEC_PERCENTAGE v) pay = pay\<lparr>vp_fec_percentage := in_range 0 100 v\<rparr>"
| "set_property (PROP_MIN_REQUIRED_FEC_PACKETS v) pay = pay\<lparr>vp_min_required_fec_packets := in_range 0 255 v\<rparr>"

definition MAX_RTP_HEADER_SIZE :: int where "MAX_RTP_HEADER_SIZE = 16"
definition NV_VIDEO_PACKET_SIZE :: int where "NV_VIDEO_PACKET_SIZE = 16"
definition VIDEO_RTP_HEADERS_SIZE :: nat where "VIDEO_RTP_HEADERS_SIZE = 32"
definition DATA_SHARDS_MAX :: int where "DATA_SHARDS_MAX = 255"

subsection \<open>The headers\<close>

definition FLAG_EXTENSION :: u8 where "FLAG_EXTENSION = 0x10"
definition FLAG_CONTAINS_PIC_DATA :: u8 where "FLAG_CONTAINS_PIC_DATA = 0x1"
definition FLAG_EOF :: u8 where "FLAG_EOF = 0x2"
definition FLAG_SOF :: u8 where "FLAG_SOF = 0x4"

text \<open>\<open>VideoRTPHeaders\<close>: \<open>RTP_PACKET\<close> (12 bytes), 4 reserved bytes, \<open>NV_VIDEO_PACKET\<close> (16 bytes).\<close>

definition fec_info :: "int \<Rightarrow> int \<Rightarrow> int \<Rightarrow> u32" where
  "fec_info shard_idx data_shards percentage =
     push_bit 12 (of_int shard_idx) OR push_bit 22 (of_int data_shards) OR push_bit 4 (of_int percentage)"

definition packet_flags :: "nat \<Rightarrow> nat \<Rightarrow> u8" where
  "packet_flags packet_nr tot_packets =
     FLAG_CONTAINS_PIC_DATA OR (if packet_nr = 0 then FLAG_SOF else 0) OR
     (if packet_nr + 1 = tot_packets then FLAG_EOF else 0)"

definition create_rtp_header :: "video_pay \<Rightarrow> nat \<Rightarrow> nat \<Rightarrow> bytes" where
  "create_rtp_header pay packet_nr tot_packets =
     (let sequence_number = vp_cur_seq_number pay + of_nat packet_nr
      in [0x80 OR FLAG_EXTENSION, 0] @ be16 (ucast sequence_number) @ le32 0 @ le32 0 @ [0, 0, 0, 0] @
         le32 (push_bit 8 sequence_number) @ le32 (vp_frame_num pay) @
         [packet_flags packet_nr tot_packets, 0, 0x10, 0] @
         le32 (fec_info (int packet_nr) (int tot_packets) 0))"

text \<open>The 8 bytes before a frame. The remainder is taken in \<open>size_t\<close>.\<close>

definition last_payload_len :: "int \<Rightarrow> nat \<Rightarrow> u16 option" where
  "last_payload_len payload_size in_buf_size =
     (let m = of_int (payload_size - NV_VIDEO_PACKET_SIZE) :: u64;
          len = ucast ((of_nat in_buf_size + 8 :: u64) mod m) :: u16
      in if m = 0 then None else Some (if len = 0 then ucast m else len))"

definition prepend_video_header :: "video_pay \<Rightarrow> bool \<Rightarrow> bytes \<Rightarrow> bytes option" where
  "prepend_video_header pay is_key inbuf =
     map_option (\<lambda>len. [0x01, 0, 0, if is_key then 0x02 else 0x01] @ le16 len @ [0, 0] @ inbuf)
       (last_payload_len (vp_payload_size pay) (length inbuf))"

subsection \<open>Cutting a frame\<close>

definition rtp_payload :: "video_pay \<Rightarrow> nat \<Rightarrow> bytes \<Rightarrow> nat \<Rightarrow> bytes" where
  "rtp_payload pay payload_size inbuf packet_nr =
     (let begin = packet_nr * payload_size;
          remaining = length inbuf - begin
      in take (min remaining payload_size) (drop begin inbuf) @
         (if remaining < payload_size \<and> vp_add_padding pay then gst_buffer_new_and_fill (payload_size - remaining) 0 else []))"

definition generate_rtp_packets :: "(nat \<Rightarrow> nat \<Rightarrow> nat) \<Rightarrow> video_pay \<Rightarrow> bytes \<Rightarrow> bytes list" where
  "generate_rtp_packets fceil pay inbuf =
     (let payload_size = vp_payload_size pay - MAX_RTP_HEADER_SIZE
      in if payload_size \<le> 0 then []
         else let tot_packets = fceil (length inbuf) (nat payload_size)
              in map (\<lambda>packet_nr. create_rtp_header pay packet_nr tot_packets @
                     rtp_payload pay (nat payload_size) inbuf packet_nr)
                   [0..<tot_packets])"

subsection \<open>Error correction\<close>

definition update_fec_info :: "video_pay \<Rightarrow> nat \<Rightarrow> nat \<Rightarrow> int \<Rightarrow> nat \<Rightarrow> nat \<Rightarrow> bytes \<Rightarrow> bytes" where
  "update_fec_info pay shard_idx data_shards percentage block_index last_block_index pkt =
     store 20 (le32 (vp_frame_num pay))
    (store 28 (le32 (fec_info (int shard_idx) (int data_shards) percentage))
    (store 27 [push_bit 4 (of_nat block_index) OR of_nat last_block_index]
    (store 26 [0x10]
    (store 0 [0x80 OR FLAG_EXTENSION]
    (store 2 (be16 (ucast (vp_cur_seq_number pay + of_nat shard_idx))) pkt)))))"

record BLOCKS =
  bl_block_size :: int
  bl_data_shards :: int
  bl_parity_shards :: int
  bl_fec_percentage :: int

definition cquot :: "int \<Rightarrow> int \<Rightarrow> int" where
  "cquot a b = sgn a * sgn b * (\<bar>a\<bar> div \<bar>b\<bar>)"

definition determine_split :: "video_pay \<Rightarrow> int \<Rightarrow> BLOCKS option" where
  "determine_split pay data_shards =
     (let blocksize = vp_payload_size pay + int VIDEO_RTP_HEADERS_SIZE - MAX_RTP_HEADER_SIZE;
          parity_shards = cquot (data_shards * vp_fec_percentage pay + 99) 100
      in if parity_shards < vp_min_required_fec_packets pay
         then (if data_shards = 0 then None
               else Some \<lparr>bl_block_size = blocksize, bl_data_shards = data_shards,
                 bl_parity_shards = vp_min_required_fec_packets pay,
                 bl_fec_percentage = cquot (100 * vp_min_required_fec_packets pay) data_shards\<rparr>)
         else Some \<lparr>bl_block_size = blocksize, bl_data_shards = data_shards,
                 bl_parity_shards = parity_shards, bl_fec_percentage = vp_fec_percentage pay\<rparr>)"

definition fec_payload :: "nat \<Rightarrow> nat \<Rightarrow> bytes list \<Rightarrow> bytes list" where
  "fec_payload data_shards block_size rtp_packets =
     (let payload = gst_buffer_list_unfold rtp_packets;
          padded = (if length payload mod block_size \<noteq> 0
                    then payload @ gst_buffer_new_and_fill (data_shards * block_size - length payload) 0 else payload)
      in map (\<lambda>i. take block_size (drop (i * block_size) padded)) [0..<data_shards])"

definition generate_fec_packets ::
    "rs_encoder \<Rightarrow> video_pay \<Rightarrow> bytes list \<Rightarrow> nat \<Rightarrow> nat \<Rightarrow> bytes list option" where
  "generate_fec_packets rs pay rtp_packets block_index last_block_index =
     do {
       blocks \<leftarrow> determine_split pay (int (length rtp_packets));
       let data_shards = length rtp_packets;
       let nr_shards = bl_data_shards blocks + bl_parity_shards blocks;
       if nr_shards > DATA_SHARDS_MAX then Some rtp_packets
       else do {
         let parity = rs data_shards (nat (bl_parity_shards blocks))
           (fec_payload data_shards (nat (bl_block_size blocks)) rtp_packets);
         let upd = (\<lambda>i. update_fec_info pay i data_shards (bl_fec_percentage blocks) block_index last_block_index);
         Some (map (\<lambda>(i, p). upd i p) (enumerate 0 rtp_packets) @
               map (\<lambda>(i, p). upd i p) (enumerate data_shards parity)) } }"

text \<open>The blocks, three of them; each one that is sent moves the sequence number on.\<close>

definition block_of :: "nat \<Rightarrow> bytes list \<Rightarrow> nat \<Rightarrow> bytes list" where
  "block_of packets_per_block rtp_packets block_idx =
     (let list_start = block_idx * packets_per_block;
          list_end = min ((block_idx + 1) * packets_per_block) (length rtp_packets)
      in gst_buffer_list_sub rtp_packets list_start list_end)"

primrec fec_blocks ::
    "rs_encoder \<Rightarrow> nat \<Rightarrow> nat \<Rightarrow> bytes list \<Rightarrow> nat list \<Rightarrow> video_pay \<Rightarrow> (video_pay \<times> bytes list) option" where
  "fec_blocks rs last_block_index packets_per_block rtp_packets [] pay = Some (pay, [])"
| "fec_blocks rs last_block_index packets_per_block rtp_packets (block_idx # bs) pay =
     do {
       block_packets \<leftarrow> generate_fec_packets rs pay (block_of packets_per_block rtp_packets block_idx)
         block_idx last_block_index;
       let pay' = pay\<lparr>vp_cur_seq_number := vp_cur_seq_number pay + of_nat (length block_packets)\<rparr>;
       (pay'', rest) \<leftarrow> fec_blocks rs last_block_index packets_per_block rtp_packets bs pay';
       Some (pay'', block_packets @ rest) }"

definition generate_fec_multi_blocks ::
    "rs_encoder \<Rightarrow> (nat \<Rightarrow> nat \<Rightarrow> nat) \<Rightarrow> video_pay \<Rightarrow> bytes list \<Rightarrow> nat \<Rightarrow> (video_pay \<times> bytes list) option" where
  "generate_fec_multi_blocks rs fceil pay rtp_packets data_shards =
     fec_blocks rs 128 (fceil data_shards 3) rtp_packets [0, 1, 2] pay"

definition split_into_rtp ::
    "rs_encoder \<Rightarrow> (nat \<Rightarrow> nat \<Rightarrow> nat) \<Rightarrow> video_pay \<Rightarrow> bool \<Rightarrow> bytes \<Rightarrow> (video_pay \<times> bytes list) option" where
  "split_into_rtp rs fceil pay is_key inbuf =
     do {
       full_payload_buf \<leftarrow> prepend_video_header pay is_key inbuf;
       let rtp_packets = generate_rtp_packets fceil pay full_payload_buf;
       (pay', packets) \<leftarrow>
         (if vp_fec_percentage pay > 0
          then do {
            blocks \<leftarrow> determine_split pay (int (length rtp_packets));
            if bl_data_shards blocks > 90
            then generate_fec_multi_blocks rs fceil pay rtp_packets (nat (bl_data_shards blocks))
            else do {
              packets \<leftarrow> generate_fec_packets rs pay rtp_packets 0 0;
              Some (pay\<lparr>vp_cur_seq_number := vp_cur_seq_number pay + of_nat (length packets)\<rparr>, packets) } }
          else Some (pay, rtp_packets));
       Some (pay'\<lparr>vp_frame_num := vp_frame_num pay + 1\<rparr>, packets) }"

text \<open>\<open>generate_output\<close> for the buffers that arrive one after the other; each list is pushed to
  the pad.\<close>

primrec generate_output ::
    "rs_encoder \<Rightarrow> (nat \<Rightarrow> nat \<Rightarrow> nat) \<Rightarrow> video_pay \<Rightarrow> (bool \<times> bytes) list \<Rightarrow> (video_pay \<times> bytes list list) option" where
  "generate_output rs fceil pay [] = Some (pay, [])"
| "generate_output rs fceil pay (b # bs) =
     do {
       (pay', packets) \<leftarrow> split_into_rtp rs fceil pay (fst b) (snd b);
       (pay'', pushed) \<leftarrow> generate_output rs fceil pay' bs;
       Some (pay'', packets # pushed) }"

end
