(* ===== verification/Video_Client.thy ===== *)
theory Video_Client
  imports Video_RTP
begin

section \<open>Video packets: what a client reads back\<close>

text \<open>
  The contract of the video payloader, stated from the side of a client: the fields of a packet
  as they are read from its bytes, the depacketizer that puts a frame together again, and the
  lemmas that lead to the properties: every frame is recovered exactly, and the sequence numbers
  of the packets are consecutive.
\<close>

subsection \<open>Reading the fields of a packet\<close>

definition fec_field :: "bytes \<Rightarrow> u32" where
  "fec_field pkt = (case rd32 pkt 28 of Some w \<Rightarrow> w | None \<Rightarrow> 0)"

definition shard_index :: "bytes \<Rightarrow> nat" where
  "shard_index pkt = unat (take_bit 10 (drop_bit 12 (fec_field pkt)))"

definition shard_count :: "bytes \<Rightarrow> nat" where
  "shard_count pkt = unat (drop_bit 22 (fec_field pkt))"

definition fec_percent :: "bytes \<Rightarrow> nat" where
  "fec_percent pkt = unat (take_bit 8 (drop_bit 4 (fec_field pkt)))"

definition seq_number :: "bytes \<Rightarrow> u16" where
  "seq_number pkt = (case rd16 pkt 2 of Some w \<Rightarrow> swap16 w | None \<Rightarrow> 0)"

definition frame_index :: "bytes \<Rightarrow> u32" where
  "frame_index pkt = (case rd32 pkt 20 of Some w \<Rightarrow> w | None \<Rightarrow> 0)"

definition is_data_packet :: "bytes \<Rightarrow> bool" where
  "is_data_packet pkt \<longleftrightarrow> shard_index pkt < shard_count pkt"

text \<open>
  The frame: the payloads of the data packets in the order of arrival, the last one cut at the
  length announced in the header of the frame.
\<close>

definition depacketize :: "nat \<Rightarrow> bytes list \<Rightarrow> bytes" where
  "depacketize payload_size pkts =
     (let data = filter is_data_packet pkts;
          stream = concat (map (drop VIDEO_RTP_HEADERS_SIZE) data);
          last_len = (case rd16 stream 4 of Some w \<Rightarrow> unat w | None \<Rightarrow> 0)
      in take ((length data - 1) * payload_size + last_len - 8) (drop 8 stream))"

subsection \<open>Lemmas on the fields\<close>

lemma bit_nat_ge:
  assumes "n < 2 ^ k" "k \<le> m"
  shows "\<not> bit (n :: nat) m"
proof -
  have "take_bit k n = n" using assms(1) by (rule take_bit_nat_eq_self)
  then show ?thesis using assms(2) by (metis bit_take_bit_iff not_less)
qed

lemma fec_info_fields:
  assumes "i < 1024" "d < 1024" "p < 256"
  shows "take_bit 10 (drop_bit 12 (fec_info (int i) (int d) (int p))) = of_nat i"
    and "drop_bit 22 (fec_info (int i) (int d) (int p)) = of_nat d"
    and "take_bit 8 (drop_bit 4 (fec_info (int i) (int d) (int p))) = of_nat p"
proof -
  note hi = bit_nat_ge [of i 10] bit_nat_ge [of d 10] bit_nat_ge [of p 8]
  show "take_bit 10 (drop_bit 12 (fec_info (int i) (int d) (int p))) = of_nat i"
    unfolding fec_info_def using assms by (intro bit_word_eqI) (auto simp: bit_simps hi)
  have "n < 10" if "bit d n" for n
    using bit_nat_ge [of d 10 n] that assms(2) by (cases "n < 10") auto
  then show "drop_bit 22 (fec_info (int i) (int d) (int p)) = of_nat d"
    unfolding fec_info_def using assms by (intro bit_word_eqI) (auto simp: bit_simps hi)
  show "take_bit 8 (drop_bit 4 (fec_info (int i) (int d) (int p))) = of_nat p"
    unfolding fec_info_def using assms by (intro bit_word_eqI) (auto simp: bit_simps hi)
qed

lemma unat_of_nat_small: "n < 1024 \<Longrightarrow> unat (of_nat n :: u32) = n"
  by (simp add: unat_of_nat)

text \<open>What a client reads of a packet whose fec word is given.\<close>

lemma shard_fields:
  assumes "rd32 pkt 28 = Some (fec_info (int i) (int d) (int p))" "i < 1024" "d < 1024" "p < 256"
  shows "shard_index pkt = i" "shard_count pkt = d" "fec_percent pkt = p"
  using assms
  by (simp_all add: shard_index_def shard_count_def fec_percent_def fec_field_def fec_info_fields unat_of_nat)

subsection \<open>Writing and reading one packet\<close>

lemma rd16_rdn: "rd16 m i = (case rdn m i 2 of Some b \<Rightarrow> Some (get16 (b ! 0) (b ! 1)) | None \<Rightarrow> None)"
  by (simp add: rd16_def rdn_def)

lemma rd32_rdn:
  "rd32 m i = (case rdn m i 4 of Some b \<Rightarrow> Some (get32 (b ! 0) (b ! 1) (b ! 2) (b ! 3)) | None \<Rightarrow> None)"
  by (simp add: rd32_def rdn_def)

lemma get_le_nth [wire]:
  "get16 (le16 w ! 0) (le16 w ! Suc 0) = w"
  "get32 (le32 v ! 0) (le32 v ! Suc 0) (le32 v ! 2) (le32 v ! 3) = v"
  by (simp_all add: le16_def le32_def)

lemma update_fec_info_length [wire]:
  "32 \<le> length pkt \<Longrightarrow> length (update_fec_info pay s d p b l pkt) = length pkt"
  by (simp add: update_fec_info_def length_store)

lemma update_fec_info_payload [wire]:
  "32 \<le> length pkt \<Longrightarrow> drop 32 (update_fec_info pay s d p b l pkt) = drop 32 pkt"
  by (simp add: update_fec_info_def store_def)

lemma rd_update [wire]:
  assumes "32 \<le> length pkt"
  shows "rd32 (update_fec_info pay s d p b l pkt) 28 = Some (fec_info (int s) (int d) p)"
    and "rd16 (update_fec_info pay s d p b l pkt) 2 =
      Some (swap16 (ucast (vp_cur_seq_number pay + of_nat s)))"
    and "rd32 (update_fec_info pay s d p b l pkt) 20 = Some (vp_frame_num pay)"
  using assms
  by (simp_all add: update_fec_info_def rd16_rdn rd32_rdn be16_def rdn_store_same [where b = "le32 w" for w, simplified]
      rdn_store_same [where b = "le16 w" for w, simplified] rdn_store_other length_store get_le_nth)

lemma length_header [wire]: "length (create_rtp_header pay n t) = 32"
  by (simp add: create_rtp_header_def Let_def)

lemma rd_header [wire]:
  "rd32 (create_rtp_header pay n t @ r) 28 = Some (fec_info (int n) (int t) 0)"
  "rd16 (create_rtp_header pay n t @ r) 2 = Some (swap16 (ucast (vp_cur_seq_number pay + of_nat n)))"
  "rd32 (create_rtp_header pay n t @ r) 20 = Some (vp_frame_num pay)"
  by (simp_all add: create_rtp_header_def Let_def be16_def le16_def le32_def rd16_def rd32_def)

subsection \<open>The cutting of a frame\<close>

definition exact_ceil :: "(nat \<Rightarrow> nat \<Rightarrow> nat) \<Rightarrow> bool" where
  "exact_ceil fceil \<longleftrightarrow> (\<forall>n d. n < 2 ^ 24 \<longrightarrow> 0 < d \<longrightarrow> fceil n d = (n + d - 1) div d)"

text \<open>\<open>exact_ceil\<close> is what single precision gives: a quotient of two integers below \<open>2 ^ 24\<close>
  is further from every other integer than the rounding error.\<close>

lemma rtp_payload_length [wire]:
  "\<lbrakk>vp_add_padding pay; i * p < length b\<rbrakk> \<Longrightarrow> length (rtp_payload pay p b i) = p"
  by (simp add: rtp_payload_def Let_def min_def)

lemma rtp_payload_full:
  "(i + 1) * p \<le> length b \<Longrightarrow> rtp_payload pay p b i = take p (drop (i * p) b)"
  by (simp add: rtp_payload_def Let_def min_def)

lemma concat_full_payloads:
  "n * p \<le> length b \<Longrightarrow> concat (map (rtp_payload pay p b) [0..<n]) = take (n * p) b"
proof (induction n)
  case (Suc n)
  then have "concat (map (rtp_payload pay p b) [0..<n]) = take (n * p) b" by simp
  moreover have "rtp_payload pay p b n = take p (drop (n * p) b)"
    using Suc.prems by (intro rtp_payload_full) (simp add: algebra_simps)
  ultimately show ?case by (simp add: take_add [symmetric] add.commute)
qed simp

lemma concat_payloads:
  assumes "vp_add_padding pay" "0 < p" "b \<noteq> []"
  shows "\<exists>z. concat (map (rtp_payload pay p b) [0..<(length b + p - 1) div p]) = b @ replicate z 0 \<and> z < p"
proof -
  define n where "n = (length b - 1) div p"
  have len: "0 < length b" using assms(3) by simp
  have tot: "(length b + p - 1) div p = Suc n"
    using assms(2) len unfolding n_def by (metis Nat.add_diff_assoc2 Suc_leI div_add_self2 not_less0 One_nat_def Suc_eq_plus1 less_not_refl)
  have "n * p + (length b - 1) mod p = length b - 1" "(length b - 1) mod p < p"
    using assms(2) by (simp_all add: n_def)
  then have lo: "n * p < length b" and "length b \<le> p + n * p"
    using len by linarith+
  then have hi: "length b \<le> Suc n * p" by simp
  have last: "rtp_payload pay p b n = drop (n * p) b @ replicate (Suc n * p - length b) 0"
    using lo hi assms(1) by (auto simp: rtp_payload_def Let_def min_def)
  have "concat (map (rtp_payload pay p b) [0..<Suc n]) =
      take (n * p) b @ drop (n * p) b @ replicate (Suc n * p - length b) 0"
    using lo last by (simp add: concat_full_payloads)
  then have "concat (map (rtp_payload pay p b) [0..<Suc n]) = b @ replicate (Suc n * p - length b) 0"
    by (metis append_assoc append_take_drop_id)
  moreover have "Suc n * p - length b < p" using lo assms(2) by simp
  ultimately show ?thesis unfolding tot by blast
qed

subsection \<open>One block\<close>

definition seqs :: "u32 \<Rightarrow> nat \<Rightarrow> nat \<Rightarrow> u16 list" where
  "seqs cur a b = map (\<lambda>i. ucast (cur + of_nat i)) [a..<b]"

lemma length_seqs [simp]: "length (seqs cur a b) = b - a"
  by (simp add: seqs_def)

lemma seqs_append: "a \<le> b \<Longrightarrow> b \<le> c \<Longrightarrow> seqs cur a b @ seqs cur b c = seqs cur a c"
  using upt_add_eq_append [of a b "c - b"] by (simp add: seqs_def)

lemma seqs_shift: "seqs (cur + of_nat k) a b = seqs cur (a + k) (b + k)"
  by (rule nth_equalityI) (simp_all add: seqs_def ac_simps)

lemma upd_seq:
  assumes "\<forall>x \<in> set xs. 32 \<le> length x"
  shows "map seq_number (map (\<lambda>(i, x). update_fec_info pay i d p b l x) (enumerate n xs)) =
    seqs (vp_cur_seq_number pay) n (n + length xs)"
proof -
  have "seq_number (update_fec_info pay i d p b l x) = ucast (vp_cur_seq_number pay + of_nat i)"
    if "(i, x) \<in> set (enumerate n xs)" for i x
  proof -
    have "x \<in> set xs" using that by (auto simp: in_set_enumerate_eq)
    with assms show ?thesis by (simp add: seq_number_def rd_update)
  qed
  then have "map seq_number (map (\<lambda>(i, x). update_fec_info pay i d p b l x) (enumerate n xs)) =
      map (\<lambda>(i, x). ucast (vp_cur_seq_number pay + of_nat i)) (enumerate n xs)" by auto
  also have "\<dots> = map (\<lambda>i. ucast (vp_cur_seq_number pay + of_nat i)) (map fst (enumerate n xs))"
    by (simp add: split_beta del: map_fst_enumerate)
  finally show ?thesis by (simp add: seqs_def)
qed

lemma upd_data:
  assumes "\<forall>x \<in> set xs. 32 \<le> length x" "n + length xs \<le> 1023" "d < 1024" "p < 256"
  shows "\<forall>x \<in> set (map (\<lambda>(i, x). update_fec_info pay i d (int p) b l x) (enumerate n xs)).
      (n + length xs \<le> d \<longrightarrow> is_data_packet x) \<and> (d \<le> n \<longrightarrow> \<not> is_data_packet x)"
proof -
  have "shard_index (update_fec_info pay i d (int p) b l x) = i \<and>
      shard_count (update_fec_info pay i d (int p) b l x) = d \<and> n \<le> i \<and> i < n + length xs"
    if "(i, x) \<in> set (enumerate n xs)" for i x
    using that assms shard_fields [OF rd_update(1), of x i d p]
    by (auto simp: in_set_enumerate_eq)
  then show ?thesis by (fastforce simp: is_data_packet_def)
qed

lemma upd_payload:
  assumes "\<forall>x \<in> set xs. 32 \<le> length x"
  shows "map (drop 32) (map (\<lambda>(i, x). update_fec_info pay i d p b l x) (enumerate n xs)) = map (drop 32) xs"
proof -
  have "map (drop 32) (map (\<lambda>(i, x). update_fec_info pay i d p b l x) (enumerate n xs)) =
      map (drop 32) (map snd (enumerate n xs))"
    using assms by (auto simp: update_fec_info_payload in_set_enumerate_eq simp del: map_snd_enumerate)
  then show ?thesis by simp
qed

text \<open>The settings under which a client can read every header.\<close>

definition pay_ok :: "video_pay \<Rightarrow> bool" where
  "pay_ok pay \<longleftrightarrow> 16 < vp_payload_size pay \<and> vp_payload_size pay \<le> 65535 \<and> vp_add_padding pay \<and>
     0 < vp_fec_percentage pay \<and> vp_fec_percentage pay \<le> 255 \<and>
     0 \<le> vp_min_required_fec_packets pay \<and> vp_min_required_fec_packets pay \<le> 2"

definition shard_size :: "video_pay \<Rightarrow> nat" where
  "shard_size pay = nat (vp_payload_size pay + 16)"

lemma determine_split_ok:
  assumes "pay_ok pay" "0 < d"
  obtains bl p f where "determine_split pay (int d) = Some bl" "bl_block_size bl = int (shard_size pay)"
    "bl_data_shards bl = int d" "bl_parity_shards bl = int p" "bl_fec_percentage bl = int f" "f < 256"
    "p = nat (max (vp_min_required_fec_packets pay) ((int d * vp_fec_percentage pay + 99) div 100))"
proof -
  have par: "0 \<le> int d * vp_fec_percentage pay" using assms by (simp add: pay_ok_def)
  then have pq: "cquot (int d * vp_fec_percentage pay + 99) 100 = (int d * vp_fec_percentage pay + 99) div 100"
    by (simp add: cquot_def)
  have f: "0 \<le> cquot (100 * vp_min_required_fec_packets pay) (int d) \<and>
      cquot (100 * vp_min_required_fec_packets pay) (int d) < 256"
  proof (cases "vp_min_required_fec_packets pay = 0")
    case False
    with assms have "cquot (100 * vp_min_required_fec_packets pay) (int d) = 100 * vp_min_required_fec_packets pay div int d"
      by (simp add: cquot_def pay_ok_def)
    moreover have "100 * vp_min_required_fec_packets pay div int d \<le> 100 * vp_min_required_fec_packets pay"
      using assms zdiv_mono2 [of "100 * vp_min_required_fec_packets pay" 1 "int d"] by (simp add: pay_ok_def)
    ultimately show ?thesis using assms by (simp add: pay_ok_def pos_imp_zdiv_nonneg_iff)
  qed (simp add: cquot_def)
  have nn: "0 \<le> (int d * vp_fec_percentage pay + 99) div 100" using par by simp
  show thesis
  proof (cases "(int d * vp_fec_percentage pay + 99) div 100 < vp_min_required_fec_packets pay")
    case True
    with assms f nn show thesis
      by (intro that [of _ _ "nat (cquot (100 * vp_min_required_fec_packets pay) (int d))" ])
        (auto simp: determine_split_def pq Let_def shard_size_def pay_ok_def VIDEO_RTP_HEADERS_SIZE_def MAX_RTP_HEADER_SIZE_def)
  next
    case False
    with assms nn show thesis
      by (intro that [of _ _ "nat (vp_fec_percentage pay)"])
        (auto simp: determine_split_def pq Let_def shard_size_def pay_ok_def VIDEO_RTP_HEADERS_SIZE_def MAX_RTP_HEADER_SIZE_def)
  qed
qed

lemma fec_payload_shape:
  assumes "\<forall>x \<in> set ps. length x = n"
  shows "length (fec_payload (length ps) n ps) = length ps"
    and "\<forall>x \<in> set (fec_payload (length ps) n ps). length x = n"
proof -
  have len: "length (concat ps) = length ps * n" using assms by (induction ps) auto
  show "length (fec_payload (length ps) n ps) = length ps" by (simp add: fec_payload_def Let_def)
  have "i * n + n \<le> length ps * n" if "i < length ps" for i
    using that mult_le_mono1 [of "Suc i" "length ps" n] by simp
  then have "n \<le> length ps * n - i * n" if "i < length ps" for i
    using that by (simp add: le_diff_conv2 add.commute)
  then show "\<forall>x \<in> set (fec_payload (length ps) n ps). length x = n"
    by (auto simp: fec_payload_def Let_def len)
qed

definition parity_of :: "video_pay \<Rightarrow> nat \<Rightarrow> nat" where
  "parity_of pay d = nat (max (vp_min_required_fec_packets pay) ((int d * vp_fec_percentage pay + 99) div 100))"

lemma parity_of_mono: "\<lbrakk>pay_ok pay; d \<le> e\<rbrakk> \<Longrightarrow> d + parity_of pay d \<le> e + parity_of pay e"
  unfolding parity_of_def pay_ok_def
  by (intro add_mono nat_mono max.mono zdiv_mono1 add_right_mono mult_right_mono) auto

definition sent_block :: "video_pay \<Rightarrow> bytes list \<Rightarrow> bytes list \<Rightarrow> bool" where
  "sent_block pay ps out \<longleftrightarrow> map (drop 32) (filter is_data_packet out) = map (drop 32) ps \<and>
     map seq_number out = seqs (vp_cur_seq_number pay) 0 (length out) \<and>
     length out = length ps + (if length ps + parity_of pay (length ps) > 255 then 0 else parity_of pay (length ps))"

definition fresh_packets :: "video_pay \<Rightarrow> bytes list \<Rightarrow> bool" where
  "fresh_packets pay ps \<longleftrightarrow> (\<forall>x \<in> set ps. length x = shard_size pay \<and> is_data_packet x) \<and>
     map seq_number ps = seqs (vp_cur_seq_number pay) 0 (length ps)"

lemma generate_fec_packets_sent:
  assumes "pay_ok pay" "rs_shape rs" "ps \<noteq> []" "\<forall>x \<in> set ps. length x = shard_size pay"
    and "length ps + parity_of pay (length ps) > 255 \<Longrightarrow> fresh_packets pay ps"
  shows "\<exists>out. generate_fec_packets rs pay ps b l = Some out \<and> sent_block pay ps out"
proof -
  have d: "0 < length ps" using assms(3) by simp
  obtain bl p f where bl: "determine_split pay (int (length ps)) = Some bl" "bl_block_size bl = int (shard_size pay)"
      "bl_data_shards bl = int (length ps)" "bl_parity_shards bl = int p" "bl_fec_percentage bl = int f" "f < 256"
      and p: "p = parity_of pay (length ps)"
    using determine_split_ok [OF assms(1) d] unfolding parity_of_def by metis
  show ?thesis
  proof (cases "length ps + p > 255")
    case True
    then have "generate_fec_packets rs pay ps b l = Some ps"
      using bl by (simp add: generate_fec_packets_def DATA_SHARDS_MAX_def)
    moreover have "sent_block pay ps ps"
      using True assms(5) p by (simp add: sent_block_def fresh_packets_def)
    ultimately show ?thesis by blast
  next
    case False
    define par where "par = rs (length ps) p (fec_payload (length ps) (shard_size pay) ps)"
    have "length par = p" and parlen: "\<forall>x \<in> set par. length x = shard_size pay"
      using assms(2) [unfolded rs_shape_def] d fec_payload_shape [OF assms(4)] unfolding par_def by blast+
    let ?upd = "\<lambda>(i, x). update_fec_info pay i (length ps) (int f) b l x"
    let ?A = "map ?upd (enumerate 0 ps)" and ?B = "map ?upd (enumerate (length ps) par)"
    have out: "generate_fec_packets rs pay ps b l = Some (?A @ ?B)"
      using bl False by (simp add: generate_fec_packets_def DATA_SHARDS_MAX_def par_def Let_def)
    have big: "32 \<le> shard_size pay" using assms(1) by (auto simp: pay_ok_def shard_size_def le_nat_iff)
    then have psb: "\<forall>x \<in> set ps. 32 \<le> length x" and parb: "\<forall>x \<in> set par. 32 \<le> length x"
      using assms(4) parlen by auto
    have A: "\<forall>x \<in> set ?A. is_data_packet x" and B: "\<forall>x \<in> set ?B. \<not> is_data_packet x"
      using upd_data [OF psb, of 0 "length ps" f] upd_data [OF parb, of "length ps" "length ps" f]
        \<open>length par = p\<close> False bl(6) by auto
    have "map (drop 32) (filter is_data_packet (?A @ ?B)) = map (drop 32) ?A"
      using A B by (simp only: filter_append filter_True filter_False append_Nil2)
    also have "\<dots> = map (drop 32) ps" by (rule upd_payload [OF psb])
    finally have "map (drop 32) (filter is_data_packet (?A @ ?B)) = map (drop 32) ps" .
    moreover have "map seq_number (?A @ ?B) = seqs (vp_cur_seq_number pay) 0 (length (?A @ ?B))"
      using upd_seq [OF psb, of pay "length ps" "int f" b l 0] upd_seq [OF parb, of pay "length ps" "int f" b l "length ps"]
      by (simp only: map_append seqs_append) (simp add: seqs_append)
    ultimately have "sent_block pay ps (?A @ ?B)"
      using False p \<open>length par = p\<close> unfolding sent_block_def by simp
    with out show ?thesis by blast
  qed
qed

subsection \<open>The three blocks of a large frame\<close>

definition sent_frame :: "video_pay \<Rightarrow> bytes list \<Rightarrow> video_pay \<Rightarrow> bytes list \<Rightarrow> bool" where
  "sent_frame pay ps pay' out \<longleftrightarrow> map (drop 32) (filter is_data_packet out) = map (drop 32) ps \<and>
     map seq_number out = seqs (vp_cur_seq_number pay) 0 (length out) \<and>
     pay' = pay\<lparr>vp_cur_seq_number := vp_cur_seq_number pay + of_nat (length out)\<rparr>"

lemma pay_ok_seq [simp]: "pay_ok (pay\<lparr>vp_cur_seq_number := s\<rparr>) = pay_ok pay"
  by (simp add: pay_ok_def)

lemma shard_size_seq [simp]: "shard_size (pay\<lparr>vp_cur_seq_number := s\<rparr>) = shard_size pay"
  by (simp add: shard_size_def)

lemma parity_of_seq [simp]: "parity_of (pay\<lparr>vp_cur_seq_number := s\<rparr>) d = parity_of pay d"
  by (simp add: parity_of_def)

lemma sent_frame_append:
  assumes "sent_block pay ps out" "sent_frame (pay\<lparr>vp_cur_seq_number := vp_cur_seq_number pay + of_nat (length out)\<rparr>) qs pay' outs"
  shows "sent_frame pay (ps @ qs) pay' (out @ outs)"
proof -
  have o: "map (drop 32) (filter is_data_packet out) = map (drop 32) ps"
      "map seq_number out = seqs (vp_cur_seq_number pay) 0 (length out)"
    using assms(1) by (simp_all add: sent_block_def)
  have "map seq_number outs = seqs (vp_cur_seq_number pay) (length out) (length out + length outs)"
    using assms(2) by (simp add: sent_frame_def seqs_shift add.commute)
  with o have "map seq_number (out @ outs) = seqs (vp_cur_seq_number pay) 0 (length (out @ outs))"
    by (simp add: seqs_append)
  moreover have "map (drop 32) (filter is_data_packet (out @ outs)) = map (drop 32) (ps @ qs)"
    using o assms(2) by (simp add: sent_frame_def)
  ultimately show ?thesis
    using assms(2) by (simp add: sent_frame_def ac_simps)
qed

lemma sent_frame_block:
  "sent_block pay ps out \<Longrightarrow>
    sent_frame pay ps (pay\<lparr>vp_cur_seq_number := vp_cur_seq_number pay + of_nat (length out)\<rparr>) out"
  by (simp add: sent_frame_def sent_block_def)

lemma fresh_packets_part:
  assumes "fresh_packets pay (ps @ qs)"
  shows "fresh_packets pay ps"
    and "fresh_packets (pay\<lparr>vp_cur_seq_number := vp_cur_seq_number pay + of_nat (length ps)\<rparr>) qs"
proof -
  have all: "\<forall>x \<in> set (ps @ qs). length x = shard_size pay \<and> is_data_packet x"
    and "map seq_number ps @ map seq_number qs = seqs (vp_cur_seq_number pay) 0 (length ps) @
      seqs (vp_cur_seq_number pay) (length ps) (length ps + length qs)"
    using assms by (simp_all add: fresh_packets_def seqs_append)
  then have "map seq_number ps = seqs (vp_cur_seq_number pay) 0 (length ps)"
    "map seq_number qs = seqs (vp_cur_seq_number pay) (length ps) (length ps + length qs)"
    by (simp_all add: append_eq_append_conv)
  with all show "fresh_packets pay ps"
    "fresh_packets (pay\<lparr>vp_cur_seq_number := vp_cur_seq_number pay + of_nat (length ps)\<rparr>) qs"
    by (simp_all add: fresh_packets_def seqs_shift add.commute)
qed

text \<open>
  A block whose shards would be more than 255 is sent without parity and with the numbers it
  had; the two first blocks have the same size and the third is not larger, so a block with
  numbers of its own only follows blocks that were sent with parity.
\<close>

lemma fec_blocks_sent:
  assumes "pay_ok pay" "rs_shape rs" "fresh_packets pay (A @ B @ C)"
    and len: "length A = k" "length B = k" "0 < length C" "length C \<le> k"
  shows "\<exists>pay' out. fec_blocks rs l k (A @ B @ C) [0, 1, 2] pay = Some (pay', out) \<and>
      sent_frame pay (A @ B @ C) pay' out"
proof -
  let ?pay = "\<lambda>out :: bytes list. pay\<lparr>vp_cur_seq_number := vp_cur_seq_number pay + of_nat (length out)\<rparr>"
  have blocks: "block_of k (A @ B @ C) 0 = A" "block_of k (A @ B @ C) 1 = B" "block_of k (A @ B @ C) 2 = C"
    using len by (simp_all add: block_of_def Let_def gst_buffer_list_sub_eq)
  have ne: "A \<noteq> []" "B \<noteq> []" "C \<noteq> []" using len by auto
  have fresh: "fresh_packets pay A" "fresh_packets (?pay A) B" "fresh_packets (?pay (A @ B)) C"
    using fresh_packets_part [OF assms(3)] fresh_packets_part [of "?pay A" B C]
      fresh_packets_part [of pay "A @ B" C] assms(3) by simp_all
  have small: "length C + parity_of pay (length C) \<le> k + parity_of pay k"
    using assms(1) len(4) by (rule parity_of_mono)
  have lens: "\<forall>x \<in> set A. length x = shard_size pay" "\<forall>x \<in> set B. length x = shard_size pay"
      "\<forall>x \<in> set C. length x = shard_size pay"
    using assms(3) by (simp_all add: fresh_packets_def)
  obtain a where a: "generate_fec_packets rs pay A 0 l = Some a" "sent_block pay A a"
    using generate_fec_packets_sent [OF assms(1,2) ne(1) lens(1) fresh(1)] by blast
  have skip: "k + parity_of pay k > 255 \<Longrightarrow> length a = k"
    using a(2) len by (simp add: sent_block_def)
  then have "length B + parity_of (?pay a) (length B) > 255 \<Longrightarrow> fresh_packets (?pay a) B"
    using fresh(2) len by simp
  then obtain b where b: "generate_fec_packets rs (?pay a) B 1 l = Some b" "sent_block (?pay a) B b"
    using generate_fec_packets_sent [of "?pay a" rs B 1 l] assms(1,2) ne(2) lens(2) by auto
  have "k + parity_of pay k > 255 \<Longrightarrow> length b = k"
    using b(2) len by (simp add: sent_block_def)
  then have "length C + parity_of (?pay (a @ b)) (length C) > 255 \<Longrightarrow> fresh_packets (?pay (a @ b)) C"
    using fresh(3) len small skip by simp
  then obtain c where c: "generate_fec_packets rs (?pay (a @ b)) C 2 l = Some c" "sent_block (?pay (a @ b)) C c"
    using generate_fec_packets_sent [of "?pay (a @ b)" rs C 2 l] assms(1,2) ne(3) lens(3) by auto
  have "sent_frame (?pay a) (B @ C) (?pay (a @ b @ c)) (b @ c)"
    using sent_frame_append [OF b(2), of C "?pay (a @ b @ c)" c] sent_frame_block [OF c(2)] by (simp add: ac_simps)
  then have "sent_frame pay (A @ B @ C) (?pay (a @ b @ c)) (a @ b @ c)"
    by (rule sent_frame_append [OF a(2)])
  moreover have "fec_blocks rs l k (A @ B @ C) [0, 1, 2] pay = Some (?pay (a @ b @ c), a @ b @ c)"
    using a(1) b(1) c(1) blocks by (simp add: ac_simps)
  ultimately show ?thesis by blast
qed

subsection \<open>A frame\<close>

definition data_size :: "video_pay \<Rightarrow> nat" where
  "data_size pay = nat (vp_payload_size pay - 16)"

definition frame_fits :: "video_pay \<Rightarrow> bytes \<Rightarrow> bool" where
  "frame_fits pay inbuf \<longleftrightarrow> length inbuf + 8 < 2 ^ 24 \<and> length inbuf + 8 \<le> 1023 * data_size pay"

lemma data_size_pos: "pay_ok pay \<Longrightarrow> 0 < data_size pay"
  by (simp add: data_size_def pay_ok_def)

lemma generated_packets:
  assumes "pay_ok pay" "exact_ceil fceil" "full \<noteq> []" "length full < 2 ^ 24" "length full \<le> 1023 * data_size pay"
  shows "let tot = (length full + data_size pay - 1) div data_size pay;
             ps = generate_rtp_packets fceil pay full
    in 0 < tot \<and> tot < 1024 \<and> length ps = tot \<and> fresh_packets pay ps \<and>
       map (drop 32) ps = map (rtp_payload pay (data_size pay) full) [0..<tot]"
proof -
  define tot where "tot = (length full + data_size pay - 1) div data_size pay"
  have pos: "0 < data_size pay" using assms(1) by (rule data_size_pos)
  have "0 < length full" using assms(3) by simp
  then have "data_size pay \<le> length full + data_size pay - 1" by linarith
  then have tot0: "0 < tot" using pos by (simp add: tot_def div_greater_zero_iff)
  have "length full + data_size pay - 1 < 1024 * data_size pay" using pos assms(5) by linarith
  then have tot1: "tot < 1024" unfolding tot_def by (rule less_mult_imp_div_less)
  have tot2: "i * data_size pay < length full" if "i < tot" for i
  proof -
    have "Suc i * data_size pay \<le> tot * data_size pay" using that by (intro mult_le_mono1) simp
    also have "\<dots> \<le> length full + data_size pay - 1" unfolding tot_def by simp
    finally show ?thesis using pos by simp
  qed
  have ps: "generate_rtp_packets fceil pay full =
      map (\<lambda>i. create_rtp_header pay i tot @ rtp_payload pay (data_size pay) full i) [0..<tot]"
    using assms(1,2,4) pos
    by (simp add: generate_rtp_packets_def Let_def MAX_RTP_HEADER_SIZE_def exact_ceil_def data_size_def tot_def pay_ok_def)
  have sz: "32 + data_size pay = shard_size pay"
    using assms(1) by (auto simp: data_size_def shard_size_def pay_ok_def)
  have one: "length x = shard_size pay \<and> is_data_packet x"
    if x: "x = create_rtp_header pay i tot @ rtp_payload pay (data_size pay) full i" "i < tot" for i x
  proof -
    have "rd32 x 28 = Some (fec_info (int i) (int tot) (int 0))" using x by (simp add: rd_header)
    then have "is_data_packet x" using x(2) tot1 shard_fields(1,2) [of x i tot 0] by (simp add: is_data_packet_def)
    moreover have "length x = shard_size pay"
      using x tot2 [of i] assms(1) sz by (simp add: length_header rtp_payload_length pay_ok_def)
    ultimately show ?thesis by simp
  qed
  have "fresh_packets pay (generate_rtp_packets fceil pay full)"
    using one by (auto simp: fresh_packets_def ps seqs_def seq_number_def rd_header)
  then show ?thesis
    using tot0 tot1 ps unfolding tot_def [symmetric] Let_def by (auto simp: length_header comp_def)
qed

lemma split_sends_packets:
  assumes "pay_ok pay" "rs_shape rs" "exact_ceil fceil" "0 < length ps" "length ps < 1024"
    "fresh_packets pay ps" "ps = generate_rtp_packets fceil pay full" "prepend_video_header pay is_key inbuf = Some full"
  shows "\<exists>pay' out. split_into_rtp rs fceil pay is_key inbuf = Some (pay'\<lparr>vp_frame_num := vp_frame_num pay + 1\<rparr>, out) \<and>
    sent_frame pay ps pay' out"
proof -
  obtain bl where bl: "determine_split pay (int (length ps)) = Some bl" "bl_data_shards bl = int (length ps)"
    using determine_split_ok [OF assms(1,4)] by metis
  have fec: "0 < vp_fec_percentage pay" using assms(1) by (simp add: pay_ok_def)
  show ?thesis
  proof (cases "length ps > 90")
    case True
    define k where "k = (length ps + 2) div 3"
    have k: "2 * k < length ps" "length ps \<le> 3 * k" using True unfolding k_def by presburger+
    have fc: "fceil (length ps) 3 = k" using assms(3,5) by (simp add: exact_ceil_def k_def)
    define A B C where "A = take k ps" and "B = take k (drop k ps)" and "C = drop (2 * k) ps"
    then have len: "length A = k" "length B = k" "0 < length C" "length C \<le> k" and ps: "A @ B @ C = ps"
      using k by (simp_all add: mult_2) (metis append_take_drop_id drop_drop)
    obtain pay' out where "fec_blocks rs 128 (fceil (length ps) 3) ps [0, 1, 2] pay = Some (pay', out)"
        "sent_frame pay ps pay' out"
      using fec_blocks_sent [OF assms(1,2) _ len, of 128] assms(6) unfolding ps fc by blast
    then show ?thesis
      using True bl fec assms(7,8) by (simp add: split_into_rtp_def generate_fec_multi_blocks_def Let_def sent_frame_def)
  next
    case False
    have "\<forall>x \<in> set ps. length x = shard_size pay" "ps \<noteq> []" using assms(4,6) by (auto simp: fresh_packets_def)
    then obtain out where "generate_fec_packets rs pay ps 0 0 = Some out" "sent_block pay ps out"
      using generate_fec_packets_sent [OF assms(1,2)] assms(6) by blast
    then show ?thesis
      using False bl fec assms(7,8) sent_frame_block by (fastforce simp: split_into_rtp_def Let_def)
  qed
qed

lemma prepended:
  assumes "pay_ok pay" "frame_fits pay inbuf"
  obtains len where "prepend_video_header pay is_key inbuf =
      Some ([0x01, 0, 0, if is_key then 0x02 else 0x01] @ le16 len @ [0, 0] @ inbuf)"
    "((length inbuf + 8 + data_size pay - 1) div data_size pay - 1) * data_size pay + unat len = length inbuf + 8"
proof -
  let ?P = "data_size pay" and ?n = "length inbuf + 8"
  define m where "m = (of_int (vp_payload_size pay - 16) :: u64)"
  have P: "0 < ?P" "?P \<le> 65519" using assms(1) by (auto simp: data_size_def pay_ok_def)
  have m: "m = of_nat ?P" using assms(1) by (simp add: m_def data_size_def pay_ok_def)
  have um: "unat m = ?P" using P by (simp add: m unat_of_nat)
  then have m0: "m \<noteq> 0" using P by auto
  have un: "unat (of_nat (length inbuf) + 8 :: u64) = ?n"
    using assms(2) by (simp add: frame_fits_def unat_word_ariths unat_of_nat)
  define r where "r = (of_nat (length inbuf) + 8 :: u64) mod m"
  have r: "unat r = ?n mod ?P" using un um by (simp add: r_def unat_mod_distrib)
  have rP: "?n mod ?P < ?P" using P by simp
  then have "?n mod ?P < 65536" using P(2) by linarith
  then have r16: "?n mod ?P < 2 ^ 16" by simp
  have ur: "unat (ucast r :: u16) = ?n mod ?P"
    using r r16 by (simp add: unsigned_ucast_eq take_bit_nat_eq_self)
  have umm: "unat (ucast m :: u16) = ?P" using um P by (simp add: unsigned_ucast_eq take_bit_nat_eq_self)
  have div: "(?n div ?P) * ?P + ?n mod ?P = ?n" by simp
  have last: "last_payload_len (vp_payload_size pay) (length inbuf) =
      Some (if (ucast r :: u16) = 0 then ucast m else ucast r)"
    unfolding last_payload_len_def Let_def NV_VIDEO_PACKET_SIZE_def m_def [symmetric] r_def [symmetric]
    using m0 by simp
  show thesis
  proof (cases "?n mod ?P = 0")
    case True
    then have "(ucast r :: u16) = 0" using ur by (simp add: unat_eq_0 [symmetric])
    then have pre: "prepend_video_header pay is_key inbuf =
        Some ([0x01, 0, 0, if is_key then 0x02 else 0x01] @ le16 (ucast m) @ [0, 0] @ inbuf)"
      using last by (simp add: prepend_video_header_def)
    obtain q where q: "?n = q * ?P" using True by (metis mult.commute mod_0_imp_dvd dvd_def)
    then have "0 < q" by (cases q) auto
    have "(?n + ?P - 1) div ?P = q"
      unfolding q using P(1) by (intro div_nat_eqI) (simp_all add: mult.commute [of ?P])
    moreover have "(q - 1) * ?P + ?P = ?n" using q \<open>0 < q\<close> by (cases q) auto
    ultimately show thesis by (intro that [OF pre]) (simp only: umm)
  next
    case False
    then have "(ucast r :: u16) \<noteq> 0" using ur by (metis unat_0)
    then have pre: "prepend_video_header pay is_key inbuf =
        Some ([0x01, 0, 0, if is_key then 0x02 else 0x01] @ le16 (ucast r) @ [0, 0] @ inbuf)"
      using last by (simp add: prepend_video_header_def)
    have "(?n + ?P - 1) div ?P = Suc (?n div ?P)"
    proof (rule div_nat_eqI)
      have "?P * Suc (?n div ?P) = (?n div ?P) * ?P + ?P" by simp
      then show "?P * Suc (?n div ?P) \<le> ?n + ?P - 1" using div False by linarith
      have "?P * Suc (Suc (?n div ?P)) = (?n div ?P) * ?P + ?P + ?P" by simp
      then show "?n + ?P - 1 < ?P * Suc (Suc (?n div ?P))" using div rP by linarith
    qed
    then show thesis by (intro that [OF pre]) (simp add: ur div)
  qed
qed

text \<open>The two facts on one frame that the properties below are made of.\<close>

lemma frame_sent:
  assumes "pay_ok pay" "rs_shape rs" "exact_ceil fceil" "frame_fits pay inbuf"
  shows "\<exists>pay' out. split_into_rtp rs fceil pay is_key inbuf = Some (pay', out) \<and>
      depacketize (data_size pay) out = inbuf \<and>
      map seq_number out = seqs (vp_cur_seq_number pay) 0 (length out) \<and>
      pay' = pay\<lparr>vp_cur_seq_number := vp_cur_seq_number pay + of_nat (length out), vp_frame_num := vp_frame_num pay + 1\<rparr>"
proof -
  let ?P = "data_size pay"
  obtain len where full: "prepend_video_header pay is_key inbuf =
      Some ([0x01, 0, 0, if is_key then 0x02 else 0x01] @ le16 len @ [0, 0] @ inbuf)" (is "_ = Some ?full")
    and len: "((length inbuf + 8 + ?P - 1) div ?P - 1) * ?P + unat len = length inbuf + 8"
    using prepended [OF assms(1,4)] by blast
  define tot where "tot = (length ?full + ?P - 1) div ?P"
  define ps where "ps = generate_rtp_packets fceil pay ?full"
  have lf: "length ?full = length inbuf + 8" by simp
  have ps: "0 < tot" "tot < 1024" "length ps = tot" "fresh_packets pay ps"
      "map (drop 32) ps = map (rtp_payload pay ?P ?full) [0..<tot]"
    using generated_packets [OF assms(1,3), of ?full] assms(4) unfolding frame_fits_def Let_def ps_def tot_def lf
    by auto
  obtain pay' out where split: "split_into_rtp rs fceil pay is_key inbuf = Some (pay'\<lparr>vp_frame_num := vp_frame_num pay + 1\<rparr>, out)"
    and sent: "sent_frame pay ps pay' out"
    using split_sends_packets [OF assms(1-3) _ _ ps(4) ps_def full] ps(1-3) by auto
  have pad: "vp_add_padding pay" using assms(1) by (simp add: pay_ok_def)
  obtain z where z: "concat (map (rtp_payload pay ?P ?full) [0..<tot]) = ?full @ replicate z 0"
    using concat_payloads [OF pad data_size_pos [OF assms(1)], of ?full] unfolding tot_def by auto
  have data: "map (drop 32) (filter is_data_packet out) = map (drop 32) ps"
    using sent by (simp add: sent_frame_def)
  then have cnt: "length (filter is_data_packet out) = tot" using ps(3) by (metis length_map)
  have stream: "concat (map (drop 32) (filter is_data_packet out)) = ?full @ replicate z 0"
    by (simp only: data ps(5) z)
  have "rd16 (?full @ replicate z 0) 4 = Some len"
    by (simp add: rd16_def le16_def)
  moreover have "(tot - 1) * ?P + unat len = length inbuf + 8" using len by (simp only: tot_def lf)
  ultimately have "depacketize ?P out = inbuf"
    unfolding depacketize_def Let_def VIDEO_RTP_HEADERS_SIZE_def stream cnt by simp
  with split sent show ?thesis by (auto simp: sent_frame_def)
qed

lemma frames_sent:
  assumes "rs_shape rs" "exact_ceil fceil"
  shows "\<lbrakk>pay_ok pay; \<forall>b \<in> set frames. frame_fits pay (snd b)\<rbrakk> \<Longrightarrow>
    \<exists>pay' pushed. generate_output rs fceil pay frames = Some (pay', pushed) \<and>
      map (depacketize (data_size pay)) pushed = map snd frames \<and>
      map seq_number (concat pushed) = seqs (vp_cur_seq_number pay) 0 (length (concat pushed))"
proof (induction frames arbitrary: pay)
  case (Cons b frames)
  let ?next = "\<lambda>out :: bytes list. pay\<lparr>vp_cur_seq_number := vp_cur_seq_number pay + of_nat (length out),
      vp_frame_num := vp_frame_num pay + 1\<rparr>"
  obtain out where out: "split_into_rtp rs fceil pay (fst b) (snd b) = Some (?next out, out)"
      "depacketize (data_size pay) out = snd b" "map seq_number out = seqs (vp_cur_seq_number pay) 0 (length out)"
    using frame_sent [OF Cons.prems(1) assms, of "snd b" "fst b"] Cons.prems(2) by auto
  have nx: "pay_ok (?next out)" "data_size (?next out) = data_size pay"
      "\<forall>b \<in> set frames. frame_fits (?next out) (snd b)"
    using Cons.prems by (simp_all add: pay_ok_def data_size_def frame_fits_def)
  obtain pay' pushed where rest: "generate_output rs fceil (?next out) frames = Some (pay', pushed)"
      "map (depacketize (data_size pay)) pushed = map snd frames"
      "map seq_number (concat pushed) = seqs (vp_cur_seq_number pay) (length out) (length out + length (concat pushed))"
    using Cons.IH [OF nx(1) nx(3)] nx(2) by (auto simp: seqs_shift add.commute)
  then have "map seq_number (concat (out # pushed)) =
      seqs (vp_cur_seq_number pay) 0 (length (concat (out # pushed)))"
    using out(3) by (simp add: seqs_append)
  with rest out(1,2) show ?case by simp
qed (simp add: seqs_def)

subsection \<open>Properties\<close>

text \<open>C2: A client puts every frame together again, byte for byte. For any settings with padding, a
  packet size above 16 bytes, error correction switched on and at most 2 guaranteed parity
  packets, a frame that fits in 1023 packets is cut, completed with parity packets and sent
  without failing, in one block or in three; and the depacketizer, which only looks at the bytes
  of the packets (it keeps those whose shard index is below the shard count, joins their payloads
  and cuts the last one at the announced length), returns exactly the frame.\<close>

theorem frame_roundtrip:
  assumes "pay_ok pay" "rs_shape rs" "exact_ceil fceil" "frame_fits pay inbuf"
  shows "map_option (\<lambda>(_, packets). depacketize (data_size pay) packets) (split_into_rtp rs fceil pay is_key inbuf) =
    Some inbuf"
  using frame_sent [OF assms, of is_key] by auto

text \<open>C24: The RTP sequence numbers of a stream have no gap and no repetition: over any number of
  frames, the packets that are pushed (data and parity, of frames in one block and in three, and
  of blocks that are too large for parity) carry consecutive numbers modulo \<open>2 ^ 16\<close>, starting
  from the number of the element.\<close>

theorem stream_numbers_consecutive:
  assumes "pay_ok pay" "rs_shape rs" "exact_ceil fceil" "\<forall>b \<in> set frames. frame_fits pay (snd b)"
  shows "\<exists>pay' pushed. generate_output rs fceil pay frames = Some (pay', pushed) \<and> length pushed = length frames \<and>
    map seq_number (concat pushed) = map (\<lambda>i. ucast (vp_cur_seq_number pay + of_nat i)) [0..<length (concat pushed)]"
proof -
  obtain pay' pushed where g: "generate_output rs fceil pay frames = Some (pay', pushed)"
    "map (depacketize (data_size pay)) pushed = map snd frames"
    "map seq_number (concat pushed) = seqs (vp_cur_seq_number pay) 0 (length (concat pushed))"
    using frames_sent [OF assms(2,3,1,4)] by blast
  from g(2) have "length pushed = length frames" by (metis length_map)
  with g show ?thesis by (auto simp: seqs_def)
qed

definition nat_ceil :: "nat \<Rightarrow> nat \<Rightarrow> nat" where
  "nat_ceil n d = (n + d - 1) div d"

lemma nat_ceil_exact: "exact_ceil nat_ceil"
  by (simp add: exact_ceil_def nat_ceil_def)

lemma init_ok [simp]: "pay_ok video_pay_init" "frame_fits video_pay_init [1, 2, 3]" "vp_cur_seq_number video_pay_init = 0"
  by (simp_all add: pay_ok_def video_pay_init_def frame_fits_def data_size_def)

theorem frame_roundtrip_witness:
  "map_option (\<lambda>(_, packets). depacketize (data_size video_pay_init) packets)
     (split_into_rtp zero_rs nat_ceil video_pay_init True [1, 2, 3]) = Some [1, 2, 3]"
  by (rule frame_roundtrip [OF init_ok(1) zero_rs_shape nat_ceil_exact init_ok(2)])

theorem stream_numbers_consecutive_witness:
  "\<exists>pay' pushed. generate_output zero_rs nat_ceil video_pay_init [(True, [1, 2, 3]), (False, [1, 2, 3])] = Some (pay', pushed) \<and>
    length pushed = 2 \<and> map seq_number (concat pushed) = map (\<lambda>i. ucast (0 + of_nat i :: u32)) [0..<length (concat pushed)]"
  using stream_numbers_consecutive [OF init_ok(1) zero_rs_shape nat_ceil_exact,
      of "[(True, [1, 2, 3]), (False, [1, 2, 3])]"] init_ok
  by (simp add: numeral_2_eq_2 del: generate_output.simps)

text \<open>Without error correction the numbers repeat: the element only moves its sequence number on
  when parity is produced, so with a percentage of 0 every frame starts with the number the
  stream started with.\<close>

theorem no_fec_repeats_numbers:
  "\<lbrakk>vp_fec_percentage pay \<le> 0; generate_output rs fceil pay frames = Some (pay', pushed); p \<in> set pushed; p \<noteq> []\<rbrakk> \<Longrightarrow>
    seq_number (hd p) = ucast (vp_cur_seq_number pay)"
proof (induction frames arbitrary: pay pushed)
  case (Cons b frames)
  obtain full where full: "prepend_video_header pay (fst b) (snd b) = Some full"
    using Cons.prems(1,2) by (cases "prepend_video_header pay (fst b) (snd b)") (auto simp: split_into_rtp_def)
  then have split: "split_into_rtp rs fceil pay (fst b) (snd b) =
      Some (pay\<lparr>vp_frame_num := vp_frame_num pay + 1\<rparr>, generate_rtp_packets fceil pay full)"
    using Cons.prems(1) by (simp add: split_into_rtp_def Let_def)
  then obtain rest where rest: "generate_output rs fceil (pay\<lparr>vp_frame_num := vp_frame_num pay + 1\<rparr>) frames = Some (pay', rest)"
      "pushed = generate_rtp_packets fceil pay full # rest"
    using Cons.prems(2) by (auto split: bind_splits)
  have "seq_number (hd (generate_rtp_packets fceil pay full)) = ucast (vp_cur_seq_number pay)"
    if "generate_rtp_packets fceil pay full \<noteq> []"
    using that by (auto simp: generate_rtp_packets_def Let_def hd_map seq_number_def rd_header split: if_splits)
  then show ?case
    using Cons.IH [OF _ rest(1)] Cons.prems(1,3,4) rest(2) by auto
qed simp

theorem no_fec_repeats_numbers_witness:
  "\<exists>pay' p q. generate_output zero_rs nat_ceil (set_property (PROP_FEC_PERCENTAGE 0) video_pay_init)
      [(True, [1, 2, 3]), (False, [1, 2, 3])] = Some (pay', [p, q]) \<and> p \<noteq> [] \<and> q \<noteq> [] \<and>
     seq_number (hd p) = 0 \<and> seq_number (hd q) = 0"
proof -
  let ?pay = "set_property (PROP_FEC_PERCENTAGE 0) video_pay_init"
  obtain pay' p q where g: "generate_output zero_rs nat_ceil ?pay [(True, [1, 2, 3]), (False, [1, 2, 3])] = Some (pay', [p, q])"
      and "p \<noteq> []" "q \<noteq> []"
    by (simp add: split_into_rtp_def prepend_video_header_def last_payload_len_def video_pay_init_def in_range_def
      NV_VIDEO_PACKET_SIZE_def generate_rtp_packets_def MAX_RTP_HEADER_SIZE_def nat_ceil_def Let_def)
  moreover have "vp_fec_percentage ?pay \<le> 0" "vp_cur_seq_number ?pay = 0"
    by (simp_all add: in_range_def)
  ultimately show ?thesis
    using no_fec_repeats_numbers [OF _ g, of p] no_fec_repeats_numbers [OF _ g, of q] by auto
qed

text \<open>The number of guaranteed parity packets comes from the client. With 3 of them a frame of one
  packet gets a percentage of 300, which does not fit in its 8 bits and runs into the shard index.\<close>

lemma min_fec_overflows:
  assumes "vp_min_required_fec_packets pay = 3" "vp_fec_percentage pay = 20" "32 \<le> length pkt"
  shows "map_option bl_fec_percentage (determine_split pay 1) = Some 300"
    and "\<not> is_data_packet (update_fec_info pay 0 1 300 b l pkt)"
proof -
  show "map_option bl_fec_percentage (determine_split pay 1) = Some 300"
    using assms(1,2) by (simp add: determine_split_def cquot_def Let_def)
  have "fec_field (update_fec_info pay 0 1 300 b l pkt) = fec_info 0 1 300"
    using assms(3) rd_update(1) [of pkt pay 0 1 300 b l] by (simp add: fec_field_def)
  moreover have "unat (take_bit 10 (drop_bit 12 (fec_info 0 1 300))) = 1" "unat (drop_bit 22 (fec_info 0 1 300)) = 1"
    by code_simp+
  ultimately show "\<not> is_data_packet (update_fec_info pay 0 1 300 b l pkt)"
    by (simp add: is_data_packet_def shard_index_def shard_count_def)
qed

text \<open>The element stops the process on packet sizes that a client may ask for: nothing checks
  the size, with 16 the remainder of the frame header divides by zero, and below 16 no packet is
  produced, so the parity percentage of an empty block divides by zero.\<close>

theorem small_packets_crash:
  assumes "v \<le> 16" "0 < vp_fec_percentage pay" "0 < vp_min_required_fec_packets pay"
  shows "split_into_rtp rs fceil (set_property (PROP_PAYLOAD_SIZE v) pay) is_key inbuf = None"
proof -
  let ?pay = "set_property (PROP_PAYLOAD_SIZE v) pay"
  have size: "vp_payload_size ?pay \<le> 16" using assms(1) by (simp add: in_range_def)
  have none: "determine_split ?pay 0 = None"
    using assms(3) by (simp add: determine_split_def Let_def cquot_def)
  have "generate_rtp_packets fceil ?pay full = []" for full
    using size by (simp add: generate_rtp_packets_def Let_def MAX_RTP_HEADER_SIZE_def)
  then show ?thesis
    using assms(2) none by (simp add: split_into_rtp_def Let_def split: bind_splits)
qed

theorem small_packets_crash_witness:
  "split_into_rtp zero_rs nat_ceil (set_property (PROP_PAYLOAD_SIZE 16) video_pay_init) True [1] = None"
  by (rule small_packets_crash) (simp_all add: video_pay_init_def)

end
