(* ===== verification/Audio_RTP.thy ===== *)
theory Audio_RTP
  imports Gst_Utils Control_Proto "HOL-Library.Monad_Syntax"
begin

section \<open>Audio packets: moonlight-server/gst-plugin/audio.hpp\<close>

text \<open>
  The audio payloader: one packet per buffer, encrypted when the client asked for it, and two
  parity packets after every fourth one. The last packets are kept in six blocks of a fixed size,
  four for the data and two that the encoder writes. A write past the end of a block, which the
  code does not prevent, and the exception of \<open>std::stoul\<close> are values of an error type.
\<close>

subsection \<open>State\<close>

definition AUDIO_DATA_SHARDS :: nat where "AUDIO_DATA_SHARDS = 4"
definition AUDIO_FEC_SHARDS :: nat where "AUDIO_FEC_SHARDS = 2"
definition AUDIO_TOTAL_SHARDS :: nat where "AUDIO_TOTAL_SHARDS = AUDIO_DATA_SHARDS + AUDIO_FEC_SHARDS"
definition AUDIO_MAX_BLOCK_SIZE :: nat where "AUDIO_MAX_BLOCK_SIZE = 1400"

definition AUDIO_FEC_PARITY :: bytes where
  "AUDIO_FEC_PARITY = [0x77, 0x40, 0x38, 0x0e, 0xc7, 0xa7, 0x0d, 0x6c]"

record audio_pay =
  ap_cur_seq_number :: u16
  ap_encrypt :: bool
  ap_aes_key :: bytes
  ap_aes_iv :: string
  ap_packet_duration :: int
  ap_packets_buffer :: "bytes list"
  ap_rs_matrix :: bytes

text \<open>The blocks are not initialised by the code; they start with any content of their size.\<close>

definition audio_pay_init :: "bytes list \<Rightarrow> audio_pay" where
  "audio_pay_init blocks = \<lparr>ap_cur_seq_number = 0, ap_encrypt = True, ap_aes_key = [], ap_aes_iv = [],
     ap_packet_duration = 5, ap_packets_buffer = blocks, ap_rs_matrix = AUDIO_FEC_PARITY\<rparr>"

definition blocks_ok :: "bytes list \<Rightarrow> bool" where
  "blocks_ok blocks \<longleftrightarrow> length blocks = AUDIO_TOTAL_SHARDS \<and> (\<forall>b \<in> set blocks. length b = AUDIO_MAX_BLOCK_SIZE)"

datatype audio_property =
    PROP_AES_ENCRYPTION bool
  | PROP_AES_KEY string
  | PROP_AES_IV string
  | PROP_PACKET_DURATION int

fun set_audio_property :: "audio_property \<Rightarrow> audio_pay \<Rightarrow> audio_pay option" where
  "set_audio_property (PROP_AES_ENCRYPTION v) pay = Some (pay\<lparr>ap_encrypt := v\<rparr>)"
| "set_audio_property (PROP_AES_KEY v) pay = map_option (\<lambda>k. pay\<lparr>ap_aes_key := k\<rparr>) (hex_to_str v True)"
| "set_audio_property (PROP_AES_IV v) pay = Some (pay\<lparr>ap_aes_iv := v\<rparr>)"
| "set_audio_property (PROP_PACKET_DURATION v) pay = Some (pay\<lparr>ap_packet_duration := max 0 (min 60 v)\<rparr>)"

datatype audio_fault = Bad_iv num_error | Block_overflow

subsection \<open>Headers\<close>

definition AUDIO_RTP_HEADER_SIZE :: nat where "AUDIO_RTP_HEADER_SIZE = 12"

definition audio_rtp_header :: "audio_pay \<Rightarrow> bytes" where
  "audio_rtp_header pay =
     (let timestamp = uint (ap_cur_seq_number pay) * ap_packet_duration pay
      in [0x80, 97] @ be16 (ap_cur_seq_number pay) @ be32 (of_int timestamp) @ le32 0)"

definition create_rtp_fec_header :: "audio_pay \<Rightarrow> nat \<Rightarrow> bytes" where
  "create_rtp_fec_header pay fec_packet_idx =
     (let base_seq_num = uint (ap_cur_seq_number pay) - (int AUDIO_DATA_SHARDS - 1);
          base_timestamp = base_seq_num * ap_packet_duration pay
      in [0x80, 127] @ be16 (of_int (uint (ap_cur_seq_number pay) + int fec_packet_idx)) @ le32 0 @ le32 0 @
         [of_nat fec_packet_idx, 97] @ be16 (of_int base_seq_num) @ be32 (of_int base_timestamp) @ le32 0)"

subsection \<open>Sending one buffer\<close>

definition create_rtp_audio_buffer :: "openssl \<Rightarrow> audio_pay \<Rightarrow> bytes \<Rightarrow> audio_fault + bytes" where
  "create_rtp_audio_buffer ssl pay inbuf =
     (if ap_encrypt pay
      then case derive_iv (ap_aes_iv pay) (uint (ap_cur_seq_number pay)) of
             Inl e \<Rightarrow> Inl (Bad_iv e)
           | Inr derived_iv \<Rightarrow> Inr (audio_rtp_header pay @ encrypt_payload ssl (ap_aes_key pay) derived_iv inbuf)
      else Inr (audio_rtp_header pay @ inbuf))"

text \<open>The encoder with the matrix that replaces its own.\<close>

type_synonym rs_matrix_encoder = "bytes \<Rightarrow> rs_encoder"

definition fec_encode :: "rs_matrix_encoder \<Rightarrow> bytes \<Rightarrow> nat \<Rightarrow> bytes list \<Rightarrow> bytes list" where
  "fec_encode rs matrix block_size blocks =
     take AUDIO_DATA_SHARDS blocks @
     map (\<lambda>(old, parity). store 0 parity old)
       (zip (drop AUDIO_DATA_SHARDS blocks)
         (rs matrix AUDIO_DATA_SHARDS AUDIO_FEC_SHARDS (map (take block_size) (take AUDIO_DATA_SHARDS blocks))))"

definition fec_packets :: "audio_pay \<Rightarrow> bytes list \<Rightarrow> nat \<Rightarrow> bytes list" where
  "fec_packets pay blocks payload_size =
     map (\<lambda>fec_packet_idx. create_rtp_fec_header pay fec_packet_idx @
           take payload_size (drop AUDIO_RTP_HEADER_SIZE (blocks ! (AUDIO_DATA_SHARDS + fec_packet_idx))))
       [0..<AUDIO_FEC_SHARDS]"

definition audio_split_into_rtp ::
    "openssl \<Rightarrow> rs_matrix_encoder \<Rightarrow> audio_pay \<Rightarrow> bytes \<Rightarrow> audio_fault + audio_pay \<times> bytes list" where
  "audio_split_into_rtp ssl rs pay inbuf =
     (let time_to_fec = (uint (ap_cur_seq_number pay) + 1) mod int AUDIO_DATA_SHARDS = 0;
          slot = unat (ap_cur_seq_number pay) mod AUDIO_DATA_SHARDS
      in case create_rtp_audio_buffer ssl pay inbuf of
           Inl e \<Rightarrow> Inl e
         | Inr rtp_audio_buf \<Rightarrow>
             (case gst_buffer_copy_into rtp_audio_buf (ap_packets_buffer pay ! slot) of
                None \<Rightarrow> Inl Block_overflow
              | Some block \<Rightarrow>
                  let blocks = (ap_packets_buffer pay)[slot := block];
                      rtp_block_size = length rtp_audio_buf;
                      payload_size = rtp_block_size - AUDIO_RTP_HEADER_SIZE;
                      blocks' = (if time_to_fec then fec_encode rs (ap_rs_matrix pay) rtp_block_size blocks else blocks);
                      parity = (if time_to_fec then fec_packets pay blocks' payload_size else [])
                  in Inr (pay\<lparr>ap_packets_buffer := blocks', ap_cur_seq_number := ap_cur_seq_number pay + 1\<rparr>,
                          rtp_audio_buf # parity)))"

text \<open>The buffers that reach the element, one after the other; an error stops the stream.\<close>

primrec audio_output ::
    "openssl \<Rightarrow> rs_matrix_encoder \<Rightarrow> audio_pay \<Rightarrow> bytes list \<Rightarrow> audio_fault + audio_pay \<times> bytes list list" where
  "audio_output ssl rs pay [] = Inr (pay, [])"
| "audio_output ssl rs pay (b # bs) =
     (case audio_split_into_rtp ssl rs pay b of
        Inl e \<Rightarrow> Inl e
      | Inr (pay', packets) \<Rightarrow> map_sum id (apsnd ((#) packets)) (audio_output ssl rs pay' bs))"

subsection \<open>Lemmas\<close>

abbreviation audio_seq :: "bytes \<Rightarrow> u16 option" where
  "audio_seq pkt \<equiv> map_option swap16 (rd16 pkt 2)"

lemma slot_of:
  assumes "unat (cur :: u16) mod 4 = 0" "i < 4"
  shows "unat (cur + of_nat i) mod 4 = i" and "(uint (cur + of_nat i) + 1) mod 4 = 0 \<longleftrightarrow> i = 3"
proof -
  have "unat (cur + of_nat i) mod 4 = (unat cur + i) mod 4"
    using assms(2) by (simp add: unat_word_ariths unat_of_nat mod_mod_cancel)
  also have "\<dots> = (0 + i) mod 4" using assms(1) by (metis mod_add_left_eq)
  finally show *: "unat (cur + of_nat i) mod 4 = i" using assms(2) by simp
  have "uint (cur + of_nat i) = int (unat (cur + of_nat i))" by simp
  with * assms(2) show "(uint (cur + of_nat i) + 1) mod 4 = 0 \<longleftrightarrow> i = 3" by presburger
qed

lemma header_length [wire, simp]: "length (audio_rtp_header pay) = 12"
  by (simp add: audio_rtp_header_def Let_def)

lemma fec_header_length [wire, simp]: "length (create_rtp_fec_header pay i) = 24"
  by (simp add: create_rtp_fec_header_def Let_def)

lemma audio_header_fields [wire]:
  "rd16 (audio_rtp_header pay @ r) 2 = Some (swap16 (ap_cur_seq_number pay))"
  "rd32 (audio_rtp_header pay @ r) 4 = Some (swap32 (of_int (uint (ap_cur_seq_number pay) * ap_packet_duration pay)))"
  by (simp_all add: audio_rtp_header_def Let_def be16_def be32_def le16_def le32_def rd16_def rd32_def)

lemma fec_header_fields [wire]:
  "rd16 (create_rtp_fec_header pay i @ r) 14 = Some (swap16 (ap_cur_seq_number pay - 3))"
  "rd32 (create_rtp_fec_header pay i @ r) 16 =
     Some (swap32 (of_int ((uint (ap_cur_seq_number pay) - 3) * ap_packet_duration pay)))"
  "(create_rtp_fec_header pay i @ r) ! 12 = of_nat i"
  by (simp_all add: create_rtp_fec_header_def Let_def be16_def be32_def le16_def le32_def rd16_def rd32_def
      AUDIO_DATA_SHARDS_def)

lemma created_frame [frame, simp]:
  "create_rtp_audio_buffer ssl (pay\<lparr>ap_packets_buffer := bs\<rparr>) b = create_rtp_audio_buffer ssl pay b"
  by (simp add: create_rtp_audio_buffer_def audio_rtp_header_def split: sum.split)

lemma created_shape:
  "create_rtp_audio_buffer ssl pay b = Inr p \<Longrightarrow> 12 \<le> length p \<and> audio_seq p = Some (ap_cur_seq_number pay)"
  by (auto simp: create_rtp_audio_buffer_def audio_header_fields split: if_splits sum.splits)

lemma store_0_length [simp]: "length p \<le> length b \<Longrightarrow> length (store 0 p b) = length b"
  by (simp add: store_def)

lemma take_store_0 [simp]: "take (length p) (store 0 p b) = p"
  by (simp add: store_def)

lemma blocks_ok_store:
  "\<lbrakk>blocks_ok bs; length p \<le> 1400; i < 6\<rbrakk> \<Longrightarrow> blocks_ok (bs[i := store 0 p (bs ! i)])"
  by (auto simp: blocks_ok_def AUDIO_MAX_BLOCK_SIZE_def AUDIO_TOTAL_SHARDS_def AUDIO_DATA_SHARDS_def
      AUDIO_FEC_SHARDS_def dest!: set_update_subset_insert [THEN subsetD])

lemma copy_into_block:
  "\<lbrakk>blocks_ok bs; i < 6\<rbrakk> \<Longrightarrow> gst_buffer_copy_into p (bs ! i) =
    (if length p \<le> 1400 then Some (store 0 p (bs ! i)) else None)"
  by (simp add: gst_buffer_copy_into_def blocks_ok_def AUDIO_MAX_BLOCK_SIZE_def AUDIO_TOTAL_SHARDS_def
      AUDIO_DATA_SHARDS_def AUDIO_FEC_SHARDS_def)

lemma data_step:
  assumes "blocks_ok (ap_packets_buffer pay)" "unat (ap_cur_seq_number pay) mod 4 = i" "i < 3"
    "create_rtp_audio_buffer ssl pay b = Inr p" "length p \<le> 1400"
  shows "audio_split_into_rtp ssl rs pay b = Inr (pay\<lparr>ap_packets_buffer := (ap_packets_buffer pay)[i := store 0 p (ap_packets_buffer pay ! i)],
      ap_cur_seq_number := ap_cur_seq_number pay + 1\<rparr>, [p])"
proof -
  have "uint (ap_cur_seq_number pay) = int (unat (ap_cur_seq_number pay))" by simp
  then have "(uint (ap_cur_seq_number pay) + 1) mod 4 \<noteq> 0" using assms(2,3) by presburger
  then show ?thesis
    using assms copy_into_block [OF assms(1), of i p]
    by (simp add: audio_split_into_rtp_def AUDIO_DATA_SHARDS_def Let_def)
qed

lemma six_blocks:
  assumes "blocks_ok bs"
  obtains b0 b1 b2 b3 b4 b5 where "bs = [b0, b1, b2, b3, b4, b5]"
    "length b0 = 1400" "length b1 = 1400" "length b2 = 1400" "length b3 = 1400" "length b4 = 1400" "length b5 = 1400"
proof -
  have "length bs = 6" using assms
    by (simp add: blocks_ok_def AUDIO_TOTAL_SHARDS_def AUDIO_DATA_SHARDS_def AUDIO_FEC_SHARDS_def)
  then obtain b0 b1 b2 b3 b4 b5 where "bs = [b0, b1, b2, b3, b4, b5]"
    by (auto simp: numeral_eq_Suc length_Suc_conv)
  with assms that show thesis by (simp add: blocks_ok_def AUDIO_MAX_BLOCK_SIZE_def)
qed

lemma parity_bytes:
  assumes "length p = L" "L \<le> length b" "12 \<le> L"
  shows "take (L - 12) (drop 12 (store 0 p b)) = drop 12 p"
proof -
  have "take (L - 12) (drop 12 (store 0 p b)) = drop 12 (take L (store 0 p b))"
    using assms(3) by (simp add: drop_take)
  then show ?thesis using assms(1) by (simp add: store_def)
qed

lemma parity_step:
  assumes "ap_packets_buffer pay = [b0, b1, b2, b3, b4, b5]" "blocks_ok (ap_packets_buffer pay)"
    and "unat (ap_cur_seq_number pay) mod 4 = 3" "rs_shape (rs (ap_rs_matrix pay))"
    and "create_rtp_audio_buffer ssl pay b = Inr pd" "length pd = L" "L \<le> 1400"
    and "take L b0 = pa" "take L b1 = pb" "take L b2 = pc" "length pa = L" "length pb = L" "length pc = L"
    and "rs (ap_rs_matrix pay) 4 2 [pa, pb, pc, pd] = [q0, q1]"
  shows "audio_split_into_rtp ssl rs pay b =
    Inr (pay\<lparr>ap_packets_buffer := [b0, b1, b2, store 0 pd b3, store 0 q0 b4, store 0 q1 b5],
             ap_cur_seq_number := ap_cur_seq_number pay + 1\<rparr>,
         [pd, create_rtp_fec_header pay 0 @ drop 12 q0, create_rtp_fec_header pay 1 @ drop 12 q1])"
proof -
  have "uint (ap_cur_seq_number pay) = int (unat (ap_cur_seq_number pay))" by simp
  then have time: "(uint (ap_cur_seq_number pay) + 1) mod 4 = 0" using assms(3) by presburger
  have len: "length b3 = 1400" "length b4 = 1400" "length b5 = 1400"
    using assms(1,2) by (auto simp: blocks_ok_def AUDIO_MAX_BLOCK_SIZE_def)
  have "\<forall>x \<in> set (rs (ap_rs_matrix pay) 4 2 [pa, pb, pc, pd]). length x = L"
    by (rule rs_shapeD(2) [OF assms(4)]) (use assms(6,11-13) in simp_all)
  then have q: "length q0 = L" "length q1 = L" unfolding assms(14) by simp_all
  have L: "12 \<le> L" using created_shape [OF assms(5)] assms(6) by simp
  have enc: "fec_encode rs (ap_rs_matrix pay) L [b0, b1, b2, store 0 pd b3, b4, b5] =
      [b0, b1, b2, store 0 pd b3, store 0 q0 b4, store 0 q1 b5]"
    using assms(6-10,14) by (simp add: fec_encode_def AUDIO_DATA_SHARDS_def AUDIO_FEC_SHARDS_def take_Cons')
       (simp add: store_def)
  have "fec_packets pay [b0, b1, b2, store 0 pd b3, store 0 q0 b4, store 0 q1 b5] (L - 12) =
      [create_rtp_fec_header pay 0 @ drop 12 q0, create_rtp_fec_header pay 1 @ drop 12 q1]"
    using parity_bytes [OF q(1), of b4] parity_bytes [OF q(2), of b5] len L assms(7)
    by (simp add: fec_packets_def AUDIO_DATA_SHARDS_def AUDIO_FEC_SHARDS_def AUDIO_RTP_HEADER_SIZE_def upt_rec)
  with time enc assms(1,3,5,6,7) len show ?thesis
    by (simp add: audio_split_into_rtp_def AUDIO_DATA_SHARDS_def AUDIO_RTP_HEADER_SIZE_def gst_buffer_copy_into_def Let_def)
qed

lemma group_sent:
  assumes ok: "blocks_ok (ap_packets_buffer pay)" "unat (ap_cur_seq_number pay) mod 4 = 0"
    "rs_shape (rs (ap_rs_matrix pay))"
    and made: "create_rtp_audio_buffer ssl pay a = Inr pa"
      "create_rtp_audio_buffer ssl (pay\<lparr>ap_cur_seq_number := ap_cur_seq_number pay + 1\<rparr>) b = Inr pb"
      "create_rtp_audio_buffer ssl (pay\<lparr>ap_cur_seq_number := ap_cur_seq_number pay + 2\<rparr>) c = Inr pc"
      "create_rtp_audio_buffer ssl (pay\<lparr>ap_cur_seq_number := ap_cur_seq_number pay + 3\<rparr>) d = Inr pd"
    and len: "length pa = L" "length pb = L" "length pc = L" "length pd = L" and L: "L \<le> 1400"
    and q: "rs (ap_rs_matrix pay) 4 2 [pa, pb, pc, pd] = [q0, q1]"
  shows "\<exists>bs. audio_output ssl rs pay [a, b, c, d] =
      Inr (pay\<lparr>ap_cur_seq_number := ap_cur_seq_number pay + 4, ap_packets_buffer := bs\<rparr>,
        [[pa], [pb], [pc], [pd,
          create_rtp_fec_header (pay\<lparr>ap_cur_seq_number := ap_cur_seq_number pay + 3\<rparr>) 0 @ drop 12 q0,
          create_rtp_fec_header (pay\<lparr>ap_cur_seq_number := ap_cur_seq_number pay + 3\<rparr>) 1 @ drop 12 q1]]) \<and>
    blocks_ok bs"
proof -
  obtain b0 b1 b2 b3 b4 b5 where bs: "ap_packets_buffer pay = [b0, b1, b2, b3, b4, b5]"
      and bl: "length b0 = 1400" "length b1 = 1400" "length b2 = 1400" "length b3 = 1400" "length b4 = 1400" "length b5 = 1400"
    using six_blocks [OF ok(1)] by blast
  define s0 s1 s2 where "s0 = store 0 pa b0" and "s1 = store 0 pb b1" and "s2 = store 0 pc b2"
  then have sl: "length s0 = 1400" "length s1 = 1400" "length s2 = 1400"
    and st: "take L s0 = pa" "take L s1 = pb" "take L s2 = pc"
    using bl len L by (auto simp: store_def)
  let ?at = "\<lambda>i :: nat. pay\<lparr>ap_cur_seq_number := ap_cur_seq_number pay + of_nat i\<rparr>"
  let ?step = "\<lambda>i bs. (?at i)\<lparr>ap_packets_buffer := bs\<rparr>"
  note slot = slot_of(1) [OF ok(2)]
  have okb: "blocks_ok [b0, b1, b2, b3, b4, b5]" "blocks_ok [s0, b1, b2, b3, b4, b5]" "blocks_ok [s0, s1, b2, b3, b4, b5]"
      "blocks_ok [s0, s1, s2, b3, b4, b5]"
    using bl sl by (simp_all add: blocks_ok_def AUDIO_MAX_BLOCK_SIZE_def AUDIO_TOTAL_SHARDS_def AUDIO_DATA_SHARDS_def AUDIO_FEC_SHARDS_def)
  have 0: "audio_split_into_rtp ssl rs pay a = Inr (?step 1 [s0, b1, b2, b3, b4, b5], [pa])"
    using data_step [of pay 0 ssl a pa rs] ok made(1) len L bs by (simp add: s0_def)
  have 1: "audio_split_into_rtp ssl rs (?step 1 [s0, b1, b2, b3, b4, b5]) b = Inr (?step 2 [s0, s1, b2, b3, b4, b5], [pb])"
    using data_step [of "?step 1 [s0, b1, b2, b3, b4, b5]" 1 ssl b pb rs] okb made(2) len L slot [of 1]
    by (simp add: s1_def)
  have 2: "audio_split_into_rtp ssl rs (?step 2 [s0, s1, b2, b3, b4, b5]) c = Inr (?step 3 [s0, s1, s2, b3, b4, b5], [pc])"
    using data_step [of "?step 2 [s0, s1, b2, b3, b4, b5]" 2 ssl c pc rs] okb made(3) len L slot [of 2]
    by (simp add: s2_def)
  have 3: "audio_split_into_rtp ssl rs (?step 3 [s0, s1, s2, b3, b4, b5]) d =
      Inr (?step 4 [s0, s1, s2, store 0 pd b3, store 0 q0 b4, store 0 q1 b5],
        [pd, create_rtp_fec_header (?at 3) 0 @ drop 12 q0, create_rtp_fec_header (?at 3) 1 @ drop 12 q1])"
    using parity_step [of "?step 3 [s0, s1, s2, b3, b4, b5]" s0 s1 s2 b3 b4 b5 rs ssl d pd L pa pb pc q0 q1]
      okb made(4) len st q L slot [of 3] ok(3)
    by (simp add: create_rtp_fec_header_def)
  have "length q0 = L" "length q1 = L"
    using rs_shapeD(2) [OF ok(3), of 4 "[pa, pb, pc, pd]" L 2] len unfolding q by auto
  then have "blocks_ok [s0, s1, s2, store 0 pd b3, store 0 q0 b4, store 0 q1 b5]"
    using sl bl len L
    by (simp add: blocks_ok_def AUDIO_MAX_BLOCK_SIZE_def AUDIO_TOTAL_SHARDS_def AUDIO_DATA_SHARDS_def AUDIO_FEC_SHARDS_def)
  moreover have "audio_output ssl rs pay [a, b, c, d] = Inr (?step 4 [s0, s1, s2, store 0 pd b3, store 0 q0 b4, store 0 q1 b5],
      [[pa], [pb], [pc], [pd, create_rtp_fec_header (?at 3) 0 @ drop 12 q0, create_rtp_fec_header (?at 3) 1 @ drop 12 q1]])"
    using 0 1 2 3 by simp
  ultimately show ?thesis by auto
qed

subsection \<open>Properties\<close>

text \<open>C27: Audio goes out in groups of four. From a sequence number that is a multiple of 4, four buffers
  whose packets have the same size (at most 1400 bytes) are sent as four packets with consecutive
  numbers, and the fourth is followed by exactly two parity packets: their payload is the payload
  part of the Reed-Solomon code over these four packets, their base number is the number of the
  first of them and their shard index is 0 and 1. The state that is left starts the next group.\<close>

theorem audio_group_of_four:
  assumes ok: "blocks_ok (ap_packets_buffer pay)" "unat (ap_cur_seq_number pay) mod 4 = 0"
    "rs_shape (rs (ap_rs_matrix pay))"
    and packets: "\<forall>i < 4. create_rtp_audio_buffer ssl (pay\<lparr>ap_cur_seq_number := ap_cur_seq_number pay + of_nat i\<rparr>) (bufs ! i) =
        Inr (ps ! i) \<and> length (ps ! i) = L" "length bufs = 4" "length ps = 4" "L \<le> 1400"
  shows "\<exists>pay' f0 f1. audio_output ssl rs pay bufs = Inr (pay', [[ps ! 0], [ps ! 1], [ps ! 2], [ps ! 3, f0, f1]]) \<and>
     map audio_seq ps = map (\<lambda>i. Some (ap_cur_seq_number pay + of_nat i)) [0..<4] \<and>
     map (drop 24) [f0, f1] = map (drop 12) (rs (ap_rs_matrix pay) 4 2 ps) \<and>
     map (\<lambda>f. map_option swap16 (rd16 f 14)) [f0, f1] = [Some (ap_cur_seq_number pay), Some (ap_cur_seq_number pay)] \<and>
     map (\<lambda>f. f ! 12) [f0, f1] = [0, 1] \<and>
     blocks_ok (ap_packets_buffer pay') \<and> ap_cur_seq_number pay' = ap_cur_seq_number pay + 4"
proof -
  obtain a b c d where bufs: "bufs = [a, b, c, d]" using packets(2) by (auto simp: numeral_eq_Suc length_Suc_conv)
  obtain pa pb pc pd where ps: "ps = [pa, pb, pc, pd]" using packets(3) by (auto simp: numeral_eq_Suc length_Suc_conv)
  let ?at = "\<lambda>i :: nat. pay\<lparr>ap_cur_seq_number := ap_cur_seq_number pay + of_nat i\<rparr>"
  have made: "create_rtp_audio_buffer ssl (?at 0) a = Inr pa" "create_rtp_audio_buffer ssl (?at 1) b = Inr pb"
      "create_rtp_audio_buffer ssl (?at 2) c = Inr pc" "create_rtp_audio_buffer ssl (?at 3) d = Inr pd"
    and len: "length pa = L" "length pb = L" "length pc = L" "length pd = L"
    using packets(1) [rule_format, of 0] packets(1) [rule_format, of 1] packets(1) [rule_format, of 2]
      packets(1) [rule_format, of 3] by (simp_all add: bufs ps)
  have "length (rs (ap_rs_matrix pay) 4 2 ps) = 2"
    by (rule rs_shapeD(1) [OF ok(3), where b = L]) (use len ps in simp_all)
  then obtain q0 q1 where q: "rs (ap_rs_matrix pay) 4 2 [pa, pb, pc, pd] = [q0, q1]"
    by (auto simp: ps numeral_2_eq_2 length_Suc_conv)
  have "map audio_seq ps = map (\<lambda>i. Some (ap_cur_seq_number pay + of_nat i)) [0..<4]"
    using made [THEN created_shape] by (simp add: ps upt_rec)
  then show ?thesis
    using group_sent [of pay rs ssl a pa b pb c pc d pd L q0 q1] ok made len packets(4) q
    by (auto simp: bufs ps fec_header_fields)
qed

definition demo_audio :: audio_pay where
  "demo_audio = (audio_pay_init (replicate 6 (replicate 1400 0)))\<lparr>ap_encrypt := False\<rparr>"

lemma demo_audio_ok: "blocks_ok (ap_packets_buffer demo_audio)" "ap_cur_seq_number demo_audio = 0"
  by (simp_all add: demo_audio_def audio_pay_init_def blocks_ok_def AUDIO_MAX_BLOCK_SIZE_def AUDIO_TOTAL_SHARDS_def
      AUDIO_DATA_SHARDS_def AUDIO_FEC_SHARDS_def)

theorem audio_group_of_four_witness:
  "\<exists>pay' p q r s f0 f1. audio_output toy_ssl (\<lambda>m. zero_rs) demo_audio [[1], [2], [3], [4]] =
      Inr (pay', [[p], [q], [r], [s, f0, f1]]) \<and> ap_cur_seq_number pay' = 4"
proof -
  let ?ps = "map (\<lambda>i. audio_rtp_header (demo_audio\<lparr>ap_cur_seq_number := of_nat i\<rparr>) @ [[1], [2], [3], [4]] ! i) [0..<4]"
  have "\<forall>i < 4. create_rtp_audio_buffer toy_ssl (demo_audio\<lparr>ap_cur_seq_number := 0 + of_nat i\<rparr>) ([[1], [2], [3], [4]] ! i) =
      Inr (?ps ! i) \<and> length (?ps ! i) = 13"
    by (auto simp: create_rtp_audio_buffer_def demo_audio_def less_Suc_eq numeral_eq_Suc)
  then show ?thesis
    using audio_group_of_four [of demo_audio "\<lambda>m. zero_rs" toy_ssl "[[1], [2], [3], [4]]" ?ps 13]
    by (simp add: demo_audio_ok zero_rs_shape del: audio_output.simps) blast
qed

text \<open>A buffer is refused exactly when its packet is longer than a block: with 12 bytes of header and
  the encrypted payload above 1400 bytes, the copy into the block runs past its end. The duration
  of a packet and the bitrate, which make the size, come from the client and the configuration.\<close>

theorem audio_block_overflow:
  assumes "blocks_ok (ap_packets_buffer pay)" "create_rtp_audio_buffer ssl pay inbuf = Inr p"
  shows "audio_split_into_rtp ssl rs pay inbuf = Inl Block_overflow \<longleftrightarrow> 1400 < length p"
proof -
  have "unat (ap_cur_seq_number pay) mod 4 < 6" by (rule less_trans [of _ 4]) simp_all
  then show ?thesis
    using assms copy_into_block [OF assms(1), of "unat (ap_cur_seq_number pay) mod 4" p]
    by (simp add: audio_split_into_rtp_def AUDIO_DATA_SHARDS_def Let_def)
qed

theorem audio_block_overflow_witness:
  "audio_split_into_rtp toy_ssl (\<lambda>m. zero_rs) demo_audio (replicate 1389 7) = Inl Block_overflow \<and>
   audio_split_into_rtp toy_ssl (\<lambda>m. zero_rs) demo_audio (replicate 1388 7) \<noteq> Inl Block_overflow"
  using audio_block_overflow [OF demo_audio_ok(1), of toy_ssl "replicate 1389 7" _ "\<lambda>m. zero_rs"]
    audio_block_overflow [OF demo_audio_ok(1), of toy_ssl "replicate 1388 7" _ "\<lambda>m. zero_rs"]
  by (simp add: create_rtp_audio_buffer_def demo_audio_def)

text \<open>The time stamp is the 16-bit sequence number times the duration: it starts again at 0 after
  65536 packets, long before 32 bits are used.\<close>

lemma timestamp_restarts:
  assumes "ap_cur_seq_number pay = 0xFFFF" "ap_packet_duration pay = 5"
  shows "rd32 (audio_rtp_header pay @ r) 4 = Some (swap32 327675)"
    and "rd32 (audio_rtp_header (pay\<lparr>ap_cur_seq_number := ap_cur_seq_number pay + 1\<rparr>) @ r) 4 = Some (swap32 0)"
  using assms by (simp_all add: audio_header_fields)

text \<open>The client decrypts what the server sent: with the key and the base of the initialisation
  vectors of the session and the sequence number that it reads in the packet, the payload of the
  first packet of every reply decrypts to the encoded audio. The law of the cipher is that
  decryption with the same key and vector inverts encryption.\<close>

theorem audio_payload_decrypts:
  assumes "\<forall>m k iv. fst (aes_decrypt_cbc ssl (fst (aes_encrypt_cbc ssl m k iv True)) k iv True) = m"
    "ap_encrypt pay" "audio_split_into_rtp ssl rs pay inbuf = Inr (pay', pkts)"
  shows "\<exists>seq iv. audio_seq (hd pkts) = Some seq \<and> derive_iv (ap_aes_iv pay) (uint seq) = Inr iv \<and>
    fst (aes_decrypt_cbc ssl (drop 12 (hd pkts)) (ap_aes_key pay) iv True) = inbuf"
proof -
  obtain p where p: "create_rtp_audio_buffer ssl pay inbuf = Inr p" "hd pkts = p"
    using assms(3) by (auto simp: audio_split_into_rtp_def Let_def split: sum.splits option.splits)
  then obtain iv where "derive_iv (ap_aes_iv pay) (uint (ap_cur_seq_number pay)) = Inr iv"
      "p = audio_rtp_header pay @ encrypt_payload ssl (ap_aes_key pay) iv inbuf"
    using assms(2) by (auto simp: create_rtp_audio_buffer_def split: sum.splits)
  then show ?thesis using assms(1) p(2) by (simp add: audio_header_fields encrypt_payload_def)
qed

definition cbc_ssl :: openssl where
  "cbc_ssl = toy_ssl\<lparr>ssl_update := (\<lambda>ctx m. (True, m)), ssl_final := (\<lambda>ctx m. (True, []))\<rparr>"

theorem audio_payload_decrypts_witness:
  "\<exists>pay' pkts seq iv. audio_split_into_rtp cbc_ssl (\<lambda>m. zero_rs)
      (demo_audio\<lparr>ap_encrypt := True, ap_aes_iv := dec 7\<rparr>) [1, 2, 3] = Inr (pay', pkts) \<and>
    audio_seq (hd pkts) = Some seq \<and> derive_iv (dec 7) (uint seq) = Inr iv \<and>
    fst (aes_decrypt_cbc cbc_ssl (drop 12 (hd pkts)) [] iv True) = [1, 2, 3]"
proof -
  let ?pay = "demo_audio\<lparr>ap_encrypt := True, ap_aes_iv := dec 7\<rparr>"
  have law: "\<forall>m k iv. fst (aes_decrypt_cbc cbc_ssl (fst (aes_encrypt_cbc cbc_ssl m k iv True)) k iv True) = m"
    by (simp add: aes_decrypt_cbc_def aes_encrypt_cbc_def aes_init_def encrypt_symmetric_def decrypt_symmetric_def
        cbc_ssl_def Let_def split_def)
  have len: "length (encrypt_payload cbc_ssl k iv [1, 2, 3]) = 3" for k iv
    by (simp add: encrypt_payload_def aes_encrypt_cbc_def aes_init_def encrypt_symmetric_def cbc_ssl_def Let_def split_def)
  obtain pay' pkts where run: "audio_split_into_rtp cbc_ssl (\<lambda>m. zero_rs) ?pay [1, 2, 3] = Inr (pay', pkts)"
    using len demo_audio_ok(1)
    by (simp add: audio_split_into_rtp_def create_rtp_audio_buffer_def derive_iv_def AUDIO_DATA_SHARDS_def
        demo_audio_def audio_pay_init_def gst_buffer_copy_into_def Let_def)
  have "ap_aes_iv ?pay = dec 7" "ap_aes_key ?pay = []" "ap_encrypt ?pay"
    by (simp_all add: demo_audio_def audio_pay_init_def)
  then show ?thesis
    using run audio_payload_decrypts [OF law _ run] by auto
qed

end
