(* ===== verification/Sessions.thy ===== *)
theory Sessions
  imports Helpers App_State "HOL-Library.Monad_Syntax"
begin

section \<open>Streams and lobbies: moonlight-server/sessions\<close>

text \<open>
  The handlers of the event bus that run a stream: sessions/moonlight.cpp, sessions/lobbies.cpp and
  sessions/common.cpp. The state is what these handlers share: the running sessions, the lobbies,
  the queues of devices that wait for a runner and the streams that wait for their first ping.

  A session and a lobby are values that are copied, while the objects behind their shared pointers
  are not: these are kept in two stores, one keyed by the id of the session (a resumed session
  takes them over) and one by the address that a lobby carries. What a handler starts outside of
  the state (a GStreamer thread, a runner, an answer to a waiting request, the events themselves)
  is appended to a trace.

  \<open>fire_event\<close> calls the handlers of an event one after the other before it returns, and they fire
  events in turn. The order in which the bus calls two handlers of one event is a parameter. The
  fuel bounds the depth of the nesting; \<open>None\<close> is fuel that ran out or an exception, and the
  theory Lobbies shows that neither happens.
\<close>

subsection \<open>State\<close>

datatype input_device = Uinput_device | Wayland_device "string option"

type_synonym plug = "string \<times> udev_events \<times> udev_hw_db"

record session_atoms =
  sa_wayland_display :: "string option"
  sa_audio_sink :: "string option"
  sa_mouse :: "input_device option"
  sa_keyboard :: "input_device option"
  sa_touch_screen :: "input_device option"
  sa_joypads :: "(int \<times> udev_events \<times> udev_hw_db) list"

definition new_session_atoms :: session_atoms where
  "new_session_atoms = \<lparr>sa_wayland_display = None, sa_audio_sink = None, sa_mouse = None, sa_keyboard = None,
     sa_touch_screen = None, sa_joypads = []\<rparr>"

record Lobby =
  lb_id :: string
  lb_name :: string
  lb_started_by_profile_id :: string
  lb_icon_png_path :: "string option"
  lb_multi_user :: bool
  lb_pin :: lobby_pin
  lb_stop_when_everyone_leaves :: bool
  lb_runner :: Runner
  lb_ref :: nat

record lobby_atoms =
  la_connected_sessions :: "string list"
  la_wayland_display :: "string option"
  la_audio_sink :: "string option"
  la_plugged_devices_queue :: "plug list"

definition new_lobby_atoms :: lobby_atoms where
  "new_lobby_atoms = \<lparr>la_connected_sessions = [], la_wayland_display = None, la_audio_sink = None,
     la_plugged_devices_queue = []\<rparr>"

record runner_args =
  ra_session_id :: string
  ra_video_settings :: VideoSettings
  ra_wayland_display :: "string option"
  ra_audio_sink :: "string option"
  ra_app_local_state_folder :: string
  ra_app_host_state_folder :: string
  ra_client_settings :: ClientSettings

datatype effect =
    Fired bus_event
  | Join_result string
  | Setup_over
  | Start_video_producer string string string int int int
  | Create_virtual_sink string AudioMode
  | Start_audio_producer string int string string
  | Create_directories string
  | Start_runner_thread Runner runner_args
  | Delete_virtual_sink string
  | Start_streaming_video VideoSession string u16
  | Start_streaming_audio AudioSession string u16 string string

record hub =
  hub_sessions :: "StreamSession list"
  hub_session_atoms :: "nat \<Rightarrow> session_atoms"
  hub_lobbies :: "Lobby list"
  hub_lobby_atoms :: "nat \<Rightarrow> lobby_atoms"
  hub_next_ref :: nat
  hub_queues :: "string \<Rightarrow> plug list option"
  hub_video_waiting :: "VideoSession list"
  hub_audio_waiting :: "AudioSession list"
  hub_trace :: "effect list"

text \<open>
  \<open>wait_for_wayland_socket\<close>: the path is looked at every 50 milliseconds until the deadline;
  \<open>states\<close> is what is found at the polls that come before it, \<open>final\<close> what is found after it (it only
  decides which error is printed).
\<close>

datatype path_state = No_file | A_socket | Other_file

definition wait_for_wayland_socket :: "(string \<Rightarrow> string option) \<Rightarrow> path_state list \<Rightarrow> bool" where
  "wait_for_wayland_socket getenv states =
     (case getenv ''WOLF_SKIP_WAYLAND_SOCKET_WAIT'' of
        Some v \<Rightarrow> v = ''TRUE'' \<or> v = ''1'' \<or> A_socket \<in> set states
      | None \<Rightarrow> A_socket \<in> set states)"

text \<open>
  The surroundings: the runtime folder, the name of the PulseAudio server if there is one, the host
  and its folders, what is found at the path of a wayland socket while waiting for it, the virtual devices that can be
  created, the GPU queries, the environment, and the order of the handlers.
\<close>

record hub_env =
  he_runtime_dir :: string
  he_audio_server :: "string option"
  he_host :: host
  he_host_xdg_runtime_dir :: string
  he_socket_polls :: "string \<Rightarrow> path_state list"
  he_new_mouse :: "(udev_events \<times> udev_hw_db) option"
  he_new_keyboard :: "(udev_events \<times> udev_hw_db) option"
  he_linked_devices :: "string \<Rightarrow> string list"
  he_vendor :: "string \<Rightarrow> GPU_VENDOR"
  he_getenv :: "string \<Rightarrow> string option"
  he_moonlight_first :: bool

definition socket_ready :: "hub_env \<Rightarrow> string \<Rightarrow> bool" where
  "socket_ready env socket_name = wait_for_wayland_socket (he_getenv env) (he_socket_polls env socket_name)"

type_synonym emitter = "bus_event \<Rightarrow> hub \<Rightarrow> hub option"

definition note_effect :: "effect \<Rightarrow> hub \<Rightarrow> hub" where
  "note_effect e h = h\<lparr>hub_trace := hub_trace h @ [e]\<rparr>"

definition upd_session :: "nat \<Rightarrow> (session_atoms \<Rightarrow> session_atoms) \<Rightarrow> hub \<Rightarrow> hub" where
  "upd_session i f h = h\<lparr>hub_session_atoms := (hub_session_atoms h)(i := f (hub_session_atoms h i))\<rparr>"

definition upd_lobby :: "nat \<Rightarrow> (lobby_atoms \<Rightarrow> lobby_atoms) \<Rightarrow> hub \<Rightarrow> hub" where
  "upd_lobby r f h = h\<lparr>hub_lobby_atoms := (hub_lobby_atoms h)(r := f (hub_lobby_atoms h r))\<rparr>"

primrec seq_all :: "('a \<Rightarrow> hub \<Rightarrow> hub option) \<Rightarrow> 'a list \<Rightarrow> hub \<Rightarrow> hub option" where
  "seq_all f [] h = Some h"
| "seq_all f (x # xs) h = do { h' \<leftarrow> f x h; seq_all f xs h' }"

subsection \<open>Lookups (state/sessions.hpp)\<close>

definition get_lobby_by_id :: "Lobby list \<Rightarrow> string \<Rightarrow> Lobby option" where
  "get_lobby_by_id lobbies lobby_id =
     (case take 1 (filter (\<lambda>l. lb_id l = lobby_id) lobbies) of [l] \<Rightarrow> Some l | _ \<Rightarrow> None)"

definition connected :: "hub \<Rightarrow> Lobby \<Rightarrow> string list" where
  "connected h lobby = la_connected_sessions (hub_lobby_atoms h (lb_ref lobby))"

definition get_lobby_by_connected_session :: "hub \<Rightarrow> string \<Rightarrow> Lobby option" where
  "get_lobby_by_connected_session h session_id =
     List.find (\<lambda>lobby. session_id \<in> set (connected h lobby)) (hub_lobbies h)"

subsection \<open>Joining and leaving a lobby (sessions/lobbies.cpp)\<close>

definition VIRTUAL_SINK_PREFIX :: string where "VIRTUAL_SINK_PREFIX = ''virtual_sink_''"

definition use_display :: "string option \<Rightarrow> session_atoms \<Rightarrow> session_atoms" where
  "use_display wl a = a\<lparr>sa_mouse := Some (Wayland_device wl), sa_keyboard := Some (Wayland_device wl),
     sa_touch_screen := Some (Wayland_device wl)\<rparr>"

text \<open>One joypad of a session moves from the lobby back to the session, and from the session into the
  lobby.\<close>

definition give_back :: "emitter \<Rightarrow> Lobby \<Rightarrow> nat \<Rightarrow> int \<times> udev_events \<times> udev_hw_db \<Rightarrow> hub \<Rightarrow> hub option" where
  "give_back emit lobby i joypad g =
     (case joypad of (_, ev, db) \<Rightarrow> do {
        g' \<leftarrow> emit (PlugDeviceEvent (dec i) ev db) g;
        emit (UnplugDeviceEvent (lb_id lobby) ev db) g' })"

definition take_over :: "emitter \<Rightarrow> Lobby \<Rightarrow> nat \<Rightarrow> int \<times> udev_events \<times> udev_hw_db \<Rightarrow> hub \<Rightarrow> hub option" where
  "take_over emit lobby i joypad g =
     (case joypad of (_, ev, db) \<Rightarrow> do {
        g1 \<leftarrow> emit (PlugDeviceEvent (dec i) ev db) g;
        g2 \<leftarrow> emit (UnplugDeviceEvent (dec i) ev db) g1;
        Some (upd_lobby (lb_ref lobby)
          (\<lambda>a. a\<lparr>la_plugged_devices_queue := la_plugged_devices_queue a @ [(dec i, ev, db)]\<rparr>) g2) })"

definition leave_lobby :: "emitter \<Rightarrow> Lobby \<Rightarrow> StreamSession \<Rightarrow> hub \<Rightarrow> hub option" where
  "leave_lobby emit lobby session h =
     (let i = ss_session_id session;
          h1 = upd_lobby (lb_ref lobby)
            (\<lambda>a. a\<lparr>la_connected_sessions := filter (\<lambda>s. s \<noteq> dec i) (la_connected_sessions a)\<rparr>) h;
          h2 = upd_session i (use_display (sa_wayland_display (hub_session_atoms h1 i))) h1
      in do {
        h3 \<leftarrow> seq_all (give_back emit lobby i) (sa_joypads (hub_session_atoms h2 i)) h2;
        h4 \<leftarrow> emit (SwitchStreamProducerEvents i (dec i)) h3;
        if lb_stop_when_everyone_leaves lobby \<and> connected h4 lobby = []
        then emit (StopLobbyEvent (lb_id lobby) None) h4 else Some h4 })"

definition new_lobby :: "CreateLobby \<Rightarrow> nat \<Rightarrow> Lobby" where
  "new_lobby c r = \<lparr>lb_id = cl_id c, lb_name = cl_name c, lb_started_by_profile_id = cl_profile_id c,
     lb_icon_png_path = cl_icon_png_path c, lb_multi_user = cl_multi_user c, lb_pin = cl_pin c,
     lb_stop_when_everyone_leaves = cl_stop_when_everyone_leaves c, lb_runner = cl_runner c, lb_ref = r\<rparr>"

definition on_create_lobby :: "hub_env \<Rightarrow> CreateLobby \<Rightarrow> hub \<Rightarrow> hub" where
  "on_create_lobby env c h =
     (let r = hub_next_ref h;
          v = cl_video_settings c;
          sink = VIRTUAL_SINK_PREFIX @ cl_id c;
          h1 = upd_lobby r (\<lambda>_. new_lobby_atoms)
            (h\<lparr>hub_lobbies := hub_lobbies h @ [new_lobby c r], hub_next_ref := r + 1\<rparr>);
          h2 = note_effect (Start_video_producer (cl_id c) (vset_video_producer_buffer_caps v)
            (vset_wayland_render_node v) (vset_width v) (vset_height v) (vset_refresh_rate v)) h1
      in case he_audio_server env of
           None \<Rightarrow> h2
         | Some server \<Rightarrow>
             note_effect (Start_audio_producer (cl_id c) (cl_channel_count c) (sink @ ''.monitor'') server)
               (upd_lobby r (\<lambda>a. a\<lparr>la_audio_sink := Some sink\<rparr>)
                 (note_effect (Create_virtual_sink sink (get_audio_mode (cl_channel_count c))) h2)))"

text \<open>What follows once the compositor of a new lobby has opened its socket.\<close>

definition lobby_display_ready ::
    "hub_env \<Rightarrow> emitter \<Rightarrow> CreateLobby \<Rightarrow> nat \<Rightarrow> string \<Rightarrow> hub \<Rightarrow> hub option" where
  "lobby_display_ready env emit c r socket_name h =
     (let h1 = upd_lobby r (\<lambda>a. a\<lparr>la_wayland_display := Some socket_name\<rparr>) h
      in if \<not> socket_ready env socket_name then emit (StopLobbyEvent (cl_id c) None) h1
         else if \<not> is_safe_state_folder (cl_runner_state_folder c) then emit (StopLobbyEvent (cl_id c) None) h1
         else
           let full_path = path_join (h_local_base_state_folder (he_host env)) (cl_runner_state_folder c);
               args = \<lparr>ra_session_id = cl_id c, ra_video_settings = cl_video_settings c,
                 ra_wayland_display = la_wayland_display (hub_lobby_atoms h1 r),
                 ra_audio_sink = la_audio_sink (hub_lobby_atoms h1 r), ra_app_local_state_folder = full_path,
                 ra_app_host_state_folder =
                   path_join (h_host_base_state_folder (he_host env)) (cl_runner_state_folder c),
                 ra_client_settings = cl_client_settings c\<rparr>
           in Some (note_effect Setup_over (note_effect (Start_runner_thread (cl_runner c) args)
                (note_effect (Create_directories full_path) h1))))"

definition delete_sink :: "hub_env \<Rightarrow> runner_args \<Rightarrow> hub \<Rightarrow> hub" where
  "delete_sink env args h =
     (case (he_audio_server env, ra_audio_sink args) of
        (Some _, Some s) \<Rightarrow> note_effect (Delete_virtual_sink s) h
      | _ \<Rightarrow> h)"

definition lobby_runner_over :: "hub_env \<Rightarrow> emitter \<Rightarrow> string \<Rightarrow> nat \<Rightarrow> runner_args \<Rightarrow> hub \<Rightarrow> hub option" where
  "lobby_runner_over env emit lobby_id r args h =
     emit (StopLobbyEvent lobby_id None)
       (upd_lobby r (\<lambda>a. a\<lparr>la_wayland_display := None\<rparr>) (delete_sink env args h))"

definition on_join_lobby :: "emitter \<Rightarrow> string \<Rightarrow> nat \<Rightarrow> hub \<Rightarrow> hub option" where
  "on_join_lobby emit lobby_id moonlight_session_id h =
     (case (get_lobby_by_id (hub_lobbies h) lobby_id, get_session_by_id (hub_sessions h) moonlight_session_id) of
        (Some lobby, Some session) \<Rightarrow>
          if \<not> lb_multi_user lobby \<and> length (connected h lobby) \<ge> 1
          then Some (note_effect (Join_result ''Lobby is full'') h)
          else
            let i = ss_session_id session;
                h1 = upd_lobby (lb_ref lobby)
                  (\<lambda>a. a\<lparr>la_connected_sessions := la_connected_sessions a @ [dec i]\<rparr>) h;
                h2 = upd_session i (use_display (la_wayland_display (hub_lobby_atoms h1 (lb_ref lobby)))) h1
            in do {
              h3 \<leftarrow> seq_all (take_over emit lobby i) (sa_joypads (hub_session_atoms h2 i)) h2;
              h4 \<leftarrow> emit (SwitchStreamProducerEvents i (lb_id lobby)) h3;
              Some (note_effect (Join_result '''') h4) }
      | _ \<Rightarrow> Some (note_effect (Join_result ''Lobby or session not found'') h))"

definition on_leave_lobby :: "emitter \<Rightarrow> string \<Rightarrow> nat \<Rightarrow> hub \<Rightarrow> hub option" where
  "on_leave_lobby emit lobby_id moonlight_session_id h =
     (case (get_lobby_by_id (hub_lobbies h) lobby_id, get_session_by_id (hub_sessions h) moonlight_session_id) of
        (Some lobby, Some session) \<Rightarrow> leave_lobby emit lobby session h
      | _ \<Rightarrow> Some h)"

definition on_stop_lobby :: "emitter \<Rightarrow> string \<Rightarrow> hub \<Rightarrow> hub option" where
  "on_stop_lobby emit lobby_id h =
     (case get_lobby_by_id (hub_lobbies h) lobby_id of
        None \<Rightarrow> Some h
      | Some lobby \<Rightarrow> do {
          h1 \<leftarrow> seq_all (\<lambda>session_id g. case stoul session_id of
                   Inl _ \<Rightarrow> None
                 | Inr n \<Rightarrow> emit (LeaveLobbyEvent (lb_id lobby) n) g) (connected h lobby) h;
          Some (h1\<lparr>hub_lobbies := filter (\<lambda>l. lb_id l \<noteq> lobby_id) (hub_lobbies h1)\<rparr>) })"

definition on_moonlight_session_over :: "emitter \<Rightarrow> nat \<Rightarrow> hub \<Rightarrow> hub option" where
  "on_moonlight_session_over emit moonlight_session_id h =
     (case get_lobby_by_connected_session h (dec moonlight_session_id) of
        None \<Rightarrow> Some h
      | Some lobby \<Rightarrow> emit (LeaveLobbyEvent (lb_id lobby) moonlight_session_id) h)"

fun lobbies_handler :: "hub_env \<Rightarrow> emitter \<Rightarrow> bus_event \<Rightarrow> hub \<Rightarrow> hub option" where
  "lobbies_handler env emit (CreateLobbyEvent c) h = Some (on_create_lobby env c h)"
| "lobbies_handler env emit (JoinLobbyEvent l i _) h = on_join_lobby emit l i h"
| "lobbies_handler env emit (LeaveLobbyEvent l i) h = on_leave_lobby emit l i h"
| "lobbies_handler env emit (StopLobbyEvent l _) h = on_stop_lobby emit l h"
| "lobbies_handler env emit (PlugDeviceEvent s ev db) h =
     (case get_lobby_by_connected_session h s of
        None \<Rightarrow> Some h
      | Some lobby \<Rightarrow> Some (upd_lobby (lb_ref lobby)
          (\<lambda>a. a\<lparr>la_plugged_devices_queue := la_plugged_devices_queue a @ [(lb_id lobby, ev, db)]\<rparr>) h))"
| "lobbies_handler env emit (UnplugDeviceEvent s ev db) h =
     (case get_lobby_by_connected_session h s of
        None \<Rightarrow> Some h
      | Some lobby \<Rightarrow> emit (UnplugDeviceEvent (lb_id lobby) ev db) h)"
| "lobbies_handler env emit (PauseStreamEvent i) h = on_moonlight_session_over emit i h"
| "lobbies_handler env emit (StopStreamEvent i) h = on_moonlight_session_over emit i h"
| "lobbies_handler env emit (ClientWolfUIComboEvent i) h = on_moonlight_session_over emit i h"
| "lobbies_handler env emit _ h = Some h"

subsection \<open>Starting a runner (sessions/common.cpp, common.hpp)\<close>

text \<open>The time to wait, in milliseconds: a text that is no number or negative counts as unset.\<close>

definition stoll :: "string \<Rightarrow> num_error + int" where
  "stoll s = (case read_number s of
       None \<Rightarrow> Inl Invalid_argument
     | Some (neg, n) \<Rightarrow>
         let v = (if neg then - int n else int n)
         in if - (2 ^ 63) \<le> v \<and> v < 2 ^ 63 then Inr v else Inl Out_of_range)"

definition get_wayland_socket_wait_timeout :: "(string \<Rightarrow> string option) \<Rightarrow> int" where
  "get_wayland_socket_wait_timeout getenv =
     (case getenv ''WOLF_WAYLAND_SOCKET_WAIT_TIMEOUT_MS'' of
        None \<Rightarrow> 5000
      | Some t \<Rightarrow> (case stoll t of Inr parsed \<Rightarrow> if parsed \<ge> 0 then parsed else 5000 | Inl _ \<Rightarrow> 5000))"

definition path_filename :: "string \<Rightarrow> string" where
  "path_filename p = rev (takeWhile (\<lambda>c. c \<noteq> CHR ''/'') (rev p))"

record run_call =
  rc_session_id :: string
  rc_app_state_folder :: string
  rc_host_xdg_runtime_dir :: string
  rc_virtual_inputs :: "string list"
  rc_paths :: "(string \<times> string) list"
  rc_env_variables :: "string \<Rightarrow> string option"
  rc_render_node :: string

definition runner_paths :: "hub_env \<Rightarrow> runner_args \<Rightarrow> (string \<times> string) list" where
  "runner_paths env args =
     (let server = (case he_audio_server env of Some s \<Rightarrow> s | None \<Rightarrow> []);
          gpu = he_vendor env (vset_runner_render_node (ra_video_settings args))
      in [(path_join (he_host_xdg_runtime_dir env) (path_filename server), server)] @
         (case ra_wayland_display args of
            Some s \<Rightarrow> [(path_join (he_host_xdg_runtime_dir env) s, path_join (he_runtime_dir env) s)]
          | None \<Rightarrow> []) @
         [(ra_app_host_state_folder args, ''/home/retro'')] @
         (case (gpu, he_getenv env ''NVIDIA_DRIVER_VOLUME_NAME'') of
            (GPU_NVIDIA, Some v) \<Rightarrow> [(v, ''/usr/nvidia'')] | _ \<Rightarrow> []) @
         [(path_join (h_host_base_state_folder (he_host env)) ''fake-udev'', ''/usr/bin/fake-udev''),
          (path_join (ra_app_host_state_folder args) ''udev'', ''/run/udev/'')])"

definition runner_env :: "hub_env \<Rightarrow> runner_args \<Rightarrow> string \<Rightarrow> string option" where
  "runner_env env args =
     (let v = ra_video_settings args; sink = VIRTUAL_SINK_PREFIX @ ra_session_id args
      in map_of (rev
        ([(''XDG_RUNTIME_DIR'', he_runtime_dir env), (''WOLF_SESSION_ID'', ra_session_id args),
          (''PULSE_SINK'', sink), (''PULSE_SOURCE'', sink @ ''.monitor''),
          (''PULSE_SERVER'', case he_audio_server env of Some s \<Rightarrow> s | None \<Rightarrow> []),
          (''GAMESCOPE_WIDTH'', dec_int (vset_width v)), (''GAMESCOPE_HEIGHT'', dec_int (vset_height v)),
          (''GAMESCOPE_REFRESH'', dec_int (vset_refresh_rate v)),
          (''WOLF_VIDEO_BUFFER_CAPS'', vset_video_producer_buffer_caps v)] @
         (case ra_wayland_display args of Some s \<Rightarrow> [(''WAYLAND_DISPLAY'', s)] | None \<Rightarrow> []) @
         (if he_vendor env (vset_runner_render_node v) = GPU_INTEL then [(''INTEL_DEBUG'', ''norbc'')] else []) @
         [(''PUID'', dec (cs_run_uid (ra_client_settings args))),
          (''PGID'', dec (cs_run_gid (ra_client_settings args)))])))"

definition start_runner :: "hub_env \<Rightarrow> runner_args \<Rightarrow> run_call" where
  "start_runner env args =
     (let node = vset_runner_render_node (ra_video_settings args)
      in \<lparr>rc_session_id = ra_session_id args, rc_app_state_folder = ra_app_local_state_folder args,
          rc_host_xdg_runtime_dir = he_host_xdg_runtime_dir env, rc_virtual_inputs = he_linked_devices env node,
          rc_paths = runner_paths env args, rc_env_variables = runner_env env args, rc_render_node = node\<rparr>)"

subsection \<open>The streams of Moonlight clients (sessions/moonlight.cpp)\<close>

text \<open>Which ping starts the streams of a session.\<close>

definition ping_matches :: "bytes \<Rightarrow> string \<Rightarrow> u16 \<Rightarrow> string \<Rightarrow> u16 \<Rightarrow> bytes option \<Rightarrow> bool" where
  "ping_matches rtp_secret_payload sess_client_ip sess_port client_ip client_port payload \<longleftrightarrow>
     payload = Some rtp_secret_payload \<or> payload = None \<and> client_ip = sess_client_ip \<and> client_port = sess_port"

definition video_ping :: "string \<Rightarrow> u16 \<Rightarrow> bytes option \<Rightarrow> hub \<Rightarrow> hub" where
  "video_ping client_ip client_port payload h =
     (let hit = (\<lambda>s. ping_matches (vs_rtp_secret_payload s) (vs_client_ip s) (vs_port s) client_ip client_port payload)
      in fold (\<lambda>s. note_effect (Start_streaming_video s client_ip client_port)) (filter hit (hub_video_waiting h))
           (h\<lparr>hub_video_waiting := filter (\<lambda>s. \<not> hit s) (hub_video_waiting h)\<rparr>))"

definition audio_ping :: "hub_env \<Rightarrow> string \<Rightarrow> u16 \<Rightarrow> bytes option \<Rightarrow> hub \<Rightarrow> hub" where
  "audio_ping env client_ip client_port payload h =
     (let hit = (\<lambda>s. ping_matches (as_rtp_secret_payload s) (as_client_ip s) (as_port s) client_ip client_port payload);
          server = (case he_audio_server env of Some s \<Rightarrow> s | None \<Rightarrow> [])
      in fold (\<lambda>s. note_effect (Start_streaming_audio s client_ip client_port
                (VIRTUAL_SINK_PREFIX @ dec (as_session_id s) @ ''.monitor'') server))
           (filter hit (hub_audio_waiting h))
           (h\<lparr>hub_audio_waiting := filter (\<lambda>s. \<not> hit s) (hub_audio_waiting h)\<rparr>))"

definition plug_created ::
    "nat \<Rightarrow> (session_atoms \<Rightarrow> session_atoms) \<Rightarrow> (udev_events \<times> udev_hw_db) option \<Rightarrow> hub \<Rightarrow> hub" where
  "plug_created i set_device created h =
     (case created of
        None \<Rightarrow> h
      | Some (ev, db) \<Rightarrow>
          upd_session i set_device
            (h\<lparr>hub_queues := (hub_queues h)
                (dec i := map_option (\<lambda>q. q @ [(dec i, ev, db)]) (hub_queues h (dec i)))\<rparr>))"

definition on_stream_session :: "hub_env \<Rightarrow> StreamSession \<Rightarrow> hub \<Rightarrow> hub option" where
  "on_stream_session env session h =
     (case ss_app session of
        None \<Rightarrow> None
      | Some app \<Rightarrow>
          let i = ss_session_id session;
              m = ss_display_mode session;
              sink = VIRTUAL_SINK_PREFIX @ dec i;
              h1 = h\<lparr>hub_queues := (hub_queues h)(dec i := Some [])\<rparr>;
              h2 = (if app_start_virtual_compositor app
                    then note_effect (Start_video_producer (dec i) (app_video_producer_buffer_caps app)
                           (app_render_node app) (dm_width m) (dm_height m) (dm_refreshRate m)) h1
                    else plug_created i (\<lambda>a. a\<lparr>sa_keyboard := Some Uinput_device\<rparr>) (he_new_keyboard env)
                           (plug_created i (\<lambda>a. a\<lparr>sa_mouse := Some Uinput_device\<rparr>) (he_new_mouse env) h1))
          in Some (case he_audio_server env of
               Some server \<Rightarrow>
                 if app_start_audio_server app
                 then note_effect (Start_audio_producer (dec i) (ss_audio_channel_count session)
                        (sink @ ''.monitor'') server)
                      (upd_session i (\<lambda>a. a\<lparr>sa_audio_sink := Some sink\<rparr>)
                        (note_effect (Create_virtual_sink sink (get_audio_mode (ss_audio_channel_count session))) h2))
                 else h2
             | None \<Rightarrow> h2))"

text \<open>What follows once the compositor of a session has opened its socket, or at once when the
  application needs none.\<close>

definition session_display_ready ::
    "hub_env \<Rightarrow> emitter \<Rightarrow> StreamSession \<Rightarrow> string \<Rightarrow> hub \<Rightarrow> hub option" where
  "session_display_ready env emit session socket_name h =
     (case ss_app session of
        None \<Rightarrow> None
      | Some app \<Rightarrow>
          let i = ss_session_id session;
              h1 = upd_session i (\<lambda>a. use_display (Some socket_name) (a\<lparr>sa_wayland_display := Some socket_name\<rparr>)) h
          in if app_start_virtual_compositor app
             then if socket_ready env socket_name then emit (StartRunner True (app_runner app) session) h1
                  else emit (StopStreamEvent i) h1
             else emit (StartRunner True (app_runner app) session) h)"

definition session_runner_args :: "StreamSession \<Rightarrow> App \<Rightarrow> session_atoms \<Rightarrow> runner_args" where
  "session_runner_args session app a =
     \<lparr>ra_session_id = dec (ss_session_id session),
      ra_video_settings = \<lparr>vset_width = dm_width (ss_display_mode session),
        vset_height = dm_height (ss_display_mode session), vset_refresh_rate = dm_refreshRate (ss_display_mode session),
        vset_wayland_render_node = app_render_node app, vset_runner_render_node = app_render_node app,
        vset_video_producer_buffer_caps = app_video_producer_buffer_caps app\<rparr>,
      ra_wayland_display = sa_wayland_display a, ra_audio_sink = sa_audio_sink a,
      ra_app_local_state_folder = ss_app_local_state_folder session,
      ra_app_host_state_folder = ss_app_host_state_folder session,
      ra_client_settings = ss_client_settings session\<rparr>"

definition on_start_runner :: "Runner \<Rightarrow> StreamSession \<Rightarrow> hub \<Rightarrow> hub option" where
  "on_start_runner runner session h =
     (case (hub_queues h (dec (ss_session_id session)), ss_app session) of
        (None, _) \<Rightarrow> Some h
      | (Some _, None) \<Rightarrow> None
      | (Some _, Some app) \<Rightarrow> Some (note_effect (Start_runner_thread runner
          (session_runner_args session app (hub_session_atoms h (ss_session_id session)))) h))"

definition runner_over :: "hub_env \<Rightarrow> emitter \<Rightarrow> bool \<Rightarrow> StreamSession \<Rightarrow> runner_args \<Rightarrow> hub \<Rightarrow> hub option" where
  "runner_over env emit stop_stream_when_over session args h =
     (let h1 = delete_sink env args h
      in if stop_stream_when_over
         then emit (StopStreamEvent (ss_session_id session))
                (upd_session (ss_session_id session) (\<lambda>a. a\<lparr>sa_wayland_display := None\<rparr>) h1)
         else Some h1)"

fun moonlight_handler :: "hub_env \<Rightarrow> bus_event \<Rightarrow> hub \<Rightarrow> hub option" where
  "moonlight_handler env (StopStreamEvent i) h =
     Some (h\<lparr>hub_sessions := filter (\<lambda>s. ss_session_id s \<noteq> i) (hub_sessions h),
             hub_queues := (hub_queues h)(dec i := None)\<rparr>)"
| "moonlight_handler env (PlugDeviceEvent s ev db) h =
     Some (if get_lobby_by_connected_session h s = None
           then h\<lparr>hub_queues := (hub_queues h)(s := map_option (\<lambda>q. q @ [(s, ev, db)]) (hub_queues h s))\<rparr>
           else h)"
| "moonlight_handler env (StreamSessionEvent s) h = on_stream_session env s h"
| "moonlight_handler env (StartRunner stop runner s) h = on_start_runner runner s h"
| "moonlight_handler env (VideoSessionEvent v) h = Some (h\<lparr>hub_video_waiting := hub_video_waiting h @ [v]\<rparr>)"
| "moonlight_handler env (AudioSessionEvent a) h = Some (h\<lparr>hub_audio_waiting := hub_audio_waiting h @ [a]\<rparr>)"
| "moonlight_handler env (RTPVideoPingEvent ip port payload) h = Some (video_ping ip port payload h)"
| "moonlight_handler env (RTPAudioPingEvent ip port payload) h = Some (audio_ping env ip port payload h)"
| "moonlight_handler env _ h = Some h"

subsection \<open>The bus\<close>

primrec fire_event :: "nat \<Rightarrow> hub_env \<Rightarrow> bus_event \<Rightarrow> hub \<Rightarrow> hub option" where
  "fire_event 0 env ev h = None"
| "fire_event (Suc n) env ev h =
     (let h0 = note_effect (Fired ev) h;
          lobby = lobbies_handler env (fire_event n env) ev;
          moonlight = moonlight_handler env ev
      in if he_moonlight_first env then do { h1 \<leftarrow> moonlight h0; lobby h1 }
         else do { h1 \<leftarrow> lobby h0; moonlight h1 })"

end
