(* ===== verification/Lobbies.thy ===== *)
theory Lobbies
  imports Sessions
begin

section \<open>Lobbies: what the handlers promise\<close>

text \<open>
  An abstract specification of the lobbies - who runs, which lobbies exist, who is in which - and
  the proof that the handlers of Sessions, with their nested events, implement it without running
  out of fuel. The properties of the lobbies follow from the specification.
\<close>

subsection \<open>Specification\<close>

type_synonym lobby_view = "(Lobby \<times> string list) list"

definition view :: "hub \<Rightarrow> lobby_view" where
  "view h = map (\<lambda>l. (l, connected h l)) (hub_lobbies h)"

definition running :: "hub \<Rightarrow> nat list" where
  "running h = map ss_session_id (hub_sessions h)"

definition spec_leave :: "nat list \<Rightarrow> string \<Rightarrow> nat \<Rightarrow> lobby_view \<Rightarrow> lobby_view" where
  "spec_leave run l i v =
     (if i \<notin> set run then v
      else filter (\<lambda>(lb, m). \<not> (lb_id lb = l \<and> lb_stop_when_everyone_leaves lb \<and> m = []))
        (map (\<lambda>(lb, m). (lb, if lb_id lb = l then filter (\<lambda>s. s \<noteq> dec i) m else m)) v))"

definition spec_join :: "nat list \<Rightarrow> string \<Rightarrow> nat \<Rightarrow> lobby_view \<Rightarrow> lobby_view" where
  "spec_join run l i v =
     (if i \<notin> set run then v
      else map (\<lambda>(lb, m). (lb, if lb_id lb = l \<and> (lb_multi_user lb \<or> m = []) then m @ [dec i] else m)) v)"

definition spec_stop :: "string \<Rightarrow> lobby_view \<Rightarrow> lobby_view" where
  "spec_stop l v = filter (\<lambda>(lb, m). lb_id lb \<noteq> l) v"

definition spec_over :: "nat list \<Rightarrow> nat \<Rightarrow> lobby_view \<Rightarrow> lobby_view" where
  "spec_over run i v =
     (case List.find (\<lambda>(lb, m). dec i \<in> set m) v of None \<Rightarrow> v | Some (lb, _) \<Rightarrow> spec_leave run (lb_id lb) i v)"

subsection \<open>Well-formed states\<close>

definition hub_ok :: "hub \<Rightarrow> bool" where
  "hub_ok h \<longleftrightarrow> distinct (map lb_id (hub_lobbies h)) \<and> distinct (map lb_ref (hub_lobbies h)) \<and>
     (\<forall>s \<in> set (hub_sessions h). ss_session_id s < 2 ^ 64) \<and>
     (\<forall>l \<in> set (hub_lobbies h). lb_ref l < hub_next_ref h \<and> (\<forall>n. lb_id l \<noteq> dec n) \<and>
        (\<forall>s \<in> set (connected h l). \<exists>n < 2 ^ 64. s = dec n))"

text \<open>Events that move nobody: what they leave alone.\<close>

definition quiet :: "hub \<Rightarrow> hub \<Rightarrow> bool" where
  "quiet h h' \<longleftrightarrow> hub_sessions h' = hub_sessions h \<and> hub_lobbies h' = hub_lobbies h \<and>
     hub_next_ref h' = hub_next_ref h \<and> hub_session_atoms h' = hub_session_atoms h \<and>
     (\<forall>r. la_connected_sessions (hub_lobby_atoms h' r) = la_connected_sessions (hub_lobby_atoms h r) \<and>
          la_wayland_display (hub_lobby_atoms h' r) = la_wayland_display (hub_lobby_atoms h r))"

lemma quiet_refl [simp, intro]: "quiet h h"
  by (simp add: quiet_def)

lemma quiet_trans: "\<lbrakk>quiet a b; quiet b c\<rbrakk> \<Longrightarrow> quiet a c"
  by (simp add: quiet_def)

lemma quiet_connected: "quiet h h' \<Longrightarrow> connected h' l = connected h l"
  by (simp add: quiet_def connected_def)

lemma quiet_view: "quiet h h' \<Longrightarrow> view h' = view h \<and> running h' = running h"
  by (auto simp: view_def running_def quiet_connected) (auto simp: quiet_def)

lemma quiet_ok: "\<lbrakk>quiet h h'; hub_ok h\<rbrakk> \<Longrightarrow> hub_ok h'"
  by (simp add: hub_ok_def quiet_connected) (simp add: quiet_def)

lemma quiet_note [simp]: "quiet h (note_effect e h)"
  by (simp add: quiet_def note_effect_def)

lemma quiet_queue [simp]:
  "quiet h (h\<lparr>hub_queues := q\<rparr>)"
  "quiet h (upd_lobby r (\<lambda>a. a\<lparr>la_plugged_devices_queue := f a\<rparr>) h)"
  by (auto simp: quiet_def upd_lobby_def)

lemma note_frame [simp]:
  "hub_sessions (note_effect e h) = hub_sessions h" "hub_lobbies (note_effect e h) = hub_lobbies h"
  "hub_session_atoms (note_effect e h) = hub_session_atoms h" "hub_lobby_atoms (note_effect e h) = hub_lobby_atoms h"
  "hub_next_ref (note_effect e h) = hub_next_ref h" "hub_queues (note_effect e h) = hub_queues h"
  "connected (note_effect e h) l = connected h l"
  by (simp_all add: note_effect_def connected_def)

lemma fold_notes: "fold (\<lambda>s. note_effect (f s)) xs g = g\<lparr>hub_trace := hub_trace g @ map f xs\<rparr>"
  by (induction xs arbitrary: g) (simp_all add: note_effect_def)

lemma lobby_id_not_connected:
  assumes "hub_ok h" "lb \<in> set (hub_lobbies h)"
  shows "get_lobby_by_connected_session h (lb_id lb) = None"
proof -
  have "lb_id lb \<notin> set (connected h x)" if "x \<in> set (hub_lobbies h)" for x
  proof
    assume "lb_id lb \<in> set (connected h x)"
    then have "\<exists>n. lb_id lb = dec n" using assms(1) \<open>x \<in> set (hub_lobbies h)\<close> unfolding hub_ok_def by blast
    with assms show False by (auto simp: hub_ok_def)
  qed
  then show ?thesis by (simp add: get_lobby_by_connected_session_def find_None_iff)
qed

text \<open>An event that only one of the two groups of handlers listens to.\<close>

lemma fire_Suc:
  "fire_event (Suc n) env ev h =
    (if he_moonlight_first env
     then Option.bind (moonlight_handler env ev (note_effect (Fired ev) h)) (lobbies_handler env (fire_event n env) ev)
     else Option.bind (lobbies_handler env (fire_event n env) ev (note_effect (Fired ev) h)) (moonlight_handler env ev))"
  by (simp add: Let_def)

lemma fire_lobby:
  assumes "\<And>g. moonlight_handler env ev g = Some g"
  shows "fire_event (Suc n) env ev h = lobbies_handler env (fire_event n env) ev (note_effect (Fired ev) h)"
proof -
  have "moonlight_handler env ev = Some" using assms by (rule ext)
  then show ?thesis by (simp add: fire_Suc del: fire_event.simps)
qed

lemma fire_moonlight:
  assumes "\<And>emit g. lobbies_handler env emit ev g = Some g"
  shows "fire_event (Suc n) env ev h = moonlight_handler env ev (note_effect (Fired ev) h)"
proof -
  have "lobbies_handler env (fire_event n env) ev = Some" using assms by (rule ext)
  then show ?thesis by (simp add: fire_Suc del: fire_event.simps)
qed

declare fire_event.simps(2) [simp del]

text \<open>Plugging, unplugging and switching are quiet, and need two levels of fuel.\<close>

definition moves_nobody :: "bus_event \<Rightarrow> bool" where
  "moves_nobody ev \<longleftrightarrow> (\<exists>s u d. ev = PlugDeviceEvent s u d) \<or> (\<exists>s u d. ev = UnplugDeviceEvent s u d) \<or>
     (\<exists>i s. ev = SwitchStreamProducerEvents i s)"

lemma quiet_lobby_of:
  "quiet h h' \<Longrightarrow> get_lobby_by_connected_session h' s = get_lobby_by_connected_session h s"
  by (simp add: get_lobby_by_connected_session_def quiet_connected) (simp add: quiet_def)

lemma unplug_unknown:
  assumes "get_lobby_by_connected_session h s = None"
  shows "fire_event (Suc n) env (UnplugDeviceEvent s u d) h = Some (note_effect (Fired (UnplugDeviceEvent s u d)) h)"
  using assms by (simp add: fire_lobby quiet_lobby_of [OF quiet_note])

lemma fire_plug: "\<exists>h'. fire_event (Suc n) env (PlugDeviceEvent s u d) h = Some h' \<and> quiet h h'"
proof -
  let ?ev = "PlugDeviceEvent s u d"
  have m: "\<exists>h'. moonlight_handler env ?ev g = Some h' \<and> quiet g h'" for g by simp
  have l: "\<exists>h'. lobbies_handler env (fire_event n env) ?ev g = Some h' \<and> quiet g h'" for g
    by (auto split: option.split)
  show ?thesis
    using m [of "note_effect (Fired ?ev) h"] l [of "note_effect (Fired ?ev) h"] m l
    by (auto simp: fire_Suc bind_eq_Some_conv simp del: moonlight_handler.simps lobbies_handler.simps)
      (metis quiet_note quiet_trans)+
qed

lemma fire_switch: "\<exists>h'. fire_event (Suc n) env (SwitchStreamProducerEvents i s) h = Some h' \<and> quiet h h'"
  by (simp add: fire_lobby)

lemma fire_unplug:
  assumes "hub_ok h"
  shows "\<exists>h'. fire_event (Suc (Suc n)) env (UnplugDeviceEvent s u d) h = Some h' \<and> quiet h h'"
proof (cases "get_lobby_by_connected_session h s")
  case None
  then show ?thesis using unplug_unknown [OF None, of "Suc n"] by simp
next
  case (Some lobby)
  let ?h = "note_effect (Fired (UnplugDeviceEvent s u d)) h"
  have "lobby \<in> set (hub_lobbies h)"
    using Some by (auto simp: get_lobby_by_connected_session_def dest: find_Some_in)
  then have "get_lobby_by_connected_session ?h (lb_id lobby) = None"
    using lobby_id_not_connected [OF assms] quiet_lobby_of [OF quiet_note] by metis
  then have "fire_event (Suc n) env (UnplugDeviceEvent (lb_id lobby) u d) ?h =
      Some (note_effect (Fired (UnplugDeviceEvent (lb_id lobby) u d)) ?h)" by (rule unplug_unknown)
  moreover have "get_lobby_by_connected_session ?h s = Some lobby" using Some quiet_lobby_of [OF quiet_note] by metis
  ultimately show ?thesis
    using quiet_trans [OF quiet_note quiet_note]
    by (simp add: fire_lobby [of env "UnplugDeviceEvent s u d" "Suc n"])
qed

lemma fire_quiet:
  assumes "hub_ok h" "moves_nobody ev"
  shows "\<exists>h'. fire_event (Suc (Suc n)) env ev h = Some h' \<and> quiet h h'"
  using assms fire_plug fire_switch fire_unplug by (auto simp: moves_nobody_def)

lemma seq_all_quiet:
  assumes "hub_ok h" "\<And>x g. \<lbrakk>x \<in> set xs; hub_ok g\<rbrakk> \<Longrightarrow> \<exists>g'. f x g = Some g' \<and> quiet g g'"
  shows "\<exists>h'. seq_all f xs h = Some h' \<and> quiet h h'"
  using assms
proof (induction xs arbitrary: h)
  case (Cons x xs)
  then obtain g where g: "f x h = Some g" "quiet h g" by (meson list.set_intros(1))
  then have "hub_ok g" using Cons.prems(1) quiet_ok by blast
  then obtain h' where "seq_all f xs g = Some h'" "quiet g h'" using Cons by (meson list.set_intros(2))
  with g show ?case using quiet_trans by auto
qed simp

lemma quiet_bind:
  assumes "hub_ok g" "\<exists>g1. a = Some g1 \<and> quiet g g1" "\<And>g1. hub_ok g1 \<Longrightarrow> \<exists>g2. k g1 = Some g2 \<and> quiet g1 g2"
  shows "\<exists>g2. Option.bind a k = Some g2 \<and> quiet g g2"
  using assms quiet_ok quiet_trans by (metis Option.bind.bind_lunit)

subsection \<open>Leaving\<close>

lemma same_lobby:
  assumes "hub_ok h" "a \<in> set (hub_lobbies h)" "b \<in> set (hub_lobbies h)"
  shows "lb_ref a = lb_ref b \<longleftrightarrow> a = b" and "lb_id a = lb_id b \<longleftrightarrow> a = b"
  using assms by (auto simp: hub_ok_def distinct_map inj_on_def)

lemma filter_one: "\<lbrakk>distinct (map f xs); x \<in> set xs\<rbrakk> \<Longrightarrow> filter (\<lambda>y. f y = f x) xs = [x]"
  by (induction xs) (auto simp: filter_empty_conv image_iff)

lemma get_lobby_Some:
  assumes "hub_ok h" "lb \<in> set (hub_lobbies h)"
  shows "get_lobby_by_id (hub_lobbies h) (lb_id lb) = Some lb"
proof -
  have "filter (\<lambda>l. lb_id l = lb_id lb) (hub_lobbies h) = [lb]"
    using assms filter_one by (auto simp: hub_ok_def)
  then show ?thesis by (simp add: get_lobby_by_id_def)
qed

lemma connected_upd_lobby:
  "connected (upd_lobby r f h) l =
    (if lb_ref l = r then la_connected_sessions (f (hub_lobby_atoms h r)) else connected h l)"
  by (simp add: connected_def upd_lobby_def)

lemma upd_frames [simp]:
  "hub_sessions (upd_lobby r f h) = hub_sessions h" "hub_lobbies (upd_lobby r f h) = hub_lobbies h"
  "hub_next_ref (upd_lobby r f h) = hub_next_ref h" "hub_session_atoms (upd_lobby r f h) = hub_session_atoms h"
  "hub_sessions (upd_session i g h) = hub_sessions h" "hub_lobbies (upd_session i g h) = hub_lobbies h"
  "hub_next_ref (upd_session i g h) = hub_next_ref h" "hub_lobby_atoms (upd_session i g h) = hub_lobby_atoms h"
  "connected (upd_session i g h) l = connected h l"
  "hub_session_atoms (upd_session i g h) = (hub_session_atoms h)(i := g (hub_session_atoms h i))"
  by (simp_all add: upd_lobby_def upd_session_def connected_def)

text \<open>Changing the members of one lobby.\<close>

lemma members_changed:
  assumes "hub_ok h" "lobby \<in> set (hub_lobbies h)" "\<forall>a. la_connected_sessions (f a) = F (la_connected_sessions a)"
    "\<forall>s \<in> set (F (connected h lobby)). \<exists>n < 2 ^ 64. s = dec n"
  shows "hub_ok (upd_session i g (upd_lobby (lb_ref lobby) f h))"
    and "view (upd_session i g (upd_lobby (lb_ref lobby) f h)) =
      map (\<lambda>(lb, m). (lb, if lb_id lb = lb_id lobby then F m else m)) (view h)"
proof -
  have c: "connected (upd_lobby (lb_ref lobby) f h) l = (if lb_id l = lb_id lobby then F (connected h l) else connected h l)"
    if "l \<in> set (hub_lobbies h)" for l
    using that assms(3) same_lobby [OF assms(1) that assms(2)] by (auto simp: upd_lobby_def connected_def)
  then show "hub_ok (upd_session i g (upd_lobby (lb_ref lobby) f h))"
    using assms(1,2,4) same_lobby [OF assms(1) _ assms(2)] unfolding hub_ok_def by auto
  show "view (upd_session i g (upd_lobby (lb_ref lobby) f h)) =
      map (\<lambda>(lb, m). (lb, if lb_id lb = lb_id lobby then F m else m)) (view h)"
    using c by (simp add: view_def)
qed

lemma view_member: "(lb, m) \<in> set (view h) \<longleftrightarrow> lb \<in> set (hub_lobbies h) \<and> m = connected h lb"
  by (auto simp: view_def)

lemma lobbies_removed:
  assumes "hub_ok h"
  shows "hub_ok (h\<lparr>hub_lobbies := filter P (hub_lobbies h)\<rparr>)"
    and "view (h\<lparr>hub_lobbies := filter P (hub_lobbies h)\<rparr>) = filter (P \<circ> fst) (view h)"
  using assms by (auto simp: hub_ok_def distinct_map_filter connected_def view_def filter_map comp_def)

lemma fire_stop_empty:
  assumes "hub_ok h" "lobby \<in> set (hub_lobbies h)" "connected h lobby = []"
  shows "fire_event (Suc n) env (StopLobbyEvent (lb_id lobby) p) h =
    Some ((note_effect (Fired (StopLobbyEvent (lb_id lobby) p)) h)
      \<lparr>hub_lobbies := filter (\<lambda>l. lb_id l \<noteq> lb_id lobby) (hub_lobbies h)\<rparr>)"
  using get_lobby_Some [OF assms(1,2)] assms(3) by (simp add: fire_lobby on_stop_lobby_def)

lemma give_back_quiet:
  assumes "hub_ok g"
  shows "\<exists>g'. give_back (fire_event (Suc (Suc n)) env) lobby i x g = Some g' \<and> quiet g g'"
proof -
  obtain c ev db where "x = (c, ev, db)" by (cases x)
  then show ?thesis unfolding give_back_def
    by (simp only: prod.case) (intro quiet_bind assms fire_plug fire_unplug)
qed

lemma leave_lobby_spec:
  assumes ok: "hub_ok h" and lob: "lobby \<in> set (hub_lobbies h)" and ses: "session \<in> set (hub_sessions h)"
  defines "i \<equiv> ss_session_id session"
  shows "\<exists>h'. leave_lobby (fire_event (Suc (Suc n)) env) lobby session h = Some h' \<and> hub_ok h' \<and>
    hub_sessions h' = hub_sessions h \<and> hub_next_ref h' = hub_next_ref h \<and>
    view h' = spec_leave (running h) (lb_id lobby) i (view h) \<and>
    hub_session_atoms h' = (hub_session_atoms h)(i := use_display (sa_wayland_display (hub_session_atoms h i)) (hub_session_atoms h i))"
proof -
  let ?emit = "fire_event (Suc (Suc n)) env" and ?F = "filter (\<lambda>s. s \<noteq> dec i)"
  let ?h2 = "upd_session i (use_display (sa_wayland_display (hub_session_atoms h i)))
      (upd_lobby (lb_ref lobby) (\<lambda>a. a\<lparr>la_connected_sessions := ?F (la_connected_sessions a)\<rparr>) h)"
  have "\<forall>s \<in> set (?F (connected h lobby)). \<exists>n < 2 ^ 64. s = dec n" using ok lob by (auto simp: hub_ok_def)
  then have ok2: "hub_ok ?h2"
    and v2: "view ?h2 = map (\<lambda>(lb, m). (lb, if lb_id lb = lb_id lobby then ?F m else m)) (view h)"
    using members_changed [OF ok lob, of "\<lambda>a. a\<lparr>la_connected_sessions := ?F (la_connected_sessions a)\<rparr>" ?F]
    by simp_all
  obtain h3 where h3: "seq_all (give_back ?emit lobby i) (sa_joypads (hub_session_atoms ?h2 i)) ?h2 = Some h3" "quiet ?h2 h3"
    using seq_all_quiet [OF ok2, of "sa_joypads (hub_session_atoms ?h2 i)" "give_back ?emit lobby i"] give_back_quiet by blast
  obtain h4 where h4: "?emit (SwitchStreamProducerEvents i (dec i)) h3 = Some h4" "quiet h3 h4"
    using fire_switch by blast
  have q: "quiet ?h2 h4" using h3(2) h4(2) by (rule quiet_trans)
  have ok4: "hub_ok h4" using quiet_ok [OF q ok2] .
  have v4: "view h4 = map (\<lambda>(lb, m). (lb, if lb_id lb = lb_id lobby then ?F m else m)) (view h)"
    using quiet_view [OF q] v2 by simp
  have f4: "hub_sessions h4 = hub_sessions h" "hub_lobbies h4 = hub_lobbies h" "hub_next_ref h4 = hub_next_ref h"
      "hub_session_atoms h4 = (hub_session_atoms h)(i := use_display (sa_wayland_display (hub_session_atoms h i)) (hub_session_atoms h i))"
    using q by (simp_all add: quiet_def)
  have run: "i \<in> set (running h)" using ses by (simp add: i_def running_def)
  have left: "leave_lobby ?emit lobby session h =
      (if lb_stop_when_everyone_leaves lobby \<and> connected h4 lobby = []
       then ?emit (StopLobbyEvent (lb_id lobby) None) h4 else Some h4)"
    using h3(1) h4(1) unfolding leave_lobby_def i_def [symmetric] by (simp add: Let_def)
  have mem: "lb = lobby \<and> m = connected h4 lobby" if "(lb, m) \<in> set (view h4)" "lb_id lb = lb_id lobby" for lb m
    using that lob f4(2) same_lobby(2) [OF ok4] by (auto simp: view_member)
  show ?thesis
  proof (cases "lb_stop_when_everyone_leaves lobby \<and> connected h4 lobby = []")
    case True
    let ?g = "(note_effect (Fired (StopLobbyEvent (lb_id lobby) None)) h4)"
    have "filter (\<lambda>(lb, m). lb_id lb \<noteq> lb_id lobby) (view h4) =
        filter (\<lambda>(lb, m). \<not> (lb_id lb = lb_id lobby \<and> lb_stop_when_everyone_leaves lb \<and> m = [])) (view h4)"
      using mem True by (intro filter_cong) auto
    moreover have "view (?g\<lparr>hub_lobbies := filter (\<lambda>l. lb_id l \<noteq> lb_id lobby) (hub_lobbies ?g)\<rparr>) =
        filter (\<lambda>(lb, m). lb_id lb \<noteq> lb_id lobby) (view h4)"
      using lobbies_removed(2) [OF quiet_ok [OF quiet_note ok4], where P = "\<lambda>l. lb_id l \<noteq> lb_id lobby"]
        quiet_view [OF quiet_note] by (simp add: comp_def case_prod_unfold)
    moreover have "hub_ok (?g\<lparr>hub_lobbies := filter (\<lambda>l. lb_id l \<noteq> lb_id lobby) (hub_lobbies ?g)\<rparr>)"
      by (rule lobbies_removed(1) [OF quiet_ok [OF quiet_note ok4]])
    ultimately show ?thesis
      using True left fire_stop_empty [OF ok4, of lobby] lob f4 run v4 by (simp add: spec_leave_def)
  next
    case False
    have "filter (\<lambda>(lb, m). \<not> (lb_id lb = lb_id lobby \<and> lb_stop_when_everyone_leaves lb \<and> m = [])) (view h4) = view h4"
      using mem False by (intro filter_True) auto
    moreover have "leave_lobby ?emit lobby session h = Some h4" using left False by (simp only: if_False)
    ultimately show ?thesis using f4 run v4 ok4 by (simp add: spec_leave_def)
  qed
qed

lemma get_lobby_None: "get_lobby_by_id (hub_lobbies h) l = None \<longleftrightarrow> (\<forall>lb \<in> set (hub_lobbies h). lb_id lb \<noteq> l)"
proof -
  have "take 1 xs = [] \<or> (\<exists>x. take 1 xs = [x] \<and> x \<in> set xs)" for xs :: "Lobby list" by (cases xs) auto
  then show ?thesis
    using filter_empty_conv [of "\<lambda>lb. lb_id lb = l" "hub_lobbies h"]
    by (fastforce simp: get_lobby_by_id_def split: list.splits)
qed

lemma get_lobby_mem: "get_lobby_by_id (hub_lobbies h) l = Some lb \<Longrightarrow> lb \<in> set (hub_lobbies h) \<and> lb_id lb = l"
  by (cases "filter (\<lambda>lb. lb_id lb = l) (hub_lobbies h)") 
     (auto simp: get_lobby_by_id_def dest: filter_eq_ConsD)

lemma get_session_mem:
  "get_session_by_id (hub_sessions h) i = Some s \<Longrightarrow> s \<in> set (hub_sessions h) \<and> ss_session_id s = i"
  by (auto simp: get_session_by_id_find dest: find_Some_in)

lemma get_session_None: "get_session_by_id (hub_sessions h) i = None \<longleftrightarrow> i \<notin> set (running h)"
  by (auto simp: get_session_by_id_find find_None_iff running_def)

lemma spec_leave_absent: "\<forall>(lb, m) \<in> set v. lb_id lb \<noteq> l \<Longrightarrow> spec_leave run l i v = v"
  by (induction v) (auto simp: spec_leave_def)

lemma fire_leave:
  assumes "hub_ok h"
  shows "\<exists>h'. fire_event (Suc (Suc (Suc n))) env (LeaveLobbyEvent l i) h = Some h' \<and> hub_ok h' \<and>
    hub_sessions h' = hub_sessions h \<and> hub_next_ref h' = hub_next_ref h \<and>
    view h' = spec_leave (running h) l i (view h)"
proof -
  let ?h = "note_effect (Fired (LeaveLobbyEvent l i)) h"
  have ok: "hub_ok ?h" and vw: "view ?h = view h" and run: "running ?h = running h"
    using quiet_ok [OF quiet_note assms] quiet_view [OF quiet_note] by simp_all
  have fire: "fire_event (Suc (Suc (Suc n))) env (LeaveLobbyEvent l i) h = on_leave_lobby (fire_event (Suc (Suc n)) env) l i ?h"
    by (simp add: fire_lobby)
  consider (no_lobby) "get_lobby_by_id (hub_lobbies ?h) l = None"
    | (no_session) "get_session_by_id (hub_sessions ?h) i = None"
    | (both) lb s where "get_lobby_by_id (hub_lobbies ?h) l = Some lb" "get_session_by_id (hub_sessions ?h) i = Some s"
    by blast
  then show ?thesis
  proof cases
    case no_lobby
    then have "\<forall>(lb, m) \<in> set (view h). lb_id lb \<noteq> l"
      using get_lobby_None [of ?h l] by (auto simp: view_member)
    then have "spec_leave (running h) l i (view h) = view h" by (rule spec_leave_absent)
    then show ?thesis using no_lobby fire ok vw by (simp add: on_leave_lobby_def)
  next
    case no_session
    then have "i \<notin> set (running h)" using get_session_None [of ?h i] run by simp
    then have "spec_leave (running h) l i (view h) = view h" by (simp add: spec_leave_def)
    moreover have "on_leave_lobby (fire_event (Suc (Suc n)) env) l i ?h = Some ?h"
      using no_session by (simp add: on_leave_lobby_def split: option.split)
    ultimately show ?thesis using fire ok vw by simp
  next
    case both
    then have lb: "lb \<in> set (hub_lobbies ?h)" "lb_id lb = l" and s: "s \<in> set (hub_sessions ?h)" "ss_session_id s = i"
      using get_lobby_mem get_session_mem by blast+
    have "on_leave_lobby (fire_event (Suc (Suc n)) env) l i ?h = leave_lobby (fire_event (Suc (Suc n)) env) lb s ?h"
      using both by (simp add: on_leave_lobby_def)
    then show ?thesis using leave_lobby_spec [OF ok lb(1) s(1), of n env] fire lb(2) s(2) vw run by auto
  qed
qed

subsection \<open>Stopping\<close>

lemma spec_stop_leave: "spec_stop l (spec_leave run l i v) = spec_stop l v"
  by (induction v) (auto simp: spec_stop_def spec_leave_def)

lemma fire_stop:
  assumes "hub_ok h"
  shows "\<exists>h'. fire_event (Suc (Suc (Suc (Suc n)))) env (StopLobbyEvent l p) h = Some h' \<and> hub_ok h' \<and>
    hub_sessions h' = hub_sessions h \<and> hub_next_ref h' = hub_next_ref h \<and> view h' = spec_stop l (view h)"
proof -
  let ?h = "note_effect (Fired (StopLobbyEvent l p)) h" and ?emit = "fire_event (Suc (Suc (Suc n))) env"
  have ok: "hub_ok ?h" and vw: "view ?h = view h"
    using quiet_ok [OF quiet_note assms] quiet_view [OF quiet_note] by simp_all
  have fire: "fire_event (Suc (Suc (Suc (Suc n)))) env (StopLobbyEvent l p) h = on_stop_lobby ?emit l ?h"
    by (simp add: fire_lobby)
  show ?thesis
  proof (cases "get_lobby_by_id (hub_lobbies ?h) l")
    case None
    then have "spec_stop l (view h) = view h"
      using get_lobby_None [of ?h l] unfolding spec_stop_def by (intro filter_True) (auto simp: view_member)
    then show ?thesis using None fire ok vw by (simp add: on_stop_lobby_def)
  next
    case (Some lb)
    then have lb: "lb \<in> set (hub_lobbies ?h)" "lb_id lb = l" using get_lobby_mem by blast+
    let ?leave = "\<lambda>session_id g. case stoul session_id of Inl _ \<Rightarrow> None | Inr n \<Rightarrow> ?emit (LeaveLobbyEvent (lb_id lb) n) g"
    have "\<exists>g'. seq_all ?leave ms g = Some g' \<and> hub_ok g' \<and> hub_sessions g' = hub_sessions g \<and>
        hub_next_ref g' = hub_next_ref g \<and> spec_stop l (view g') = spec_stop l (view g)"
      if "hub_ok g" "\<forall>s \<in> set ms. \<exists>n < 2 ^ 64. s = dec n" for ms g
      using that
    proof (induction ms arbitrary: g)
      case (Cons s ms)
      then obtain m where m: "m < 2 ^ 64" "s = dec m" by auto
      obtain g1 where g1: "?emit (LeaveLobbyEvent (lb_id lb) m) g = Some g1" "hub_ok g1"
          "hub_sessions g1 = hub_sessions g" "hub_next_ref g1 = hub_next_ref g"
          "view g1 = spec_leave (running g) (lb_id lb) m (view g)"
        using fire_leave [OF Cons.prems(1)] by blast
      obtain g' where "seq_all ?leave ms g1 = Some g' \<and> hub_ok g' \<and> hub_sessions g' = hub_sessions g1 \<and>
          hub_next_ref g' = hub_next_ref g1 \<and> spec_stop l (view g') = spec_stop l (view g1)"
        using Cons.IH [OF g1(2)] Cons.prems(2) by auto
      with g1 m lb(2) show ?case by (simp add: spec_stop_leave)
    qed simp
    moreover have "\<forall>s \<in> set (connected ?h lb). \<exists>n < 2 ^ 64. s = dec n" using ok lb(1) unfolding hub_ok_def by blast
    ultimately obtain g where g: "seq_all ?leave (connected ?h lb) ?h = Some g" "hub_ok g" "hub_sessions g = hub_sessions h"
        "hub_next_ref g = hub_next_ref h" "spec_stop l (view g) = spec_stop l (view h)"
      using ok vw by fastforce
    have "view (g\<lparr>hub_lobbies := filter (\<lambda>lb. lb_id lb \<noteq> l) (hub_lobbies g)\<rparr>) = spec_stop l (view g)"
      using lobbies_removed(2) [OF g(2)] by (simp add: spec_stop_def comp_def case_prod_unfold)
    then show ?thesis
      using g lobbies_removed(1) [OF g(2)] fire Some by (simp add: on_stop_lobby_def)
  qed
qed

subsection \<open>Joining\<close>

lemma take_over_quiet:
  assumes "hub_ok g"
  shows "\<exists>g'. take_over (fire_event (Suc (Suc n)) env) lobby i x g = Some g' \<and> quiet g g'"
proof -
  obtain c ev db where "x = (c, ev, db)" by (cases x)
  moreover have "\<exists>g2. Some (upd_lobby (lb_ref lobby) (\<lambda>a. a\<lparr>la_plugged_devices_queue := la_plugged_devices_queue a @ [p]\<rparr>) g1) = Some g2 \<and>
      quiet g1 g2" for p g1
    by (rule exI, rule conjI, rule refl, rule quiet_queue)
  ultimately show ?thesis unfolding take_over_def
    by (simp only: prod.case) (intro quiet_bind assms fire_plug fire_unplug)
qed

lemma join_accepted:
  assumes ok: "hub_ok h" and lob: "lobby \<in> set (hub_lobbies h)" and ses: "session \<in> set (hub_sessions h)"
    "get_session_by_id (hub_sessions h) i = Some session" and room: "lb_multi_user lobby \<or> connected h lobby = []"
  shows "\<exists>h'. on_join_lobby (fire_event (Suc (Suc n)) env) (lb_id lobby) i h = Some h' \<and> hub_ok h' \<and>
    hub_sessions h' = hub_sessions h \<and> hub_lobbies h' = hub_lobbies h \<and> hub_next_ref h' = hub_next_ref h \<and>
    view h' = spec_join (running h) (lb_id lobby) i (view h) \<and>
    hub_session_atoms h' = (hub_session_atoms h)(i :=
      use_display (la_wayland_display (hub_lobby_atoms h (lb_ref lobby))) (hub_session_atoms h i)) \<and>
    (\<exists>tr. hub_trace h' = tr @ [Fired (SwitchStreamProducerEvents i (lb_id lobby)), Join_result ''''])"
proof -
  let ?emit = "fire_event (Suc (Suc n)) env"
  have i: "ss_session_id session = i" using get_session_mem [OF ses(2)] by simp
  let ?f = "\<lambda>a. a\<lparr>la_connected_sessions := la_connected_sessions a @ [dec i]\<rparr>"
  let ?h2 = "upd_session i (use_display (la_wayland_display (hub_lobby_atoms h (lb_ref lobby))))
      (upd_lobby (lb_ref lobby) ?f h)"
  have "i < 2 ^ 64" using ok ses(1) i by (auto simp: hub_ok_def)
  then have "\<forall>s \<in> set (connected h lobby @ [dec i]). \<exists>n < 2 ^ 64. s = dec n"
    using ok lob unfolding hub_ok_def by auto
  then have ok2: "hub_ok ?h2"
    and v2: "view ?h2 = map (\<lambda>(lb, m). (lb, if lb_id lb = lb_id lobby then m @ [dec i] else m)) (view h)"
    using members_changed [OF ok lob, of ?f "\<lambda>m. m @ [dec i]"] by simp_all
  obtain h3 where h3: "seq_all (take_over ?emit lobby i) (sa_joypads (hub_session_atoms ?h2 i)) ?h2 = Some h3" "quiet ?h2 h3"
    using seq_all_quiet [OF ok2, of "sa_joypads (hub_session_atoms ?h2 i)" "take_over ?emit lobby i"] take_over_quiet by blast
  let ?h4 = "note_effect (Fired (SwitchStreamProducerEvents i (lb_id lobby))) h3"
  have h4: "?emit (SwitchStreamProducerEvents i (lb_id lobby)) h3 = Some ?h4"
    by (simp add: fire_lobby)
  let ?h5 = "note_effect (Join_result '''') ?h4"
  have q: "quiet ?h2 ?h5" using quiet_trans [OF h3(2) quiet_trans [OF quiet_note quiet_note]] .
  have wl: "la_wayland_display (hub_lobby_atoms (upd_lobby (lb_ref lobby) ?f h) (lb_ref lobby)) =
      la_wayland_display (hub_lobby_atoms h (lb_ref lobby))" by (simp add: upd_lobby_def)
  have "on_join_lobby ?emit (lb_id lobby) i h = Some ?h5"
    using h3(1) h4 room get_lobby_Some [OF ok lob] ses(2) i wl by (auto simp: on_join_lobby_def Let_def Suc_le_eq)
  moreover have "spec_join (running h) (lb_id lobby) i (view h) = view ?h2"
  proof -
    have "i \<in> set (running h)" using ses(1) i by (auto simp: running_def)
    moreover have mem: "lb = lobby \<and> m = connected h lobby" if "(lb, m) \<in> set (view h)" "lb_id lb = lb_id lobby" for lb m
      using that lob same_lobby(2) [OF ok] by (auto simp: view_member)
    ultimately show ?thesis using room unfolding spec_join_def v2 by (auto intro!: map_cong [OF refl] dest!: mem)
  qed
  ultimately show ?thesis
    using quiet_ok [OF q ok2] quiet_view [OF q] q
    by (intro exI [of _ ?h5]) (simp add: quiet_def, simp add: note_effect_def)
qed

lemma fire_join:
  assumes "hub_ok h"
  shows "\<exists>h'. fire_event (Suc (Suc (Suc n))) env (JoinLobbyEvent l i p) h = Some h' \<and> hub_ok h' \<and>
    hub_sessions h' = hub_sessions h \<and> hub_next_ref h' = hub_next_ref h \<and> view h' = spec_join (running h) l i (view h)"
proof -
  let ?h = "note_effect (Fired (JoinLobbyEvent l i p)) h" and ?emit = "fire_event (Suc (Suc n)) env"
  have ok: "hub_ok ?h" and vw: "view ?h = view h" and run: "running ?h = running h"
    using quiet_ok [OF quiet_note assms] quiet_view [OF quiet_note] by simp_all
  have fire: "fire_event (Suc (Suc (Suc n))) env (JoinLobbyEvent l i p) h = on_join_lobby ?emit l i ?h"
    by (simp add: fire_lobby)
  have refused: ?thesis
    if "on_join_lobby ?emit l i ?h = Some (note_effect e ?h)" "spec_join (running h) l i (view h) = view h" for e
    using that fire quiet_ok [OF quiet_note ok] quiet_view [OF quiet_note, of e ?h] vw by simp
  show ?thesis
  proof (cases "get_session_by_id (hub_sessions ?h) i")
    case None
    then have "i \<notin> set (running h)" using get_session_None [of ?h i] run by simp
    then show ?thesis using None by (intro refused [of "Join_result ''Lobby or session not found''"]) (simp_all add: spec_join_def on_join_lobby_def split: option.split)
  next
    case session: (Some s)
    show ?thesis
    proof (cases "get_lobby_by_id (hub_lobbies ?h) l")
      case None
      then have "\<forall>(lb, m) \<in> set (view h). lb_id lb \<noteq> l" using get_lobby_None [of ?h l] by (auto simp: view_member)
      then have "spec_join (running h) l i (view h) = view h"
        by (auto simp: spec_join_def intro!: map_idI)
      then show ?thesis using None by (intro refused [of "Join_result ''Lobby or session not found''"]) (simp_all add: on_join_lobby_def)
    next
      case (Some lb)
      then have lb: "lb \<in> set (hub_lobbies ?h)" "lb_id lb = l" using get_lobby_mem by blast+
      show ?thesis
      proof (cases "lb_multi_user lb \<or> connected ?h lb = []")
        case True
        then show ?thesis
          using join_accepted [OF ok lb(1) _ session True, of n env] get_session_mem [OF session] fire lb(2) vw run by auto
      next
        case False
        then have "on_join_lobby ?emit l i ?h = Some (note_effect (Join_result ''Lobby is full'') ?h)"
          using Some session by (auto simp: on_join_lobby_def Suc_le_eq)
        moreover have "spec_join (running h) l i (view h) = view h"
          using False lb same_lobby(2) [OF ok _ lb(1)] unfolding spec_join_def vw [symmetric]
          by (auto simp: view_member intro!: map_idI)
        ultimately show ?thesis by (rule refused)
      qed
    qed
  qed
qed

subsection \<open>Creating\<close>

lemma created:
  assumes "hub_ok h" "\<forall>lb \<in> set (hub_lobbies h). lb_id lb \<noteq> cl_id c" "\<forall>n. cl_id c \<noteq> dec n"
  shows "hub_ok (on_create_lobby env c h)" "hub_sessions (on_create_lobby env c h) = hub_sessions h"
    and "view (on_create_lobby env c h) = view h @ [(new_lobby c (hub_next_ref h), [])]"
proof -
  let ?h' = "on_create_lobby env c h" and ?lb = "new_lobby c (hub_next_ref h)"
  have l: "hub_lobbies ?h' = hub_lobbies h @ [?lb]" and s: "hub_sessions ?h' = hub_sessions h"
    and r: "hub_next_ref ?h' = Suc (hub_next_ref h)"
    by (simp_all add: on_create_lobby_def Let_def split: option.split)
  have c: "connected ?h' x = (if lb_ref x = hub_next_ref h then [] else connected h x)" for x
    by (simp add: on_create_lobby_def Let_def connected_def upd_lobby_def new_lobby_atoms_def note_effect_def split: option.split)
  have lb: "lb_id ?lb = cl_id c" "lb_ref ?lb = hub_next_ref h" by (simp_all add: new_lobby_def)
  have old: "lb_ref x \<noteq> hub_next_ref h" if "x \<in> set (hub_lobbies h)" for x using assms(1) that by (auto simp: hub_ok_def)
  show "hub_sessions ?h' = hub_sessions h" by (rule s)
  show "view ?h' = view h @ [(?lb, [])]" using old by (simp add: view_def l c lb)
  show "hub_ok ?h'"
    using assms old unfolding hub_ok_def l s r by (auto simp: c lb less_Suc_eq)
qed

subsection \<open>The end of a stream\<close>

lemma lobby_of_session_view:
  "get_lobby_by_connected_session h s = map_option fst (List.find (\<lambda>(lb, m). s \<in> set m) (view h))"
proof -
  have "map_option fst (List.find (\<lambda>(lb, m). s \<in> set m) (map (\<lambda>l. (l, connected h l)) ls)) =
      List.find (\<lambda>lobby. s \<in> set (connected h lobby)) ls" for ls by (induction ls) auto
  then show ?thesis by (simp add: get_lobby_by_connected_session_def view_def)
qed

lemma session_over:
  assumes "hub_ok h"
  shows "\<exists>h'. on_moonlight_session_over (fire_event (Suc (Suc (Suc n))) env) i h = Some h' \<and> hub_ok h' \<and>
    hub_sessions h' = hub_sessions h \<and> hub_next_ref h' = hub_next_ref h \<and> view h' = spec_over (running h) i (view h)"
proof (cases "List.find (\<lambda>(lb, m). dec i \<in> set m) (view h)")
  case None
  then show ?thesis using assms by (simp add: on_moonlight_session_over_def lobby_of_session_view spec_over_def)
next
  case (Some x)
  then show ?thesis
    using fire_leave [OF assms, of n env "lb_id (fst x)" i]
    by (auto simp: on_moonlight_session_over_def lobby_of_session_view spec_over_def case_prod_unfold)
qed

lemma fire_stop_stream:
  assumes "hub_ok h"
  shows "\<exists>h'. fire_event (Suc (Suc (Suc (Suc n)))) env (StopStreamEvent i) h = Some h' \<and> hub_ok h' \<and>
    running h' = filter (\<lambda>j. j \<noteq> i) (running h) \<and> hub_next_ref h' = hub_next_ref h \<and>
    view h' = spec_over (if he_moonlight_first env then filter (\<lambda>j. j \<noteq> i) (running h) else running h) i (view h)"
proof -
  let ?ev = "StopStreamEvent i"
  let ?h = "note_effect (Fired ?ev) h" and ?emit = "fire_event (Suc (Suc (Suc n))) env"
  let ?gone = "\<lambda>g. g\<lparr>hub_sessions := filter (\<lambda>s. ss_session_id s \<noteq> i) (hub_sessions g), hub_queues := (hub_queues g)(dec i := None)\<rparr>"
  have ok: "hub_ok ?h" and vw: "view ?h = view h"
    using quiet_ok [OF quiet_note assms] quiet_view [OF quiet_note] by simp_all
  have gone: "hub_ok (?gone g)" "view (?gone g) = view g" "running (?gone g) = filter (\<lambda>j. j \<noteq> i) (running g)"
    if "hub_ok g" for g
    using that by (auto simp: hub_ok_def connected_def view_def running_def filter_map comp_def)
  show ?thesis
  proof (cases "he_moonlight_first env")
    case True
    obtain h' where "on_moonlight_session_over ?emit i (?gone ?h) = Some h'" "hub_ok h'"
        "hub_sessions h' = hub_sessions (?gone ?h)" "hub_next_ref h' = hub_next_ref (?gone ?h)"
        "view h' = spec_over (running (?gone ?h)) i (view (?gone ?h))"
      using session_over [OF gone(1) [OF ok], of n env i] by blast
    with True gone [OF ok] vw show ?thesis
      by (simp add: fire_Suc) (simp add: running_def)
  next
    case False
    obtain h' where "on_moonlight_session_over ?emit i ?h = Some h'" "hub_ok h'"
        "hub_sessions h' = hub_sessions ?h" "hub_next_ref h' = hub_next_ref ?h" "view h' = spec_over (running ?h) i (view ?h)"
      using session_over [OF ok, of n env i] by blast
    with False gone [of h'] vw show ?thesis
      by (simp add: fire_Suc) (simp add: running_def)
  qed
qed

subsection \<open>The specification of the bus\<close>

fun spec_event :: "bool \<Rightarrow> nat \<Rightarrow> bus_event \<Rightarrow> nat list \<times> lobby_view \<Rightarrow> nat list \<times> lobby_view" where
  "spec_event mf r (CreateLobbyEvent c) (run, v) = (run, v @ [(new_lobby c r, [])])"
| "spec_event mf r (JoinLobbyEvent l i _) (run, v) = (run, spec_join run l i v)"
| "spec_event mf r (LeaveLobbyEvent l i) (run, v) = (run, spec_leave run l i v)"
| "spec_event mf r (StopLobbyEvent l _) (run, v) = (run, spec_stop l v)"
| "spec_event mf r (PauseStreamEvent i) (run, v) = (run, spec_over run i v)"
| "spec_event mf r (ClientWolfUIComboEvent i) (run, v) = (run, spec_over run i v)"
| "spec_event mf r (StopStreamEvent i) (run, v) =
     (let run' = filter (\<lambda>j. j \<noteq> i) run in (run', spec_over (if mf then run' else run) i v))"
| "spec_event mf r _ (run, v) = (run, v)"

text \<open>What is fired from outside: a stream with its application, a lobby with a new identifier that
  is no number (they are UUIDs).\<close>

fun event_ok :: "bus_event \<Rightarrow> hub \<Rightarrow> bool" where
  "event_ok (StreamSessionEvent s) h \<longleftrightarrow> ss_app s \<noteq> None"
| "event_ok (StartRunner b r s) h \<longleftrightarrow> ss_app s \<noteq> None"
| "event_ok (CreateLobbyEvent c) h \<longleftrightarrow> (\<forall>lb \<in> set (hub_lobbies h). lb_id lb \<noteq> cl_id c) \<and> (\<forall>n. cl_id c \<noteq> dec n)"
| "event_ok _ h \<longleftrightarrow> True"

definition same_core :: "hub \<Rightarrow> hub \<Rightarrow> bool" where
  "same_core h h' \<longleftrightarrow> hub_sessions h' = hub_sessions h \<and> hub_lobbies h' = hub_lobbies h \<and>
     hub_next_ref h' = hub_next_ref h \<and> hub_lobby_atoms h' = hub_lobby_atoms h"

lemma same_core_ok: "same_core h h' \<Longrightarrow> hub_ok h \<Longrightarrow> hub_ok h'"
  by (simp add: hub_ok_def same_core_def connected_def)

lemma same_core_view: "same_core h h' \<Longrightarrow> view h' = view h \<and> running h' = running h"
  by (simp add: view_def running_def same_core_def connected_def)

lemma fold_note [simp]:
  "hub_sessions (fold (\<lambda>s. note_effect (f s)) xs h) = hub_sessions h"
  "hub_lobbies (fold (\<lambda>s. note_effect (f s)) xs h) = hub_lobbies h"
  "hub_next_ref (fold (\<lambda>s. note_effect (f s)) xs h) = hub_next_ref h"
  "hub_lobby_atoms (fold (\<lambda>s. note_effect (f s)) xs h) = hub_lobby_atoms h"
  by (induction xs arbitrary: h) auto

lemma moonlight_core:
  assumes "event_ok ev h" "\<forall>i. ev \<noteq> StopStreamEvent i"
  shows "\<exists>g'. moonlight_handler env ev g = Some g' \<and> same_core g g'"
proof (cases ev)
  case (StreamSessionEvent s)
  then obtain app where "ss_app s = Some app" using assms(1) by auto
  with StreamSessionEvent show ?thesis
    by (auto simp: on_stream_session_def Let_def same_core_def plug_created_def split: option.split)
next
  case (StartRunner b r s)
  then obtain app where "ss_app s = Some app" using assms(1) by auto
  with StartRunner show ?thesis by (auto simp: on_start_runner_def same_core_def split: option.split)
qed (use assms in \<open>auto simp: same_core_def video_ping_def audio_ping_def Let_def\<close>)

lemma lobbies_idle:
  "\<lbrakk>\<not> moves_nobody ev; \<forall>c. ev \<noteq> CreateLobbyEvent c; \<forall>l i p. ev \<noteq> JoinLobbyEvent l i p; \<forall>l i. ev \<noteq> LeaveLobbyEvent l i;
    \<forall>l p. ev \<noteq> StopLobbyEvent l p; \<forall>i. ev \<noteq> PauseStreamEvent i; \<forall>i. ev \<noteq> ClientWolfUIComboEvent i;
    \<forall>i. ev \<noteq> StopStreamEvent i\<rbrakk> \<Longrightarrow> lobbies_handler env emit ev g = Some g"
  by (cases ev) (auto simp: moves_nobody_def)

lemma fire_idle:
  assumes "hub_ok h" "event_ok ev h" "\<And>emit g. lobbies_handler env emit ev g = Some g" "\<forall>i. ev \<noteq> StopStreamEvent i"
  shows "\<exists>h'. fire_event (Suc n) env ev h = Some h' \<and> hub_ok h' \<and> view h' = view h \<and> running h' = running h"
proof -
  let ?h = "note_effect (Fired ev) h"
  obtain g' where g': "moonlight_handler env ev ?h = Some g'" "same_core ?h g'"
    using moonlight_core [OF assms(2,4)] by blast
  have "hub_ok ?h" using quiet_ok [OF quiet_note assms(1)] .
  then show ?thesis
    using g' same_core_ok same_core_view [OF g'(2)] quiet_view [OF quiet_note] by (auto simp: fire_moonlight assms(3))
qed

lemma fire_implements:
  assumes ok: "hub_ok h" and ev: "event_ok ev h"
  shows "\<exists>h'. fire_event (Suc (Suc (Suc (Suc n)))) env ev h = Some h' \<and> hub_ok h' \<and>
    (running h', view h') = spec_event (he_moonlight_first env) (hub_next_ref h) ev (running h, view h)"
proof -
  have ok1: "hub_ok (note_effect e h)" and v1: "view (note_effect e h) = view h" "running (note_effect e h) = running h" for e
    using quiet_ok [OF quiet_note ok] quiet_view [OF quiet_note] by simp_all
  have quiet_case: ?thesis if "moves_nobody ev" "spec_event (he_moonlight_first env) (hub_next_ref h) ev (running h, view h) = (running h, view h)"
    using fire_quiet [OF ok that(1), of "Suc (Suc n)" env] that(2) quiet_ok [OF _ ok] quiet_view by fastforce
  have idle_case: ?thesis
    if "\<And>emit g. lobbies_handler env emit ev g = Some g" "\<forall>i. ev \<noteq> StopStreamEvent i"
      "spec_event (he_moonlight_first env) (hub_next_ref h) ev (running h, view h) = (running h, view h)"
    using fire_idle [OF ok ev that(1,2), of "Suc (Suc (Suc n))"] that(3) by auto
  show ?thesis
  proof (cases ev)
    case (CreateLobbyEvent c)
    have "hub_lobbies (note_effect e h) = hub_lobbies h" for e by simp
    then show ?thesis
      using CreateLobbyEvent ev created [OF ok1, of "Fired ev" c env] v1 by (simp add: fire_lobby) (simp add: running_def)
  next
    case (JoinLobbyEvent l i p)
    then show ?thesis using fire_join [OF ok, of "Suc n" env l i p] by (auto simp: running_def)
  next
    case (LeaveLobbyEvent l i)
    then show ?thesis using fire_leave [OF ok, of "Suc n" env l i] by (auto simp: running_def)
  next
    case (StopLobbyEvent l p)
    then show ?thesis using fire_stop [OF ok, of n env l p] by (auto simp: running_def)
  next
    case (PauseStreamEvent i)
    then show ?thesis using session_over [OF ok1, of n env i "Fired ev"] v1 by (auto simp: fire_lobby running_def)
  next
    case (ClientWolfUIComboEvent i)
    then show ?thesis using session_over [OF ok1, of n env i "Fired ev"] v1 by (auto simp: fire_lobby running_def)
  next
    case (StopStreamEvent i)
    then show ?thesis using fire_stop_stream [OF ok, of n env i] by (auto simp: Let_def)
  qed (rule quiet_case idle_case; simp add: moves_nobody_def; fail)+
qed

subsection \<open>Runs\<close>

text \<open>
  What happens to the state from outside: an event is fired (four levels of nesting are allowed),
  a session is added by /launch (which looks that the client has none) or by the API (which does
  not), or replaced by /resume, and the threads that a
  handler started report: the compositor of a lobby or of a session is ready, a runner is over.
\<close>

definition emit4 :: "hub_env \<Rightarrow> emitter" where
  "emit4 env = fire_event 4 env"

inductive hub_step :: "hub_env \<Rightarrow> hub \<Rightarrow> hub \<Rightarrow> bool" for env where
  fired: "\<lbrakk>event_ok ev h; emit4 env ev h = Some h'\<rbrakk> \<Longrightarrow> hub_step env h h'"
| launched: "\<lbrakk>ss_session_id s < 2 ^ 64; ss_app s \<noteq> None\<rbrakk> \<Longrightarrow>
    hub_step env h (upd_session (ss_session_id s) (\<lambda>_. new_session_atoms) (h\<lparr>hub_sessions := hub_sessions h @ [s]\<rparr>))"
| resumed: "\<lbrakk>ss_session_id s \<in> set (running h); ss_app s \<noteq> None\<rbrakk> \<Longrightarrow>
    hub_step env h (h\<lparr>hub_sessions := remove_session (hub_sessions h) s @ [s]\<rparr>)"
| lobby_ready: "lobby_display_ready env (emit4 env) c r socket h = Some h' \<Longrightarrow> hub_step env h h'"
| lobby_over: "lobby_runner_over env (emit4 env) l r args h = Some h' \<Longrightarrow> hub_step env h h'"
| session_ready: "\<lbrakk>ss_app s \<noteq> None; session_display_ready env (emit4 env) s socket h = Some h'\<rbrakk> \<Longrightarrow> hub_step env h h'"
| session_runner_over: "runner_over env (emit4 env) b s args h = Some h' \<Longrightarrow> hub_step env h h'"

definition hub_init :: hub where
  "hub_init = \<lparr>hub_sessions = [], hub_session_atoms = (\<lambda>_. new_session_atoms), hub_lobbies = [],
     hub_lobby_atoms = (\<lambda>_. new_lobby_atoms), hub_next_ref = 0, hub_queues = (\<lambda>_. None),
     hub_video_waiting = [], hub_audio_waiting = [], hub_trace = []\<rparr>"

inductive hub_reachable :: "hub_env \<Rightarrow> hub \<Rightarrow> bool" for env where
  start: "hub_reachable env hub_init"
| step: "\<lbrakk>hub_reachable env h; hub_step env h h'\<rbrakk> \<Longrightarrow> hub_reachable env h'"

inductive_cases hub_stepE: "hub_step env h h'"

definition capacity :: "lobby_view \<Rightarrow> bool" where
  "capacity v \<longleftrightarrow> (\<forall>(lb, m) \<in> set v. lb_multi_user lb \<or> length m \<le> 1)"

lemma capacity_leave:
  assumes "capacity v"
  shows "capacity (spec_leave run l i v)"
  unfolding capacity_def
proof clarify
  fix lb m' assume "(lb, m') \<in> set (spec_leave run l i v)" "\<not> length m' \<le> 1"
  moreover from this obtain m where "(lb, m) \<in> set v" "m' = m \<or> m' = filter (\<lambda>s. s \<noteq> dec i) m"
    by (auto simp: spec_leave_def split: if_splits)
  moreover have "length (filter (\<lambda>s. s \<noteq> dec i) m) \<le> length m" by (rule length_filter_le)
  ultimately show "lb_multi_user lb" using assms unfolding capacity_def by fastforce
qed

lemma capacity_join: "capacity v \<Longrightarrow> capacity (spec_join run l i v)"
  by (auto simp: capacity_def spec_join_def split: if_splits)

lemma capacity_spec: "capacity v \<Longrightarrow> capacity (snd (spec_event mf r ev (run, v)))"
  by (cases ev) (auto simp: capacity_leave capacity_join spec_over_def Let_def split: option.split,
    auto simp: capacity_def spec_stop_def)

definition hub_good :: "hub \<Rightarrow> bool" where
  "hub_good h \<longleftrightarrow> hub_ok h \<and> capacity (view h)"

lemma emit4_good:
  assumes "hub_good h" "event_ok ev h"
  shows "\<exists>h'. emit4 env ev h = Some h' \<and> hub_good h'"
proof -
  obtain h' where h': "fire_event (Suc (Suc (Suc (Suc 0)))) env ev h = Some h'" "hub_ok h'"
      "(running h', view h') = spec_event (he_moonlight_first env) (hub_next_ref h) ev (running h, view h)"
    using fire_implements [of h ev 0 env] assms by (auto simp: hub_good_def)
  have "capacity (view h')"
    using capacity_spec [of "view h" "he_moonlight_first env" "hub_next_ref h" ev "running h"] assms(1) h'(3) [symmetric]
    by (simp add: hub_good_def)
  with h' show ?thesis by (simp add: emit4_def hub_good_def numeral_eq_Suc)
qed

lemma good_core: "\<lbrakk>hub_good h; hub_lobbies h' = hub_lobbies h; hub_next_ref h' = hub_next_ref h;
    \<forall>l. connected h' l = connected h l; \<forall>s \<in> set (hub_sessions h'). ss_session_id s < 2 ^ 64\<rbrakk> \<Longrightarrow> hub_good h'"
  by (auto simp: hub_good_def hub_ok_def view_def)

lemma good_ids: "hub_good h \<Longrightarrow> \<forall>s \<in> set (hub_sessions h). ss_session_id s < 2 ^ 64"
  by (auto simp: hub_good_def hub_ok_def)

lemma good_note [simp]: "hub_good (note_effect e h) = hub_good h"
proof -
  have "connected (h\<lparr>hub_trace := tr\<rparr>) l = connected h l" for tr l by (simp add: connected_def)
  then show ?thesis by (simp add: hub_good_def hub_ok_def view_def note_effect_def)
qed

lemma good_upd_lobby [simp]:
  "hub_good h \<Longrightarrow> hub_good (upd_lobby r (\<lambda>a. a\<lparr>la_wayland_display := d\<rparr>) h)"
  by (rule good_core) (auto simp: connected_def upd_lobby_def dest: good_ids)

lemma good_upd_session [simp]: "hub_good h \<Longrightarrow> hub_good (upd_session i f h)"
  by (rule good_core) (auto dest: good_ids)

lemma good_delete_sink [simp]: "hub_good h \<Longrightarrow> hub_good (delete_sink env args h)"
  by (simp add: delete_sink_def split: option.split)

lemma emit4_keeps: "\<lbrakk>hub_good h; event_ok ev h; emit4 env ev h = Some h'\<rbrakk> \<Longrightarrow> hub_good h'"
  using emit4_good [of h ev env] by auto

lemma step_good:
  assumes "hub_step env h h'" "hub_good h"
  shows "hub_good h'"
  using assms
proof cases
  case (fired ev)
  then show ?thesis using assms(2) emit4_keeps by blast
next
  case (launched s)
  have "hub_good (h\<lparr>hub_sessions := hub_sessions h @ [s]\<rparr>)"
    by (rule good_core [OF assms(2)]) (use launched good_ids [OF assms(2)] in \<open>auto simp: connected_def\<close>)
  then show ?thesis using launched(1) by simp
next
  case (resumed s)
  then have "ss_session_id s < 2 ^ 64" using good_ids [OF assms(2)] by (auto simp: running_def)
  then show ?thesis unfolding resumed(1)
    by (intro good_core [OF assms(2)]) (use good_ids [OF assms(2)] in \<open>auto simp: connected_def remove_session_def\<close>)
next
  case (lobby_ready c r socket)
  then show ?thesis using assms(2)
    by (auto simp: lobby_display_ready_def Let_def split: if_splits dest!: emit4_keeps [rotated 2])
next
  case (lobby_over l r args)
  then show ?thesis using assms(2) by (auto simp: lobby_runner_over_def dest!: emit4_keeps [rotated 2])
next
  case (session_ready s socket)
  then show ?thesis using assms(2)
    by (auto simp: session_display_ready_def Let_def split: if_splits option.splits dest!: emit4_keeps [rotated 2])
next
  case (session_runner_over b s args)
  then show ?thesis using assms(2) by (auto simp: runner_over_def Let_def split: if_splits dest!: emit4_keeps [rotated 2])
qed

lemma reachable_good: "hub_reachable env h \<Longrightarrow> hub_good h"
proof (induction rule: hub_reachable.induct)
  case start
  show ?case by (simp add: hub_good_def hub_ok_def hub_init_def view_def capacity_def)
next
  case (step h h')
  then show ?case using step_good by blast
qed

text \<open>No event adds a session, so every running session has its application.\<close>

definition keeps_sessions :: "hub option \<Rightarrow> hub \<Rightarrow> bool" where
  "keeps_sessions r h \<longleftrightarrow> (\<forall>h'. r = Some h' \<longrightarrow> set (hub_sessions h') \<subseteq> set (hub_sessions h))"

lemma keeps_Some [simp]: "keeps_sessions (Some h') h \<longleftrightarrow> set (hub_sessions h') \<subseteq> set (hub_sessions h)"
  by (simp add: keeps_sessions_def)

lemma keeps_bind:
  "\<lbrakk>keeps_sessions r h; \<And>g. keeps_sessions (f g) g\<rbrakk> \<Longrightarrow> keeps_sessions (Option.bind r f) h"
  by (cases r) (auto simp: keeps_sessions_def)

lemma keeps_None [simp]: "keeps_sessions None h"
  by (simp add: keeps_sessions_def)

lemma keeps_from: "\<lbrakk>keeps_sessions r g; set (hub_sessions g) \<subseteq> set (hub_sessions h)\<rbrakk> \<Longrightarrow> keeps_sessions r h"
  by (auto simp: keeps_sessions_def)

lemma keeps_seq_all:
  "(\<And>x g. keeps_sessions (f x g) g) \<Longrightarrow> keeps_sessions (seq_all f xs h) h"
  by (induction xs arbitrary: h) (auto intro: keeps_bind)

lemma keeps_lobbies:
  assumes e: "\<And>ev g. keeps_sessions (emit ev g) g"
  shows "keeps_sessions (lobbies_handler env emit ev h) h"
proof -
  have seq: "keeps_sessions (seq_all (give_back emit lobby i) xs g) g"
    "keeps_sessions (seq_all (take_over emit lobby i) xs g) g" for lobby i xs g
    by (auto intro!: keeps_seq_all keeps_bind e simp: give_back_def take_over_def split: prod.split)
  have leave: "keeps_sessions (leave_lobby emit lobby session g) g" for lobby session g
    unfolding leave_lobby_def Let_def
    by (intro keeps_bind keeps_from [OF seq(1)] e) (auto intro!: e)
  have stop: "keeps_sessions (on_stop_lobby emit l g) g" for l g
    by (auto simp: on_stop_lobby_def intro!: keeps_bind keeps_seq_all e split: option.split sum.split)
  have join: "keeps_sessions (on_join_lobby emit l i g) g" for l i g
    unfolding on_join_lobby_def Let_def
    by (auto split: option.split intro!: keeps_bind keeps_from [OF seq(2)] e)
  show ?thesis
    by (cases ev) (auto simp: stop join e leave on_leave_lobby_def on_moonlight_session_over_def on_create_lobby_def Let_def
        split: option.split)
qed

lemma keeps_moonlight: "keeps_sessions (moonlight_handler env ev h) h"
proof -
  have plug: "hub_sessions (plug_created i f c g) = hub_sessions g" for i f c g
    by (simp add: plug_created_def split: option.split)
  have ping: "hub_sessions (video_ping ip port payload g) = hub_sessions g"
    "hub_sessions (audio_ping env ip port payload g) = hub_sessions g" for ip port payload g
    by (simp_all add: video_ping_def audio_ping_def Let_def fold_notes)
  show ?thesis
    by (cases ev) (auto simp: plug ping on_stream_session_def on_start_runner_def Let_def split: option.split)
qed

lemma fire_keeps_sessions: "keeps_sessions (fire_event n env ev h) h"
proof (induction n arbitrary: ev h)
  case (Suc n)
  have "keeps_sessions r h" if "keeps_sessions r (note_effect (Fired ev) h)" for r
    using that by (rule keeps_from) simp
  then show ?case
    unfolding fire_Suc using Suc.IH by (auto intro!: keeps_bind keeps_moonlight keeps_lobbies)
qed simp

lemma emit4_sessions: "emit4 env ev h = Some h' \<Longrightarrow> set (hub_sessions h') \<subseteq> set (hub_sessions h)"
  using fire_keeps_sessions [of 4 env ev h] by (simp add: keeps_sessions_def emit4_def)

definition have_apps :: "hub \<Rightarrow> bool" where
  "have_apps h \<longleftrightarrow> (\<forall>s \<in> set (hub_sessions h). ss_app s \<noteq> None)"

lemma have_apps_mono: "\<lbrakk>have_apps h; set (hub_sessions h') \<subseteq> set (hub_sessions h)\<rbrakk> \<Longrightarrow> have_apps h'"
  by (auto simp: have_apps_def)

lemma delete_sink_sessions [simp]: "hub_sessions (delete_sink env args h) = hub_sessions h"
  by (simp add: delete_sink_def split: option.split)

lemma step_apps:
  assumes "hub_step env h h'" "have_apps h"
  shows "have_apps h'"
  using assms
proof cases
  case (launched s)
  with assms(2) show ?thesis by (auto simp: have_apps_def)
next
  case (resumed s)
  with assms(2) show ?thesis by (auto simp: have_apps_def remove_session_def)
qed (auto intro!: have_apps_mono [OF assms(2)] dest!: emit4_sessions
    simp: lobby_display_ready_def lobby_runner_over_def session_display_ready_def runner_over_def Let_def
    split: if_splits option.splits)

lemma reachable_apps: "hub_reachable env h \<Longrightarrow> have_apps h"
proof (induction rule: hub_reachable.induct)
  case start
  show ?case by (simp add: have_apps_def hub_init_def)
next
  case (step h h')
  then show ?case using step_apps by blast
qed

subsection \<open>Properties\<close>

text \<open>C10: The handlers implement the specification of the lobbies. On a well-formed state, with any
  order of the handlers of one event and with four levels of nesting or more, firing an allowed
  event returns, and what it does to the running sessions and to the lobbies and their members is
  what \<open>spec_event\<close> says: joining adds the session when there is room, leaving removes it and removes
  the lobby when it was the last one and the lobby is to stop then, stopping removes the lobby, and
  plugging, pinging and starting runners move nobody - whatever events the handlers fire on the way.\<close>

theorem lobbies_refine_spec:
  assumes "hub_ok h" "event_ok ev h" "4 \<le> n"
  shows "map_option (\<lambda>h'. (running h', view h')) (fire_event n env ev h) =
    Some (spec_event (he_moonlight_first env) (hub_next_ref h) ev (running h, view h))"
proof -
  obtain k where "n = 4 + k" using assms(3) le_iff_add by blast
  then have "n = Suc (Suc (Suc (Suc k)))" by simp
  then show ?thesis using fire_implements [OF assms(1,2), of k env] by auto
qed

definition demo_hub_env :: hub_env where
  "demo_hub_env = \<lparr>he_runtime_dir = ''/tmp/sockets'', he_audio_server = None, he_host = demo_host,
     he_host_xdg_runtime_dir = ''/run/user/1000'', he_socket_polls = (\<lambda>_. [No_file, A_socket]),
     he_new_mouse = None, he_new_keyboard = None, he_linked_devices = (\<lambda>_. []), he_vendor = (\<lambda>_. GPU_UNKNOWN),
     he_getenv = (\<lambda>_. None), he_moonlight_first = False\<rparr>"

definition demo_lobby :: CreateLobby where
  "demo_lobby = \<lparr>cl_id = ''lobby'', cl_profile_id = ''p'', cl_name = ''Couch'', cl_icon_png_path = None,
     cl_pin = Some [1, 2, 3, 4], cl_multi_user = False, cl_stop_when_everyone_leaves = True,
     cl_video_settings = \<lparr>vset_width = 1920, vset_height = 1080, vset_refresh_rate = 60,
       vset_wayland_render_node = ''node'', vset_runner_render_node = ''node'', vset_video_producer_buffer_caps = []\<rparr>,
     cl_channel_count = 2, cl_client_settings = demo_settings, cl_runner_state_folder = ''couch'',
     cl_runner = RunProcess ''game''\<rparr>"

text \<open>One session runs, one lobby exists, nobody is in it.\<close>

definition demo_hub :: hub where
  "demo_hub = hub_init\<lparr>hub_sessions := [demo_session], hub_lobbies := [new_lobby demo_lobby 0], hub_next_ref := 1\<rparr>"

lemma letter_not_dec: "c # s \<noteq> dec n" if "\<not> is_digit c"
  using dec_digits [of c n] that by (metis list.set_intros(1))

lemma demo_hub_ok: "hub_ok demo_hub" "running demo_hub = [42]" "view demo_hub = [(new_lobby demo_lobby 0, [])]"
  using letter_not_dec [of "CHR ''l''" "''obby''"]
  by (simp_all add: hub_ok_def demo_hub_def hub_init_def connected_def new_lobby_atoms_def demo_session_def running_def
      view_def new_lobby_def demo_lobby_def is_digit_def)

theorem lobbies_refine_spec_witness:
  "map_option (\<lambda>h'. (running h', view h')) (fire_event 4 demo_hub_env (JoinLobbyEvent ''lobby'' 42 None) demo_hub) =
    Some ([42], [(new_lobby demo_lobby 0, [dec 42])])"
  using lobbies_refine_spec [of demo_hub "JoinLobbyEvent ''lobby'' 42 None" 4 demo_hub_env] demo_hub_ok
  by (simp add: spec_join_def new_lobby_def demo_lobby_def)

text \<open>C12: In every reachable state of the server - any order of launches, resumed sessions, joins,
  leaves, lobbies that start, fail or end, streams that pause or stop - the lobbies have distinct
  identifiers, and a lobby that is not for several users has at most one member.\<close>

theorem lobby_capacity:
  assumes "hub_reachable env h"
  shows "distinct (map lb_id (hub_lobbies h)) \<and>
    (\<forall>lb. lb \<in> set (hub_lobbies h) \<longrightarrow> lb_multi_user lb \<or> length (connected h lb) \<le> 1)"
  using reachable_good [OF assms] by (auto simp: hub_good_def hub_ok_def capacity_def view_member)

lemma demo_env_order: "demo_hub_env\<lparr>he_moonlight_first := False\<rparr> = demo_hub_env"
  by (simp add: demo_hub_env_def)

lemma demo_reachable:
  "\<exists>h. hub_reachable (demo_hub_env\<lparr>he_moonlight_first := mf\<rparr>) h \<and> running h = [42] \<and> view h = [(new_lobby demo_lobby 0, [])] \<and> hub_next_ref h = 1"
proof -
  let ?env = "demo_hub_env\<lparr>he_moonlight_first := mf\<rparr>"
  let ?ev = "CreateLobbyEvent demo_lobby"
  have init: "hub_good hub_init" by (rule reachable_good [OF hub_reachable.start])
  have ev: "event_ok ?ev hub_init"
    using letter_not_dec [of "CHR ''l''" "''obby''"] by (simp add: hub_init_def demo_lobby_def is_digit_def)
  have "emit4 ?env ?ev hub_init = Some (on_create_lobby ?env demo_lobby (note_effect (Fired ?ev) hub_init))"
    by (simp add: emit4_def numeral_eq_Suc fire_lobby)
  moreover define h1 where "h1 = on_create_lobby ?env demo_lobby (note_effect (Fired ?ev) hub_init)"
  ultimately have r1: "hub_reachable ?env h1"
    using hub_reachable.step [OF hub_reachable.start hub_step.fired [OF ev]] by simp
  have h1: "hub_sessions h1 = []" "hub_lobbies h1 = [new_lobby demo_lobby 0]" "hub_next_ref h1 = 1"
      "connected h1 (new_lobby demo_lobby 0) = []"
    by (simp_all add: h1_def on_create_lobby_def Let_def demo_hub_env_def hub_init_def note_effect_def connected_def
        upd_lobby_def new_lobby_def new_lobby_atoms_def)
  let ?s = "demo_session\<lparr>ss_app := Some demo_app\<rparr>"
  let ?h2 = "upd_session (ss_session_id ?s) (\<lambda>_. new_session_atoms) (h1\<lparr>hub_sessions := hub_sessions h1 @ [?s]\<rparr>)"
  have "hub_step ?env h1 ?h2"
    by (rule hub_step.launched) (simp_all add: running_def h1 demo_session_def)
  then have "hub_reachable ?env ?h2" by (rule hub_reachable.step [OF r1])
  moreover have "running ?h2 = [42]" "view ?h2 = [(new_lobby demo_lobby 0, [])]" "hub_next_ref ?h2 = 1"
    using h1 by (simp_all add: running_def view_def demo_session_def connected_def)
  ultimately show ?thesis by blast
qed

theorem lobby_capacity_witness:
  "\<exists>h. hub_reachable demo_hub_env h \<and> hub_lobbies h = [new_lobby demo_lobby 0] \<and> distinct (map lb_id (hub_lobbies h))"
proof -
  obtain h where h: "hub_reachable demo_hub_env h" "view h = [(new_lobby demo_lobby 0, [])]"
    using demo_reachable [of False] by (auto simp: demo_env_order)
  then have "hub_lobbies h = [new_lobby demo_lobby 0]" by (auto simp: view_def map_eq_Cons_conv)
  with h(1) lobby_capacity [OF h(1)] show ?thesis by blast
qed

text \<open>C15: The bus never hangs or throws: in every reachable state, every allowed event is handled
  completely with at most four levels of nested events, and the state it ends in is reachable again.\<close>

theorem bus_always_returns:
  assumes "hub_reachable env h" "event_ok ev h"
  shows "\<exists>h'. fire_event 4 env ev h = Some h' \<and> hub_reachable env h'"
proof -
  obtain h' where "emit4 env ev h = Some h'"
    using emit4_good [OF reachable_good [OF assms(1)] assms(2)] by blast
  then show ?thesis using hub_reachable.step [OF assms(1) hub_step.fired [OF assms(2)]] by (auto simp: emit4_def)
qed

theorem bus_always_returns_witness:
  "\<exists>h h'. running h = [42] \<and> fire_event 4 demo_hub_env (StopStreamEvent 42) h = Some h' \<and> hub_reachable demo_hub_env h'"
proof -
  obtain h where "hub_reachable demo_hub_env h" "running h = [42]"
    using demo_reachable [of False] by (auto simp: demo_env_order)
  then show ?thesis using bus_always_returns [of demo_hub_env h "StopStreamEvent 42"] by auto
qed

text \<open>A stream that stops leaves its lobby only when the bus happens to call the handler of
  sessions/lobbies.cpp before the one of sessions/moonlight.cpp. In the other order the session is
  already removed from the running sessions when the lobby looks it up, so every lobby keeps its
  members: the ended session stays in the lobby, which for a lobby of one user means that nobody
  can join it any more.\<close>

theorem stopped_stream_in_lobby:
  assumes "hub_reachable env h" "fire_event 4 env (StopStreamEvent i) h = Some h'"
  shows "i \<notin> set (running h') \<and>
    view h' = (if he_moonlight_first env \<or> i \<notin> set (running h) then view h else spec_over (running h) i (view h))"
proof -
  have "hub_ok h" using reachable_good [OF assms(1)] by (simp add: hub_good_def)
  from fire_stop_stream [OF this, of 0 env i] assms(2)
  have "running h' = filter (\<lambda>j. j \<noteq> i) (running h)"
    "view h' = spec_over (if he_moonlight_first env then filter (\<lambda>j. j \<noteq> i) (running h) else running h) i (view h)"
    by (auto simp: numeral_eq_Suc)
  moreover have "spec_over run i v = v" if "i \<notin> set run" for run v
    using that by (auto simp: spec_over_def spec_leave_def split: option.split)
  ultimately show ?thesis by auto
qed

lemma demo_joined:
  "\<exists>h. hub_reachable (demo_hub_env\<lparr>he_moonlight_first := mf\<rparr>) h \<and> running h = [42] \<and>
     view h = [(new_lobby demo_lobby 0, [dec 42])]"
proof -
  let ?env = "demo_hub_env\<lparr>he_moonlight_first := mf\<rparr>"
  obtain h where h: "hub_reachable ?env h" "running h = [42]" "view h = [(new_lobby demo_lobby 0, [])]"
    using demo_reachable by blast
  have "hub_good h" using h(1) by (rule reachable_good)
  then obtain h' where h': "emit4 ?env (JoinLobbyEvent ''lobby'' 42 None) h = Some h'" "hub_sessions h' = hub_sessions h"
      "view h' = spec_join (running h) ''lobby'' 42 (view h)"
    using fire_join [of h 1 ?env "''lobby''" 42 None] by (auto simp: hub_good_def emit4_def numeral_eq_Suc)
  have "hub_step ?env h h'" using h'(1) by (intro hub_step.fired) simp_all
  then have "hub_reachable ?env h'" by (rule hub_reachable.step [OF h(1)])
  with h h' show ?thesis by (intro exI [of _ h']) (auto simp: running_def spec_join_def new_lobby_def demo_lobby_def)
qed

theorem stopped_stream_in_lobby_witness:
  "\<exists>h h'. running h = [42] \<and>
     fire_event 4 (demo_hub_env\<lparr>he_moonlight_first := True\<rparr>) (StopStreamEvent 42) h = Some h' \<and>
     42 \<notin> set (running h') \<and> view h' = [(new_lobby demo_lobby 0, [dec 42])]"
proof -
  let ?env = "demo_hub_env\<lparr>he_moonlight_first := True\<rparr>"
  obtain h where h: "hub_reachable ?env h" "running h = [42]" "view h = [(new_lobby demo_lobby 0, [dec 42])]"
    using demo_joined by blast
  obtain h' where h': "fire_event 4 ?env (StopStreamEvent 42) h = Some h'"
    using emit4_good [OF reachable_good [OF h(1)], of "StopStreamEvent 42" ?env] by (auto simp: emit4_def)
  show ?thesis using stopped_stream_in_lobby [OF h(1) h'] h h' by (intro exI [of _ h] exI [of _ h']) simp
qed

lemma spec_leave_join:
  assumes "i \<in> set run" "\<forall>(lb, m) \<in> set v. lb_id lb = l \<longrightarrow> (lb_multi_user lb \<or> m = []) \<and> dec i \<notin> set m"
  shows "spec_leave run l i (spec_join run l i v) =
    filter (\<lambda>(lb, m). \<not> (lb_id lb = l \<and> lb_stop_when_everyone_leaves lb \<and> m = [])) v"
  using assms(2)
proof (induction v)
  case (Cons x v)
  moreover have "filter (\<lambda>s. s \<noteq> dec i) m = m" if "dec i \<notin> set m" for m
    using that by (auto simp: filter_id_conv)
  ultimately show ?case using assms(1) by (cases x) (auto simp: spec_leave_def spec_join_def)
qed (simp add: spec_leave_def spec_join_def)

text \<open>C31: Joining a lobby and leaving it again: while the session is in the lobby its mouse, keyboard
  and touch screen act on the display of the lobby, afterwards on the display of the session, and
  no other session is touched. The lobby has its former members again, or is gone when it is to stop
  once it is empty. A session that never had a compositor, and used uinput devices before, is left
  with devices of no display at all.\<close>

theorem join_then_leave:
  assumes "hub_ok h" "i \<in> set (running h)" "lobby \<in> set (hub_lobbies h)" "lb_multi_user lobby \<or> connected h lobby = []"
    "dec i \<notin> set (connected h lobby)"
    "fire_event 4 env (JoinLobbyEvent (lb_id lobby) i p) h = Some h1"
    "fire_event 4 env (LeaveLobbyEvent (lb_id lobby) i) h1 = Some h2"
  shows "connected h1 lobby = connected h lobby @ [dec i] \<and>
    hub_session_atoms h1 = (hub_session_atoms h)(i :=
      use_display (la_wayland_display (hub_lobby_atoms h (lb_ref lobby))) (hub_session_atoms h i)) \<and>
    hub_session_atoms h2 = (hub_session_atoms h)(i :=
      use_display (sa_wayland_display (hub_session_atoms h i)) (hub_session_atoms h i)) \<and>
    view h2 = filter (\<lambda>(lb, m). \<not> (lb = lobby \<and> lb_stop_when_everyone_leaves lobby \<and> m = [])) (view h)"
proof -
  let ?j = "note_effect (Fired (JoinLobbyEvent (lb_id lobby) i p)) h"
    and ?l = "note_effect (Fired (LeaveLobbyEvent (lb_id lobby) i)) h1" and ?emit = "fire_event (Suc (Suc 1)) env"
  obtain s where s: "get_session_by_id (hub_sessions h) i = Some s"
    using assms(2) get_session_None [of h i] by (cases "get_session_by_id (hub_sessions h) i") auto
  note s_in = get_session_mem [OF s]
  have okj: "hub_ok ?j" and vj: "view ?j = view h" "running ?j = running h"
    using quiet_ok [OF quiet_note assms(1)] quiet_view [OF quiet_note] by simp_all
  have "on_join_lobby ?emit (lb_id lobby) i ?j = Some h1" using assms(6) by (simp add: numeral_eq_Suc fire_lobby)
  with join_accepted [OF okj, of lobby s i 1 env] s s_in assms(3,4)
  have h1: "hub_ok h1" "hub_sessions h1 = hub_sessions h" "hub_lobbies h1 = hub_lobbies h"
      "view h1 = spec_join (running h) (lb_id lobby) i (view h)"
      "hub_session_atoms h1 = (hub_session_atoms h)(i :=
        use_display (la_wayland_display (hub_lobby_atoms h (lb_ref lobby))) (hub_session_atoms h i))"
    using vj by auto
  have "on_leave_lobby ?emit (lb_id lobby) i ?l = Some h2" using assms(7) by (simp add: numeral_eq_Suc fire_lobby)
  moreover have okl: "hub_ok ?l" and vl: "view ?l = view h1" "running ?l = running h1"
    using quiet_ok [OF quiet_note h1(1)] quiet_view [OF quiet_note] by simp_all
  moreover have "get_lobby_by_id (hub_lobbies ?l) (lb_id lobby) = Some lobby"
    using get_lobby_Some [OF h1(1), of lobby] h1(3) assms(3) by simp
  ultimately have "leave_lobby ?emit lobby s ?l = Some h2" using s h1(2) by (simp add: on_leave_lobby_def)
  with leave_lobby_spec [OF okl, of lobby s 1 env] s_in assms(3) h1(2,3)
  have h2: "view h2 = spec_leave (running h1) (lb_id lobby) i (view h1)"
      "hub_session_atoms h2 = (hub_session_atoms h1)(i := use_display (sa_wayland_display (hub_session_atoms h1 i)) (hub_session_atoms h1 i))"
    using vl by auto
  have mem: "(lb, m) \<in> set (view h) \<Longrightarrow> lb_id lb = lb_id lobby \<longleftrightarrow> lb = lobby" for lb m
    using same_lobby(2) [OF assms(1) _ assms(3)] by (auto simp: view_member)
  have "(lobby, connected h1 lobby) \<in> set (view h1)" using assms(3) h1(3) by (simp add: view_member)
  then have c1: "connected h1 lobby = connected h lobby @ [dec i]"
    using assms(2,4) unfolding h1(4) spec_join_def by (auto simp: view_member split: if_splits)
  have "running h1 = running h" using h1(2) by (simp add: running_def)
  then have "view h2 = filter (\<lambda>(lb, m). \<not> (lb_id lb = lb_id lobby \<and> lb_stop_when_everyone_leaves lb \<and> m = [])) (view h)"
    using assms(2,4,5) mem unfolding h2(1) h1(4)
    by (simp only:) (intro spec_leave_join; auto simp: view_member)
  also have "\<dots> = filter (\<lambda>(lb, m). \<not> (lb = lobby \<and> lb_stop_when_everyone_leaves lobby \<and> m = [])) (view h)"
    using mem by (intro filter_cong) auto
  finally have "view h2 = \<dots>" .
  with c1 h1(5) h2(2) show ?thesis by (simp add: use_display_def)
qed

theorem join_then_leave_witness:
  "\<exists>h1 h2. fire_event 4 demo_hub_env (JoinLobbyEvent ''lobby'' 42 None) demo_hub = Some h1 \<and>
     fire_event 4 demo_hub_env (LeaveLobbyEvent ''lobby'' 42) h1 = Some h2 \<and>
     sa_mouse (hub_session_atoms h2 42) = Some (Wayland_device None) \<and> view h2 = []"
proof -
  let ?lb = "new_lobby demo_lobby 0"
  have lb: "lb_id ?lb = ''lobby''" "lb_stop_when_everyone_leaves ?lb" "?lb \<in> set (hub_lobbies demo_hub)"
      "connected demo_hub ?lb = []"
    by (simp_all add: new_lobby_def demo_lobby_def demo_hub_def connected_def hub_init_def new_lobby_atoms_def)
  obtain h1 where h1: "fire_event 4 demo_hub_env (JoinLobbyEvent ''lobby'' 42 None) demo_hub = Some h1" "hub_ok h1"
    using fire_join [OF demo_hub_ok(1), of 1 demo_hub_env "''lobby''" 42 None] by (auto simp: numeral_eq_Suc)
  obtain h2 where h2: "fire_event 4 demo_hub_env (LeaveLobbyEvent ''lobby'' 42) h1 = Some h2"
    using fire_leave [OF h1(2), of 1 demo_hub_env "''lobby''" 42] by (auto simp: numeral_eq_Suc)
  have "sa_wayland_display (hub_session_atoms demo_hub 42) = None"
    by (simp add: demo_hub_def hub_init_def new_session_atoms_def)
  then show ?thesis
    using join_then_leave [of demo_hub 42 ?lb demo_hub_env None h1 h2] h1 h2 lb demo_hub_ok
    by (auto simp: use_display_def)
qed

text \<open>A ping starts exactly the waiting streams that it matches - by their secret, or, when it
  carries none, by address and port - towards the address it came from; they no longer wait, so the
  same ping starts nothing again, and a ping with an unknown secret starts nothing at all.\<close>

theorem pings_start_matching_streams:
  "hub_trace (video_ping ip port payload h) = hub_trace h @ map (\<lambda>s. Start_streaming_video s ip port)
      (filter (\<lambda>s. ping_matches (vs_rtp_secret_payload s) (vs_client_ip s) (vs_port s) ip port payload)
        (hub_video_waiting h)) \<and>
    hub_video_waiting (video_ping ip port payload h) =
      filter (\<lambda>s. \<not> ping_matches (vs_rtp_secret_payload s) (vs_client_ip s) (vs_port s) ip port payload)
        (hub_video_waiting h) \<and>
    hub_audio_waiting (audio_ping env ip port payload h) =
      filter (\<lambda>s. \<not> ping_matches (as_rtp_secret_payload s) (as_client_ip s) (as_port s) ip port payload)
        (hub_audio_waiting h) \<and>
    hub_trace (audio_ping env ip port payload h) = hub_trace h @
      map (\<lambda>s. Start_streaming_audio s ip port (VIRTUAL_SINK_PREFIX @ dec (as_session_id s) @ ''.monitor'')
          (case he_audio_server env of Some server \<Rightarrow> server | None \<Rightarrow> []))
        (filter (\<lambda>s. ping_matches (as_rtp_secret_payload s) (as_client_ip s) (as_port s) ip port payload)
          (hub_audio_waiting h)) \<and>
    video_ping ip port payload (video_ping ip port payload h) = video_ping ip port payload h \<and>
    audio_ping env ip port payload (audio_ping env ip port payload h) = audio_ping env ip port payload h"
  by (simp add: video_ping_def audio_ping_def fold_notes Let_def)

end
