(* ===== verification/Api.thy ===== *)
theory Api
  imports Lobbies Rest "HOL-Library.AList"
begin

section \<open>The API of the agent and of Wolf UI: moonlight-server/api\<close>

text \<open>
  The server on the unix socket (api/unix_socket_server.cpp, http_server.hpp), its endpoints
  (endpoints.cpp) and the JSON views of the data (events/reflectors.hpp). An endpoint runs on a
  thread pool, where an exception that it does not catch ends the process: an endpoint is a function
  to an option, \<open>None\<close> being that end.

  The JSON library is a parameter: one reader per request type (\<open>Inl\<close> its error message) and one
  writer of replies. So are the parser of HTTP headers, the draws of identifiers, the files and addresses of icons, the Docker
  daemon, and whether a new lobby was up within 20 seconds.
\<close>

subsection \<open>JSON views (events/reflectors.hpp, api.hpp)\<close>

record AppJson =
  aj_title :: string
  aj_id :: string
  aj_support_hdr :: bool
  aj_icon_png_path :: "string option"
  aj_h264_gst_pipeline :: string
  aj_hevc_gst_pipeline :: string
  aj_av1_gst_pipeline :: string
  aj_render_node :: string
  aj_opus_gst_pipeline :: string
  aj_start_virtual_compositor :: bool
  aj_start_audio_server :: bool
  aj_video_producer_buffer_caps :: "string option"
  aj_controller_override :: "ControllerType option"
  aj_runner :: Runner_config

definition app_to_json :: "App \<Rightarrow> AppJson" where
  "app_to_json v = \<lparr>aj_title = app_title v, aj_id = app_id v, aj_support_hdr = app_support_hdr v,
     aj_icon_png_path = app_icon_png_path v, aj_h264_gst_pipeline = app_h264_gst_pipeline v,
     aj_hevc_gst_pipeline = app_hevc_gst_pipeline v, aj_av1_gst_pipeline = app_av1_gst_pipeline v,
     aj_render_node = app_render_node v, aj_opus_gst_pipeline = app_opus_gst_pipeline v,
     aj_start_virtual_compositor = app_start_virtual_compositor v,
     aj_start_audio_server = app_start_audio_server v,
     aj_video_producer_buffer_caps = Some (app_video_producer_buffer_caps v),
     aj_controller_override = Some (app_controller_override v), aj_runner = serialize (app_runner v)\<rparr>"

text \<open>A runner that cannot be made throws, which no endpoint catches.\<close>

definition app_of_json :: "AppJson \<Rightarrow> App option" where
  "app_of_json a = map_option (\<lambda>runner. \<lparr>app_title = aj_title a, app_id = aj_id a, app_support_hdr = aj_support_hdr a,
     app_icon_png_path = aj_icon_png_path a, app_h264_gst_pipeline = aj_h264_gst_pipeline a,
     app_hevc_gst_pipeline = aj_hevc_gst_pipeline a, app_av1_gst_pipeline = aj_av1_gst_pipeline a,
     app_render_node = aj_render_node a, app_opus_gst_pipeline = aj_opus_gst_pipeline a,
     app_start_virtual_compositor = aj_start_virtual_compositor a,
     app_start_audio_server = aj_start_audio_server a,
     app_video_producer_buffer_caps = (case aj_video_producer_buffer_caps a of None \<Rightarrow> [] | Some c \<Rightarrow> c),
     app_controller_override = (case aj_controller_override a of None \<Rightarrow> CT_AUTO | Some c \<Rightarrow> c),
     app_runner = runner\<rparr>) (get_runner (aj_runner a))"

record ProfileJson =
  pj_name :: string
  pj_id :: string
  pj_icon_png_path :: string
  pj_pin :: "int list option"
  pj_apps :: "AppJson list"

definition profile_to_json :: "Profile \<Rightarrow> ProfileJson" where
  "profile_to_json v = \<lparr>pj_name = pr_name v, pj_id = pr_id v, pj_icon_png_path = pr_icon_png_path v,
     pj_pin = pr_pin v, pj_apps = map app_to_json (pr_apps v)\<rparr>"

definition profile_of_json :: "ProfileJson \<Rightarrow> Profile option" where
  "profile_of_json v = map_option (\<lambda>apps. \<lparr>pr_id = pj_id v, pr_name = pj_name v, pr_icon_png_path = pj_icon_png_path v,
     pr_pin = pj_pin v, pr_apps = apps\<rparr>) (those (map app_of_json (pj_apps v)))"

record SessionJson =
  sj_client_ip :: string
  sj_aes_key :: string
  sj_aes_iv :: string
  sj_rtsp_fake_ip :: string
  sj_video_width :: int
  sj_video_height :: int
  sj_video_refresh_rate :: int
  sj_audio_channel_count :: int
  sj_app_id :: "string option"
  sj_client_id :: "string option"
  sj_client_settings :: "ClientSettings option"

definition session_to_json :: "StreamSession \<Rightarrow> SessionJson option" where
  "session_to_json v = map_option (\<lambda>app.
     \<lparr>sj_client_ip = ss_ip v, sj_aes_key = ss_aes_key v, sj_aes_iv = ss_aes_iv v,
      sj_rtsp_fake_ip = ss_rtsp_fake_ip v, sj_video_width = dm_width (ss_display_mode v),
      sj_video_height = dm_height (ss_display_mode v), sj_video_refresh_rate = dm_refreshRate (ss_display_mode v),
      sj_audio_channel_count = ss_audio_channel_count v, sj_app_id = Some (app_id app),
      sj_client_id = Some (dec (ss_session_id v)), sj_client_settings = Some (ss_client_settings v)\<rparr>) (ss_app v)"

record LobbyJson =
  lj_id :: string
  lj_name :: string
  lj_icon_png_path :: "string option"
  lj_multi_user :: bool
  lj_started_by_profile_id :: string
  lj_pin_required :: bool
  lj_stop_when_everyone_leaves :: bool
  lj_runner :: Runner_config
  lj_connected_sessions :: "string list"

definition lobby_to_json :: "hub \<Rightarrow> Lobby \<Rightarrow> LobbyJson" where
  "lobby_to_json h v = \<lparr>lj_id = lb_id v, lj_name = lb_name v, lj_icon_png_path = lb_icon_png_path v,
     lj_multi_user = lb_multi_user v, lj_started_by_profile_id = lb_started_by_profile_id v,
     lj_pin_required = (lb_pin v \<noteq> None), lj_stop_when_everyone_leaves = lb_stop_when_everyone_leaves v,
     lj_runner = serialize (lb_runner v), lj_connected_sessions = connected h v\<rparr>"

record PartialClientSettings =
  ps_run_uid :: "nat option"
  ps_run_gid :: "nat option"
  ps_controllers_override :: "ControllerType list option"
  ps_mouse_acceleration :: "f32 option"
  ps_v_scroll_acceleration :: "f32 option"
  ps_h_scroll_acceleration :: "f32 option"
  ps_motion_controller_override :: "ControllerType option"

definition no_settings :: PartialClientSettings where
  "no_settings = \<lparr>ps_run_uid = None, ps_run_gid = None, ps_controllers_override = None,
     ps_mouse_acceleration = None, ps_v_scroll_acceleration = None, ps_h_scroll_acceleration = None,
     ps_motion_controller_override = None\<rparr>"

abbreviation value_or :: "'a option \<Rightarrow> 'a \<Rightarrow> 'a" where
  "value_or v d \<equiv> (case v of None \<Rightarrow> d | Some x \<Rightarrow> x)"

definition merge_settings :: "PartialClientSettings \<Rightarrow> ClientSettings \<Rightarrow> ClientSettings" where
  "merge_settings n c = \<lparr>cs_run_uid = value_or (ps_run_uid n) (cs_run_uid c),
     cs_run_gid = value_or (ps_run_gid n) (cs_run_gid c),
     cs_controllers_override = value_or (ps_controllers_override n) (cs_controllers_override c),
     cs_mouse_acceleration = value_or (ps_mouse_acceleration n) (cs_mouse_acceleration c),
     cs_v_scroll_acceleration = value_or (ps_v_scroll_acceleration n) (cs_v_scroll_acceleration c),
     cs_h_scroll_acceleration = value_or (ps_h_scroll_acceleration n) (cs_h_scroll_acceleration c),
     cs_motion_controller_override = value_or (ps_motion_controller_override n) (cs_motion_controller_override c)\<rparr>"

record CreateLobbyRequest =
  cr_profile_id :: string
  cr_name :: string
  cr_icon_png_path :: "string option"
  cr_multi_user :: bool
  cr_pin :: lobby_pin
  cr_stop_when_everyone_leaves :: bool
  cr_video_settings :: VideoSettings
  cr_channel_count :: int
  cr_client_settings :: "PartialClientSettings option"
  cr_runner_state_folder :: string
  cr_runner :: Runner_config

record UpdateClientSettingsRequest =
  uc_client_id :: string
  uc_app_state_folder :: "string option"
  uc_settings :: "PartialClientSettings option"

datatype api_reply =
    Success
  | Error string
  | Pair_response string
  | Pending_requests "(string \<times> string \<times> string) list"
  | Client_list "(string \<times> string \<times> ClientSettings) list"
  | App_list "AppJson list"
  | Profile_list "ProfileJson list"
  | Session_list "SessionJson list"
  | Session_created string
  | Lobby_list "LobbyJson list"
  | Lobby_created string

record api_json =
  js_write :: "api_reply \<Rightarrow> string"
  js_pair :: "string \<Rightarrow> string + string \<times> string"
  js_unpair :: "string \<Rightarrow> string option"
  js_app :: "string \<Rightarrow> string + AppJson"
  js_app_delete :: "string \<Rightarrow> string + string"
  js_profile :: "string \<Rightarrow> string + ProfileJson"
  js_profile_remove :: "string \<Rightarrow> string + string"
  js_session :: "string \<Rightarrow> string + SessionJson"
  js_session_start :: "string \<Rightarrow> string + string \<times> VideoSession \<times> AudioSession"
  js_session_id :: "string \<Rightarrow> string + string"
  js_input :: "string \<Rightarrow> string + string \<times> string"
  js_create_lobby :: "string \<Rightarrow> string + CreateLobbyRequest"
  js_join :: "string \<Rightarrow> string + string \<times> nat \<times> lobby_pin"
  js_leave :: "string \<Rightarrow> string + string \<times> nat"
  js_stop :: "string \<Rightarrow> string + string \<times> lobby_pin"
  js_runner :: "string \<Rightarrow> string + bool \<times> Runner_config \<times> string"
  js_client_settings :: "string \<Rightarrow> UpdateClientSettingsRequest option"
  js_pull :: "string \<Rightarrow> string option"
  js_pull_start :: "string \<Rightarrow> string"
  js_pull_end :: "string \<Rightarrow> bool \<Rightarrow> string"
  js_event :: "bus_event \<Rightarrow> string \<times> string"

subsection \<open>State and surroundings\<close>

datatype HTTPMethod = GET | POST | PUT | DELETE

record HTTPRequest =
  hr_socket :: nat
  hr_method :: HTTPMethod
  hr_path :: string
  hr_query_string :: string
  hr_http_version :: string
  hr_headers :: headers
  hr_body :: string

text \<open>\<open>hr_socket\<close> is the connection the request came on. What it is sent: a reply (its code, headers
  and body), a piece of a stream, or the end. \<open>Event_to\<close> goes to a subscriber of the events.\<close>

datatype api_out =
    Http int "string list" string
  | Send_data string
  | Event_to nat string
  | Close_socket

record PendingPair =
  pp_client_ip :: string
  pp_client_cert :: string

record api_state =
  api_hub :: hub
  api_devices :: "nat \<Rightarrow> devices"
  api_pending :: "(string \<times> PendingPair) list"
  api_pins :: "(string \<times> string) list"
  api_config :: Config
  api_disk :: toml_file
  api_sockets :: "(nat \<times> bool) list"

record api_env =
  ae_json :: api_json
  ae_hash :: "string \<Rightarrow> nat"
  ae_toml :: toml_env
  ae_toml_error :: string
  ae_hub :: hub_env
  ae_input :: input_env
  ae_battery :: pad_battery
  ae_uuid :: "nat \<Rightarrow> string"
  ae_random :: random_draws
  ae_lobby_up :: bool
  ae_file :: "string \<Rightarrow> string option"
  ae_url :: "string \<Rightarrow> string option"
  ae_inspect :: "string \<Rightarrow> string option"
  ae_pull :: "string \<Rightarrow> string list \<times> bool"
  ae_openapi :: string
  ae_parse :: "string \<Rightarrow> string \<times> string \<times> string \<times> string \<times> headers"

type_synonym endpoint = "api_env \<Rightarrow> HTTPRequest \<Rightarrow> api_state \<Rightarrow> (api_state \<times> api_out list) option"

definition send_http :: "api_env \<Rightarrow> int \<Rightarrow> api_reply \<Rightarrow> api_out list" where
  "send_http env status_code body =
     (let text = js_write (ae_json env) body in [Http status_code [''Content-Length: '' @ dec (length text)] text])"

text \<open>The text of a reply on the wire.\<close>

definition eol :: string where
  "eol = [CHR 0x0D, CHR 0x0A]"

primrec join_lines :: "string list \<Rightarrow> string" where
  "join_lines [] = []"
| "join_lines (x # xs) = (if xs = [] then x else x @ eol @ join_lines xs)"

fun out_text :: "api_out \<Rightarrow> string" where
  "out_text (Http status_code headers body) =
     ''HTTP/1.0 '' @ dec_int status_code @ '' OK'' @ eol @ join_lines headers @ eol @ eol @ body"
| "out_text (Send_data s) = s"
| "out_text _ = []"

definition answer :: "api_env \<Rightarrow> int \<Rightarrow> api_reply \<Rightarrow> api_state \<Rightarrow> (api_state \<times> api_out list) option" where
  "answer env status_code body st = Some (st, send_http env status_code body)"

abbreviation (input) fails :: "api_env \<Rightarrow> string \<Rightarrow> api_state \<Rightarrow> (api_state \<times> api_out list) option" where
  "fails env e st \<equiv> answer env 500 (Error e) st"

definition fire_on :: "api_env \<Rightarrow> bus_event \<Rightarrow> api_state \<Rightarrow> api_state option" where
  "fire_on env ev st = map_option (\<lambda>h. st\<lparr>api_hub := h\<rparr>) (emit4 (ae_hub env) ev (api_hub st))"

text \<open>An exception that is not caught.\<close>

abbreviation catching_nothing :: "'e + 'a \<Rightarrow> 'a option" where
  "catching_nothing r \<equiv> (case r of Inl _ \<Rightarrow> None | Inr x \<Rightarrow> Some x)"

definition default_settings :: "api_env \<Rightarrow> ClientSettings option" where
  "default_settings env = catching_nothing
     (client_settings_default (he_getenv (ae_hub env) ''WOLF_DEFAULT_RUN_UID'') (he_getenv (ae_hub env) ''WOLF_DEFAULT_RUN_GID''))"

subsection \<open>Pairing and clients (endpoints.cpp)\<close>

definition endpoint_PendingPairRequest :: endpoint where
  "endpoint_PendingPairRequest env req st = answer env 200
     (Pending_requests (map (\<lambda>(secret, p). (secret, pp_client_ip p, dec (ae_hash env (pp_client_cert p)))) (api_pending st))) st"

definition endpoint_Pair :: endpoint where
  "endpoint_Pair env req st =
     (case js_pair (ae_json env) (hr_body req) of
        Inl e \<Rightarrow> fails env e st
      | Inr (secret, pin) \<Rightarrow>
          (case map_of (api_pending st) secret of
             None \<Rightarrow> fails env ''Invalid pair secret'' st
           | Some p \<Rightarrow> answer env 200 (Pair_response (dec (ae_hash env (pp_client_cert p))))
               (st\<lparr>api_pins := api_pins st @ [(secret, pin)], api_pending := AList.delete secret (api_pending st)\<rparr>)))"

definition endpoint_PairedClients :: endpoint where
  "endpoint_PairedClients env req st = answer env 200
     (Client_list (map (\<lambda>c. (dec (get_client_id (ae_hash env) c), pc_app_state_folder c, pc_settings c))
       (cfg_paired_clients (api_config st)))) st"

text \<open>The only endpoint that catches exceptions; both number errors are called \<open>stoull\<close>.\<close>

definition endpoint_UnpairClient :: endpoint where
  "endpoint_UnpairClient env req st =
     (case js_unpair (ae_json env) (hr_body req) of
        None \<Rightarrow> answer env 400 (Error ''Invalid request format'') st
      | Some client_id \<Rightarrow>
          (case get_client_by_id (ae_hash env) (api_config st) client_id of
             Inl _ \<Rightarrow> fails env ''stoull'' st
           | Inr None \<Rightarrow> answer env 404 (Error ''Client not found'') st
           | Inr (Some client) \<Rightarrow>
               (case unpair_client (ae_toml env) client (api_config st, api_disk st) of
                  (cfg, disk, threw) \<Rightarrow>
                    let st' = st\<lparr>api_config := cfg, api_disk := disk\<rparr>
                    in if threw then fails env (ae_toml_error env) st' else answer env 200 Success st')))"

definition endpoint_UpdateClientSettings :: endpoint where
  "endpoint_UpdateClientSettings env req st =
     (case js_client_settings (ae_json env) (hr_body req) of
        None \<Rightarrow> answer env 400 (Error ''Invalid request format'') st
      | Some payload \<Rightarrow>
          (case get_client_by_id (ae_hash env) (api_config st) (uc_client_id payload) of
             Inl _ \<Rightarrow> None
           | Inr None \<Rightarrow> answer env 404 (Error ''Client not found'') st
           | Inr (Some current_client) \<Rightarrow> do {
               client_id \<leftarrow> catching_nothing (stoul (uc_client_id payload));
               let merged_client = \<lparr>pc_client_cert = pc_client_cert current_client,
                 pc_app_state_folder = value_or (uc_app_state_folder payload) (pc_app_state_folder current_client),
                 pc_settings = merge_settings (value_or (uc_settings payload) no_settings) (pc_settings current_client)\<rparr>;
               let (cfg, disk, threw) =
                 update_client_settings (ae_toml env) (ae_hash env) client_id merged_client (api_config st, api_disk st);
               if threw then None else answer env 200 Success (st\<lparr>api_config := cfg, api_disk := disk\<rparr>) }))"

subsection \<open>Applications and profiles\<close>

definition endpoint_Apps :: endpoint where
  "endpoint_Apps env req st =
     (case get_moonlight_profile (api_config st) of
        None \<Rightarrow> fails env ''Moonlight profile not found'' st
      | Some p \<Rightarrow> answer env 200 (App_list (map app_to_json (pr_apps p))) st)"

text \<open>The caps an application without its own inherits: those of the first application of the last
  profile for Moonlight that has any (there is one).\<close>

definition inherit_from :: "Profile \<Rightarrow> AppJson \<Rightarrow> AppJson" where
  "inherit_from p a =
     (if pr_id p \<noteq> MOONLIGHT_PROFILE_ID then a
      else case pr_apps p of [] \<Rightarrow> a
           | x # _ \<Rightarrow> a\<lparr>aj_video_producer_buffer_caps := Some (app_video_producer_buffer_caps x)\<rparr>)"

definition inherit_caps :: "Profile list \<Rightarrow> AppJson \<Rightarrow> AppJson" where
  "inherit_caps profiles app =
     (if aj_video_producer_buffer_caps app = None \<or> aj_video_producer_buffer_caps app = Some []
      then fold inherit_from profiles app
      else app)"

definition on_moonlight_apps :: "(App list \<Rightarrow> App list) \<Rightarrow> Profile list \<Rightarrow> Profile list" where
  "on_moonlight_apps f = map (\<lambda>p. if pr_id p = MOONLIGHT_PROFILE_ID then p\<lparr>pr_apps := f (pr_apps p)\<rparr> else p)"

definition endpoint_AddApp :: endpoint where
  "endpoint_AddApp env req st =
     (case js_app (ae_json env) (hr_body req) of
        Inl e \<Rightarrow> fails env e st
      | Inr sent \<Rightarrow>
          let profiles = cfg_profiles (api_config st); app = inherit_caps profiles sent
          in case app_of_json app of
               None \<Rightarrow> if \<exists>p \<in> set profiles. pr_id p = MOONLIGHT_PROFILE_ID then None else answer env 200 Success st
             | Some a \<Rightarrow> answer env 200 Success (st\<lparr>api_config := update_profiles_in_memory
                 (on_moonlight_apps (\<lambda>apps. apps @ [a]) profiles) (api_config st)\<rparr>))"

definition endpoint_RemoveApp :: endpoint where
  "endpoint_RemoveApp env req st =
     (case js_app_delete (ae_json env) (hr_body req) of
        Inl e \<Rightarrow> fails env e st
      | Inr i \<Rightarrow> answer env 200 Success (st\<lparr>api_config := update_profiles_in_memory
          (on_moonlight_apps (filter (\<lambda>a. app_id a \<noteq> i)) (cfg_profiles (api_config st))) (api_config st)\<rparr>))"

definition endpoint_Profiles :: endpoint where
  "endpoint_Profiles env req st = answer env 200 (Profile_list (map profile_to_json
     (filter (\<lambda>p. pr_id p \<noteq> MOONLIGHT_PROFILE_ID) (cfg_profiles (api_config st))))) st"

definition save_profiles :: "api_env \<Rightarrow> Profile list \<Rightarrow> api_state \<Rightarrow> (api_state \<times> api_out list) option" where
  "save_profiles env profiles st =
     (case update_profiles (ae_toml env) profiles (api_config st, api_disk st) of
        (cfg, disk, threw) \<Rightarrow> if threw then None else answer env 200 Success (st\<lparr>api_config := cfg, api_disk := disk\<rparr>))"

definition endpoint_AddProfile :: endpoint where
  "endpoint_AddProfile env req st =
     (case js_profile (ae_json env) (hr_body req) of
        Inl e \<Rightarrow> fails env e st
      | Inr v \<Rightarrow> do {
          p \<leftarrow> profile_of_json v;
          save_profiles env (cfg_profiles (api_config st) @ [p]) st })"

definition endpoint_RemoveProfile :: endpoint where
  "endpoint_RemoveProfile env req st =
     (case js_profile_remove (ae_json env) (hr_body req) of
        Inl e \<Rightarrow> fails env e st
      | Inr i \<Rightarrow> save_profiles env (filter (\<lambda>p. pr_id p \<noteq> i) (cfg_profiles (api_config st))) st)"

subsection \<open>Stream sessions\<close>

definition endpoint_StreamSessions :: endpoint where
  "endpoint_StreamSessions env req st = do {
     sessions \<leftarrow> those (map session_to_json (hub_sessions (api_hub st)));
     answer env 200 (Session_list sessions) st }"

definition RUN_IDLE :: string where
  "RUN_IDLE = ''sh -c '' @ [CHR 0x22] @ ''while :; do echo '' @ [CHR 0x27] @ ''running...'' @ [CHR 0x27] @ ''; sleep 10; done'' @ [CHR 0x22]"

text \<open>\<open>front()\<close> of a list of applications that may be empty is undefined: \<open>None\<close>.\<close>

definition dummy_app :: "string \<Rightarrow> App list \<Rightarrow> App option" where
  "dummy_app i apps =
     (case apps of
        [] \<Rightarrow> None
      | sample # _ \<Rightarrow> Some (sample\<lparr>app_title := ''dummy'', app_id := i, app_support_hdr := False,
          app_icon_png_path := Some [], app_start_virtual_compositor := True, app_start_audio_server := True,
          app_controller_override := CT_AUTO, app_runner := RunProcess RUN_IDLE\<rparr>))"

definition choose_app :: "api_env \<Rightarrow> Config \<Rightarrow> string option \<Rightarrow> (string + App) option" where
  "choose_app env cfg wanted =
     (case wanted of
        Some i \<Rightarrow> Some (case get_moonlight_app_by_id cfg i of
                      None \<Rightarrow> Inl ''Invalid app_id'' | Some app \<Rightarrow> Inr app)
      | None \<Rightarrow>
          (case get_moonlight_profile cfg of
             None \<Rightarrow> Some (Inl ''No moonlight profile found'')
           | Some p \<Rightarrow> map_option Inr (dummy_app (ae_uuid env 0) (pr_apps p))))"

definition choose_client :: "api_env \<Rightarrow> Config \<Rightarrow> string option \<Rightarrow> (string + PairedClient) option" where
  "choose_client env cfg wanted =
     (case wanted of
        Some i \<Rightarrow>
          (case get_client_by_id (ae_hash env) cfg i of
             Inl _ \<Rightarrow> None
           | Inr None \<Rightarrow> Some (Inl ''Invalid client_id'')
           | Inr (Some c) \<Rightarrow> Some (Inr c))
      | None \<Rightarrow> map_option (\<lambda>settings. Inr \<lparr>pc_client_cert = [], pc_app_state_folder = ae_uuid env 1,
          pc_settings = settings\<rparr>) (default_settings env))"

definition requested_session :: "api_env \<Rightarrow> Config \<Rightarrow> SessionJson \<Rightarrow> App \<Rightarrow> PairedClient \<Rightarrow> StreamSession option" where
  "requested_session env cfg ss app client = do {
     settings \<leftarrow> (case sj_client_settings ss of Some s \<Rightarrow> Some s | None \<Rightarrow> default_settings env);
     new_session \<leftarrow> catching_nothing (create_stream_session (ae_hash env) (he_getenv (ae_hub env)) (ae_random env)
       (he_host (ae_hub env)) app (client\<lparr>pc_settings := settings\<rparr>)
       \<lparr>dm_width = sj_video_width ss, dm_height = sj_video_height ss, dm_refreshRate = sj_video_refresh_rate ss,
        dm_hevc_supported = cfg_support_hevc cfg, dm_av1_supported = cfg_support_av1 cfg\<rparr>
       (sj_audio_channel_count ss) (sj_aes_key ss) (sj_aes_iv ss));
     Some (new_session\<lparr>ss_ip := sj_client_ip ss, ss_rtsp_fake_ip := sj_rtsp_fake_ip ss\<rparr>) }"

definition add_session :: "StreamSession \<Rightarrow> api_state \<Rightarrow> api_state" where
  "add_session s st = st\<lparr>
     api_hub := upd_session (ss_session_id s) (\<lambda>_. new_session_atoms)
       ((api_hub st)\<lparr>hub_sessions := hub_sessions (api_hub st) @ [s]\<rparr>),
     api_devices := (api_devices st)(ss_session_id s := fresh_devices)\<rparr>"

definition endpoint_StreamSessionAdd :: endpoint where
  "endpoint_StreamSessionAdd env req st =
     (case js_session (ae_json env) (hr_body req) of
        Inl e \<Rightarrow> fails env e st
      | Inr ss \<Rightarrow> do {
          app \<leftarrow> choose_app env (api_config st) (sj_app_id ss);
          case app of
            Inl e \<Rightarrow> fails env e st
          | Inr choosen_app \<Rightarrow> do {
              client \<leftarrow> choose_client env (api_config st) (sj_client_id ss);
              case client of
                Inl e \<Rightarrow> fails env e st
              | Inr choosen_client \<Rightarrow> do {
                  new_session \<leftarrow> requested_session env (api_config st) ss choosen_app choosen_client;
                  st' \<leftarrow> fire_on env (StreamSessionEvent new_session) (add_session new_session st);
                  answer env 200 (Session_created (dec (ss_session_id new_session))) st' } } })"

text \<open>A session id in a request is a decimal text, which \<open>std::stoul\<close> reads or throws.\<close>

definition session_of :: "api_state \<Rightarrow> string \<Rightarrow> (nat \<times> StreamSession option) option" where
  "session_of st text = do {
     session_id \<leftarrow> catching_nothing (stoul text);
     Some (session_id, get_session_by_id (hub_sessions (api_hub st)) session_id) }"

definition endpoint_StreamSessionStart :: endpoint where
  "endpoint_StreamSessionStart env req st =
     (case js_session_start (ae_json env) (hr_body req) of
        Inl e \<Rightarrow> fails env e st
      | Inr (text, v, a) \<Rightarrow> do {
          (session_id, found) \<leftarrow> session_of st text;
          session \<leftarrow> found;
          app \<leftarrow> (if vs_render_node v = [] then map_option Some (ss_app session) else Some None);
          let v' = v\<lparr>vs_session_id := session_id, vs_render_node :=
            (case app of None \<Rightarrow> vs_render_node v | Some x \<Rightarrow> app_render_node x)\<rparr>;
          st1 \<leftarrow> fire_on env (VideoSessionEvent v') st;
          st2 \<leftarrow> fire_on env (AudioSessionEvent (a\<lparr>as_session_id := session_id\<rparr>)) st1;
          answer env 200 Success st2 })"

definition fire_for_session :: "api_env \<Rightarrow> string + string \<Rightarrow> (nat \<Rightarrow> bus_event) \<Rightarrow> api_state \<Rightarrow>
    (api_state \<times> api_out list) option" where
  "fire_for_session env parsed ev st =
     (case parsed of
        Inl e \<Rightarrow> fails env e st
      | Inr text \<Rightarrow> do {
          (session_id, found) \<leftarrow> session_of st text;
          case found of
            None \<Rightarrow> fails env ''Invalid session_id'' st
          | Some _ \<Rightarrow> do { st' \<leftarrow> fire_on env (ev session_id) st; answer env 200 Success st' } })"

definition endpoint_StreamSessionPause :: endpoint where
  "endpoint_StreamSessionPause env req st =
     fire_for_session env (js_session_id (ae_json env) (hr_body req)) PauseStreamEvent st"

definition endpoint_StreamSessionStop :: endpoint where
  "endpoint_StreamSessionStop env req st =
     fire_for_session env (js_session_id (ae_json env) (hr_body req)) StopStreamEvent st"

text \<open>The events that the input handler fires go to the bus; reading past the packet is \<open>None\<close>.\<close>

fun fired_by :: "action list \<Rightarrow> bus_event list" where
  "fired_by [] = []"
| "fired_by (Fire ev # as) = ev # fired_by as"
| "fired_by (a # as) = fired_by as"

primrec fire_all :: "api_env \<Rightarrow> bus_event list \<Rightarrow> api_state \<Rightarrow> api_state option" where
  "fire_all env [] st = Some st"
| "fire_all env (ev # evs) st = do { st' \<leftarrow> fire_on env ev st; fire_all env evs st' }"

definition endpoint_StreamSessionHandleInput :: endpoint where
  "endpoint_StreamSessionHandleInput env req st =
     (case js_input (ae_json env) (hr_body req) of
        Inl e \<Rightarrow> fails env e st
      | Inr (text, input_packet_hex) \<Rightarrow> do {
          (session_id, found) \<leftarrow> session_of st text;
          case found of
            None \<Rightarrow> fails env ''Invalid session_id'' st
          | Some session \<Rightarrow> do {
              pkt \<leftarrow> hex_to_str input_packet_hex True;
              let dv = api_devices st session_id;
              dv' \<leftarrow> catching_nothing (handle_input (ae_input env) (ae_battery env) session pkt dv);
              st' \<leftarrow> fire_all env (fired_by (drop (length (sd_out dv)) (sd_out dv')))
                (st\<lparr>api_devices := (api_devices st)(session_id := dv')\<rparr>);
              answer env 200 Success st' } })"

definition endpoint_RunnerStart :: endpoint where
  "endpoint_RunnerStart env req st =
     (case js_runner (ae_json env) (hr_body req) of
        Inl e \<Rightarrow> fails env e st
      | Inr (stop_stream_when_over, runner, text) \<Rightarrow> do {
          (session_id, found) \<leftarrow> session_of st text;
          case found of
            None \<Rightarrow> fails env ''Invalid session_id'' st
          | Some session \<Rightarrow> do {
              r \<leftarrow> get_runner runner;
              st' \<leftarrow> fire_on env (StartRunner stop_stream_when_over r session) st;
              Some (st', []) } })"

subsection \<open>Lobbies\<close>

definition endpoint_Lobbies :: endpoint where
  "endpoint_Lobbies env req st = answer env 200
     (Lobby_list (map (lobby_to_json (api_hub st)) (hub_lobbies (api_hub st)))) st"

definition create_lobby_ev :: "string \<Rightarrow> CreateLobbyRequest \<Rightarrow> ClientSettings \<Rightarrow> Runner \<Rightarrow> CreateLobby" where
  "create_lobby_ev lobby_id r settings runner =
     \<lparr>cl_id = lobby_id, cl_profile_id = cr_profile_id r, cl_name = cr_name r, cl_icon_png_path = cr_icon_png_path r,
      cl_pin = cr_pin r, cl_multi_user = cr_multi_user r,
      cl_stop_when_everyone_leaves = cr_stop_when_everyone_leaves r, cl_video_settings = cr_video_settings r,
      cl_channel_count = cr_channel_count r, cl_client_settings = settings,
      cl_runner_state_folder = cr_runner_state_folder r, cl_runner = runner\<rparr>"

definition endpoint_LobbyCreate :: endpoint where
  "endpoint_LobbyCreate env req st =
     (case js_create_lobby (ae_json env) (hr_body req) of
        Inl e \<Rightarrow> fails env e st
      | Inr r \<Rightarrow> do {
          defaults \<leftarrow> default_settings env;
          runner \<leftarrow> get_runner (cr_runner r);
          let ev = create_lobby_ev (ae_uuid env 0) r
            (merge_settings (value_or (cr_client_settings r) no_settings) defaults) runner;
          st' \<leftarrow> fire_on env (CreateLobbyEvent ev) st;
          if ae_lobby_up env then answer env 200 (Lobby_created (ae_uuid env 0)) st'
          else fails env ''Lobby setup timed out'' st' })"

definition check_lobby_pin :: "Lobby list \<Rightarrow> string \<Rightarrow> lobby_pin \<Rightarrow> string option" where
  "check_lobby_pin lobbies lobby_id pin =
     (case get_lobby_by_id lobbies lobby_id of
        None \<Rightarrow> Some ''Invalid lobby ID''
      | Some lobby \<Rightarrow> if lb_pin lobby \<noteq> pin then Some ''Invalid PIN'' else None)"

text \<open>What the handler of the bus put into the promise of the request, if it did.\<close>

definition join_message :: "hub \<Rightarrow> string option" where
  "join_message h =
     (if hub_trace h = [] then None
      else case last (hub_trace h) of Join_result m \<Rightarrow> Some m | _ \<Rightarrow> None)"

definition endpoint_LobbyJoin :: endpoint where
  "endpoint_LobbyJoin env req st =
     (case js_join (ae_json env) (hr_body req) of
        Inl e \<Rightarrow> fails env e st
      | Inr (lobby_id, session_id, pin) \<Rightarrow>
          (case check_lobby_pin (hub_lobbies (api_hub st)) lobby_id pin of
             Some err \<Rightarrow> fails env err st
           | None \<Rightarrow> do {
               st' \<leftarrow> fire_on env (JoinLobbyEvent lobby_id session_id pin) st;
               case join_message (api_hub st') of
                 None \<Rightarrow> fails env ''Lobby join timed out'' st'
               | Some m \<Rightarrow> if m \<noteq> [] then fails env m st' else answer env 200 Success st' }))"

definition endpoint_LobbyLeave :: endpoint where
  "endpoint_LobbyLeave env req st =
     (case js_leave (ae_json env) (hr_body req) of
        Inl e \<Rightarrow> fails env e st
      | Inr (lobby_id, session_id) \<Rightarrow> do {
          st' \<leftarrow> fire_on env (LeaveLobbyEvent lobby_id session_id) st;
          answer env 200 Success st' })"

definition endpoint_LobbyStop :: endpoint where
  "endpoint_LobbyStop env req st =
     (case js_stop (ae_json env) (hr_body req) of
        Inl e \<Rightarrow> fails env e st
      | Inr (lobby_id, pin) \<Rightarrow>
          (case check_lobby_pin (hub_lobbies (api_hub st)) lobby_id pin of
             Some err \<Rightarrow> fails env err st
           | None \<Rightarrow> do {
               st' \<leftarrow> fire_on env (StopLobbyEvent lobby_id pin) st;
               answer env 200 Success st' }))"

subsection \<open>Icons and Docker images\<close>

definition starts_with :: "string \<Rightarrow> string \<Rightarrow> bool" where
  "starts_with prefix s \<longleftrightarrow> take (length prefix) s = prefix"

definition get_icon :: "api_env \<Rightarrow> string \<Rightarrow> string option" where
  "get_icon env icon_path =
     (if starts_with ''/'' icon_path then ae_file env icon_path
      else if starts_with ''http'' icon_path then ae_url env icon_path
      else ae_file env (path_join (h_local_base_state_folder (he_host (ae_hub env))) icon_path))"

text \<open>The value of the only parameter of a query, which must have the given name.\<close>

definition query_parameter :: "string \<Rightarrow> string \<Rightarrow> string option" where
  "query_parameter name query_string =
     (case split_str query_string (CHR ''='') of
        [k, v] \<Rightarrow> if k \<noteq> name then None else Some v
      | _ \<Rightarrow> None)"

definition endpoint_GetIcon :: endpoint where
  "endpoint_GetIcon env req st =
     (case query_parameter ''icon_path'' (hr_query_string req) of
        None \<Rightarrow> answer env 400 (Error ''Invalid request format, expects 'icon_path' as a query parameter'') st
      | Some icon_path \<Rightarrow>
          (case get_icon env icon_path of
             Some icon \<Rightarrow> Some (st, [Http 200 [''Content-Length: '' @ dec (length icon), ''Content-Type: image/png''] icon])
           | None \<Rightarrow> answer env 404 (Error ''Icon not found'') st))"

definition endpoint_DockerInspectImage :: endpoint where
  "endpoint_DockerInspectImage env req st =
     (case query_parameter ''image_name'' (hr_query_string req) of
        None \<Rightarrow> answer env 400 (Error ''Invalid request format, expects 'image_name' as a query parameter'') st
      | Some image_name \<Rightarrow>
          (case ae_inspect env image_name of
             Some response \<Rightarrow> Some (st, [Http 200 [''Content-Length: '' @ dec (length response)] response])
           | None \<Rightarrow> answer env 404 (Error ''Image not found'') st))"

subsection \<open>Server-sent events (unix_socket_server.cpp)\<close>

definition newline :: string where "newline = [CHR 0x0A]"

definition sse_broadcast :: "string \<Rightarrow> api_state \<Rightarrow> api_out list" where
  "sse_broadcast payload st = map (\<lambda>(socket, _). Event_to socket payload) (api_sockets st)"

definition broadcast_event :: "string \<Rightarrow> string \<Rightarrow> api_state \<Rightarrow> api_out list" where
  "broadcast_event event_type event_data =
     sse_broadcast (''event: '' @ event_type @ newline @ ''data: '' @ event_data @ newline @ newline)"

definition cleanup_sockets :: "api_state \<Rightarrow> api_state" where
  "cleanup_sockets st = st\<lparr>api_sockets := filter snd (api_sockets st)\<rparr>"

definition close_socket :: "nat \<Rightarrow> api_state \<Rightarrow> api_state" where
  "close_socket socket st =
     st\<lparr>api_sockets := map (\<lambda>(s, alive). (s, if s = socket then False else alive)) (api_sockets st)\<rparr>"

text \<open>The writes to the subscribers report their failures one by one; the timer runs every 15
  seconds; the handler of every event of the bus passes it on.\<close>

definition write_failed :: "nat \<Rightarrow> api_state \<Rightarrow> api_state" where
  "write_failed socket st = cleanup_sockets (close_socket socket st)"

definition sse_keepalive :: "api_state \<Rightarrow> api_state \<times> api_out list" where
  "sse_keepalive st = (let st' = cleanup_sockets st in (st', sse_broadcast ('':keepalive'' @ newline @ newline) st'))"

definition on_bus_event :: "api_env \<Rightarrow> bus_event \<Rightarrow> api_state \<Rightarrow> api_out list" where
  "on_bus_event env ev st = (case js_event (ae_json env) ev of (event_type, event_data) \<Rightarrow> broadcast_event event_type event_data st)"

definition endpoint_Events :: endpoint where
  "endpoint_Events env req st = Some (st\<lparr>api_sockets := api_sockets st @ [(hr_socket req, True)]\<rparr>,
     [Http 200 [''Content-Type: text/event-stream'', ''Connection: keep-alive'', ''Cache-Control: no-cache''] []])"

text \<open>The progress of a pull is one line each; the headers go out before the first one.\<close>

definition endpoint_DockerPullImage :: endpoint where
  "endpoint_DockerPullImage env req st =
     (case js_pull (ae_json env) (hr_body req) of
        None \<Rightarrow> Some (st, [])
      | Some image_name \<Rightarrow>
          let (progress, success) = ae_pull env image_name;
              ok = Send_data (''HTTP/1.0 200 OK'' @ eol @ eol);
              lines = map (\<lambda>ev. Send_data (ev @ eol)) progress;
              started = broadcast_event ''DockerPullImageStartEvent'' (js_pull_start (ae_json env) image_name) st;
              ended = broadcast_event ''DockerPullImageEndEvent'' (js_pull_end (ae_json env) image_name success) st;
              sent = (if progress = [] then [] else ok # lines)
          in Some (st, started @ sent @
               (if success
                then (if progress = [] then [ok] else []) @ [Send_data (js_write (ae_json env) Success @ eol)]
                else send_http env 500 (Error ''Failed to pull image'')) @ ended))"

subsection \<open>Routes and connections (unix_socket_server.cpp, http_server.hpp)\<close>

definition openapi_endpoint :: endpoint where
  "openapi_endpoint env req st =
     Some (st, [Http 200 [''Content-Length: '' @ dec (length (ae_openapi env))] (ae_openapi env)])"

definition client_endpoints :: "((HTTPMethod \<times> string) \<times> endpoint) list" where
  "client_endpoints =
     [((GET, ''/api/v1/events''), endpoint_Events),
      ((GET, ''/api/v1/pair/pending''), endpoint_PendingPairRequest),
      ((POST, ''/api/v1/pair/client''), endpoint_Pair),
      ((POST, ''/api/v1/unpair/client''), endpoint_UnpairClient),
      ((GET, ''/api/v1/clients''), endpoint_PairedClients),
      ((POST, ''/api/v1/clients/settings''), endpoint_UpdateClientSettings),
      ((GET, ''/api/v1/apps''), endpoint_Apps),
      ((POST, ''/api/v1/apps/add''), endpoint_AddApp),
      ((POST, ''/api/v1/apps/delete''), endpoint_RemoveApp),
      ((GET, ''/api/v1/profiles''), endpoint_Profiles),
      ((POST, ''/api/v1/profiles/add''), endpoint_AddProfile),
      ((POST, ''/api/v1/profiles/remove''), endpoint_RemoveProfile)]"

definition session_endpoints :: "((HTTPMethod \<times> string) \<times> endpoint) list" where
  "session_endpoints =
     [((GET, ''/api/v1/sessions''), endpoint_StreamSessions),
      ((POST, ''/api/v1/sessions/add''), endpoint_StreamSessionAdd),
      ((POST, ''/api/v1/sessions/start''), endpoint_StreamSessionStart),
      ((POST, ''/api/v1/sessions/pause''), endpoint_StreamSessionPause),
      ((POST, ''/api/v1/sessions/stop''), endpoint_StreamSessionStop),
      ((POST, ''/api/v1/sessions/input''), endpoint_StreamSessionHandleInput),
      ((POST, ''/api/v1/runners/start''), endpoint_RunnerStart),
      ((GET, ''/api/v1/lobbies''), endpoint_Lobbies),
      ((POST, ''/api/v1/lobbies/create''), endpoint_LobbyCreate),
      ((POST, ''/api/v1/lobbies/join''), endpoint_LobbyJoin),
      ((POST, ''/api/v1/lobbies/leave''), endpoint_LobbyLeave),
      ((POST, ''/api/v1/lobbies/stop''), endpoint_LobbyStop),
      ((GET, ''/api/v1/utils/get-icon''), endpoint_GetIcon),
      ((GET, ''/api/v1/docker/images/inspect''), endpoint_DockerInspectImage),
      ((POST, ''/api/v1/docker/images/pull''), endpoint_DockerPullImage),
      ((GET, ''/api/v1/openapi-schema''), openapi_endpoint)]"

definition endpoints :: "((HTTPMethod \<times> string) \<times> endpoint) list" where
  "endpoints = client_endpoints @ session_endpoints"

lemmas endpoints_table = endpoints_def client_endpoints_def session_endpoints_def append.simps

definition handle_request :: endpoint where
  "handle_request env req st =
     (case map_of endpoints (hr_method req, hr_path req) of
        Some endpoint \<Rightarrow> endpoint env req st
      | None \<Rightarrow> Some (close_socket (hr_socket req) st, [Http 404 [''Content-Length: 0''] [], Close_socket]))"

definition method_of :: "string \<Rightarrow> HTTPMethod" where
  "method_of m = (if m = ''GET'' then GET else if m = ''POST'' then POST else if m = ''PUT'' then PUT
     else if m = ''DELETE'' then DELETE else GET)"

text \<open>The text up to and including the first empty line, and the rest.\<close>

fun split_headers :: "string \<Rightarrow> (string \<times> string) option" where
  "split_headers [] = None"
| "split_headers (c # s) =
     (if starts_with (eol @ eol) (c # s) then Some (eol @ eol, drop 3 s)
      else map_option (\<lambda>(headers, rest). (c # headers, rest)) (split_headers s))"

text \<open>
  \<open>raw\<close> is all that the client sends before it closes its side, \<open>extra\<close> how many characters of the
  body had arrived with the headers. A body is read to its announced length; if the client closes
  before, the connection is closed. A length that is no number throws on the thread of the server.
\<close>

definition start_connection_api :: "api_env \<Rightarrow> nat \<Rightarrow> string \<Rightarrow> nat \<Rightarrow> api_state \<Rightarrow> (api_state \<times> api_out list) option" where
  "start_connection_api env socket raw extra st =
     (case split_headers raw of
        None \<Rightarrow> Some (close_socket socket st, [Close_socket])
      | Some (text, rest) \<Rightarrow>
          let (m, path, query_string, version, headers) = ae_parse env text;
              req = (\<lambda>body. \<lparr>hr_socket = socket, hr_method = method_of m, hr_path = path, hr_query_string = query_string,
                hr_http_version = version, hr_headers = headers, hr_body = body\<rparr>)
          in if get_header headers ''Transfer-Encoding'' = Some ''chunked''
             then (let msg = ''Chunked encoding not supported, use HTTP/1.0 instead''
                   in Some (st, [Http 500 [''Content-Length: '' @ dec (length msg)] msg]))
             else (case get_header headers ''Content-Length'' of
                     None \<Rightarrow> handle_request env (req []) st
                   | Some l \<Rightarrow>
                       (case stoul l of
                          Inl _ \<Rightarrow> None
                        | Inr content_length \<Rightarrow>
                            if content_length > 2 ^ 64 - 1 then Some (st, [Http 413 [''Content-Length: 17''] ''Payload Too Large''])
                            else if content_length > extra
                            then (if length rest < extra + (content_length - extra)
                                  then Some (close_socket socket st, [Close_socket])
                                  else handle_request env (req (take content_length rest)) st)
                            else handle_request env (req (take content_length rest)) st)))"

end
