(* ===== verification/Api_Props.thy ===== *)
theory Api_Props
  imports Api
begin

section \<open>What a request to the API can do\<close>

text \<open>
  The effect of every endpoint on the streams and lobbies is a sequence of bus events of a kind that
  the request allows (\<open>api_moves\<close>). The invariants of Lobbies carry over to the API through it: the
  reachable states are closed under requests, and who gets into a protected lobby is decided by the
  PIN of the request.
\<close>

subsection \<open>The events of a request\<close>

fun harmless :: "bus_event \<Rightarrow> bool" where
  "harmless (VideoSessionEvent _) = True"
| "harmless (AudioSessionEvent _) = True"
| "harmless ev = device_event ev"

fun request_event :: "api_env \<Rightarrow> HTTPRequest \<Rightarrow> api_state \<Rightarrow> bus_event \<Rightarrow> bool" where
  "request_event env req st (PauseStreamEvent i) = True"
| "request_event env req st (StopStreamEvent i) = True"
| "request_event env req st (LeaveLobbyEvent l i) = True"
| "request_event env req st (StartRunner b r s) = (s \<in> set (hub_sessions (api_hub st)))"
| "request_event env req st (CreateLobbyEvent c) = (cl_id c = ae_uuid env 0)"
| "request_event env req st (StopLobbyEvent l p) = (check_lobby_pin (hub_lobbies (api_hub st)) l p = None)"
| "request_event env req st (JoinLobbyEvent l i p) =
     (check_lobby_pin (hub_lobbies (api_hub st)) l p = None \<and> hr_method req = POST \<and>
      hr_path req = ''/api/v1/lobbies/join'' \<and> js_join (ae_json env) (hr_body req) = Inr (l, i, p))"
| "request_event env req st _ = False"

primrec emit_all :: "hub_env \<Rightarrow> bus_event list \<Rightarrow> hub \<Rightarrow> hub option" where
  "emit_all env [] h = Some h"
| "emit_all env (ev # evs) h = do { h' \<leftarrow> emit4 env ev h; emit_all env evs h' }"

inductive api_moves :: "api_env \<Rightarrow> HTTPRequest \<Rightarrow> api_state \<Rightarrow> hub \<Rightarrow> bool" for env req st where
  same: "api_moves env req st (api_hub st)"
| event: "\<lbrakk>request_event env req st ev; emit4 (ae_hub env) ev (api_hub st) = Some h'\<rbrakk> \<Longrightarrow> api_moves env req st h'"
| added: "\<lbrakk>ss_app s \<noteq> None; emit4 (ae_hub env) (StreamSessionEvent s) (api_hub (add_session s st)) = Some h';
    \<exists>c. ss_session_id s = ae_hash env c\<rbrakk> \<Longrightarrow> api_moves env req st h'"
| events: "\<lbrakk>\<forall>ev \<in> set evs. harmless ev; emit_all (ae_hub env) evs (api_hub st) = Some h'\<rbrakk> \<Longrightarrow> api_moves env req st h'"

lemma fire_on_Some:
  "fire_on env ev st = Some st' \<Longrightarrow> emit4 (ae_hub env) ev (api_hub st) = Some (api_hub st')"
  by (auto simp: fire_on_def)

lemma fire_all_Some: "fire_all env evs st = Some st' \<Longrightarrow> emit_all (ae_hub env) evs (api_hub st) = Some (api_hub st')"
proof (induction evs arbitrary: st)
  case (Cons ev evs)
  then obtain st1 where "fire_on env ev st = Some st1" "fire_all env evs st1 = Some st'"
    by (auto simp: bind_eq_Some_conv)
  then show ?case using Cons.IH fire_on_Some by simp
qed simp

lemma moves_fire: "\<lbrakk>fire_on env ev st = Some st'; request_event env req st ev\<rbrakk> \<Longrightarrow> api_moves env req st (api_hub st')"
  by (rule api_moves.event) (auto dest: fire_on_Some)

lemma moves_same: "api_hub st' = api_hub st \<Longrightarrow> api_moves env req st (api_hub st')"
  by (metis api_moves.same)

lemma sum_case_Some [simp]:
  "(case r of Inl x \<Rightarrow> f x | Inr y \<Rightarrow> g y) = Some z \<longleftrightarrow>
    (\<exists>x. r = Inl x \<and> f x = Some z) \<or> (\<exists>y. r = Inr y \<and> g y = Some z)"
  by (cases r) simp_all

lemma option_case_Some [simp]:
  "(case r of None \<Rightarrow> a | Some y \<Rightarrow> g y) = Some z \<longleftrightarrow> r = None \<and> a = Some z \<or> (\<exists>y. r = Some y \<and> g y = Some z)"
  by (cases r) simp_all

lemma prod_case_Some: "(case p of (a, b) \<Rightarrow> f a b) = Some z \<longleftrightarrow> (\<exists>a b. p = (a, b) \<and> f a b = Some z)"
  by (cases p) simp

lemmas outcome_simps = answer_def bind_eq_Some_conv session_of_def Let_def

definition quiet_endpoint :: "endpoint \<Rightarrow> bool" where
  "quiet_endpoint e \<longleftrightarrow> (\<forall>env req st st' outs. e env req st = Some (st', outs) \<longrightarrow> api_hub st' = api_hub st)"

lemma quietI: "(\<And>env req st st' outs. e env req st = Some (st', outs) \<Longrightarrow> api_hub st' = api_hub st) \<Longrightarrow> quiet_endpoint e"
  unfolding quiet_endpoint_def by blast

lemma q_endpoint_Events: "quiet_endpoint endpoint_Events"
  by (rule quietI) (auto simp: endpoint_Events_def save_profiles_def outcome_simps prod_case_Some split: if_splits)

lemma q_endpoint_PendingPairRequest: "quiet_endpoint endpoint_PendingPairRequest"
  by (rule quietI) (auto simp: endpoint_PendingPairRequest_def save_profiles_def outcome_simps prod_case_Some split: if_splits)

lemma q_endpoint_Pair: "quiet_endpoint endpoint_Pair"
  by (rule quietI) (auto simp: endpoint_Pair_def save_profiles_def outcome_simps prod_case_Some split: if_splits)

lemma q_endpoint_UnpairClient: "quiet_endpoint endpoint_UnpairClient"
  by (rule quietI) (auto simp: endpoint_UnpairClient_def save_profiles_def outcome_simps prod_case_Some split: if_splits)

lemma q_endpoint_PairedClients: "quiet_endpoint endpoint_PairedClients"
  by (rule quietI) (auto simp: endpoint_PairedClients_def save_profiles_def outcome_simps prod_case_Some split: if_splits)

lemma q_endpoint_UpdateClientSettings: "quiet_endpoint endpoint_UpdateClientSettings"
  by (rule quietI) (auto simp: endpoint_UpdateClientSettings_def save_profiles_def outcome_simps prod_case_Some split: if_splits)

lemma q_endpoint_Apps: "quiet_endpoint endpoint_Apps"
  by (rule quietI) (auto simp: endpoint_Apps_def save_profiles_def outcome_simps prod_case_Some split: if_splits)

lemma q_endpoint_AddApp: "quiet_endpoint endpoint_AddApp"
  by (rule quietI) (auto simp: endpoint_AddApp_def save_profiles_def outcome_simps prod_case_Some split: if_splits)

lemma q_endpoint_RemoveApp: "quiet_endpoint endpoint_RemoveApp"
  by (rule quietI) (auto simp: endpoint_RemoveApp_def save_profiles_def outcome_simps prod_case_Some split: if_splits)

lemma q_endpoint_Profiles: "quiet_endpoint endpoint_Profiles"
  by (rule quietI) (auto simp: endpoint_Profiles_def save_profiles_def outcome_simps prod_case_Some split: if_splits)

lemma q_endpoint_AddProfile: "quiet_endpoint endpoint_AddProfile"
  by (rule quietI) (auto simp: endpoint_AddProfile_def save_profiles_def outcome_simps prod_case_Some split: if_splits)

lemma q_endpoint_RemoveProfile: "quiet_endpoint endpoint_RemoveProfile"
  by (rule quietI) (auto simp: endpoint_RemoveProfile_def save_profiles_def outcome_simps prod_case_Some split: if_splits)

lemma q_endpoint_StreamSessions: "quiet_endpoint endpoint_StreamSessions"
  by (rule quietI) (auto simp: endpoint_StreamSessions_def save_profiles_def outcome_simps prod_case_Some split: if_splits)

lemma q_endpoint_Lobbies: "quiet_endpoint endpoint_Lobbies"
  by (rule quietI) (auto simp: endpoint_Lobbies_def save_profiles_def outcome_simps prod_case_Some split: if_splits)

lemma q_endpoint_GetIcon: "quiet_endpoint endpoint_GetIcon"
  by (rule quietI) (auto simp: endpoint_GetIcon_def save_profiles_def outcome_simps prod_case_Some split: if_splits)

lemma q_endpoint_DockerInspectImage: "quiet_endpoint endpoint_DockerInspectImage"
  by (rule quietI) (auto simp: endpoint_DockerInspectImage_def save_profiles_def outcome_simps prod_case_Some split: if_splits)

lemma q_endpoint_DockerPullImage: "quiet_endpoint endpoint_DockerPullImage"
  by (rule quietI) (auto simp: endpoint_DockerPullImage_def save_profiles_def outcome_simps prod_case_Some split: if_splits)

lemma q_openapi_endpoint: "quiet_endpoint openapi_endpoint"
  by (rule quietI) (auto simp: openapi_endpoint_def save_profiles_def outcome_simps prod_case_Some split: if_splits)

lemmas quiet_endpoints = q_endpoint_Events q_endpoint_PendingPairRequest q_endpoint_Pair q_endpoint_UnpairClient q_endpoint_PairedClients q_endpoint_UpdateClientSettings q_endpoint_Apps q_endpoint_AddApp q_endpoint_RemoveApp q_endpoint_Profiles q_endpoint_AddProfile q_endpoint_RemoveProfile q_endpoint_StreamSessions q_endpoint_Lobbies q_endpoint_GetIcon q_endpoint_DockerInspectImage q_endpoint_DockerPullImage q_openapi_endpoint

lemma moves_session_event:
  assumes "fire_for_session env parsed ev st = Some (st', outs)" "\<And>i. request_event env req st (ev i)"
  shows "api_moves env req st (api_hub st')"
  by (insert assms, auto simp: fire_for_session_def outcome_simps; ((rule moves_same, simp; fail) | (erule moves_fire, simp add: assms(2); fail))?)

lemma moves_start:
  assumes "endpoint_StreamSessionStart env req st = Some (st', outs)"
  shows "api_moves env req st (api_hub st')"
proof -
  have two: "api_moves env req st (api_hub s2)"
    if "fire_on env (VideoSessionEvent v) st = Some s1" "fire_on env (AudioSessionEvent a) s1 = Some s2" for v a s1 s2
    using that by (intro api_moves.events [of "[VideoSessionEvent v, AudioSessionEvent a]"])
      (auto dest!: fire_on_Some)
  show ?thesis using assms
    by (auto simp: endpoint_StreamSessionStart_def outcome_simps moves_same intro: two)
qed

lemma new_session_fields:
  "create_stream_session hashf getenv rnd host app client dm n k v = Inr s \<Longrightarrow>
    ss_app s = Some app \<and> ss_session_id s = hashf (pc_client_cert client)"
  by (cases "session_ports getenv") (auto simp: create_stream_session_def get_client_id_def Let_def)

lemma moves_add:
  assumes "endpoint_StreamSessionAdd env req st = Some (st', outs)"
  shows "api_moves env req st (api_hub st')"
proof -
  have app: "ss_app s \<noteq> None" "\<exists>c. ss_session_id s = ae_hash env c"
    if "requested_session env cfg ss app client = Some s" for cfg ss app client s
    using that by (auto simp: requested_session_def outcome_simps dest!: new_session_fields)
  have "api_moves env req st (api_hub st1)"
    if "requested_session env cfg ss a c = Some s" "fire_on env (StreamSessionEvent s) (add_session s st) = Some st1"
    for cfg ss a c s st1
    using api_moves.added [OF app(1) [OF that(1)] fire_on_Some [OF that(2)] app(2) [OF that(1)]] .
  with assms show ?thesis
    by (auto simp: endpoint_StreamSessionAdd_def outcome_simps moves_same)
qed

lemma own_fired: "\<forall>a \<in> set as. own_action ss a \<Longrightarrow> ev \<in> set (fired_by as) \<Longrightarrow> device_event ev"
  by (induction as rule: fired_by.induct) auto

lemma moves_input:
  assumes "endpoint_StreamSessionHandleInput env req st = Some (st', outs)"
  shows "api_moves env req st (api_hub st')"
proof -
  have fired: "\<forall>ev \<in> set (fired_by (drop (length (sd_out dv)) (sd_out dv'))). harmless ev"
    if handled: "handle_input (ae_input env) (ae_battery env) ss pkt dv = Inr dv'" for ss pkt dv dv'
  proof
    obtain as where as: "sd_out dv' = sd_out dv @ as" "\<forall>a \<in> set as. own_action ss a"
      using extends_handle_input [OF handled] by (auto simp: extends_def)
    fix ev assume "ev \<in> set (fired_by (drop (length (sd_out dv)) (sd_out dv')))"
    then have "device_event ev" using own_fired [OF as(2)] as(1) by simp
    then show "harmless ev" by (cases ev) simp_all
  qed
  show ?thesis using assms
    by (auto simp: endpoint_StreamSessionHandleInput_def outcome_simps moves_same
        dest!: fire_all_Some intro: api_moves.events [OF fired])
qed

lemma moves_runner:
  assumes "endpoint_RunnerStart env req st = Some (st', outs)"
  shows "api_moves env req st (api_hub st')"
proof -
  have "s \<in> set (hub_sessions (api_hub st))" if "get_session_by_id (hub_sessions (api_hub st)) i = Some s" for i s
    using get_session_mem [OF that] by simp
  note this [simp]
  show ?thesis
    by (insert assms, auto simp: endpoint_RunnerStart_def outcome_simps; ((rule moves_same, simp; fail) | (erule moves_fire, simp; fail))?)
qed

lemma moves_create:
  assumes "endpoint_LobbyCreate env req st = Some (st', outs)"
  shows "api_moves env req st (api_hub st')"
  by (insert assms, auto simp: endpoint_LobbyCreate_def outcome_simps create_lobby_ev_def split: if_splits; ((rule moves_same, simp; fail) | (erule moves_fire, simp; fail))?)

lemma moves_join:
  assumes "endpoint_LobbyJoin env req st = Some (st', outs)" "hr_method req = POST" "hr_path req = ''/api/v1/lobbies/join''"
  shows "api_moves env req st (api_hub st')"
  by (insert assms, auto simp: endpoint_LobbyJoin_def outcome_simps split: if_splits; ((rule moves_same, simp; fail) | (erule moves_fire, simp; fail))?)

lemma moves_leave:
  assumes "endpoint_LobbyLeave env req st = Some (st', outs)"
  shows "api_moves env req st (api_hub st')"
  by (insert assms, auto simp: endpoint_LobbyLeave_def outcome_simps; ((rule moves_same, simp; fail) | (erule moves_fire, simp; fail))?)

lemma moves_stop:
  assumes "endpoint_LobbyStop env req st = Some (st', outs)"
  shows "api_moves env req st (api_hub st')"
  by (insert assms, auto simp: endpoint_LobbyStop_def outcome_simps; ((rule moves_same, simp; fail) | (erule moves_fire, simp; fail))?)

lemma request_moves:
  assumes "handle_request env req st = Some (st', outs)"
  shows "api_moves env req st (api_hub st')"
proof (cases "map_of endpoints (hr_method req, hr_path req)")
  case None
  with assms show ?thesis by (auto simp: handle_request_def close_socket_def intro: moves_same)
next
  case (Some e)
  then have e: "e env req st = Some (st', outs)" using assms by (simp add: handle_request_def)
  have quiet: ?thesis if "quiet_endpoint e" using that e unfolding quiet_endpoint_def by (blast intro: moves_same)
  have "((hr_method req, hr_path req), e) \<in> set endpoints" using Some by (rule map_of_SomeD)
  then consider "quiet_endpoint e" | "e = endpoint_StreamSessionAdd" | "e = endpoint_StreamSessionStart"
    | "e = endpoint_StreamSessionPause" | "e = endpoint_StreamSessionStop" | "e = endpoint_StreamSessionHandleInput"
    | "e = endpoint_RunnerStart" | "e = endpoint_LobbyCreate"
    | "e = endpoint_LobbyJoin" "hr_method req = POST" "hr_path req = ''/api/v1/lobbies/join''"
    | "e = endpoint_LobbyLeave" | "e = endpoint_LobbyStop"
    unfolding endpoints_table list.set insert_iff empty_iff prod.inject by (elim disjE conjE) (simp_all add: quiet_endpoints)
  then show ?thesis
    by cases (use e quiet in \<open>auto intro: moves_add moves_start moves_input moves_runner moves_create moves_join
      moves_leave moves_stop moves_session_event simp: endpoint_StreamSessionPause_def endpoint_StreamSessionStop_def\<close>)
qed

lemma served:
  "handle_request env \<lparr>hr_socket = socket, hr_method = m, hr_path = p, hr_query_string = q, hr_http_version = v,
     hr_headers = hs, hr_body = b\<rparr> st = Some r \<Longrightarrow> \<exists>req. hr_socket req = socket \<and> handle_request env req st = Some r"
  by force

lemma connection_moves:
  assumes "start_connection_api env socket raw extra st = Some (st', outs)"
  shows "api_hub st' = api_hub st \<or> (\<exists>req. hr_socket req = socket \<and> handle_request env req st = Some (st', outs))"
proof (cases "split_headers raw")
  case None
  with assms show ?thesis by (auto simp: start_connection_api_def close_socket_def)
next
  case (Some x)
  obtain t rest m path query v headers where "x = (t, rest)" "ae_parse env t = (m, path, query, v, headers)"
    by (metis prod.collapse)
  with assms Some show ?thesis
    by (auto simp: start_connection_api_def close_socket_def Let_def split: if_split_asm dest!: served)
qed

subsection \<open>Reachable states\<close>

text \<open>The identifiers that are drawn are new and no numbers (they are UUIDs), and hashes have 64 bits.\<close>

definition draws_ok :: "api_env \<Rightarrow> api_state \<Rightarrow> bool" where
  "draws_ok env st \<longleftrightarrow> (\<forall>lb \<in> set (hub_lobbies (api_hub st)). lb_id lb \<noteq> ae_uuid env 0) \<and>
     (\<forall>n. ae_uuid env 0 \<noteq> dec n) \<and> (\<forall>c. ae_hash env c < 2 ^ 64)"

lemma request_event_ok:
  "\<lbrakk>request_event env req st ev; draws_ok env st; have_apps (api_hub st)\<rbrakk> \<Longrightarrow> event_ok ev (api_hub st)"
  by (cases ev) (auto simp: draws_ok_def have_apps_def)

lemma harmless_ok: "harmless ev \<Longrightarrow> event_ok ev h"
  by (cases ev) auto

lemma harmless_reachable:
  "\<lbrakk>hub_reachable env h; \<forall>ev \<in> set evs. harmless ev; emit_all env evs h = Some h'\<rbrakk> \<Longrightarrow> hub_reachable env h'"
proof (induction evs arbitrary: h)
  case (Cons ev evs)
  then obtain h1 where h1: "emit4 env ev h = Some h1" "emit_all env evs h1 = Some h'" by (auto simp: bind_eq_Some_conv)
  then have "hub_step env h h1" using Cons.prems(2) by (intro hub_step.fired harmless_ok) auto
  then have "hub_reachable env h1" by (rule hub_reachable.step [OF Cons.prems(1)])
  then show ?case using Cons.IH h1(2) Cons.prems(2) by simp
qed simp

lemma added_reachable:
  assumes "hub_reachable (ae_hub env) (api_hub st)" "ss_session_id s < 2 ^ 64" "ss_app s \<noteq> None"
  shows "hub_reachable (ae_hub env) (api_hub (add_session s st))"
  using hub_reachable.step [OF assms(1) hub_step.launched [OF assms(2,3)]] by (simp add: add_session_def)

lemma moves_reachable:
  assumes "api_moves env req st h'" "hub_reachable (ae_hub env) (api_hub st)" "draws_ok env st"
  shows "hub_reachable (ae_hub env) h'"
  using assms(1)
proof cases
  case same
  then show ?thesis using assms(2) by simp
next
  case (event ev)
  then have "event_ok ev (api_hub st)" using request_event_ok assms(2,3) reachable_apps by blast
  then show ?thesis using event(2) hub_reachable.step [OF assms(2)] hub_step.fired by blast
next
  case (added s)
  then have "ss_session_id s < 2 ^ 64" using assms(3) by (auto simp: draws_ok_def)
  from added_reachable [OF assms(2) this added(1)] show ?thesis
    by (rule hub_reachable.step) (use added in \<open>auto intro!: hub_step.fired [OF _ added(2)]\<close>)
next
  case (events evs)
  then show ?thesis using harmless_reachable assms(2) by blast
qed

subsection \<open>Who gets into a lobby\<close>

lemma spec_new_member:
  assumes "(lb, m') \<in> set (snd (spec_event mf r ev (run, v)))" "s \<in> set m'"
  shows "\<exists>m. (lb, m) \<in> set v \<and> (s \<in> set m \<or> (\<exists>i p. ev = JoinLobbyEvent (lb_id lb) i p \<and> s = dec i))"
proof -
  have leave: "\<exists>m. (lb, m) \<in> set v \<and> s \<in> set m" if "(lb, m') \<in> set (spec_leave run' l i v)" for run' l i
    using that assms(2) by (auto simp: spec_leave_def split: if_splits)
  have over: "\<exists>m. (lb, m) \<in> set v \<and> s \<in> set m" if "(lb, m') \<in> set (spec_over run' i v)" for run' i
    using that leave assms(2) by (auto simp: spec_over_def split: option.splits)
  show ?thesis
  proof (cases ev)
    case (JoinLobbyEvent l i p)
    then show ?thesis using assms by (auto simp: spec_join_def split: if_splits)
  qed (use assms leave over in \<open>auto simp: spec_stop_def Let_def split: if_splits\<close>)
qed

lemma emit_new_member:
  assumes "hub_reachable env h" "event_ok ev h" "emit4 env ev h = Some h'" "lb \<in> set (hub_lobbies h')" "s \<in> set (connected h' lb)"
  shows "lb \<in> set (hub_lobbies h) \<and> (s \<in> set (connected h lb) \<or> (\<exists>i p. ev = JoinLobbyEvent (lb_id lb) i p \<and> s = dec i))"
proof -
  have "hub_ok h" using reachable_good [OF assms(1)] by (simp add: hub_good_def)
  from fire_implements [OF this assms(2), of 0 env] assms(3)
  have "view h' = snd (spec_event (he_moonlight_first env) (hub_next_ref h) ev (running h, view h))"
    by (auto simp: emit4_def numeral_eq_Suc) (metis sndI)
  moreover have "(lb, connected h' lb) \<in> set (view h')" using assms(4) by (simp add: view_member)
  ultimately have "(lb, connected h' lb) \<in> set (snd (spec_event (he_moonlight_first env) (hub_next_ref h) ev (running h, view h)))"
    by metis
  from spec_new_member [OF this assms(5)] show ?thesis by (auto simp: view_member)
qed

lemma harmless_members:
  "\<lbrakk>hub_reachable env h; \<forall>ev \<in> set evs. harmless ev; emit_all env evs h = Some h'; lb \<in> set (hub_lobbies h');
    s \<in> set (connected h' lb)\<rbrakk> \<Longrightarrow> lb \<in> set (hub_lobbies h) \<and> s \<in> set (connected h lb)"
proof (induction evs arbitrary: h)
  case (Cons ev evs)
  then obtain h1 where h1: "emit4 env ev h = Some h1" "emit_all env evs h1 = Some h'" by (auto simp: bind_eq_Some_conv)
  have ok: "event_ok ev h" using Cons.prems(2) harmless_ok by simp
  have "hub_reachable env h1" using hub_reachable.step [OF Cons.prems(1) hub_step.fired [OF ok h1(1)]] .
  then have "lb \<in> set (hub_lobbies h1) \<and> s \<in> set (connected h1 lb)" using Cons h1(2) by simp
  with emit_new_member [OF Cons.prems(1) ok h1(1)] Cons.prems(2) show ?case by fastforce
qed simp

lemma moves_members:
  assumes "api_moves env req st h'" "hub_reachable (ae_hub env) (api_hub st)" "draws_ok env st"
    "lb \<in> set (hub_lobbies h')" "s \<in> set (connected h' lb)" "s \<notin> set (connected (api_hub st) lb)"
  shows "\<exists>i p. s = dec i \<and> lb \<in> set (hub_lobbies (api_hub st)) \<and> request_event env req st (JoinLobbyEvent (lb_id lb) i p)"
  using assms(1)
proof cases
  case same
  then show ?thesis using assms by simp
next
  case (event ev)
  then have "event_ok ev (api_hub st)" using request_event_ok assms(2,3) reachable_apps by blast
  with emit_new_member [OF assms(2) this event(2) assms(4,5)] event(1) assms(6) show ?thesis by blast
next
  case (added t)
  then have t: "ss_session_id t < 2 ^ 64" using assms(3) by (auto simp: draws_ok_def)
  have c: "connected (api_hub (add_session t st)) lb = connected (api_hub st) lb"
    by (simp add: add_session_def) (simp add: connected_def)
  have "s \<in> set (connected (api_hub (add_session t st)) lb)"
    using emit_new_member [OF added_reachable [OF assms(2) t added(1)] _ added(2) assms(4,5)] added(1) by auto
  then show ?thesis using assms(6) c by simp
next
  case (events evs)
  then show ?thesis using harmless_members [OF assms(2) _ _ assms(4,5)] assms(6) by blast
qed

lemma pin_checked:
  assumes "check_lobby_pin (hub_lobbies h) (lb_id lb) p = None" "hub_ok h" "lb \<in> set (hub_lobbies h)"
  shows "lb_pin lb = p"
  using assms get_lobby_Some [OF assms(2,3)] by (auto simp: check_lobby_pin_def split: if_splits)

subsection \<open>Properties\<close>

text \<open>C11: Whatever is sent to the API's socket, in whatever pieces, the streams and lobbies stay in a
  reachable state, so all their invariants keep holding: the endpoints do not break what the event
  handlers rely on. (The process can still end by an exception.)\<close>

theorem api_stays_reachable:
  assumes "hub_reachable (ae_hub env) (api_hub st)" "draws_ok env st"
    "start_connection_api env socket raw extra st = Some (st', outs)"
  shows "hub_reachable (ae_hub env) (api_hub st')"
  using connection_moves [OF assms(3)] request_moves moves_reachable assms(1,2) by metis

text \<open>C14: The only way for a session into a lobby over the API is a join request that names the lobby
  and carries exactly its PIN (none when it has none). No other endpoint adds a member to a lobby.\<close>

theorem lobby_entered_with_pin:
  assumes "hub_reachable (ae_hub env) (api_hub st)" "draws_ok env st" "handle_request env req st = Some (st', outs)"
    "lobby \<in> set (hub_lobbies (api_hub st'))" "s \<in> set (connected (api_hub st') lobby)"
    "s \<notin> set (connected (api_hub st) lobby)"
  shows "\<exists>i. s = dec i \<and> hr_method req = POST \<and> hr_path req = ''/api/v1/lobbies/join'' \<and>
    js_join (ae_json env) (hr_body req) = Inr (lb_id lobby, i, lb_pin lobby)"
proof -
  have "hub_ok (api_hub st)" using reachable_good [OF assms(1)] by (simp add: hub_good_def)
  with moves_members [OF request_moves [OF assms(3)] assms(1,2,4,5,6)] pin_checked show ?thesis by fastforce
qed

text \<open>How much of a body had arrived together with the headers makes no difference to what the
  request does, nor to the reply.\<close>

theorem body_in_any_pieces:
  assumes "\<forall>headers rest. split_headers raw = Some (headers, rest) \<longrightarrow> extra \<le> length rest"
  shows "start_connection_api env socket raw extra st = start_connection_api env socket raw 0 st"
proof (cases "split_headers raw")
  case None
  then show ?thesis by (simp add: start_connection_api_def)
next
  case (Some x)
  then obtain t rest where "x = (t, rest)" "extra \<le> length rest" using assms by (cases x) auto
  with Some show ?thesis by (auto simp: start_connection_api_def Let_def split: option.split prod.split sum.split)
qed

text \<open>Starting the streams of a session that is not running ends the server: the branch for an
  unknown session reads the session it has just found to be missing, for its log line. The other
  endpoints answer 500 to an unknown session; all of them end the server when the id is no number.\<close>

theorem unknown_session_ends_server:
  assumes "hr_method req = POST" "hr_path req = ''/api/v1/sessions/start''"
    "js_session_start (ae_json env) (hr_body req) = Inr (t, v, a)"
    "stoul t = Inr i" "i \<notin> set (running (api_hub st))"
  shows "handle_request env req st = None"
proof -
  have "map_of endpoints (POST, ''/api/v1/sessions/start'') = Some endpoint_StreamSessionStart"
    by (simp add: endpoints_table)
  moreover have "get_session_by_id (hub_sessions (api_hub st)) i = None" using assms(5) get_session_None by blast
  ultimately show ?thesis using assms
    by (simp add: handle_request_def endpoint_StreamSessionStart_def session_of_def)
qed

lemma split_plain: "CHR 0x0D \<notin> set a \<Longrightarrow> split_headers (a @ s) = map_option (\<lambda>(h, r). (a @ h, r)) (split_headers s)"
  by (induction a) (auto simp: starts_with_def eol_def option.map_comp comp_def case_prod_unfold map_option.identity
      split: option.split)

lemma split_end: "split_headers (eol @ eol @ b) = Some (eol @ eol, b)"
  by (simp add: eol_def starts_with_def)

lemma split_line:
  assumes "c \<noteq> CHR 0x0D"
  shows "split_headers (eol @ c # s) = map_option (\<lambda>(h, r). (eol @ h, r)) (split_headers (c # s))"
  using assms by (cases "split_headers (c # s)") (auto simp: eol_def starts_with_def)

lemma digits_plain: "CHR 0x0D \<notin> set (dec n)" "CHR 0x0D \<notin> set (dec_int i)"
proof -
  show dec: "CHR 0x0D \<notin> set (dec n)" for n using dec_digits [of "CHR 0x0D" n] by (auto simp: is_digit_def)
  then show "CHR 0x0D \<notin> set (dec_int i)" by (simp add: dec_int_def)
qed

text \<open>A reply is framed so that a reader of HTTP finds it: the first empty line ends the headers,
  what follows is the body, and its length is the announced one - whatever the body contains.\<close>

theorem reply_framing:
  "\<exists>lines. split_headers (concat (map out_text (send_http env code r))) =
     Some (lines @ eol @ ''Content-Length: '' @ dec (length (js_write (ae_json env) r)) @ eol @ eol, js_write (ae_json env) r)"
proof -
  let ?b = "js_write (ae_json env) r" and ?l1 = "''HTTP/1.0 '' @ dec_int code @ '' OK''"
  let ?l2 = "''Content-Length: '' @ dec (length ?b)"
  have plain: "CHR 0x0D \<notin> set ?l1" "CHR 0x0D \<notin> set ?l2" by (simp_all add: digits_plain)
  have s2: "split_headers (?l2 @ eol @ eol @ ?b) = Some (?l2 @ eol @ eol, ?b)"
    using split_plain [OF plain(2), of "eol @ eol @ ?b"] split_end by simp
  have "split_headers (eol @ ?l2 @ eol @ eol @ ?b) = Some (eol @ ?l2 @ eol @ eol, ?b)"
    using split_line [of "CHR ''C''" "''ontent-Length: '' @ dec (length ?b) @ eol @ eol @ ?b"] s2 by simp
  then have "split_headers (?l1 @ eol @ ?l2 @ eol @ eol @ ?b) = Some (?l1 @ eol @ ?l2 @ eol @ eol, ?b)"
    using split_plain [OF plain(1), of "eol @ ?l2 @ eol @ eol @ ?b"] by simp
  moreover have "concat (map out_text (send_http env code r)) = ?l1 @ eol @ ?l2 @ eol @ eol @ ?b"
    by (simp add: send_http_def Let_def)
  ultimately have "split_headers (concat (map out_text (send_http env code r))) =
      Some (?l1 @ eol @ ''Content-Length: '' @ dec (length ?b) @ eol @ eol, ?b)" by simp
  then show ?thesis by blast
qed

text \<open>Changing the settings of a client never changes who is paired: the certificates stay as they
  are, in order, and only clients with the given id get other settings or another folder.\<close>

theorem settings_keep_identity:
  assumes "endpoint_UpdateClientSettings env req st = Some (st', outs)"
    "inj_on (ae_hash env) (pc_client_cert ` set (cfg_paired_clients (api_config st)))"
  shows "map pc_client_cert (cfg_paired_clients (api_config st')) = map pc_client_cert (cfg_paired_clients (api_config st)) \<and>
    (\<forall>c. c \<in> set (cfg_paired_clients (api_config st)) \<longrightarrow>
      (\<forall>payload. js_client_settings (ae_json env) (hr_body req) = Some payload \<longrightarrow>
        stoul (uc_client_id payload) \<noteq> Inr (get_client_id (ae_hash env) c)) \<longrightarrow>
      c \<in> set (cfg_paired_clients (api_config st'))) \<and>
    api_hub st' = api_hub st"
proof (cases "js_client_settings (ae_json env) (hr_body req)")
  case None
  with assms(1) show ?thesis by (auto simp: endpoint_UpdateClientSettings_def answer_def)
next
  case (Some payload)
  let ?cs = "cfg_paired_clients (api_config st)"
  show ?thesis
  proof (cases "get_client_by_id (ae_hash env) (api_config st) (uc_client_id payload)")
    case (Inl e)
    with assms(1) Some show ?thesis by (auto simp: endpoint_UpdateClientSettings_def)
  next
    case (Inr found)
    then obtain i where i: "stoul (uc_client_id payload) = Inr i"
        "found = List.find (\<lambda>c. get_client_id (ae_hash env) c = i) ?cs"
      by (cases "stoul (uc_client_id payload)") (auto simp: get_client_by_id_def)
    show ?thesis
    proof (cases found)
      case None
      with assms(1) Some Inr show ?thesis by (auto simp: endpoint_UpdateClientSettings_def answer_def)
    next
      case found: (Some c)
      then have c: "c \<in> set ?cs" "get_client_id (ae_hash env) c = i" using i(2) by (auto dest: find_Some_in)
      define merged where "merged = \<lparr>pc_client_cert = pc_client_cert c,
        pc_app_state_folder = value_or (uc_app_state_folder payload) (pc_app_state_folder c),
        pc_settings = merge_settings (value_or (uc_settings payload) no_settings) (pc_settings c)\<rparr>"
      have st': "cfg_paired_clients (api_config st') = map (update_client_fn (ae_hash env) i merged) ?cs" "api_hub st' = api_hub st"
        using assms(1) Some Inr found i(1)
        by (auto simp: endpoint_UpdateClientSettings_def answer_def update_client_settings_def update_toml_def Let_def merged_def
            split: option.splits)
      have same: "pc_client_cert x = pc_client_cert c" if "x \<in> set ?cs" "get_client_id (ae_hash env) x = i" for x
        using assms(2) that c by (auto simp: get_client_id_def inj_on_def)
      then have "map pc_client_cert (cfg_paired_clients (api_config st')) = map pc_client_cert ?cs"
        unfolding st' by (auto simp: update_client_fn_def merged_def)
      moreover have "x \<in> set (cfg_paired_clients (api_config st'))"
        if "x \<in> set ?cs" "get_client_id (ae_hash env) x \<noteq> i" for x
        unfolding st' set_map using that by (intro image_eqI [of _ _ x]) (simp_all add: update_client_fn_def)
      ultimately show ?thesis using st'(2) i(1) Some by auto
    qed
  qed
qed

text \<open>C32: A lobby that was created over the API can be joined with its PIN: when the new lobby was up in
  time and the session is running, the join answers 200 and the session is its only member.\<close>

theorem created_lobby_can_be_joined:
  assumes "hub_reachable (ae_hub env) (api_hub st)" "draws_ok env st" "default_settings env = Some d" "ae_lobby_up env"
    "js_create_lobby (ae_json env) (hr_body r1) = Inr r" "js_join (ae_json env) (hr_body r2) = Inr (ae_uuid env 0, i, cr_pin r)"
    "i \<in> set (running (api_hub st))" "get_runner (cr_runner r) = Some runner"
  shows "\<exists>st1 st2 lobby. endpoint_LobbyCreate env r1 st = Some (st1, send_http env 200 (Lobby_created (ae_uuid env 0))) \<and>
    endpoint_LobbyJoin env r2 st1 = Some (st2, send_http env 200 Success) \<and>
    view (api_hub st2) = view (api_hub st) @ [(lobby, [dec i])] \<and> lb_id lobby = ae_uuid env 0 \<and> lb_pin lobby = cr_pin r"
proof -
  let ?c = "create_lobby_ev (ae_uuid env 0) r (merge_settings (value_or (cr_client_settings r) no_settings) d) runner"
    and ?h = "api_hub st" and ?e = "ae_hub env"
  let ?n = "note_effect (Fired (CreateLobbyEvent ?c)) ?h" and ?lb = "new_lobby ?c (hub_next_ref ?h)"
  have ok: "hub_ok ?n" and vn: "view ?n = view ?h" "running ?n = running ?h"
    using quiet_ok [OF quiet_note] quiet_view [OF quiet_note] reachable_good [OF assms(1)] by (simp_all add: hub_good_def)
  have new: "\<forall>lb \<in> set (hub_lobbies ?n). lb_id lb \<noteq> cl_id ?c" "\<forall>n. cl_id ?c \<noteq> dec n"
    using assms(2) by (simp_all add: draws_ok_def create_lobby_ev_def)
  define h1 where "h1 = on_create_lobby ?e ?c ?n"
  have h1: "hub_ok h1" "hub_sessions h1 = hub_sessions ?h" "view h1 = view ?h @ [(?lb, [])]"
    using created [OF ok new, of ?e] vn by (simp_all add: h1_def)
  have lb: "lb_id ?lb = ae_uuid env 0" "lb_pin ?lb = cr_pin r" by (simp_all add: new_lobby_def create_lobby_ev_def)
  have "emit4 ?e (CreateLobbyEvent ?c) ?h = Some h1" by (simp add: emit4_def numeral_eq_Suc fire_lobby h1_def)
  then have created: "endpoint_LobbyCreate env r1 st = Some (st\<lparr>api_hub := h1\<rparr>, send_http env 200 (Lobby_created (ae_uuid env 0)))"
    using assms(3,4,5,8) by (simp add: endpoint_LobbyCreate_def fire_on_def answer_def)
  have in_h1: "?lb \<in> set (hub_lobbies h1)" "connected h1 ?lb = []"
    using h1(3) view_member [of ?lb "[]" h1] by simp_all
  have pin: "check_lobby_pin (hub_lobbies h1) (ae_uuid env 0) (cr_pin r) = None"
    using get_lobby_Some [OF h1(1) in_h1(1)] lb by (simp add: check_lobby_pin_def)
  let ?j = "note_effect (Fired (JoinLobbyEvent (ae_uuid env 0) i (cr_pin r))) h1"
  have okj: "hub_ok ?j" and vj: "view ?j = view h1" "running ?j = running h1"
    using quiet_ok [OF quiet_note h1(1)] quiet_view [OF quiet_note] by simp_all
  have run: "i \<in> set (running h1)" using assms(7) h1(2) by (simp add: running_def)
  then obtain s where s: "get_session_by_id (hub_sessions ?j) i = Some s" "s \<in> set (hub_sessions ?j)"
    using get_session_None [of ?j i] get_session_mem [of ?j i] vj(2) by fastforce
  obtain h2 tr where h2: "on_join_lobby (fire_event 3 ?e) (ae_uuid env 0) i ?j = Some h2"
      "view h2 = spec_join (running h1) (ae_uuid env 0) i (view h1)" "hub_trace h2 = tr @ [Join_result '''']"
    using join_accepted [OF okj, of ?lb s i 1 ?e] s in_h1 lb vj by (auto simp: numeral_eq_Suc)
  have "emit4 ?e (JoinLobbyEvent (ae_uuid env 0) i (cr_pin r)) h1 = Some h2"
    using h2(1) by (simp add: emit4_def numeral_eq_Suc fire_lobby)
  then have joined: "endpoint_LobbyJoin env r2 (st\<lparr>api_hub := h1\<rparr>) =
      Some (st\<lparr>api_hub := h2\<rparr>, send_http env 200 Success)"
    using assms(6) pin h2(3) by (simp add: endpoint_LobbyJoin_def fire_on_def join_message_def answer_def)
  have "spec_join (running h1) (ae_uuid env 0) i (view ?h) = view ?h"
    using assms(2) unfolding spec_join_def by (auto simp: draws_ok_def view_member intro!: map_idI)
  then have "view h2 = view ?h @ [(?lb, [dec i])]"
    unfolding h2(2) h1(3) using run lb by (simp add: spec_join_def)
  with created joined lb show ?thesis
    by (intro exI [of _ "st\<lparr>api_hub := h1\<rparr>"] exI [of _ "st\<lparr>api_hub := h2\<rparr>"] exI [of _ ?lb]) simp
qed

lemma find_map_keep: "(\<And>x. P (f x) = P x) \<Longrightarrow> List.find P (map f xs) = map_option f (List.find P xs)"
  by (induction xs) auto

text \<open>Adding an application and removing it again leaves the configuration as it was, and the file
  is never touched (the agent owns the list); while it is there it is the last of the Moonlight
  applications and, when they all have the caps of their video producer, so has it.\<close>

theorem application_added_and_removed:
  assumes "js_app (ae_json env) (hr_body r1) = Inr app" "js_app_delete (ae_json env) (hr_body r2) = Inr (aj_id app)"
    "\<forall>p \<in> set (cfg_profiles (api_config st)). \<forall>x \<in> set (pr_apps p). app_id x \<noteq> aj_id app"
    "get_moonlight_profile (api_config st) = Some p" "pr_apps p \<noteq> []"
    "\<forall>p \<in> set (cfg_profiles (api_config st)). \<forall>x \<in> set (pr_apps p). app_video_producer_buffer_caps x \<noteq> []"
    "get_runner (aj_runner app) \<noteq> None"
  shows "\<exists>st1 a. endpoint_AddApp env r1 st = Some (st1, send_http env 200 Success) \<and>
    get_moonlight_profile (api_config st1) = Some (p\<lparr>pr_apps := pr_apps p @ [a]\<rparr>) \<and>
    app_id a = aj_id app \<and> app_video_producer_buffer_caps a \<noteq> [] \<and> api_disk st1 = api_disk st \<and>
    endpoint_RemoveApp env r2 st1 = Some (st, send_http env 200 Success)"
proof -
  let ?cfg = "api_config st"
  let ?profiles = "cfg_profiles ?cfg" and ?i = "inherit_caps (cfg_profiles (api_config st)) app"
  have runner: "aj_runner (fold inherit_from ps a) = aj_runner a" for ps a
    by (induction ps arbitrary: a) (auto simp: inherit_from_def split: list.split)
  then have "get_runner (aj_runner ?i) \<noteq> None" using assms(7) by (simp add: inherit_caps_def)
  then obtain a :: App where a: "app_of_json ?i = Some a" by (auto simp: app_of_json_def)
  let ?st1 = "st\<lparr>api_config := update_profiles_in_memory (on_moonlight_apps (\<lambda>apps. apps @ [a]) ?profiles) ?cfg\<rparr>"
  have p: "p \<in> set ?profiles" "pr_id p = MOONLIGHT_PROFILE_ID"
    using assms(4) by (auto simp: get_moonlight_profile_def dest: find_Some_in)
  have ids: "aj_id (fold inherit_from ps a) = aj_id a" for ps a
    by (induction ps arbitrary: a) (auto simp: inherit_from_def split: list.split)
  then have id_a: "app_id a = aj_id app"
    using a by (auto simp: app_of_json_def inherit_caps_def)
  have caps: "aj_video_producer_buffer_caps (fold inherit_from ps a) \<notin> {None, Some []}"
    if "\<forall>p \<in> set ps. \<forall>x \<in> set (pr_apps p). app_video_producer_buffer_caps x \<noteq> []"
      "aj_video_producer_buffer_caps a \<notin> {None, Some []} \<or> (\<exists>p \<in> set ps. pr_id p = MOONLIGHT_PROFILE_ID \<and> pr_apps p \<noteq> [])" for ps a
    using that
  proof (induction ps arbitrary: a)
    case (Cons q ps)
    have "aj_video_producer_buffer_caps (inherit_from q a) \<notin> {None, Some []} \<or>
        (\<exists>p \<in> set ps. pr_id p = MOONLIGHT_PROFILE_ID \<and> pr_apps p \<noteq> [])"
      using Cons.prems by (cases "pr_apps q") (auto simp: inherit_from_def)
    then show ?case using Cons by simp
  qed simp
  have "aj_video_producer_buffer_caps (fold inherit_from ?profiles app) \<notin> {None, Some []}"
    by (rule caps [OF assms(6)]) (use p assms(5) in blast)
  then have "app_video_producer_buffer_caps a \<noteq> []"
    using a by (auto simp: app_of_json_def inherit_caps_def split: option.splits if_splits)
  moreover have "get_moonlight_profile (api_config ?st1) = Some (p\<lparr>pr_apps := pr_apps p @ [a]\<rparr>)"
  proof -
    let ?f = "\<lambda>p. if pr_id p = MOONLIGHT_PROFILE_ID then p\<lparr>pr_apps := pr_apps p @ [a]\<rparr> else p"
    have "List.find (\<lambda>p. pr_id p = MOONLIGHT_PROFILE_ID) (map ?f ?profiles) =
        map_option ?f (List.find (\<lambda>p. pr_id p = MOONLIGHT_PROFILE_ID) ?profiles)"
      by (rule find_map_keep) simp
    then show ?thesis using assms(4) p(2)
      by (simp add: get_moonlight_profile_def update_profiles_in_memory_def on_moonlight_apps_def)
  qed
  moreover have "on_moonlight_apps (filter (\<lambda>x. app_id x \<noteq> aj_id app)) (on_moonlight_apps (\<lambda>apps. apps @ [a]) ?profiles) = ?profiles"
  proof -
    have "filter (\<lambda>x. app_id x \<noteq> aj_id app) (pr_apps q) = pr_apps q" if "q \<in> set ?profiles" for q
      using assms(3) that by (simp add: filter_id_conv)
    then show ?thesis using id_a by (auto simp: on_moonlight_apps_def intro!: map_idI)
  qed
  ultimately show ?thesis
    using assms(1,2) id_a
    by (intro exI [of _ ?st1] exI [of _ a])
      (simp add: a endpoint_AddApp_def endpoint_RemoveApp_def answer_def update_profiles_in_memory_def Let_def)
qed

subsection \<open>Concrete requests\<close>

definition demo_app_json :: AppJson where
  "demo_app_json = (app_to_json demo_app)\<lparr>aj_id := ''99'', aj_video_producer_buffer_caps := None\<rparr>"

definition demo_lobby_request :: CreateLobbyRequest where
  "demo_lobby_request = \<lparr>cr_profile_id = ''p'', cr_name = ''Couch'', cr_icon_png_path = None, cr_multi_user = False,
     cr_pin = Some [1, 2], cr_stop_when_everyone_leaves = True, cr_video_settings = cl_video_settings demo_lobby,
     cr_channel_count = 2, cr_client_settings = None, cr_runner_state_folder = ''couch'', cr_runner = AppCMD ''game''\<rparr>"

text \<open>A reader that understands one request of each kind.\<close>

definition demo_json :: api_json where
  "demo_json = \<lparr>js_write = (\<lambda>_. ''{}''), js_pair = (\<lambda>_. Inl ''no''), js_unpair = (\<lambda>_. None),
     js_app = (\<lambda>_. Inr demo_app_json), js_app_delete = (\<lambda>_. Inr ''99''), js_profile = (\<lambda>_. Inl ''no''),
     js_profile_remove = (\<lambda>_. Inl ''no''), js_session = (\<lambda>_. Inl ''no''), js_session_start = (\<lambda>_. Inl ''no''),
     js_session_id = (\<lambda>_. Inr (dec 42)), js_input = (\<lambda>_. Inl ''no''), js_create_lobby = (\<lambda>_. Inr demo_lobby_request),
     js_join = (\<lambda>_. Inr (''room'', 42, Some [1, 2])), js_leave = (\<lambda>_. Inr (''room'', 42)),
     js_stop = (\<lambda>_. Inr (''room'', Some [1, 2])), js_runner = (\<lambda>_. Inl ''no''),
     js_client_settings = (\<lambda>_. Some \<lparr>uc_client_id = dec 7, uc_app_state_folder = Some ''new'', uc_settings = None\<rparr>),
     js_pull = (\<lambda>_. None), js_pull_start = (\<lambda>_. ''{}''), js_pull_end = (\<lambda>_ _. ''{}''), js_event = (\<lambda>_. (''e'', ''{}''))\<rparr>"

definition demo_api_env :: api_env where
  "demo_api_env = \<lparr>ae_json = demo_json, ae_hash = (\<lambda>c. if c = ''PEM'' then 42 else 7), ae_toml = demo_toml,
     ae_toml_error = ''toml'', ae_hub = demo_hub_env, ae_input = demo_env, ae_battery = PAD_DISCHARGING,
     ae_uuid = (\<lambda>n. if n = 0 then ''room'' else ''folder''), ae_random = demo_random, ae_lobby_up = True,
     ae_file = (\<lambda>_. None), ae_url = (\<lambda>_. None), ae_inspect = (\<lambda>_. None), ae_pull = (\<lambda>_. ([], True)), ae_openapi = ''{}'',
     ae_parse = (\<lambda>_. (''POST'', ''/api/v1/sessions/stop'', [], ''1.0'', [(''Content-Length'', dec 2)]))\<rparr>"

definition demo_req :: "string \<Rightarrow> HTTPRequest" where
  "demo_req path = \<lparr>hr_socket = 1, hr_method = POST, hr_path = path, hr_query_string = [], hr_http_version = ''1.0'',
     hr_headers = [], hr_body = ''{}''\<rparr>"

definition demo_api :: "hub \<Rightarrow> api_state" where
  "demo_api h = \<lparr>api_hub = h, api_devices = (\<lambda>_. fresh_devices), api_pending = [], api_pins = [],
     api_config = demo_rest_config, api_disk = None, api_sockets = []\<rparr>"

lemma demo_draws:
  assumes "hub_lobbies h = [new_lobby demo_lobby 0]"
  shows "draws_ok demo_api_env (demo_api h)"
  using assms letter_not_dec [of "CHR ''r''" "''oom''"]
  by (simp add: draws_ok_def demo_api_env_def demo_api_def new_lobby_def demo_lobby_def is_digit_def)

lemma demo_running:
  obtains h where "hub_reachable (ae_hub demo_api_env) h" "running h = [42]" "view h = [(new_lobby demo_lobby 0, [])]"
    "hub_lobbies h = [new_lobby demo_lobby 0]" "draws_ok demo_api_env (demo_api h)"
proof -
  obtain h where h: "hub_reachable demo_hub_env h" "running h = [42]" "view h = [(new_lobby demo_lobby 0, [])]"
    using demo_reachable [of False] by (auto simp: demo_env_order)
  then have "hub_lobbies h = [new_lobby demo_lobby 0]" by (auto simp: view_def map_eq_Cons_conv)
  with h demo_draws [OF this] show ?thesis by (intro that) (simp_all add: demo_api_env_def)
qed

text \<open>Stopping the running session, over the socket.\<close>

theorem api_stays_reachable_witness:
  "\<exists>h st' outs. running h = [42] \<and>
     start_connection_api demo_api_env 1 (''POST /api/v1/sessions/stop'' @ eol @ eol @ ''{}'') 2 (demo_api h) = Some (st', outs) \<and>
     outs = send_http demo_api_env 200 Success \<and> running (api_hub st') = [] \<and> hub_reachable demo_hub_env (api_hub st')"
proof -
  obtain h where h: "hub_reachable (ae_hub demo_api_env) h" "running h = [42]" "draws_ok demo_api_env (demo_api h)"
    by (rule demo_running)
  obtain h' where h': "emit4 demo_hub_env (StopStreamEvent 42) h = Some h'" "running h' = []"
    using fire_stop_stream [of h 0 demo_hub_env 42] reachable_good [OF h(1)] h(2)
    by (auto simp: hub_good_def emit4_def numeral_eq_Suc)
  obtain s where "get_session_by_id (hub_sessions h) 42 = Some s"
    using get_session_None [of h 42] h(2) by (cases "get_session_by_id (hub_sessions h) 42") auto
  then have stop: "endpoint_StreamSessionStop demo_api_env req (demo_api h) = Some (demo_api h', send_http demo_api_env 200 Success)" for req
    using h'(1) stoul_dec [of 42] by (simp add: endpoint_StreamSessionStop_def fire_for_session_def session_of_def fire_on_def demo_api_env_def
        demo_json_def demo_api_def answer_def)
  have "split_headers (''POST /api/v1/sessions/stop'' @ eol @ eol @ ''{}'') = Some (''POST /api/v1/sessions/stop'' @ eol @ eol, ''{}'')"
    using split_plain [of "''POST /api/v1/sessions/stop''" "eol @ eol @ ''{}''"] split_end by simp
  moreover have "map_of endpoints (POST, ''/api/v1/sessions/stop'') = Some endpoint_StreamSessionStop"
    by (simp add: endpoints_table)
  ultimately have conn: "start_connection_api demo_api_env 1 (''POST /api/v1/sessions/stop'' @ eol @ eol @ ''{}'') 2 (demo_api h) =
      Some (demo_api h', send_http demo_api_env 200 Success)"
    using stop stoul_dec [of 2]
    by (simp add: start_connection_api_def demo_api_env_def get_header_def method_of_def handle_request_def lower_def)
  from api_stays_reachable [OF _ h(3) conn] h conn h'(2) show ?thesis
    by (auto simp: demo_api_def demo_api_env_def)
qed

lemma stoul_1000: "stoul ''1000'' = Inr 1000"
proof -
  have "''1000'' = [digit 1, digit 0, digit 0, digit 0]" by code_simp
  then have "''1000'' = dec 1000" by (simp add: dec.simps)
  then show ?thesis by (simp only: stoul_dec) simp
qed

theorem created_lobby_can_be_joined_witness:
  "\<exists>h st1 st2 lobby. running h = [42] \<and>
     endpoint_LobbyCreate demo_api_env (demo_req ''create'') (demo_api h) = Some (st1, send_http demo_api_env 200 (Lobby_created ''room'')) \<and>
     endpoint_LobbyJoin demo_api_env (demo_req ''join'') st1 = Some (st2, send_http demo_api_env 200 Success) \<and>
     view (api_hub st2) = [(new_lobby demo_lobby 0, []), (lobby, [dec 42])] \<and> lb_pin lobby = Some [1, 2]"
proof -
  obtain h where h: "hub_reachable (ae_hub demo_api_env) h" "running h = [42]" "view h = [(new_lobby demo_lobby 0, [])]"
      "draws_ok demo_api_env (demo_api h)"
    by (rule demo_running)
  obtain d where d: "default_settings demo_api_env = Some d"
    using stoul_dec [of 1000]
    by (simp add: default_settings_def demo_api_env_def demo_hub_env_def client_settings_default_def Let_def stoul_1000)
  have "ae_uuid demo_api_env 0 = ''room''" "js_create_lobby (ae_json demo_api_env) b = Inr demo_lobby_request"
    "js_join (ae_json demo_api_env) b = Inr (''room'', 42, Some [1, 2])" "cr_pin demo_lobby_request = Some [1, 2]"
    "get_runner (cr_runner demo_lobby_request) = Some (RunProcess ''game'')"
    "ae_lobby_up demo_api_env" for b
    by (simp_all add: demo_api_env_def demo_json_def demo_lobby_request_def)
  with created_lobby_can_be_joined [of demo_api_env "demo_api h" d "demo_req ''create''" demo_lobby_request "demo_req ''join''" 42 "RunProcess ''game''"] h d
  show ?thesis by (auto simp: demo_api_def)
qed

text \<open>A join with the PIN of the demo lobby makes the session a member of it.\<close>

theorem lobby_entered_with_pin_witness:
  "\<exists>h env st' outs. running h = [42] \<and> handle_request env (demo_req ''/api/v1/lobbies/join'') (demo_api h) = Some (st', outs) \<and>
     dec 42 \<in> set (connected (api_hub st') (new_lobby demo_lobby 0)) \<and>
     js_join (ae_json env) (hr_body (demo_req ''/api/v1/lobbies/join'')) = Inr (''lobby'', 42, Some [1, 2, 3, 4])"
proof -
  let ?lb = "new_lobby demo_lobby 0" and ?req = "demo_req ''/api/v1/lobbies/join''"
  let ?env = "demo_api_env\<lparr>ae_json := demo_json\<lparr>js_join := \<lambda>_. Inr (''lobby'', 42, Some [1, 2, 3, 4])\<rparr>\<rparr>"
  obtain h where h: "hub_reachable (ae_hub demo_api_env) h" "running h = [42]" "view h = [(?lb, [])]"
      "hub_lobbies h = [?lb]" "draws_ok demo_api_env (demo_api h)"
    by (rule demo_running)
  have lb: "lb_id ?lb = ''lobby''" "lb_pin ?lb = Some [1, 2, 3, 4]" by (simp_all add: new_lobby_def demo_lobby_def)
  have ok: "hub_ok h" using reachable_good [OF h(1)] by (simp add: hub_good_def)
  obtain h' where h': "emit4 demo_hub_env (JoinLobbyEvent ''lobby'' 42 (Some [1, 2, 3, 4])) h = Some h'" "view h' = [(?lb, [dec 42])]"
    using fire_join [OF ok, of 1 demo_hub_env "''lobby''" 42 "Some [1, 2, 3, 4]"] h(2,3) lb
    by (auto simp: emit4_def numeral_eq_Suc spec_join_def)
  have "check_lobby_pin (hub_lobbies h) ''lobby'' (Some [1, 2, 3, 4]) = None"
    using lb h(4) get_lobby_Some [OF ok, of ?lb] by (simp add: check_lobby_pin_def)
  moreover have "map_of endpoints (POST, ''/api/v1/lobbies/join'') = Some endpoint_LobbyJoin" by (simp add: endpoints_table)
  moreover have "ae_hub demo_api_env = demo_hub_env" by (simp add: demo_api_env_def)
  ultimately have "\<exists>outs. handle_request ?env ?req (demo_api h) = Some (demo_api h', outs)"
    using h'(1) by (cases "join_message h'"; cases "join_message h' = Some []")
      (simp_all add: handle_request_def demo_req_def endpoint_LobbyJoin_def fire_on_def demo_api_def answer_def)
  then obtain outs where r: "handle_request ?env ?req (demo_api h) = Some (demo_api h', outs)" by blast
  have mem: "?lb \<in> set (hub_lobbies h')" "connected h' ?lb = [dec 42]" "connected h ?lb = []"
    using h'(2) h(3) view_member [of ?lb "[dec 42]" h'] view_member [of ?lb "[]" h] by simp_all
  have draws: "draws_ok ?env (demo_api h)" using h(5) by (simp add: draws_ok_def)
  show ?thesis
    using lobby_entered_with_pin [of ?env "demo_api h" ?req "demo_api h'" outs ?lb "dec 42"] h r mem draws lb
    by (intro exI [of _ h] exI [of _ ?env] exI [of _ "demo_api h'"] exI [of _ outs]) (auto simp: demo_api_def)
qed

theorem body_in_any_pieces_witness:
  "split_headers (eol @ eol @ ''{}'') = Some (eol @ eol, ''{}'') \<and>
   start_connection_api demo_api_env 1 (eol @ eol @ ''{}'') 1 (demo_api hub_init) =
     start_connection_api demo_api_env 1 (eol @ eol @ ''{}'') 0 (demo_api hub_init)"
  using body_in_any_pieces [of "eol @ eol @ ''{}''" 1 demo_api_env 1 "demo_api hub_init"] split_end [of "''{}''"] by simp

theorem unknown_session_ends_server_witness:
  "\<forall>v a. handle_request (demo_api_env\<lparr>ae_json := demo_json\<lparr>js_session_start := \<lambda>_. Inr (dec 7, v, a)\<rparr>\<rparr>)
     (demo_req ''/api/v1/sessions/start'') (demo_api demo_hub) = None"
proof (intro allI)
  fix v a
  show "handle_request (demo_api_env\<lparr>ae_json := demo_json\<lparr>js_session_start := \<lambda>_. Inr (dec 7, v, a)\<rparr>\<rparr>)
     (demo_req ''/api/v1/sessions/start'') (demo_api demo_hub) = None"
    using demo_hub_ok(2)
    by (intro unknown_session_ends_server [of _ _ "dec 7" v a 7]) (simp_all add: demo_req_def demo_api_def)
qed

theorem settings_keep_identity_witness:
  "\<exists>st' outs. endpoint_UpdateClientSettings demo_api_env (demo_req ''settings'') (demo_api demo_hub) = Some (st', outs) \<and>
     map pc_client_cert (cfg_paired_clients (api_config st')) = [''PEM'']"
proof -
  have paired: "cfg_paired_clients demo_rest_config = [demo_client]" "pc_client_cert demo_client = ''PEM''"
    by (simp_all add: demo_rest_config_def demo_client_def)
  have "get_client_by_id (ae_hash demo_api_env) demo_rest_config (dec 7) = Inr None"
    using stoul_dec [of 7] paired by (simp add: get_client_by_id_def get_client_id_def demo_api_env_def)
  then have "endpoint_UpdateClientSettings demo_api_env (demo_req ''settings'') (demo_api demo_hub) =
      Some (demo_api demo_hub, send_http demo_api_env 404 (Error ''Client not found''))"
    by (simp add: endpoint_UpdateClientSettings_def demo_api_env_def demo_json_def demo_api_def answer_def)
  with settings_keep_identity [OF this] paired show ?thesis by (simp add: demo_api_def)
qed

theorem application_added_and_removed_witness:
  "\<exists>st1 (a :: App). endpoint_AddApp demo_api_env (demo_req ''add'') (demo_api demo_hub) = Some (st1, send_http demo_api_env 200 Success) \<and>
     app_id a = ''99'' \<and> app_video_producer_buffer_caps a \<noteq> [] \<and>
     endpoint_RemoveApp demo_api_env (demo_req ''delete'') st1 = Some (demo_api demo_hub, send_http demo_api_env 200 Success)"
proof -
  let ?p = "hd (cfg_profiles demo_rest_config)" and ?st = "demo_api demo_hub" and ?env = demo_api_env
  have cfg: "api_config ?st = demo_rest_config" by (simp add: demo_api_def)
  have ps: "cfg_profiles demo_rest_config = [?p]" "pr_apps ?p = [demo_app]" by (simp_all add: demo_rest_config_def)
  have p: "get_moonlight_profile (api_config ?st) = Some ?p"
    unfolding cfg by (simp add: get_moonlight_profile_def demo_rest_config_def)
  have js: "js_app (ae_json ?env) b = Inr demo_app_json" "js_app_delete (ae_json ?env) b = Inr (aj_id demo_app_json)"
      "aj_id demo_app_json = ''99''" for b
    by (simp_all add: demo_app_json_def demo_api_env_def demo_json_def)
  have ids: "\<forall>p \<in> set (cfg_profiles (api_config ?st)). \<forall>x \<in> set (pr_apps p). app_id x \<noteq> aj_id demo_app_json"
    unfolding cfg js(3) by (subst ps) (simp add: ps(2) demo_app_def)
  have caps: "\<forall>p \<in> set (cfg_profiles (api_config ?st)). \<forall>x \<in> set (pr_apps p). app_video_producer_buffer_caps x \<noteq> []"
    unfolding cfg by (subst ps) (simp add: ps(2) demo_app_def)
  have runner: "get_runner (aj_runner demo_app_json) \<noteq> None" by (simp add: demo_app_json_def app_to_json_def demo_app_def)
  have "pr_apps ?p \<noteq> []" using ps(2) by simp
  from application_added_and_removed [OF js(1) js(2) ids p this caps runner, of "demo_req ''add''" "demo_req ''delete''"]
  obtain st1 and a :: App where added: "endpoint_AddApp ?env (demo_req ''add'') ?st = Some (st1, send_http ?env 200 Success)"
      "app_id a = aj_id demo_app_json" "app_video_producer_buffer_caps a \<noteq> []"
      "endpoint_RemoveApp ?env (demo_req ''delete'') st1 = Some (?st, send_http ?env 200 Success)"
    by blast
  show ?thesis using added js(3) by (intro exI [of _ st1] exI [of _ a] conjI) simp_all
qed

end
