(* ===== verification/Udp.thy ===== *)
theory Udp
  imports Events "HOL-Library.Monad_Syntax" "HOL-Library.Signed_Division"
begin

section \<open>UDP: rtp/udp-ping.cpp, core batched_send.cpp and the sink of streaming.cpp\<close>

text \<open>
  The server that receives the pings of the clients, and the way of a frame to the network: the
  sink of a video pipeline paces its packets in windows of a millisecond and hands them in batches
  to \<open>send_batch\<close>, which gives them to \<open>sendmmsg\<close> in groups of at most 64 and goes on after partial
  sends, full buffers and interrupts. What the kernel answers to the successive calls is a list;
  when it is used up, the sender is still waiting.
\<close>

subsection \<open>Pings (udp-ping.cpp)\<close>

definition sizeof_SS_PING :: nat where
  "sizeof_SS_PING = 20"

record RTPPingEvent =
  rp_client_ip :: string
  rp_client_port :: u16
  rp_payload :: "bytes option"

text \<open>A datagram is cut to the buffer; what makes no ping is ignored, and an error too.\<close>

definition RECV_BUFFER :: nat where
  "RECV_BUFFER = 2048"

definition handle_receive :: "string \<Rightarrow> u16 \<Rightarrow> bytes option \<Rightarrow> RTPPingEvent list" where
  "handle_receive client_ip client_port received =
     (case received of
        None \<Rightarrow> []
      | Some datagram \<Rightarrow>
          let recv_buffer = take RECV_BUFFER datagram; bytes_transferred = length recv_buffer
          in if bytes_transferred = 4
             then [\<lparr>rp_client_ip = client_ip, rp_client_port = client_port, rp_payload = None\<rparr>]
             else if bytes_transferred \<ge> sizeof_SS_PING
             then [\<lparr>rp_client_ip = client_ip, rp_client_port = client_port, rp_payload = Some (take 16 recv_buffer)\<rparr>]
             else [])"

definition video_server :: "RTPPingEvent \<Rightarrow> bus_event" where
  "video_server ping = RTPVideoPingEvent (rp_client_ip ping) (rp_client_port ping) (rp_payload ping)"

definition audio_server :: "RTPPingEvent \<Rightarrow> bus_event" where
  "audio_server ping = RTPAudioPingEvent (rp_client_ip ping) (rp_client_port ping) (rp_payload ping)"

definition start_rtp_ping :: "bool \<Rightarrow> (string \<times> u16 \<times> bytes option) list \<Rightarrow> bus_event list" where
  "start_rtp_ping video datagrams =
     concat (map (\<lambda>(ip, port, d). map (if video then video_server else audio_server) (handle_receive ip port d)) datagrams)"

subsection \<open>Sending a batch (batched_send.cpp)\<close>

text \<open>
  The answers of the kernel: \<open>sendmmsg\<close> took some of the messages (at least one, at most all: it
  never returns 0 for a non-empty array), or the buffer was full and the following \<open>poll\<close> says
  that there is room again, that 100 milliseconds went by, or that it failed.
\<close>

datatype send_answer =
    Took nat
  | Full_then_ready
  | Full_then_timeout
  | Full_then_poll_failed
  | Interrupted
  | Send_failed

datatype send_status = Sent_all | Failed | Waiting

definition taken :: "nat \<Rightarrow> nat \<Rightarrow> nat" where
  "taken n msgs_to_send = max 1 (min n msgs_to_send)"

fun send_msgs :: "nat \<Rightarrow> 'p list \<Rightarrow> send_answer list \<Rightarrow> 'p list \<times> send_status \<times> send_answer list" where
  "send_msgs retries msgs as =
     (if retries \<ge> 10 then ([], Failed, as)
      else if msgs = [] then ([], Sent_all, as)
      else case as of
        [] \<Rightarrow> ([], Waiting, [])
      | Took n # as' \<Rightarrow>
          let k = taken n (length msgs); (sent, r) = send_msgs 0 (drop k msgs) as' in (take k msgs @ sent, r)
      | Full_then_timeout # as' \<Rightarrow> send_msgs (retries + 1) msgs as'
      | Full_then_ready # as' \<Rightarrow> send_msgs retries msgs as'
      | Interrupted # as' \<Rightarrow> send_msgs retries msgs as'
      | Full_then_poll_failed # as' \<Rightarrow> ([], Failed, as')
      | Send_failed # as' \<Rightarrow> ([], Failed, as'))"

declare send_msgs.simps [simp del]

definition MAX_BATCH :: nat where
  "MAX_BATCH = 64"

function send_blocks :: "'p list \<Rightarrow> send_answer list \<Rightarrow> 'p list \<times> send_status \<times> send_answer list" where
  "send_blocks blocks as =
     (if blocks = [] then ([], Sent_all, as)
      else case send_msgs 0 (take MAX_BATCH blocks) as of
        (sent, Sent_all, as') \<Rightarrow> (let (more, r) = send_blocks (drop MAX_BATCH blocks) as' in (sent @ more, r))
      | (sent, r) \<Rightarrow> (sent, r))"
  by pat_completeness auto

termination
  by (relation "measure (length \<circ> fst)") (auto simp: MAX_BATCH_def)

declare send_blocks.simps [simp del]

text \<open>
  The packets of a batch, each a buffer (\<open>block_offset\<close> and \<open>block_count\<close> select among them): the mode
  the sink uses. Reading past the buffers is undefined, \<open>None\<close>.
\<close>

definition batch_blocks :: "'p list \<Rightarrow> nat \<Rightarrow> nat \<Rightarrow> 'p list option" where
  "batch_blocks payload_buffers block_offset block_count =
     (if block_count = 0 \<or> block_offset + block_count \<le> length payload_buffers
      then Some (take block_count (drop block_offset payload_buffers)) else None)"

definition send_batch :: "'p list \<Rightarrow> nat \<Rightarrow> nat \<Rightarrow> send_answer list \<Rightarrow> ('p list \<times> send_status \<times> send_answer list) option" where
  "send_batch payload_buffers block_offset block_count as =
     map_option (\<lambda>blocks. send_blocks blocks as) (batch_blocks payload_buffers block_offset block_count)"

subsection \<open>The paced sink (streaming.cpp)\<close>

record PacingConfig =
  pc_enabled :: bool
  pc_max_packets_per_ms :: nat
  pc_max_batch_size :: nat

text \<open>
  The packet size is what the client announced; the product with 8 is an \<open>int\<close>. \<open>None\<close>: a division by
  zero or an overflow. A negative quotient becomes a huge \<open>size_t\<close>.
\<close>

definition pacing_config :: "bool \<Rightarrow> int \<Rightarrow> PacingConfig option" where
  "pacing_config enable_pacing packet_size =
     (if packet_size = 0 \<or> \<not> (- (2 ^ 31) \<le> packet_size * 8 \<and> packet_size * 8 < 2 ^ 31) then None
      else
        let per_ms = (1000000000 * 80 div 100 div 1000) sdiv (packet_size * 8); batch = 65536 sdiv packet_size
        in Some \<lparr>pc_enabled = enable_pacing, pc_max_packets_per_ms = nat (max 1 per_ms),
          pc_max_batch_size = (if batch < 0 then 16 else min 16 (nat batch))\<rparr>)"

text \<open>What the sink does in order: it waits for the window of a packet, or hands over a batch.\<close>

datatype sink_step =
    Wait_for nat
  | Batch nat nat

partial_function (option) paced_steps :: "PacingConfig \<Rightarrow> nat \<Rightarrow> nat \<Rightarrow> nat \<Rightarrow> sink_step list option" where
  "paced_steps p num_buffers packets_sent packets_in_window =
     (if packets_sent \<ge> num_buffers then Some []
      else if pc_max_packets_per_ms p - packets_in_window = 0
      then do { steps \<leftarrow> paced_steps p num_buffers packets_sent 0; Some (Wait_for packets_sent # steps) }
      else
        let batch = min (min (pc_max_packets_per_ms p - packets_in_window) (pc_max_batch_size p)) (num_buffers - packets_sent)
        in do { steps \<leftarrow> paced_steps p num_buffers (packets_sent + batch) (packets_in_window + batch);
             Some (Batch packets_sent batch # steps) })"

text \<open>The earliest moment for a packet, in nanoseconds after the frame began.\<close>

definition due :: "PacingConfig \<Rightarrow> nat \<Rightarrow> nat" where
  "due p packets_sent = 1000000 * packets_sent div pc_max_packets_per_ms p"

text \<open>
  The clock is read and slept on in nanoseconds: \<open>frame_start\<close> is when the frame may begin, \<open>t\<close> the
  present moment, and \<open>ds\<close> what each step of the loop takes on top of the sleeping (nothing when it is
  used up). \<open>sleep_until\<close> returns at its moment at the earliest. Of each packet the result says when its
  batch was handed over, and of the frame how many packets count as sent: those of the batches that
  succeeded.
\<close>

definition delay :: "nat list \<Rightarrow> nat" where
  "delay ds = (case ds of [] \<Rightarrow> 0 | d # _ \<Rightarrow> d)"

fun run_steps :: "PacingConfig \<Rightarrow> 'p list \<Rightarrow> nat \<Rightarrow> nat \<Rightarrow> nat list \<Rightarrow> sink_step list \<Rightarrow> send_answer list \<Rightarrow>
    ((nat \<times> 'p) list \<times> nat \<times> send_status \<times> send_answer list) option" where
  "run_steps p buffers frame_start t ds [] as = Some ([], 0, Sent_all, as)"
| "run_steps p buffers frame_start t ds (Wait_for k # steps) as =
     run_steps p buffers frame_start (max (t + delay ds) (frame_start + due p k)) (tl ds) steps as"
| "run_steps p buffers frame_start t ds (Batch block_offset block_count # steps) as =
     (case send_batch buffers block_offset block_count as of
        None \<Rightarrow> None
      | Some (sent, Sent_all, as') \<Rightarrow>
          map_option (\<lambda>(more, packets_sent, r). (map (Pair (t + delay ds)) sent @ more, block_count + packets_sent, r))
            (run_steps p buffers frame_start (t + delay ds) (tl ds) steps as')
      | Some (sent, r) \<Rightarrow> Some (map (Pair (t + delay ds)) sent, 0, r))"

text \<open>
  A frame is a list of buffers, of which some may not be readable: then nothing is sent. A frame that
  fits into a batch is sent at once; any other in windows. The sink keeps the moment at which the next
  frame may begin. The status is the \<open>GstFlowReturn\<close>: everything but \<open>Sent_all\<close> is an error.
\<close>

definition send_buffer_batched :: "PacingConfig \<Rightarrow> nat \<Rightarrow> nat \<Rightarrow> nat list \<Rightarrow> 'p option list \<Rightarrow> send_answer list \<Rightarrow>
    ((nat \<times> 'p) list \<times> nat \<times> send_status \<times> send_answer list) option" where
  "send_buffer_batched p next_frame_start now ds buffer_list as =
     (if buffer_list = [] then Some ([], next_frame_start, Sent_all, as)
      else case those buffer_list of
        None \<Rightarrow> Some ([], next_frame_start, Failed, as)
      | Some mapped_buffers \<Rightarrow>
          if \<not> pc_enabled p \<or> length mapped_buffers \<le> pc_max_batch_size p
          then map_option (\<lambda>(sent, r). (map (Pair now) sent, next_frame_start, r))
            (send_batch mapped_buffers 0 (length mapped_buffers) as)
          else
            let frame_start = max next_frame_start now
            in do { steps \<leftarrow> paced_steps p (length mapped_buffers) 0 0;
                 (sent, packets_sent, r) \<leftarrow> run_steps p mapped_buffers frame_start now ds steps as;
                 Some (sent, frame_start + due p packets_sent, r) })"

definition send_buffer_single :: "nat \<Rightarrow> nat \<Rightarrow> 'p option \<Rightarrow> send_answer list \<Rightarrow>
    ((nat \<times> 'p) list \<times> nat \<times> send_status \<times> send_answer list) option" where
  "send_buffer_single next_frame_start now buffer as =
     (case buffer of
        None \<Rightarrow> Some ([], next_frame_start, Failed, as)
      | Some b \<Rightarrow> map_option (\<lambda>(sent, r). (map (Pair now) sent, next_frame_start, r)) (send_batch [b] 0 1 as))"

text \<open>A sample of a pipeline is a list of buffers (video), a buffer (audio) or neither.\<close>

datatype 'p sample = Buffer_list "'p option list" | Buffer "'p option" | No_buffer

definition on_new_sample :: "PacingConfig \<Rightarrow> nat \<Rightarrow> nat \<Rightarrow> nat list \<Rightarrow> 'p sample option \<Rightarrow> send_answer list \<Rightarrow>
    ((nat \<times> 'p) list \<times> nat \<times> send_status \<times> send_answer list) option" where
  "on_new_sample p next_frame_start now ds sample as =
     (case sample of
        Some (Buffer_list bs) \<Rightarrow> send_buffer_batched p next_frame_start now ds bs as
      | Some (Buffer b) \<Rightarrow> send_buffer_single next_frame_start now b as
      | _ \<Rightarrow> Some ([], next_frame_start, Failed, as))"

subsection \<open>Every packet once, in order\<close>

lemma taken_bounds: "msgs \<noteq> [] \<Longrightarrow> 1 \<le> taken n (length msgs) \<and> taken n (length msgs) \<le> length msgs"
  by (cases msgs) (auto simp: taken_def)









subsection \<open>Theorems\<close>

lemma those_map_Some: "those (map Some xs) = Some xs"
  by (induction xs) auto









lemma empty_batches:
  assumes "paced_steps p n sent win = Some steps"
  shows "\<not> (pc_max_batch_size p = 0 \<and> win < pc_max_packets_per_ms p \<and> sent < n)"
proof (rule paced_steps.raw_induct [OF _ assms])
  fix f p n sent win steps
  assume ih: "\<And>p n sent win steps. f p n sent win = Some steps \<Longrightarrow>
      \<not> (pc_max_batch_size p = 0 \<and> win < pc_max_packets_per_ms p \<and> sent < n)"
    and step: "(if n \<le> sent then Some []
      else if pc_max_packets_per_ms p - win = 0 then f p n sent 0 \<bind> (\<lambda>steps. Some (Wait_for sent # steps))
      else let batch = min (min (pc_max_packets_per_ms p - win) (pc_max_batch_size p)) (n - sent)
           in f p n (sent + batch) (win + batch) \<bind> (\<lambda>steps. Some (Batch sent batch # steps))) = Some steps"
  show "\<not> (pc_max_batch_size p = 0 \<and> win < pc_max_packets_per_ms p \<and> sent < n)"
  proof
    assume a: "pc_max_batch_size p = 0 \<and> win < pc_max_packets_per_ms p \<and> sent < n"
    with step obtain x where "f p n sent win = Some x" by (auto simp: Let_def split: bind_splits)
    from ih [OF this] a show False by blast
  qed
qed

text \<open>C25: A client that announces packets of more than 65536 bytes gets a sink that never returns from
  its first frame: no packet fits into a batch, and batches of none are sent for ever.\<close>

theorem big_packets_hang:
  assumes "pacing_config True packet_size = Some p" "65536 < packet_size" "packets \<noteq> []"
  shows "send_buffer_batched p next_frame_start now ds (map Some packets) as = None"
proof -
  have "65536 div packet_size = 0" using assms(2) by (intro div_pos_pos_trivial) auto
  then have "65536 sdiv packet_size = 0" using assms(2) by (simp add: signed_divide_int_def)
  then have p: "pc_enabled p" "pc_max_batch_size p = 0" "0 < pc_max_packets_per_ms p"
    using assms(1) by (auto simp: pacing_config_def Let_def split: if_splits)
  then have "paced_steps p (length packets) 0 0 = None"
    using empty_batches [of p "length packets" 0 0] assms(3) by (cases "paced_steps p (length packets) 0 0") auto
  with p assms(3) show ?thesis by (simp add: send_buffer_batched_def those_map_Some)
qed

theorem big_packets_hang_witness:
  "\<exists>p. pacing_config True 70000 = Some p \<and> send_buffer_batched p 0 0 [] (map Some [0 :: nat]) [Took 1] = None"
proof -
  obtain p where p: "pacing_config True 70000 = Some p" by (simp add: pacing_config_def Let_def)
  from big_packets_hang [OF p, of "[0]" 0 0 "[]" "[Took 1]"] p show ?thesis by simp
qed

end
