(* ===== verification/Streaming.thy ===== *)
theory Streaming
  imports Lobbies Udp
begin

section \<open>GStreamer pipelines: streaming/streaming.cpp, core/gstreamer.hpp\<close>

text \<open>
  The descriptions of the four kinds of pipelines, what their event handlers send to them, and which
  pipelines run after the handlers of the bus did what they recorded in their trace. GStreamer
  itself is not modelled: a pipeline is its owner, its kind and its elements that read a pipe, and it is
  over with the end of its stream. The text of a description is what \<open>fmt::format\<close> makes of it; for the two
  descriptions of the configuration, format strings the administrator writes, the model has the
  named arguments they are given, and which elements the pipeline has is what the parameter \<open>gst\<close> (the
  formatting and \<open>gst_parse_launch\<close>) says of description and arguments: a partial function from the names
  of the elements to the pipes they listen to. A description need not have any (that of the test app has
  none). A pipeline runs from the moment its thread is started (in the program
  an event can come before its handlers are registered).
\<close>

subsection \<open>Descriptions\<close>

definition quoted :: "string \<Rightarrow> string" where
  "quoted s = CHR 0x22 # s @ [CHR 0x22]"

definition nl :: string where
  "nl = [CHR 0x0A]"

definition video_producer_text :: "string \<Rightarrow> string \<Rightarrow> string \<Rightarrow> int \<Rightarrow> int \<Rightarrow> int \<Rightarrow> string" where
  "video_producer_text session_id buffer_format render_node width height fps =
     ''waylanddisplaysrc name=wolf_wayland_source render_node='' @ render_node @ '' ! '' @
     buffer_format @ '', width='' @ dec_int width @ '', height='' @ dec_int height @ '', framerate='' @ dec_int fps @ ''/1 ! '' @ nl @
     ''interpipesink sync=true async=false name='' @ session_id @ ''_video max-buffers=1''"

definition channel_mask :: "int \<Rightarrow> string" where
  "channel_mask channel_count =
     (if channel_count = 2 then ''0x3'' else if channel_count = 6 then ''0x3f''
      else if channel_count = 8 then ''0xc3f'' else '''')"

definition audio_producer_text :: "string \<Rightarrow> int \<Rightarrow> string \<Rightarrow> string \<Rightarrow> string" where
  "audio_producer_text session_id channel_count sink_name server_name =
     ''pulsesrc device='' @ quoted sink_name @ '' server='' @ quoted server_name @ '' ! '' @
     ''audio/x-raw, channels='' @ dec_int channel_count @ '', channel-mask=(bitmask)'' @ channel_mask channel_count @ '', rate=48000 ! '' @
     ''queue leaky=downstream max-size-buffers=3 ! '' @
     ''interpipesink name='' @ quoted (session_id @ ''_audio'') @ '' sync=true async=false max-buffers=3''"

text \<open>Full range needs the numeric form; another colour space leaves the text empty.\<close>

definition get_color_params :: "VideoSession \<Rightarrow> string \<times> string" where
  "get_color_params v =
     (let full_range = (vs_color_range v = JPEG)
      in (if full_range then ''jpeg'' else ''mpeg2'',
          case vs_color_space v of
            BT601 \<Rightarrow> if full_range then ''1:4:16:4'' else ''bt601''
          | BT709 \<Rightarrow> if full_range then ''1:3:5:1'' else ''bt709''
          | BT2020 \<Rightarrow> if full_range then ''1:6:13:7'' else ''bt2020''
          | Other_space _ \<Rightarrow> ''''))"

text \<open>The arguments of the description of a video stream; a refresh rate of 0 divides by zero, and so
  does a packet size of 0 in the configuration of the sink.\<close>

definition video_args :: "VideoSession \<Rightarrow> string \<Rightarrow> u16 \<Rightarrow> (string \<times> string) list option" where
  "video_args v client_ip client_port =
     (case (get_color_params v, vs_display_mode v) of
        ((color_range, color_space), (width, height, refreshRate)) \<Rightarrow>
          if refreshRate = 0 then None
          else Some [(''session_id'', dec (vs_session_id v)), (''width'', dec_int width), (''height'', dec_int height),
            (''fps'', dec_int refreshRate), (''bitrate'', dec_int (vs_bitrate_kbps v)),
            (''client_port'', dec (unat client_port)), (''client_ip'', client_ip),
            (''payload_size'', dec_int (vs_packet_size v)), (''fec_percentage'', dec_int (vs_fec_percentage v)),
            (''min_required_fec_packets'', dec_int (vs_min_required_fec_packets v)),
            (''slices_per_frame'', dec_int (vs_slices_per_frame v)),
            (''vbv_buffer_size'', dec_int (vs_bitrate_kbps v sdiv refreshRate)),
            (''color_space'', color_space), (''color_range'', color_range), (''host_port'', dec (unat (vs_port v)))])"

definition audio_args :: "AudioSession \<Rightarrow> string \<Rightarrow> u16 \<Rightarrow> string \<Rightarrow> string \<Rightarrow> (string \<times> string) list" where
  "audio_args a client_ip client_port sink_name server_name =
     (let m = as_audio_mode a
      in [(''session_id'', dec (as_session_id a)), (''channels'', dec_int (am_channels m)), (''bitrate'', dec_int (am_bitrate m)),
          (''streams'', dec_int (am_streams m)), (''coupled_streams'', dec_int (am_coupled_streams m)),
          (''sink_name'', sink_name), (''server_name'', server_name),
          (''packet_duration'', dec_int (as_packet_duration a)), (''aes_key'', as_aes_key a), (''aes_iv'', as_aes_iv a),
          (''encrypt'', if as_encrypt_audio a then ''true'' else ''false''), (''client_port'', dec (unat client_port)),
          (''client_ip'', client_ip), (''host_port'', dec (unat (as_port a)))])"

text \<open>The pacing of the sink of a video stream; it is on unless the variable has another text than \<open>TRUE\<close>.\<close>

definition video_sink :: "(string \<Rightarrow> string option) \<Rightarrow> VideoSession \<Rightarrow> PacingConfig option" where
  "video_sink getenv v =
     pacing_config (case getenv ''WOLF_ENABLE_VIDEO_PACING'' of None \<Rightarrow> True | Some t \<Rightarrow> t = ''TRUE'') (vs_packet_size v)"

subsection \<open>Pipelines and their handlers\<close>

datatype pipe_message = Force_key_unit | End_of_stream | Listen_to string string

datatype pipe_kind = Video_producer | Audio_producer | Video_stream | Audio_stream

record pipeline =
  pl_kind :: pipe_kind
  pl_owner :: string
  pl_sources :: "string \<rightharpoonup> string"

definition is_producer :: "pipe_kind \<Rightarrow> bool" where
  "is_producer k \<longleftrightarrow> k = Video_producer \<or> k = Audio_producer"

definition pipe_suffix :: "pipe_kind \<Rightarrow> string" where
  "pipe_suffix k = (if k = Video_producer \<or> k = Video_stream then ''_video'' else ''_audio'')"

text \<open>Where a producer puts its output, and the element of a stream the handlers look for.\<close>

definition interpipe_sink :: "pipeline \<Rightarrow> string" where
  "interpipe_sink p = pl_owner p @ pipe_suffix (pl_kind p)"

definition interpipe_src :: "pipeline \<Rightarrow> string" where
  "interpipe_src p = ''interpipesrc_'' @ pl_owner p @ pipe_suffix (pl_kind p)"

fun producer_handlers :: "string \<Rightarrow> bus_event \<Rightarrow> pipe_message list" where
  "producer_handlers session_id (StopStreamEvent i) = (if dec i = session_id then [End_of_stream] else [])"
| "producer_handlers session_id (StopLobbyEvent l _) = (if l = session_id then [End_of_stream] else [])"
| "producer_handlers session_id _ = []"

text \<open>The switch needs the element by its name; when the pipeline has none, an error is logged and the
  pipeline stays as it is.\<close>

fun stream_handlers :: "pipeline \<Rightarrow> bus_event \<Rightarrow> pipe_message list" where
  "stream_handlers p (IDRRequestEvent i) = (if pl_kind p = Video_stream \<and> dec i = pl_owner p then [Force_key_unit] else [])"
| "stream_handlers p (PauseStreamEvent i) = (if dec i = pl_owner p then [End_of_stream] else [])"
| "stream_handlers p (SwitchStreamProducerEvents i src) =
     (if dec i = pl_owner p
      then (case pl_sources p (interpipe_src p) of
              Some _ \<Rightarrow> [Listen_to (interpipe_src p) (src @ pipe_suffix (pl_kind p))]
            | None \<Rightarrow> [])
      else [])"
| "stream_handlers p (StopStreamEvent i) = (if dec i = pl_owner p then [End_of_stream] else [])"
| "stream_handlers p _ = []"

definition handlers :: "pipeline \<Rightarrow> bus_event \<Rightarrow> pipe_message list" where
  "handlers p ev = (if is_producer (pl_kind p) then producer_handlers (pl_owner p) ev else stream_handlers p ev)"

text \<open>A message to a running pipeline: \<open>None\<close> when it is over.\<close>

fun receive :: "pipe_message \<Rightarrow> pipeline \<Rightarrow> pipeline option" where
  "receive End_of_stream p = None"
| "receive (Listen_to el pipe) p = Some (p\<lparr>pl_sources := (pl_sources p)(el \<mapsto> pipe)\<rparr>)"
| "receive Force_key_unit p = Some p"

definition on_event :: "bus_event \<Rightarrow> pipeline \<Rightarrow> pipeline option" where
  "on_event ev p = fold (\<lambda>m q. Option.bind q (receive m)) (handlers p ev) (Some p)"

text \<open>The elements of a stream are those of its description; a description that cannot be formatted (a
  division by zero) gives no pipeline.\<close>

definition pipeline_of :: "pipe_kind \<Rightarrow> string \<Rightarrow> (string \<rightharpoonup> string) \<Rightarrow> pipeline" where
  "pipeline_of k owner sources = \<lparr>pl_kind = k, pl_owner = owner, pl_sources = sources\<rparr>"

type_synonym gst_parser = "string \<Rightarrow> (string \<times> string) list \<Rightarrow> string \<rightharpoonup> string"

fun started :: "gst_parser \<Rightarrow> effect \<Rightarrow> pipeline list" where
  "started gst (Start_video_producer session_id _ _ _ _ _) = [pipeline_of Video_producer session_id Map.empty]"
| "started gst (Start_audio_producer session_id _ _ _) = [pipeline_of Audio_producer session_id Map.empty]"
| "started gst (Start_streaming_video v ip port) =
     (case video_args v ip port of
        Some args \<Rightarrow> [pipeline_of Video_stream (dec (vs_session_id v)) (gst (vs_gst_pipeline v) args)]
      | None \<Rightarrow> [])"
| "started gst (Start_streaming_audio a ip port sink_name server_name) =
     [pipeline_of Audio_stream (dec (as_session_id a)) (gst (as_gst_pipeline a) (audio_args a ip port sink_name server_name))]"
| "started gst _ = []"

definition pipelines_step :: "gst_parser \<Rightarrow> effect \<Rightarrow> pipeline list \<Rightarrow> pipeline list" where
  "pipelines_step gst e ps = (case e of Fired ev \<Rightarrow> List.map_filter (on_event ev) ps | _ \<Rightarrow> ps @ started gst e)"

definition running_pipelines :: "gst_parser \<Rightarrow> effect list \<Rightarrow> pipeline list" where
  "running_pipelines gst trace = fold (pipelines_step gst) trace []"

subsection \<open>Which pipelines run\<close>

lemma running_append [simp]: "running_pipelines gst (tr @ [e]) = pipelines_step gst e (running_pipelines gst tr)"
  by (simp add: running_pipelines_def)

lemma step_fired [simp]: "pipelines_step gst (Fired ev) ps = List.map_filter (on_event ev) ps"
  by (simp add: pipelines_step_def)

lemma map_filter_filter: "(\<And>p. f p = (if P p then Some p else None)) \<Longrightarrow> List.map_filter f ps = filter P ps"
  by (induction ps) (simp_all add: List.map_filter_simps)

lemma on_event_listens:
  assumes "on_event (SwitchStreamProducerEvents i src) p = Some q"
  shows "pl_kind q = pl_kind p" "pl_owner q = pl_owner p" "dom (pl_sources q) = dom (pl_sources p)"
    "\<not> is_producer (pl_kind p) \<Longrightarrow> pl_owner p = dec i \<Longrightarrow>
       pl_sources q = (if interpipe_src p \<in> dom (pl_sources p)
         then (pl_sources p)(interpipe_src p \<mapsto> src @ pipe_suffix (pl_kind p)) else pl_sources p)"
  using assms by (auto simp: on_event_def handlers_def split: if_splits option.splits)

text \<open>C9: Stopping a stream ends exactly its own pipelines, its producers and its streams, and stopping a
  lobby exactly the two producers of the lobby; all the others go on as they were.\<close>

theorem stop_ends_own_pipelines:
  "running_pipelines gst (tr @ [Fired (StopStreamEvent i)]) = filter (\<lambda>p. pl_owner p \<noteq> dec i) (running_pipelines gst tr) \<and>
   running_pipelines gst (tr @ [Fired (StopLobbyEvent l pin)]) =
     filter (\<lambda>p. \<not> (is_producer (pl_kind p) \<and> pl_owner p = l)) (running_pipelines gst tr)"
proof -
  have "on_event (StopStreamEvent i) p = (if pl_owner p \<noteq> dec i then Some p else None)"
    and "on_event (StopLobbyEvent l pin) p = (if \<not> (is_producer (pl_kind p) \<and> pl_owner p = l) then Some p else None)" for p
    by (auto simp: on_event_def handlers_def)
  then show ?thesis by (simp add: map_filter_filter [of _ "\<lambda>p. pl_owner p \<noteq> dec i"]
    map_filter_filter [of _ "\<lambda>p. \<not> (is_producer (pl_kind p) \<and> pl_owner p = l)"])
qed

text \<open>C13: When a session has joined a lobby, every stream of the session that runs and has the element
  the handlers look for - the one named after the session and the kind of stream - listens there to the
  pipe that the producer of the lobby of the same kind writes to. A stream without that element ran
  before the switch with the same elements, listening to the same pipes: nothing connects it with
  the lobby.\<close>

theorem joined_streams_show_lobby:
  assumes "hub_reachable env h" "lobby \<in> set (hub_lobbies h)" "i \<in> set (running h)"
    "lb_multi_user lobby \<or> connected h lobby = []" "p \<in> set (running_pipelines gst (hub_trace h'))"
    "emit4 env (JoinLobbyEvent (lb_id lobby) i pin) h = Some h'"
    "pl_owner p = dec i" "\<not> is_producer (pl_kind p)"
  shows "case pl_sources p (interpipe_src p) of
      Some pipe \<Rightarrow> pipe = interpipe_sink (pipeline_of
        (if pl_kind p = Video_stream then Video_producer else Audio_producer) (lb_id lobby) Map.empty)
    | None \<Rightarrow> (\<exists>tr e. hub_trace h' = tr @ [Fired (SwitchStreamProducerEvents i (lb_id lobby)), e] \<and>
        p \<in> set (running_pipelines gst tr))"
proof -
  let ?j = "note_effect (Fired (JoinLobbyEvent (lb_id lobby) i pin)) h"
  have okj: "hub_ok ?j" and vj: "view ?j = view h" "running ?j = running h"
    using quiet_ok [OF quiet_note] quiet_view [OF quiet_note] reachable_good [OF assms(1)] by (simp_all add: hub_good_def)
  obtain s where s: "get_session_by_id (hub_sessions ?j) i = Some s" "s \<in> set (hub_sessions ?j)"
    using get_session_None [of ?j i] get_session_mem [of ?j i] vj(2) assms(3) by fastforce
  obtain h2 tr where h2: "on_join_lobby (fire_event 3 env) (lb_id lobby) i ?j = Some h2"
      "hub_trace h2 = tr @ [Fired (SwitchStreamProducerEvents i (lb_id lobby)), Join_result '''']"
    using join_accepted [OF okj, of lobby s i 1 env] s assms(2,4) quiet_connected [OF quiet_note]
    by (auto simp: numeral_eq_Suc)
  then have "h' = h2" using assms(6) by (simp add: emit4_def numeral_eq_Suc fire_lobby)
  then have tr: "hub_trace h' = tr @ [Fired (SwitchStreamProducerEvents i (lb_id lobby)), Join_result '''']" using h2(2) by simp
  then have "hub_trace h' = (tr @ [Fired (SwitchStreamProducerEvents i (lb_id lobby))]) @ [Join_result '''']" by simp
  with assms(5) have "p \<in> set (running_pipelines gst (tr @ [Fired (SwitchStreamProducerEvents i (lb_id lobby))]))"
    by (simp only: running_append) (simp add: pipelines_step_def)
  then obtain q where q: "q \<in> set (running_pipelines gst tr)" "on_event (SwitchStreamProducerEvents i (lb_id lobby)) q = Some p"
    by (auto simp: List.map_filter_def)
  note l = on_event_listens [OF q(2)]
  have src: "interpipe_src q = interpipe_src p" using l(1,2) by (simp add: interpipe_src_def)
  have same: "pl_sources p = (if interpipe_src p \<in> dom (pl_sources p)
      then (pl_sources q)(interpipe_src p \<mapsto> lb_id lobby @ pipe_suffix (pl_kind p)) else pl_sources q)"
    using l assms(7,8) src by simp
  show ?thesis
  proof (cases "pl_sources p (interpipe_src p)")
    case None
    then have "pl_sources p = pl_sources q" by (intro trans [OF same if_not_P]) blast
    then have "p = q" using l(1,2) by (cases p; cases q) simp
    with q(1) None tr show ?thesis by auto
  next
    case (Some pipe)
    then have "pl_sources p = (pl_sources q)(interpipe_src p \<mapsto> lb_id lobby @ pipe_suffix (pl_kind p))"
      by (intro trans [OF same if_P]) blast
    then have "pl_sources p (interpipe_src p) = Some (lb_id lobby @ pipe_suffix (pl_kind p))" by (metis fun_upd_same)
    with Some show ?thesis using assms(8)
      by (cases "pl_kind p") (auto simp: interpipe_sink_def pipeline_of_def pipe_suffix_def is_producer_def)
  qed
qed

definition demo_stream_video :: VideoSession where
  "demo_stream_video = \<lparr>vs_display_mode = (1920, 1080, 60), vs_gst_pipeline = [], vs_render_node = ''node'', vs_session_id = 42,
     vs_port = 48100, vs_timeout_ms = 7000, vs_wait_for_ping = True, vs_packet_size = 1024,
     vs_frames_with_invalid_ref_threshold = 0, vs_fec_percentage = 20, vs_min_required_fec_packets = 2,
     vs_bitrate_kbps = 15500, vs_slices_per_frame = 1, vs_color_range = MPEG, vs_color_space = BT709,
     vs_client_ip = ''10.0.0.5'', vs_rtp_secret_payload = [7]\<rparr>"

lemma emit4_Suc: "emit4 env ev h = fire_event (Suc (Suc (Suc (Suc 0)))) env ev h"
  by (simp add: emit4_def numeral_eq_Suc)

text \<open>A lobby is created, a session launched, and its video stream started by a ping.\<close>

definition demo_streaming :: hub where
  "demo_streaming =
     (let h1 = on_create_lobby demo_hub_env demo_lobby (note_effect (Fired (CreateLobbyEvent demo_lobby)) hub_init);
          h2 = upd_session 42 (\<lambda>_. new_session_atoms) (h1\<lparr>hub_sessions := [demo_session\<lparr>ss_app := Some demo_app\<rparr>]\<rparr>);
          h3 = (note_effect (Fired (VideoSessionEvent demo_stream_video)) h2)\<lparr>hub_video_waiting := [demo_stream_video]\<rparr>
      in video_ping ''10.0.0.5'' 48100 (Some [7])
           (note_effect (Fired (RTPVideoPingEvent ''10.0.0.5'' 48100 (Some [7]))) h3))"

lemma demo_streaming_reachable: "hub_reachable demo_hub_env demo_streaming"
proof -
  let ?env = demo_hub_env and ?s = "demo_session\<lparr>ss_app := Some demo_app\<rparr>"
  define h1 where "h1 = on_create_lobby ?env demo_lobby (note_effect (Fired (CreateLobbyEvent demo_lobby)) hub_init)"
  define h2 where "h2 = upd_session 42 (\<lambda>_. new_session_atoms) (h1\<lparr>hub_sessions := [?s]\<rparr>)"
  define h3 where "h3 = (note_effect (Fired (VideoSessionEvent demo_stream_video)) h2)\<lparr>hub_video_waiting := [demo_stream_video]\<rparr>"
  have "event_ok (CreateLobbyEvent demo_lobby) hub_init"
    using letter_not_dec [of "CHR ''l''" "''obby''"] by (simp add: hub_init_def demo_lobby_def is_digit_def)
  moreover have "emit4 ?env (CreateLobbyEvent demo_lobby) hub_init = Some h1"
    by (simp add: emit4_Suc fire_lobby h1_def)
  ultimately have r1: "hub_reachable ?env h1" using hub_reachable.step [OF hub_reachable.start hub_step.fired] by blast
  have h1: "hub_sessions h1 = []" "hub_video_waiting h1 = []"
    by (simp_all add: h1_def on_create_lobby_def Let_def demo_hub_env_def hub_init_def note_effect_def upd_lobby_def)
  have "h2 = upd_session (ss_session_id ?s) (\<lambda>_. new_session_atoms) (h1\<lparr>hub_sessions := hub_sessions h1 @ [?s]\<rparr>)"
    by (simp add: h2_def h1 demo_session_def)
  moreover have "hub_step ?env h1 (upd_session (ss_session_id ?s) (\<lambda>_. new_session_atoms) (h1\<lparr>hub_sessions := hub_sessions h1 @ [?s]\<rparr>))"
    by (rule hub_step.launched) (simp_all add: demo_session_def)
  ultimately have r2: "hub_reachable ?env h2" using hub_reachable.step [OF r1] by simp
  have "emit4 ?env (VideoSessionEvent demo_stream_video) h2 = Some h3"
    using h1 by (simp add: emit4_Suc fire_Suc demo_hub_env_def h2_def h3_def note_effect_def upd_session_def)
  then have r3: "hub_reachable ?env h3" by (intro hub_reachable.step [OF r2 hub_step.fired]) simp_all
  have "emit4 ?env (RTPVideoPingEvent ''10.0.0.5'' 48100 (Some [7])) h3 = Some demo_streaming"
    by (simp add: emit4_Suc fire_Suc demo_hub_env_def demo_streaming_def Let_def h1_def h2_def h3_def)
  then show ?thesis by (intro hub_reachable.step [OF r3 hub_step.fired]) simp_all
qed

text \<open>The element of the shipped description of a video stream.\<close>

definition demo_gst_parser :: gst_parser where
  "demo_gst_parser description args =
     (case map_of args ''session_id'' of Some s \<Rightarrow> [''interpipesrc_'' @ s @ ''_video'' \<mapsto> s @ ''_video''] | None \<Rightarrow> Map.empty)"

theorem joined_streams_show_lobby_witness:
  "\<exists>h' p. emit4 demo_hub_env (JoinLobbyEvent ''lobby'' 42 None) demo_streaming = Some h' \<and>
     p \<in> set (running_pipelines demo_gst_parser (hub_trace h')) \<and> pl_kind p = Video_stream \<and> pl_owner p = dec 42 \<and>
     pl_sources p (interpipe_src p) = Some ''lobby_video''"
proof -
  let ?lb = "new_lobby demo_lobby 0"
  have lobby: "hub_lobbies demo_streaming = [?lb]" "running demo_streaming = [42]" "connected demo_streaming ?lb = []"
    by (simp_all add: demo_streaming_def Let_def on_create_lobby_def demo_hub_env_def hub_init_def note_effect_def
        upd_lobby_def upd_session_def video_ping_def fold_notes running_def connected_def new_lobby_def new_lobby_atoms_def
        demo_session_def)
  obtain h' where h': "emit4 demo_hub_env (JoinLobbyEvent ''lobby'' 42 None) demo_streaming = Some h'"
      "hub_trace h' = hub_trace demo_streaming @ [Fired (JoinLobbyEvent ''lobby'' 42 None),
        Fired (SwitchStreamProducerEvents 42 ''lobby''), Join_result '''']"
    by (simp add: emit4_Suc fire_Suc demo_hub_env_def demo_streaming_def Let_def on_create_lobby_def hub_init_def
        note_effect_def upd_lobby_def upd_session_def video_ping_def fold_notes on_join_lobby_def get_lobby_by_id_def
        get_session_by_id_def new_lobby_def demo_lobby_def demo_session_def connected_def new_lobby_atoms_def
        new_session_atoms_def use_display_def)
  have trace: "hub_trace demo_streaming = [Fired (CreateLobbyEvent demo_lobby), Start_video_producer ''lobby'' [] ''node'' 1920 1080 60,
      Fired (VideoSessionEvent demo_stream_video), Fired (RTPVideoPingEvent ''10.0.0.5'' 48100 (Some [7])),
      Start_streaming_video demo_stream_video ''10.0.0.5'' 48100]"
    by (simp add: demo_streaming_def Let_def on_create_lobby_def demo_hub_env_def hub_init_def note_effect_def demo_lobby_def
        upd_lobby_def upd_session_def video_ping_def fold_notes ping_matches_def demo_stream_video_def)
  let ?before = "pipeline_of Video_stream (dec 42) [''interpipesrc_'' @ dec 42 @ ''_video'' \<mapsto> dec 42 @ ''_video'']"
  let ?after = "?before\<lparr>pl_sources := (pl_sources ?before)(''interpipesrc_'' @ dec 42 @ ''_video'' \<mapsto> ''lobby_video'')\<rparr>"
  have "running_pipelines demo_gst_parser (hub_trace demo_streaming) = [pipeline_of Video_producer ''lobby'' Map.empty, ?before]"
    unfolding trace
    by (simp add: running_pipelines_def pipelines_step_def List.map_filter_simps on_event_def handlers_def is_producer_def
        pipeline_of_def video_args_def get_color_params_def demo_gst_parser_def demo_stream_video_def Let_def)
  moreover have "running_pipelines demo_gst_parser (hub_trace h') =
      List.map_filter (on_event (SwitchStreamProducerEvents 42 ''lobby''))
        (List.map_filter (on_event (JoinLobbyEvent ''lobby'' 42 None)) (running_pipelines demo_gst_parser (hub_trace demo_streaming)))"
    unfolding h'(2) by (simp add: running_pipelines_def pipelines_step_def)
  moreover have "on_event (SwitchStreamProducerEvents 42 ''lobby'') ?before = Some ?after"
    by (simp add: on_event_def handlers_def is_producer_def pipeline_of_def interpipe_src_def pipe_suffix_def)
  ultimately have "?after \<in> set (running_pipelines demo_gst_parser (hub_trace h'))"
    by (simp add: List.map_filter_simps on_event_def handlers_def is_producer_def pipeline_of_def)
  moreover have "lb_id ?lb = ''lobby''" by (simp add: new_lobby_def demo_lobby_def)
  ultimately show ?thesis
    using joined_streams_show_lobby [OF demo_streaming_reachable, of ?lb 42 ?after demo_gst_parser h' None] lobby h'(1)
    by (intro exI [of _ h'] exI [of _ ?after])
      (simp add: pipeline_of_def is_producer_def interpipe_sink_def interpipe_src_def pipe_suffix_def)
qed

end
