(* ===== verification/Wayland.thy ===== *)
theory Wayland
  imports Input_Handler
begin

section \<open>The virtual Wayland display: core platforms/linux/virtual-display, core/virtual-display.hpp\<close>

text \<open>
  Mouse, keyboard and touch screen of a Wayland display are messages to the element of the GStreamer
  plugin that runs the compositor. The state they share (\<open>WaylandState\<close>) holds the keys and buttons
  that are pressed, so that a device that goes releases them; it is one per display, not one per
  device. The messages are kept in the order they are sent. A \<open>double\<close> made from an \<open>int\<close> is that
  number. The codes of keys and buttons are those of \<open>linux/input-event-codes.h\<close>.
\<close>

subsection \<open>Messages and state\<close>

datatype wl_message =
    VirtualDevicesReady string
  | MouseMoveRelative int int
  | MouseMoveAbsolute int int
  | MouseButton nat bool
  | MouseAxis int int
  | KeyboardKey nat bool
  | TouchDown f64 f64 u32
  | TouchUp u32
  | TouchMotion f64 f64 u32
  | TouchCancel
  | TouchFrame

record WaylandState =
  ws_socket_name :: string
  ws_pressed_keys :: "u32 set"
  ws_pressed_buttons :: "u32 set"
  ws_sent :: "wl_message list"

definition create_wayland_display :: "string \<Rightarrow> WaylandState" where
  "create_wayland_display wayland_socket_name =
     \<lparr>ws_socket_name = wayland_socket_name, ws_pressed_keys = {}, ws_pressed_buttons = {}, ws_sent = []\<rparr>"

definition send_message :: "wl_message \<Rightarrow> WaylandState \<Rightarrow> WaylandState" where
  "send_message m w = w\<lparr>ws_sent := ws_sent w @ [m]\<rparr>"

definition add_input_device :: "string \<Rightarrow> WaylandState \<Rightarrow> WaylandState" where
  "add_input_device device_path = send_message (VirtualDevicesReady device_path)"

subsection \<open>Mouse\<close>

definition wl_move :: "int \<Rightarrow> int \<Rightarrow> WaylandState \<Rightarrow> WaylandState" where
  "wl_move delta_x delta_y = send_message (MouseMoveRelative delta_x delta_y)"

text \<open>The size of the screen is not used.\<close>

definition wl_move_abs :: "int \<Rightarrow> int \<Rightarrow> int \<Rightarrow> int \<Rightarrow> WaylandState \<Rightarrow> WaylandState" where
  "wl_move_abs x y screen_width screen_height = send_message (MouseMoveAbsolute x y)"

definition wl_vertical_scroll :: "int \<Rightarrow> WaylandState \<Rightarrow> WaylandState" where
  "wl_vertical_scroll high_res_distance = send_message (MouseAxis 0 (- high_res_distance))"

definition wl_horizontal_scroll :: "int \<Rightarrow> WaylandState \<Rightarrow> WaylandState" where
  "wl_horizontal_scroll high_res_distance = send_message (MouseAxis high_res_distance 0)"

definition moonlight_button_to_linux :: "u32 \<Rightarrow> nat" where
  "moonlight_button_to_linux button =
     (if button = 1 then 0x110 else if button = 2 then 0x112 else if button = 3 then 0x111 else if button = 4 then 0x113
      else 0x114)"

definition mouse_press :: "u32 \<Rightarrow> WaylandState \<Rightarrow> WaylandState" where
  "mouse_press button w =
     send_message (MouseButton (moonlight_button_to_linux button) True) (w\<lparr>ws_pressed_buttons := insert button (ws_pressed_buttons w)\<rparr>)"

definition mouse_release :: "u32 \<Rightarrow> WaylandState \<Rightarrow> WaylandState" where
  "mouse_release button w =
     send_message (MouseButton (moonlight_button_to_linux button) False) (w\<lparr>ws_pressed_buttons := ws_pressed_buttons w - {button}\<rparr>)"

text \<open>A destructor goes through a copy of the set, in the order of the numbers.\<close>

definition destroy_mouse :: "WaylandState \<Rightarrow> WaylandState" where
  "destroy_mouse w = fold mouse_release (sorted_list_of_set (ws_pressed_buttons w)) w"

subsection \<open>Keyboard\<close>

text \<open>Moonlight key codes and Linux key codes.\<close>

definition wl_key_mappings :: "(u32 \<times> nat) list" where
  "wl_key_mappings =
    [(0x08, 14), (0x09, 15),
     (0x0C, 355), (0x0D, 28),
     (0x10, 42), (0x11, 29),
     (0x12, 56), (0x13, 119),
     (0x14, 58), (0x15, 93),
     (0x16, 122), (0x17, 123),
     (0x19, 90), (0x1B, 1),
     (0x20, 57), (0x21, 104),
     (0x22, 109), (0x23, 107),
     (0x24, 102), (0x25, 105),
     (0x26, 103), (0x27, 106),
     (0x28, 108), (0x29, 353),
     (0x2A, 210), (0x2C, 99),
     (0x2D, 110), (0x2E, 111),
     (0x2F, 138), (0x30, 11),
     (0x31, 2), (0x32, 3),
     (0x33, 4), (0x34, 5),
     (0x35, 6), (0x36, 7),
     (0x37, 8), (0x38, 9),
     (0x39, 10), (0x41, 30),
     (0x42, 48), (0x43, 46),
     (0x44, 32), (0x45, 18),
     (0x46, 33), (0x47, 34),
     (0x48, 35), (0x49, 23),
     (0x4A, 36), (0x4B, 37),
     (0x4C, 38), (0x4D, 50),
     (0x4E, 49), (0x4F, 24),
     (0x50, 25), (0x51, 16),
     (0x52, 19), (0x53, 31),
     (0x54, 20), (0x55, 22),
     (0x56, 47), (0x57, 17),
     (0x58, 45), (0x59, 21),
     (0x5A, 44), (0x5B, 125),
     (0x5C, 126), (0x5F, 142),
     (0x60, 82), (0x61, 79),
     (0x62, 80), (0x63, 81),
     (0x64, 75), (0x65, 76),
     (0x66, 77), (0x67, 71),
     (0x68, 72), (0x69, 73),
     (0x6A, 55), (0x6B, 78),
     (0x6C, 121), (0x6D, 74),
     (0x6E, 83), (0x6F, 98),
     (0x70, 59), (0x71, 60),
     (0x72, 61), (0x73, 62),
     (0x74, 63), (0x75, 64),
     (0x76, 65), (0x77, 66),
     (0x78, 67), (0x79, 68),
     (0x7A, 87), (0x7B, 88),
     (0x90, 69), (0x91, 70),
     (0xA0, 42), (0xA1, 54),
     (0xA2, 29), (0xA3, 97),
     (0xA4, 56), (0xA5, 100),
     (0xBA, 39), (0xBB, 13),
     (0xBC, 51), (0xBD, 12),
     (0xBE, 52), (0xBF, 53),
     (0xC0, 41), (0xDB, 26),
     (0xDC, 43), (0xDD, 27),
     (0xDE, 40), (0xE2, 86)]"

definition keyboard_press :: "u32 \<Rightarrow> WaylandState \<Rightarrow> WaylandState" where
  "keyboard_press key_code w =
     (case map_of wl_key_mappings key_code of
        Some key \<Rightarrow> send_message (KeyboardKey key True) (w\<lparr>ws_pressed_keys := insert key_code (ws_pressed_keys w)\<rparr>)
      | None \<Rightarrow> w)"

definition keyboard_release :: "u32 \<Rightarrow> WaylandState \<Rightarrow> WaylandState" where
  "keyboard_release key_code w =
     (case map_of wl_key_mappings key_code of
        Some key \<Rightarrow> send_message (KeyboardKey key False) (w\<lparr>ws_pressed_keys := ws_pressed_keys w - {key_code}\<rparr>)
      | None \<Rightarrow> w)"

definition destroy_keyboard :: "WaylandState \<Rightarrow> WaylandState" where
  "destroy_keyboard w = fold keyboard_release (sorted_list_of_set (ws_pressed_keys w)) w"

subsection \<open>Touch screen\<close>

definition touch_down :: "u32 \<Rightarrow> f64 \<Rightarrow> f64 \<Rightarrow> WaylandState \<Rightarrow> WaylandState" where
  "touch_down touch_id x y = send_message (TouchDown x y touch_id)"

definition touch_up :: "u32 \<Rightarrow> WaylandState \<Rightarrow> WaylandState" where
  "touch_up touch_id = send_message (TouchUp touch_id)"

definition touch_motion :: "u32 \<Rightarrow> f64 \<Rightarrow> f64 \<Rightarrow> WaylandState \<Rightarrow> WaylandState" where
  "touch_motion touch_id x y = send_message (TouchMotion x y touch_id)"

definition touch_cancel :: "WaylandState \<Rightarrow> WaylandState" where
  "touch_cancel = send_message TouchCancel"

definition touch_frame :: "WaylandState \<Rightarrow> WaylandState" where
  "touch_frame = send_message TouchFrame"

definition destroy_touch_screen :: "WaylandState \<Rightarrow> WaylandState" where
  "destroy_touch_screen w = touch_cancel w"

subsection \<open>All operations\<close>

text \<open>What the devices of a display are told. The destructors of the three devices are operations:
  several sessions may have devices on one display.\<close>

datatype wl_op =
    Add_device string
  | Move int int
  | Move_abs int int int int
  | Press_button u32
  | Release_button u32
  | Scroll_vertically int
  | Scroll_horizontally int
  | Destroy_mouse
  | Press_key u32
  | Release_key u32
  | Destroy_keyboard
  | Down u32 f64 f64
  | Up u32
  | Motion u32 f64 f64
  | Cancel
  | Frame
  | Destroy_touch_screen

fun wl_step :: "wl_op \<Rightarrow> WaylandState \<Rightarrow> WaylandState" where
  "wl_step (Add_device device_path) w = add_input_device device_path w"
| "wl_step (Move delta_x delta_y) w = wl_move delta_x delta_y w"
| "wl_step (Move_abs x y screen_width screen_height) w = wl_move_abs x y screen_width screen_height w"
| "wl_step (Press_button button) w = mouse_press button w"
| "wl_step (Release_button button) w = mouse_release button w"
| "wl_step (Scroll_vertically high_res_distance) w = wl_vertical_scroll high_res_distance w"
| "wl_step (Scroll_horizontally high_res_distance) w = wl_horizontal_scroll high_res_distance w"
| "wl_step Destroy_mouse w = destroy_mouse w"
| "wl_step (Press_key key_code) w = keyboard_press key_code w"
| "wl_step (Release_key key_code) w = keyboard_release key_code w"
| "wl_step Destroy_keyboard w = destroy_keyboard w"
| "wl_step (Down touch_id x y) w = touch_down touch_id x y w"
| "wl_step (Up touch_id) w = touch_up touch_id w"
| "wl_step (Motion touch_id x y) w = touch_motion touch_id x y w"
| "wl_step Cancel w = touch_cancel w"
| "wl_step Frame w = touch_frame w"
| "wl_step Destroy_touch_screen w = destroy_touch_screen w"

lemmas message_defs = add_input_device_def wl_move_def wl_move_abs_def wl_vertical_scroll_def wl_horizontal_scroll_def
  touch_down_def touch_up_def touch_motion_def touch_cancel_def touch_frame_def destroy_touch_screen_def

definition wl_run :: "wl_op list \<Rightarrow> WaylandState \<Rightarrow> WaylandState" where
  "wl_run = fold wl_step"

subsection \<open>What the compositor holds down\<close>

text \<open>The compositor's view: a key or button is held when the last message about it pressed it.\<close>

fun hold :: "wl_message \<Rightarrow> nat set \<times> nat set \<Rightarrow> nat set \<times> nat set" where
  "hold (KeyboardKey key True) (ks, bs) = (insert key ks, bs)"
| "hold (KeyboardKey key False) (ks, bs) = (ks - {key}, bs)"
| "hold (MouseButton b True) (ks, bs) = (ks, insert b bs)"
| "hold (MouseButton b False) (ks, bs) = (ks, bs - {b})"
| "hold _ now = now"

definition compositor_held :: "WaylandState \<Rightarrow> nat set \<times> nat set" where
  "compositor_held w = fold hold (ws_sent w) ({}, {})"

definition linux_key :: "u32 \<Rightarrow> nat" where
  "linux_key k = the (map_of wl_key_mappings k)"

text \<open>What the compositor holds was pressed by a key that the state still has, and all its keys are known.\<close>

definition wl_inv :: "WaylandState \<Rightarrow> bool" where
  "wl_inv w \<longleftrightarrow> fst (compositor_held w) \<subseteq> linux_key ` ws_pressed_keys w \<and> snd (compositor_held w) \<subseteq> moonlight_button_to_linux ` ws_pressed_buttons w \<and>
     (\<forall>k \<in> ws_pressed_keys w. map_of wl_key_mappings k \<noteq> None)"

lemma compositor_held_send [simp]: "compositor_held (send_message m w) = hold m (compositor_held w)"
  by (simp add: compositor_held_def send_message_def)

lemma compositor_held_pressed [simp]:
  "compositor_held (w\<lparr>ws_pressed_keys := ks\<rparr>) = compositor_held w" "compositor_held (w\<lparr>ws_pressed_buttons := bs\<rparr>) = compositor_held w"
  by (simp_all add: compositor_held_def)

lemma pressed_send [simp]:
  "ws_pressed_keys (send_message m w) = ws_pressed_keys w" "ws_pressed_buttons (send_message m w) = ws_pressed_buttons w"
  by (simp_all add: send_message_def)

lemma wl_inv_new: "wl_inv (create_wayland_display n)"
  by (simp add: wl_inv_def compositor_held_def create_wayland_display_def)

lemma wl_inv_send:
  assumes "hold m (compositor_held w) = compositor_held w"
  shows "wl_inv (send_message m w) = wl_inv w"
  using assms by (simp add: wl_inv_def)

lemma wl_inv_keyboard:
  assumes "wl_inv w"
  shows "wl_inv (keyboard_press k w)" "wl_inv (keyboard_release k w)"
proof -
  obtain ks bs where h: "compositor_held w = (ks, bs)" by (cases "compositor_held w")
  show "wl_inv (keyboard_press k w)" using assms
    by (auto simp: wl_inv_def keyboard_press_def h linux_key_def split: option.split)
  have "ks \<subseteq> linux_key ` ws_pressed_keys w" using assms by (simp add: wl_inv_def h)
  also have "\<dots> \<subseteq> insert (linux_key k) (linux_key ` (ws_pressed_keys w - {k}))" by auto
  finally have "ks - {linux_key k} \<subseteq> linux_key ` (ws_pressed_keys w - {k})" by blast
  then show "wl_inv (keyboard_release k w)" using assms
    by (cases "map_of wl_key_mappings k") (auto simp: wl_inv_def keyboard_release_def h linux_key_def [of k])
qed

lemma wl_inv_mouse:
  assumes "wl_inv w"
  shows "wl_inv (mouse_press b w)" "wl_inv (mouse_release b w)"
proof -
  obtain ks bs where h: "compositor_held w = (ks, bs)" by (cases "compositor_held w")
  show "wl_inv (mouse_press b w)" "wl_inv (mouse_release b w)" using assms
    by (auto simp: wl_inv_def mouse_press_def mouse_release_def h)
qed

lemma wl_inv_fold: "\<lbrakk>wl_inv w; \<And>x w. wl_inv w \<Longrightarrow> wl_inv (f x w)\<rbrakk> \<Longrightarrow> wl_inv (fold f xs w)"
  by (induction xs arbitrary: w) simp_all

lemma wl_inv_step: "wl_inv w \<Longrightarrow> wl_inv (wl_step op w)"
  by (cases op) (simp_all add: message_defs wl_inv_send wl_inv_mouse wl_inv_keyboard destroy_mouse_def destroy_keyboard_def wl_inv_fold)

lemma wl_inv_run: "wl_inv (wl_run ops (create_wayland_display n))"
  unfolding wl_run_def by (intro wl_inv_fold wl_inv_step wl_inv_new)

text \<open>C38: The state of a display is well formed whatever its devices were told: every key it calls pressed
  is one of the key map, and all keys and buttons that the compositor holds were pressed by one
  that the state still calls pressed, so that a destructor finds it.\<close>

theorem display_well_formed:
  "wl_inv (wl_run ops (create_wayland_display name))"
  by (rule wl_inv_run)

lemma released_keys:
  "\<lbrakk>\<forall>k \<in> set ks. map_of wl_key_mappings k \<noteq> None\<rbrakk> \<Longrightarrow>
   ws_pressed_keys (fold keyboard_release ks w) = ws_pressed_keys w - set ks"
  by (induction ks arbitrary: w) (auto simp: keyboard_release_def)

lemma released_buttons: "ws_pressed_buttons (fold mouse_release bs w) = ws_pressed_buttons w - set bs"
  by (induction bs arbitrary: w) (auto simp: mouse_release_def)

text \<open>C26: No key or button stays down on a display: whatever its devices were told, in any order and
  by any number of players, once a keyboard of the display is destroyed the compositor holds no key,
  and once a mouse is destroyed it holds no button.\<close>

theorem nothing_stays_pressed:
  "fst (compositor_held (destroy_keyboard (wl_run ops (create_wayland_display name)))) = {} \<and>
   snd (compositor_held (destroy_mouse (wl_run ops (create_wayland_display name)))) = {}"
proof -
  let ?w = "wl_run ops (create_wayland_display name)"
  have inv: "wl_inv ?w" "wl_inv (destroy_keyboard ?w)" "wl_inv (destroy_mouse ?w)"
    using wl_inv_run wl_inv_step [of _ Destroy_keyboard] wl_inv_step [of _ Destroy_mouse] by simp_all
  have "ws_pressed_keys (destroy_keyboard ?w) = {}"
    using inv(1) by (simp add: destroy_keyboard_def wl_inv_def released_keys)
  moreover have "ws_pressed_buttons (destroy_mouse ?w) = {}"
    by (simp add: destroy_mouse_def released_buttons)
  ultimately show ?thesis using inv(2,3) by (simp add: wl_inv_def)
qed

end
