(* ===== verification/Docker.thy ===== *)
theory Docker
  imports App_State Moonlight_Http "HOL-Library.AList" "HOL-Library.Monad_Syntax"
begin

section \<open>The Docker client: core docker.cpp, docker/json_formatters.hpp\<close>

text \<open>
  The client of the Docker daemon. The daemon is a parameter: a function from its state and a request
  to an answer and its next state, where no answer is a failed transfer (a daemon that does not
  listen answers nothing). The JSON parser and printer of Boost are parameters too. An exception (a
  missing member of an object, a value of another type), and a null pointer that would be followed,
  is \<open>None\<close>. \<open>create\<close> may call itself for ever: it is a partial function of its own result type.
\<close>

subsection \<open>JSON values (boost::json)\<close>

datatype json =
    J_null
  | J_bool bool
  | J_int64 int
  | J_uint64 nat
  | J_double f64
  | J_string string
  | J_array "json list"
  | J_object "(string \<times> json) list"

type_synonym json_object = "(string \<times> json) list"

fun as_object :: "json \<Rightarrow> json_object option" where
  "as_object (J_object ob) = Some ob"
| "as_object _ = None"

fun as_array :: "json \<Rightarrow> json list option" where
  "as_array (J_array xs) = Some xs"
| "as_array _ = None"

fun as_string :: "json \<Rightarrow> string option" where
  "as_string (J_string s) = Some s"
| "as_string _ = None"

fun as_int64 :: "json \<Rightarrow> int option" where
  "as_int64 (J_int64 i) = Some i"
| "as_int64 _ = None"

definition json_at :: "json \<Rightarrow> string \<Rightarrow> json option" where
  "json_at j key = Option.bind (as_object j) (\<lambda>ob. map_of ob key)"

definition string_at :: "json \<Rightarrow> string \<Rightarrow> string option" where
  "string_at j key = Option.bind (json_at j key) as_string"

text \<open>Elements of an array that is \<open>null\<close> in some answers of the API.\<close>

definition array_or_null :: "(json \<Rightarrow> 'a option) \<Rightarrow> json \<Rightarrow> 'a list option" where
  "array_or_null f j = (if j = J_null then Some [] else do { xs \<leftarrow> as_array j; those (map f xs) })"

subsection \<open>Containers as JSON (docker/json_formatters.hpp)\<close>

definition port_key :: "Port \<Rightarrow> string" where
  "port_key p = dec_int (po_public_port p) @ ''/'' @ port_type_text (po_type p)"

definition ports_json :: "Port list \<Rightarrow> json" where
  "ports_json ports = J_object (fold (\<lambda>p. AList.update (port_key p)
     (J_array [J_object [(''HostPort'', J_string (dec_int (po_private_port p)))]])) ports [])"

definition mount_json :: "MountPoint \<Rightarrow> json" where
  "mount_json m = J_string (mount_text m)"

definition mount_of_json :: "json \<Rightarrow> MountPoint option" where
  "mount_of_json j = do {
     s \<leftarrow> string_at j ''Source''; d \<leftarrow> string_at j ''Destination''; m \<leftarrow> string_at j ''Mode'';
     Some \<lparr>mp_source = s, mp_destination = d, mp_mode = m\<rparr> }"

definition device_json :: "Device \<Rightarrow> json" where
  "device_json d = J_object [(''PathOnHost'', J_string (de_path_on_host d)),
     (''PathInContainer'', J_string (de_path_in_container d)), (''CgroupPermissions'', J_string (de_cgroup_permission d))]"

definition device_of_json :: "json \<Rightarrow> Device option" where
  "device_of_json j = do {
     h \<leftarrow> string_at j ''PathOnHost''; c \<leftarrow> string_at j ''PathInContainer''; p \<leftarrow> string_at j ''CgroupPermissions'';
     Some \<lparr>de_path_on_host = h, de_path_in_container = c, de_cgroup_permission = p\<rparr> }"

text \<open>The text of a status is compared by its hash.\<close>

definition status_of_text :: "string \<Rightarrow> ContainerStatus" where
  "status_of_text s =
     (let h = hash (map lower s)
      in if h = hash ''created'' then CREATED
         else if h = hash ''running'' then RUNNING
         else if h = hash ''paused'' then PAUSED
         else if h = hash ''restarting'' then RESTARTING
         else if h = hash ''removing'' then REMOVING
         else if h = hash ''exited'' then EXITED
         else if h = hash ''dead'' then DEAD
         else CREATED)"

definition stoi_or_minus_one :: "string \<Rightarrow> int" where
  "stoi_or_minus_one s = (case stoi s of Inr n \<Rightarrow> n | Inl _ \<Rightarrow> -1)"

text \<open>
  One port binding: a key without exactly one slash is skipped. The number before the slash is
  read from the whole key (the piece is not terminated). The port of the host is -1 when the binding
  has another shape; \<open>null\<close> (Podman) means the same port. The first element of an empty array is
  undefined.
\<close>

definition private_port_of :: "string \<Rightarrow> json \<Rightarrow> int option" where
  "private_port_of key j =
     (case j of
        J_null \<Rightarrow> Some (stoi_or_minus_one key)
      | J_array [] \<Rightarrow> None
      | J_array (b # _) \<Rightarrow> Some (case string_at b ''HostPort'' of Some s \<Rightarrow> stoi_or_minus_one s | None \<Rightarrow> -1)
      | _ \<Rightarrow> Some (-1))"

definition port_of_json :: "string \<times> json \<Rightarrow> Port list option" where
  "port_of_json kv =
     (case kv of (key, j) \<Rightarrow>
       (case split_str key (CHR ''/'') of
          [_, proto] \<Rightarrow> map_option (\<lambda>private_port. [\<lparr>po_private_port = private_port,
              po_public_port = stoi_or_minus_one key, po_type = (if proto = ''tcp'' then TCP else UDP)\<rparr>])
            (private_port_of key j)
        | _ \<Rightarrow> Some []))"

definition ports_of_json :: "json \<Rightarrow> Port list option" where
  "ports_of_json j =
     (if j = J_null then Some [] else do { ob \<leftarrow> as_object j; pss \<leftarrow> those (map port_of_json ob); Some (concat pss) })"

definition container_of_json :: "json \<Rightarrow> Container option" where
  "container_of_json j = do {
     state \<leftarrow> json_at j ''State''; status \<leftarrow> string_at state ''Status'';
     host_config \<leftarrow> json_at j ''HostConfig''; config \<leftarrow> json_at j ''Config'';
     bindings \<leftarrow> json_at host_config ''PortBindings''; ports \<leftarrow> ports_of_json bindings;
     ms \<leftarrow> json_at j ''Mounts''; mounts \<leftarrow> array_or_null mount_of_json ms;
     ds \<leftarrow> json_at host_config ''Devices''; devices \<leftarrow> array_or_null device_of_json ds;
     es \<leftarrow> json_at config ''Env''; env \<leftarrow> array_or_null as_string es;
     hn \<leftarrow> json_at config ''Hostname''; hostname \<leftarrow> (if hn = J_null then Some [] else as_string hn);
     i \<leftarrow> string_at j ''Id''; name \<leftarrow> string_at j ''Name''; img \<leftarrow> string_at config ''Image'';
     Some \<lparr>ct_id = i, ct_name = name, ct_hostname = hostname, ct_image = img, ct_status = status_of_text status,
       ct_ports = ports, ct_mounts = mounts, ct_devices = devices, ct_env = env\<rparr> }"

subsection \<open>Requests\<close>

datatype METHOD = GET | POST | DELETE

record docker_request =
  rq_method :: METHOD
  rq_target :: string
  rq_body :: string

text \<open>
  The surroundings: the daemon, what it streams while an image is pulled (the pieces as they come, and the
  status at the end, or none when the transfer failed), and the JSON library. \<open>dk_connect\<close> is whether
  libcurl gives a handle.
\<close>

record 'd docker_env =
  dk_connect :: bool
  dk_daemon :: "docker_request \<Rightarrow> 'd \<Rightarrow> (int \<times> string) option \<times> 'd"
  dk_pull :: "string \<Rightarrow> string \<Rightarrow> 'd \<Rightarrow> (string list \<times> int option) \<times> 'd"
  dk_parse :: "string \<Rightarrow> json option"
  dk_print :: "json \<Rightarrow> string"
  dk_version :: string

definition req :: "'d docker_env \<Rightarrow> METHOD \<Rightarrow> string \<Rightarrow> string \<Rightarrow> 'd \<Rightarrow> (int \<times> string) option \<times> 'd" where
  "req env meth target post_body d =
     (if dk_connect env
      then dk_daemon env \<lparr>rq_method = meth, rq_target = target, rq_body = (if meth = POST then post_body else [])\<rparr> d
      else (None, d))"

definition parse_json :: "'d docker_env \<Rightarrow> string \<Rightarrow> json" where
  "parse_json env s = (case dk_parse env s of Some j \<Rightarrow> j | None \<Rightarrow> J_object [])"

definition url :: "'d docker_env \<Rightarrow> string \<Rightarrow> string" where
  "url env rest = ''http://localhost/'' @ dk_version env @ rest"

definition containers_url :: "'d docker_env \<Rightarrow> string \<Rightarrow> string \<Rightarrow> string" where
  "containers_url env i rest = url env (''/containers/'' @ i @ rest)"

definition bool_text :: "bool \<Rightarrow> string" where
  "bool_text b = (if b then ''true'' else ''false'')"

definition get_by_id :: "'d docker_env \<Rightarrow> string \<Rightarrow> 'd \<Rightarrow> (Container option \<times> 'd) option" where
  "get_by_id env i d =
     (case req env GET (containers_url env i ''/json'') [] d of
        (Some (code, msg), d') \<Rightarrow>
          if code = 200 then map_option (\<lambda>c. (Some c, d')) (container_of_json (parse_json env msg)) else Some (None, d')
      | (None, d') \<Rightarrow> Some (None, d'))"

text \<open>The identifier of every container in the list is looked up again; one that is gone throws.\<close>

primrec get_each :: "'d docker_env \<Rightarrow> json list \<Rightarrow> 'd \<Rightarrow> (Container list \<times> 'd) option" where
  "get_each env [] d = Some ([], d)"
| "get_each env (j # js) d = do {
     i \<leftarrow> string_at j ''Id'';
     (c, d1) \<leftarrow> get_by_id env i d;
     container \<leftarrow> c;
     (cs, d2) \<leftarrow> get_each env js d1;
     Some (container # cs, d2) }"

definition get_containers :: "'d docker_env \<Rightarrow> bool \<Rightarrow> 'd \<Rightarrow> (Container list \<times> 'd) option" where
  "get_containers env every d =
     (case req env GET (url env (''/containers/json'' @ (if every then ''?all=true'' else []))) [] d of
        (Some (code, msg), d') \<Rightarrow>
          if code = 200 then do { js \<leftarrow> as_array (parse_json env msg); get_each env js d' } else Some ([], d')
      | (None, d') \<Rightarrow> Some ([], d'))"

subsection \<open>Starting, stopping and removing\<close>

definition start_by_id :: "'d docker_env \<Rightarrow> string \<Rightarrow> 'd \<Rightarrow> bool \<times> 'd" where
  "start_by_id env i d =
     (case req env POST (containers_url env i ''/start'') [] d of
        (Some (code, _), d') \<Rightarrow> (code = 204 \<or> code = 304, d') | (None, d') \<Rightarrow> (False, d'))"

definition stop_by_id :: "'d docker_env \<Rightarrow> string \<Rightarrow> int \<Rightarrow> 'd \<Rightarrow> bool \<times> 'd" where
  "stop_by_id env i timeout_seconds d =
     (case req env POST (containers_url env i (''/stop?t='' @ dec_int timeout_seconds)) [] d of
        (Some (code, _), d') \<Rightarrow> (code = 204 \<or> code = 304, d') | (None, d') \<Rightarrow> (False, d'))"

definition remove_by_id :: "'d docker_env \<Rightarrow> string \<Rightarrow> bool \<Rightarrow> bool \<Rightarrow> bool \<Rightarrow> 'd \<Rightarrow> bool \<times> 'd" where
  "remove_by_id env i remove_volumes force link d =
     (case req env DELETE (containers_url env i
             (''?v='' @ bool_text remove_volumes @ ''&force='' @ bool_text force @ ''&link='' @ bool_text link)) [] d of
        (Some (code, _), d') \<Rightarrow> (code = 204, d') | (None, d') \<Rightarrow> (False, d'))"

definition remove_by_name :: "'d docker_env \<Rightarrow> string \<Rightarrow> bool \<Rightarrow> bool \<Rightarrow> bool \<Rightarrow> 'd \<Rightarrow> (bool \<times> 'd) option" where
  "remove_by_name env name remove_volumes force link d = do {
     (containers, d') \<leftarrow> get_containers env True d;
     Some (case List.find (\<lambda>c. ct_name c = name \<or> ct_name c = ''/'' @ name) containers of
             Some c \<Rightarrow> remove_by_id env (ct_id c) remove_volumes force link d'
           | None \<Rightarrow> (False, d')) }"

subsection \<open>Pulling an image\<close>

record DockerProgressEvent =
  pe_layer_id :: string
  pe_current_progress :: int
  pe_total :: int

definition LF :: char where "LF = CHR 0x0A"

text \<open>The lines that are complete in a buffer, and what remains in it.\<close>

function take_lines :: "string \<Rightarrow> string list \<times> string" where
  "take_lines buffer =
     (case dropWhile (\<lambda>c. c \<noteq> LF) buffer of
        [] \<Rightarrow> ([], buffer)
      | _ # rest \<Rightarrow> let (ls, remaining) = take_lines rest in (takeWhile (\<lambda>c. c \<noteq> LF) buffer # ls, remaining))"
  by pat_completeness auto

termination
proof (relation "measure length")
  fix buffer rest :: string and c
  assume "dropWhile (\<lambda>c. c \<noteq> LF) buffer = c # rest"
  then have "Suc (length rest) = length (dropWhile (\<lambda>c. c \<noteq> LF) buffer)" by simp
  also have "\<dots> \<le> length buffer" by (rule length_dropWhile_le)
  finally show "(rest, buffer) \<in> measure length" by simp
qed simp

declare take_lines.simps [simp del]

text \<open>The number of a member of \<open>progressDetail\<close>, 0 when it has none of this type.\<close>

definition detail :: "json_object \<Rightarrow> string \<Rightarrow> int" where
  "detail ob key = (case Option.bind (map_of ob key) as_int64 of Some n \<Rightarrow> n | None \<Rightarrow> 0)"

text \<open>
  One line of the answer: what it reports, and the error message it sets. An exception skips the
  rest of the line. The test of the member \<open>error\<close> and its use are as in the code.
\<close>

definition pull_object :: "json_object \<Rightarrow> DockerProgressEvent option" where
  "pull_object ob =
     (case Option.bind (map_of ob ''id'') as_string of
        None \<Rightarrow> None
      | Some layer \<Rightarrow> map_option (\<lambda>detail_ob. \<lparr>pe_layer_id = layer,
          pe_current_progress = detail detail_ob ''current'', pe_total = detail detail_ob ''total''\<rparr>)
          (Option.bind (map_of ob ''progressDetail'') as_object))"

definition pull_line :: "'d docker_env \<Rightarrow> string \<Rightarrow> DockerProgressEvent option \<times> string option" where
  "pull_line env text =
     (let line = (if text \<noteq> [] \<and> last text = CHR 0x0D then butlast text else text)
      in if line = [] then (None, None)
         else case Option.bind (dk_parse env line) as_object of
                None \<Rightarrow> (None, None)
              | Some ob \<Rightarrow>
                  (case map_of ob ''error'' of
                     Some error \<Rightarrow>
                       if as_object error \<noteq> None
                       then (case as_string error of None \<Rightarrow> (None, None) | Some msg \<Rightarrow> (pull_object ob, Some msg))
                       else (pull_object ob, None)
                   | None \<Rightarrow> (pull_object ob, None)))"

record PullState =
  ps_buffer :: string
  ps_progress :: "DockerProgressEvent list"
  ps_error_msg :: "string option"

definition on_pull_line :: "'d docker_env \<Rightarrow> string \<Rightarrow> PullState \<Rightarrow> PullState" where
  "on_pull_line env line s =
     (case pull_line env line of
        (progress, error) \<Rightarrow> s\<lparr>ps_progress := ps_progress s @ (case progress of None \<Rightarrow> [] | Some p \<Rightarrow> [p]),
          ps_error_msg := (case error of None \<Rightarrow> ps_error_msg s | Some e \<Rightarrow> Some e)\<rparr>)"

definition write_callback :: "'d docker_env \<Rightarrow> string \<Rightarrow> PullState \<Rightarrow> PullState" where
  "write_callback env piece s =
     (case take_lines (ps_buffer s @ piece) of
        (ls, remaining) \<Rightarrow> (fold (on_pull_line env) ls s)\<lparr>ps_buffer := remaining\<rparr>)"

definition pull_url :: "'d docker_env \<Rightarrow> string \<Rightarrow> string" where
  "pull_url env image_name = url env (''/images/create?fromImage='' @ image_name)"

definition pull_image :: "'d docker_env \<Rightarrow> string \<Rightarrow> string \<Rightarrow> 'd \<Rightarrow> (bool \<times> DockerProgressEvent list) \<times> 'd" where
  "pull_image env image_name registry_auth d =
     (if dk_connect env
      then case dk_pull env (pull_url env image_name) registry_auth d of
        ((chunks, response_code), d') \<Rightarrow>
          let s = fold (write_callback env) chunks \<lparr>ps_buffer = [], ps_progress = [], ps_error_msg = None\<rparr>
          in ((case response_code of None \<Rightarrow> False | Some code \<Rightarrow> ps_error_msg s = None \<and> code = 200, ps_progress s), d')
      else ((False, []), d))"

subsection \<open>Creating a container\<close>

definition has_name_conflict_text :: "string \<Rightarrow> bool" where
  "has_name_conflict_text v = (let lowered = map lower v in has_sub ''already in use'' lowered \<and> has_sub ''name'' lowered)"

definition is_container_name_conflict_response :: "'d docker_env \<Rightarrow> int \<Rightarrow> string \<Rightarrow> bool" where
  "is_container_name_conflict_response env status_code response_body \<longleftrightarrow>
     status_code = 409 \<or>
     status_code = 500 \<and>
       ((case Option.bind (dk_parse env response_body) as_object of
           None \<Rightarrow> False
         | Some ob \<Rightarrow> list_ex (\<lambda>field. case Option.bind (map_of ob field) as_string of
             None \<Rightarrow> False | Some t \<Rightarrow> has_name_conflict_text t) [''message'', ''cause'']) \<or>
        has_name_conflict_text response_body)"

text \<open>A member that is there but no array is a null pointer that is followed.\<close>

definition merge_array :: "string \<Rightarrow> json list \<Rightarrow> json_object \<Rightarrow> json_object option" where
  "merge_array key vec root =
     (case map_of root key of
        None \<Rightarrow> Some (AList.update key (J_array vec) root)
      | Some current \<Rightarrow> map_option (\<lambda>xs. AList.update key (J_array (xs @ vec)) root) (as_array current))"

definition exposed_ports :: "Port list \<Rightarrow> json" where
  "exposed_ports ports = J_object (fold (\<lambda>p. AList.update (port_key p) (J_object [])) ports [])"

definition host_config :: "Container \<Rightarrow> json option \<Rightarrow> json option" where
  "host_config c given =
     (let binds = map mount_json (ct_mounts c); devices = map device_json (ct_devices c); bindings = ports_json (ct_ports c)
      in case given of
           None \<Rightarrow> Some (J_object [(''Binds'', J_array binds), (''PortBindings'', bindings), (''Devices'', J_array devices)])
         | Some hc \<Rightarrow> do {
             cfg \<leftarrow> as_object hc;
             cfg1 \<leftarrow> merge_array ''Binds'' binds cfg;
             cfg2 \<leftarrow> merge_array ''Devices'' devices cfg1;
             Some (J_object (AList.update ''PortBindings'' bindings cfg2)) })"

definition post_params :: "'d docker_env \<Rightarrow> Container \<Rightarrow> string \<Rightarrow> json_object option" where
  "post_params env c custom_params = do {
     given \<leftarrow> as_object (parse_json env custom_params);
     let p = AList.update ''ExposedPorts'' (exposed_ports (ct_ports c)) (AList.update ''Image'' (J_string (ct_image c)) given);
     p1 \<leftarrow> merge_array ''Env'' (map J_string (ct_env c)) p;
     hc \<leftarrow> host_config c (map_of p1 ''HostConfig'');
     Some (AList.update ''HostConfig'' hc p1) }"

definition create_url :: "'d docker_env \<Rightarrow> string \<Rightarrow> string" where
  "create_url env name = url env (''/containers/create?name='' @ name)"

datatype 'a call_result = Throws | Returns 'a

text \<open>
  After an image was pulled, and after a container of the same name was removed, \<open>create\<close> is tried
  again from the start. \<open>None\<close> is a call that never returns.
\<close>

partial_function (option) create :: "'d docker_env \<Rightarrow> Container \<Rightarrow> string \<Rightarrow> string \<Rightarrow> bool \<Rightarrow> 'd \<Rightarrow>
    (Container option call_result \<times> 'd) option" where
  "create env c custom_params registry_auth force d =
     (if \<not> dk_connect env then Some (Returns None, d)
      else case post_params env c custom_params of
        None \<Rightarrow> Some (Throws, d)
      | Some params \<Rightarrow>
          (case req env POST (create_url env (ct_name c)) (dk_print env (J_object params)) d of
             (None, d1) \<Rightarrow> Some (Returns None, d1)
           | (Some (code, msg), d1) \<Rightarrow>
               if code = 201
               then Some (case string_at (parse_json env msg) ''Id'' of
                            None \<Rightarrow> (Throws, d1)
                          | Some i \<Rightarrow> (case get_by_id env i d1 of None \<Rightarrow> (Throws, d1) | Some (found, d2) \<Rightarrow> (Returns found, d2)))
               else if code = 404
               then (case pull_image env (ct_image c) registry_auth d1 of
                       ((pulled, _), d2) \<Rightarrow> if pulled then create env c custom_params registry_auth force d2 else Some (Returns None, d2))
               else if force \<and> is_container_name_conflict_response env code msg
               then (case remove_by_name env (ct_name c) True True False d1 of
                       None \<Rightarrow> Some (Throws, d1)
                     | Some (removed, d2) \<Rightarrow>
                         if removed then create env c custom_params registry_auth force d2 else Some (Returns None, d2))
               else Some (Returns None, d1)))"

subsection \<open>Images, logs and commands\<close>

definition inspect_image :: "'d docker_env \<Rightarrow> string \<Rightarrow> 'd \<Rightarrow> string option \<times> 'd" where
  "inspect_image env image_name d =
     (case req env GET (url env (''/images/'' @ image_name @ ''/json'')) [] d of
        (Some (code, msg), d') \<Rightarrow> (if code = 200 then Some msg else None, d') | (None, d') \<Rightarrow> (None, d'))"

definition get_logs :: "'d docker_env \<Rightarrow> string \<Rightarrow> bool \<Rightarrow> bool \<Rightarrow> int \<Rightarrow> int \<Rightarrow> bool \<Rightarrow> 'd \<Rightarrow> string \<times> 'd" where
  "get_logs env i get_stdout get_stderr since until timestamps d =
     (case req env GET (containers_url env i (''/logs?stdout='' @ bool_text get_stdout @ ''&stderr='' @ bool_text get_stderr @
             ''&since='' @ dec_int since @ ''&until='' @ dec_int until @ ''&timestamps='' @ bool_text timestamps @ ''&follow=false'')) [] d of
        (Some (code, msg), d') \<Rightarrow> (if code = 200 then msg else [], d') | (None, d') \<Rightarrow> ([], d'))"

definition exec_params :: "string list \<Rightarrow> string \<Rightarrow> json" where
  "exec_params command user = J_object [(''Cmd'', J_array (map J_string command)), (''User'', J_string user),
     (''AttachStdin'', J_bool False), (''AttachStdout'', J_bool True), (''AttachStderr'', J_bool True)]"

text \<open>A command is created, run, and its exit code looked up; the third answer decides.\<close>

definition exec_result :: "'d docker_env \<Rightarrow> string \<Rightarrow> 'd \<Rightarrow> (bool \<times> 'd) option" where
  "exec_result env exec_id d =
     (case req env GET (url env (''/exec/'' @ exec_id @ ''/json'')) [] d of
        (Some (code, msg), d') \<Rightarrow>
          if code = 200
          then do { e \<leftarrow> json_at (parse_json env msg) ''ExitCode''; exit_code \<leftarrow> as_int64 e; Some (exit_code = 0, d') }
          else Some (False, d')
      | (None, d') \<Rightarrow> Some (False, d'))"

definition exec_container :: "'d docker_env \<Rightarrow> string \<Rightarrow> string list \<Rightarrow> string \<Rightarrow> 'd \<Rightarrow> (bool \<times> 'd) option" where
  "exec_container env i command user d =
     (case req env POST (containers_url env i ''/exec'') (dk_print env (exec_params command user)) d of
        (Some (code, msg), d1) \<Rightarrow>
          if code = 201
          then Option.bind (string_at (parse_json env msg) ''Id'') (\<lambda>exec_id.
            (case req env POST (url env (''/exec/'' @ exec_id @ ''/start''))
                 (dk_print env (J_object [(''Detach'', J_bool False), (''Tty'', J_bool False)])) d1 of
               (Some (code', _), d2) \<Rightarrow> if code' = 200 then exec_result env exec_id d2 else Some (False, d2)
             | (None, d2) \<Rightarrow> Some (False, d2)))
          else Some (False, d1)
      | (None, d1) \<Rightarrow> Some (False, d1))"

definition get_api_version :: "'d docker_env \<Rightarrow> 'd \<Rightarrow> string \<times> 'd" where
  "get_api_version env d =
     (case req env GET ''http://localhost/version'' [] d of
        (Some (code, msg), d') \<Rightarrow>
          (if code = 200
           then (case string_at (parse_json env msg) ''ApiVersion'' of Some v \<Rightarrow> CHR ''v'' # v | None \<Rightarrow> ''v1.40'')
           else ''v1.40'', d')
      | (None, d') \<Rightarrow> (''v1.40'', d'))"


subsection \<open>Lemmas\<close>

lemma take_lines_none: "dropWhile (\<lambda>c. c \<noteq> LF) a = [] \<Longrightarrow> take_lines a = ([], a)"
  by (subst take_lines.simps) (simp only: list.case)

lemma take_lines_some:
  "dropWhile (\<lambda>c. c \<noteq> LF) a = c # rest \<Longrightarrow>
   take_lines a = (case take_lines rest of (ls, r) \<Rightarrow> (takeWhile (\<lambda>c. c \<noteq> LF) a # ls, r))"
  by (subst take_lines.simps) (simp only: list.case Let_def)

lemma take_lines_append:
  "take_lines (a @ b) = (case take_lines a of (ls, r) \<Rightarrow> case take_lines (r @ b) of (ls', r') \<Rightarrow> (ls @ ls', r'))"
proof (induction a rule: take_lines.induct)
  case (1 a)
  show ?case
  proof (cases "dropWhile (\<lambda>c. c \<noteq> LF) a")
    case Nil
    then show ?thesis by (simp only: take_lines_none prod.case) (simp split: prod.splits)
  next
    case (Cons c rest)
    then have lf: "LF \<in> set a" by (metis (full_types) dropWhile_eq_Nil_conv list.distinct(1))
    then have d: "dropWhile (\<lambda>c. c \<noteq> LF) (a @ b) = c # rest @ b"
      and t: "takeWhile (\<lambda>c. c \<noteq> LF) (a @ b) = takeWhile (\<lambda>c. c \<noteq> LF) a"
      using Cons dropWhile_append1 [OF lf, of "\<lambda>c. c \<noteq> LF" b] takeWhile_append1 [OF lf, of "\<lambda>c. c \<noteq> LF" b] by simp_all
    show ?thesis unfolding take_lines_some [OF Cons] take_lines_some [OF d] t
      by (simp add: 1 [OF Cons] split: prod.splits)
  qed
qed

lemma on_pull_line_buffer: "on_pull_line env line (s\<lparr>ps_buffer := b\<rparr>) = (on_pull_line env line s)\<lparr>ps_buffer := b\<rparr>"
  by (cases s) (simp add: on_pull_line_def split: prod.splits option.splits)

lemma fold_on_pull_line_buffer:
  "fold (on_pull_line env) ls (s\<lparr>ps_buffer := b\<rparr>) = (fold (on_pull_line env) ls s)\<lparr>ps_buffer := b\<rparr>"
  by (induction ls arbitrary: s) (simp_all add: on_pull_line_buffer)

lemma write_callback_twice:
  "write_callback env b (write_callback env a s) = write_callback env (a @ b) s"
  by (simp add: write_callback_def take_lines_append [of "ps_buffer s @ a" b, simplified] fold_on_pull_line_buffer
      split: prod.splits)

lemma write_callback_pieces:
  "fold (write_callback env) chunks (write_callback env a s) = write_callback env (a @ concat chunks) s"
  by (induction chunks arbitrary: a) (simp_all add: write_callback_twice)

definition pull_start :: PullState where
  "pull_start = \<lparr>ps_buffer = [], ps_progress = [], ps_error_msg = None\<rparr>"

lemma write_callback_nothing: "write_callback env [] pull_start = pull_start"
  by (simp add: write_callback_def pull_start_def take_lines.simps [of "[]"])

lemma pull_line_error: "pull_line env line = (p, e) \<Longrightarrow> e = None"
  by (auto simp: pull_line_def Let_def split: if_splits option.splits json.splits elim: as_object.elims)

lemma on_pull_line_error: "ps_error_msg (on_pull_line env line s) = ps_error_msg s"
  by (auto simp: on_pull_line_def split: prod.splits option.splits dest: pull_line_error)

lemma fold_pull_line_error: "ps_error_msg (fold (on_pull_line env) ls s) = ps_error_msg s"
  by (induction ls arbitrary: s) (simp_all add: on_pull_line_error)

lemma fold_write_callback_error: "ps_error_msg (fold (write_callback env) chunks s) = ps_error_msg s"
  by (induction chunks arbitrary: s) (simp_all add: write_callback_def fold_pull_line_error split: prod.splits)

lemma pull_image_ok:
  "fst (fst (pull_image env image_name registry_auth d)) \<longleftrightarrow>
     dk_connect env \<and> snd (fst (dk_pull env (pull_url env image_name) registry_auth d)) = Some 200"
  by (auto simp: pull_image_def Let_def fold_write_callback_error split: prod.splits option.splits)

text \<open>What the pull of an image reports does not depend on how the answer of the daemon is cut
  into pieces on its way: the progress events, the error and the bytes kept for the next call of
  \<open>write_callback\<close> are those of the whole text given at once.\<close>

theorem pull_in_any_pieces:
  "fold (write_callback env) chunks \<lparr>ps_buffer = [], ps_progress = [], ps_error_msg = None\<rparr> =
   write_callback env (concat chunks) \<lparr>ps_buffer = [], ps_progress = [], ps_error_msg = None\<rparr>"
  using write_callback_pieces [of env chunks "[]" pull_start]
  by (simp add: write_callback_nothing) (simp add: pull_start_def)

text \<open>An error that the daemon reports inside the stream of a pull is never noticed: whether
  \<open>pull_image\<close> succeeds depends on the transfer and the status code only, for the branch that would
  set the message wants an object and then reads it as a string.\<close>

theorem pull_error_never_seen:
  "fst (fst (pull_image env image_name registry_auth d)) \<longleftrightarrow>
     dk_connect env \<and> snd (fst (dk_pull env (pull_url env image_name) registry_auth d)) = Some 200"
  by (rule pull_image_ok)


subsection \<open>What is asked for, and whether \<open>create\<close> returns\<close>

definition given_array :: "json_object \<Rightarrow> string \<Rightarrow> json list" where
  "given_array ob key = (case map_of ob key of Some (J_array xs) \<Rightarrow> xs | _ \<Rightarrow> [])"

definition given_object :: "json_object \<Rightarrow> string \<Rightarrow> json_object" where
  "given_object ob key = (case map_of ob key of Some (J_object ob') \<Rightarrow> ob' | _ \<Rightarrow> [])"

lemma as_object_Some: "as_object j = Some ob \<longleftrightarrow> j = J_object ob" by (cases j) auto
lemma as_array_Some: "as_array j = Some xs \<longleftrightarrow> j = J_array xs" by (cases j) auto

lemma merge_array_map_of:
  "merge_array key vec root = Some root' \<Longrightarrow> map_of root' = (map_of root)(key \<mapsto> J_array (given_array root key @ vec))"
  by (auto simp: merge_array_def given_array_def update_conv' as_array_Some split: option.splits)

lemma host_config_map_of:
  assumes "host_config c given = Some j" "ob = (case given of Some (J_object ob) \<Rightarrow> ob | _ \<Rightarrow> [])"
  shows "\<exists>hc. j = J_object hc \<and> map_of hc = (map_of ob)
    (''Binds'' \<mapsto> J_array (given_array ob ''Binds'' @ map mount_json (ct_mounts c)),
     ''Devices'' \<mapsto> J_array (given_array ob ''Devices'' @ map device_json (ct_devices c)),
     ''PortBindings'' \<mapsto> ports_json (ct_ports c))"
proof (cases given)
  case None
  then show ?thesis using assms by (auto simp: host_config_def given_array_def fun_eq_iff)
next
  case (Some hc)
  then show ?thesis using assms
    by (auto simp: host_config_def Let_def as_object_Some update_conv' bind_eq_Some_conv given_array_def
        dest!: merge_array_map_of)
qed

text \<open>C23: What \<open>create\<close> asks the daemon for: the image, the environment, the mounts, the devices and
  the ports of the container, after the elements the custom parameters already had in the same
  arrays; every other custom parameter, in the object itself and in its \<open>HostConfig\<close>, is passed on.\<close>

theorem create_payload:
  assumes "post_params env c custom_params = Some p" and "parse_json env custom_params = J_object given"
  shows "map_of p ''Image'' = Some (J_string (ct_image c)) \<and>
    map_of p ''Env'' = Some (J_array (given_array given ''Env'' @ map J_string (ct_env c))) \<and>
    (\<forall>key. key \<notin> {''Image'', ''ExposedPorts'', ''Env'', ''HostConfig''} \<longrightarrow> map_of p key = map_of given key) \<and>
    (\<exists>hc. map_of p ''HostConfig'' = Some (J_object hc) \<and>
       map_of hc ''Binds'' = Some (J_array (given_array (given_object given ''HostConfig'') ''Binds'' @ map mount_json (ct_mounts c))) \<and>
       map_of hc ''Devices'' = Some (J_array (given_array (given_object given ''HostConfig'') ''Devices'' @ map device_json (ct_devices c))) \<and>
       map_of hc ''PortBindings'' = Some (ports_json (ct_ports c)) \<and>
       (\<forall>key. key \<notin> {''Binds'', ''Devices'', ''PortBindings''} \<longrightarrow>
          map_of hc key = map_of (given_object given ''HostConfig'') key))"
proof -
  let ?p = "AList.update ''ExposedPorts'' (exposed_ports (ct_ports c)) (AList.update ''Image'' (J_string (ct_image c)) given)"
  obtain p1 hc where env: "merge_array ''Env'' (map J_string (ct_env c)) ?p = Some p1"
    and hc: "host_config c (map_of p1 ''HostConfig'') = Some hc" and p: "p = AList.update ''HostConfig'' hc p1"
    using assms by (auto simp: post_params_def bind_eq_Some_conv)
  have p1: "map_of p1 = (map_of given)(''Image'' \<mapsto> J_string (ct_image c), ''ExposedPorts'' \<mapsto> exposed_ports (ct_ports c),
      ''Env'' \<mapsto> J_array (given_array given ''Env'' @ map J_string (ct_env c)))"
    using merge_array_map_of [OF env] by (simp add: update_conv' given_array_def)
  have "given_object given ''HostConfig'' = (case map_of p1 ''HostConfig'' of Some (J_object ob) \<Rightarrow> ob | _ \<Rightarrow> [])"
    by (simp add: p1 given_object_def)
  from host_config_map_of [OF hc this] show ?thesis by (auto simp: p p1 update_conv')
qed


definition create_request :: "'d docker_env \<Rightarrow> Container \<Rightarrow> json_object \<Rightarrow> docker_request" where
  "create_request env c params = \<lparr>rq_method = POST, rq_target = create_url env (ct_name c),
     rq_body = dk_print env (J_object params)\<rparr>"

lemma post_create: "dk_connect env \<Longrightarrow>
    req env POST (create_url env (ct_name c)) (dk_print env (J_object params)) d =
    dk_daemon env (create_request env c params) d"
  by (simp add: req_def create_request_def)

lemma pulled_iff: "fst (fst (pull_image env (ct_image c) auth d)) \<longleftrightarrow>
    dk_connect env \<and> snd (fst (dk_pull env (pull_url env (ct_image c)) auth d)) = Some 200"
  by (rule pull_image_ok)

lemma create_never_returns_raw:
  assumes "create env c custom_params auth force d = Some y"
  shows "\<not> (dk_connect env \<and> post_params env c custom_params \<noteq> None \<and>
    (\<forall>params d. \<exists>msg d'. dk_daemon env (create_request env c params) d = (Some (404, msg), d')) \<and>
    (\<forall>d. snd (fst (dk_pull env (pull_url env (ct_image c)) auth d)) = Some 200))"
proof (rule create.raw_induct [OF _ assms], intro notI, goal_cases)
  case (1 f env c custom_params auth force d y)
  obtain params where params: "post_params env c custom_params = Some params" using 1(3) by auto
  obtain msg d1 where answer: "dk_daemon env (create_request env c params) d = (Some (404, msg), d1)"
    using 1(3) by blast
  obtain ps d2 where "pull_image env (ct_image c) auth d1 = ((True, ps), d2)"
    using pulled_iff [of env c auth d1] 1(3) by (metis prod.collapse)
  then have "f env c custom_params auth force d2 = Some y"
    using 1(2) 1(3) params by (simp add: post_create answer)
  from 1(1) [OF this] 1(3) show False by blast
qed

text \<open>A daemon that answers 404 to \<open>create\<close> although each pull of the image succeeds keeps \<open>create\<close>
  busy for ever: the code has no bound on its retries, so the call does not return.\<close>

theorem create_retries_for_ever:
  assumes "dk_connect env" and "post_params env c custom_params \<noteq> None"
    and "\<forall>params d. \<exists>msg d'. dk_daemon env (create_request env c params) d = (Some (404, msg), d')"
    and "\<forall>d. snd (fst (dk_pull env (pull_url env (ct_image c)) auth d)) = Some 200"
  shows "create env c custom_params auth force d = None"
  using create_never_returns_raw assms by (metis not_Some_eq)

lemma create_created:
  assumes "dk_connect env" "post_params env c custom_params = Some params"
    "dk_daemon env (create_request env c params) d = (Some (201, msg), d1)" "string_at (parse_json env msg) ''Id'' = Some i"
    "get_by_id env i d1 = Some (found, d2)"
  shows "create env c custom_params auth force d = Some (Returns found, d2)"
  using assms by (subst create.simps) (simp add: post_create)

lemma create_not_found:
  assumes "dk_connect env" "post_params env c custom_params = Some params"
    "dk_daemon env (create_request env c params) d = (Some (404, msg), d1)"
    "pull_image env (ct_image c) auth d1 = ((pulled, ps), d2)"
  shows "create env c custom_params auth force d =
    (if pulled then create env c custom_params auth force d2 else Some (Returns None, d2))"
  using assms by (subst create.simps) (simp add: post_create)

lemma create_conflict:
  assumes "dk_connect env" "post_params env c custom_params = Some params"
    "dk_daemon env (create_request env c params) d = (Some (409, msg), d1)"
    "remove_by_name env (ct_name c) True True False d1 = Some (removed, d2)"
  shows "create env c custom_params auth True d =
    (if removed then create env c custom_params auth True d2 else Some (Returns None, d2))"
  using assms by (subst create.simps) (simp add: post_create is_container_name_conflict_response_def)

text \<open>A container whose image is not there and whose name is taken is created all the same: the
  image is pulled, the container of that name removed, and the third request of the same payload
  answered with the container looked up by its new identifier.\<close>

theorem create_pulls_and_replaces:
  assumes "dk_connect env" and "post_params env c custom_params = Some params"
    and "dk_daemon env (create_request env c params) d0 = (Some (404, m0), d1)"
    and "dk_pull env (pull_url env (ct_image c)) auth d1 = ((chunks, Some 200), d2)"
    and "dk_daemon env (create_request env c params) d2 = (Some (409, m1), d3)"
    and "remove_by_name env (ct_name c) True True False d3 = Some (True, d4)"
    and "dk_daemon env (create_request env c params) d4 = (Some (201, m2), d5)"
    and "string_at (parse_json env m2) ''Id'' = Some i" and "get_by_id env i d5 = Some (found, d6)"
  shows "create env c custom_params auth True d0 = Some (Returns found, d6)"
proof -
  obtain ps where "pull_image env (ct_image c) auth d1 = ((True, ps), d2)"
    using assms(1,4) pulled_iff [of env c auth d1] by (auto simp: pull_image_def Let_def fold_write_callback_error)
  from create_not_found [OF assms(1-3) this, of True] have "create env c custom_params auth True d0 =
      create env c custom_params auth True d2" by simp
  also have "\<dots> = create env c custom_params auth True d4" using create_conflict [OF assms(1,2,5,6)] by simp
  also have "\<dots> = Some (Returns found, d6)" by (rule create_created [OF assms(1,2,7-9)])
  finally show ?thesis .
qed


subsection \<open>A daemon to try them on\<close>

definition demo_container_json :: "string \<Rightarrow> json" where
  "demo_container_json i = J_object [(''Id'', J_string i), (''Name'', J_string ''/app_1''),
     (''State'', J_object [(''Status'', J_string ''running'')]),
     (''HostConfig'', J_object [(''PortBindings'', J_null), (''Devices'', J_null)]),
     (''Config'', J_object [(''Env'', J_null), (''Hostname'', J_string ''app''), (''Image'', J_string ''img'')]),
     (''Mounts'', J_null)]"

definition demo_parse :: "string \<Rightarrow> json option" where
  "demo_parse s =
     (if s = ''all'' then Some (J_array [J_object [(''Id'', J_string ''old'')]])
      else if s = ''old'' then Some (demo_container_json ''old'')
      else if s = ''made'' then Some (J_object [(''Id'', J_string ''new'')])
      else if s = ''new'' then Some (demo_container_json ''new'')
      else if s = ''custom'' then Some (J_object [(''Tty'', J_bool True), (''Env'', J_array [J_string ''A=1'']),
        (''HostConfig'', J_object [(''IpcMode'', J_string ''host''), (''Devices'', J_array [J_null])])])
      else None)"

definition demo_answers :: "(int \<times> string) list" where
  "demo_answers = [(404, ''''), (0, ''''), (409, ''''), (200, ''all''), (200, ''old''), (204, ''''), (201, ''made''), (200, ''new'')]"

text \<open>The daemon answers by the number of the request; the second is the pull of the image.\<close>

definition demo_docker :: "nat docker_env" where
  "demo_docker = \<lparr>dk_connect = True, dk_daemon = (\<lambda>rq n. (Some (demo_answers ! n), Suc n)),
     dk_pull = (\<lambda>target auth n. ((['' {'', ''}'', [LF]], Some 200), Suc n)), dk_parse = demo_parse,
     dk_print = (\<lambda>j. ''json''), dk_version = ''v1.40''\<rparr>"

definition demo_container :: Container where
  "demo_container = \<lparr>ct_id = [], ct_name = ''app_1'', ct_hostname = [], ct_image = ''img'', ct_status = CREATED,
     ct_ports = [], ct_mounts = [\<lparr>mp_source = ''/a'', mp_destination = ''/b'', mp_mode = ''rw''\<rparr>], ct_devices = [],
     ct_env = [''B=2'']\<rparr>"

lemmas demo_docker_simps = demo_docker_def demo_answers_def demo_parse_def demo_container_def demo_container_json_def
  create_request_def create_url_def pull_url_def containers_url_def url_def req_def parse_json_def

lemma demo_payload: "\<exists>params. post_params demo_docker demo_container ''custom'' = Some params"
  by (simp add: post_params_def demo_docker_simps merge_array_def host_config_def Let_def)

theorem create_payload_witness:
  "\<exists>p. post_params demo_docker demo_container ''custom'' = Some p \<and>
    map_of p ''Env'' = Some (J_array [J_string ''A=1'', J_string ''B=2'']) \<and> map_of p ''Tty'' = Some (J_bool True)"
proof -
  obtain p where p: "post_params demo_docker demo_container ''custom'' = Some p" using demo_payload by blast
  have "parse_json demo_docker ''custom'' = J_object [(''Tty'', J_bool True), (''Env'', J_array [J_string ''A=1'']),
        (''HostConfig'', J_object [(''IpcMode'', J_string ''host''), (''Devices'', J_array [J_null])])]"
    by (simp add: demo_docker_simps)
  from create_payload [OF p this] p show ?thesis by (simp add: given_array_def demo_container_def)
qed

theorem create_retries_for_ever_witness:
  "create (demo_docker\<lparr>dk_daemon := \<lambda>rq n. (Some (404, []), n)\<rparr>) demo_container ''custom'' [] False 0 = None"
proof -
  let ?env = "demo_docker\<lparr>dk_daemon := \<lambda>rq n. (Some (404, []), n)\<rparr>"
  have "post_params ?env demo_container ''custom'' = post_params demo_docker demo_container ''custom''"
    by (simp add: post_params_def parse_json_def)
  with demo_payload have "post_params ?env demo_container ''custom'' \<noteq> None" by fastforce
  then show ?thesis by (intro create_retries_for_ever) (simp_all add: demo_docker_def)
qed

lemma demo_removed: "remove_by_name demo_docker ''app_1'' True True False 3 = Some (True, 6)"
  by (simp add: remove_by_name_def get_containers_def get_by_id_def remove_by_id_def container_of_json_def
      json_at_def string_at_def array_or_null_def ports_of_json_def demo_docker_simps)

theorem create_pulls_and_replaces_witness:
  "\<exists>c. create demo_docker demo_container ''custom'' [] True 0 = Some (Returns (Some c), 8) \<and> ct_id c = ''new''"
proof -
  obtain p where p: "post_params demo_docker demo_container ''custom'' = Some p" using demo_payload by blast
  obtain c where c: "get_by_id demo_docker ''new'' 7 = Some (Some c, 8)" "ct_id c = ''new''"
    by (simp add: get_by_id_def container_of_json_def json_at_def string_at_def array_or_null_def ports_of_json_def
        demo_docker_simps)
  have removed: "remove_by_name demo_docker (ct_name demo_container) True True False 3 = Some (True, 6)"
    using demo_removed by (simp add: demo_container_def)
  have con: "dk_connect demo_docker" by (simp add: demo_docker_def)
  have pull: "dk_pull demo_docker (pull_url demo_docker (ct_image demo_container)) [] 1 = ((['' {'', ''}'', [LF]], Some 200), 2)"
    by (simp add: demo_docker_def)
  have answers: "dk_daemon demo_docker (create_request demo_docker demo_container p) 0 = (Some (404, []), 1)"
    "dk_daemon demo_docker (create_request demo_docker demo_container p) 2 = (Some (409, []), 3)"
    "dk_daemon demo_docker (create_request demo_docker demo_container p) 6 = (Some (201, ''made''), 7)"
    by (simp_all add: demo_docker_def demo_answers_def)
  have new: "string_at (parse_json demo_docker ''made'') ''Id'' = Some ''new''"
    by (simp add: demo_docker_simps string_at_def json_at_def)
  note create_pulls_and_replaces [OF con p answers(1) pull answers(2) removed answers(3) new c(1)]
  with c(2) show ?thesis by blast
qed

end
