(* ===== verification/Hardware.thy ===== *)
theory Hardware
  imports Docker Sessions
begin

section \<open>The machine: platforms/hw_linux.cpp, introspect/introspect.cpp\<close>

text \<open>
  What Wolf finds out about the machine it runs on: the device nodes that belong to a graphics card,
  its vendor, the hardware address of a network interface, and, inside a container, which container it is
  and where a folder of it is on the host. The file system, the kernel's tables, libdrm and libpci
  are parameters. \<open>None\<close> as a result of the whole is an exception or an access outside of a
  vector or string.
\<close>

subsection \<open>Graphics cards (hw_linux.cpp)\<close>

text \<open>
  \<open>hw_node\<close>: what is at a path (an error of the look-up is \<open>Node_error\<close>). \<open>hw_lines\<close>: the lines of a file
  that can be opened. \<open>hw_drm\<close>: the available nodes of a device as bits, its primary and its render node;
  none is a throw. \<open>hw_pci_vendor\<close>: the name of the vendor that libpci has for a device.
\<close>

datatype node_kind = Character_device | Other_node | No_node | Node_error

record hw_env =
  hw_node :: "string \<Rightarrow> node_kind"
  hw_symlink :: "string \<Rightarrow> string option"
  hw_lines :: "string \<Rightarrow> string list option"
  hw_drm :: "string \<Rightarrow> (nat \<times> string \<times> string) option"
  hw_pci_vendor :: "string \<Rightarrow> string"
  hw_realpath :: "string \<Rightarrow> string option"

definition path_exists :: "hw_env \<Rightarrow> string \<Rightarrow> bool" where
  "path_exists env p \<longleftrightarrow> hw_node env p = Character_device \<or> hw_node env p = Other_node"

text \<open>\<open>parent_path\<close> of a path of several names: what is before the last slash.\<close>

definition parent_path :: "string \<Rightarrow> string" where
  "parent_path p = rev (drop 1 (dropWhile (\<lambda>c. c \<noteq> CHR ''/'') (rev p)))"

text \<open>The first line about the minor number: \<open>Some None\<close> when there is none. A line without a piece
  before or after the colon is an access outside of the vector of its pieces.\<close>

fun find_device_minor :: "string list \<Rightarrow> string option option" where
  "find_device_minor [] = Some None"
| "find_device_minor (line # lns) =
     (case split_data line (CHR '':'') of
        [] \<Rightarrow> None
      | _ \<Rightarrow>
          if has_sub ''Device Minor'' (hd (split_str line (CHR '':'')))
          then (case split_data line (CHR '':'') of
                  _ # rest # _ \<Rightarrow> Some (Some (''/dev/nvidia'' @ filter (\<lambda>c. c \<noteq> CHR '' '' \<and> c \<noteq> CHR 0x09) rest))
                | _ \<Rightarrow> None)
          else find_device_minor lns)"

definition get_nvidia_node :: "hw_env \<Rightarrow> string \<Rightarrow> string option option" where
  "get_nvidia_node env primary_node =
     (case split_str primary_node (CHR ''/'') of
        [] \<Rightarrow> None
      | paths \<Rightarrow>
          if last paths = [] then None
          else let sys_path = ''/sys/class/drm/card'' @ [last (last paths)] in
          if \<not> path_exists env sys_path then Some None
          else case hw_symlink env sys_path of
            None \<Rightarrow> Some None
          | Some link \<Rightarrow>
              (let information = ''/proc/driver/nvidia/gpus/'' @ path_filename (parent_path (parent_path link)) @ ''/information''
               in if \<not> path_exists env information then Some None
                  else case hw_lines env information of None \<Rightarrow> Some None | Some lns \<Rightarrow> find_device_minor lns))"

definition add_character_device :: "hw_env \<Rightarrow> string \<Rightarrow> string list \<Rightarrow> string list" where
  "add_character_device env path devices = (if hw_node env path = Character_device then devices @ [path] else devices)"

definition linked_devices :: "hw_env \<Rightarrow> string \<Rightarrow> string list option" where
  "linked_devices env gpu =
     (if \<not> path_exists env gpu then Some []
      else do {
        (available_nodes, primary_node, render_node) \<leftarrow> hw_drm env gpu;
        if odd available_nodes
        then do {
          nvidia \<leftarrow> get_nvidia_node env primary_node;
          (let found = [primary_node] @
             (case nvidia of None \<Rightarrow> [] | Some nvidia_node \<Rightarrow>
                fold (add_character_device env) [nvidia_node, ''/dev/nvidia-modeset'', ''/dev/nvidia-uvm'',
                  ''/dev/nvidia-uvm-tools'', ''/dev/nvidiactl''] [])
           in Some (if render_node \<noteq> primary_node then found @ [render_node] else found)) }
        else Some [] })"

definition get_vendor :: "hw_env \<Rightarrow> string \<Rightarrow> GPU_VENDOR option" where
  "get_vendor env gpu =
     (if \<not> path_exists env gpu then Some GPU_UNKNOWN
      else do {
        device \<leftarrow> hw_drm env gpu;
        (let vendor_name = map lower (hw_pci_vendor env gpu)
         in Some (if has_sub ''nvidia'' vendor_name then GPU_NVIDIA
              else if has_sub ''intel'' vendor_name then GPU_INTEL
              else if has_sub ''amd'' vendor_name then GPU_AMD else GPU_UNKNOWN)) })"

definition get_vendor_name :: "GPU_VENDOR \<Rightarrow> string" where
  "get_vendor_name vendor =
     (case vendor of GPU_NVIDIA \<Rightarrow> ''Nvidia'' | GPU_AMD \<Rightarrow> ''AMD'' | GPU_INTEL \<Rightarrow> ''Intel'' | GPU_UNKNOWN \<Rightarrow> ''Unknown'')"

definition get_render_node_name :: "hw_env \<Rightarrow> string \<Rightarrow> string" where
  "get_render_node_name env render_node =
     (case hw_realpath env render_node of None \<Rightarrow> [] | Some resolved_path \<Rightarrow> path_filename resolved_path)"

subsection \<open>Network interfaces\<close>

datatype if_address = AF_INET string | AF_INET6 string | AF_PACKET bytes | AF_OTHER

record interface =
  ifa_name :: string
  ifa_addr :: "if_address option"

fun get_ip_address :: "if_address \<Rightarrow> string" where
  "get_ip_address (AF_INET text) = text"
| "get_ip_address (AF_INET6 text) = text"
| "get_ip_address _ = ''0.0.0.0''"

definition hex_char :: "nat \<Rightarrow> char" where
  "hex_char n = ''0123456789abcdef'' ! n"

definition hex2 :: "u8 \<Rightarrow> string" where
  "hex2 b = [hex_char (unat b div 16), hex_char (unat b mod 16)]"

definition no_mac :: string where "no_mac = ''00:00:00:00:00:00''"

text \<open>The last interface with the address gives the name, the first hardware address of that name the
  result. \<open>None\<close> as the list is a failed call of \<open>getifaddrs\<close>.\<close>

definition interface_with :: "string \<Rightarrow> interface list \<Rightarrow> string" where
  "interface_with local_ip ifs =
     fold (\<lambda>i name. case ifa_addr i of Some a \<Rightarrow> if local_ip = get_ip_address a then ifa_name i else name | None \<Rightarrow> name) ifs []"

fun packet_address :: "string \<Rightarrow> interface list \<Rightarrow> string option" where
  "packet_address name [] = None"
| "packet_address name (i # ifs) =
     (case ifa_addr i of
        Some (AF_PACKET b) \<Rightarrow> if ifa_name i = name then Some (join (map hex2 b) '':'') else packet_address name ifs
      | _ \<Rightarrow> packet_address name ifs)"

definition get_mac_address :: "interface list option \<Rightarrow> string \<Rightarrow> string" where
  "get_mac_address interfaces local_ip =
     (case interfaces of
        None \<Rightarrow> no_mac
      | Some ifs \<Rightarrow>
          (let interface = interface_with local_ip ifs
           in if interface = [] then no_mac
              else case packet_address interface ifs of None \<Rightarrow> no_mac | Some mac \<Rightarrow> mac))"

subsection \<open>The own container (introspect.cpp)\<close>

definition is_hex :: "char \<Rightarrow> bool" where
  "is_hex c \<longleftrightarrow> is_digit c \<or> c \<in> set ''abcdefABCDEF''"

text \<open>The first match of \<open>/([a-fA-F0-9]{64,})/.*/host\<close> in a line: its group.\<close>

fun container_id_in :: "string \<Rightarrow> string option" where
  "container_id_in [] = None"
| "container_id_in (c # s) =
     (let hexes = takeWhile is_hex s; after = dropWhile is_hex s
      in if c = CHR ''/'' \<and> 64 \<le> length hexes \<and> after \<noteq> [] \<and> hd after = CHR ''/'' \<and> has_sub ''/host'' (tl after)
         then Some hexes else container_id_in s)"

primrec container_of_lines :: "'d docker_env \<Rightarrow> string list \<Rightarrow> 'd \<Rightarrow> (Container option \<times> 'd) option" where
  "container_of_lines env [] d = Some (None, d)"
| "container_of_lines env (line # lns) d =
     (case container_id_in line of
        None \<Rightarrow> container_of_lines env lns d
      | Some container_id \<Rightarrow> do {
          (container, d') \<leftarrow> get_by_id env container_id d;
          (case container of Some c \<Rightarrow> Some (Some c, d') | None \<Rightarrow> container_of_lines env lns d') })"

definition get_current_container :: "'d docker_env \<Rightarrow> string list option \<Rightarrow> 'd \<Rightarrow> (Container option \<times> 'd) option" where
  "get_current_container env mountinfo d =
     (case mountinfo of None \<Rightarrow> Some (None, d) | Some lns \<Rightarrow> container_of_lines env lns d)"

text \<open>Equality of paths: whether they start at the root, and their names; a slash at the end is one more,
  empty, name.\<close>

definition path_names :: "string \<Rightarrow> string list" where
  "path_names p =
     (let names = filter (\<lambda>s. s \<noteq> []) (segments p)
      in if p \<noteq> [] \<and> last p = CHR ''/'' \<and> names \<noteq> [] then names @ [[]] else names)"

definition same_path :: "string \<Rightarrow> string \<Rightarrow> bool" where
  "same_path p q \<longleftrightarrow> (p \<noteq> [] \<and> hd p = CHR ''/'') = (q \<noteq> [] \<and> hd q = CHR ''/'') \<and> path_names p = path_names q"

definition get_host_path_for :: "Container \<Rightarrow> string \<Rightarrow> string option" where
  "get_host_path_for container local_path =
     map_option mp_source (List.find (\<lambda>m. has_sub local_path (mp_destination m) \<and> same_path local_path (mp_destination m))
       (ct_mounts container))"


subsection \<open>What is found\<close>

lemma interface_with_spec:
  "fold (\<lambda>i name. case ifa_addr i of Some a \<Rightarrow> if local_ip = get_ip_address a then ifa_name i else name | None \<Rightarrow> name) ifs name0 =
   name \<Longrightarrow> name \<noteq> name0 \<Longrightarrow> \<exists>i \<in> set ifs. ifa_name i = name \<and> (\<exists>a. ifa_addr i = Some a \<and> get_ip_address a = local_ip)"
proof (induction ifs arbitrary: name0)
  case (Cons i ifs)
  let ?name = "case ifa_addr i of Some a \<Rightarrow> if local_ip = get_ip_address a then ifa_name i else name0 | None \<Rightarrow> name0"
  show ?case
  proof (cases "name = ?name")
    case True
    with Cons.prems(2) show ?thesis by (auto split: option.splits if_splits)
  next
    case False
    with Cons.IH [of ?name] Cons.prems(1) show ?thesis by auto
  qed
qed simp

lemma packet_address_spec:
  "packet_address name ifs = Some mac \<Longrightarrow>
   \<exists>i \<in> set ifs. ifa_name i = name \<and> (\<exists>b. ifa_addr i = Some (AF_PACKET b) \<and> mac = join (map hex2 b) '':'')"
  by (induction ifs) (auto split: option.splits if_address.splits if_splits)

text \<open>The hardware address that Wolf reports is that of an interface which has the given IP address:
  either no address is known, or one interface carries the IP address and another entry of the same
  name has the bytes that are printed.\<close>

theorem mac_address_of_interface:
  assumes "get_mac_address (Some ifs) local_ip \<noteq> no_mac"
  shows "\<exists>i \<in> set ifs. \<exists>j \<in> set ifs. \<exists>a b. ifa_addr i = Some a \<and> get_ip_address a = local_ip \<and> ifa_name j = ifa_name i \<and>
    ifa_addr j = Some (AF_PACKET b) \<and> get_mac_address (Some ifs) local_ip = join (map hex2 b) '':''"
proof -
  let ?name = "interface_with local_ip ifs"
  have name: "?name \<noteq> []" and mac: "packet_address ?name ifs = Some (get_mac_address (Some ifs) local_ip)"
    using assms by (auto simp: get_mac_address_def Let_def split: if_splits option.splits)
  obtain i a where "i \<in> set ifs" "ifa_name i = ?name" "ifa_addr i = Some a" "get_ip_address a = local_ip"
    using interface_with_spec [of local_ip ifs "[]" ?name] name by (auto simp: interface_with_def)
  moreover obtain j b where "j \<in> set ifs" "ifa_name j = ?name" "ifa_addr j = Some (AF_PACKET b)"
    "get_mac_address (Some ifs) local_ip = join (map hex2 b) '':''"
    using packet_address_spec [OF mac] by blast
  ultimately show ?thesis by metis
qed

theorem mac_address_of_interface_witness:
  "\<exists>b. get_mac_address (Some [\<lparr>ifa_name = ''lo'', ifa_addr = Some (AF_PACKET [0])\<rparr>, \<lparr>ifa_name = ''eth0'', ifa_addr = Some (AF_PACKET [0xAB, 1])\<rparr>,
     \<lparr>ifa_name = ''eth0'', ifa_addr = Some (AF_INET ''10.0.0.2'')\<rparr>]) ''10.0.0.2'' = join (map hex2 b) '':''"
proof -
  let ?ifs = "[\<lparr>ifa_name = ''lo'', ifa_addr = Some (AF_PACKET [0])\<rparr>, \<lparr>ifa_name = ''eth0'', ifa_addr = Some (AF_PACKET [0xAB, 1])\<rparr>,
     \<lparr>ifa_name = ''eth0'', ifa_addr = Some (AF_INET ''10.0.0.2'')\<rparr>]"
  have "get_mac_address (Some ?ifs) ''10.0.0.2'' \<noteq> no_mac"
    by (simp add: get_mac_address_def interface_with_def no_mac_def hex2_def hex_char_def)
  from mac_address_of_interface [OF this] show ?thesis by blast
qed

text \<open>The last character of the node names the card: cards of two digits are looked up as others.\<close>

lemma card_of_two_digits: "get_nvidia_node env ''/dev/dri/card10'' = get_nvidia_node env ''/dev/dri/card0''"
proof -
  have "split_str ''/dev/dri/card10'' (CHR ''/'') = ['''', ''dev'', ''dri'', ''card10'']"
    "split_str ''/dev/dri/card0'' (CHR ''/'') = ['''', ''dev'', ''dri'', ''card0'']"
    by (simp_all add: split_str_def split_data_def split_tails.simps)
  then show ?thesis by (simp add: get_nvidia_node_def)
qed

lemma linked_devices_nodes:
  assumes "linked_devices env gpu = Some devices" "d \<in> set devices"
  shows "hw_node env d = Character_device \<or> (\<exists>nodes primary render. hw_drm env gpu = Some (nodes, primary, render) \<and> (d = primary \<or> d = render))"
proof -
  have found: "x \<in> set (add_character_device env p ds) \<longleftrightarrow> x = p \<and> hw_node env p = Character_device \<or> x \<in> set ds" for x p ds
    by (auto simp: add_character_device_def)
  show ?thesis using assms
    by (auto simp: linked_devices_def bind_eq_Some_conv Let_def found split: if_splits option.splits)
qed

end
