(* ===== verification/Runners.thy ===== *)
theory Runners
  imports Docker Sessions
begin

section \<open>Running applications: runners/docker.cpp, runners/process.cpp\<close>

text \<open>
  What a runner does with the call that \<open>start_runner\<close> prepares. For a container: the environment,
  devices, mounts and options it is created with, then the loop that plugs devices into it, with the
  handlers that run beside it, until the daemon says that it does not run any more. The loop takes a
  list of what it meets (a device from its queue, a wait without one, a message of the bus); its
  effects on the daemon are threaded and those on files and on the bus kept in order. A throw is
  \<open>None\<close>. For a command: the group of processes is ended by the messages that stop its session.
\<close>

subsection \<open>The surroundings of a run\<close>

text \<open>
  The host: which paths exist, the vendor of a render node, the lines of \<open>/proc/devices\<close>, the
  environment of the process. \<open>rh_env_order\<close> is the order in which a map of environment variables
  is walked.
\<close>

record run_host =
  rh_exists :: "string \<Rightarrow> bool"
  rh_vendor :: "string \<Rightarrow> GPU_VENDOR"
  rh_proc_devices :: "string list"
  rh_getenv :: "string \<Rightarrow> string option"
  rh_env_order :: "string list"

datatype run_action =
    Make_directories string
  | Make_file string
  | Allow_all string
  | Write_file string string
  | Remove_file string
  | Remove_all string
  | Asked_exec string string
  | Asked_start string
  | Asked_stop string
  | Asked_remove string
  | Bus_fired bus_event

record 'd run_state =
  rn_daemon :: 'd
  rn_trace :: "run_action list"

definition note_run :: "run_action list \<Rightarrow> 'd run_state \<Rightarrow> 'd run_state" where
  "note_run as s = s\<lparr>rn_trace := rn_trace s @ as\<rparr>"

subsection \<open>What the container is made of\<close>

definition env_pairs :: "run_host \<Rightarrow> (string \<Rightarrow> string option) \<Rightarrow> (string \<times> string) list" where
  "env_pairs host vars = List.map_filter (\<lambda>k. map_option (\<lambda>v. (k, v)) (vars k)) (rh_env_order host)"

definition full_env :: "run_host \<Rightarrow> Container \<Rightarrow> run_call \<Rightarrow> string list" where
  "full_env host c call = ct_env c @ map (\<lambda>(k, v). k @ ''='' @ v) (env_pairs host (rc_env_variables call))"

definition run_devices :: "Container \<Rightarrow> run_call \<Rightarrow> Device list" where
  "run_devices c call = ct_devices c @
     map (\<lambda>p. \<lparr>de_path_on_host = p, de_path_in_container = p, de_cgroup_permission = ''mrw''\<rparr>) (rc_virtual_inputs call)"

definition run_mounts :: "Container \<Rightarrow> run_call \<Rightarrow> MountPoint list" where
  "run_mounts c call = ct_mounts c @
     map (\<lambda>(s, d). \<lparr>mp_source = s, mp_destination = d, mp_mode = ''rw''\<rparr>) (rc_paths call)"

definition env_or :: "run_host \<Rightarrow> string \<Rightarrow> string \<Rightarrow> string" where
  "env_or host name d = (case rh_getenv host name of Some v \<Rightarrow> v | None \<Rightarrow> d)"

definition use_fake_udev :: "run_host \<Rightarrow> bool" where
  "use_fake_udev host =
     (let fake_udev_cli_path = env_or host ''WOLF_DOCKER_FAKE_UDEV_PATH'' []
      in fake_udev_cli_path \<noteq> [] \<or> rh_exists host fake_udev_cli_path)"

definition udev_base_path :: "run_call \<Rightarrow> string" where
  "udev_base_path call = path_join (rc_app_state_folder call) ''udev''"

definition hw_db_path :: "run_call \<Rightarrow> string" where
  "hw_db_path call = path_join (udev_base_path call) ''data''"

definition prepare_udev :: "run_host \<Rightarrow> run_call \<Rightarrow> run_action list" where
  "prepare_udev host call =
     (let udev_ctrl_path = path_join (udev_base_path call) ''control''
      in if use_fake_udev host
         then Make_directories (hw_db_path call) #
           (if rh_exists host udev_ctrl_path then [] else [Make_file udev_ctrl_path, Allow_all udev_ctrl_path])
         else [])"

text \<open>The options of NVIDIA cards, unless the volume of the driver is given.\<close>

definition on_nvidia :: "run_host \<Rightarrow> run_call \<Rightarrow> bool" where
  "on_nvidia host call \<longleftrightarrow> rh_vendor host (rc_render_node call) = GPU_NVIDIA \<and> rh_getenv host ''NVIDIA_DRIVER_VOLUME_NAME'' = None"

definition default_gpu_config :: json where
  "default_gpu_config = J_array [J_object [(''DeviceIDs'', J_array [J_string ''all'']),
     (''Capabilities'', J_array [J_array [J_string ''gpu'']])]]"

definition nvidia_options :: "'d docker_env \<Rightarrow> string \<Rightarrow> string option" where
  "nvidia_options env opts = do {
     parsed \<leftarrow> as_object (parse_json env opts);
     (case map_of parsed ''HostConfig'' of
        Some hc \<Rightarrow> do {
          ob \<leftarrow> as_object hc;
          Some (if map_of ob ''DeviceRequests'' = None
                then dk_print env (J_object (AList.update ''HostConfig'' (J_object (AList.update ''Runtime'' (J_string ''nvidia'')
                  (AList.update ''DeviceRequests'' default_gpu_config ob))) parsed))
                else opts) }
      | None \<Rightarrow> Some (dk_print env (J_object (AList.update ''HostConfig''
          (J_object [(''DeviceRequests'', default_gpu_config), (''Runtime'', J_string ''nvidia'')]) parsed)))) }"

definition has_env :: "string \<Rightarrow> string list \<Rightarrow> bool" where
  "has_env name = list_ex (has_sub name)"

definition nvidia_env :: "string list \<Rightarrow> string list" where
  "nvidia_env env =
     (let env1 = (if has_env ''NVIDIA_VISIBLE_DEVICES'' env then env else env @ [''NVIDIA_VISIBLE_DEVICES=all''])
      in if has_env ''NVIDIA_DRIVER_CAPABILITIES'' env1 then env1 else env1 @ [''NVIDIA_DRIVER_CAPABILITIES=all''])"

text \<open>The first mount of the socket gets the path on the host.\<close>

fun set_socket_source :: "string \<Rightarrow> MountPoint list \<Rightarrow> MountPoint list" where
  "set_socket_source source [] = []"
| "set_socket_source source (m # ms) =
     (if has_sub ''wolf.sock'' (mp_destination m) then m\<lparr>mp_source := source\<rparr> # ms else m # set_socket_source source ms)"

definition socket_mounts :: "run_host \<Rightarrow> run_call \<Rightarrow> string list \<Rightarrow> MountPoint list \<Rightarrow> MountPoint list" where
  "socket_mounts host call env mounts =
     (if rh_getenv host ''WOLF_SOCKET_PATH'' = None \<and> has_env ''WOLF_SOCKET_PATH'' env
      then set_socket_source (path_join (rc_host_xdg_runtime_dir call) ''wolf.sock'') mounts else mounts)"

definition get_device_major :: "string list \<Rightarrow> string \<Rightarrow> string option" where
  "get_device_major lns kind =
     map_option (\<lambda>line. takeWhile (\<lambda>c. c \<noteq> CHR '' '') (dropWhile (\<lambda>c. \<not> is_digit c) line)) (List.find (has_sub kind) lns)"

definition cgroup_rule :: "string \<Rightarrow> json" where
  "cgroup_rule major = J_string (''c '' @ major @ '':* rwm'')"

definition cgroup_options :: "'d docker_env \<Rightarrow> run_host \<Rightarrow> string \<Rightarrow> string option" where
  "cgroup_options env host opts =
     (case (get_device_major (rh_proc_devices host) ''hidraw'', get_device_major (rh_proc_devices host) ''input'') of
        (Some hidraw_major, Some input_major) \<Rightarrow>
          (let rules = J_array [cgroup_rule hidraw_major, cgroup_rule input_major]
           in do {
             parsed \<leftarrow> as_object (parse_json env opts);
             hc \<leftarrow> (case map_of parsed ''HostConfig'' of
                       Some hc \<Rightarrow> map_option (AList.update ''DeviceCgroupRules'' rules) (as_object hc)
                     | None \<Rightarrow> Some [(''DeviceCgroupRules'', rules)]);
             Some (dk_print env (J_object (AList.update ''HostConfig'' (J_object hc) parsed))) })
      | _ \<Rightarrow> Some opts)"

definition create_options :: "'d docker_env \<Rightarrow> run_host \<Rightarrow> run_call \<Rightarrow> string \<Rightarrow> string option" where
  "create_options env host call base_create_json = do {
     opts \<leftarrow> (if on_nvidia host call then nvidia_options env base_create_json else Some base_create_json);
     cgroup_options env host opts }"

definition new_container :: "run_host \<Rightarrow> Container \<Rightarrow> run_call \<Rightarrow> Container" where
  "new_container host c call =
     (let env = (if on_nvidia host call then nvidia_env (full_env host c call) else full_env host c call)
      in \<lparr>ct_id = [], ct_name = ct_name c @ ''_'' @ rc_session_id call, ct_hostname = [], ct_image = ct_image c,
          ct_status = CREATED, ct_ports = ct_ports c, ct_mounts = socket_mounts host call env (run_mounts c call),
          ct_devices = run_devices c call, ct_env = env\<rparr>)"


subsection \<open>Commands inside the container\<close>

text \<open>A \<open>std::map\<close> of properties is its rows in the order of the keys (bytes compared unsigned).\<close>

fun string_less :: "string \<Rightarrow> string \<Rightarrow> bool" where
  "string_less _ [] = False"
| "string_less [] (_ # _) = True"
| "string_less (a # as) (b # bs) =
     (of_char a < (of_char b :: nat) \<or> a = b \<and> string_less as bs)"

fun map_set :: "string \<Rightarrow> string \<Rightarrow> (string \<times> string) list \<Rightarrow> (string \<times> string) list" where
  "map_set k v [] = [(k, v)]"
| "map_set k v ((k', v') # m) =
     (if k = k' then (k, v) # m else if string_less k k' then (k, v) # (k', v') # m else (k', v') # map_set k v m)"

definition property :: "(string \<times> string) list \<Rightarrow> string \<Rightarrow> string" where
  "property m k = (case map_of m k of Some v \<Rightarrow> v | None \<Rightarrow> [])"

definition udev_msg :: "(string \<times> string) list \<Rightarrow> string" where
  "udev_msg ev = base64_encode (map_to_string ev (CHR ''='') (CHR 0x00))"

definition plug_command :: "(string \<times> string) list \<Rightarrow> string" where
  "plug_command ev =
     (if map_of ev ''DEVNAME'' = None then ''fake-udev -m '' @ udev_msg ev
      else ''mkdir -p /dev/input && mknod '' @ property ev ''DEVNAME'' @ '' c '' @ property ev ''MAJOR'' @ '' '' @
        property ev ''MINOR'' @ '' && chmod 777 '' @ property ev ''DEVNAME'' @ '' && fake-udev -m '' @ udev_msg ev)"

definition unplug_command :: "(string \<times> string) list \<Rightarrow> string" where
  "unplug_command ev =
     (let ev' = map_set ''ACTION'' ''remove'' ev
      in if map_of ev' ''DEVNAME'' = None then ''fake-udev -m '' @ udev_msg ev'
         else ''fake-udev -m '' @ udev_msg ev' @ '' && rm '' @ property ev' ''DEVNAME'')"

text \<open>The answer of a command is not looked at; an answer of another shape throws.\<close>

definition run_command :: "'d docker_env \<Rightarrow> string \<Rightarrow> string \<Rightarrow> 'd run_state \<Rightarrow> 'd run_state option" where
  "run_command env cid cmd s = do {
     (ok, d) \<leftarrow> exec_container env cid [''/bin/bash'', ''-c'', cmd] ''root'' (rn_daemon s);
     Some (note_run [Asked_exec cid cmd] (s\<lparr>rn_daemon := d\<rparr>)) }"

primrec run_commands :: "'d docker_env \<Rightarrow> string \<Rightarrow> string list \<Rightarrow> 'd run_state \<Rightarrow> 'd run_state option" where
  "run_commands env cid [] s = Some s"
| "run_commands env cid (cmd # cmds) s = do { s' \<leftarrow> run_command env cid cmd s; run_commands env cid cmds s' }"

subsection \<open>Handlers and the loop\<close>

record container_run =
  cr_session_id :: string
  cr_container_id :: string
  cr_hostname :: string
  cr_hw_db_path :: string
  cr_base_path :: string
  cr_fake_udev :: bool

definition stop_container :: "'d docker_env \<Rightarrow> string \<Rightarrow> 'd run_state \<Rightarrow> 'd run_state" where
  "stop_container env cid s = note_run [Asked_stop cid] (s\<lparr>rn_daemon := snd (stop_by_id env cid 2 (rn_daemon s))\<rparr>)"

definition create_udev_hw_files :: "string \<Rightarrow> udev_hw_db \<Rightarrow> run_action list" where
  "create_udev_hw_files base db = map (\<lambda>(name, content). Write_file (path_join base name) (join content [LF])) db"

definition plug_device :: "'d docker_env \<Rightarrow> container_run \<Rightarrow> string \<Rightarrow> udev_events \<Rightarrow> udev_hw_db \<Rightarrow> 'd run_state \<Rightarrow> 'd run_state option" where
  "plug_device env r session evs db s =
     (if session = cr_session_id r
      then run_commands env (cr_container_id r) (map plug_command evs)
        (note_run (if cr_fake_udev r then create_udev_hw_files (cr_hw_db_path r) db else []) s)
      else Some s)"

fun on_bus :: "'d docker_env \<Rightarrow> container_run \<Rightarrow> bus_event \<Rightarrow> 'd run_state \<Rightarrow> 'd run_state option" where
  "on_bus env r (StopStreamEvent i) s = Some (if dec i = cr_session_id r then stop_container env (cr_container_id r) s else s)"
| "on_bus env r (StopLobbyEvent l _) s = Some (if l = cr_session_id r then stop_container env (cr_container_id r) s else s)"
| "on_bus env r (UnplugDeviceEvent session evs db) s =
     (if session = cr_session_id r
      then run_commands env (cr_container_id r) (map unplug_command evs)
        (note_run (map (\<lambda>(name, _). Remove_file (path_join (cr_hw_db_path r) name)) db) s)
      else Some s)"
| "on_bus env r _ s = Some s"

text \<open>What the loop meets: a device in its queue, a wait of 50 ms without one (then the daemon is
  asked whether the container still runs), a message of the bus.\<close>

datatype run_input =
    Popped string udev_events udev_hw_db
  | Quiet
  | Bus bus_event

definition still_running :: "'d docker_env \<Rightarrow> container_run \<Rightarrow> 'd run_state \<Rightarrow> (bool \<times> 'd run_state) option" where
  "still_running env r s = do {
     (c, d) \<leftarrow> get_by_id env (cr_container_id r) (rn_daemon s);
     Some (case c of Some c \<Rightarrow> ct_status c = RUNNING | None \<Rightarrow> False, s\<lparr>rn_daemon := d\<rparr>) }"

definition finish_run :: "'d docker_env \<Rightarrow> run_host \<Rightarrow> container_run \<Rightarrow> 'd run_state \<Rightarrow> 'd run_state" where
  "finish_run env host r s =
     (let s1 = note_run [Bus_fired (DockerContainerStopped (cr_container_id r) (cr_hostname r) (cr_session_id r))]
            (s\<lparr>rn_daemon := snd (get_logs env (cr_container_id r) True True 0 0 False (rn_daemon s))\<rparr>);
          s2 = (if rh_getenv host ''WOLF_STOP_CONTAINER_ON_EXIT'' = Some ''TRUE''
                then let s' = stop_container env (cr_container_id r) s1
                     in note_run [Asked_remove (cr_container_id r)]
                       (s'\<lparr>rn_daemon := snd (remove_by_id env (cr_container_id r) False False False (rn_daemon s'))\<rparr>)
                else s1)
      in note_run [Remove_all (cr_base_path r)] s2)"

text \<open>Whether the loop has ended, and the state after the inputs so far.\<close>

primrec run_loop :: "'d docker_env \<Rightarrow> run_host \<Rightarrow> container_run \<Rightarrow> run_input list \<Rightarrow> 'd run_state \<Rightarrow> (bool \<times> 'd run_state) option" where
  "run_loop env host r [] s = Some (False, s)"
| "run_loop env host r (inp # inps) s =
     (case inp of
        Popped session evs db \<Rightarrow> do { s' \<leftarrow> plug_device env r session evs db s; run_loop env host r inps s' }
      | Bus ev \<Rightarrow> do { s' \<leftarrow> on_bus env r ev s; run_loop env host r inps s' }
      | Quiet \<Rightarrow> do {
          (running, s') \<leftarrow> still_running env r s;
          if running then run_loop env host r inps s' else Some (True, finish_run env host r s') })"

definition started_container :: "'d docker_env \<Rightarrow> run_host \<Rightarrow> run_call \<Rightarrow> Container \<Rightarrow> 'd run_state \<Rightarrow> (container_run \<times> 'd run_state) option" where
  "started_container env host call c s =
     (let s1 = note_run [Asked_start (ct_id c)] (s\<lparr>rn_daemon := snd (start_by_id env (ct_id c) (rn_daemon s))\<rparr>)
      in do {
        (inspected, d) \<leftarrow> get_by_id env (ct_id c) (rn_daemon s1);
        (let r = \<lparr>cr_session_id = rc_session_id call, cr_container_id = ct_id c,
               cr_hostname = (case inspected of Some i \<Rightarrow> ct_hostname i | None \<Rightarrow> []), cr_hw_db_path = hw_db_path call,
               cr_base_path = udev_base_path call, cr_fake_udev = use_fake_udev host\<rparr>
         in Some (r, note_run (case inspected of
              Some i \<Rightarrow> [Bus_fired (DockerContainerCreated (ct_id c) (ct_hostname i) (rc_session_id call))] | None \<Rightarrow> [])
              (s1\<lparr>rn_daemon := d\<rparr>))) })"

text \<open>The whole run. The first \<open>None\<close> is a daemon that keeps \<open>create\<close> for ever.\<close>

definition run_docker :: "'d docker_env \<Rightarrow> run_host \<Rightarrow> Container \<Rightarrow> string \<Rightarrow> run_call \<Rightarrow> run_input list \<Rightarrow> 'd run_state \<Rightarrow>
    (bool \<times> 'd run_state) call_result option" where
  "run_docker env host c base_create_json call inps s =
     (let s0 = note_run (prepare_udev host call) s
      in case create_options env host call base_create_json of
        None \<Rightarrow> Some Throws
      | Some opts \<Rightarrow>
          (case create env (new_container host c call) opts [] True (rn_daemon s0) of
             None \<Rightarrow> None
           | Some (Throws, d) \<Rightarrow> Some Throws
           | Some (Returns None, d) \<Rightarrow> Some (Returns (True, s0\<lparr>rn_daemon := d\<rparr>))
           | Some (Returns (Some made), d) \<Rightarrow>
               Some (case do {
                   (r, s1) \<leftarrow> started_container env host call made (s0\<lparr>rn_daemon := d\<rparr>);
                   run_loop env host r inps s1 }
                 of Some v \<Rightarrow> Returns v | None \<Rightarrow> Throws)))"

subsection \<open>Commands (runners/process.cpp)\<close>

text \<open>
  The environment of Wolf with the variables of the call over it. The operating system is a
  parameter: whether the command starts, and its exit. The inputs are the messages of the bus until
  the command is over by itself; \<open>terminate\<close> ends its whole group.
\<close>

definition child_environment :: "(string \<Rightarrow> string option) \<Rightarrow> run_call \<Rightarrow> string \<Rightarrow> string option" where
  "child_environment wolf_env call = wolf_env ++ rc_env_variables call"

datatype process_input = Exits int | Process_bus bus_event

datatype process_action = Spawned string "string \<Rightarrow> string option" | Terminated_group | Waited

fun terminates :: "string \<Rightarrow> bus_event \<Rightarrow> bool" where
  "terminates session (StopStreamEvent i) = (dec i = session)"
| "terminates session (StopLobbyEvent l _) = (l = session)"
| "terminates session _ = False"

fun wait_process :: "string \<Rightarrow> process_input list \<Rightarrow> bool \<times> process_action list" where
  "wait_process session [] = (False, [])"
| "wait_process session (Exits code # inps) = (True, [Waited])"
| "wait_process session (Process_bus ev # inps) =
     (case wait_process session inps of (over, as) \<Rightarrow> (over, (if terminates session ev then [Terminated_group] else []) @ as))"

definition run_process :: "(string \<Rightarrow> string option) \<Rightarrow> bool \<Rightarrow> string \<Rightarrow> run_call \<Rightarrow> process_input list \<Rightarrow> bool \<times> process_action list" where
  "run_process wolf_env starts run_cmd call inps =
     (if \<not> starts then (True, [])
      else case wait_process (rc_session_id call) inps of
        (over, as) \<Rightarrow> (over, Spawned run_cmd (child_environment wolf_env call) # as))"


subsection \<open>What a run may do\<close>

definition adds :: "(run_action \<Rightarrow> bool) \<Rightarrow> 'd run_state \<Rightarrow> 'd run_state \<Rightarrow> bool" where
  "adds ok s s' \<longleftrightarrow> (\<exists>as. rn_trace s' = rn_trace s @ as \<and> list_all ok as)"

lemma adds_refl [simp]: "adds ok s s" by (simp add: adds_def)

lemma adds_trans: "\<lbrakk>adds ok s s'; adds ok s' s''\<rbrakk> \<Longrightarrow> adds ok s s''"
  unfolding adds_def by (metis append_assoc list_all_append)

lemma adds_note: "list_all ok as \<Longrightarrow> adds ok s (note_run as s)" by (auto simp: adds_def note_run_def)

lemma adds_daemon [simp]:
  "adds ok (s\<lparr>rn_daemon := d\<rparr>) s' = adds ok s s'" "adds ok s (s'\<lparr>rn_daemon := d\<rparr>) = adds ok s s'"
  by (simp_all add: adds_def)

lemma note_daemon [simp]: "note_run as (s\<lparr>rn_daemon := d\<rparr>) = (note_run as s)\<lparr>rn_daemon := d\<rparr>"
  by (simp add: note_run_def)

lemma adds_weaken: "\<lbrakk>adds ok s s'; \<And>a. ok a \<Longrightarrow> ok' a\<rbrakk> \<Longrightarrow> adds ok' s s'"
  by (auto simp: adds_def list_all_iff)

lemma run_command_adds: "run_command env cid cmd s = Some s' \<Longrightarrow> adds (\<lambda>a. a = Asked_exec cid cmd) s s'"
  by (auto simp: run_command_def bind_eq_Some_conv adds_def note_run_def)

lemma run_commands_adds: "run_commands env cid cmds s = Some s' \<Longrightarrow> adds (\<lambda>a. a \<in> Asked_exec cid ` set cmds) s s'"
proof (induction cmds arbitrary: s)
  case (Cons cmd cmds)
  then obtain s1 where s1: "run_command env cid cmd s = Some s1" "run_commands env cid cmds s1 = Some s'"
    by (auto simp: bind_eq_Some_conv)
  show ?case
  proof (rule adds_trans)
    show "adds (\<lambda>a. a \<in> Asked_exec cid ` set (cmd # cmds)) s s1"
      by (rule adds_weaken [OF run_command_adds [OF s1(1)]]) simp
    show "adds (\<lambda>a. a \<in> Asked_exec cid ` set (cmd # cmds)) s1 s'"
      by (rule adds_weaken [OF Cons.IH [OF s1(2)]]) auto
  qed
qed simp

text \<open>The actions that a container may take on behalf of the inputs it was given.\<close>

definition commands_for :: "container_run \<Rightarrow> run_input list \<Rightarrow> string set" where
  "commands_for r inps =
     {plug_command ev | ev evs db. Popped (cr_session_id r) evs db \<in> set inps \<and> ev \<in> set evs} \<union>
     {unplug_command ev | ev evs db. Bus (UnplugDeviceEvent (cr_session_id r) evs db) \<in> set inps \<and> ev \<in> set evs}"

fun allowed :: "container_run \<Rightarrow> run_input list \<Rightarrow> run_action \<Rightarrow> bool" where
  "allowed r inps (Asked_exec cid cmd) \<longleftrightarrow> cid = cr_container_id r \<and> cmd \<in> commands_for r inps"
| "allowed r inps (Asked_stop cid) \<longleftrightarrow> cid = cr_container_id r"
| "allowed r inps (Asked_remove cid) \<longleftrightarrow> cid = cr_container_id r"
| "allowed r inps (Write_file path _) \<longleftrightarrow> cr_fake_udev r \<and> (\<exists>name. path = path_join (cr_hw_db_path r) name)"
| "allowed r inps (Remove_file path) \<longleftrightarrow> (\<exists>name. path = path_join (cr_hw_db_path r) name)"
| "allowed r inps (Remove_all path) \<longleftrightarrow> path = cr_base_path r"
| "allowed r inps (Bus_fired ev) \<longleftrightarrow> ev = DockerContainerStopped (cr_container_id r) (cr_hostname r) (cr_session_id r)"
| "allowed r inps _ \<longleftrightarrow> False"

lemma commands_for_mono: "set inps \<subseteq> set inps' \<Longrightarrow> commands_for r inps \<subseteq> commands_for r inps'"
  unfolding commands_for_def by blast

lemma allowed_more: "allowed r inps a \<Longrightarrow> set inps \<subseteq> set inps' \<Longrightarrow> allowed r inps' a"
  by (cases a) (auto dest: commands_for_mono [of inps inps' r])

definition quietly :: "container_run \<Rightarrow> run_input list \<Rightarrow> run_action \<Rightarrow> bool" where
  "quietly r inps a \<longleftrightarrow> allowed r inps a \<and> (\<forall>ev. a \<noteq> Bus_fired ev)"

lemma quietly_allowed: "adds (quietly r inps) s s' \<Longrightarrow> adds (allowed r inps) s s'"
  by (erule adds_weaken) (simp add: quietly_def)

lemma stop_container_allowed: "adds (quietly r inps) s (stop_container env (cr_container_id r) s)"
  by (simp add: stop_container_def adds_def note_run_def quietly_def)

lemma plug_device_allowed:
  assumes "plug_device env r session evs db s = Some s'"
  shows "adds (quietly r [Popped session evs db]) s s'"
proof (cases "session = cr_session_id r")
  case True
  let ?s = "note_run (if cr_fake_udev r then create_udev_hw_files (cr_hw_db_path r) db else []) s"
  have "adds (quietly r [Popped session evs db]) s ?s"
    by (rule adds_note) (auto simp: create_udev_hw_files_def list_all_iff quietly_def)
  moreover have "adds (quietly r [Popped session evs db]) ?s s'"
    by (rule adds_weaken [OF run_commands_adds]) (use assms True in \<open>auto simp: plug_device_def commands_for_def quietly_def\<close>)
  ultimately show ?thesis by (rule adds_trans)
qed (use assms in \<open>simp add: plug_device_def\<close>)

lemma on_bus_allowed:
  assumes "on_bus env r ev s = Some s'"
  shows "adds (quietly r [Bus ev]) s s'"
proof (cases ev)
  case (UnplugDeviceEvent session evs db)
  let ?s = "note_run (map (\<lambda>(name, _). Remove_file (path_join (cr_hw_db_path r) name)) db) s"
  show ?thesis
  proof (cases "session = cr_session_id r")
    case True
    have "adds (quietly r [Bus ev]) s ?s" by (rule adds_note) (auto simp: list_all_iff quietly_def)
    moreover have "adds (quietly r [Bus ev]) ?s s'"
      by (rule adds_weaken [OF run_commands_adds]) (use assms True UnplugDeviceEvent in \<open>auto simp: commands_for_def quietly_def\<close>)
    ultimately show ?thesis by (rule adds_trans)
  qed (use assms UnplugDeviceEvent in simp)
qed (use assms in \<open>auto split: if_splits intro: stop_container_allowed\<close>)

lemma finish_run_allowed: "adds (allowed r inps) s (finish_run env host r s)"
proof -
  have "adds (allowed r inps) s (note_run as s)" if "list_all (allowed r inps) as" for as and s :: "'a run_state"
    using that by (rule adds_note)
  then show ?thesis by (simp add: finish_run_def Let_def stop_container_def note_run_def adds_def)
qed

lemma run_loop_allowed:
  "run_loop env host r inps s = Some (over, s') \<Longrightarrow> adds (allowed r inps) s s'"
proof (induction inps arbitrary: s)
  case (Cons inp inps)
  have step: "adds (allowed r (inp # inps)) s s'"
    if "adds (allowed r [inp]) s s1" "run_loop env host r inps s1 = Some (over, s')" for s1
  proof (rule adds_trans)
    show "adds (allowed r (inp # inps)) s s1" by (rule adds_weaken [OF that(1)]) (erule allowed_more, simp)
    show "adds (allowed r (inp # inps)) s1 s'" by (rule adds_weaken [OF Cons.IH [OF that(2)]]) (erule allowed_more, auto)
  qed
  show ?case
  proof (cases inp)
    case Quiet
    then obtain running s1 where s1: "still_running env r s = Some (running, s1)"
      and rest: "(if running then run_loop env host r inps s1 else Some (True, finish_run env host r s1)) = Some (over, s')"
      using Cons.prems by (auto simp: bind_eq_Some_conv)
    have same: "adds ok s s1" for ok using s1 by (auto simp: still_running_def bind_eq_Some_conv adds_def)
    show ?thesis
    proof (cases running)
      case True
      with rest show ?thesis by (intro step [OF same]) simp
    next
      case False
      with rest show ?thesis using adds_trans [OF same finish_run_allowed] by auto
    qed
  next
    case (Popped session evs db)
    with Cons.prems obtain s1 where "plug_device env r session evs db s = Some s1" "run_loop env host r inps s1 = Some (over, s')"
      by (auto simp: bind_eq_Some_conv)
    then show ?thesis using step [of s1] quietly_allowed [OF plug_device_allowed] Popped by blast
  next
    case (Bus ev)
    with Cons.prems obtain s1 where "on_bus env r ev s = Some s1" "run_loop env host r inps s1 = Some (over, s')"
      by (auto simp: bind_eq_Some_conv)
    then show ?thesis using step [of s1] quietly_allowed [OF on_bus_allowed] Bus by blast
  qed
qed simp

text \<open>C17: While a container runs, the runner touches nothing but it: commands, stops and removals go to
  the container it created, only files of its own udev folder are written and removed, and every
  command is the plug or unplug command of a device that was announced for its own session.\<close>

theorem run_touches_own_container:
  assumes "run_loop env host r inps s = Some (over, s')"
  shows "\<exists>as. rn_trace s' = rn_trace s @ as \<and> list_all (allowed r inps) as"
  using run_loop_allowed [OF assms] by (simp only: adds_def)

subsection \<open>Other sessions do not matter\<close>

fun concerns :: "container_run \<Rightarrow> run_input \<Rightarrow> bool" where
  "concerns r (Popped session _ _) \<longleftrightarrow> session = cr_session_id r"
| "concerns r Quiet \<longleftrightarrow> True"
| "concerns r (Bus (StopStreamEvent i)) \<longleftrightarrow> dec i = cr_session_id r"
| "concerns r (Bus (StopLobbyEvent l _)) \<longleftrightarrow> l = cr_session_id r"
| "concerns r (Bus (UnplugDeviceEvent session _ _)) \<longleftrightarrow> session = cr_session_id r"
| "concerns r (Bus _) \<longleftrightarrow> False"

lemma ignored_bus: "\<not> concerns r (Bus ev) \<Longrightarrow> on_bus env r ev s = Some s"
  by (cases ev) simp_all

text \<open>Devices and stops of other sessions, and all other messages of the bus, make no difference to
  a run: what it does is what it does with the inputs that concern it alone.\<close>

theorem run_ignores_other_sessions:
  "run_loop env host r (filter (concerns r) inps) s = run_loop env host r inps s"
proof (induction inps arbitrary: s)
  case (Cons inp inps)
  have same: "run_loop env host r (filter (concerns r) inps) = run_loop env host r inps"
    by (rule ext) (rule Cons.IH)
  show ?case by (cases inp) (simp_all add: plug_device_def ignored_bus same cong: if_cong)
qed simp


subsection \<open>The messages a run sends\<close>

definition fired :: "run_action list \<Rightarrow> bus_event list" where
  "fired as = concat (map (\<lambda>a. case a of Bus_fired ev \<Rightarrow> [ev] | _ \<Rightarrow> []) as)"

lemma fired_nil [simp]: "fired [] = []" by (simp add: fired_def)

lemma fired_append [simp]: "fired (as @ bs) = fired as @ fired bs"
  by (simp add: fired_def)

lemma fired_none: "list_all (\<lambda>a. \<forall>ev. a \<noteq> Bus_fired ev) as \<Longrightarrow> fired as = []"
  by (auto simp: fired_def list_all_iff split: run_action.split)

lemma fired_quietly: "adds (quietly r inps) s s' \<Longrightarrow> fired (rn_trace s') = fired (rn_trace s)"
  by (auto simp: adds_def quietly_def list_all_iff fired_none)

lemma fired_finish: "fired (rn_trace (finish_run env host r s)) =
    fired (rn_trace s) @ [DockerContainerStopped (cr_container_id r) (cr_hostname r) (cr_session_id r)]"
  by (simp add: finish_run_def Let_def stop_container_def note_run_def fired_def)

lemma run_loop_fired:
  "run_loop env host r inps s = Some (over, s') \<Longrightarrow> fired (rn_trace s') = fired (rn_trace s) @
     (if over then [DockerContainerStopped (cr_container_id r) (cr_hostname r) (cr_session_id r)] else [])"
proof (induction inps arbitrary: s)
  case (Cons inp inps)
  show ?case
  proof (cases inp)
    case (Popped session evs db)
    with Cons.prems obtain s1 where s1: "plug_device env r session evs db s = Some s1" "run_loop env host r inps s1 = Some (over, s')"
      by (auto simp: bind_eq_Some_conv)
    then show ?thesis using Cons.IH [OF s1(2)] fired_quietly [OF plug_device_allowed [OF s1(1)]] by simp
  next
    case (Bus ev)
    with Cons.prems obtain s1 where s1: "on_bus env r ev s = Some s1" "run_loop env host r inps s1 = Some (over, s')"
      by (auto simp: bind_eq_Some_conv)
    then show ?thesis using Cons.IH [OF s1(2)] fired_quietly [OF on_bus_allowed [OF s1(1)]] by simp
  next
    case Quiet
    with Cons.prems obtain running s1 where s1: "still_running env r s = Some (running, s1)"
      and rest: "(if running then run_loop env host r inps s1 else Some (True, finish_run env host r s1)) = Some (over, s')"
      by (auto simp: bind_eq_Some_conv)
    have "rn_trace s1 = rn_trace s" using s1 by (auto simp: still_running_def bind_eq_Some_conv)
    then show ?thesis using rest Cons.IH [of s1] by (cases running) (auto simp: fired_finish)
  qed
qed simp

lemma prepare_udev_fired: "fired (prepare_udev host call) = []"
  by (rule fired_none) (simp add: prepare_udev_def Let_def)

lemma started_container_fired:
  assumes "started_container env host call c s = Some (r, s')"
  shows "cr_session_id r = rc_session_id call \<and> fired (rn_trace s') = fired (rn_trace s) \<and> cr_hostname r = [] \<or>
    cr_session_id r = rc_session_id call \<and> fired (rn_trace s') =
      fired (rn_trace s) @ [DockerContainerCreated (cr_container_id r) (cr_hostname r) (rc_session_id call)]"
  using assms by (auto simp: started_container_def Let_def bind_eq_Some_conv note_run_def fired_def split: option.splits)

lemma run_docker_fired:
  assumes "run_docker env host c base_create_json call inps s = Some (Returns (over, s'))"
  shows "\<exists>new. fired (rn_trace s') = fired (rn_trace s) @ new \<and>
    (over \<and> new = [] \<or>
     (\<exists>cid. new = (if over then [DockerContainerStopped cid [] (rc_session_id call)] else [])) \<or>
     (\<exists>cid hostname. new = DockerContainerCreated cid hostname (rc_session_id call) #
        (if over then [DockerContainerStopped cid hostname (rc_session_id call)] else [])))"
proof -
  let ?s0 = "note_run (prepare_udev host call) s"
  have s0: "fired (rn_trace ?s0) = fired (rn_trace s)" by (simp add: note_run_def prepare_udev_fired)
  obtain opts made d where opts: "create_options env host call base_create_json = Some opts"
    and made: "create env (new_container host c call) opts [] True (rn_daemon ?s0) = Some (Returns made, d)"
    using assms by (auto simp: run_docker_def Let_def split: option.splits call_result.splits)
  show ?thesis
  proof (cases made)
    case None
    with assms opts made show ?thesis by (auto simp: run_docker_def Let_def s0 [simplified])
  next
    case (Some m)
    with assms opts made obtain r s1 where "started_container env host call m (?s0\<lparr>rn_daemon := d\<rparr>) = Some (r, s1)"
      and "run_loop env host r inps s1 = Some (over, s')"
      by (auto simp: run_docker_def Let_def bind_eq_Some_conv split: option.splits)
    then show ?thesis using started_container_fired [of env host call m "?s0\<lparr>rn_daemon := d\<rparr>" r s1]
      run_loop_fired [of env host r inps s1 over s'] s0 by auto
  qed
qed


text \<open>A run of a container sends to the bus nothing but the message that the container was created,
  when the daemon could say what its hostname is, and, once it is over, the message that it stopped,
  with the same container, hostname and session; a run that made no container sends nothing.\<close>

theorem run_announces_container:
  assumes "run_docker env host c base_create_json call inps s = Some (Returns (over, s'))"
  shows "\<exists>new. fired (rn_trace s') = fired (rn_trace s) @ new \<and>
    (over \<and> new = [] \<or>
     (\<exists>cid. new = (if over then [DockerContainerStopped cid [] (rc_session_id call)] else [])) \<or>
     (\<exists>cid hostname. new = DockerContainerCreated cid hostname (rc_session_id call) #
        (if over then [DockerContainerStopped cid hostname (rc_session_id call)] else [])))"
  using assms by (rule run_docker_fired)

subsection \<open>A run to try them on\<close>

definition demo_run_docker :: "nat docker_env" where
  "demo_run_docker = \<lparr>dk_connect = True,
     dk_daemon = (\<lambda>rq n. (Some ([(201, ''made''), (200, ''new''), (204, []), (200, ''new''), (500, []), (404, []), (200, [])] ! n), Suc n)),
     dk_pull = (\<lambda>target auth n. (([], None), n)), dk_parse = demo_parse, dk_print = (\<lambda>j. ''json''), dk_version = ''v1.40''\<rparr>"

definition demo_run_host :: run_host where
  "demo_run_host = \<lparr>rh_exists = (\<lambda>_. False), rh_vendor = (\<lambda>_. GPU_INTEL), rh_proc_devices = [], rh_getenv = (\<lambda>_. None),
     rh_env_order = [''PUID'']\<rparr>"

definition demo_call :: run_call where
  "demo_call = \<lparr>rc_session_id = ''42'', rc_app_state_folder = ''/etc/wolf/1/game'', rc_host_xdg_runtime_dir = ''/run'',
     rc_virtual_inputs = [''/dev/dri/renderD128''], rc_paths = [], rc_env_variables = [''PUID'' \<mapsto> ''1000''],
     rc_render_node = ''/dev/dri/renderD128''\<rparr>"

definition demo_inputs :: "run_input list" where
  "demo_inputs = [Popped ''7'' [] [], Popped ''42'' [[(''ACTION'', ''add'')]] [], Bus (StopStreamEvent 7), Quiet]"

definition demo_run :: container_run where
  "demo_run = \<lparr>cr_session_id = ''42'', cr_container_id = ''new'', cr_hostname = ''app'', cr_hw_db_path = ''/etc/wolf/1/game/udev/data'',
     cr_base_path = ''/etc/wolf/1/game/udev'', cr_fake_udev = False\<rparr>"

lemma dec_7: "dec 7 = ''7''"
  by code_simp

lemma demo_loop: "\<exists>s'. run_loop demo_run_docker demo_run_host demo_run demo_inputs \<lparr>rn_daemon = 4, rn_trace = as\<rparr> = Some (True, s')"
  by (simp add: demo_inputs_def demo_run_def plug_device_def run_command_def exec_container_def still_running_def get_by_id_def
      demo_run_docker_def req_def note_run_def dec_7)

theorem run_touches_own_container_witness:
  "\<exists>s' as. run_loop demo_run_docker demo_run_host demo_run demo_inputs \<lparr>rn_daemon = 4, rn_trace = []\<rparr> = Some (True, s') \<and>
     rn_trace s' = as \<and> list_all (allowed demo_run demo_inputs) as"
proof -
  obtain s' where s': "run_loop demo_run_docker demo_run_host demo_run demo_inputs \<lparr>rn_daemon = 4, rn_trace = []\<rparr> = Some (True, s')"
    using demo_loop by blast
  from run_touches_own_container [OF s'] s' show ?thesis by simp
qed

lemma demo_new:
  assumes "n \<in> {1, 3}"
  shows "\<exists>c. get_by_id demo_run_docker ''new'' n = Some (Some c, Suc n) \<and> ct_id c = ''new'' \<and> ct_hostname c = ''app''"
  using assms by (auto simp: get_by_id_def container_of_json_def json_at_def string_at_def array_or_null_def ports_of_json_def
      demo_run_docker_def demo_parse_def demo_container_json_def req_def parse_json_def numeral_eq_Suc)

lemma demo_created: "\<exists>c. create demo_run_docker (new_container demo_run_host demo_container demo_call) ''custom'' [] True 0 =
    Some (Returns (Some c), 2) \<and> ct_id c = ''new''"
proof -
  let ?c = "new_container demo_run_host demo_container demo_call"
  obtain p where p: "post_params demo_run_docker ?c ''custom'' = Some p"
    by (auto simp: post_params_def demo_run_docker_def demo_parse_def parse_json_def merge_array_def host_config_def Let_def)
  have con: "dk_connect demo_run_docker" by (simp add: demo_run_docker_def)
  have answer: "dk_daemon demo_run_docker (create_request demo_run_docker ?c p) 0 = (Some (201, ''made''), 1)"
    by (simp add: demo_run_docker_def)
  have i: "string_at (parse_json demo_run_docker ''made'') ''Id'' = Some ''new''"
    by (simp add: demo_run_docker_def demo_parse_def parse_json_def string_at_def json_at_def)
  show ?thesis using create_created [OF con p answer i] demo_new [of 1] by (auto simp: numeral_eq_Suc)
qed

lemma demo_docker_run:
  "\<exists>s'. run_docker demo_run_docker demo_run_host demo_container ''custom'' demo_call demo_inputs \<lparr>rn_daemon = 0, rn_trace = []\<rparr> =
     Some (Returns (True, s'))"
proof -
  obtain c where c: "create demo_run_docker (new_container demo_run_host demo_container demo_call) ''custom'' [] True 0 =
    Some (Returns (Some c), 2)" "ct_id c = ''new''" using demo_created by blast
  obtain i where i: "get_by_id demo_run_docker ''new'' 3 = Some (Some i, 4)" "ct_hostname i = ''app''" using demo_new [of 3] by auto
  have udev: "prepare_udev demo_run_host demo_call = []" "hw_db_path demo_call = ''/etc/wolf/1/game/udev/data''"
    "udev_base_path demo_call = ''/etc/wolf/1/game/udev''" "use_fake_udev demo_run_host = False"
    "create_options demo_run_docker demo_run_host demo_call ''custom'' = Some ''custom''"
    by (simp_all add: prepare_udev_def hw_db_path_def udev_base_path_def use_fake_udev_def env_or_def demo_run_host_def
        demo_call_def path_join_def create_options_def cgroup_options_def get_device_major_def on_nvidia_def)
  have start: "snd (start_by_id demo_run_docker ''new'' 2) = 3"
    by (simp add: start_by_id_def req_def demo_run_docker_def)
  have "started_container demo_run_docker demo_run_host demo_call c \<lparr>rn_daemon = 2, rn_trace = []\<rparr> =
    Some (demo_run, \<lparr>rn_daemon = 4, rn_trace = [Asked_start ''new'', Bus_fired (DockerContainerCreated ''new'' ''app'' ''42'')]\<rparr>)"
    by (simp add: started_container_def Let_def c(2) i start note_run_def udev demo_run_def) (simp add: demo_call_def)
  moreover obtain s' where "run_loop demo_run_docker demo_run_host demo_run demo_inputs \<lparr>rn_daemon = 4,
      rn_trace = [Asked_start ''new'', Bus_fired (DockerContainerCreated ''new'' ''app'' ''42'')]\<rparr> = Some (True, s')"
    using demo_loop by blast
  ultimately show ?thesis by (simp add: run_docker_def Let_def udev note_run_def c)
qed

theorem run_announces_container_witness:
  "\<exists>s' new. run_docker demo_run_docker demo_run_host demo_container ''custom'' demo_call demo_inputs \<lparr>rn_daemon = 0, rn_trace = []\<rparr> =
     Some (Returns (True, s')) \<and> fired (rn_trace s') = new \<and> length new \<le> 2"
proof -
  obtain s' where s': "run_docker demo_run_docker demo_run_host demo_container ''custom'' demo_call demo_inputs
      \<lparr>rn_daemon = 0, rn_trace = []\<rparr> = Some (Returns (True, s'))"
    using demo_docker_run by blast
  from run_announces_container [OF s'] s' show ?thesis by auto
qed

end
