(* ===== verification/Pulse_Router.thy ===== *)
theory Pulse_Router
  imports Sessions
begin

section \<open>Sound: core pulseaudio/pulse.cpp, moonlight-server/audio/pulse_router.cpp\<close>

text \<open>
  The client of the PulseAudio server, and the router that moves what a container plays to the
  virtual sink of its session. The server is modelled as far as the router sees it: its sinks, the
  streams that play into them (sink inputs), and a queue of requests that it answers in order; an
  answer runs a callback of the router. The server tells the router of new and changed sinks and
  inputs once it is subscribed. Indexes of sinks are not used twice, as libpulse documents.
\<close>

subsection \<open>Virtual sinks and queued operations (pulse.cpp)\<close>

definition speaker_name :: "Speakers \<Rightarrow> string" where
  "speaker_name s =
     (case s of
        FRONT_LEFT \<Rightarrow> ''front-left'' | FRONT_RIGHT \<Rightarrow> ''front-right'' | FRONT_CENTER \<Rightarrow> ''front-center''
      | LOW_FREQUENCY \<Rightarrow> ''lfe'' | BACK_LEFT \<Rightarrow> ''rear-left'' | BACK_RIGHT \<Rightarrow> ''rear-right''
      | SIDE_LEFT \<Rightarrow> ''side-left'' | SIDE_RIGHT \<Rightarrow> ''side-right'')"

definition channel_spec :: "string \<Rightarrow> AudioMode \<Rightarrow> string" where
  "channel_spec sink_name md = ''rate='' @ dec_int (am_sample_rate md) @ '' sink_name='' @ sink_name @
     '' channels='' @ dec_int (am_channels md) @ '' channel_map='' @ join (map speaker_name (am_speakers md)) '',''"

datatype pa_state = PA_CONNECTING | PA_READY | PA_DOWN

text \<open>
  A connection: its state, whether its promise was kept, and with which value, whether the future can
  still be waited for (\<open>connected\<close> takes its value once and for all), and the operations that wait for it.
\<close>

record 'op pa_server =
  ps_state :: pa_state
  ps_on_ready :: "bool option"
  ps_future_valid :: bool
  ps_waiting :: "'op list"

definition pa_connect :: "'op pa_server" where
  "pa_connect = \<lparr>ps_state = PA_CONNECTING, ps_on_ready = None, ps_future_valid = True, ps_waiting = []\<rparr>"

text \<open>A change of the connection: the first of READY, TERMINATED and FAILED keeps the promise; the
  operations that waited run when it is kept with \<open>true\<close>, and never when with \<open>false\<close>.\<close>

definition pa_state_changed :: "pa_state \<Rightarrow> 'op pa_server \<Rightarrow> 'op pa_server \<times> 'op list" where
  "pa_state_changed st s =
     (let s' = s\<lparr>ps_state := st\<rparr>
      in if st = PA_CONNECTING \<or> ps_on_ready s \<noteq> None then (s', [])
         else (s'\<lparr>ps_on_ready := Some (st = PA_READY), ps_waiting := []\<rparr>, if st = PA_READY then ps_waiting s else []))"

text \<open>\<open>None\<close>: the call throws, for the future was used up.\<close>

definition queue_op :: "'op \<Rightarrow> 'op pa_server \<Rightarrow> ('op pa_server \<times> 'op list) option" where
  "queue_op op s =
     (if ps_state s = PA_READY then Some (s, [op])
      else if \<not> ps_future_valid s then None
      else case ps_on_ready s of
             None \<Rightarrow> Some (s\<lparr>ps_waiting := ps_waiting s @ [op]\<rparr>, [])
           | Some result \<Rightarrow> Some (s, if result then [op] else []))"

subsection \<open>The router and the server it talks to\<close>

record pa_input =
  pi_index :: u32
  pi_sink :: u32
  pi_host :: "string option"

datatype pa_request =
    Subscribe
  | Get_inputs
  | Get_input u32
  | Get_sinks
  | Get_sink u32
  | Move_input u32 u32

record router =
  pr_host_to_session :: "string \<Rightarrow> string option"
  pr_session_to_sink_idx :: "string \<Rightarrow> u32 option"
  pa_queue :: "pa_request list"
  pa_subscribed :: bool
  pa_inputs :: "pa_input list"
  pa_sinks :: "(u32 \<times> string) list"
  pa_used :: "u32 set"

definition ask :: "pa_request list \<Rightarrow> router \<Rightarrow> router" where
  "ask rs s = s\<lparr>pa_queue := pa_queue s @ rs\<rparr>"

definition on_container_created :: "string \<Rightarrow> string \<Rightarrow> router \<Rightarrow> router" where
  "on_container_created hostname session_id s =
     (if hostname = [] \<or> session_id = [] then s
      else ask [Get_inputs] (s\<lparr>pr_host_to_session := (pr_host_to_session s)(hostname \<mapsto> session_id)\<rparr>))"

definition on_container_stopped :: "string \<Rightarrow> string \<Rightarrow> router \<Rightarrow> router" where
  "on_container_stopped hostname session_id s =
     (if hostname = [] then s
      else case pr_host_to_session s hostname of
        None \<Rightarrow> s
      | Some v \<Rightarrow>
          if session_id = [] \<or> v = session_id
          then (let s' = s\<lparr>pr_host_to_session := (pr_host_to_session s)(hostname := None)\<rparr>
                in if v \<noteq> [] then s'\<lparr>pr_session_to_sink_idx := (pr_session_to_sink_idx s)(v := None)\<rparr> else s')
          else s)"

text \<open>The handlers of the bus that \<open>setup_pulseaudio_router_handlers\<close> registers.\<close>

fun router_handler :: "bus_event \<Rightarrow> router \<Rightarrow> router" where
  "router_handler (DockerContainerCreated cid hostname session_id) s = on_container_created hostname session_id s"
| "router_handler (DockerContainerStopped cid hostname session_id) s = on_container_stopped hostname session_id s"
| "router_handler _ s = s"

subsection \<open>Callbacks\<close>

definition has_prefix :: "string \<Rightarrow> string \<Rightarrow> bool" where
  "has_prefix pre s \<longleftrightarrow> take (length pre) s = pre"

definition pa_sink_info_cb :: "u32 \<times> string \<Rightarrow> router \<Rightarrow> router" where
  "pa_sink_info_cb info s =
     (case info of (i, name) \<Rightarrow>
        if has_prefix VIRTUAL_SINK_PREFIX name
        then ask [Get_inputs] (s\<lparr>pr_session_to_sink_idx :=
            (pr_session_to_sink_idx s)(drop (length VIRTUAL_SINK_PREFIX) name \<mapsto> i)\<rparr>)
        else s)"

text \<open>The sink an input belongs to, and the request that brings it there.\<close>

definition target_sink :: "router \<Rightarrow> pa_input \<Rightarrow> u32 option" where
  "target_sink s i =
     (case pi_host i of
        None \<Rightarrow> None
      | Some host \<Rightarrow>
          if host = [] then None
          else case pr_host_to_session s host of
            None \<Rightarrow> None
          | Some session_id \<Rightarrow> if session_id = [] then None else pr_session_to_sink_idx s session_id)"

definition route_sink_input :: "router \<Rightarrow> pa_input \<Rightarrow> pa_request list" where
  "route_sink_input s i =
     (case target_sink s i of
        None \<Rightarrow> []
      | Some target_sink_idx \<Rightarrow> if pi_sink i = target_sink_idx then [] else [Move_input (pi_index i) target_sink_idx])"

text \<open>The kind of an event is in its low four bits (0 for a sink, 2 for an input), what happened in the
  next two (0 for new, 16 for changed, 32 for removed).\<close>

definition pa_subscribe_cb :: "nat \<Rightarrow> u32 \<Rightarrow> pa_request list" where
  "pa_subscribe_cb t i =
     (let facility = t mod 16; type = t div 16 mod 4 * 16
      in if facility = 2 then (if type = 0 \<or> type = 16 then [Get_input i] else [])
         else if facility = 0 then (if type = 0 \<or> type = 16 then [Get_sink i] else [])
         else [])"

definition notify :: "nat \<Rightarrow> u32 \<Rightarrow> router \<Rightarrow> router" where
  "notify t i s = (if pa_subscribed s then ask (pa_subscribe_cb t i) s else s)"

subsection \<open>The server answers\<close>

definition routes :: "pa_input list \<Rightarrow> router \<Rightarrow> router" where
  "routes is s = ask (concat (map (route_sink_input s) is)) s"

definition move_input :: "u32 \<Rightarrow> u32 \<Rightarrow> router \<Rightarrow> router" where
  "move_input k t s =
     (if t \<in> fst ` set (pa_sinks s)
      then notify 18 k (s\<lparr>pa_inputs := map (\<lambda>i. if pi_index i = k then i\<lparr>pi_sink := t\<rparr> else i) (pa_inputs s)\<rparr>)
      else s)"

fun answer_request :: "pa_request \<Rightarrow> router \<Rightarrow> router" where
  "answer_request Subscribe s = s\<lparr>pa_subscribed := True\<rparr>"
| "answer_request Get_inputs s = routes (pa_inputs s) s"
| "answer_request (Get_input k) s = routes (filter (\<lambda>i. pi_index i = k) (pa_inputs s)) s"
| "answer_request Get_sinks s = fold pa_sink_info_cb (pa_sinks s) s"
| "answer_request (Get_sink k) s = fold pa_sink_info_cb (filter (\<lambda>(i, _). i = k) (pa_sinks s)) s"
| "answer_request (Move_input k t) s = move_input k t s"

text \<open>A router that has just been set up, with what the server has at that time.\<close>

definition new_router :: "pa_input list \<Rightarrow> (u32 \<times> string) list \<Rightarrow> router" where
  "new_router inputs sinks = \<lparr>pr_host_to_session = (\<lambda>_. None), pr_session_to_sink_idx = (\<lambda>_. None),
     pa_queue = [Subscribe, Get_inputs, Get_sinks], pa_subscribed = False, pa_inputs = inputs, pa_sinks = sinks,
     pa_used = fst ` set sinks\<rparr>"

text \<open>What can happen: a message of the bus, the server answers its oldest request, inputs and sinks
  come, change and go.\<close>

inductive router_step :: "router \<Rightarrow> router \<Rightarrow> bool" where
  bus: "router_step s (router_handler ev s)"
| answered: "pa_queue s = r # rs \<Longrightarrow> router_step s (answer_request r (s\<lparr>pa_queue := rs\<rparr>))"
| input_new: "router_step s (notify 2 (pi_index i) (s\<lparr>pa_inputs := pa_inputs s @ [i]\<rparr>))"
| input_changed: "router_step s (notify 18 (pi_index j)
    (s\<lparr>pa_inputs := map (\<lambda>i. if pi_index i = pi_index j then j else i) (pa_inputs s)\<rparr>))"
| input_removed: "router_step s (notify 34 k (s\<lparr>pa_inputs := filter (\<lambda>i. pi_index i \<noteq> k) (pa_inputs s)\<rparr>))"
| sink_new: "k \<notin> pa_used s \<Longrightarrow>
    router_step s (notify 0 k (s\<lparr>pa_sinks := pa_sinks s @ [(k, name)], pa_used := insert k (pa_used s)\<rparr>))"
| sink_removed: "router_step s (notify 32 k (s\<lparr>pa_sinks := filter (\<lambda>(i, _). i \<noteq> k) (pa_sinks s)\<rparr>))"

inductive router_reachable :: "router \<Rightarrow> bool" where
  start: "router_reachable (new_router inputs sinks)"
| step: "\<lbrakk>router_reachable s; router_step s s'\<rbrakk> \<Longrightarrow> router_reachable s'"


subsection \<open>The invariant\<close>

definition to_do :: "pa_request list \<Rightarrow> pa_input \<Rightarrow> u32 \<Rightarrow> bool" where
  "to_do q i t \<longleftrightarrow> Get_inputs \<in> set q \<or> Get_input (pi_index i) \<in> set q \<or> Move_input (pi_index i) t \<in> set q"

definition misplaced :: "router \<Rightarrow> pa_input \<Rightarrow> u32 \<Rightarrow> bool" where
  "misplaced s i t \<longleftrightarrow> target_sink s i = Some t \<and> pi_sink i \<noteq> t \<and> t \<in> fst ` set (pa_sinks s)"

definition waiting_inv :: "router \<Rightarrow> bool" where
  "waiting_inv s \<longleftrightarrow> (\<forall>i \<in> set (pa_inputs s). \<forall>t. misplaced s i t \<longrightarrow> to_do (pa_queue s) i t)"

definition setup_inv :: "router \<Rightarrow> bool" where
  "setup_inv s \<longleftrightarrow> pa_subscribed s \<or> (\<exists>rest. pa_queue s = Subscribe # Get_inputs # Get_sinks # rest)"

definition index_inv :: "router \<Rightarrow> bool" where
  "index_inv s \<longleftrightarrow> ran (pr_session_to_sink_idx s) \<subseteq> pa_used s \<and> fst ` set (pa_sinks s) \<subseteq> pa_used s"

named_theorems router_defs

lemmas [router_defs] = ask_def notify_def routes_def move_input_def on_container_created_def on_container_stopped_def

lemma ask_simps [simp]:
  "pa_queue (ask rs s) = pa_queue s @ rs" "pa_inputs (ask rs s) = pa_inputs s" "pa_sinks (ask rs s) = pa_sinks s"
  "pa_used (ask rs s) = pa_used s" "pa_subscribed (ask rs s) = pa_subscribed s"
  "pr_session_to_sink_idx (ask rs s) = pr_session_to_sink_idx s" "pr_host_to_session (ask rs s) = pr_host_to_session s"
  by (simp_all add: ask_def)

lemma notify_simps [simp]:
  "pa_inputs (notify t k s) = pa_inputs s" "pa_sinks (notify t k s) = pa_sinks s" "pa_used (notify t k s) = pa_used s"
  "pa_subscribed (notify t k s) = pa_subscribed s" "pr_session_to_sink_idx (notify t k s) = pr_session_to_sink_idx s"
  "pr_host_to_session (notify t k s) = pr_host_to_session s"
  "pa_queue (notify t k s) = pa_queue s @ (if pa_subscribed s then pa_subscribe_cb t k else [])"
  by (simp_all add: notify_def)

lemma pa_subscribe_cb_simps [simp]:
  "pa_subscribe_cb 2 k = [Get_input k]" "pa_subscribe_cb 18 k = [Get_input k]" "pa_subscribe_cb 0 k = [Get_sink k]"
  by (simp_all add: pa_subscribe_cb_def Let_def)

lemma target_sink_cong:
  "\<lbrakk>pr_host_to_session s' = pr_host_to_session s; pr_session_to_sink_idx s' = pr_session_to_sink_idx s\<rbrakk> \<Longrightarrow>
   target_sink s' i = target_sink s i"
  by (simp add: target_sink_def split: option.split)

lemma target_sink_ran: "target_sink s i = Some t \<Longrightarrow> t \<in> ran (pr_session_to_sink_idx s)"
  by (auto simp: target_sink_def ran_def split: option.splits if_splits)

lemma target_sink_stopped: "target_sink (on_container_stopped h x s) i = Some t \<Longrightarrow> target_sink s i = Some t"
  by (auto simp: target_sink_def on_container_stopped_def Let_def split: option.splits if_splits)

lemma route_misplaced: "misplaced s i t \<Longrightarrow> route_sink_input s i = [Move_input (pi_index i) t]"
  by (simp add: misplaced_def route_sink_input_def)

text \<open>The callback for a sink changes nothing, or it asks for all inputs.\<close>

lemma sink_cbs:
  assumes "set infos \<subseteq> set (pa_sinks s)" "index_inv s"
  shows "(fold pa_sink_info_cb infos s = s \<or> Get_inputs \<in> set (pa_queue (fold pa_sink_info_cb infos s))) \<and>
    index_inv (fold pa_sink_info_cb infos s) \<and> (\<exists>rest. pa_queue (fold pa_sink_info_cb infos s) = pa_queue s @ rest) \<and>
    pa_subscribed (fold pa_sink_info_cb infos s) = pa_subscribed s"
  using assms
proof (induction infos arbitrary: s)
  case (Cons info infos)
  obtain k name where info: "info = (k, name)" by (cases info)
  let ?s = "pa_sink_info_cb info s"
  have s: "?s = s \<or> Get_inputs \<in> set (pa_queue ?s)" "pa_sinks ?s = pa_sinks s" "pa_subscribed ?s = pa_subscribed s"
    "\<exists>rest. pa_queue ?s = pa_queue s @ rest"
    by (simp_all add: pa_sink_info_cb_def info)
  have "k \<in> pa_used s" using Cons.prems info by (force simp: index_inv_def)
  then have "index_inv ?s" using Cons.prems(2)
    by (auto simp: index_inv_def pa_sink_info_cb_def info ran_def split: if_splits)
  with Cons.IH [of ?s] Cons.prems(1) s show ?case by auto
qed simp



text \<open>A step that changes neither the maps of the router nor the sinks, and forgets no request, keeps
  what waits; one that leaves \<open>Get_inputs\<close> in the queue is fine in any case.\<close>

lemma waiting_all: "Get_inputs \<in> set (pa_queue s) \<Longrightarrow> waiting_inv s"
  by (simp add: waiting_inv_def to_do_def)

lemma waiting_unsubscribed: "\<lbrakk>setup_inv s; \<not> pa_subscribed s\<rbrakk> \<Longrightarrow> waiting_inv s"
  by (rule waiting_all) (auto simp: setup_inv_def)

lemma to_do_more: "to_do q i t \<Longrightarrow> set q \<subseteq> set q' \<Longrightarrow> to_do q' i t"
  by (auto simp: to_do_def)

lemma misplaced_cong:
  assumes "pr_host_to_session s' = pr_host_to_session s" "pr_session_to_sink_idx s' = pr_session_to_sink_idx s"
    "pa_sinks s' = pa_sinks s"
  shows "misplaced s' i t = misplaced s i t"
  using target_sink_cong [OF assms(1,2), of i] assms(3) by (simp add: misplaced_def)

lemma waiting_mono:
  assumes "waiting_inv s" "set (pa_inputs s') \<subseteq> set (pa_inputs s)" "set (pa_queue s) \<subseteq> set (pa_queue s')"
    "\<And>i t. misplaced s' i t \<Longrightarrow> misplaced s i t"
  shows "waiting_inv s'"
  using assms to_do_more unfolding waiting_inv_def by blast

lemma waiting_bus:
  assumes "waiting_inv s"
  shows "waiting_inv (router_handler ev s)"
proof (cases ev)
  case (DockerContainerCreated cid h x)
  show ?thesis
  proof (cases "h = [] \<or> x = []")
    case True
    with assms DockerContainerCreated show ?thesis by (simp add: on_container_created_def)
  next
    case False
    with DockerContainerCreated show ?thesis by (intro waiting_all) (simp add: on_container_created_def)
  qed
next
  case (DockerContainerStopped cid h x)
  have "pa_inputs (on_container_stopped h x s) = pa_inputs s" "pa_queue (on_container_stopped h x s) = pa_queue s"
    "pa_sinks (on_container_stopped h x s) = pa_sinks s"
    by (simp_all add: on_container_stopped_def Let_def split: option.split)
  then show ?thesis using DockerContainerStopped
    by (auto intro!: waiting_mono [OF assms] simp: misplaced_def dest: target_sink_stopped)
qed (use assms in simp_all)

lemma waiting_inputs:
  assumes "waiting_inv s" "setup_inv s" "t \<in> {2, 18}"
    and "\<And>i. i \<in> set inputs \<Longrightarrow> i \<in> set (pa_inputs s) \<or> pi_index i = k"
  shows "waiting_inv (notify t k (s\<lparr>pa_inputs := inputs\<rparr>))"
proof (cases "pa_subscribed s")
  case True
  have "misplaced (notify t k (s\<lparr>pa_inputs := inputs\<rparr>)) i u = misplaced s i u" for i u
    by (rule misplaced_cong) simp_all
  with True assms show ?thesis by (auto simp: waiting_inv_def to_do_def dest!: assms(4))
next
  case False
  with assms(2) show ?thesis by (intro waiting_unsubscribed) (simp_all add: setup_inv_def)
qed

lemma waiting_routes:
  assumes "waiting_inv s" "pa_queue s = r # rs" "s0 = s\<lparr>pa_queue := rs\<rparr>" "set is \<subseteq> set (pa_inputs s)"
    and "\<And>i t. \<lbrakk>i \<in> set (pa_inputs s); to_do [r] i t\<rbrakk> \<Longrightarrow> i \<in> set is"
  shows "waiting_inv (routes is s0)"
proof -
  have m: "misplaced (routes is s0) i t = misplaced s i t" "misplaced s0 i t = misplaced s i t" for i t
    by (rule misplaced_cong; simp add: routes_def assms(3))+
  have "to_do (pa_queue (routes is s0)) i t" if "i \<in> set (pa_inputs s)" "misplaced s i t" for i t
  proof (cases "i \<in> set is")
    case True
    with route_misplaced [of s0 i t] that show ?thesis by (force simp: m routes_def to_do_def)
  next
    case False
    then have "\<not> to_do [r] i t" using assms(5) that(1) by blast
    moreover have "to_do (r # rs) i t" using assms(1,2) that by (auto simp: waiting_inv_def)
    ultimately show ?thesis by (auto simp: to_do_def routes_def assms(3))
  qed
  then show ?thesis by (auto simp: waiting_inv_def m) (simp add: routes_def assms(3))
qed


lemma waiting_move:
  assumes "waiting_inv s" "pa_queue s = Move_input k t # rs" "pa_subscribed s"
  shows "waiting_inv (move_input k t (s\<lparr>pa_queue := rs\<rparr>))"
proof -
  let ?s = "move_input k t (s\<lparr>pa_queue := rs\<rparr>)"
  have m: "misplaced ?s i u = misplaced s i u" for i u by (rule misplaced_cong) (simp_all add: move_input_def)
  have "to_do (pa_queue ?s) i u" if i: "i \<in> set (pa_inputs ?s)" and u: "misplaced s i u" for i u
  proof (cases "t \<in> fst ` set (pa_sinks s)")
    case True
    then have q: "pa_queue ?s = rs @ [Get_input k]" and ins: "pa_inputs ?s = map (\<lambda>i. if pi_index i = k then i\<lparr>pi_sink := t\<rparr> else i) (pa_inputs s)"
      using assms(3) by (simp_all add: move_input_def)
    show ?thesis
    proof (cases "pi_index i = k")
      case False
      then have "i \<in> set (pa_inputs s)" using i ins by (auto split: if_splits)
      with assms(1,2) u False show ?thesis by (auto simp: waiting_inv_def to_do_def q)
    qed (simp add: to_do_def q)
  next
    case False
    then have "pa_queue ?s = rs" "pa_inputs ?s = pa_inputs s" by (simp_all add: move_input_def)
    moreover have "u \<noteq> t" using False u by (auto simp: misplaced_def)
    ultimately show ?thesis using assms(1,2) i u by (auto simp: waiting_inv_def to_do_def)
  qed
  then show ?thesis by (simp add: waiting_inv_def m)
qed

lemma waiting_sinks:
  assumes "waiting_inv s" "pa_queue s = r # rs" "set infos \<subseteq> set (pa_sinks s)" "index_inv s" "\<And>i t. \<not> to_do [r] i t"
  shows "waiting_inv (fold pa_sink_info_cb infos (s\<lparr>pa_queue := rs\<rparr>))"
proof -
  let ?s = "s\<lparr>pa_queue := rs\<rparr>"
  have m: "misplaced ?s i t = misplaced s i t" for i t by (rule misplaced_cong) simp_all
  have "waiting_inv ?s" using assms(1,2,5) by (auto simp: waiting_inv_def m to_do_def)
  moreover have "index_inv ?s" using assms(4) by (simp add: index_inv_def)
  ultimately show ?thesis using sink_cbs [of infos ?s] assms(3) waiting_all by auto
qed

definition router_inv :: "router \<Rightarrow> bool" where
  "router_inv s \<longleftrightarrow> waiting_inv s \<and> setup_inv s \<and> index_inv s"

lemma router_inv_answer:
  assumes inv: "router_inv s" and q: "pa_queue s = r # rs"
  shows "router_inv (answer_request r (s\<lparr>pa_queue := rs\<rparr>))"
proof -
  let ?s = "s\<lparr>pa_queue := rs\<rparr>"
  have w: "waiting_inv s" and st: "setup_inv s" and ix: "index_inv s" using inv by (simp_all add: router_inv_def)
  have ix': "index_inv ?s" using ix by (simp add: index_inv_def)
  have sub: "pa_subscribed s" if "r \<noteq> Subscribe" using st q that by (auto simp: setup_inv_def)
  show ?thesis
  proof (cases r)
    case Subscribe
    have m: "misplaced (?s\<lparr>pa_subscribed := True\<rparr>) i t = misplaced s i t" for i t by (rule misplaced_cong) simp_all
    have "waiting_inv (?s\<lparr>pa_subscribed := True\<rparr>)" using w q Subscribe by (auto simp: waiting_inv_def m to_do_def)
    then show ?thesis using ix Subscribe by (simp add: router_inv_def setup_inv_def index_inv_def)
  next
    case Get_inputs
    have "waiting_inv (routes (pa_inputs s) ?s)" by (rule waiting_routes [OF w q]) auto
    then show ?thesis using ix sub Get_inputs by (simp add: router_inv_def setup_inv_def index_inv_def routes_def)
  next
    case (Get_input k)
    have "waiting_inv (routes (filter (\<lambda>i. pi_index i = k) (pa_inputs s)) ?s)"
      by (rule waiting_routes [OF w q]) (auto simp: Get_input to_do_def)
    then show ?thesis using ix sub Get_input by (simp add: router_inv_def setup_inv_def index_inv_def routes_def)
  next
    case Get_sinks
    have "waiting_inv (fold pa_sink_info_cb (pa_sinks s) ?s)"
      by (rule waiting_sinks [OF w q _ ix]) (simp_all add: Get_sinks to_do_def)
    then show ?thesis using sink_cbs [OF _ ix', of "pa_sinks s"] sub Get_sinks by (simp add: router_inv_def setup_inv_def)
  next
    case (Get_sink k)
    have "waiting_inv (fold pa_sink_info_cb (filter (\<lambda>(i, _). i = k) (pa_sinks s)) ?s)"
      by (rule waiting_sinks [OF w q _ ix]) (auto simp: Get_sink to_do_def)
    then show ?thesis using sink_cbs [OF _ ix', of "filter (\<lambda>(i, _). i = k) (pa_sinks s)"] sub Get_sink
      by (auto simp: router_inv_def setup_inv_def)
  next
    case (Move_input k t)
    have "waiting_inv (move_input k t ?s)" using waiting_move w q Move_input sub by simp
    moreover have "setup_inv (move_input k t ?s)" "index_inv (move_input k t ?s)"
      using ix sub Move_input by (simp_all add: setup_inv_def index_inv_def move_input_def)
    ultimately show ?thesis using Move_input by (simp add: router_inv_def)
  qed
qed

lemma setup_more: "setup_inv s \<Longrightarrow> pa_queue s' = pa_queue s @ rest \<Longrightarrow> pa_subscribed s' = pa_subscribed s \<Longrightarrow> setup_inv s'"
  by (auto simp: setup_inv_def)

lemma router_inv_bus:
  assumes "router_inv s"
  shows "router_inv (router_handler ev s)"
proof -
  have "\<exists>rest. pa_queue (router_handler ev s) = pa_queue s @ rest" "pa_subscribed (router_handler ev s) = pa_subscribed s"
    by (cases ev; simp add: on_container_created_def on_container_stopped_def Let_def split: option.split)+
  then have "setup_inv (router_handler ev s)" using assms setup_more by (auto simp: router_inv_def)
  moreover have "index_inv (router_handler ev s)" using assms
    by (cases ev) (auto simp: router_inv_def index_inv_def on_container_created_def on_container_stopped_def Let_def ran_def
        split: option.split if_splits)
  ultimately show ?thesis using assms waiting_bus by (simp add: router_inv_def)
qed

lemma router_inv_step: "\<lbrakk>router_step s s'; router_inv s\<rbrakk> \<Longrightarrow> router_inv s'"
proof (induction rule: router_step.induct)
  case (sink_new k s name)
  let ?s = "notify 0 k (s\<lparr>pa_sinks := pa_sinks s @ [(k, name)], pa_used := insert k (pa_used s)\<rparr>)"
  have t: "target_sink ?s i = target_sink s i" for i by (rule target_sink_cong) simp_all
  have m: "misplaced s i u" if "misplaced ?s i u" for i u
  proof -
    have u: "target_sink s i = Some u" using that by (simp add: misplaced_def t)
    have "u \<noteq> k" using target_sink_ran [OF u] sink_new by (auto simp: router_inv_def index_inv_def)
    with that u show ?thesis by (simp add: misplaced_def)
  qed
  have "waiting_inv ?s" by (rule waiting_mono [of s]) (use sink_new m in \<open>simp_all add: router_inv_def\<close>)
  moreover have "setup_inv ?s" by (rule setup_more [of s ?s]) (use sink_new in \<open>simp_all add: router_inv_def\<close>)
  moreover have "index_inv ?s" using sink_new by (auto simp: router_inv_def index_inv_def)
  ultimately show ?case by (simp only: router_inv_def)
next
  case (sink_removed s k)
  let ?s = "notify 32 k (s\<lparr>pa_sinks := filter (\<lambda>(i, _). i \<noteq> k) (pa_sinks s)\<rparr>)"
  have t: "target_sink ?s i = target_sink s i" for i by (rule target_sink_cong) simp_all
  have m: "misplaced s i u" if "misplaced ?s i u" for i u using that by (auto simp: misplaced_def t)
  have "waiting_inv ?s" by (rule waiting_mono [of s]) (use sink_removed m in \<open>simp_all add: router_inv_def\<close>)
  moreover have "setup_inv ?s" by (rule setup_more [of s ?s]) (use sink_removed in \<open>simp_all add: router_inv_def\<close>)
  moreover have "index_inv ?s" using sink_removed by (auto simp: router_inv_def index_inv_def)
  ultimately show ?case by (simp only: router_inv_def)
next
  case (input_new s i)
  let ?s = "notify 2 (pi_index i) (s\<lparr>pa_inputs := pa_inputs s @ [i]\<rparr>)"
  have "waiting_inv ?s" using input_new by (intro waiting_inputs) (auto simp: router_inv_def)
  moreover have "setup_inv ?s" by (rule setup_more [of s ?s]) (use input_new in \<open>simp_all add: router_inv_def\<close>)
  moreover have "index_inv ?s" using input_new by (simp add: router_inv_def index_inv_def)
  ultimately show ?case by (simp only: router_inv_def)
next
  case (input_changed s j)
  let ?s = "notify 18 (pi_index j) (s\<lparr>pa_inputs := map (\<lambda>i. if pi_index i = pi_index j then j else i) (pa_inputs s)\<rparr>)"
  have "waiting_inv ?s" using input_changed by (intro waiting_inputs) (auto simp: router_inv_def split: if_splits)
  moreover have "setup_inv ?s" by (rule setup_more [of s ?s]) (use input_changed in \<open>simp_all add: router_inv_def\<close>)
  moreover have "index_inv ?s" using input_changed by (simp add: router_inv_def index_inv_def)
  ultimately show ?case by (simp only: router_inv_def)
next
  case (input_removed s k)
  let ?s = "notify 34 k (s\<lparr>pa_inputs := filter (\<lambda>i. pi_index i \<noteq> k) (pa_inputs s)\<rparr>)"
  have m: "misplaced ?s i t = misplaced s i t" for i t by (rule misplaced_cong) simp_all
  have "waiting_inv ?s" by (rule waiting_mono [of s]) (use input_removed in \<open>auto simp: router_inv_def m\<close>)
  moreover have "setup_inv ?s" by (rule setup_more [of s ?s]) (use input_removed in \<open>simp_all add: router_inv_def\<close>)
  moreover have "index_inv ?s" using input_removed by (simp add: router_inv_def index_inv_def)
  ultimately show ?case by (simp only: router_inv_def)
qed (simp_all add: router_inv_bus router_inv_answer)

lemma router_inv_new: "router_inv (new_router inputs sinks)"
  by (simp add: router_inv_def waiting_inv_def to_do_def setup_inv_def index_inv_def new_router_def)

lemma router_inv_reachable: "router_reachable s \<Longrightarrow> router_inv s"
  by (induction rule: router_reachable.induct) (auto intro: router_inv_new router_inv_step)

text \<open>C28: Whatever order containers, sinks, streams and the answers of the sound server come in: when the
  server owes the router no answer, every stream of a container whose session has a sink plays into
  that sink, unless the sink is gone.\<close>

theorem quiet_router_is_right:
  assumes "router_reachable s" and "pa_queue s = []" and "i \<in> set (pa_inputs s)" and "pi_host i = Some host" and "host \<noteq> []"
    and "pr_host_to_session s host = Some session_id" and "session_id \<noteq> []"
    and "pr_session_to_sink_idx s session_id = Some t" and "t \<in> fst ` set (pa_sinks s)"
  shows "pi_sink i = t"
proof (rule ccontr)
  assume "pi_sink i \<noteq> t"
  with assms have "misplaced s i t" by (simp add: misplaced_def target_sink_def)
  with router_inv_reachable [OF assms(1)] assms(2,3) show False by (auto simp: router_inv_def waiting_inv_def to_do_def)
qed


subsection \<open>A stream that is moved\<close>

definition answer_next :: "router \<Rightarrow> router" where
  "answer_next s = (case pa_queue s of [] \<Rightarrow> s | r # rs \<Rightarrow> answer_request r (s\<lparr>pa_queue := rs\<rparr>))"

lemma reachable_answer: "router_reachable s \<Longrightarrow> router_reachable (answer_next s)"
  by (cases "pa_queue s") (auto simp: answer_next_def intro: router_reachable.step router_step.answered)

lemma reachable_answers: "router_reachable s \<Longrightarrow> router_reachable ((answer_next ^^ n) s)"
  by (induction n) (simp_all add: reachable_answer)

definition demo_router :: router where
  "demo_router = router_handler (DockerContainerCreated ''new'' ''app'' ''42'')
     (new_router [\<lparr>pi_index = 5, pi_sink = 1, pi_host = Some ''app''\<rparr>] [(1, ''default''), (2, ''virtual_sink_42'')])"

definition demo_settled :: router where
  "demo_settled = (answer_next ^^ 9) demo_router"

lemma demo_settled_state:
  "pa_queue demo_settled = []" "pa_inputs demo_settled = [\<lparr>pi_index = 5, pi_sink = 2, pi_host = Some ''app''\<rparr>]"
  "pr_host_to_session demo_settled ''app'' = Some ''42''" "pr_session_to_sink_idx demo_settled ''42'' = Some 2"
  "pa_sinks demo_settled = [(1, ''default''), (2, ''virtual_sink_42'')]"
  by code_simp+

theorem quiet_router_is_right_witness:
  "\<exists>i \<in> set (pa_inputs demo_settled). router_reachable demo_settled \<and> pa_queue demo_settled = [] \<and> pi_host i = Some ''app'' \<and> pi_sink i = 2"
proof -
  let ?i = "\<lparr>pi_index = 5, pi_sink = 2, pi_host = Some ''app''\<rparr>"
  have r: "router_reachable demo_settled"
    unfolding demo_settled_def demo_router_def
    by (intro reachable_answers) (rule router_reachable.step [OF router_reachable.start router_step.bus])
  have "pi_sink ?i = 2"
    by (rule quiet_router_is_right [OF r, of ?i "''app''" "''42''"]) (simp_all add: demo_settled_state)
  then show ?thesis using r by (auto simp: demo_settled_state)
qed

end
