(* ===== verification/Wolf.thy ===== *)
theory Wolf
  imports Hardware Lobbies Runners Pulse_Router
begin

section \<open>Start and end of the server: wolf.cpp\<close>

text \<open>
  What the main function does around the components: the folders of the host, the sound server and,
  after a signal, the orderly end. The order in which the parts are started is in Start_Up,
  their work in the other theories. \<open>None\<close> of the whole is an exception.
\<close>

subsection \<open>The host\<close>

text \<open>The constructor of the client asks the daemon for its version.\<close>

definition DockerAPI_new :: "'d docker_env \<Rightarrow> 'd \<Rightarrow> 'd docker_env \<times> 'd" where
  "DockerAPI_new env d = (case get_api_version env d of (version, d') \<Rightarrow> (env\<lparr>dk_version := version\<rparr>, d'))"

definition getenv_or :: "(string \<Rightarrow> string option) \<Rightarrow> string \<Rightarrow> string \<Rightarrow> string" where
  "getenv_or getenv name d = (case getenv name of Some v \<Rightarrow> v | None \<Rightarrow> d)"

definition or_else :: "'a option \<Rightarrow> 'a \<Rightarrow> 'a" where
  "or_else v d = (case v of Some x \<Rightarrow> x | None \<Rightarrow> d)"

text \<open>The host and its folder for sockets; the certificate and its key are in the theory Pairing.\<close>

definition get_host_config :: "'d docker_env \<Rightarrow> (string \<Rightarrow> string option) \<Rightarrow> string list option \<Rightarrow> 'd \<Rightarrow> ((host \<times> string) \<times> 'd) option" where
  "get_host_config env getenv mountinfo d =
     (let local = getenv_or getenv ''HOST_APPS_STATE_FOLDER'' ''/etc/wolf'';
          xdg = getenv_or getenv ''XDG_RUNTIME_DIR'' ''/tmp/sockets''
      in case DockerAPI_new env d of (docker_api, d1) \<Rightarrow>
        map_option (\<lambda>(container, d2).
          (let host_path = (\<lambda>p. case container of None \<Rightarrow> p | Some c \<Rightarrow> or_else (get_host_path_for c p) p)
           in ((\<lparr>h_display_modes = DISPLAY_CONFIGURATIONS, h_internal_ip = getenv ''WOLF_INTERNAL_IP'',
                h_mac_address = getenv ''WOLF_INTERNAL_MAC'', h_host_base_state_folder = host_path local,
                h_local_base_state_folder = local\<rparr>, host_path xdg), d2)))
          (get_current_container docker_api mountinfo d1))"

subsection \<open>The sound server\<close>

datatype sound_server = Running_server | Own_container string Container

definition pulse_container :: "(string \<Rightarrow> string option) \<Rightarrow> string \<Rightarrow> Container" where
  "pulse_container getenv host_runtime_dir = \<lparr>ct_id = [], ct_name = ''WolfPulseAudio'', ct_hostname = [],
     ct_image = getenv_or getenv ''WOLF_PULSE_IMAGE'' ''ghcr.io/games-on-whales/pulseaudio:master'', ct_status = CREATED,
     ct_ports = [], ct_mounts = [\<lparr>mp_source = host_runtime_dir, mp_destination = ''/tmp/pulse/'', mp_mode = ''rw''\<rparr>],
     ct_devices = [], ct_env = [''XDG_RUNTIME_DIR=/tmp/pulse/'', ''UNAME=retro'', ''UID=1000'', ''GID=1000'', ''HOME=/home/retro'']\<rparr>"

text \<open>The options that SELinux needs.\<close>

definition pulse_options :: string where
  "pulse_options =
     (let q = [CHR 0x22]; nl = [CHR 0x0A]
      in ''{'' @ nl @ replicate 18 (CHR '' '') @ q @ ''HostConfig'' @ q @ '' : {'' @ nl @ replicate 20 (CHR '' '') @
         q @ ''SecurityOpt'' @ q @ '' : ['' @ q @ ''label=disable'' @ q @ '']'' @ nl @ replicate 18 (CHR '' '') @ ''}'' @ nl @
         replicate 12 (CHR '' '') @ ''}'')"

text \<open>What an earlier server left is removed.\<close>

definition pulse_cleanup :: "string \<Rightarrow> run_action list" where
  "pulse_cleanup runtime_dir = [Remove_file (runtime_dir @ ''/pulse-socket''), Remove_all (runtime_dir @ ''/pulse'')]"

text \<open>
  \<open>answers\<close> is whether a server answers at once. A wait time that is no number throws. The outer
  \<open>None\<close> is a daemon that keeps \<open>create\<close> for ever.
\<close>

definition setup_audio_server :: "'d docker_env \<Rightarrow> (string \<Rightarrow> string option) \<Rightarrow> bool \<Rightarrow> string \<Rightarrow> string \<Rightarrow> 'd run_state \<Rightarrow>
    (sound_server option call_result \<times> 'd run_state) option" where
  "setup_audio_server env getenv answers host_runtime_dir runtime_dir s =
     (if answers then Some (Returns (Some Running_server), s)
      else case DockerAPI_new env (rn_daemon s) of (docker_api, d1) \<Rightarrow>
        let s1 = note_run (pulse_cleanup runtime_dir) s; at = (\<lambda>d. s1\<lparr>rn_daemon := d\<rparr>)
        in (case create docker_api (pulse_container getenv host_runtime_dir) pulse_options [] True d1 of
           None \<Rightarrow> None
         | Some (Throws, d2) \<Rightarrow> Some (Throws, at d2)
         | Some (Returns None, d2) \<Rightarrow> Some (Returns None, at d2)
         | Some (Returns (Some container), d2) \<Rightarrow>
             (case start_by_id docker_api (ct_id container) d2 of
                (False, d3) \<Rightarrow> Some (Returns None, at d3)
              | (True, d3) \<Rightarrow>
                  (case stoi (getenv_or getenv ''WOLF_PULSE_CONTAINER_TIMEOUT_MS'' ''2000'') of
                     Inl _ \<Rightarrow> Some (Throws, at d3)
                   | Inr _ \<Rightarrow> Some (Returns (Some (Own_container (runtime_dir @ ''/pulse-socket'') container)), at d3)))))"

subsection \<open>The end\<close>

text \<open>
  The two loops walk the list that \<open>load().get()\<close> gave them, the contents of a box that nobody holds any
  more but the atom it was loaded from (in the C++20 of the build the temporary is gone before the
  first step). Looking at an element of it is defined as long as the atom still has that value; after
  a handler has put another there, the list is freed: \<open>None\<close>.
\<close>

fun walk_loaded :: "(hub \<Rightarrow> 'a list) \<Rightarrow> 'a list \<Rightarrow> ('a \<Rightarrow> hub \<Rightarrow> hub option) \<Rightarrow> 'a list \<Rightarrow> hub \<Rightarrow> hub option" where
  "walk_loaded atom loaded body [] h = Some h"
| "walk_loaded atom loaded body (x # xs) h =
     (if atom h = loaded then do { h' \<leftarrow> body x h; walk_loaded atom loaded body xs h' } else None)"

definition stop_lobbies :: "hub_env \<Rightarrow> hub \<Rightarrow> hub option" where
  "stop_lobbies env h =
     walk_loaded hub_lobbies (hub_lobbies h) (\<lambda>lobby. emit4 env (StopLobbyEvent (lb_id lobby) None)) (hub_lobbies h) h"

definition stop_sessions :: "hub_env \<Rightarrow> hub \<Rightarrow> hub option" where
  "stop_sessions env h =
     walk_loaded hub_sessions (hub_sessions h) (\<lambda>session. emit4 env (StopStreamEvent (ss_session_id session))) (hub_sessions h) h"

definition shut_down :: "hub_env \<Rightarrow> hub \<Rightarrow> hub option" where
  "shut_down env h = do { h1 \<leftarrow> stop_lobbies env h; stop_sessions env h1 }"

text \<open>Then it waits, a hundred times 100 ms at most, until the state is empty: how often, for the states
  it sees.\<close>

fun drain :: "nat \<Rightarrow> (bool \<times> bool) list \<Rightarrow> nat" where
  "drain 0 seen = 0"
| "drain (Suc n) [] = 0"
| "drain (Suc n) ((sessions_empty, lobbies_empty) # seen) =
     (if \<not> sessions_empty \<or> \<not> lobbies_empty then Suc (drain n seen) else 0)"

lemma emit4_levels: "emit4 env = fire_event (Suc (Suc (Suc (Suc 0)))) env"
  by (simp add: emit4_def numeral_eq_Suc)

lemma walk_returns_iff:
  assumes "body x h = Some h1" "atom h1 \<noteq> x # xs" "atom h = x # xs"
  shows "walk_loaded atom (atom h) body (atom h) h = (if xs = [] then Some h1 else None)"
  using assms by (cases xs) simp_all

lemma stop_one_lobby:
  assumes "hub_ok h" "hub_lobbies h = l # ls"
  shows "\<exists>h1. emit4 env (StopLobbyEvent (lb_id l) None) h = Some h1 \<and> hub_ok h1 \<and> hub_sessions h1 = hub_sessions h \<and>
    hub_lobbies h1 = filter (\<lambda>lb. lb_id lb \<noteq> lb_id l) ls"
proof -
  obtain h1 where h1: "emit4 env (StopLobbyEvent (lb_id l) None) h = Some h1" "hub_ok h1" "hub_sessions h1 = hub_sessions h"
      "view h1 = spec_stop (lb_id l) (view h)"
    using fire_stop [OF assms(1), of 0 env "lb_id l" None] by (auto simp: emit4_levels)
  have "map fst (view h1) = filter (\<lambda>lb. lb_id lb \<noteq> lb_id l) (map fst (view h))"
    unfolding h1(4) spec_stop_def by (induction "view h" arbitrary: h) (auto simp: filter_map comp_def case_prod_unfold)
  then have "hub_lobbies h1 = filter (\<lambda>lb. lb_id lb \<noteq> lb_id l) (hub_lobbies h)" by (simp add: view_def comp_def)
  with h1 assms(2) show ?thesis by auto
qed

lemma stop_one_session:
  assumes "hub_ok h" "view h = []" "hub_sessions h = s # ss"
  shows "\<exists>h1. emit4 env (StopStreamEvent (ss_session_id s)) h = Some h1 \<and> hub_ok h1 \<and> view h1 = [] \<and>
    running h1 = filter (\<lambda>j. j \<noteq> ss_session_id s) (map ss_session_id ss)"
  using fire_stop_stream [OF assms(1), of 0 env "ss_session_id s"] assms(2,3) by (auto simp: emit4_levels spec_over_def running_def)

lemma stop_lobbies_cases:
  assumes "hub_ok h"
  shows "if length (hub_lobbies h) \<le> 1
    then \<exists>h1. stop_lobbies env h = Some h1 \<and> hub_ok h1 \<and> hub_sessions h1 = hub_sessions h \<and> view h1 = []
    else stop_lobbies env h = None"
proof (cases "hub_lobbies h")
  case Nil
  with assms show ?thesis by (simp add: stop_lobbies_def view_def)
next
  case (Cons l ls)
  obtain h1 where h1: "emit4 env (StopLobbyEvent (lb_id l) None) h = Some h1" "hub_ok h1" "hub_sessions h1 = hub_sessions h"
      "hub_lobbies h1 = filter (\<lambda>lb. lb_id lb \<noteq> lb_id l) ls"
    using stop_one_lobby [OF assms Cons, of env] by blast
  have "hub_lobbies h1 \<noteq> l # ls" using arg_cong [of _ _ length] length_filter_le [of _ ls] h1(4)
    by (metis Suc_n_not_le_n length_Cons)
  from walk_returns_iff [of "\<lambda>lobby. emit4 env (StopLobbyEvent (lb_id lobby) None)", OF h1(1) this Cons]
  have "stop_lobbies env h = (if ls = [] then Some h1 else None)" by (simp add: stop_lobbies_def)
  with h1 Cons show ?thesis by (simp add: view_def)
qed

lemma stop_sessions_cases:
  assumes "hub_ok h" "view h = []"
  shows "if length (hub_sessions h) \<le> 1
    then \<exists>h1. stop_sessions env h = Some h1 \<and> hub_lobbies h1 = [] \<and> hub_sessions h1 = []
    else stop_sessions env h = None"
proof (cases "hub_sessions h")
  case Nil
  with assms show ?thesis by (simp add: stop_sessions_def view_def)
next
  case (Cons s ss)
  obtain h1 where h1: "emit4 env (StopStreamEvent (ss_session_id s)) h = Some h1" "view h1 = []"
      "running h1 = filter (\<lambda>j. j \<noteq> ss_session_id s) (map ss_session_id ss)"
    using stop_one_session [OF assms Cons, of env] by blast
  have "length (hub_sessions h1) \<le> length ss"
    using arg_cong [OF h1(3), of length] length_filter_le [of _ "map ss_session_id ss"] by (simp add: running_def)
  then have "hub_sessions h1 \<noteq> s # ss" by auto
  from walk_returns_iff [of "\<lambda>session. emit4 env (StopStreamEvent (ss_session_id session))", OF h1(1) this Cons]
  have "stop_sessions env h = (if ss = [] then Some h1 else None)" by (simp add: stop_sessions_def)
  with h1(2,3) Cons show ?thesis by (cases ss) (simp_all add: view_def running_def)
qed

text \<open>C16: The orderly end, from every state the server can be in: when there is at most one lobby and at
  most one session, it returns, and after it there is neither, so that the wait that follows ends at
  once. With two lobbies or two sessions it does not: the handler of the first stop replaces the
  list that the loop still walks, and the next element is read from freed memory.\<close>

theorem shut_down_leaves_nothing:
  assumes "hub_reachable env h"
  shows "if length (hub_lobbies h) \<le> 1 \<and> length (hub_sessions h) \<le> 1
    then \<exists>h'. shut_down env h = Some h' \<and> hub_lobbies h' = [] \<and> hub_sessions h' = [] \<and>
      drain 100 [(hub_sessions h' = [], hub_lobbies h' = [])] = 0
    else shut_down env h = None"
proof -
  have ok: "hub_ok h" using reachable_good [OF assms] by (simp add: hub_good_def)
  show ?thesis
  proof (cases "length (hub_lobbies h) \<le> 1")
    case False
    with stop_lobbies_cases [OF ok, of env] show ?thesis by (simp add: shut_down_def)
  next
    case True
    then obtain h1 where h1: "stop_lobbies env h = Some h1" "hub_ok h1" "hub_sessions h1 = hub_sessions h" "view h1 = []"
      using stop_lobbies_cases [OF ok, of env] by auto
    with stop_sessions_cases [OF h1(2,4), of env] True show ?thesis
      by (auto simp: shut_down_def numeral_eq_Suc split: if_splits)
  qed
qed

theorem shut_down_leaves_nothing_witness:
  "\<exists>h h'. running h = [42] \<and> view h = [(new_lobby demo_lobby 0, [])] \<and> shut_down demo_hub_env h = Some h' \<and> hub_sessions h' = []"
proof -
  obtain h where h: "hub_reachable demo_hub_env h" "running h = [42]" "view h = [(new_lobby demo_lobby 0, [])]"
    using demo_reachable [of False] by (auto simp: demo_env_order)
  have "length (hub_lobbies h) \<le> 1" "length (hub_sessions h) \<le> 1"
    using arg_cong [OF h(3), of length] arg_cong [OF h(2), of length] by (simp_all add: view_def running_def)
  with shut_down_leaves_nothing [OF h(1)] h(2,3) show ?thesis by auto
qed

subsection \<open>Runs and the router\<close>

text \<open>A container that has ended is not known to the sound router any more: the messages its run
  sent, handled in order, leave every host name with the session it had before or with none.\<close>

theorem ended_run_is_unrouted:
  assumes "run_docker env host c json call inps s = Some (Returns (True, s'))"
  shows "\<exists>new. fired (rn_trace s') = fired (rn_trace s) @ new \<and>
    (\<forall>h. pr_host_to_session (fold router_handler new r) h = None \<or>
         pr_host_to_session (fold router_handler new r) h = pr_host_to_session r h)"
  using run_docker_fired [OF assms]
  by (auto simp: on_container_created_def on_container_stopped_def Let_def split: option.splits)

theorem ended_run_is_unrouted_witness:
  "\<exists>s' new. run_docker demo_run_docker demo_run_host demo_container ''custom'' demo_call demo_inputs \<lparr>rn_daemon = 0, rn_trace = []\<rparr> =
     Some (Returns (True, s')) \<and> fired (rn_trace s') = new \<and> pr_host_to_session (fold router_handler new (new_router [] [])) ''app'' = None"
proof -
  obtain s' where s': "run_docker demo_run_docker demo_run_host demo_container ''custom'' demo_call demo_inputs
      \<lparr>rn_daemon = 0, rn_trace = []\<rparr> = Some (Returns (True, s'))"
    using demo_docker_run by blast
  from ended_run_is_unrouted [OF s', of "new_router [] []"] s' show ?thesis by (auto simp: new_router_def)
qed

end
