(* ===== verification/Batch_Layout.thy ===== *)
theory Batch_Layout
  imports Udp
begin

section \<open>What a batch hands to the kernel: core batched_send.hpp, platforms/linux/batched_send.cpp\<close>

text \<open>
  The messages that \<open>send_batch\<close> builds for \<open>sendmmsg\<close>: the address, the ancillary data and the bytes
  of each, as Linux lays them out on a 64-bit machine; and the options of the socket. Udp has the
  loop that sends them, over any kind of packet. A read or write outside of a buffer is \<open>None\<close>.
\<close>

subsection \<open>Payloads (batched_send.hpp)\<close>

text \<open>A descriptor is the bytes from its pointer to the end of its region; past all of them it is empty.\<close>

primrec buffer_for_payload_offset :: "bytes list \<Rightarrow> nat \<Rightarrow> bytes" where
  "buffer_for_payload_offset [] offset = []"
| "buffer_for_payload_offset (desc # payload_buffers) offset =
     (if offset < length desc then drop offset desc
      else buffer_for_payload_offset payload_buffers (offset - length desc))"

record batched_send_info =
  bi_payload_buffers :: "bytes list"
  bi_payload_size :: nat
  bi_block_offset :: nat
  bi_block_count :: nat

text \<open>One buffer with blocks of a fixed size, or one packet in each buffer.\<close>

definition block_payload :: "batched_send_info \<Rightarrow> nat \<Rightarrow> bytes option" where
  "block_payload i block_idx =
     (if bi_payload_size i > 0 \<and> length (bi_payload_buffers i) = 1
      then let payload_desc = buffer_for_payload_offset (bi_payload_buffers i) (block_idx * bi_payload_size i)
           in if bi_payload_size i \<le> length payload_desc then Some (take (bi_payload_size i) payload_desc) else None
      else if block_idx < length (bi_payload_buffers i) then Some (bi_payload_buffers i ! block_idx) else None)"

definition batch_payloads :: "batched_send_info \<Rightarrow> bytes list option" where
  "batch_payloads i = those (map (block_payload i) [bi_block_offset i ..< bi_block_offset i + bi_block_count i])"

subsection \<open>Addresses\<close>

datatype address =
    Address_v4 bytes
  | Address_v6 bytes u32

definition is_unspecified :: "address \<Rightarrow> bool" where
  "is_unspecified a = (case a of Address_v4 b \<Rightarrow> list_all ((=) 0) b | Address_v6 b _ \<Rightarrow> list_all ((=) 0) b)"

definition FAM_INET :: u16 where "FAM_INET = 2"
definition FAM_INET6 :: u16 where "FAM_INET6 = 10"

definition htons :: "u16 \<Rightarrow> bytes" where
  "htons port = rev (le16 port)"

definition to_sockaddr_v4 :: "bytes \<Rightarrow> u16 \<Rightarrow> bytes" where
  "to_sockaddr_v4 addr port = le16 FAM_INET @ htons port @ addr @ replicate 8 0"

definition to_sockaddr_v6 :: "bytes \<Rightarrow> u32 \<Rightarrow> u16 \<Rightarrow> bytes" where
  "to_sockaddr_v6 addr scope_id port = le16 FAM_INET6 @ htons port @ replicate 4 0 @ addr @ le32 scope_id"

definition msg_name :: "address \<Rightarrow> u16 \<Rightarrow> bytes" where
  "msg_name target target_port =
     (if is_unspecified target then []
      else case target of
        Address_v4 addr \<Rightarrow> to_sockaddr_v4 addr target_port
      | Address_v6 addr scope_id \<Rightarrow> to_sockaddr_v6 addr scope_id target_port)"

subsection \<open>Ancillary data\<close>

definition CMSG_ALIGN :: "nat \<Rightarrow> nat" where "CMSG_ALIGN len = (len + 7) div 8 * 8"
definition CMSG_LEN :: "nat \<Rightarrow> nat" where "CMSG_LEN len = CMSG_ALIGN 16 + len"
definition CMSG_SPACE :: "nat \<Rightarrow> nat" where "CMSG_SPACE len = CMSG_ALIGN 16 + CMSG_ALIGN len"

definition put_bytes :: "nat \<Rightarrow> bytes \<Rightarrow> bytes \<Rightarrow> bytes option" where
  "put_bytes off data buf =
     (if off + length data \<le> length buf then Some (take off buf @ data @ drop (off + length data) buf) else None)"

text \<open>\<open>in_pktinfo\<close> is the index, the address to send from and a third field; \<open>in6_pktinfo\<close> the address
  and the index.\<close>

definition in_pktinfo :: "bytes \<Rightarrow> bytes" where
  "in_pktinfo addr = le32 0 @ addr @ replicate 4 0"

definition in6_pktinfo :: "bytes \<Rightarrow> bytes" where
  "in6_pktinfo addr = addr @ le32 0"

definition cmsghdr :: "nat \<Rightarrow> u32 \<Rightarrow> u32 \<Rightarrow> bytes" where
  "cmsghdr cmsg_len cmsg_level cmsg_type = le32 (of_nat cmsg_len) @ le32 0 @ le32 cmsg_level @ le32 cmsg_type"

definition cmbuf_size :: nat where
  "cmbuf_size = CMSG_SPACE 12"

definition control_data :: "u32 \<Rightarrow> u32 \<Rightarrow> bytes \<Rightarrow> bytes option" where
  "control_data cmsg_level cmsg_type pktInfo = do {
     cmbuf \<leftarrow> put_bytes 0 (cmsghdr (CMSG_LEN (length pktInfo)) cmsg_level cmsg_type) (replicate cmbuf_size 0);
     cmbuf \<leftarrow> put_bytes (CMSG_ALIGN 16) pktInfo cmbuf;
     let cmbuflen = CMSG_SPACE (length pktInfo);
     if cmbuflen \<le> length cmbuf then Some (take cmbuflen cmbuf) else None }"

definition msg_control :: "address \<Rightarrow> bytes option" where
  "msg_control source =
     (if is_unspecified source then Some []
      else case source of
        Address_v6 addr _ \<Rightarrow> control_data 41 50 (in6_pktinfo addr)
      | Address_v4 addr \<Rightarrow> control_data 0 8 (in_pktinfo addr))"

subsection \<open>The whole batch\<close>

type_synonym message = "bytes \<times> bytes \<times> bytes"

definition send_batch_info ::
    "int \<Rightarrow> address \<Rightarrow> u16 \<Rightarrow> address \<Rightarrow> batched_send_info \<Rightarrow> send_answer list \<Rightarrow>
     (message list \<times> send_status \<times> send_answer list) option" where
  "send_batch_info native_socket target target_port source i as =
     (if native_socket < 0 then Some ([], Failed, as)
      else do {
        control \<leftarrow> msg_control source;
        payloads \<leftarrow> batch_payloads i;
        Some (send_blocks (map (\<lambda>p. (msg_name target target_port, control, p)) payloads) as) })"

subsection \<open>Options of a socket\<close>

datatype socket_option = Non_blocking | Send_buffer nat | Priority nat | Type_of_service nat

definition configure_socket_for_streaming :: "bool \<Rightarrow> socket_option list" where
  "configure_socket_for_streaming is_video =
     [Non_blocking, Send_buffer (2 * 1024 * 1024), Priority (if is_video then 5 else 6)]"

definition enable_socket_qos :: "bool \<Rightarrow> socket_option list" where
  "enable_socket_qos is_video = (let dscp = (if is_video then 40 else 48) in [Type_of_service (push_bit 2 dscp)])"

subsection \<open>The loop does not look at the messages\<close>

definition renamed :: "('p \<Rightarrow> 'q) \<Rightarrow> 'p list \<times> send_status \<times> send_answer list \<Rightarrow> 'q list \<times> send_status \<times> send_answer list" where
  "renamed f r = (map f (fst r), snd r)"

lemma renamed_simps [simp]: "renamed f (sent, r) = (map f sent, r)"
  by (simp add: renamed_def)

lemma send_msgs_map: "send_msgs retries (map f msgs) as = renamed f (send_msgs retries msgs as)"
proof (induction retries msgs as rule: send_msgs.induct)
  case (1 retries msgs as)
  consider "retries \<ge> 10 \<or> msgs = [] \<or> as = []" | a as' where "retries < 10" "msgs \<noteq> []" "as = a # as'"
    by (cases as) force+
  then show ?case
  proof cases
    case 1
    then show ?thesis by (auto simp: send_msgs.simps [of retries])
  next
    case 2
    with 1 show ?thesis
      by (cases a) (simp_all add: send_msgs.simps [of retries] drop_map take_map Let_def split: prod.split)
  qed
qed

lemma send_blocks_map: "send_blocks (map f blocks) as = renamed f (send_blocks blocks as)"
proof (induction blocks as rule: send_blocks.induct)
  case (1 blocks as)
  show ?case
  proof (cases "blocks = []")
    case False
    obtain sent r as' where m: "send_msgs 0 (take MAX_BATCH blocks) as = (sent, r, as')" by (metis prod_cases3)
    with 1 False show ?thesis
      by (cases r) (simp_all add: send_blocks.simps [of blocks] send_blocks.simps [of "map f blocks"] take_map drop_map
          send_msgs_map Let_def split: prod.split)
  qed (simp add: send_blocks.simps)
qed

subsection \<open>Fixed blocks and packets\<close>

definition chunks :: "nat \<Rightarrow> bytes \<Rightarrow> bytes list" where
  "chunks n b = map (\<lambda>i. take n (drop (i * n) b)) [0 ..< length b div n]"

definition packets_of :: "batched_send_info \<Rightarrow> batched_send_info" where
  "packets_of i = i\<lparr>bi_payload_buffers := concat (map (chunks (bi_payload_size i)) (bi_payload_buffers i)), bi_payload_size := 0\<rparr>"

lemma those_all: "(\<And>x. x \<in> set xs \<Longrightarrow> f x = Some (g x)) \<Longrightarrow> those (map f xs) = Some (map g xs)"
  by (induction xs) auto

lemma those_none: "None \<in> set xs \<Longrightarrow> those xs = None"
  by (induction xs) (auto split: option.splits)

lemma fixed_block:
  assumes "bi_payload_buffers i = [b]" "0 < bi_payload_size i" "k < length b div bi_payload_size i"
  shows "block_payload i k = Some (take (bi_payload_size i) (drop (k * bi_payload_size i) b))"
proof -
  let ?n = "bi_payload_size i"
  have "Suc k * ?n \<le> length b div ?n * ?n" using assms(3) by (intro mult_le_mono1) simp
  also have "\<dots> \<le> length b" by simp
  finally have "k * ?n + ?n \<le> length b" by simp
  with assms(1,2) show ?thesis by (auto simp: block_payload_def Let_def)
qed

lemma packet_block:
  assumes "bi_payload_buffers i = [b]" "0 < bi_payload_size i" "k < length b div bi_payload_size i"
  shows "block_payload (packets_of i) k = Some (take (bi_payload_size i) (drop (k * bi_payload_size i) b))"
  using assms by (simp add: block_payload_def packets_of_def chunks_def)

text \<open>One buffer of blocks of a fixed size is sent as its blocks would be, one packet each: the two ways
  to describe a batch agree, for every kernel, socket and address.\<close>

theorem fixed_blocks_are_packets:
  assumes "bi_payload_buffers i = [b]" and "0 < bi_payload_size i"
    and "bi_block_offset i + bi_block_count i \<le> length b div bi_payload_size i"
  shows "send_batch_info sock target port source i as = send_batch_info sock target port source (packets_of i) as"
proof -
  have "those (map (block_payload i) [bi_block_offset i ..< bi_block_offset i + bi_block_count i]) =
      those (map (block_payload (packets_of i)) [bi_block_offset i ..< bi_block_offset i + bi_block_count i])"
    using assms by (intro arg_cong [where f = those] map_cong) (simp_all add: fixed_block packet_block)
  then show ?thesis by (simp add: send_batch_info_def batch_payloads_def packets_of_def)
qed

lemma fixed_blocks_are_packets_witness:
  "let i = \<lparr>bi_payload_buffers = [[1, 2, 3, 4, 5, 6]], bi_payload_size = 2, bi_block_offset = 1, bi_block_count = 2\<rparr>
   in send_batch_info 7 (Address_v4 [10, 0, 0, 2]) 47998 (Address_v4 [0, 0, 0, 0]) i [Took 2] =
      send_batch_info 7 (Address_v4 [10, 0, 0, 2]) 47998 (Address_v4 [0, 0, 0, 0]) (packets_of i) [Took 2]"
  unfolding Let_def by (rule fixed_blocks_are_packets [where b = "[1, 2, 3, 4, 5, 6]"]) simp_all

text \<open>A buffer that is no multiple of the size is read past its end.\<close>

lemma short_last_block:
  assumes "bi_payload_buffers i = [b]" "length b div bi_payload_size i < bi_block_offset i + bi_block_count i"
    "bi_block_offset i \<le> length b div bi_payload_size i" "0 < bi_payload_size i"
  shows "batch_payloads i = None"
proof -
  let ?n = "bi_payload_size i" and ?k = "length b div bi_payload_size i"
  have "length b - ?k * ?n < ?n" using assms(4) by (simp add: minus_div_mult_eq_mod)
  then have "block_payload i ?k = None"
    using assms(1,4) by (auto simp: block_payload_def Let_def)
  moreover have "?k \<in> {bi_block_offset i ..< bi_block_offset i + bi_block_count i}" using assms(2,3) by simp
  ultimately have "None \<in> set (map (block_payload i) [bi_block_offset i ..< bi_block_offset i + bi_block_count i])"
    by (auto simp: image_iff intro!: bexI [of _ ?k])
  then show ?thesis unfolding batch_payloads_def by (rule those_none)
qed

subsection \<open>The packets of a sink\<close>

text \<open>A batch of packets to one address is the batch of Udp: the same packets are sent with the same
  outcome, each with the address and the ancillary data.\<close>

lemma packet_batch:
  assumes "bi_payload_size i = 0" "bi_block_offset i + bi_block_count i \<le> length (bi_payload_buffers i)"
  shows "batch_payloads i = batch_blocks (bi_payload_buffers i) (bi_block_offset i) (bi_block_count i)"
proof -
  let ?r = "[bi_block_offset i ..< bi_block_offset i + bi_block_count i]"
  have "batch_payloads i = Some (map ((!) (bi_payload_buffers i)) ?r)"
    unfolding batch_payloads_def using assms by (intro those_all) (simp add: block_payload_def)
  moreover have "map ((!) (bi_payload_buffers i)) ?r = take (bi_block_count i) (drop (bi_block_offset i) (bi_payload_buffers i))"
    using assms(2) by (intro nth_equalityI) simp_all
  ultimately show ?thesis using assms(2) by (simp add: batch_blocks_def)
qed

theorem batch_refines_udp:
  assumes "0 \<le> sock" and "msg_control source = Some control" and "bi_payload_size i = 0"
    and "bi_block_offset i + bi_block_count i \<le> length (bi_payload_buffers i)"
  shows "send_batch_info sock target port source i as =
    map_option (renamed (\<lambda>p. (msg_name target port, control, p)))
      (send_batch (bi_payload_buffers i) (bi_block_offset i) (bi_block_count i) as)"
  using assms(1,2) packet_batch [OF assms(3,4)]
  by (simp add: send_batch_info_def send_batch_def send_blocks_map batch_blocks_def assms(4))

lemma batch_refines_udp_witness:
  "send_batch_info 7 (Address_v4 [10, 0, 0, 2]) 47998 (Address_v4 [0, 0, 0, 0])
      \<lparr>bi_payload_buffers = [[1], [2, 3], [4]], bi_payload_size = 0, bi_block_offset = 1, bi_block_count = 2\<rparr> [Took 2] =
    map_option (renamed (\<lambda>p. (msg_name (Address_v4 [10, 0, 0, 2]) 47998, [], p))) (send_batch [[1], [2, 3], [4]] 1 2 [Took 2])"
  using batch_refines_udp [of 7 "Address_v4 [0, 0, 0, 0]" "[]"
    "\<lparr>bi_payload_buffers = [[1], [2, 3], [4]], bi_payload_size = 0, bi_block_offset = 1, bi_block_count = 2\<rparr>"]
  by (simp add: msg_control_def is_unspecified_def)

subsection \<open>Sizes\<close>

lemma sockaddr_sizes:
  "length addr = 4 \<Longrightarrow> length (to_sockaddr_v4 addr port) = 16"
  "length addr6 = 16 \<Longrightarrow> length (to_sockaddr_v6 addr6 scope_id port) = 28"
  by (simp_all add: to_sockaddr_v4_def to_sockaddr_v6_def htons_def)

lemma sizes: "CMSG_ALIGN 16 = 16" "CMSG_ALIGN 12 = 16" "CMSG_ALIGN 20 = 24" "cmbuf_size = 32"
  by (simp_all add: CMSG_ALIGN_def cmbuf_size_def CMSG_SPACE_def)

text \<open>A source address of version 4 fits the buffer. The buffer is not larger for one of version 6, whose
  information is written over its end.\<close>

lemma v4_source_fits: "length addr = 4 \<Longrightarrow> \<exists>c. msg_control (Address_v4 addr) = Some c \<and> length c \<in> {0, 32}"
  by (auto simp: msg_control_def control_data_def put_bytes_def cmsghdr_def in_pktinfo_def sizes CMSG_SPACE_def)

lemma v6_source_overflows:
  "\<lbrakk>length addr = 16; \<not> is_unspecified (Address_v6 addr scope_id)\<rbrakk> \<Longrightarrow> msg_control (Address_v6 addr scope_id) = None"
  by (simp add: msg_control_def control_data_def put_bytes_def cmsghdr_def in6_pktinfo_def sizes)

end
