(* ===== verification/Start_Up.thy ===== *)
theory Start_Up
  imports Wolf Batch_Layout
begin

section \<open>Start-up, pipelines and crashes: wolf.cpp, streaming.hpp, rswrapper.c, exceptions.h\<close>

text \<open>
  The code around the components: the order in which \<open>run\<close> starts them, what the signals do, the
  life of one GStreamer pipeline, the variant of the Reed-Solomon code for a processor, and the file
  that a crash leaves for the next start. Calls of libraries are entries of a trace.
\<close>

subsection \<open>The order of the start (wolf.cpp)\<close>

datatype start_step =
    Init_gstreamer
  | Init_enet
  | Init_curl
  | Init_video_context
  | Load_state string string string
  | Http_thread
  | Https_thread string string
  | Rtsp_thread
  | Control_thread
  | Ping_sockets "num_error + int" "num_error + int"
  | Api_thread string
  | Mdns_thread
  | Audio_server string
  | Router_handlers
  | Moonlight_handlers
  | Lobby_handlers
  | Wait_for_signal

text \<open>How \<open>run\<close> goes on: it waits for a signal, an exception leaves it, or it reads the optional sound
  server that is not there.\<close>

datatype start_outcome = Parked | Thrown | Empty_optional

definition start_threads :: "(string \<Rightarrow> string option) \<Rightarrow> start_step list" where
  "start_threads getenv =
     [Http_thread,
      Https_thread (getenv_or getenv ''WOLF_PRIVATE_CERT_FILE'' ''cert.pem'') (getenv_or getenv ''WOLF_PRIVATE_KEY_FILE'' ''key.pem''),
      Rtsp_thread, Control_thread]"

definition start_services :: "(string \<Rightarrow> string option) \<Rightarrow> start_step list" where
  "start_services getenv = [Api_thread (getenv_or getenv ''XDG_RUNTIME_DIR'' ''/tmp/sockets''), Mdns_thread]"

text \<open>\<open>loads\<close> is whether \<open>initialize\<close> returns, \<open>audio\<close> what \<open>setup_audio_server\<close> returned. The ports of the
  threads are read in the threads, those of the pings here: a number that is none throws.\<close>

definition run_start ::
    "(string \<Rightarrow> string option) \<Rightarrow> bool \<Rightarrow> sound_server option call_result \<Rightarrow> start_step list \<times> start_outcome" where
  "run_start getenv loads audio =
     (let runtime_dir = getenv_or getenv ''XDG_RUNTIME_DIR'' ''/tmp/sockets'';
          load = Load_state (getenv_or getenv ''WOLF_CFG_FILE'' ''config.toml'')
            (getenv_or getenv ''WOLF_PRIVATE_KEY_FILE'' ''key.pem'') (getenv_or getenv ''WOLF_PRIVATE_CERT_FILE'' ''cert.pem'');
          s1 = [Init_gstreamer, Init_enet, Init_curl, Init_video_context, load]
      in if \<not> loads then (s1, Thrown) else
         let s2 = s1 @ start_threads getenv; video = get_port getenv VIDEO_PING_PORT; audio_port = get_port getenv AUDIO_PING_PORT
         in if isl video \<or> isl audio_port then (s2, Thrown) else
            let s3 = s2 @ [Ping_sockets video audio_port] @ start_services getenv @ [Audio_server runtime_dir]
            in case audio of
                 Throws \<Rightarrow> (s3, Thrown)
               | Returns None \<Rightarrow> (s3, Empty_optional)
               | Returns (Some _) \<Rightarrow> (s3 @ [Router_handlers, Moonlight_handlers, Lobby_handlers, Wait_for_signal], Parked))"

subsection \<open>Signals and exceptions (wolf.cpp, exceptions.h)\<close>

datatype signal = SIGINT | SIGTERM | SIGQUIT | SIGSEGV | SIGABRT

fun signum :: "signal \<Rightarrow> int" where
  "signum SIGINT = 2"
| "signum SIGTERM = 15"
| "signum SIGQUIT = 3"
| "signum SIGSEGV = 11"
| "signum SIGABRT = 6"

datatype reaction = Request_shutdown | Exit_with "string option" int

definition backtrace_file_src :: "(string \<Rightarrow> string option) \<Rightarrow> string" where
  "backtrace_file_src getenv = getenv_or getenv ''WOLF_CFG_FOLDER'' ''.'' @ ''/backtrace.dump''"

definition shutdown_handler :: "(string \<Rightarrow> string option) \<Rightarrow> signal \<Rightarrow> reaction" where
  "shutdown_handler getenv s =
     Exit_with (if s = SIGABRT \<or> s = SIGSEGV then Some (backtrace_file_src getenv) else None) (signum s)"

definition on_signal :: "(string \<Rightarrow> string option) \<Rightarrow> signal \<Rightarrow> reaction" where
  "on_signal getenv s = (if s \<in> {SIGINT, SIGTERM} then Request_shutdown else shutdown_handler getenv s)"

definition on_terminate :: "(string \<Rightarrow> string option) \<Rightarrow> reaction" where
  "on_terminate getenv = shutdown_handler getenv SIGABRT"

subsection \<open>The file of a crash (exceptions.h)\<close>

text \<open>The number of frames, eight bytes, and the frames, each of the size of \<open>safe_object_frame\<close>. The file is
  not truncated when it is opened.\<close>

definition le64 :: "u64 \<Rightarrow> bytes" where
  "le64 w = le32 (ucast w) @ le32 (ucast (drop_bit 32 w))"

definition get64 :: "bytes \<Rightarrow> u64" where
  "get64 b = ucast (get32 (b ! 0) (b ! 1) (b ! 2) (b ! 3)) OR push_bit 32 (ucast (get32 (b ! 4) (b ! 5) (b ! 6) (b ! 7)))"

definition MAX_FRAMES :: nat where
  "MAX_FRAMES = 100"

definition overwrite :: "bytes \<Rightarrow> bytes \<Rightarrow> bytes" where
  "overwrite data old = data @ drop (length data) old"

definition safe_dump_stacktrace_to :: "bytes list \<Rightarrow> bool \<Rightarrow> bytes option \<Rightarrow> bytes option" where
  "safe_dump_stacktrace_to frames opens old =
     (let buffer = take MAX_FRAMES frames
      in if buffer = [] \<or> \<not> opens then old
         else Some (overwrite (le64 (of_nat (length buffer)) @ concat buffer) (case old of Some b \<Rightarrow> b | None \<Rightarrow> [])))"

text \<open>Reading: a frame that the file no longer has is what it was initialised to; one that cannot be
  resolved is skipped. A file of fewer than eight bytes leaves (a part of) the number unset: \<open>None\<close>.\<close>

fun read_frames :: "nat \<Rightarrow> bytes \<Rightarrow> nat \<Rightarrow> bytes \<Rightarrow> bytes list" where
  "read_frames frame_size blank_frame 0 b = []"
| "read_frames frame_size blank_frame (Suc n) b =
     overwrite (take frame_size b) blank_frame # read_frames frame_size blank_frame n (drop frame_size b)"

definition load_stacktrace_from :: "nat \<Rightarrow> bytes \<Rightarrow> (bytes \<Rightarrow> 'f option) \<Rightarrow> bytes \<Rightarrow> 'f list option" where
  "load_stacktrace_from frame_size blank_frame resolve b =
     (if length b < 8 then None
      else Some (List.map_filter resolve (read_frames frame_size blank_frame (unat (get64 (take 8 b))) (drop 8 b))))"

text \<open>At the start: the trace is printed and the file gets a name of its own, after the time.\<close>

definition check_exceptions ::
    "(string \<Rightarrow> string option) \<Rightarrow> string \<Rightarrow> nat \<Rightarrow> bytes \<Rightarrow> (bytes \<Rightarrow> 'f option) \<Rightarrow> (string \<Rightarrow> bytes option) \<Rightarrow>
     ('f list \<times> (string \<Rightarrow> bytes option)) option" where
  "check_exceptions getenv now frame_size blank_frame resolve files =
     (let stack_file = backtrace_file_src getenv
      in case files stack_file of
           None \<Rightarrow> Some ([], files)
         | Some b \<Rightarrow>
             map_option (\<lambda>trace.
               (trace, (files(stack_file := None))
                  (getenv_or getenv ''WOLF_CFG_FOLDER'' ''.'' @ ''/backtrace.'' @ now @ ''.dump'' \<mapsto> b)))
               (load_stacktrace_from frame_size blank_frame resolve b))"

lemma get64_le64: "get64 (le64 w) = w"
proof -
  have "get64 (le64 w) = ucast (ucast w :: u32) OR push_bit 32 (ucast (ucast (drop_bit 32 w) :: u32))"
    by (simp add: get64_def le64_def le32_def get32_le32 [unfolded le32_def])
  also have "\<dots> = w"
    by (rule bit_word_eqI) (auto simp: bit_simps)
  finally show ?thesis .
qed

lemma length_le64 [simp]: "length (le64 w) = 8"
  by (simp add: le64_def)

lemma read_frames_concat:
  assumes "length blank_frame = n"
  shows "\<forall>f\<in>set fs. length f = n \<Longrightarrow> read_frames n blank_frame (length fs) (concat fs @ rest) = fs"
  using assms by (induction fs) (auto simp: overwrite_def)

text \<open>What a crash leaves, the next start reports: the frames that can still be resolved, at most a
  hundred, whatever an older crash had left in the file, and the file is moved aside.\<close>

theorem crash_is_reported:
  assumes "frames \<noteq> []" and "\<forall>f\<in>set frames. length f = n" and "length blank_frame = n"
    and "safe_dump_stacktrace_to frames True (files (backtrace_file_src getenv)) = Some dump"
  shows "check_exceptions getenv now n blank_frame resolve (files(backtrace_file_src getenv := Some dump)) =
    Some (List.map_filter resolve (take MAX_FRAMES frames),
      (files(backtrace_file_src getenv := None))
        (getenv_or getenv ''WOLF_CFG_FOLDER'' ''.'' @ ''/backtrace.'' @ now @ ''.dump'' \<mapsto> dump))"
proof -
  let ?b = "take MAX_FRAMES frames"
  have b: "?b \<noteq> []" "length ?b \<le> 100" using assms(1) by (simp_all add: MAX_FRAMES_def)
  obtain rest where d: "dump = le64 (of_nat (length ?b)) @ concat ?b @ rest"
    using assms(4) b(1) by (auto simp: safe_dump_stacktrace_to_def overwrite_def Let_def split: if_splits)
  have count: "unat (get64 (take 8 dump)) = length ?b"
    using b(2) by (simp add: d get64_le64 unat_of_nat take_bit_nat_eq_self)
  have "\<forall>f\<in>set ?b. length f = n" using assms(2) by (auto dest: in_set_takeD)
  then have "read_frames n blank_frame (length ?b) (drop 8 dump) = ?b"
    using read_frames_concat [OF assms(3), of ?b rest] by (simp add: d)
  moreover have "8 \<le> length dump" by (simp add: d)
  ultimately show ?thesis
    using count by (simp add: check_exceptions_def load_stacktrace_from_def Let_def)
qed

lemma crash_is_reported_witness:
  "check_exceptions (\<lambda>_. None) ''2025'' 2 [0, 0] (\<lambda>f. Some (hd f))
      (Map.empty(backtrace_file_src (\<lambda>_. None) := Some (le64 2 @ [7, 1, 8, 1, 9, 1]))) =
    Some (List.map_filter (\<lambda>f. Some (hd f)) (take MAX_FRAMES [[7, 1], [8, 1]]),
      (Map.empty(backtrace_file_src (\<lambda>_. None) := None))
        (getenv_or (\<lambda>_. None) ''WOLF_CFG_FOLDER'' ''.'' @ ''/backtrace.'' @ ''2025'' @ ''.dump'' \<mapsto>
           le64 2 @ [7, 1, 8, 1, 9, 1]))"
proof -
  have "safe_dump_stacktrace_to [[7, 1], [8, 1]] True (Some (le64 3 @ [4, 1, 5, 1, 9, 1])) = Some (le64 2 @ [7, 1, 8, 1, 9, 1])"
    by (simp add: safe_dump_stacktrace_to_def overwrite_def MAX_FRAMES_def)
  with crash_is_reported [of "[[7, 1], [8, 1]]" 2 "[0, 0]"
      "[backtrace_file_src (\<lambda>_. None) \<mapsto> le64 3 @ [4, 1, 5, 1, 9, 1]]" "\<lambda>_. None" "le64 2 @ [7, 1, 8, 1, 9, 1]" "''2025''" "\<lambda>f. Some (hd f)"]
  show ?thesis by simp
qed

subsection \<open>What the order of the start means\<close>

text \<open>The servers answer before anything listens to the bus: while the sound server is being set up, which
  may pull an image, a launch finds no handler.\<close>

lemma requests_before_handlers:
  assumes "run_start getenv loads audio = (steps, r)" "Moonlight_handlers \<in> set steps"
  shows "\<exists>before after. steps = before @ Moonlight_handlers # after \<and> set (start_threads getenv) \<subseteq> set before \<and>
    set (start_services getenv) \<subseteq> set before"
proof -
  obtain s3 where "steps = (s3 @ [Router_handlers]) @ Moonlight_handlers # [Lobby_handlers, Wait_for_signal]"
    "set (start_threads getenv) \<subseteq> set s3" "set (start_services getenv) \<subseteq> set s3"
    using assms by (auto simp: run_start_def start_threads_def start_services_def Let_def
        split: if_splits call_result.splits option.splits)
  then show ?thesis
    by (intro exI [of _ "s3 @ [Router_handlers]"] exI [of _ "[Lobby_handlers, Wait_for_signal]"]) auto
qed

text \<open>Without a sound server, which \<open>setup_audio_server\<close> announces as a possible result, the optional is
  read all the same.\<close>

lemma no_sound_server:
  assumes "loads" "\<not> isl (get_port getenv VIDEO_PING_PORT)" "\<not> isl (get_port getenv AUDIO_PING_PORT)"
  shows "snd (run_start getenv loads (Returns None)) = Empty_optional"
  using assms by (simp add: run_start_def Let_def)

subsection \<open>The life of a pipeline (streaming.hpp, core/gstreamer.hpp)\<close>

datatype gst_state = GST_NULL | GST_READY | GST_PAUSED | GST_PLAYING

datatype gst_action =
    Parse_error string
  | Push_context
  | Pipeline_ready
  | Watch_bus
  | Set_state gst_state
  | Log_error string
  | Quit_loop

datatype gst_message = Gst_error string | Gst_eos | Gst_other

definition pipeline_error_handler :: "string \<Rightarrow> gst_action list" where
  "pipeline_error_handler err = [Log_error err, Quit_loop]"

definition pipeline_eos_handler :: "gst_action list" where
  "pipeline_eos_handler = [Quit_loop]"

definition on_message :: "gst_message \<Rightarrow> gst_action list" where
  "on_message m = (case m of Gst_error err \<Rightarrow> pipeline_error_handler err | Gst_eos \<Rightarrow> pipeline_eos_handler | Gst_other \<Rightarrow> [])"

text \<open>The loop runs until a handler quits it; \<open>False\<close> is a loop that still runs after all messages.\<close>

fun main_loop :: "gst_message list \<Rightarrow> gst_action list \<times> bool" where
  "main_loop [] = ([], False)"
| "main_loop (m # ms) =
     (if Quit_loop \<in> set (on_message m) then (on_message m, True)
      else (let (as, r) = main_loop ms in (on_message m @ as, r)))"

text \<open>\<open>gst_parse_launch\<close> may give a pipeline, an error, or both. The result is \<open>None\<close> as long as the
  function has not returned.\<close>

definition run_pipeline :: "bool \<Rightarrow> string option \<Rightarrow> gst_message list \<Rightarrow> gst_action list \<times> bool option" where
  "run_pipeline pipeline error messages =
     (let parse = (case error of Some e \<Rightarrow> [Parse_error e] | None \<Rightarrow> [])
      in if \<not> pipeline then (parse, Some False)
         else let start = parse @ [Push_context, Pipeline_ready, Watch_bus, Set_state GST_PLAYING]
              in case main_loop messages of
                   (as, False) \<Rightarrow> (start @ as, None)
                 | (as, True) \<Rightarrow> (start @ as @ [Set_state GST_PAUSED, Set_state GST_READY, Set_state GST_NULL], Some True))"

lemma main_loop_quits: "snd (main_loop ms) \<longleftrightarrow> (\<exists>m\<in>set ms. m \<noteq> Gst_other)"
  by (induction ms) (auto simp: on_message_def pipeline_error_handler_def pipeline_eos_handler_def split: gst_message.splits prod.splits)

lemma main_loop_states: "Set_state st \<notin> set (fst (main_loop ms))"
  by (induction ms) (auto simp: on_message_def pipeline_error_handler_def pipeline_eos_handler_def split: gst_message.splits prod.splits)

definition states :: "gst_action list \<Rightarrow> gst_state list" where
  "states as = List.map_filter (\<lambda>a. case a of Set_state st \<Rightarrow> Some st | _ \<Rightarrow> None) as"

lemma states_append [simp]: "states (as @ bs) = states as @ states bs"
  by (simp add: states_def map_filter_def)

lemma states_loop [simp]: "states (fst (main_loop ms)) = []"
  using main_loop_states [of _ ms]
  by (auto simp: states_def map_filter_def filter_empty_conv split: gst_action.splits)

text \<open>A pipeline returns with the first error or end of its stream, and not before; then it has gone from
  playing through every state down to the null state. A description that gives no pipeline returns at
  once, and its handlers are never asked for.\<close>

theorem pipeline_life:
  "snd (run_pipeline pipeline error ms) =
     (if \<not> pipeline then Some False else if \<exists>m\<in>set ms. m \<noteq> Gst_other then Some True else None)"
  "states (fst (run_pipeline pipeline error ms)) =
     (if \<not> pipeline then []
      else GST_PLAYING # (if \<exists>m\<in>set ms. m \<noteq> Gst_other then [GST_PAUSED, GST_READY, GST_NULL] else []))"
  "Pipeline_ready \<in> set (fst (run_pipeline pipeline error ms)) \<longleftrightarrow> pipeline"
proof -
  obtain as r where m: "main_loop ms = (as, r)" by (cases "main_loop ms")
  have r: "r \<longleftrightarrow> (\<exists>m\<in>set ms. m \<noteq> Gst_other)" using main_loop_quits [of ms] m by simp
  have as: "states as = []" using states_loop [of ms] m by simp
  show "snd (run_pipeline pipeline error ms) =
     (if \<not> pipeline then Some False else if \<exists>m\<in>set ms. m \<noteq> Gst_other then Some True else None)"
    unfolding r [symmetric] by (cases r) (simp_all add: run_pipeline_def m Let_def)
  have e: "states (case error of Some e \<Rightarrow> [Parse_error e] | None \<Rightarrow> []) = []"
    by (simp add: states_def map_filter_def split: option.split)
  show "states (fst (run_pipeline pipeline error ms)) =
     (if \<not> pipeline then []
      else GST_PLAYING # (if \<exists>m\<in>set ms. m \<noteq> Gst_other then [GST_PAUSED, GST_READY, GST_NULL] else []))"
    unfolding r [symmetric] using e as
    by (cases r) (simp_all add: run_pipeline_def m Let_def, simp_all add: states_def map_filter_def)
  show "Pipeline_ready \<in> set (fst (run_pipeline pipeline error ms)) \<longleftrightarrow> pipeline"
    by (cases r) (auto simp: run_pipeline_def m Let_def split: option.splits)
qed

subsection \<open>The Reed-Solomon code of a processor (rswrapper.c)\<close>

datatype isa = AVX512 | AVX2 | SSSE3 | DEFAULT_ISA

record rs_functions =
  reed_solomon_new_fn :: isa
  reed_solomon_release_fn :: isa
  reed_solomon_encode_fn :: isa
  reed_solomon_decode_fn :: isa

definition all_of :: "isa \<Rightarrow> rs_functions" where
  "all_of i = \<lparr>reed_solomon_new_fn = i, reed_solomon_release_fn = i, reed_solomon_encode_fn = i, reed_solomon_decode_fn = i\<rparr>"

text \<open>The functions and which variant initialises its tables.\<close>

definition reed_solomon_init :: "bool \<Rightarrow> (string \<Rightarrow> bool) \<Rightarrow> rs_functions \<times> isa" where
  "reed_solomon_init x86 supports =
     (if x86 \<and> supports ''avx512f'' \<and> supports ''avx512bw'' then (all_of AVX512, AVX512)
      else if x86 \<and> supports ''avx2'' then (all_of AVX2, AVX2)
      else if x86 \<and> supports ''ssse3'' then (all_of SSSE3, SSSE3)
      else (all_of DEFAULT_ISA, DEFAULT_ISA))"

fun runs_on :: "bool \<Rightarrow> (string \<Rightarrow> bool) \<Rightarrow> isa \<Rightarrow> bool" where
  "runs_on x86 supports AVX512 \<longleftrightarrow> x86 \<and> supports ''avx512f'' \<and> supports ''avx512bw''"
| "runs_on x86 supports AVX2 \<longleftrightarrow> x86 \<and> supports ''avx2''"
| "runs_on x86 supports SSSE3 \<longleftrightarrow> x86 \<and> supports ''ssse3''"
| "runs_on x86 supports DEFAULT_ISA \<longleftrightarrow> True"

text \<open>All functions are of the variant whose tables are initialised, and the processor runs it.\<close>

lemma one_variant: "\<exists>i. reed_solomon_init x86 supports = (all_of i, i) \<and> runs_on x86 supports i"
  by (auto simp: reed_solomon_init_def)

subsection \<open>Addresses of peers (control.cpp)\<close>

text \<open>The port of a \<open>sockaddr\<close> of either family is taken as it is stored.\<close>

definition sockaddr_port :: "bytes \<Rightarrow> u16 option" where
  "sockaddr_port b =
     (let family = get16 (b ! 0) (b ! 1) in if family = FAM_INET \<or> family = FAM_INET6 then Some (get16 (b ! 2) (b ! 3)) else None)"

lemma port_is_swapped: "sockaddr_port (to_sockaddr_v4 addr port) = Some (swap16 port)"
  by (simp add: sockaddr_port_def to_sockaddr_v4_def htons_def le16_def swap16_def Let_def)

end
