(* ===== verification/Fake_Udev.thy ===== *)
theory Fake_Udev
  imports Runners
begin

section \<open>The program that announces devices inside a container: fake-udev\<close>

text \<open>
  The small program that the runner starts inside a container for every device that is plugged or
  unplugged (src/fake-udev): it decodes the properties of the device from its argument and sends them
  over a netlink socket as a message of udev. \<open>base64_decode\<close> is the inverse of the encoder of
  the server in the theory Helpers, MurmurHash2 fills the two hashes of the header, \<open>InputParser\<close>
  reads the arguments and \<open>fake_udev_main\<close> is the main function. The calls of the socket are
  actions, what the kernel answers is the record \<open>netlink_env\<close>. What the program prints is left
  out. Memory is little-endian, as on the machines the server is built for.
\<close>

subsection \<open>Base64\<close>

definition decode_alphabet :: string where
  "decode_alphabet = ''ABCDEFGHIJKLMNOPQRSTUVWXYZabcdefghijklmnopqrstuvwxyz0123456789+/''"

text \<open>The vector \<open>T\<close>: the value of each byte, -1 for a byte that is not in the alphabet.\<close>

definition decode_index :: "int list" where
  "decode_index = fold (\<lambda>i T. T[of_char (decode_alphabet ! i) := int i]) [0..<64] (replicate 256 (- 1))"

text \<open>As in the encoder, \<open>val\<close> is shifted left without being cleared.\<close>

fun decode_loop :: "bytes \<Rightarrow> u32 \<Rightarrow> int \<Rightarrow> string \<Rightarrow> string" where
  "decode_loop [] val valb out = out"
| "decode_loop (c # cs) val valb out =
     (if decode_index ! unat c = - 1 then out
      else let val' = push_bit 6 val + of_int (decode_index ! unat c); valb' = valb + 6
           in if valb' \<ge> 0
              then decode_loop cs val' (valb' - 8)
                     (out @ [char_of_byte (ucast (signed_drop_bit (nat valb') val' AND 0xFF))])
              else decode_loop cs val' valb' out)"

definition base64_decode :: "string \<Rightarrow> string" where
  "base64_decode s = decode_loop (str_bytes s) 0 (- 8) []"

subsection \<open>Decoding what the server encodes\<close>

lemma decode_alphabet_table: "decode_alphabet = b64_table"
  by (simp add: decode_alphabet_def b64_table_def)

lemma fill_other:
  "k \<notin> f ` set is \<Longrightarrow> fold (\<lambda>i T. T[f i := int i]) is T ! k = T ! k"
  by (induction "is" arbitrary: T) auto

lemma fill_index:
  assumes "distinct (map f is)" "\<forall>i \<in> set is. f i < length T" "i \<in> set is"
  shows "fold (\<lambda>i T. T[f i := int i]) is T ! f i = int i"
  using assms
proof (induction "is" arbitrary: T)
  case (Cons j js)
  show ?case
  proof (cases "i \<in> set js")
    case True
    then show ?thesis using Cons.IH [of "T[f j := int j]"] Cons.prems by simp
  next
    case False
    then have "i = j" "f j \<notin> f ` set js" using Cons.prems by auto
    then show ?thesis using Cons.prems fill_other [of "f j" f js] by simp
  qed
qed simp

lemma alphabet_distinct: "distinct (map (\<lambda>i. of_char (decode_alphabet ! i) :: nat) [0..<64])"
proof -
  have "length decode_alphabet = 64" by (simp add: decode_alphabet_def)
  then have "map (\<lambda>i. of_char (decode_alphabet ! i) :: nat) [0..<64] = map of_char decode_alphabet"
    by (intro nth_equalityI) simp_all
  moreover have "distinct decode_alphabet" by (simp add: decode_alphabet_def)
  ultimately show ?thesis by (simp add: distinct_map inj_on_def)
qed

lemma of_char_256: "(of_char c :: nat) < 256"
  using nat_of_char_less_256 by simp

lemma index_of_symbol [simp]: "decode_index ! of_char (b64_sym n) = int (n mod 64)"
  using fill_index [OF alphabet_distinct, of "replicate 256 (- 1)" "n mod 64"]
  by (simp add: decode_index_def b64_sym_def decode_alphabet_table of_char_256)

lemma not_in_alphabet:
  "c \<notin> set decode_alphabet \<Longrightarrow> decode_index ! of_char c = - 1"
proof -
  assume c: "c \<notin> set decode_alphabet"
  have "length decode_alphabet = 64" by (simp add: decode_alphabet_def)
  then have "(of_char c :: nat) \<notin> (\<lambda>i. of_char (decode_alphabet ! i)) ` set [0..<64]"
    using c by (auto simp: in_set_conv_nth)
  then show ?thesis by (simp add: decode_index_def fill_other of_char_256)
qed

lemma padding_index: "decode_index ! of_char (CHR ''='') = - 1"
  by (rule not_in_alphabet) (simp add: decode_alphabet_def)

lemma decode_byte:
  assumes "k \<le> 24" and n: "unat w = n mod 2 ^ 32"
  shows "char_of_byte (ucast (signed_drop_bit k (w :: u32) AND 0xFF)) = char_of (n div 2 ^ k mod 256)"
proof -
  have "signed_drop_bit k w AND 0xFF = take_bit 8 (drop_bit k w)"
  proof -
    have m: "(0xFF :: u32) = mask 8" by (simp add: mask_eq_exp_minus_1)
    show ?thesis
      unfolding m using \<open>k \<le> 24\<close> by (intro bit_word_eqI) (auto simp: bit_simps)
  qed
  moreover have "unat (take_bit 8 (drop_bit k w)) = take_bit 8 (drop_bit k (take_bit 32 n))"
  proof -
    have "unat w = take_bit 32 n" using n by (simp add: take_bit_eq_mod)
    moreover have "unat (take_bit 8 (drop_bit k w)) = take_bit 8 (drop_bit k (unat w))"
      using \<open>k \<le> 24\<close> by (simp add: unsigned_take_bit_eq unsigned_drop_bit_eq drop_bit_take_bit min_absorb1)
    ultimately show ?thesis by metis
  qed
  moreover have "take_bit 8 (drop_bit k (take_bit 32 n)) = (n div 2 ^ k) mod 256"
    using \<open>k \<le> 24\<close> by (simp add: drop_bit_take_bit) (simp add: take_bit_eq_mod drop_bit_eq_div)
  ultimately have "unat (signed_drop_bit k w AND 0xFF) = (n div 2 ^ k) mod 256" by simp
  then show ?thesis
    by (simp add: char_of_byte_def unsigned_ucast_eq take_bit_eq_mod)
qed

definition join6 :: "u32 \<Rightarrow> nat \<Rightarrow> u32" where
  "join6 w m = push_bit 6 w + of_nat (m mod 64)"

lemma join6_value:
  "unat w = n mod 2 ^ 32 \<Longrightarrow> unat (join6 w m) = (n * 64 + m mod 64) mod 2 ^ 32"
  by (simp add: join6_def unat_word_ariths push_bit_eq_mult unat_of_nat mod_simps mult.commute)

lemma decode_symbol:
  "decode_loop (byte_of (b64_sym m) # cs) w valb out =
     (if valb + 6 \<ge> 0
      then decode_loop cs (join6 w m) (valb - 2)
             (out @ [char_of_byte (ucast (signed_drop_bit (nat (valb + 6)) (join6 w m) AND 0xFF))])
      else decode_loop cs (join6 w m) (valb + 6) out)"
  by (simp add: byte_of_def unat_of_nat Let_def join6_def)

lemma decode_padding: "decode_loop (byte_of (CHR ''='') # cs) w valb out = out"
  using padding_index by (simp add: byte_of_def unat_of_nat)

declare decode_loop.simps(2) [simp del]

text \<open>The bytes that come back: the sextets of a group put together again.\<close>

lemma sextets_joined:
  assumes "a < 256" "b < 256" "(c :: nat) < 256"
  shows "((n * 64 + a div 4 mod 64) * 64 + (a * 16 + b div 16) mod 64) div 2 ^ 4 mod 256 = a"
    and "(((n * 64 + a div 4 mod 64) * 64 + (a * 16 + b div 16) mod 64) * 64 + (b * 4 + c div 64) mod 64) div 2 ^ 2 mod 256 = b"
    and "((((n * 64 + a div 4 mod 64) * 64 + (a * 16 + b div 16) mod 64) * 64 + (b * 4 + c div 64) mod 64) * 64
          + c mod 64) div 2 ^ 0 mod 256 = c"
proof -
  obtain a1 a0 where a: "a = a1 * 4 + a0" "a0 < 4" "a1 < 64"
    using assms(1) by (intro that [of "a div 4" "a mod 4"]) auto
  obtain b1 b0 where b: "b = b1 * 16 + b0" "b0 < 16" "b1 < 16"
    using assms(2) by (intro that [of "b div 16" "b mod 16"]) auto
  obtain c1 c0 where c: "c = c1 * 64 + c0" "c0 < 64" "c1 < 4"
    using assms(3) by (intro that [of "c div 64" "c mod 64"]) auto
  have s: "a div 4 mod 64 = a1" "(a * 16 + b div 16) mod 64 = a0 * 16 + b1"
    "(b * 4 + c div 64) mod 64 = b0 * 4 + c1" "c mod 64 = c0"
  proof -
    have "a * 16 + b div 16 = (a0 * 16 + b1) + 64 * a1" "b * 4 + c div 64 = (b0 * 4 + c1) + 64 * b1"
      using a b c by simp_all
    then show "(a * 16 + b div 16) mod 64 = a0 * 16 + b1" "(b * 4 + c div 64) mod 64 = b0 * 4 + c1"
      using a b c by (simp_all only: mod_mult_self2) simp_all
  qed (use a c in simp_all)
  have j: "(n * 64 + a1) * 64 + (a0 * 16 + b1) = b1 + 16 * (a + 256 * n)"
    "((n * 64 + a1) * 64 + (a0 * 16 + b1)) * 64 + (b0 * 4 + c1) = c1 + 4 * (b + 256 * (a + 256 * n))"
    "(((n * 64 + a1) * 64 + (a0 * 16 + b1)) * 64 + (b0 * 4 + c1)) * 64 + c0 = c + 256 * (b + 256 * (a + 256 * n))"
    using a b c by simp_all
  have d: "(b1 + 16 * x) div 2 ^ 4 = x" "(c1 + 4 * x) div 2 ^ 2 = x" "x div 2 ^ 0 = x" for x
    using b c by simp_all
  show "((n * 64 + a div 4 mod 64) * 64 + (a * 16 + b div 16) mod 64) div 2 ^ 4 mod 256 = a"
    unfolding s j(1) d(1) using assms by (simp only: mod_mult_self2 mod_less)
  show "(((n * 64 + a div 4 mod 64) * 64 + (a * 16 + b div 16) mod 64) * 64 + (b * 4 + c div 64) mod 64) div 2 ^ 2 mod 256 = b"
    unfolding s j(2) d(2) using assms by (simp only: mod_mult_self2 mod_less)
  show "((((n * 64 + a div 4 mod 64) * 64 + (a * 16 + b div 16) mod 64) * 64 + (b * 4 + c div 64) mod 64) * 64
          + c mod 64) div 2 ^ 0 mod 256 = c"
    unfolding s j(3) d(3) using assms by (simp only: mod_mult_self2 mod_less)
qed


lemma group_decoded:
  fixes w :: u32
  assumes w: "unat w = n mod 2 ^ 32" and abc: "a < 256" "b < 256" "c < 256"
    and w2: "w2 = join6 (join6 w (a div 4)) (a * 16 + b div 16)"
    and w3: "w3 = join6 w2 (b * 4 + c div 64)" and w4: "w4 = join6 w3 c"
  shows "char_of_byte (ucast (signed_drop_bit 4 w2 AND 0xFF)) = char_of a"
    and "char_of_byte (ucast (signed_drop_bit 2 w3 AND 0xFF)) = char_of b"
    and "char_of_byte (ucast (signed_drop_bit 0 w4 AND 0xFF)) = char_of c"
    and "\<exists>n'. unat w4 = n' mod 2 ^ 32"
proof -
  note v2 = join6_value [OF join6_value [OF w, of "a div 4"], of "a * 16 + b div 16", folded w2]
  note v3 = join6_value [OF v2, of "b * 4 + c div 64", folded w3]
  note v4 = join6_value [OF v3, of c, folded w4]
  have k: "(4 :: nat) \<le> 24" "(2 :: nat) \<le> 24" "(0 :: nat) \<le> 24" by simp_all
  note bytes = sextets_joined [OF abc, of n]
  show "char_of_byte (ucast (signed_drop_bit 4 w2 AND 0xFF)) = char_of a"
    unfolding decode_byte [OF k(1) v2] bytes(1) ..
  show "char_of_byte (ucast (signed_drop_bit 2 w3 AND 0xFF)) = char_of b"
    unfolding decode_byte [OF k(2) v3] bytes(2) ..
  show "char_of_byte (ucast (signed_drop_bit 0 w4 AND 0xFF)) = char_of c"
    unfolding decode_byte [OF k(3) v4] bytes(3) ..
  show "\<exists>n'. unat w4 = n' mod 2 ^ 32" using v4 by blast
qed

lemma decode_loop_ref:
  "\<lbrakk>\<exists>n. unat w = n mod 2 ^ 32; \<forall>x \<in> set xs. x < 256\<rbrakk> \<Longrightarrow>
     decode_loop (map byte_of (base64_ref xs)) w (- 8) out = out @ map char_of xs"
proof (induction xs arbitrary: w out rule: base64_ref.induct)
  case 1
  then show ?case by simp
next
  case (2 a)
  then obtain n where "unat w = n mod 2 ^ 32" by blast
  then show ?case
    using group_decoded(1) [of w n a 0 0, OF _ _ _ _ refl refl refl] 2(2)
    by (simp add: decode_symbol decode_padding)
next
  case (3 a b)
  then obtain n where "unat w = n mod 2 ^ 32" by blast
  then show ?case
    using group_decoded(1,2) [of w n a b 0, OF _ _ _ _ refl refl refl] 3(2)
    by (simp add: decode_symbol decode_padding)
next
  case (4 a b c r)
  then obtain n where "unat w = n mod 2 ^ 32" by blast
  then show ?case
    using group_decoded [of w n a b c, OF _ _ _ _ refl refl refl] 4(3) 4(1)
    by (simp add: decode_symbol)
qed

lemma base64_decode_encode: "base64_decode (base64_encode s) = s"
proof -
  have "\<exists>n. unat (0 :: u32) = n mod 2 ^ 32" by (rule exI [of _ 0]) simp
  then show ?thesis
    using decode_loop_ref [of 0 "map of_char s" "[]"]
    by (simp add: base64_decode_def str_bytes_def base64_encode_rfc comp_def)
qed


subsection \<open>MurmurHash2\<close>

definition MURMUR_M :: u32 where "MURMUR_M = 0x5bd1e995"

text \<open>Four bytes at a time, then the one to three bytes that are left.\<close>

fun murmur_mix :: "bytes \<Rightarrow> u32 \<Rightarrow> u32" where
  "murmur_mix (a # b # c # d # rest) h =
     (let k1 = get32 a b c d * MURMUR_M; k2 = k1 XOR drop_bit 24 k1; k3 = k2 * MURMUR_M
      in murmur_mix rest (h * MURMUR_M XOR k3))"
| "murmur_mix [a, b, c] h = (h XOR push_bit 16 (ucast c) XOR push_bit 8 (ucast b) XOR ucast a) * MURMUR_M"
| "murmur_mix [a, b] h = (h XOR push_bit 8 (ucast b) XOR ucast a) * MURMUR_M"
| "murmur_mix [a] h = (h XOR ucast a) * MURMUR_M"
| "murmur_mix [] h = h"

text \<open>The length is an \<open>int\<close>: a text of 2 GiB has a negative one, of which nothing is read.\<close>

definition MurmurHash2 :: "bytes \<Rightarrow> u32 \<Rightarrow> u32" where
  "MurmurHash2 key seed =
     (let len = sint (of_nat (length key) :: u32);
          h = murmur_mix (take (nat len) key) (seed XOR of_int len);
          h1 = h XOR drop_bit 13 h; h2 = h1 * MURMUR_M
      in h2 XOR drop_bit 15 h2)"

definition string_hash32 :: "string \<Rightarrow> u32" where
  "string_hash32 s = MurmurHash2 (str_bytes s) 0"

subsection \<open>The header of a message\<close>

record monitor_netlink_header =
  mh_prefix :: bytes
  mh_magic :: u32
  mh_header_size :: u32
  mh_properties_off :: u32
  mh_properties_len :: u32
  mh_filter_subsystem_hash :: u32
  mh_filter_devtype_hash :: u32
  mh_filter_tag_bloom_hi :: u32
  mh_filter_tag_bloom_lo :: u32

definition UDEV_MONITOR_MAGIC :: u32 where "UDEV_MONITOR_MAGIC = 0xfeedcafe"

definition HEADER_SIZE :: nat where "HEADER_SIZE = 40"

text \<open>The struct in memory: no padding, its numbers little-endian; \<open>htobe32\<close> swaps the bytes.\<close>

definition header_bytes :: "monitor_netlink_header \<Rightarrow> bytes" where
  "header_bytes h =
     mh_prefix h @ le32 (mh_magic h) @ le32 (mh_header_size h) @ le32 (mh_properties_off h) @
     le32 (mh_properties_len h) @ le32 (mh_filter_subsystem_hash h) @ le32 (mh_filter_devtype_hash h) @
     le32 (mh_filter_tag_bloom_hi h) @ le32 (mh_filter_tag_bloom_lo h)"

definition make_udev_header :: "string \<Rightarrow> string \<Rightarrow> string \<Rightarrow> bytes" where
  "make_udev_header full_opts subsystem devtype =
     header_bytes
       \<lparr>mh_prefix = str_bytes (''libudev'' @ [CHR 0x00]), mh_magic = swap32 UDEV_MONITOR_MAGIC,
        mh_header_size = of_nat HEADER_SIZE, mh_properties_off = of_nat HEADER_SIZE,
        mh_properties_len = of_nat (length full_opts),
        mh_filter_subsystem_hash = (if subsystem = [] then 0 else swap32 (string_hash32 subsystem)),
        mh_filter_devtype_hash = (if devtype = [] then 0 else swap32 (string_hash32 devtype)),
        mh_filter_tag_bloom_hi = 0, mh_filter_tag_bloom_lo = 0\<rparr>"

subsection \<open>The command line\<close>

text \<open>\<open>InputParser\<close>: the arguments after the name of the program.\<close>

definition cmdOptionExists :: "string list \<Rightarrow> string \<Rightarrow> bool" where
  "cmdOptionExists tokens opt \<longleftrightarrow> opt \<in> set tokens"

definition getCmdOption :: "string list \<Rightarrow> string \<Rightarrow> string \<Rightarrow> string" where
  "getCmdOption tokens opt default_str =
     (case dropWhile (\<lambda>t. t \<noteq> opt) tokens of _ # v # _ \<Rightarrow> v | _ \<Rightarrow> default_str)"

definition getCmdOption_int :: "string list \<Rightarrow> string \<Rightarrow> int \<Rightarrow> num_error + int" where
  "getCmdOption_int tokens opt default_val =
     (let val = getCmdOption tokens opt [] in if val = [] then Inr default_val else stoi val)"

subsection \<open>The socket\<close>

text \<open>What the kernel answers: a descriptor or a negative number, and the results of the other calls.\<close>

record netlink_env =
  nl_socket :: "int \<Rightarrow> int \<Rightarrow> int \<Rightarrow> int"
  nl_bind :: "int \<Rightarrow> u16 \<Rightarrow> u32 \<Rightarrow> int"
  nl_sendmsg :: "int \<Rightarrow> bytes list \<Rightarrow> int"

datatype netlink_call =
    Open_socket int int int
  | Bind_socket int u16 u32
  | Send_message int bytes u16 u32
  | Close_socket int

record netlink_connection =
  nc_fd :: int
  nc_nl_family :: u16
  nc_nl_groups :: u32

definition no_connection :: netlink_connection where
  "no_connection = \<lparr>nc_fd = - 1, nc_nl_family = 0, nc_nl_groups = 0\<rparr>"

text \<open>\<open>connect\<close>: whether it worked, the connection and the calls it made.\<close>

definition nl_connect :: "netlink_env \<Rightarrow> int \<Rightarrow> int \<Rightarrow> int \<Rightarrow> u32 \<Rightarrow> bool \<times> netlink_connection \<times> netlink_call list" where
  "nl_connect env domain type protocol groups =
     (let sock = nl_socket env domain type protocol; opened = Open_socket domain type protocol in
      if sock < 0 then (False, no_connection, [opened])
      else let conn = \<lparr>nc_fd = sock, nc_nl_family = of_int domain, nc_nl_groups = groups\<rparr>;
               rc = nl_bind env sock (nc_nl_family conn) groups
           in (\<not> rc < 0, conn, [opened, Bind_socket sock (nc_nl_family conn) groups]))"

text \<open>\<open>send_msgs\<close>: the pieces of the message go out as one datagram.\<close>

definition nl_send_msgs :: "netlink_env \<Rightarrow> netlink_connection \<Rightarrow> bytes list \<Rightarrow> bool \<times> netlink_call list" where
  "nl_send_msgs env conn msgs =
     (\<not> nl_sendmsg env (nc_fd conn) msgs \<le> 0,
      [Send_message (nc_fd conn) (concat msgs) (nc_nl_family conn) (nc_nl_groups conn)])"

definition nl_cleanup :: "netlink_connection \<Rightarrow> netlink_call list" where
  "nl_cleanup conn = (if nc_fd conn \<ge> 0 then [Close_socket (nc_fd conn)] else [])"

subsection \<open>The main function\<close>

definition UDEV_EVENT_MODE :: int where "UDEV_EVENT_MODE = 2"
definition AF_NETLINK :: int where "AF_NETLINK = 16"
definition SOCK_RAW :: int where "SOCK_RAW = 3"
definition NETLINK_KOBJECT_UEVENT :: int where "NETLINK_KOBJECT_UEVENT = 15"

text \<open>The words of the standard input, one after the other.\<close>

definition read_words :: "string \<Rightarrow> string" where
  "read_words stdin = filter (\<lambda>c. \<not> is_space c) stdin"

text \<open>The exit code and the calls, or the exception of an option that is no number.\<close>

definition send_announcement :: "netlink_env \<Rightarrow> string list \<Rightarrow> string \<Rightarrow> num_error + int \<times> netlink_call list" where
  "send_announcement env input msg =
     (case getCmdOption_int input ''--sock-domain'' AF_NETLINK of Inl e \<Rightarrow> Inl e | Inr domain \<Rightarrow>
      case getCmdOption_int input ''--sock-type'' SOCK_RAW of Inl e \<Rightarrow> Inl e | Inr type \<Rightarrow>
      case getCmdOption_int input ''--sock-protocol'' NETLINK_KOBJECT_UEVENT of Inl e \<Rightarrow> Inl e | Inr protocol \<Rightarrow>
      case getCmdOption_int input ''--sock-groups'' UDEV_EVENT_MODE of Inl e \<Rightarrow> Inl e | Inr groups \<Rightarrow>
        let udev_subsystem = getCmdOption input ''--udev-subsystem'' ''input'';
            udev_devtype = getCmdOption input ''--udev-devtype'' [];
            (ok, conn, calls) = nl_connect env domain type protocol (of_int groups)
        in if ok
           then let header = make_udev_header msg udev_subsystem udev_devtype;
                    (sent, calls') = nl_send_msgs env conn [header, str_bytes msg]
                in Inr (if sent then 0 else - 1, calls @ calls' @ nl_cleanup conn)
           else Inr (- 1, calls @ nl_cleanup conn))"

definition fake_udev_main :: "netlink_env \<Rightarrow> string list \<Rightarrow> string \<Rightarrow> num_error + int \<times> netlink_call list" where
  "fake_udev_main env input stdin =
     (if cmdOptionExists input ''-h'' \<or> cmdOptionExists input ''--help'' then Inr (0, [])
      else let arg = getCmdOption input ''-m'' []; msg = (if arg = [] then read_words stdin else arg)
           in if msg = [] then Inr (- 1, []) else send_announcement env input (base64_decode msg))"


subsection \<open>What a listener reads\<close>

text \<open>
  The reader of the messages, as the comment of the header describes it: the magic and the version
  prefix are checked, the properties are where the header says, one row per NUL byte.
\<close>

definition udev_rows :: "string \<Rightarrow> (string \<times> string) list" where
  "udev_rows s =
     map (\<lambda>r. (takeWhile (\<lambda>c. c \<noteq> CHR ''='') r, drop 1 (dropWhile (\<lambda>c. c \<noteq> CHR ''='') r)))
       (filter (\<lambda>r. r \<noteq> []) (split_str s (CHR 0x00)))"

definition read_announcement :: "bytes \<Rightarrow> (string \<times> string) list option" where
  "read_announcement m =
     (case (rd32 m 8, rd32 m 16, rd32 m 20) of
        (Some magic, Some off, Some len) \<Rightarrow>
          if take 8 m = str_bytes (''libudev'' @ [CHR 0x00]) \<and> swap32 magic = 0xfeedcafe
          then map_option (\<lambda>b. udev_rows (bytes_str b)) (rdn m (unat off) (unat len)) else None
      | _ \<Rightarrow> None)"

definition plain_row :: "string \<times> string \<Rightarrow> bool" where
  "plain_row r \<longleftrightarrow> CHR ''='' \<notin> set (fst r) \<and> CHR 0x00 \<notin> set (fst r) \<and> CHR 0x00 \<notin> set (snd r)"

abbreviation udev_properties :: "(string \<times> string) list \<Rightarrow> string" where
  "udev_properties ev \<equiv> map_to_string ev (CHR ''='') (CHR 0x00)"

lemma udev_properties_Cons:
  "udev_properties ((k, v) # ev) = (k @ CHR ''='' # v) @ CHR 0x00 # udev_properties ev"
  by (simp add: map_to_string_def)

lemma tails_of_properties:
  "\<forall>r \<in> set ev. plain_row r \<Longrightarrow>
     map (takeWhile (\<lambda>c. c \<noteq> CHR 0x00)) (split_tails (CHR 0x00) (udev_properties ev)) =
     map (\<lambda>(k, v). k @ CHR ''='' # v) ev @ [[]]"
proof (induction ev)
  case Nil
  then show ?case by (simp add: map_to_string_def split_tails_one)
next
  case (Cons r ev)
  obtain k v where r: "r = (k, v)" by (cases r)
  have plain: "CHR 0x00 \<notin> set (k @ CHR ''='' # v)" using Cons.prems by (simp add: r plain_row_def)
  show ?case
    unfolding r udev_properties_Cons split_tails_more [OF plain]
    using Cons takeWhile_sep [OF plain] by simp
qed

lemma row_read:
  "CHR ''='' \<notin> set k \<Longrightarrow> takeWhile (\<lambda>c. c \<noteq> CHR ''='') (k @ CHR ''='' # v) = k \<and>
     drop 1 (dropWhile (\<lambda>c. c \<noteq> CHR ''='') (k @ CHR ''='' # v)) = v"
  by (induction k) auto

lemma rows_of_properties:
  assumes "\<forall>r \<in> set ev. plain_row r"
  shows "udev_rows (udev_properties ev) = ev"
proof (cases ev)
  case Nil
  then show ?thesis by (simp add: udev_rows_def map_to_string_def split_str_def split_data_def)
next
  case (Cons r rest)
  then have "udev_properties ev \<noteq> []" by (cases r) (simp add: udev_properties_Cons)
  then have "split_str (udev_properties ev) (CHR 0x00) = map (\<lambda>(k, v). k @ CHR ''='' # v) ev @ [[]]"
    using tails_of_properties [OF assms] by (simp add: split_str_def split_data_def)
  moreover have "filter (\<lambda>r. r \<noteq> []) (map (\<lambda>(k, v). k @ CHR ''='' # v) ev) = map (\<lambda>(k, v). k @ CHR ''='' # v) ev"
    by (auto simp: filter_id_conv)
  ultimately show ?thesis
    using assms row_read by (auto simp: udev_rows_def plain_row_def intro!: map_idI)
qed

lemma announcement_read:
  assumes "\<forall>r \<in> set ev. plain_row r" and "length (udev_properties ev) < 2 ^ 32"
  shows "read_announcement (make_udev_header (udev_properties ev) subsystem devtype @ str_bytes (udev_properties ev)) = Some ev"
proof -
  let ?p = "udev_properties ev"
  let ?m = "make_udev_header ?p subsystem devtype @ str_bytes ?p"
  have "rd32 ?m 8 = Some (swap32 UDEV_MONITOR_MAGIC)" "rd32 ?m 16 = Some 40"
    "rd32 ?m 20 = Some (of_nat (length ?p))"
    by (simp_all add: make_udev_header_def header_bytes_def wire HEADER_SIZE_def)
  moreover have "take 8 ?m = str_bytes (''libudev'' @ [CHR 0x00])"
    by (simp add: make_udev_header_def header_bytes_def str_bytes_def)
  moreover have "rdn ?m 40 (length ?p) = Some (str_bytes ?p)"
    by (simp add: make_udev_header_def header_bytes_def wire rdn_def)
  ultimately show ?thesis
    using assms rows_of_properties [OF assms(1)]
    by (simp add: read_announcement_def UDEV_MONITOR_MAGIC_def unat_of_nat)
qed


subsection \<open>From the server to the listeners of a container\<close>

lemma encode_no_dash: "CHR ''-'' \<notin> set (base64_encode s)"
proof -
  have "b64_sym n \<in> set b64_table" for n
    by (simp add: b64_sym_def) (simp add: b64_table_def nth_mem del: list.set nth_Cons_numeral)
  moreover have "CHR ''-'' \<notin> set b64_table" by (simp add: b64_table_def)
  ultimately have sym: "b64_sym n \<noteq> CHR ''-''" for n by metis
  have "CHR ''-'' \<notin> set (base64_ref xs)" for xs
    by (induction xs rule: base64_ref.induct) (simp_all add: sym [symmetric])
  then show ?thesis by (simp add: base64_encode_rfc)
qed

text \<open>The only arguments are \<open>-m\<close> and the message: no other option is there.\<close>

lemma only_message:
  assumes "CHR ''-'' \<notin> set msg" and "opt \<noteq> ''m''"
  shows "\<not> cmdOptionExists [''-m'', msg] (CHR ''-'' # opt)" and "getCmdOption [''-m'', msg] (CHR ''-'' # opt) d = d"
    and "getCmdOption_int [''-m'', msg] (CHR ''-'' # opt) i = Inr i"
  using assms by (auto simp: cmdOptionExists_def getCmdOption_def getCmdOption_int_def)

lemma message_argument: "getCmdOption [''-m'', msg] ''-m'' d = msg"
  by (simp add: getCmdOption_def)

lemma announcement_sent:
  assumes "ev \<noteq> []" and "0 \<le> nl_socket env 16 3 15" and "0 \<le> nl_bind env (nl_socket env 16 3 15) 16 2"
    and "\<And>msgs. 0 < nl_sendmsg env (nl_socket env 16 3 15) msgs"
  shows "fake_udev_main env [''-m'', udev_msg ev] stdin =
    Inr (0, [Open_socket 16 3 15, Bind_socket (nl_socket env 16 3 15) 16 2,
             Send_message (nl_socket env 16 3 15)
               (make_udev_header (udev_properties ev) ''input'' [] @ str_bytes (udev_properties ev)) 16 2,
             Close_socket (nl_socket env 16 3 15)])"
proof -
  have no: "CHR ''-'' \<notin> set (udev_msg ev)" by (simp add: udev_msg_def encode_no_dash)
  obtain k v rest where "ev = (k, v) # rest" using assms(1) by (cases ev) auto
  then have "udev_properties ev \<noteq> []" by (simp add: udev_properties_Cons)
  moreover have decoded: "base64_decode (udev_msg ev) = udev_properties ev" by (simp add: udev_msg_def base64_decode_encode)
  moreover have "base64_decode [] = []" by (simp add: base64_decode_def str_bytes_def)
  ultimately have "udev_msg ev \<noteq> []" by metis
  then show ?thesis
    using assms
    by (simp add: fake_udev_main_def send_announcement_def only_message [OF no] message_argument
        AF_NETLINK_def SOCK_RAW_def NETLINK_KOBJECT_UEVENT_def UDEV_EVENT_MODE_def nl_connect_def
        nl_send_msgs_def nl_cleanup_def Let_def decoded not_less not_le)
qed


text \<open>C20: What the server announces is what a listener in the container reads. When the kernel opens,
  binds and sends, the program that the runner starts with the encoded properties of a device ends
  with 0, after one message to the udev group of the kernel's uevent socket; its header is right
  (magic, offset and length), and the rows that are read from it are exactly the properties.
\<close>

theorem announcement_reaches_listeners:
  assumes "ev \<noteq> []" and "\<forall>r \<in> set ev. plain_row r" and "length (udev_properties ev) < 2 ^ 32"
    and "0 \<le> nl_socket env 16 3 15" and "0 \<le> nl_bind env (nl_socket env 16 3 15) 16 2"
    and "\<And>msgs. 0 < nl_sendmsg env (nl_socket env 16 3 15) msgs"
  shows "\<exists>m. fake_udev_main env [''-m'', udev_msg ev] stdin =
      Inr (0, [Open_socket 16 3 15, Bind_socket (nl_socket env 16 3 15) 16 2,
               Send_message (nl_socket env 16 3 15) m 16 2, Close_socket (nl_socket env 16 3 15)]) \<and>
    read_announcement m = Some ev"
  using announcement_sent [OF assms(1,4-6)] announcement_read [OF assms(2,3)] by blast

definition demo_kernel :: netlink_env where
  "demo_kernel = \<lparr>nl_socket = (\<lambda>_ _ _. 5), nl_bind = (\<lambda>_ _ _. 0), nl_sendmsg = (\<lambda>_ _. 100)\<rparr>"

lemma announcement_reaches_listeners_witness:
  "\<exists>m. fake_udev_main demo_kernel [''-m'', udev_msg [(''ACTION'', ''add''), (''DEVNAME'', ''/dev/input/event3'')]] [] =
      Inr (0, [Open_socket 16 3 15, Bind_socket 5 16 2, Send_message 5 m 16 2, Close_socket 5]) \<and>
    read_announcement m = Some [(''ACTION'', ''add''), (''DEVNAME'', ''/dev/input/event3'')]"
  using announcement_reaches_listeners [of "[(''ACTION'', ''add''), (''DEVNAME'', ''/dev/input/event3'')]" demo_kernel "[]"]
  by (simp add: plain_row_def map_to_string_def demo_kernel_def)

text \<open>The decoder of the program undoes the encoder of the server, for every text: bytes of any
  value, and the three lengths of padding.
\<close>

theorem fake_udev_decodes: "base64_decode (base64_encode s) = s"
  by (rule base64_decode_encode)


subsection \<open>Messages as codes\<close>

text \<open>
  The message of a device goes through two codes, its rows in a text and the text in base64. What a
  code promises, and that two of them after each other are one, is stated once.
\<close>

locale text_code =
  fixes encode :: "'a \<Rightarrow> 'b" and decode :: "'b \<Rightarrow> 'a" and ok :: "'a \<Rightarrow> bool"
  assumes decode_encode: "ok x \<Longrightarrow> decode (encode x) = x"
begin

lemma code_inject: "\<lbrakk>ok x; ok y\<rbrakk> \<Longrightarrow> encode x = encode y \<longleftrightarrow> x = y"
  using decode_encode by metis

lemma encode_inj_on: "inj_on encode {x. ok x}"
  by (rule inj_onI) (simp add: code_inject)

end

locale code_chain =
  inner: text_code encode decode ok + outer: text_code encode' decode' "\<lambda>_. True"
  for encode :: "'a \<Rightarrow> 'b" and decode ok and encode' :: "'b \<Rightarrow> 'c" and decode'
begin

sublocale both: text_code "\<lambda>x. encode' (encode x)" "\<lambda>y. decode (decode' y)" ok
  by unfold_locales (simp add: outer.decode_encode inner.decode_encode)

end

interpretation message: code_chain "\<lambda>ev. udev_properties ev" udev_rows "\<lambda>ev. \<forall>r \<in> set ev. plain_row r"
    base64_encode base64_decode
  by unfold_locales (simp_all add: rows_of_properties base64_decode_encode)

lemma messages_differ:
  "\<lbrakk>\<forall>r \<in> set ev. plain_row r; \<forall>r \<in> set ev'. plain_row r\<rbrakk> \<Longrightarrow> udev_msg ev = udev_msg ev' \<longleftrightarrow> ev = ev'"
  using message.both.code_inject [of ev ev'] by (simp add: udev_msg_def)

end
