(* ===== verification/Uinput.thy ===== *)
theory Uinput
  imports Fake_Udev Hardware Input_Handler
begin

section \<open>What udev is told of the virtual devices: platforms/linux/uinput\<close>

text \<open>
  For every virtual device the server tells the container which udev events to announce and which
  files of the hardware database to write. The devices themselves are made by the library inputtino:
  their nodes, the paths of the kernel and the tables of the file system are parameters. The events
  go through the runner (theory Runners) to the program of the theory Fake_Udev. The two
  \<open>fetch_events\<close> read what a device has queued.
\<close>

subsection \<open>Nodes\<close>

text \<open>
  The machine: \<open>stat\<close> (whether the node is a character device, its major and minor number), the
  clock in seconds, and directories, whose listing throws when there is none.
\<close>

record uinput_env =
  ui_stat :: "string \<Rightarrow> (bool \<times> nat \<times> nat) option"
  ui_seconds :: int
  ui_directory :: "string \<Rightarrow> string list option"
  ui_is_directory :: "string \<Rightarrow> bool"
  ui_exists :: "string \<Rightarrow> bool"
  ui_first_line :: "string \<Rightarrow> string"

text \<open>A node of libevdev: its path under /dev/input and the one of its device under /sys.\<close>

record uinput_node =
  un_devnode :: string
  un_syspath :: string

definition get_major_minor :: "uinput_env \<Rightarrow> string \<Rightarrow> nat \<times> nat" where
  "get_major_minor env devnode =
     (case ui_stat env devnode of
        None \<Rightarrow> (0, 0)
      | Some (is_chr, major, minor) \<Rightarrow> if is_chr then (major, minor) else (0, 0))"

definition gen_udev_hw_db_filename :: "uinput_env \<Rightarrow> string \<Rightarrow> string" where
  "gen_udev_hw_db_filename env dev_node =
     (case get_major_minor env dev_node of (dev_major, dev_minor) \<Rightarrow> ''c'' @ dec dev_major @ '':'' @ dec dev_minor)"

definition map_with :: "(string \<times> string) list \<Rightarrow> (string \<times> string) list \<Rightarrow> (string \<times> string) list" where
  "map_with rows m = fold (\<lambda>(k, v). map_set k v) rows m"

definition gen_udev_base_event :: "uinput_env \<Rightarrow> string \<Rightarrow> string \<Rightarrow> string \<Rightarrow> (string \<times> string) list" where
  "gen_udev_base_event env devnode syspath act =
     (case get_major_minor env devnode of (dev_major, dev_minor) \<Rightarrow>
        map_with
          [(''ACTION'', act), (''SEQNUM'', ''7''), (''USEC_INITIALIZED'', dec_int (ui_seconds env)),
           (''SUBSYSTEM'', ''input''), (''ID_INPUT'', ''1''), (''ID_SERIAL'', ''noserial''),
           (''TAGS'', '':seat:uaccess:''), (''CURRENT_TAGS'', '':seat:uaccess:''),
           (''DEVNAME'', devnode), (''DEVPATH'', syspath),
           (''MAJOR'', dec dev_major), (''MINOR'', dec dev_minor)] [])"

text \<open>\<open>syspath.erase(0, 4)\<close>: whatever the first four characters are.\<close>

definition sys_node_path :: "string \<Rightarrow> string \<Rightarrow> string" where
  "sys_node_path syspath devnode = drop 4 syspath @ ''/'' @ path_filename devnode"

definition node_base_event :: "uinput_env \<Rightarrow> uinput_node \<Rightarrow> (string \<times> string) list" where
  "node_base_event env node =
     gen_udev_base_event env (un_devnode node) (sys_node_path (un_syspath node) (un_devnode node)) ''add''"

definition gen_udev_base_device_event :: "uinput_env \<Rightarrow> uinput_node \<Rightarrow> string \<Rightarrow> (string \<times> string) list" where
  "gen_udev_base_device_event env node act =
     map_with
       [(''ACTION'', act), (''SEQNUM'', ''7''), (''USEC_INITIALIZED'', dec_int (ui_seconds env)),
        (''SUBSYSTEM'', ''input''), (''ID_INPUT'', ''1''), (''ID_SERIAL'', ''noserial''),
        (''TAGS'', '':seat:uaccess:''), (''CURRENT_TAGS'', '':seat:uaccess:''),
        (''DEVPATH'', drop 4 (un_syspath node))] []"

definition optional :: "('a \<Rightarrow> 'b) \<Rightarrow> 'a option \<Rightarrow> 'b list" where
  "optional f n = (case n of None \<Rightarrow> [] | Some x \<Rightarrow> [f x])"

subsection \<open>Mouse, keyboard, touch screen, pen tablet, trackpad\<close>

text \<open>A relative and an absolute mouse; a node is absent when the library could not make it.\<close>

definition mouse_udev_events :: "uinput_env \<Rightarrow> uinput_node option \<Rightarrow> uinput_node option \<Rightarrow> udev_events" where
  "mouse_udev_events env mouse_rel mouse_abs =
     optional (\<lambda>n. map_with [(''ID_INPUT_MOUSE'', ''1''), (''.INPUT_CLASS'', ''mouse'')] (node_base_event env n)) mouse_rel @
     optional (\<lambda>n. map_with [(''ID_INPUT_TOUCHPAD'', ''1''), (''.INPUT_CLASS'', ''mouse'')] (node_base_event env n)) mouse_abs"

definition node_hw_db :: "uinput_env \<Rightarrow> string list \<Rightarrow> uinput_node \<Rightarrow> string \<times> string list" where
  "node_hw_db env rows node = (gen_udev_hw_db_filename env (un_devnode node), rows)"

definition mouse_hw_db_entries :: "uinput_env \<Rightarrow> uinput_node option \<Rightarrow> uinput_node option \<Rightarrow> udev_hw_db" where
  "mouse_hw_db_entries env mouse_rel mouse_abs =
     optional (node_hw_db env [''E:ID_INPUT=1'', ''E:ID_INPUT_MOUSE=1'', ''E:ID_SERIAL=noserial'', ''V:1'']) mouse_rel @
     optional (node_hw_db env [''E:ID_INPUT=1'', ''E:ID_INPUT_TOUCHPAD=1'', ''E:ID_SERIAL=noserial'', ''V:1'']) mouse_abs"

definition keyboard_udev_events :: "uinput_env \<Rightarrow> uinput_node option \<Rightarrow> udev_events" where
  "keyboard_udev_events env kb =
     optional (\<lambda>n. map_with [(''ID_INPUT_KEYBOARD'', ''1''), (''.INPUT_CLASS'', ''keyboard'')] (node_base_event env n)) kb"

definition keyboard_hw_db_entries :: "uinput_env \<Rightarrow> uinput_node option \<Rightarrow> udev_hw_db" where
  "keyboard_hw_db_entries env kb =
     optional (node_hw_db env [''E:ID_INPUT=1'', ''E:ID_INPUT_KEY=1'', ''E:ID_INPUT_KEYBOARD=1'', ''E:ID_SERIAL=noserial'', ''V:1'']) kb"

definition touchscreen_udev_events :: "uinput_env \<Rightarrow> uinput_node option \<Rightarrow> udev_events" where
  "touchscreen_udev_events env touch_screen =
     optional (\<lambda>n. map_with [(''ID_INPUT_TOUCHSCREEN'', ''1'')] (node_base_event env n)) touch_screen"

definition usb_rows :: "string \<Rightarrow> string list" where
  "usb_rows kind = [''E:ID_INPUT=1'', kind, ''E:ID_BUS=usb'', ''G:seat'', ''G:uaccess'', ''Q:seat'', ''Q:uaccess'', ''V:1'']"

definition touchscreen_hw_db_entries :: "uinput_env \<Rightarrow> uinput_node option \<Rightarrow> udev_hw_db" where
  "touchscreen_hw_db_entries env touch_screen = optional (node_hw_db env (usb_rows ''E:ID_INPUT_TOUCHSCREEN=1'')) touch_screen"

definition pentablet_udev_events :: "uinput_env \<Rightarrow> uinput_node option \<Rightarrow> udev_events" where
  "pentablet_udev_events env pen_tablet =
     optional (\<lambda>n. map_with [(''ID_INPUT_TABLET'', ''1'')] (node_base_event env n)) pen_tablet"

definition pentablet_hw_db_entries :: "uinput_env \<Rightarrow> uinput_node option \<Rightarrow> udev_hw_db" where
  "pentablet_hw_db_entries env pen_tablet = optional (node_hw_db env (usb_rows ''E:ID_INPUT_TABLET=1'')) pen_tablet"

definition trackpad_udev_events :: "uinput_env \<Rightarrow> uinput_node option \<Rightarrow> udev_events" where
  "trackpad_udev_events env trackpad =
     optional (\<lambda>n. map_with [(''ID_INPUT_TOUCHPAD'', ''1''), (''.INPUT_CLASS'', ''mouse'')] (node_base_event env n)) trackpad"

definition trackpad_hw_db_entries :: "uinput_env \<Rightarrow> uinput_node option \<Rightarrow> udev_hw_db" where
  "trackpad_hw_db_entries env trackpad = optional (node_hw_db env (usb_rows ''E:ID_INPUT_TOUCHPAD=1'')) trackpad"


subsection \<open>Joypads\<close>

text \<open>
  A joypad of uinput has two nodes, eventX and jsX (\<open>get_nodes\<close> of the library); both lie under
  the path of the one device. Its entry of the hardware database is for the first only.
\<close>

definition xbox_udev_events :: "uinput_env \<Rightarrow> uinput_node option \<Rightarrow> string list \<Rightarrow> udev_events" where
  "xbox_udev_events env joy nodes =
     (case joy of None \<Rightarrow> []
      | Some n \<Rightarrow> map (\<lambda>devnode. map_with [(''ID_INPUT_JOYSTICK'', ''1''), (''.INPUT_CLASS'', ''joystick'')]
                     (gen_udev_base_event env devnode (sys_node_path (un_syspath n) devnode) ''add'')) nodes)"

definition xbox_hw_db_entries :: "uinput_env \<Rightarrow> uinput_node option \<Rightarrow> udev_hw_db" where
  "xbox_hw_db_entries env joy = optional (node_hw_db env (usb_rows ''E:ID_INPUT_JOYSTICK=1'')) joy"

definition switch_udev_events :: "uinput_env \<Rightarrow> uinput_node option \<Rightarrow> string list \<Rightarrow> udev_events" where
  "switch_udev_events env joy nodes =
     (case joy of None \<Rightarrow> []
      | Some n \<Rightarrow> map (\<lambda>devnode. map_with [(''ID_INPUT_JOYSTICK'', ''1''), (''.INPUT_CLASS'', ''joystick'')]
                     (gen_udev_base_event env devnode (sys_node_path (un_syspath n) devnode) ''add'')) nodes)"

definition switch_hw_db_entries :: "uinput_env \<Rightarrow> uinput_node option \<Rightarrow> udev_hw_db" where
  "switch_hw_db_entries env joy = optional (node_hw_db env (usb_rows ''E:ID_INPUT_JOYSTICK=1'')) joy"

text \<open>
  A DualSense is a device of uhid: its input devices (the pad, the sensors and the touchpad) are
  directories of the kernel, whose nodes are found by their names; what a device is says the file
  \<open>name\<close> beside them, an empty one when it cannot be read.
\<close>

definition is_input_node :: "uinput_env \<Rightarrow> string \<Rightarrow> bool" where
  "is_input_node env sys_node \<longleftrightarrow>
     ui_is_directory env sys_node \<and>
     (take 5 (path_filename sys_node) = ''event'' \<or> take 5 (path_filename sys_node) = ''mouse'' \<or>
      take 2 (path_filename sys_node) = ''js'')"

definition input_node_path :: "string \<Rightarrow> string" where
  "input_node_path sys_node = path_join ''/dev/input/'' (path_filename sys_node)"

definition for_input_nodes :: "uinput_env \<Rightarrow> (string \<Rightarrow> string \<Rightarrow> 'a) \<Rightarrow> string list \<Rightarrow> 'a list option" where
  "for_input_nodes env f sys_nodes =
     map_option concat (those (map (\<lambda>sys_entry.
       map_option (\<lambda>entries. map (f sys_entry) (filter (is_input_node env) entries)) (ui_directory env sys_entry)) sys_nodes))"

definition device_name :: "uinput_env \<Rightarrow> string \<Rightarrow> string" where
  "device_name env sys_entry = ui_first_line env (path_join sys_entry ''name'')"

definition ps5_event :: "uinput_env \<Rightarrow> string \<Rightarrow> string \<Rightarrow> string \<Rightarrow> (string \<times> string) list" where
  "ps5_event env mac sys_entry sys_node =
     (let event = gen_udev_base_event env (input_node_path sys_node) (drop 4 sys_node) ''add'';
          name = device_name env sys_entry
      in if has_sub ''Touchpad'' name
         then map_with [(''ID_INPUT_TOUCHPAD'', ''1''), (''.INPUT_CLASS'', ''mouse''),
                (''ID_INPUT_TOUCHPAD_INTEGRATION'', ''internal'')] event
         else if has_sub ''Motion'' name
         then map_with [(''ID_INPUT_ACCELEROMETER'', ''1''), (''ID_INPUT_WIDTH_MM'', ''8''), (''ID_INPUT_HEIGHT_MM'', ''8''),
                (''IIO_SENSOR_PROXY_TYPE'', ''input-accel''), (''SYSTEMD_WANTS'', ''iio-sensor-proxy.service''), (''UNIQ'', mac)] event
         else map_with [(''ID_INPUT_JOYSTICK'', ''1''), (''.INPUT_CLASS'', ''joystick''), (''UNIQ'', mac)] event)"

definition hidraw_events :: "uinput_env \<Rightarrow> string list \<Rightarrow> udev_events option" where
  "hidraw_events env sys_nodes =
     (case sys_nodes of
        [] \<Rightarrow> Some []
      | first # _ \<Rightarrow>
          let hidraw = path_join (parent_path (parent_path first)) ''hidraw''
          in if ui_exists env hidraw
             then map_option (map (\<lambda>entry.
                    map_with [(''SUBSYSTEM'', ''hidraw'')]
                      (gen_udev_base_event env (''/dev/'' @ path_filename entry) (drop 4 entry) ''add''))) (ui_directory env hidraw)
             else Some [])"

text \<open>\<open>None\<close> is the exception of a directory that cannot be listed.\<close>

definition ps5_udev_events :: "uinput_env \<Rightarrow> string list \<Rightarrow> string \<Rightarrow> udev_events option" where
  "ps5_udev_events env sys_nodes mac =
     (case for_input_nodes env (ps5_event env mac) sys_nodes of
        None \<Rightarrow> None
      | Some events \<Rightarrow> map_option (\<lambda>hid. events @ hid) (hidraw_events env sys_nodes))"

definition ps5_hw_db_entry :: "uinput_env \<Rightarrow> string \<Rightarrow> string \<Rightarrow> string \<times> string list" where
  "ps5_hw_db_entry env sys_entry sys_node =
     (let name = device_name env sys_entry
      in (gen_udev_hw_db_filename env (input_node_path sys_node),
          usb_rows (if has_sub ''Touchpad'' name then ''E:ID_INPUT_TOUCHPAD=1''
                    else if has_sub ''Motion'' name then ''E:ID_INPUT_ACCELEROMETER=1'' else ''E:ID_INPUT_JOYSTICK=1'')))"

definition ps5_hw_db_entries :: "uinput_env \<Rightarrow> string list \<Rightarrow> udev_hw_db option" where
  "ps5_hw_db_entries env sys_nodes = for_input_nodes env (ps5_hw_db_entry env) sys_nodes"

subsection \<open>A device\<close>

datatype virtual_device =
    Virtual_mouse "uinput_node option" "uinput_node option"
  | Virtual_keyboard "uinput_node option"
  | Virtual_touchscreen "uinput_node option"
  | Virtual_pentablet "uinput_node option"
  | Virtual_trackpad "uinput_node option"
  | Virtual_xbox "uinput_node option" "string list"
  | Virtual_switch "uinput_node option" "string list"
  | Virtual_ps5 "string list" string

fun get_udev_events :: "uinput_env \<Rightarrow> virtual_device \<Rightarrow> udev_events option" where
  "get_udev_events env (Virtual_mouse mouse_rel mouse_abs) = Some (mouse_udev_events env mouse_rel mouse_abs)"
| "get_udev_events env (Virtual_keyboard kb) = Some (keyboard_udev_events env kb)"
| "get_udev_events env (Virtual_touchscreen ts) = Some (touchscreen_udev_events env ts)"
| "get_udev_events env (Virtual_pentablet pt) = Some (pentablet_udev_events env pt)"
| "get_udev_events env (Virtual_trackpad tp) = Some (trackpad_udev_events env tp)"
| "get_udev_events env (Virtual_xbox joy nodes) = Some (xbox_udev_events env joy nodes)"
| "get_udev_events env (Virtual_switch joy nodes) = Some (switch_udev_events env joy nodes)"
| "get_udev_events env (Virtual_ps5 sys_nodes mac) = ps5_udev_events env sys_nodes mac"

fun get_udev_hw_db_entries :: "uinput_env \<Rightarrow> virtual_device \<Rightarrow> udev_hw_db option" where
  "get_udev_hw_db_entries env (Virtual_mouse mouse_rel mouse_abs) = Some (mouse_hw_db_entries env mouse_rel mouse_abs)"
| "get_udev_hw_db_entries env (Virtual_keyboard kb) = Some (keyboard_hw_db_entries env kb)"
| "get_udev_hw_db_entries env (Virtual_touchscreen ts) = Some (touchscreen_hw_db_entries env ts)"
| "get_udev_hw_db_entries env (Virtual_pentablet pt) = Some (pentablet_hw_db_entries env pt)"
| "get_udev_hw_db_entries env (Virtual_trackpad tp) = Some (trackpad_hw_db_entries env tp)"
| "get_udev_hw_db_entries env (Virtual_xbox joy nodes) = Some (xbox_hw_db_entries env joy)"
| "get_udev_hw_db_entries env (Virtual_switch joy nodes) = Some (switch_hw_db_entries env joy)"
| "get_udev_hw_db_entries env (Virtual_ps5 sys_nodes mac) = ps5_hw_db_entries env sys_nodes"

subsection \<open>Reading the queue of a device\<close>

record evdev_event =
  ev_type :: u16
  ev_code :: u16
  ev_value :: u32

definition EV_SYN :: u16 where "EV_SYN = 0"

datatype read_flag = LIBEVDEV_READ_FLAG_NORMAL | LIBEVDEV_READ_FLAG_SYNC

definition LIBEVDEV_READ_STATUS_SUCCESS :: int where "LIBEVDEV_READ_STATUS_SUCCESS = 0"
definition LIBEVDEV_READ_STATUS_SYNC :: int where "LIBEVDEV_READ_STATUS_SYNC = 1"

text \<open>
  \<open>libevdev_next_event\<close> answers a status and, unless it fails, writes the event; a failure (such
  as \<open>-EAGAIN\<close>, nothing queued) leaves the variable with what it held.
\<close>

type_synonym 'd next_event = "read_flag \<Rightarrow> 'd \<Rightarrow> (int \<times> evdev_event option) \<times> 'd"

definition written :: "evdev_event option \<Rightarrow> evdev_event \<Rightarrow> evdev_event" where
  "written w evt = (case w of Some e \<Rightarrow> e | None \<Rightarrow> evt)"

fun fetch_loop :: "'d next_event \<Rightarrow> nat \<Rightarrow> int \<Rightarrow> evdev_event \<Rightarrow> 'd \<Rightarrow> evdev_event list \<times> 'd" where
  "fetch_loop next_event 0 ret evt d = ([], d)"
| "fetch_loop next_event (Suc n) ret evt d =
     (if ret \<ge> 0
      then let ((ret', w), d') =
                 (if ret = LIBEVDEV_READ_STATUS_SYNC then next_event LIBEVDEV_READ_FLAG_SYNC d
                  else if ret = LIBEVDEV_READ_STATUS_SUCCESS then next_event LIBEVDEV_READ_FLAG_NORMAL d
                  else ((ret, None), d));
               evt' = written w evt; (events, d'') = fetch_loop next_event n ret' evt' d'
           in ((if ev_type evt' \<noteq> EV_SYN then [evt'] else []) @ events, d'')
      else ([], d))"

definition fetch_events :: "'d next_event \<Rightarrow> nat \<Rightarrow> 'd \<Rightarrow> evdev_event list \<times> 'd" where
  "fetch_events next_event max_events d =
     (let ((ret, w), d') = next_event LIBEVDEV_READ_FLAG_NORMAL d;
          evt = written w \<lparr>ev_type = 0, ev_code = 0, ev_value = 0\<rparr>;
          (events, d'') = fetch_loop next_event (max_events - 1) ret evt d'
      in ((if ret = LIBEVDEV_READ_STATUS_SUCCESS then [evt] else []) @ events, d''))"


text \<open>The other one reads a descriptor until it gets less than an event (24 bytes on 64 bit).\<close>

fun fetch_events_fd :: "('d \<Rightarrow> (int \<times> evdev_event) \<times> 'd) \<Rightarrow> nat \<Rightarrow> 'd \<Rightarrow> evdev_event list \<times> 'd" where
  "fetch_events_fd read_fd 0 d = ([], d)"
| "fetch_events_fd read_fd (Suc n) d =
     (let ((ret, ev), d') = read_fd d
      in if ret = 24 then (let (events, d'') = fetch_events_fd read_fd n d' in (ev # events, d'')) else ([], d'))"

subsection \<open>Properties of the events\<close>

lemma map_of_map_set [simp]: "map_of (map_set k v m) = (map_of m)(k \<mapsto> v)"
  by (induction k v m rule: map_set.induct) auto

lemma map_of_map_with [simp]:
  "map_of (map_with [] m) = map_of m"
  "map_of (map_with ((k, v) # rows) m) = map_of (map_with rows (map_set k v m))"
  by (simp_all add: map_with_def)

definition numbered :: "(string \<times> string) list \<Rightarrow> string" where
  "numbered ev = ''c'' @ property ev ''MAJOR'' @ '':'' @ property ev ''MINOR''"

lemma base_event_map_of:
  "map_of (gen_udev_base_event env devnode syspath act) =
     [''ACTION'' \<mapsto> act, ''SEQNUM'' \<mapsto> ''7'', ''USEC_INITIALIZED'' \<mapsto> dec_int (ui_seconds env),
      ''SUBSYSTEM'' \<mapsto> ''input'', ''ID_INPUT'' \<mapsto> ''1'', ''ID_SERIAL'' \<mapsto> ''noserial'',
      ''TAGS'' \<mapsto> '':seat:uaccess:'', ''CURRENT_TAGS'' \<mapsto> '':seat:uaccess:'',
      ''DEVNAME'' \<mapsto> devnode, ''DEVPATH'' \<mapsto> syspath,
      ''MAJOR'' \<mapsto> dec (fst (get_major_minor env devnode)), ''MINOR'' \<mapsto> dec (snd (get_major_minor env devnode))]"
  by (rule ext) (simp add: gen_udev_base_event_def split: prod.split)

lemmas event_lookup = property_def base_event_map_of node_base_event_def

lemma numbered_base:
  "map_of ev ''MAJOR'' = Some (dec (fst (get_major_minor env devnode))) \<Longrightarrow>
   map_of ev ''MINOR'' = Some (dec (snd (get_major_minor env devnode))) \<Longrightarrow>
   gen_udev_hw_db_filename env devnode = numbered ev"
  by (simp add: numbered_def property_def gen_udev_hw_db_filename_def split: prod.split)

lemma for_input_nodes_Some:
  "for_input_nodes env f sys_nodes = Some ys \<Longrightarrow>
     ys = concat (map (\<lambda>e. map (f e) (filter (is_input_node env) (the (ui_directory env e)))) sys_nodes)"
proof -
  assume "for_input_nodes env f sys_nodes = Some ys"
  then obtain yss where yss: "ys = concat yss"
    "those (map (\<lambda>e. map_option (\<lambda>entries. map (f e) (filter (is_input_node env) entries)) (ui_directory env e)) sys_nodes) = Some yss"
    by (auto simp: for_input_nodes_def)
  have "yss = map (\<lambda>e. map (f e) (filter (is_input_node env) (the (ui_directory env e)))) sys_nodes"
    using yss(2) by (induction sys_nodes arbitrary: yss) (auto split: option.splits)
  with yss(1) show ?thesis by simp
qed

lemma ps5_event_lookup:
  "property (ps5_event env mac e p) ''SUBSYSTEM'' = ''input''"
  "map_of (ps5_event env mac e p) ''DEVNAME'' = Some (input_node_path p)"
  "map_of (ps5_event env mac e p) ''ID_INPUT_TOUCHPAD'' = (if has_sub ''Touchpad'' (device_name env e) then Some ''1'' else None)"
  "gen_udev_hw_db_filename env (input_node_path p) = numbered (ps5_event env mac e p)"
  by (simp_all add: ps5_event_def event_lookup Let_def numbered_base)

lemma hidraw_event_lookup:
  "\<lbrakk>hidraw_events env sys_nodes = Some evs; ev \<in> set evs\<rbrakk> \<Longrightarrow>
     property ev ''SUBSYSTEM'' = ''hidraw'' \<and> map_of ev ''ID_INPUT_TOUCHPAD'' = None"
  by (auto simp: hidraw_events_def event_lookup Let_def split: list.splits if_splits)

definition uinput_joypad :: "virtual_device \<Rightarrow> bool" where
  "uinput_joypad dev = (case dev of Virtual_xbox _ _ \<Rightarrow> True | Virtual_switch _ _ \<Rightarrow> True | _ \<Rightarrow> False)"

text \<open>The events and the hardware database of a device fit together. Except for the joypads of
  uinput (whose jsX node has an event and no file), the files that are written are named after the
  numbers of exactly the input nodes that are announced, in the same order; the raw nodes of a
  DualSense, which are no input devices, are announced without a file.
\<close>

theorem hw_db_fits_events:
  assumes "get_udev_events env dev = Some evs" and "get_udev_hw_db_entries env dev = Some db"
    and "\<not> uinput_joypad dev"
  shows "map fst db = map numbered (filter (\<lambda>ev. property ev ''SUBSYSTEM'' = ''input'') evs)"
proof (cases dev)
  case (Virtual_ps5 sys_nodes mac)
  then obtain es hs where es: "for_input_nodes env (ps5_event env mac) sys_nodes = Some es"
    and hs: "hidraw_events env sys_nodes = Some hs" "evs = es @ hs"
    using assms(1) by (auto simp: ps5_udev_events_def split: option.splits)
  have db: "for_input_nodes env (ps5_hw_db_entry env) sys_nodes = Some db"
    using assms(2) Virtual_ps5 by (simp add: ps5_hw_db_entries_def)
  have "filter (\<lambda>ev. property ev ''SUBSYSTEM'' = ''input'') hs = []"
    using hidraw_event_lookup [OF hs(1)] by (auto simp: filter_empty_conv)
  moreover have "filter (\<lambda>ev. property ev ''SUBSYSTEM'' = ''input'') es = es"
    unfolding for_input_nodes_Some [OF es] by (auto simp: filter_id_conv ps5_event_lookup)
  moreover have "map fst db = map numbered es"
    unfolding for_input_nodes_Some [OF es] for_input_nodes_Some [OF db]
    by (simp add: map_concat comp_def ps5_hw_db_entry_def Let_def ps5_event_lookup(4) [symmetric])
  ultimately show ?thesis using hs(2) by simp
qed (use assms in \<open>auto simp: uinput_joypad_def mouse_udev_events_def mouse_hw_db_entries_def keyboard_udev_events_def
    keyboard_hw_db_entries_def touchscreen_udev_events_def touchscreen_hw_db_entries_def pentablet_udev_events_def
    pentablet_hw_db_entries_def trackpad_udev_events_def trackpad_hw_db_entries_def optional_def node_hw_db_def
    event_lookup numbered_base split: option.splits\<close>)


lemma touchpads_append:
  "touchpad_nodes xs = Inr ns \<Longrightarrow> touchpad_nodes (xs @ ys) = map_sum id ((@) ns) (touchpad_nodes ys)"
proof (induction xs arbitrary: ns)
  case Nil
  then show ?case by (cases "touchpad_nodes ys") auto
next
  case (Cons x xs)
  then obtain ms where ms: "touchpad_nodes xs = Inr ms"
    by (auto split: if_splits option.splits)
  show ?case
    using Cons.prems Cons.IH [OF ms] ms
    by (cases "touchpad_nodes ys") (auto split: if_splits option.splits)
qed

lemma touchpads_none: "\<forall>ev \<in> set xs. map_of ev ''ID_INPUT_TOUCHPAD'' = None \<Longrightarrow> touchpad_nodes xs = Inr []"
  by (induction xs) auto

lemma touchpads_of_entry:
  "touchpad_nodes (map (ps5_event env mac e) ps) =
     Inr (if has_sub ''Touchpad'' (device_name env e) then map input_node_path ps else [])"
  by (induction ps) (auto simp: ps5_event_lookup)

text \<open>The touchpad of a DualSense. What the input handler looks for among the events of a new
  joypad, in order to hand it to the compositor, are exactly the nodes of its device that is called
  a touchpad; the look-up of their \<open>DEVNAME\<close>, which throws when there is none, never does.
\<close>

theorem touchpad_of_dualsense:
  assumes "get_udev_events env (Virtual_ps5 sys_nodes mac) = Some evs"
  shows "touchpad_nodes evs =
    Inr (map input_node_path (concat (map (\<lambda>e. filter (is_input_node env) (the (ui_directory env e)))
      (filter (\<lambda>e. has_sub ''Touchpad'' (device_name env e)) sys_nodes))))"
proof -
  obtain es hs where es: "for_input_nodes env (ps5_event env mac) sys_nodes = Some es"
    and hs: "hidraw_events env sys_nodes = Some hs" "evs = es @ hs"
    using assms by (auto simp: ps5_udev_events_def split: option.splits)
  have "touchpad_nodes es = Inr (map input_node_path (concat (map (\<lambda>e. filter (is_input_node env) (the (ui_directory env e)))
      (filter (\<lambda>e. has_sub ''Touchpad'' (device_name env e)) sys_nodes))))"
    unfolding for_input_nodes_Some [OF es] by (induction sys_nodes) (simp_all add: touchpads_append touchpads_of_entry)
  moreover have "touchpad_nodes hs = Inr []"
    using hidraw_event_lookup [OF hs(1)] by (intro touchpads_none) blast
  ultimately show ?thesis using hs(2) by (simp add: touchpads_append)
qed


subsection \<open>A device with a touchpad\<close>

text \<open>The sensors of the example are left out: one device for the pad and one for the touchpad.\<close>

definition demo_uinput :: uinput_env where
  "demo_uinput =
     \<lparr>ui_stat = (\<lambda>p. if p = ''/dev/input/event8'' then Some (True, 13, 72)
                    else if p = ''/dev/input/js0'' then Some (True, 13, 0)
                    else if p = ''/dev/input/event9'' then Some (True, 13, 73) else None),
      ui_seconds = 1700000000,
      ui_directory = (\<lambda>d. if d = ''/sys/d/input/input1'' then
            Some [''/sys/d/input/input1/event8'', ''/sys/d/input/input1/js0'', ''/sys/d/input/input1/power'']
          else if d = ''/sys/d/input/input2'' then Some [''/sys/d/input/input2/event9''] else None),
      ui_is_directory = (\<lambda>_. True), ui_exists = (\<lambda>_. False),
      ui_first_line = (\<lambda>p. if p = ''/sys/d/input/input2/name'' then ''Wolf DualSense Touchpad'' else ''Wolf DualSense'')\<rparr>"

definition demo_ps5 :: virtual_device where
  "demo_ps5 = Virtual_ps5 [''/sys/d/input/input1'', ''/sys/d/input/input2''] ''00:11''"

lemma demo_input_nodes:
  "is_input_node demo_uinput ''/sys/d/input/input1/event8''" "is_input_node demo_uinput ''/sys/d/input/input1/js0''"
  "\<not> is_input_node demo_uinput ''/sys/d/input/input1/power''" "is_input_node demo_uinput ''/sys/d/input/input2/event9''"
  by (simp_all add: is_input_node_def demo_uinput_def path_filename_def)

lemma demo_names:
  "has_sub ''Touchpad'' (device_name demo_uinput ''/sys/d/input/input1'') = False"
  "has_sub ''Touchpad'' (device_name demo_uinput ''/sys/d/input/input2'') = True"
  by (simp_all add: device_name_def demo_uinput_def path_join_def)

lemma demo_events: "get_udev_events demo_uinput demo_ps5 \<noteq> None" "get_udev_hw_db_entries demo_uinput demo_ps5 \<noteq> None"
proof -
  have "ui_exists demo_uinput p = False" for p by (simp add: demo_uinput_def)
  then have "hidraw_events demo_uinput [''/sys/d/input/input1'', ''/sys/d/input/input2''] = Some []"
    by (simp add: hidraw_events_def Let_def)
  moreover have "ui_directory demo_uinput ''/sys/d/input/input1'' \<noteq> None" "ui_directory demo_uinput ''/sys/d/input/input2'' \<noteq> None"
    by (simp_all add: demo_uinput_def)
  ultimately show "get_udev_events demo_uinput demo_ps5 \<noteq> None" "get_udev_hw_db_entries demo_uinput demo_ps5 \<noteq> None"
    by (auto simp: demo_ps5_def ps5_udev_events_def ps5_hw_db_entries_def for_input_nodes_def)
qed

lemma hw_db_fits_events_witness:
  "\<exists>evs db. get_udev_events demo_uinput demo_ps5 = Some evs \<and> get_udev_hw_db_entries demo_uinput demo_ps5 = Some db \<and>
     map fst db = map numbered (filter (\<lambda>ev. property ev ''SUBSYSTEM'' = ''input'') evs)"
  using demo_events hw_db_fits_events [of demo_uinput demo_ps5] by (auto simp: uinput_joypad_def demo_ps5_def)

lemma touchpad_of_dualsense_witness:
  "\<exists>evs. get_udev_events demo_uinput demo_ps5 = Some evs \<and> touchpad_nodes evs = Inr [''/dev/input/event9'']"
proof -
  obtain evs where evs: "get_udev_events demo_uinput demo_ps5 = Some evs" using demo_events by auto
  have "ui_directory demo_uinput ''/sys/d/input/input2'' = Some [''/sys/d/input/input2/event9'']"
    by (simp add: demo_uinput_def)
  then have "touchpad_nodes evs = Inr [''/dev/input/event9'']"
    using touchpad_of_dualsense [OF evs [unfolded demo_ps5_def]] demo_input_nodes demo_names
    by (simp add: input_node_path_def path_filename_def path_join_def)
  with evs show ?thesis by blast
qed

text \<open>
  A queue that ends without a synchronisation event gives its last event twice: after the failure
  that ends the loop the variable still holds it.
\<close>

fun demo_queue :: "evdev_event list next_event" where
  "demo_queue _ [] = ((- 11, None), [])"
| "demo_queue _ (e # es) = ((0, Some e), es)"

theorem fetch_events_repeats_last:
  "fetch_events demo_queue 50 [\<lparr>ev_type = 1, ev_code = 30, ev_value = 1\<rparr>] =
     ([\<lparr>ev_type = 1, ev_code = 30, ev_value = 1\<rparr>, \<lparr>ev_type = 1, ev_code = 30, ev_value = 1\<rparr>], [])"
proof -
  have "fetch_loop demo_queue (Suc (Suc n)) 0 e [] = (if ev_type e \<noteq> EV_SYN then [e] else [], [])" for n e
    by (simp add: written_def LIBEVDEV_READ_STATUS_SUCCESS_def LIBEVDEV_READ_STATUS_SYNC_def)
  from this [of 47] show ?thesis
    by (simp add: fetch_events_def written_def LIBEVDEV_READ_STATUS_SUCCESS_def EV_SYN_def Let_def)
qed

end
