(* ===== verification/Host_Identity.thy ===== *)
theory Host_Identity
  imports Crypto
begin

section \<open>The identity of the host: x509.cpp and the start of wolf.cpp\<close>

text \<open>
  The key and the certificate by which clients recognise the host: made on the first start, written
  to two files, and read again on every later start (\<open>get_host_config\<close>). The file system is a map
  from names to contents, with what opening and writing a file answers as parameters; a null pointer
  where OpenSSL could not read a file is \<open>None\<close>. A key is of any type; its text (PEM) is what OpenSSL
  writes and reads.
\<close>

subsection \<open>Keys and certificates\<close>

text \<open>What the calls of OpenSSL answer; the bits of the key are set before it is made.\<close>

record 'key keygen_calls =
  kc_pkey_new :: bool
  kc_ctx_new :: bool
  kc_keygen_init :: int
  kc_set_bits :: "nat \<Rightarrow> int"
  kc_keygen :: "nat \<Rightarrow> int \<times> 'key"

definition RSA_BITS :: nat where "RSA_BITS = 2048"

definition generate_key :: "'key keygen_calls \<Rightarrow> string + 'key" where
  "generate_key calls =
     (if \<not> kc_pkey_new calls then Inl ''Unable to create EVP_PKEY structure.''
      else if \<not> kc_ctx_new calls then Inl ''Unable to generate 2048-bit RSA key.''
      else if kc_keygen_init calls \<le> 0 then Inl ''Unable to generate 2048-bit RSA key.''
      else if kc_set_bits calls RSA_BITS \<le> 0 then Inl ''Unable to generate 2048-bit RSA key.''
      else (case kc_keygen calls RSA_BITS of
              (ret, pkey) \<Rightarrow> if ret \<le> 0 then Inl ''Unable to generate 2048-bit RSA key.'' else Inr pkey))"

text \<open>The times are seconds from the moment it is made; version 2 is what X.509 calls v3.\<close>

record 'key certificate =
  ce_serial :: nat
  ce_version :: nat
  ce_not_before :: int
  ce_not_after :: int
  ce_public_key :: 'key
  ce_subject :: "(string \<times> string) list"
  ce_issuer :: "(string \<times> string) list"
  ce_signed_by :: "'key option"

definition valid_years :: int where "valid_years = 630720000"

definition generate_x509 :: "bool \<Rightarrow> ('key certificate \<Rightarrow> 'key \<Rightarrow> bool) \<Rightarrow> 'key \<Rightarrow> string + 'key certificate" where
  "generate_x509 x509_new signs pkey =
     (if \<not> x509_new then Inl ''Unable to create X509 structure.''
      else let name = [(''C'', ''IT''), (''O'', ''GamesOnWhales''), (''CN'', ''localhost'')];
               x509 = \<lparr>ce_serial = 1, ce_version = 2, ce_not_before = 0, ce_not_after = valid_years,
                       ce_public_key = pkey, ce_subject = name, ce_issuer = name, ce_signed_by = None\<rparr>
           in if signs x509 pkey then Inr (x509\<lparr>ce_signed_by := Some pkey\<rparr>) else Inl ''Error signing certificate.'')"

subsection \<open>Text\<close>

text \<open>PEM as OpenSSL writes and reads it.\<close>

record 'key pem =
  pm_write_key :: "'key \<Rightarrow> string"
  pm_write_public_key :: "'key \<Rightarrow> string"
  pm_write_cert :: "'key certificate \<Rightarrow> string"
  pm_read_key :: "string \<Rightarrow> 'key option"
  pm_read_cert :: "string \<Rightarrow> 'key certificate option"

text \<open>\<open>BIO_puts\<close> takes the text up to its first NUL.\<close>

definition cert_from_string :: "'key pem \<Rightarrow> string \<Rightarrow> 'key certificate option" where
  "cert_from_string pem cert = pm_read_cert pem (takeWhile (\<lambda>c. c \<noteq> CHR 0x00) cert)"

definition get_cert_pem :: "'key pem \<Rightarrow> 'key certificate \<Rightarrow> string" where
  "get_cert_pem pem cert = pm_write_cert pem cert"

definition get_key_content :: "'key pem \<Rightarrow> 'key \<Rightarrow> bool \<Rightarrow> string" where
  "get_key_content pem pkey private_key = (if private_key then pm_write_key pem pkey else pm_write_public_key pem pkey)"

definition get_pkey_content :: "'key pem \<Rightarrow> 'key \<Rightarrow> string" where
  "get_pkey_content pem pkey = get_key_content pem pkey True"

text \<open>\<open>X509_get_pubkey\<close> may fail to decode the key of a certificate.\<close>

definition get_cert_public_key :: "'key pem \<Rightarrow> ('key certificate \<Rightarrow> 'key option) \<Rightarrow> 'key certificate \<Rightarrow> string" where
  "get_cert_public_key pem get_pubkey cert =
     (case get_pubkey cert of None \<Rightarrow> [] | Some pkey \<Rightarrow> get_key_content pem pkey False)"

subsection \<open>Files\<close>

text \<open>
  Opening an existing file for reading, for reading and writing (what \<open>std::fstream\<close> asks for), or
  any file for writing, which empties it; writing stores a text, the given one when it succeeds.
\<close>

type_synonym files = "string \<Rightarrow> string option"

record file_calls =
  fc_readable :: "string \<Rightarrow> bool"
  fc_read_write :: "string \<Rightarrow> bool"
  fc_creatable :: "string \<Rightarrow> bool"
  fc_write :: "string \<Rightarrow> string \<Rightarrow> bool \<times> string"

definition cert_exists :: "file_calls \<Rightarrow> files \<Rightarrow> string \<Rightarrow> string \<Rightarrow> bool" where
  "cert_exists calls fs pkey_filename cert_filename \<longleftrightarrow>
     (fs pkey_filename \<noteq> None \<and> fc_read_write calls pkey_filename) \<and>
     (fs cert_filename \<noteq> None \<and> fc_read_write calls cert_filename)"

definition cert_from_file :: "'key pem \<Rightarrow> file_calls \<Rightarrow> files \<Rightarrow> string \<Rightarrow> string + 'key certificate option" where
  "cert_from_file pem calls fs cert_path =
     (case fs cert_path of
        Some content \<Rightarrow> if fc_readable calls cert_path then Inr (pm_read_cert pem content) else Inl ''Error reading certificate''
      | None \<Rightarrow> Inl ''Error reading certificate'')"

definition pkey_from_file :: "'key pem \<Rightarrow> file_calls \<Rightarrow> files \<Rightarrow> string \<Rightarrow> string + 'key option" where
  "pkey_from_file pem calls fs pkey_path =
     (case fs pkey_path of
        Some content \<Rightarrow> if fc_readable calls pkey_path then Inr (pm_read_key pem content) else Inl ''Error reading private key''
      | None \<Rightarrow> Inl ''Error reading private key'')"

text \<open>\<open>write_to_disk\<close>: the files as they are when it returns or throws.\<close>

definition write_to_disk ::
    "'key pem \<Rightarrow> file_calls \<Rightarrow> 'key \<Rightarrow> string \<Rightarrow> 'key certificate \<Rightarrow> string \<Rightarrow> files \<Rightarrow> files \<times> string option" where
  "write_to_disk pem calls pkey pkey_filename x509 cert_filename fs =
     (if \<not> fc_creatable calls pkey_filename then (fs, Some ''Unable write file to disk.'')
      else case fc_write calls pkey_filename (pm_write_key pem pkey) of (ret, written) \<Rightarrow>
        let fs1 = fs(pkey_filename \<mapsto> written) in
        if \<not> ret then (fs1, Some ''Unable to write file to disk.'')
        else if \<not> fc_creatable calls cert_filename then (fs1, Some ''Unable to write file to disk.'')
        else case fc_write calls cert_filename (pm_write_cert pem x509) of (ret2, written2) \<Rightarrow>
          (fs1(cert_filename \<mapsto> written2), if ret2 then None else Some ''Unable to write {} to disk.''))"

subsection \<open>The start\<close>

record 'key identity_env =
  id_keygen :: "'key keygen_calls"
  id_x509_new :: bool
  id_signs :: "'key certificate \<Rightarrow> 'key \<Rightarrow> bool"
  id_pem :: "'key pem"
  id_files :: file_calls

text \<open>The first part of \<open>get_host_config\<close>: the files, and what it throws or the two pointers.\<close>

definition server_identity ::
    "'key identity_env \<Rightarrow> string \<Rightarrow> string \<Rightarrow> files \<Rightarrow> files \<times> (string + 'key option \<times> 'key certificate option)" where
  "server_identity env pkey_filename cert_filename fs =
     (if cert_exists (id_files env) fs pkey_filename cert_filename
      then (fs, case cert_from_file (id_pem env) (id_files env) fs cert_filename of
                  Inl e \<Rightarrow> Inl e
                | Inr server_cert \<Rightarrow>
                    map_sum id (\<lambda>server_pkey. (server_pkey, server_cert))
                      (pkey_from_file (id_pem env) (id_files env) fs pkey_filename))
      else (case generate_key (id_keygen env) of
              Inl e \<Rightarrow> (fs, Inl e)
            | Inr server_pkey \<Rightarrow>
                (case generate_x509 (id_x509_new env) (id_signs env) server_pkey of
                   Inl e \<Rightarrow> (fs, Inl e)
                 | Inr server_cert \<Rightarrow>
                     (case write_to_disk (id_pem env) (id_files env) server_pkey pkey_filename server_cert cert_filename fs of
                        (fs', Some e) \<Rightarrow> (fs', Inl e)
                      | (fs', None) \<Rightarrow> (fs', Inr (Some server_pkey, Some server_cert))))))"

subsection \<open>Properties\<close>

text \<open>What OpenSSL documents of its two pairs of functions, and a file system that keeps what it wrote.\<close>

definition host_certificate :: "'key \<Rightarrow> 'key certificate" where
  "host_certificate k =
     (let name = [(''C'', ''IT''), (''O'', ''GamesOnWhales''), (''CN'', ''localhost'')]
      in \<lparr>ce_serial = 1, ce_version = 2, ce_not_before = 0, ce_not_after = 630720000,
          ce_public_key = k, ce_subject = name, ce_issuer = name, ce_signed_by = Some k\<rparr>)"

definition pem_inverse :: "'key pem \<Rightarrow> bool" where
  "pem_inverse pem \<longleftrightarrow>
     (\<forall>k. pm_read_key pem (pm_write_key pem k) = Some k) \<and>
     (\<forall>k. pm_read_cert pem (pm_write_cert pem (host_certificate k)) = Some (host_certificate k))"

definition files_faithful :: "file_calls \<Rightarrow> bool" where
  "files_faithful calls \<longleftrightarrow> (\<forall>name text. fst (fc_write calls name text) \<longrightarrow> snd (fc_write calls name text) = text)"

lemma write_to_disk_done:
  assumes "write_to_disk pem calls k pf c cf fs = (fs', None)" "files_faithful calls" "pf \<noteq> cf"
  shows "fs' pf = Some (pm_write_key pem k)" "fs' cf = Some (pm_write_cert pem c)"
proof -
  have "fc_write calls name t = (True, w) \<Longrightarrow> w = t" for name t w
    using assms(2) by (metis files_faithful_def fst_conv snd_conv)
  then show "fs' pf = Some (pm_write_key pem k)" "fs' cf = Some (pm_write_cert pem c)"
    using assms(1,3) by (auto simp: write_to_disk_def Let_def split: if_splits prod.splits)
qed

lemma generate_x509_fields:
  "generate_x509 x509_new signs k = Inr c \<Longrightarrow> c = host_certificate k"
  by (auto simp: generate_x509_def host_certificate_def valid_years_def Let_def split: if_splits)


lemma first_start:
  assumes "server_identity env pf cf fs = (fs1, Inr (key, cert))" "\<not> cert_exists (id_files env) fs pf cf"
  obtains k c where "key = Some k" "cert = Some c" "generate_x509 (id_x509_new env) (id_signs env) k = Inr c"
    "write_to_disk (id_pem env) (id_files env) k pf c cf fs = (fs1, None)"
  using assms by (auto simp: server_identity_def split: sum.splits prod.splits option.splits)

definition opens_both :: "'key identity_env \<Rightarrow> string \<Rightarrow> string \<Rightarrow> bool" where
  "opens_both env pf cf \<longleftrightarrow> (\<forall>name \<in> {pf, cf}. fc_readable (id_files env) name \<and> fc_read_write (id_files env) name)"

lemma later_start:
  assumes "fs pf = Some (pm_write_key pem k)" "fs cf = Some (pm_write_cert pem (host_certificate k))"
    "pem_inverse pem" "id_pem env = pem" "opens_both env pf cf"
  shows "server_identity env pf cf fs = (fs, Inr (Some k, Some (host_certificate k)))"
  using assms
  by (simp add: server_identity_def cert_exists_def cert_from_file_def pkey_from_file_def opens_both_def pem_inverse_def)

text \<open>The starts of the server one after the other: what each of them gets.\<close>

primrec starts :: "'key identity_env list \<Rightarrow> string \<Rightarrow> string \<Rightarrow> files \<Rightarrow> (string + 'key option \<times> 'key certificate option) list" where
  "starts [] pf cf fs = []"
| "starts (env # envs) pf cf fs = (case server_identity env pf cf fs of (fs', r) \<Rightarrow> r # starts envs pf cf fs')"

text \<open>C18: The host keeps its identity. Once a start has made and stored the key and the certificate, every
  later start that can open the two files gets the same ones, whatever it could generate, so that a
  client that trusts the host goes on trusting it; the certificate is for that key and signed by it.\<close>
theorem identity_survives_restarts:
  assumes "\<not> cert_exists (id_files env) fs pf cf" and "server_identity env pf cf fs = (fs1, Inr (key, cert))"
    and "pem_inverse (id_pem env)" and "files_faithful (id_files env)" and "pf \<noteq> cf"
    and "\<forall>e \<in> set envs. id_pem e = id_pem env \<and> opens_both e pf cf"
  shows "\<exists>k. key = Some k \<and> cert = Some (host_certificate k) \<and>
    starts (env # envs) pf cf fs = replicate (Suc (length envs)) (Inr (Some k, Some (host_certificate k)))"
proof -
  obtain k c where kc: "key = Some k" "cert = Some c" "generate_x509 (id_x509_new env) (id_signs env) k = Inr c"
    and stored: "write_to_disk (id_pem env) (id_files env) k pf c cf fs = (fs1, None)"
    by (rule first_start [OF assms(2,1)])
  have c: "c = host_certificate k" using kc(3) by (rule generate_x509_fields)
  note disk = write_to_disk_done [OF stored assms(4,5), unfolded c]
  have "starts envs pf cf fs1 = replicate (length envs) (Inr (Some k, Some (host_certificate k)))"
    using assms(6)
  proof (induction envs)
    case (Cons e envs)
    then have "server_identity e pf cf fs1 = (fs1, Inr (Some k, Some (host_certificate k)))"
      by (intro later_start [OF disk assms(3)]) simp_all
    with Cons show ?case by simp
  qed simp
  then show ?thesis using kc(1,2) c assms(2) by simp
qed

text \<open>A host whose PEM text of key \<open>n\<close> is \<open>n\<close> times a letter, and whose disk works.\<close>

definition demo_identity :: "nat \<Rightarrow> nat identity_env" where
  "demo_identity n =
     \<lparr>id_keygen = \<lparr>kc_pkey_new = True, kc_ctx_new = True, kc_keygen_init = 1, kc_set_bits = (\<lambda>_. 1), kc_keygen = (\<lambda>_. (1, n))\<rparr>,
      id_x509_new = True, id_signs = (\<lambda>_ _. True),
      id_pem = \<lparr>pm_write_key = (\<lambda>k. replicate k (CHR ''K'')), pm_write_public_key = (\<lambda>k. replicate k (CHR ''P'')),
        pm_write_cert = (\<lambda>c. replicate (ce_public_key c) (CHR ''C'')), pm_read_key = (\<lambda>t. Some (length t)),
        pm_read_cert = (\<lambda>t. Some (host_certificate (length t)))\<rparr>,
      id_files = \<lparr>fc_readable = (\<lambda>_. True), fc_read_write = (\<lambda>_. True), fc_creatable = (\<lambda>_. True), fc_write = (\<lambda>_ t. (True, t))\<rparr>\<rparr>"

lemma demo_identity_ok: "pem_inverse (id_pem (demo_identity n))" "files_faithful (id_files (demo_identity n))"
    "opens_both (demo_identity n) pf cf" "id_pem (demo_identity n) = id_pem (demo_identity m)"
  by (simp_all add: demo_identity_def pem_inverse_def files_faithful_def opens_both_def host_certificate_def Let_def)

lemma demo_first_start:
  "\<exists>fs1 key cert. server_identity (demo_identity 3) ''key.pem'' ''cert.pem'' (\<lambda>_. None) = (fs1, Inr (key, cert)) \<and> key = Some 3"
  by (simp add: server_identity_def demo_identity_def cert_exists_def generate_key_def generate_x509_def write_to_disk_def Let_def)

theorem identity_survives_restarts_witness:
  "starts [demo_identity 3, demo_identity 4, demo_identity 5] ''key.pem'' ''cert.pem'' (\<lambda>_. None) =
     replicate 3 (Inr (Some 3, Some (host_certificate 3)))"
proof -
  obtain fs1 key cert where start:
    "server_identity (demo_identity 3) ''key.pem'' ''cert.pem'' (\<lambda>_. None) = (fs1, Inr (key, cert))" "key = Some 3"
    using demo_first_start by blast
  have "\<not> cert_exists (id_files (demo_identity 3)) (\<lambda>_. None) ''key.pem'' ''cert.pem''" by (simp add: cert_exists_def)
  moreover have "\<forall>e \<in> set [demo_identity 4, demo_identity 5].
      id_pem e = id_pem (demo_identity 3) \<and> opens_both e ''key.pem'' ''cert.pem''"
    using demo_identity_ok(3,4) by simp
  ultimately show ?thesis
    using identity_survives_restarts [OF _ start(1), of "[demo_identity 4, demo_identity 5]"] demo_identity_ok(1,2) start(2)
    by (auto simp: numeral_3_eq_3)
qed

text \<open>
  Two starts that go wrong. Files that exist but cannot be opened for writing are taken as absent, and
  the attempt to write new ones ends the server. And a certificate that could not be written whole is
  still a file: the next start takes it and goes on without a certificate.
\<close>

lemma read_only_files_throw:
  assumes "\<not> fc_read_write (id_files env) pf" "\<not> fc_creatable (id_files env) pf"
    "generate_key (id_keygen env) = Inr k" "generate_x509 (id_x509_new env) (id_signs env) k = Inr c"
  shows "server_identity env pf cf fs = (fs, Inl ''Unable write file to disk.'')"
  using assms by (simp add: server_identity_def cert_exists_def write_to_disk_def)

lemma half_written_certificate:
  assumes "write_to_disk pem calls k pf c cf fs = (fs1, Some ''Unable to write {} to disk.'')"
    and "fc_read_write calls pf" "fc_read_write calls cf" "fc_readable calls pf" "fc_readable calls cf"
    and "\<And>content. fc_write calls cf (pm_write_cert pem c) = (False, content) \<Longrightarrow> pm_read_cert pem content = None"
    and "id_pem env = pem" "id_files env = calls" "pf \<noteq> cf"
  shows "\<exists>key. server_identity env pf cf fs1 = (fs1, Inr (key, None))"
proof -
  obtain w1 w2 where w: "fc_write calls cf (pm_write_cert pem c) = (False, w2)" "fs1 = fs(pf \<mapsto> w1, cf \<mapsto> w2)"
    using assms(1) by (auto simp: write_to_disk_def Let_def split: if_splits prod.splits)
  then show ?thesis
    using assms by (simp add: server_identity_def cert_exists_def cert_from_file_def pkey_from_file_def)
qed

end
