(* ===== verification/Video_Context.thy ===== *)
theory Video_Context
  imports Hardware "HOL-Library.Char_ord" "HOL-Library.List_Lexorder"
begin

section \<open>The video context of a session: gst-video-context, streaming.cpp\<close>

text \<open>
  Which CUDA device encodes what a graphics card renders, and how the pipelines of a session come to
  share one context: a pipeline that needs one asks on its message bus, the first answer is kept in an
  atom of the session, the later ones are taken from it. Also from streaming.cpp: the message by which
  the compositor says that its display is ready. The kernel's files, the constructor of a CUDA context
  and the messages are parameters.
\<close>

subsection \<open>From the node of a card to the number of its CUDA device\<close>

record context_env =
  vc_stat :: "string \<Rightarrow> (nat \<times> nat) option"
  vc_symlink :: "string \<Rightarrow> string option"
  vc_first_line :: "string \<Rightarrow> string option"
  vc_directory :: "string \<Rightarrow> (string \<times> bool) list option"

definition getPciBusIdFromDri :: "context_env \<Rightarrow> string \<Rightarrow> string option" where
  "getPciBusIdFromDri env driPath =
     (case vc_stat env driPath of
        None \<Rightarrow> None
      | Some (major, minor) \<Rightarrow>
          (case vc_symlink env (''/sys/dev/char/'' @ dec major @ '':'' @ dec minor @ ''/device'') of
             None \<Rightarrow> None
           | Some deviceLink \<Rightarrow>
               let busId = path_filename deviceLink
               in if length busId < 7 \<or> CHR '':'' \<notin> set busId then None else Some busId))"

definition isNvidiaGpu :: "context_env \<Rightarrow> string \<Rightarrow> bool" where
  "isNvidiaGpu env pciBusId \<longleftrightarrow>
     (case vc_first_line env (''/sys/bus/pci/devices/'' @ pciBusId @ ''/vendor'') of
        None \<Rightarrow> False
      | Some vendor \<Rightarrow> vendor = ''0x10de'')"

definition to_lower :: "char \<Rightarrow> char" where
  "to_lower c = (if 65 \<le> (of_char c :: nat) \<and> (of_char c :: nat) \<le> 90 then char_of (of_char c + 32 :: nat) else c)"

definition normalize_bus_id :: "string \<Rightarrow> string" where
  "normalize_bus_id value = map to_lower value"

fun index_of_target :: "string \<Rightarrow> nat \<Rightarrow> (string \<times> string) list \<Rightarrow> nat option" where
  "index_of_target target index [] = None"
| "index_of_target target index ((_, n) # gpuBusIds) =
     (if n = target then Some index else index_of_target target (Suc index) gpuBusIds)"

text \<open>The entries of the folder are listed in no particular order.\<close>

definition gpu_bus_ids :: "(string \<times> bool) list \<Rightarrow> (string \<times> string) list" where
  "gpu_bus_ids entries = map (\<lambda>(p, _). (path_filename p, normalize_bus_id (path_filename p))) (filter snd entries)"

definition getCudaDeviceIndexFromPciBusId :: "context_env \<Rightarrow> string \<Rightarrow> nat option" where
  "getCudaDeviceIndexFromPciBusId env pciBusId =
     (case vc_directory env ''/proc/driver/nvidia/gpus'' of
        None \<Rightarrow> None
      | Some entries \<Rightarrow>
          let gpuBusIds = gpu_bus_ids entries
          in if gpuBusIds = [] then None
             else index_of_target (normalize_bus_id pciBusId) 0 (sort_key snd gpuBusIds))"

definition getCudaDeviceFromDri :: "context_env \<Rightarrow> string \<Rightarrow> nat option" where
  "getCudaDeviceFromDri env driPath =
     (case getPciBusIdFromDri env driPath of
        None \<Rightarrow> None
      | Some pciBusId \<Rightarrow> if isNvidiaGpu env pciBusId then getCudaDeviceIndexFromPciBusId env pciBusId else None)"

subsection \<open>The context\<close>

text \<open>A device that is not found is number 0.\<close>

definition create_cuda_context :: "context_env \<Rightarrow> (nat \<Rightarrow> 'c option) \<Rightarrow> string \<Rightarrow> 'c option" where
  "create_cuda_context env cuda_context_new device_path =
     cuda_context_new (case getCudaDeviceFromDri env device_path of Some device_id \<Rightarrow> device_id | None \<Rightarrow> 0)"

definition GST_CUDA_CONTEXT_TYPE :: string where "GST_CUDA_CONTEXT_TYPE = ''gst.cuda.context''"

text \<open>A message on the bus of a pipeline: the element that needs a context, and of what type.\<close>

datatype pipeline_message = Need_context string string | Other_message

fun set_context :: "'c \<Rightarrow> pipeline_message \<Rightarrow> bool \<times> (string \<times> 'c) list" where
  "set_context context (Need_context src context_type) =
     (if context_type = GST_CUDA_CONTEXT_TYPE then (True, [(src, context)]) else (False, []))"
| "set_context context Other_message = (False, [])"

fun need_context_for_device ::
    "context_env \<Rightarrow> (nat \<Rightarrow> 'c option) \<Rightarrow> string \<Rightarrow> pipeline_message \<Rightarrow> 'c option \<times> (string \<times> 'c) list" where
  "need_context_for_device env cuda_context_new device_path (Need_context src context_type) =
     (if context_type = GST_CUDA_CONTEXT_TYPE
      then (case create_cuda_context env cuda_context_new device_path of
              None \<Rightarrow> (None, [])
            | Some context \<Rightarrow> (Some context, [(src, context)]))
      else (None, []))"
| "need_context_for_device env cuda_context_new device_path Other_message = (None, [])"

text \<open>The handler of a session: its atom, and what was given to which element.\<close>

definition need_context_handler ::
    "context_env \<Rightarrow> (nat \<Rightarrow> 'c option) \<Rightarrow> string \<Rightarrow> pipeline_message \<Rightarrow> 'c option \<Rightarrow> 'c option \<times> (string \<times> 'c) list" where
  "need_context_handler env cuda_context_new device_path msg gst_context =
     (case gst_context of
        Some context \<Rightarrow> (Some context, snd (set_context context msg))
      | None \<Rightarrow>
          (case need_context_for_device env cuda_context_new device_path msg of
             (Some video_context, given) \<Rightarrow> (Some video_context, given)
           | (None, given) \<Rightarrow> (None, given)))"

definition bus_sync_handler ::
    "context_env \<Rightarrow> (nat \<Rightarrow> 'c option) \<Rightarrow> string \<Rightarrow> pipeline_message \<Rightarrow> 'c option \<Rightarrow> 'c option \<times> (string \<times> 'c) list" where
  "bus_sync_handler env cuda_context_new device_path msg gst_context =
     (if msg = Other_message then (gst_context, [])
      else need_context_handler env cuda_context_new device_path msg gst_context)"

text \<open>The messages of all pipelines of a session, one after the other; each pipeline names its device.\<close>

fun run_contexts ::
    "context_env \<Rightarrow> (nat \<Rightarrow> 'c option) \<Rightarrow> (string \<times> pipeline_message) list \<Rightarrow> 'c option \<Rightarrow> 'c option \<times> (string \<times> 'c) list" where
  "run_contexts env cuda_context_new [] gst_context = (gst_context, [])"
| "run_contexts env cuda_context_new ((device_path, msg) # msgs) gst_context =
     (case bus_sync_handler env cuda_context_new device_path msg gst_context of
        (gst_context', given) \<Rightarrow>
          (case run_contexts env cuda_context_new msgs gst_context' of (gst_context'', given') \<Rightarrow> (gst_context'', given @ given')))"

subsection \<open>The display is ready\<close>

text \<open>
  The fields of the message \<open>wayland.src\<close>, of which one is the name of the socket: the promise is
  kept. A field that is no text ends the walk; a promise that is kept already throws (\<open>None\<close>).
\<close>

fun structure_each :: "(string \<times> string option) list \<Rightarrow> string option \<Rightarrow> string option option" where
  "structure_each [] on_ready = Some on_ready"
| "structure_each ((field, None) # rows) on_ready = Some on_ready"
| "structure_each ((field, Some value) # rows) on_ready =
     (if field = ''WAYLAND_DISPLAY''
      then (if on_ready = None then structure_each rows (Some value) else None)
      else structure_each rows on_ready)"

definition application_message_handler :: "string \<Rightarrow> (string \<times> string option) list \<Rightarrow> string option \<Rightarrow> string option option" where
  "application_message_handler name rows on_ready = (if name = ''wayland.src'' then structure_each rows on_ready else Some on_ready)"

subsection \<open>Properties\<close>

lemma index_of_target_sorted:
  "sorted (map snd gs) \<Longrightarrow>
     index_of_target target i gs =
       (if target \<in> snd ` set gs then Some (i + length (filter (\<lambda>g. snd g < target) gs)) else None)"
proof (induction gs arbitrary: i)
  case (Cons g gs)
  obtain m n where g: "g = (m, n)" by (cases g)
  have le: "\<forall>h \<in> set gs. n \<le> snd h" using Cons.prems by (simp add: g)
  show ?case
  proof (cases "n = target")
    case True
    then have "filter (\<lambda>h. snd h < target) gs = []" using le by (auto simp: filter_empty_conv not_less)
    then show ?thesis using True by (simp add: g)
  next
    case False
    then have "\<not> n < target \<Longrightarrow> target \<notin> snd ` set gs" using le by force
    then show ?thesis using False Cons.IH [of "Suc i"] Cons.prems by (auto simp: g)
  qed
qed simp

lemma length_filter_sort_key: "length (filter P (sort_key f xs)) = length (filter P xs)"
  by (simp add: filter_sort)

text \<open>C37: The number of a CUDA device is the place of its bus address among those of all cards. Whatever
  the order in which the folder is listed, a card gets the number of cards whose address (without
  regard to case) is smaller, and one that is not among them gets none.\<close>
theorem cuda_index_spec:
  "getCudaDeviceIndexFromPciBusId env pciBusId =
     (case vc_directory env ''/proc/driver/nvidia/gpus'' of
        None \<Rightarrow> None
      | Some entries \<Rightarrow>
          let addresses = map (\<lambda>(p, _). normalize_bus_id (path_filename p)) (filter snd entries)
          in if normalize_bus_id pciBusId \<in> set addresses
             then Some (length (filter (\<lambda>a. a < normalize_bus_id pciBusId) addresses)) else None)"
proof (cases "vc_directory env ''/proc/driver/nvidia/gpus''")
  case (Some entries)
  let ?t = "normalize_bus_id pciBusId" and ?ids = "gpu_bus_ids entries"
  have addresses: "map (\<lambda>(p, _). normalize_bus_id (path_filename p)) (filter snd entries) = map snd ?ids"
    by (simp add: gpu_bus_ids_def comp_def case_prod_unfold)
  have "index_of_target ?t 0 (sort_key snd ?ids) =
      (if ?t \<in> snd ` set ?ids then Some (length (filter (\<lambda>g. snd g < ?t) ?ids)) else None)"
    using index_of_target_sorted [of "sort_key snd ?ids" ?t 0] by (simp add: length_filter_sort_key)
  then show ?thesis
    unfolding getCudaDeviceIndexFromPciBusId_def Some option.case addresses
    by (auto simp: Let_def filter_map comp_def)
qed (simp add: getCudaDeviceIndexFromPciBusId_def)

lemma run_contexts_kept:
  "run_contexts env new msgs (Some c) = (st, given) \<Longrightarrow> st = Some c \<and> (\<forall>g \<in> set given. snd g = c)"
proof (induction msgs arbitrary: st given)
  case (Cons m msgs)
  obtain d msg where m: "m = (d, msg)" by (cases m)
  obtain g1 where g1: "bus_sync_handler env new d msg (Some c) = (Some c, g1)" "\<forall>g \<in> set g1. snd g = c"
    by (cases msg) (auto simp: bus_sync_handler_def need_context_handler_def)
  obtain st2 g2 where rest: "run_contexts env new msgs (Some c) = (st2, g2)" by (cases "run_contexts env new msgs (Some c)")
  then have "given = g1 @ g2" "st = st2" using Cons.prems g1(1) by (auto simp: m)
  with Cons.IH [OF rest] g1(2) show ?case by (simp add: ball_Un)
qed simp

text \<open>All pipelines of a session work in one context. Whatever contexts the elements of its pipelines
  ask for, in any order and for any device, those that are given one are all given the same, which
  is the one that the session keeps.\<close>
theorem one_context_per_session:
  "\<exists>c. \<forall>g \<in> set (snd (run_contexts env new msgs None)). snd g = c \<and> fst (run_contexts env new msgs None) = Some c"
proof (induction msgs)
  case (Cons m msgs)
  obtain d msg where m: "m = (d, msg)" by (cases m)
  obtain st g1 where first: "bus_sync_handler env new d msg None = (st, g1)" by (cases "bus_sync_handler env new d msg None")
  show ?case
  proof (cases st)
    case None
    then have "g1 = []"
      using first by (cases msg) (auto simp: bus_sync_handler_def need_context_handler_def split: option.splits if_splits prod.splits)
    with first None Cons.IH show ?thesis by (simp add: m case_prod_unfold)
  next
    case (Some c)
    obtain st2 g2 where rest: "run_contexts env new msgs (Some c) = (st2, g2)" by (cases "run_contexts env new msgs (Some c)")
    have "\<forall>g \<in> set g1. snd g = c"
      using first Some by (cases msg) (auto simp: bus_sync_handler_def need_context_handler_def split: option.splits if_splits prod.splits)
    with run_contexts_kept [OF rest] show ?thesis
      by (intro exI [of _ c]) (auto simp: m first Some rest)
  qed
qed simp

end
