(* ===== verification/Config_Migration.thy ===== *)
theory Config_Migration
  imports App_State "HOL-Library.Char_ord" "HOL-Library.List_Lexorder"
begin

section \<open>The configuration file at the start: state/configTOML.cpp\<close>

text \<open>
  What \<open>load_or_default\<close> does before it reads the configuration: a file that is missing is made from
  the defaults, and one of a version before 7 is moved aside, replaced by the defaults, and given back
  its name, its identifier, its clients and its profiles. The file system is a map from names to
  texts; reading and printing TOML are parameters, as are the default text (a file of the repository
  that is compiled in) and the new identifier. What the defaults make of the result is in App_State.
\<close>

subsection \<open>TOML\<close>

text \<open>A table is its rows in the order of their keys (\<open>toml::table\<close> is a \<open>std::map\<close>). Floating point
  numbers, as the settings of a client have, and dates are values nobody looks into here: their type
  is a parameter. \<open>at\<close> throws when there is no such row.\<close>

datatype 'v toml =
    T_string string
  | T_integer int
  | T_floating 'v
  | T_date_time 'v
  | T_boolean bool
  | T_array "'v toml list"
  | T_table "(string \<times> 'v toml) list"

type_synonym 'v table = "(string \<times> 'v toml) list"

text \<open>\<open>Null_pointer\<close> is not thrown but undefined behaviour; the start ends with it, too.\<close>

datatype config_error = Bad_toml | No_such_key string | Null_pointer | Cannot_write | Bad_version

definition table_at :: "'v table \<Rightarrow> string \<Rightarrow> config_error + 'v toml" where
  "table_at t k = (case map_of t k of Some v \<Rightarrow> Inr v | None \<Rightarrow> Inl (No_such_key k))"

fun insert_or_assign :: "string \<Rightarrow> 'v toml \<Rightarrow> 'v table \<Rightarrow> 'v table" where
  "insert_or_assign k v [] = [(k, v)]"
| "insert_or_assign k v ((k', v') # t) =
     (if k < k' then (k, v) # (k', v') # t
      else if k = k' then (k, v) # t
      else (k', v') # insert_or_assign k v t)"

definition table_of :: "'v table \<Rightarrow> 'v table" where
  "table_of rows = fold (\<lambda>(k, v). insert_or_assign k v) rows []"

text \<open>\<open>new_cfg["profiles"].as_array()->at(0).as_table()\<close> and the access through the pointer.\<close>

definition first_profile :: "'v table \<Rightarrow> config_error + 'v toml" where
  "first_profile t =
     (case map_of t ''profiles'' of
        Some (T_array (T_table p # _)) \<Rightarrow> Inr (T_table p)
      | Some (T_array []) \<Rightarrow> Inl (No_such_key ''0'')
      | _ \<Rightarrow> Inl Null_pointer)"

subsection \<open>Files\<close>

type_synonym disk = "string \<Rightarrow> string option"

record 'v migration_env =
  tm_parse :: "string \<Rightarrow> 'v table option"
  tm_print :: "'v table \<Rightarrow> string"
  tm_default :: string
  tm_writable :: "string \<Rightarrow> bool"

text \<open>A stream that could not be opened swallows what is written.\<close>

definition default_text :: "'v migration_env \<Rightarrow> string \<Rightarrow> string" where
  "default_text env uuid =
     ''# A unique identifier for this host'' @ [CHR 0x0A] @ ''uuid = '' @ [CHR 0x22] @ uuid @ [CHR 0x22, CHR 0x0A] @ tm_default env"

definition create_default :: "'v migration_env \<Rightarrow> string \<Rightarrow> string \<Rightarrow> disk \<Rightarrow> disk" where
  "create_default env uuid source d = (if tm_writable env source then d(source \<mapsto> default_text env uuid) else d)"

definition parse_file :: "'v migration_env \<Rightarrow> disk \<Rightarrow> string \<Rightarrow> config_error + 'v table" where
  "parse_file env d source =
     (case d source of
        None \<Rightarrow> Inl Bad_toml
      | Some content \<Rightarrow> (case tm_parse env content of None \<Rightarrow> Inl Bad_toml | Some t \<Rightarrow> Inr t))"

text \<open>\<open>BaseConfig\<close>: the number is optional, but it must be one.\<close>

definition config_version :: "'v table \<Rightarrow> config_error + int" where
  "config_version t =
     (case map_of t ''config_version'' of
        None \<Rightarrow> Inr 0
      | Some (T_integer v) \<Rightarrow> Inr v
      | Some _ \<Rightarrow> Inl Bad_version)"

definition backup_name :: "string \<Rightarrow> int \<Rightarrow> string" where
  "backup_name source version = source @ ''.v'' @ dec_int version @ ''.old''"

subsection \<open>Migration\<close>

text \<open>The profiles of the new table: the old ones, or a profile of the user for the old applications.\<close>

definition migrated_profiles :: "'v table \<Rightarrow> 'v table \<Rightarrow> config_error + 'v table" where
  "migrated_profiles old_cfg new_cfg =
     (case map_of old_cfg ''profiles'' of
        Some p \<Rightarrow> Inr (insert_or_assign ''profiles'' p new_cfg)
      | None \<Rightarrow>
          (case map_of old_cfg ''apps'' of
             None \<Rightarrow> Inr new_cfg
           | Some apps \<Rightarrow>
               map_sum id (\<lambda>moonlight_profile.
                 insert_or_assign ''profiles''
                   (T_array [moonlight_profile,
                      T_table (table_of [(''id'', T_string ''user''), (''name'', T_string ''User''), (''apps'', apps)])]) new_cfg)
                 (first_profile new_cfg)))"

definition migrated :: "'v table \<Rightarrow> 'v table \<Rightarrow> config_error + 'v table" where
  "migrated old_cfg new_cfg =
     (case table_at old_cfg ''hostname'' of Inl e \<Rightarrow> Inl e | Inr hostname \<Rightarrow>
      case table_at old_cfg ''uuid'' of Inl e \<Rightarrow> Inl e | Inr uuid \<Rightarrow>
      case table_at old_cfg ''paired_clients'' of Inl e \<Rightarrow> Inl e | Inr paired_clients \<Rightarrow>
        migrated_profiles old_cfg
          (insert_or_assign ''paired_clients'' paired_clients
            (insert_or_assign ''uuid'' uuid (insert_or_assign ''hostname'' hostname new_cfg))))"

text \<open>The disk as it is when the step returns or throws.\<close>

definition migrate :: "'v migration_env \<Rightarrow> string \<Rightarrow> string \<Rightarrow> int \<Rightarrow> disk \<Rightarrow> disk \<times> config_error option" where
  "migrate env uuid source version d =
     (let backup = backup_name source version;
          d1 = (d(backup := d source))(source := None)
      in case parse_file env d1 backup of Inl e \<Rightarrow> (d1, Some e) | Inr old_cfg \<Rightarrow>
         let d2 = create_default env uuid source d1
         in case parse_file env d2 source of Inl e \<Rightarrow> (d2, Some e) | Inr new_cfg \<Rightarrow>
            (case migrated old_cfg new_cfg of
               Inl e \<Rightarrow> (d2, Some e)
             | Inr new_cfg' \<Rightarrow>
                 if tm_writable env source then (d2(source \<mapsto> tm_print env new_cfg'), None) else (d2, Some Cannot_write)))"

definition prepare_config :: "'v migration_env \<Rightarrow> string \<Rightarrow> string \<Rightarrow> disk \<Rightarrow> disk \<times> config_error option" where
  "prepare_config env uuid source d =
     (let d1 = (if d source = None then create_default env uuid source d else d)
      in case parse_file env d1 source of Inl e \<Rightarrow> (d1, Some e) | Inr base_cfg \<Rightarrow>
         (case config_version base_cfg of
            Inl e \<Rightarrow> (d1, Some e)
          | Inr version \<Rightarrow> if version \<le> 6 then migrate env uuid source version d1 else (d1, None)))"

subsection \<open>Loading\<close>

text \<open>The whole of \<open>load_or_default\<close>: the file is read a last time, now into the type of the
  configuration (\<open>typed\<close>, a reflection library), and merged with the defaults of the machine.\<close>

datatype load_error = Not_prepared config_error | Invalid_config | Not_loadable

definition load_or_default ::
  "'v migration_env \<Rightarrow> ('v table \<Rightarrow> WolfConfig option) \<Rightarrow> gst_env \<Rightarrow> string \<Rightarrow> string \<Rightarrow> disk \<Rightarrow> disk \<times> (load_error + Config)" where
  "load_or_default env typed g uuid source d =
     (let (d', e) = prepare_config env uuid source d
      in case e of Some err \<Rightarrow> (d', Inl (Not_prepared err)) | None \<Rightarrow>
         (case parse_file env d' source of Inl _ \<Rightarrow> (d', Inl Invalid_config) | Inr t \<Rightarrow>
            (case typed t of None \<Rightarrow> (d', Inl Invalid_config) | Some wc \<Rightarrow>
               (case load_config g wc of None \<Rightarrow> (d', Inl Not_loadable) | Some cfg \<Rightarrow> (d', Inr cfg)))))"

subsection \<open>Properties\<close>

text \<open>
  What the model relies on. A new identifier is hexadecimal digits and dashes (\<open>gen_uuid\<close>), and with
  such a one the compiled-in defaults are a table of version 7 with a profile. The parser delivers
  tables in the order of their keys; and the table that a migration puts together is read back from
  what is printed for it, provided that it is in that order (the printer cannot tell another).
\<close>

definition uuid_text :: "string \<Rightarrow> bool" where
  "uuid_text uuid \<longleftrightarrow> set uuid \<subseteq> set ''0123456789abcdef-''"

definition defaults_ok :: "'v migration_env \<Rightarrow> bool" where
  "defaults_ok env \<longleftrightarrow>
     (\<forall>uuid. uuid_text uuid \<longrightarrow>
        (\<exists>t p ps. tm_parse env (default_text env uuid) = Some t \<and> map_of t ''config_version'' = Some (T_integer 7) \<and>
          map_of t ''profiles'' = Some (T_array (T_table p # ps))))"

primrec key_order :: "'v toml \<Rightarrow> bool" where
  "key_order (T_string s) = True"
| "key_order (T_integer i) = True"
| "key_order (T_floating v) = True"
| "key_order (T_date_time v) = True"
| "key_order (T_boolean b) = True"
| "key_order (T_array xs) = list_all (\<lambda>b. b) (map key_order xs)"
| "key_order (T_table t) = (sorted_wrt (<) (map fst t) \<and> list_all snd (map (map_prod (\<lambda>k. k) key_order) t))"

declare key_order.simps [simp del]

lemma key_order_table:
  "key_order (T_table t) \<longleftrightarrow> sorted_wrt (<) (map fst t) \<and> (\<forall>(k, v) \<in> set t. key_order v)"
  by (auto simp: key_order.simps list_all_iff)

definition parses_in_order :: "'v migration_env \<Rightarrow> bool" where
  "parses_in_order env \<longleftrightarrow> (\<forall>content t. tm_parse env content = Some t \<longrightarrow> key_order (T_table t))"

definition reads_back :: "'v migration_env \<Rightarrow> string \<Rightarrow> 'v table \<Rightarrow> bool" where
  "reads_back env uuid old_cfg \<longleftrightarrow>
     (\<forall>new_cfg t. tm_parse env (default_text env uuid) = Some new_cfg \<longrightarrow> migrated old_cfg new_cfg = Inr t \<longrightarrow>
        key_order (T_table t) \<longrightarrow> tm_parse env (tm_print env t) = Some t)"

lemma map_of_insert [simp]: "map_of (insert_or_assign k v t) = (map_of t)(k \<mapsto> v)"
  by (induction k v t rule: insert_or_assign.induct) auto

lemma insert_keys: "fst ` set (insert_or_assign k v t) = insert k (fst ` set t)"
  by (induction k v t rule: insert_or_assign.induct) auto

lemma insert_key_order:
  "\<lbrakk>key_order (T_table t); key_order v\<rbrakk> \<Longrightarrow> key_order (T_table (insert_or_assign k v t))"
proof (induction k v t rule: insert_or_assign.induct)
  case (2 k v k' v' t)
  then have head: "\<forall>x \<in> fst ` set t. k' < x" by (auto simp: key_order_table)
  show ?case
  proof (cases "k' < k")
    case True
    then have "key_order (T_table (insert_or_assign k v t))" using 2 by (intro "2.IH") (auto simp: key_order_table)
    moreover have "\<forall>x \<in> fst ` set (insert_or_assign k v t). k' < x" using head True by (simp only: insert_keys) auto
    ultimately show ?thesis using 2(2) True by (auto simp: key_order_table)
  next
    case False
    with 2 show ?thesis using order_less_trans by (cases "k = k'") (auto simp: key_order_table)
  qed
qed (simp add: key_order_table)

lemma table_of_key_order:
  assumes "\<forall>(k, v) \<in> set rows. key_order v"
  shows "key_order (T_table (table_of rows))"
proof -
  have "key_order (T_table t) \<Longrightarrow> key_order (T_table (fold (\<lambda>(k, v). insert_or_assign k v) rows t))" for t
    using assms by (induction rows arbitrary: t) (auto simp: insert_key_order)
  from this [of "[]"] show ?thesis by (simp add: table_of_def key_order_table)
qed

lemma key_order_row: "\<lbrakk>key_order (T_table t); map_of t k = Some v\<rbrakk> \<Longrightarrow> key_order v"
  by (auto simp: key_order_table dest!: map_of_SomeD)

lemma migrated_key_order:
  assumes "key_order (T_table old_cfg)" "key_order (T_table new_cfg)" "migrated old_cfg new_cfg = Inr t"
  shows "key_order (T_table t)"
proof -
  note row = key_order_row [OF assms(1)]
  obtain h u c where rows: "map_of old_cfg ''hostname'' = Some h" "map_of old_cfg ''uuid'' = Some u" "map_of old_cfg ''paired_clients'' = Some c"
    using assms(3) by (auto simp: migrated_def table_at_def split: option.splits)
  let ?new = "insert_or_assign ''paired_clients'' c (insert_or_assign ''uuid'' u (insert_or_assign ''hostname'' h new_cfg))"
  have new: "key_order (T_table ?new)" using assms(2) row rows by (intro insert_key_order) auto
  have t: "migrated_profiles old_cfg ?new = Inr t" using assms(3) rows by (simp add: migrated_def table_at_def)
  show ?thesis
  proof (cases "map_of old_cfg ''profiles''")
    case (Some p)
    with t new row [OF Some] show ?thesis by (auto simp: migrated_profiles_def intro: insert_key_order)
  next
    case none: None
    show ?thesis
    proof (cases "map_of old_cfg ''apps''")
      case None
      with none t new show ?thesis by (simp add: migrated_profiles_def)
    next
      case (Some apps)
      let ?user = "T_table (table_of [(''id'', T_string ''user''), (''name'', T_string ''User''), (''apps'', apps)])"
      obtain p where p: "first_profile ?new = Inr p" "t = insert_or_assign ''profiles'' (T_array [p, ?user]) ?new"
        using none Some t by (cases "first_profile ?new") (auto simp: migrated_profiles_def)
      obtain q qs where q: "map_of ?new ''profiles'' = Some (T_array (T_table q # qs))" "p = T_table q"
        using p(1) by (auto simp: first_profile_def split: option.splits toml.splits list.splits if_splits)
      have "key_order p" using key_order_row [OF new q(1)] q(2) by (simp add: key_order.simps(6))
      moreover have "key_order ?user" using row [OF Some] by (intro table_of_key_order) (auto simp: key_order.simps(1))
      ultimately have "key_order (T_array [p, ?user])" by (simp add: key_order.simps(6))
      then show ?thesis unfolding p(2) by (intro insert_key_order new)
    qed
  qed
qed

lemma backup_differs: "backup_name source version \<noteq> source"
  by (simp add: backup_name_def)

lemma migrated_profiles_keeps:
  "\<lbrakk>migrated_profiles old_cfg new_cfg = Inr t; k \<noteq> ''profiles''\<rbrakk> \<Longrightarrow> map_of t k = map_of new_cfg k"
  by (auto simp: migrated_profiles_def split: option.splits)


lemma default_parsed:
  assumes "defaults_ok env" "uuid_text uuid"
  obtains t p ps where "tm_parse env (default_text env uuid) = Some t" "map_of t ''config_version'' = Some (T_integer 7)"
    "map_of t ''profiles'' = Some (T_array (T_table p # ps))"
  using assms unfolding defaults_ok_def by metis

text \<open>A file of version 7 is left alone.\<close>

lemma current_file_kept:
  assumes "d source = Some content" "tm_parse env content = Some t" "map_of t ''config_version'' = Some (T_integer 7)"
  shows "prepare_config env uuid source d = (d, None)"
  using assms by (simp add: prepare_config_def parse_file_def config_version_def)

definition kept :: "'v table \<Rightarrow> 'v table \<Rightarrow> bool" where
  "kept old_cfg t \<longleftrightarrow>
     map_of t ''hostname'' = map_of old_cfg ''hostname'' \<and> map_of t ''uuid'' = map_of old_cfg ''uuid'' \<and>
     map_of t ''paired_clients'' = map_of old_cfg ''paired_clients'' \<and> map_of t ''config_version'' = Some (T_integer 7) \<and>
     (case map_of old_cfg ''profiles'' of
        Some p \<Rightarrow> map_of t ''profiles'' = Some p
      | None \<Rightarrow>
          (case map_of old_cfg ''apps'' of
             None \<Rightarrow> True
           | Some apps \<Rightarrow> \<exists>p. map_of t ''profiles'' =
               Some (T_array [p, T_table (table_of [(''id'', T_string ''user''), (''name'', T_string ''User''), (''apps'', apps)])])))"

lemma migrated_kept:
  assumes "map_of old_cfg ''hostname'' = Some h" "map_of old_cfg ''uuid'' = Some u" "map_of old_cfg ''paired_clients'' = Some c"
    "map_of new_cfg ''config_version'' = Some (T_integer 7)" "map_of new_cfg ''profiles'' = Some (T_array (T_table p # ps))"
  shows "\<exists>t. migrated old_cfg new_cfg = Inr t \<and> kept old_cfg t"
proof -
  let ?new = "insert_or_assign ''paired_clients'' c (insert_or_assign ''uuid'' u (insert_or_assign ''hostname'' h new_cfg))"
  have m: "migrated old_cfg new_cfg = migrated_profiles old_cfg ?new"
    by (simp add: migrated_def table_at_def assms(1-3))
  have "\<exists>t. migrated_profiles old_cfg ?new = Inr t"
    by (cases "map_of old_cfg ''profiles''"; cases "map_of old_cfg ''apps''")
      (simp_all add: migrated_profiles_def first_profile_def assms(5))
  then obtain t where t: "migrated_profiles old_cfg ?new = Inr t" by blast
  have "map_of t ''hostname'' = Some h" "map_of t ''uuid'' = Some u" "map_of t ''paired_clients'' = Some c"
    "map_of t ''config_version'' = Some (T_integer 7)"
    using assms(4) by (simp_all add: migrated_profiles_keeps [OF t])
  moreover have "case map_of old_cfg ''profiles'' of
        Some p \<Rightarrow> map_of t ''profiles'' = Some p
      | None \<Rightarrow>
          (case map_of old_cfg ''apps'' of
             None \<Rightarrow> True
           | Some apps \<Rightarrow> \<exists>p. map_of t ''profiles'' =
               Some (T_array [p, T_table (table_of [(''id'', T_string ''user''), (''name'', T_string ''User''), (''apps'', apps)])]))"
    using t assms(5) by (auto simp: migrated_profiles_def first_profile_def split: option.splits)
  ultimately show ?thesis using m t assms(1-3) by (auto simp: kept_def)
qed

text \<open>C19: A migration loses nothing that it carries. A file of an old version that has a name, an
  identifier and clients becomes a file of version 7 with the same ones and its profiles (or one for
  its applications), the old text stays beside it, no other file changes, and the next start leaves
  the file alone.\<close>
theorem migration_keeps_clients:
  assumes "defaults_ok env" and "uuid_text new_uuid" and "parses_in_order env" and "reads_back env new_uuid old_cfg" and "tm_writable env source" and "d source = Some content"
    and "tm_parse env content = Some old_cfg" and "config_version old_cfg = Inr v" and "v \<le> 6"
    and "map_of old_cfg ''hostname'' = Some h" and "map_of old_cfg ''uuid'' = Some u"
    and "map_of old_cfg ''paired_clients'' = Some c"
  shows "\<exists>t d'. prepare_config env new_uuid source d = (d', None) \<and> kept old_cfg t \<and>
    d' = d(backup_name source v \<mapsto> content, source \<mapsto> tm_print env t) \<and>
    prepare_config env other_uuid source d' = (d', None)"
proof -
  obtain new_cfg p ps where new: "tm_parse env (default_text env new_uuid) = Some new_cfg"
    "map_of new_cfg ''config_version'' = Some (T_integer 7)" "map_of new_cfg ''profiles'' = Some (T_array (T_table p # ps))"
    by (rule default_parsed [OF assms(1,2)])
  obtain t where t: "migrated old_cfg new_cfg = Inr t" "kept old_cfg t"
    using migrated_kept [OF assms(10-12) new(2,3)] by blast
  let ?d' = "d(backup_name source v \<mapsto> content, source \<mapsto> tm_print env t)"
  have "prepare_config env new_uuid source d = migrate env new_uuid source v d"
    using assms(6-9) by (simp add: prepare_config_def parse_file_def)
  also have "\<dots> = (?d', None)"
    using assms(5-7) new(1) t(1) backup_differs [of source v]
    by (simp add: migrate_def parse_file_def create_default_def Let_def fun_upd_twist)
  finally have first: "prepare_config env new_uuid source d = (?d', None)" .
  have "key_order (T_table t)"
    by (rule migrated_key_order [OF _ _ t(1)]) (use assms(3,7) new(1) in \<open>simp_all add: parses_in_order_def\<close>)
  then have "tm_parse env (tm_print env t) = Some t" using assms(4) new(1) t(1) by (auto simp: reads_back_def)
  moreover have "map_of t ''config_version'' = Some (T_integer 7)" using t(2) by (simp add: kept_def)
  ultimately have "prepare_config env other_uuid source ?d' = (?d', None)"
    by (intro current_file_kept) simp_all
  with first t(2) show ?thesis by blast
qed

subsection \<open>A migration on concrete files\<close>

definition demo_old :: "nat table" where
  "demo_old = [(''apps'', T_array [T_table [(''title'', T_string ''Steam'')]]), (''hostname'', T_string ''den''),
     (''paired_clients'', T_array [T_table [(''client_cert'', T_string ''pem''),
        (''settings'', T_table [(''mouse_acceleration'', T_floating 15)])]]), (''uuid'', T_string ''42'')]"

definition demo_defaults :: "nat table" where
  "demo_defaults = [(''config_version'', T_integer 7), (''hostname'', T_string ''Wolf''),
     (''profiles'', T_array [T_table [(''id'', T_string ''moonlight-profile-id'')]])]"

definition demo_migrated :: "nat table" where
  "demo_migrated = (case migrated demo_old demo_defaults of Inr t \<Rightarrow> t | Inl _ \<Rightarrow> [])"

definition demo_migration :: "nat migration_env" where
  "demo_migration = \<lparr>tm_parse = (\<lambda>content. if content = ''v0'' then Some demo_old
        else if content = ''v7'' then Some demo_migrated else Some demo_defaults),
     tm_print = (\<lambda>_. ''v7''), tm_default = ''profiles'', tm_writable = (\<lambda>_. True)\<rparr>"

lemma default_text_starts: "default_text env uuid \<noteq> CHR ''v'' # cs"
  by (simp add: default_text_def)

lemma demo_reads:
  "tm_parse demo_migration (default_text env uuid) = Some demo_defaults" "tm_parse demo_migration ''v0'' = Some demo_old"
  "tm_parse demo_migration ''v7'' = Some demo_migrated" "tm_print demo_migration t = ''v7''" "tm_writable demo_migration source"
  by (simp_all add: demo_migration_def default_text_starts)

lemma demo_defaults_ok: "defaults_ok demo_migration"
  by (simp add: defaults_ok_def demo_reads) (simp add: demo_defaults_def)

lemma demo_reads_back: "reads_back demo_migration uuid demo_old"
  by (simp add: reads_back_def demo_reads demo_migrated_def)

lemma demo_in_order: "parses_in_order demo_migration"
proof -
  have old: "key_order (T_table demo_old)" and new: "key_order (T_table demo_defaults)"
    by (simp_all add: demo_old_def demo_defaults_def key_order.simps less_list_code less_char_def)
  have "\<exists>t. migrated demo_old demo_defaults = Inr t"
    by (simp add: demo_old_def demo_defaults_def migrated_def table_at_def migrated_profiles_def first_profile_def)
  then have "key_order (T_table demo_migrated)"
    using migrated_key_order [OF old new] by (auto simp: demo_migrated_def)
  with old new show ?thesis by (auto simp: parses_in_order_def demo_migration_def split: if_splits)
qed

lemma migration_keeps_clients_witness:
  "\<exists>t d'. prepare_config demo_migration ''43'' ''cfg.toml'' [''cfg.toml'' \<mapsto> ''v0''] = (d', None) \<and> kept demo_old t \<and>
    d' = [''cfg.toml'' \<mapsto> ''v0'', backup_name ''cfg.toml'' 0 \<mapsto> ''v0'', ''cfg.toml'' \<mapsto> tm_print demo_migration t] \<and>
    prepare_config demo_migration ''44'' ''cfg.toml'' d' = (d', None)"
  by (rule migration_keeps_clients [where h = "T_string ''den''" and u = "T_string ''42''"
        and c = "T_array [T_table [(''client_cert'', T_string ''pem''), (''settings'', T_table [(''mouse_acceleration'', T_floating 15)])]]"
        and v = 0 and content = "''v0''"])
    (simp_all add: demo_defaults_ok demo_in_order demo_reads_back demo_reads config_version_def uuid_text_def, simp_all add: demo_old_def)

text \<open>A file without clients is given up half-way: the start throws after the defaults are in place,
  and the next start takes them, with a new identifier, for the configuration.\<close>

lemma migration_without_clients:
  assumes "defaults_ok env" "uuid_text new_uuid" "tm_writable env source" "d source = Some content" "tm_parse env content = Some old_cfg"
    "config_version old_cfg = Inr v" "v \<le> 6" "map_of old_cfg ''hostname'' = Some h" "map_of old_cfg ''uuid'' = Some u"
    "map_of old_cfg ''paired_clients'' = None"
  shows "\<exists>d'. prepare_config env new_uuid source d = (d', Some (No_such_key ''paired_clients'')) \<and>
    d' source = Some (default_text env new_uuid) \<and> prepare_config env other_uuid source d' = (d', None)"
proof -
  obtain new_cfg p ps where new: "tm_parse env (default_text env new_uuid) = Some new_cfg"
    "map_of new_cfg ''config_version'' = Some (T_integer 7)"
    by (rule default_parsed [OF assms(1,2)])
  let ?d' = "d(backup_name source v \<mapsto> content, source \<mapsto> default_text env new_uuid)"
  have "migrated old_cfg new_cfg = Inl (No_such_key ''paired_clients'')"
    by (simp add: migrated_def table_at_def assms(8-10))
  then have "prepare_config env new_uuid source d = (?d', Some (No_such_key ''paired_clients''))"
    using assms(3-7) new(1) backup_differs [of source v]
    by (simp add: prepare_config_def migrate_def parse_file_def create_default_def Let_def fun_upd_twist)
  moreover have "prepare_config env other_uuid source ?d' = (?d', None)"
    using new by (intro current_file_kept) simp_all
  ultimately show ?thesis by auto
qed

subsection \<open>The clients after a migration\<close>

lemma load_config_keeps:
  "load_config g wc = Some cfg \<Longrightarrow> cfg_paired_clients cfg = wc_paired_clients wc \<and> cfg_uuid cfg = wc_uuid wc \<and>
     cfg_hostname cfg = wc_hostname wc"
  by (auto simp: load_config_def Let_def split: option.splits prod.splits)

lemma load_or_default_Inr:
  assumes "load_or_default env typed g uuid source d = (d', Inr cfg)"
  obtains t wc where "prepare_config env uuid source d = (d', None)" "parse_file env d' source = Inr t" "typed t = Some wc"
    "cfg_paired_clients cfg = wc_paired_clients wc" "cfg_uuid cfg = wc_uuid wc" "cfg_hostname cfg = wc_hostname wc"
  using assms load_config_keeps
  by (force simp: load_or_default_def Let_def split: prod.splits option.splits sum.splits)

text \<open>A reader that takes the clients from their row gives a start that trusts exactly the clients of
  the file, and leaves the disk as the preparation does.\<close>

lemma loaded_clients:
  assumes "load_or_default env typed g uuid source d = (d', Inr cfg)"
    and "\<And>t wc. typed t = Some wc \<Longrightarrow> wc_paired_clients wc = clients_of (map_of t ''paired_clients'')"
  shows "\<exists>t. parse_file env d' source = Inr t \<and> cfg_paired_clients cfg = clients_of (map_of t ''paired_clients'')"
  using assms(1) by (rule load_or_default_Inr) (use assms(2) in force)

lemma clients_survive_migration:
  assumes "load_or_default env typed g uuid source d = (d', Inr cfg)"
    and "\<And>t wc. typed t = Some wc \<Longrightarrow> wc_paired_clients wc = clients_of (map_of t ''paired_clients'')"
    and "prepare_config env uuid source d = (d', None)" and "d' source = Some (tm_print env t)"
    and "tm_parse env (tm_print env t) = Some t" and "kept old_cfg t"
  shows "cfg_paired_clients cfg = clients_of (map_of old_cfg ''paired_clients'')"
  using loaded_clients [where clients_of = clients_of, OF assms(1,2)] assms(4-6) by (auto simp: parse_file_def kept_def)

end
