(* ===== verification/Spec2Isabelle.thy ===== *)
theory Spec2Isabelle
  imports Helpers Control_Server App_State Pairing Rest Rtsp_Parser Rtsp_Server Video_Client Audio_RTP Lobbies Api_Props
    Streaming Wayland Start_Up Uinput Host_Identity Video_Context Config_Migration
begin

text \<open>
  A model of Wolf, a game-streaming server for Moonlight clients (src/src), and the theorems about it.

  The program. A client finds the server over HTTP (rest/), pairs with it in four phases that a PIN
  completes (moonlight.cpp), launches an application over HTTPS, negotiates a stream over RTSP
  (rtsp/), and then has three connections: an encrypted control channel (control/) that carries its
  input, and two UDP streams of video and audio (gst-plugin/, streaming/, rtp/). Applications run in
  containers or as processes (runners/, core docker.cpp); what they show and play comes from a virtual
  Wayland display and a virtual sink. Users meet in lobbies (sessions/lobbies.cpp), and a local agent
  drives everything over a unix socket (api/). The parts talk through an event bus whose handlers run
  one after the other before \<open>fire_event\<close> returns, and share atoms: the running sessions, the lobbies,
  the paired clients, the cache of pairings.

  The theories, in the order in which they build on each other, and the code that each models
  (paths below src/src/moonlight-server unless another folder is named):

    Prelude         machine integers, memory layout (the locale \<open>wire_format\<close>), decimal text
    Helpers         core helpers/utils.hpp and tsqueue.hpp (the locale \<open>fifo\<close>, base64, safe paths)
    Crypto          moonlight-protocol crypto/: wrappers over OpenSSL, hexadecimal text
    Host_Identity   moonlight-protocol crypto/x509.cpp and the start of wolf.cpp: key and certificate
    Control_Proto   moonlight-protocol moonlight/control.hpp: packets and their envelope
    Events          events/events.hpp, state/serialised_config.hpp: the shared data, the bus messages
    Runner_Config   runners/*.hpp, core docker.hpp and docker/formatters.hpp
    App_State       state/: sessions (the locale \<open>keyed_vector\<close>), clients, configuration and start-up
    Config_Migration  state/configTOML.cpp: the file at the start, migrations, the whole load
    Input_Handler   control/input_handler.cpp, platforms/input_linux.cpp
    Control_Server  control/control.cpp
    Moonlight_Http  the XML of moonlight.cpp and rest/helpers.hpp
    Pairing         the pairing of rest/endpoints.hpp and moonlight.cpp
    Rest            the other endpoints and the dispatch of both servers (rest/)
    Rtsp            rtsp/commands.hpp, a connection of rtsp/net.hpp, to_string of parser.hpp
    Rtsp_Parser     the grammar of moonlight-protocol rtsp/parser.hpp and parse
    Rtsp_Server     the accept loop and the handlers of all connections (rtsp/net.hpp)
    Gst_Utils       gst-plugin/utils.hpp
    Video_RTP       gst-plugin/video.hpp and the video element
    Video_Client    the client of the video stream: a specification, with the proofs against it
    Audio_RTP       gst-plugin/audio.hpp and the audio element
    Sessions        sessions/: the handlers of streams and lobbies
    Lobbies         an abstract specification of the lobbies and the refinement proof
    Api, Api_Props  api/ and events/reflectors.hpp, and what the agent can do to the lobbies
    Udp             rtp/udp-ping.cpp, core batched_send.cpp, the sink of streaming/streaming.cpp
    Batch_Layout    core batched_send.hpp and batched_send.cpp: the messages, byte by byte
    Streaming       streaming/streaming.cpp: the pipelines that run
    Video_Context   gst-video-context/ and the messages of streaming/streaming.cpp
    Docker          core docker.cpp and json_formatters.hpp: the client of the daemon
    Runners         runners/docker.cpp and runners/process.cpp
    Fake_Udev       src/fake-udev: the program that announces devices inside a container
    Wayland         core virtual-display/gst-wayland-display.cpp
    Pulse_Router    core pulse.cpp and audio/pulse_router.cpp
    Hardware        platforms/hw_linux.cpp and introspect/introspect.cpp
    Uinput          core platforms/linux/uinput: what udev is told of the virtual devices
    Wolf            wolf.cpp: the host, the sound server and the orderly end
    Start_Up        wolf.cpp: the order of the start; exceptions/exceptions.h; the life of a pipeline
                    (streaming/streaming.hpp, core gstreamer.hpp); nanors/rswrapper.c

  How the code is translated. A struct is a record with the fields of the source (prefixed, because
  selectors are global), an enumeration a datatype, a fixed-width integer a word where it can wrap, a
  \<open>std::string\<close> a list of characters, a buffer a list of bytes, a \<open>std::map\<close> its rows in the order of
  the keys. An exception, a failed allocation of a promise, a read or write out of bounds is a value
  of a sum or option type, never an unspecified result; where an exception is caught and undefined
  behaviour is not (the handlers of the RTSP server), they are different values. What a handler does outside of its state
  (a packet, an event, a request, a file) is appended to a trace. Objects that are shared by copies
  of a value are in stores: one keyed by the id of a session, one by the address in a lobby.

  The groups of theorems. Round trips of the control envelope, of video frames, of the runner
  configuration, of the messages to fake-udev, of the identity of the host over restarts and of an
  old configuration through its migration, and of RTSP messages through their grammar; what a client
  may rely on in the streams (numbers, groups of error correction, order, completeness and pace of
  the datagrams of a frame); isolation: input, control messages, RTSP connections, pipelines and runs
  act on their own session, client or container only; authorisation: no control message, HTTPS
  request or paired client without the exchange that grants it, no lobby without its PIN, no title
  that leads a session out of the folder of its client; the invariants of lobbies by refinement of a small
  specification, carried over to every request of the agent; the sound router, proved right in every
  reachable state without outstanding answers; ends: the bus returns, a shut-down leaves
  nothing when there is at most one lobby and one session (with more it reads freed memory), keys do
  not stay pressed. Flaws that came up are theorems where they have a precise statement, and
  findings of the manifest.

  Bounds and fuel. Nested events of the bus take fuel; 4 is enough from every reachable state
  (\<open>bus_always_returns\<close>): a stop of a stream leaves a lobby, which stops it, which unplugs devices. The
  creation of a container, which may try again for ever, is a partial function: where it returns and
  where it does not is proved. Reed-Solomon needs its parity of the right number and length (\<open>rs_shape\<close>); the
  block arithmetic of floats is exact for operands below 2^24 (\<open>exact_ceil\<close>). The cryptographic laws are
  those that OpenSSL documents (decryption inverts encryption, a signature verifies under its own
  key); no secrecy is claimed. The bytes of padding that a struct leaves unset are a parameter.

  Assumptions on concurrency. A handler of the bus, of a connection or of a loop is one step; the
  interleavings of steps are explicit (lists of events, step relations), those within a step are not
  modelled. The handlers of one event run in the order in which they were registered, which is a
  parameter where the order matters. A pipeline starts at once.

  Parameters, being outside of src: OpenSSL, ENet, boost (asio, JSON, property trees), GStreamer,
  cpp-peglib (the interpreter of the RTSP grammar, held to its documentation), the TOML and
  reflection libraries, inputtino, the Docker daemon, the PulseAudio server (which answers in order),
  the kernel (files, sockets, tables), the clock and the random numbers. Each theory says which it
  takes.

  Not modelled: code that only calls those libraries and keeps no state of its own. The servers of
  rest/custom-https.cpp and the registration of routes, the wiring of GStreamer elements and the
  boilerplate of the GObject elements, get_dma_caps, the stubs of CUDA headers, the compilation of
  nanors for each SIMD level, logging (logger.hpp), the text of the API schema (openapi.cpp), the
  empty platform files, mDNS, and how long anything takes, but for the pacing of frames.
\<close>

end
